(* ===== verification/Prelude.thy ===== *)
theory Prelude
  imports Main "HOL-Library.AList"
begin

text \<open>
  Generic material shared by every component.  A Go function that returns \<open>(value, error)\<close> is a
  value of the sum type \<open>'e + 'a\<close>: \<open>Inl\<close> is a non-nil error, \<open>Inr\<close> the value.  A Go loop that
  looks for the first element satisfying a test through a pointer and updates it in place is
  \<open>upd_first\<close>.  The \<open>named_theorems\<close> below collect the facts that the component proofs share.
\<close>

named_theorems go_defs \<open>constants of the Go source (enumeration strings, limits)\<close>
named_theorems frame_simps \<open>fields that an operation leaves alone\<close>

section \<open>Errors as values\<close>

fun is_ok :: "'e + 'a \<Rightarrow> bool" where
  "is_ok (Inl e) = False"
| "is_ok (Inr x) = True"

definition bind_sum :: "'e + 'a \<Rightarrow> ('a \<Rightarrow> 'e + 'b) \<Rightarrow> 'e + 'b" where
  "bind_sum r f = (case r of Inl e \<Rightarrow> Inl e | Inr x \<Rightarrow> f x)"

lemma bind_sum_simps [simp]:
  "bind_sum (Inl e) f = Inl e"
  "bind_sum (Inr x) f = f x"
  by (simp_all add: bind_sum_def)

lemma bind_sum_eq_Inr: "bind_sum r f = Inr y \<longleftrightarrow> (\<exists>x. r = Inr x \<and> f x = Inr y)"
  by (cases r) simp_all

section \<open>Finding and updating the first match\<close>

text \<open>
  \<open>upd_first f xs\<close> models
  \<^verbatim>\<open>for i := range xs { p := &xs[i]; if !match(p) { continue }; ...update *p...; return r }\<close>:
  \<open>f x = None\<close> is the \<open>continue\<close>, \<open>f x = Some (r, x')\<close> the update and the value returned.
\<close>

fun upd_first :: "('a \<Rightarrow> ('r \<times> 'a) option) \<Rightarrow> 'a list \<Rightarrow> ('r \<times> 'a list) option" where
  "upd_first f [] = None"
| "upd_first f (x # xs) =
     (case f x of
        Some (r, x') \<Rightarrow> Some (r, x' # xs)
      | None \<Rightarrow> (case upd_first f xs of None \<Rightarrow> None | Some (r, xs') \<Rightarrow> Some (r, x # xs')))"

lemma upd_first_None: "upd_first f xs = None \<longleftrightarrow> (\<forall>x \<in> set xs. f x = None)"
proof (induction xs)
  case Nil
  then show ?case by simp
next
  case (Cons a xs)
  then show ?case by (cases "f a"; cases "upd_first f xs") auto
qed

lemma upd_first_SomeE:
  assumes "upd_first f xs = Some (r, xs')"
  obtains ys x x' zs where "xs = ys @ x # zs" "xs' = ys @ x' # zs" "f x = Some (r, x')"
    "\<forall>y \<in> set ys. f y = None"
  using assms
proof (induction xs arbitrary: xs' thesis)
  case Nil
  then show ?case by simp
next
  case (Cons a xs)
  show ?case
  proof (cases "f a")
    case None
    with Cons.prems(2) obtain ws where ws: "upd_first f xs = Some (r, ws)" "xs' = a # ws"
      by (auto split: option.splits)
    from Cons.IH [OF _ ws(1)] obtain ys x x' zs where
      "xs = ys @ x # zs" "ws = ys @ x' # zs" "f x = Some (r, x')" "\<forall>y \<in> set ys. f y = None"
      by blast
    then show ?thesis
      using None ws(2) by (intro Cons.prems(1) [of "a # ys" x zs x']) auto
  next
    case (Some p)
    then show ?thesis
      using Cons.prems(2) by (cases p) (intro Cons.prems(1) [of "[]" a xs "snd p"], auto)
  qed
qed

lemma upd_first_append:
  "\<forall>y \<in> set ys. f y = None \<Longrightarrow>
   upd_first f (ys @ xs) =
     (case upd_first f xs of None \<Rightarrow> None | Some (r, xs') \<Rightarrow> Some (r, ys @ xs'))"
  by (induction ys) (auto split: option.splits)

lemma length_upd_first: "upd_first f xs = Some (r, xs') \<Longrightarrow> length xs' = length xs"
  by (erule upd_first_SomeE) simp

text \<open>A projection that every update keeps is kept by the whole list.\<close>

lemma upd_first_map_eq:
  assumes "upd_first f xs = Some (r, xs')"
    and "\<And>x r x'. x \<in> set xs \<Longrightarrow> f x = Some (r, x') \<Longrightarrow> g x' = g x"
  shows "map g xs' = map g xs"
  using assms(1) by (rule upd_first_SomeE) (use assms(2) in auto)

lemma upd_first_set:
  assumes "upd_first f xs = Some (r, xs')" and "y \<in> set xs'"
  shows "y \<in> set xs \<or> (\<exists>x \<in> set xs. f x = Some (r, y))"
  using assms(1) by (rule upd_first_SomeE) (use assms(2) in auto)

text \<open>Writing back an element with the same projection.\<close>

lemma map_list_update_same:
  "k < length xs \<Longrightarrow> f y = f (xs ! k) \<Longrightarrow> map f (xs[k := y]) = map f xs"
  by (metis list_update_id map_update)

text \<open>The search through the elements of a list, as a Go loop with an early return.\<close>

fun find_some :: "('a \<Rightarrow> 'b option) \<Rightarrow> 'a list \<Rightarrow> 'b option" where
  "find_some f [] = None"
| "find_some f (x # xs) = (case f x of Some r \<Rightarrow> Some r | None \<Rightarrow> find_some f xs)"

lemma find_some_None: "find_some f xs = None \<longleftrightarrow> (\<forall>x \<in> set xs. f x = None)"
  by (induction xs) (auto split: option.splits)

lemma find_some_SomeD: "find_some f xs = Some r \<Longrightarrow> \<exists>x \<in> set xs. f x = Some r"
  by (induction xs) (auto split: option.splits)

lemma find_some_unique:
  assumes "x \<in> set xs" "f x = Some r" "\<forall>y \<in> set xs. f y = None \<or> f y = Some r"
  shows "find_some f xs = Some r"
proof -
  have "find_some f xs \<noteq> None" using assms(1,2) by (auto simp: find_some_None)
  then obtain s where s: "find_some f xs = Some s" by blast
  then obtain y where "y \<in> set xs" "f y = Some s" using find_some_SomeD by metis
  with assms(3) s show ?thesis by auto
qed

lemma find_upd_first:
  "map_option fst (upd_first f xs) = find_some (\<lambda>x. map_option fst (f x)) xs"
proof (induction xs)
  case Nil
  then show ?case by simp
next
  case (Cons a xs)
  then show ?case by (cases "f a"; cases "upd_first f xs") auto
qed

section \<open>Association lists standing for Go maps\<close>

text \<open>
  A Go map whose iteration order can be observed is an association list: its order is the order in
  which one \<open>range\<close> loop visits the map, which Go leaves open.  Writes go through
  \<open>AList.update\<close>, so no key occurs twice.
\<close>

lemma alist_update_new: "k \<notin> fst ` set al \<Longrightarrow> AList.update k v al = al @ [(k, v)]"
  by (induction al) auto

lemma alist_update_nonempty [simp]: "AList.update k v al \<noteq> []"
  by (cases al) auto

lemma alist_update_split:
  "k \<notin> fst ` set ys \<Longrightarrow> AList.update k v (ys @ (k, w) # zs) = ys @ (k, v) # zs"
  by (induction ys) auto

lemma set_alist_update: "set (AList.update k v al) \<subseteq> insert (k, v) (set al)"
  by (induction al) auto

section \<open>64-bit signed integers\<close>

text \<open>
  A Go \<open>int\<close> (or \<open>int64\<close>) is a mathematical integer here.  Where an operation of the source can
  leave the 64-bit range, its result is wrapped with \<open>wrap64\<close>.
\<close>

definition max_int64 :: int where "max_int64 = 9223372036854775807"
definition min_int64 :: int where "min_int64 = - 9223372036854775808"

definition wrap64 :: "int \<Rightarrow> int" where
  "wrap64 x = (x + 9223372036854775808) mod 18446744073709551616 - 9223372036854775808"

lemma wrap64_id: "min_int64 \<le> x \<Longrightarrow> x \<le> max_int64 \<Longrightarrow> wrap64 x = x"
  by (simp add: wrap64_def min_int64_def max_int64_def mod_pos_pos_trivial)

lemma wrap64_range: "min_int64 \<le> wrap64 x \<and> wrap64 x \<le> max_int64"
proof -
  have "0 \<le> (x + 9223372036854775808) mod 18446744073709551616"
    and "(x + 9223372036854775808) mod 18446744073709551616 < (18446744073709551616::int)"
    by simp_all
  then show ?thesis by (simp add: wrap64_def min_int64_def max_int64_def)
qed

end
