(* ===== verification/GoUnicode.thy ===== *)
theory GoUnicode
  imports Main
begin

text \<open>
  The parts of Go's package \<open>unicode\<close> that the program calls, as tables over code points
  (\<open>int\<close>): \<open>ToLower\<close>, \<open>ToUpper\<close> (the simple case mappings of \<open>CaseRanges\<close>, Unicode 15) and
  \<open>IsDigit\<close> (category Nd).  An entry \<open>(lo, hi, step, delta)\<close> maps every \<open>step\<close>-th code point from
  \<open>lo\<close> to \<open>hi\<close> to itself plus \<open>delta\<close>.
\<close>

definition lower_ranges :: "(int \<times> int \<times> int \<times> int) list" where
  "lower_ranges = [
    (0x41, 0x5A, 1, 32), (0xC0, 0xD6, 1, 32), (0xD8, 0xDE, 1, 32),
    (0x100, 0x12E, 2, 1), (0x130, 0x130, 1, -199), (0x132, 0x136, 2, 1),
    (0x139, 0x147, 2, 1), (0x14A, 0x176, 2, 1), (0x178, 0x178, 1, -121),
    (0x179, 0x17D, 2, 1), (0x181, 0x181, 1, 210), (0x182, 0x184, 2, 1),
    (0x186, 0x186, 1, 206), (0x187, 0x187, 1, 1), (0x189, 0x18A, 1, 205),
    (0x18B, 0x18B, 1, 1), (0x18E, 0x18E, 1, 79), (0x18F, 0x18F, 1, 202),
    (0x190, 0x190, 1, 203), (0x191, 0x191, 1, 1), (0x193, 0x193, 1, 205),
    (0x194, 0x194, 1, 207), (0x196, 0x196, 1, 211), (0x197, 0x197, 1, 209),
    (0x198, 0x198, 1, 1), (0x19C, 0x19C, 1, 211), (0x19D, 0x19D, 1, 213),
    (0x19F, 0x19F, 1, 214), (0x1A0, 0x1A4, 2, 1), (0x1A6, 0x1A6, 1, 218),
    (0x1A7, 0x1A7, 1, 1), (0x1A9, 0x1A9, 1, 218), (0x1AC, 0x1AC, 1, 1),
    (0x1AE, 0x1AE, 1, 218), (0x1AF, 0x1AF, 1, 1), (0x1B1, 0x1B2, 1, 217),
    (0x1B3, 0x1B5, 2, 1), (0x1B7, 0x1B7, 1, 219), (0x1B8, 0x1B8, 1, 1),
    (0x1BC, 0x1BC, 1, 1), (0x1C4, 0x1C4, 1, 2), (0x1C5, 0x1C5, 1, 1),
    (0x1C7, 0x1C7, 1, 2), (0x1C8, 0x1C8, 1, 1), (0x1CA, 0x1CA, 1, 2),
    (0x1CB, 0x1DB, 2, 1), (0x1DE, 0x1EE, 2, 1), (0x1F1, 0x1F1, 1, 2),
    (0x1F2, 0x1F4, 2, 1), (0x1F6, 0x1F6, 1, -97), (0x1F7, 0x1F7, 1, -56),
    (0x1F8, 0x21E, 2, 1), (0x220, 0x220, 1, -130), (0x222, 0x232, 2, 1),
    (0x23A, 0x23A, 1, 10795), (0x23B, 0x23B, 1, 1), (0x23D, 0x23D, 1, -163),
    (0x23E, 0x23E, 1, 10792), (0x241, 0x241, 1, 1), (0x243, 0x243, 1, -195),
    (0x244, 0x244, 1, 69), (0x245, 0x245, 1, 71), (0x246, 0x24E, 2, 1),
    (0x370, 0x372, 2, 1), (0x376, 0x376, 1, 1), (0x37F, 0x37F, 1, 116),
    (0x386, 0x386, 1, 38), (0x388, 0x38A, 1, 37), (0x38C, 0x38C, 1, 64),
    (0x38E, 0x38F, 1, 63), (0x391, 0x3A1, 1, 32), (0x3A3, 0x3AB, 1, 32),
    (0x3CF, 0x3CF, 1, 8), (0x3D8, 0x3EE, 2, 1), (0x3F4, 0x3F4, 1, -60),
    (0x3F7, 0x3F7, 1, 1), (0x3F9, 0x3F9, 1, -7), (0x3FA, 0x3FA, 1, 1),
    (0x3FD, 0x3FF, 1, -130), (0x400, 0x40F, 1, 80), (0x410, 0x42F, 1, 32),
    (0x460, 0x480, 2, 1), (0x48A, 0x4BE, 2, 1), (0x4C0, 0x4C0, 1, 15),
    (0x4C1, 0x4CD, 2, 1), (0x4D0, 0x52E, 2, 1), (0x531, 0x556, 1, 48),
    (0x10A0, 0x10C5, 1, 7264), (0x10C7, 0x10C7, 1, 7264), (0x10CD, 0x10CD, 1, 7264),
    (0x13A0, 0x13EF, 1, 38864), (0x13F0, 0x13F5, 1, 8), (0x1C90, 0x1CBA, 1, -3008),
    (0x1CBD, 0x1CBF, 1, -3008), (0x1E00, 0x1E94, 2, 1), (0x1E9E, 0x1E9E, 1, -7615),
    (0x1EA0, 0x1EFE, 2, 1), (0x1F08, 0x1F0F, 1, -8), (0x1F18, 0x1F1D, 1, -8),
    (0x1F28, 0x1F2F, 1, -8), (0x1F38, 0x1F3F, 1, -8), (0x1F48, 0x1F4D, 1, -8),
    (0x1F59, 0x1F5F, 2, -8), (0x1F68, 0x1F6F, 1, -8), (0x1F88, 0x1F8F, 1, -8),
    (0x1F98, 0x1F9F, 1, -8), (0x1FA8, 0x1FAF, 1, -8), (0x1FB8, 0x1FB9, 1, -8),
    (0x1FBA, 0x1FBB, 1, -74), (0x1FBC, 0x1FBC, 1, -9), (0x1FC8, 0x1FCB, 1, -86),
    (0x1FCC, 0x1FCC, 1, -9), (0x1FD8, 0x1FD9, 1, -8), (0x1FDA, 0x1FDB, 1, -100),
    (0x1FE8, 0x1FE9, 1, -8), (0x1FEA, 0x1FEB, 1, -112), (0x1FEC, 0x1FEC, 1, -7),
    (0x1FF8, 0x1FF9, 1, -128), (0x1FFA, 0x1FFB, 1, -126), (0x1FFC, 0x1FFC, 1, -9),
    (0x2126, 0x2126, 1, -7517), (0x212A, 0x212A, 1, -8383), (0x212B, 0x212B, 1, -8262),
    (0x2132, 0x2132, 1, 28), (0x2160, 0x216F, 1, 16), (0x2183, 0x2183, 1, 1),
    (0x24B6, 0x24CF, 1, 26), (0x2C00, 0x2C2F, 1, 48), (0x2C60, 0x2C60, 1, 1),
    (0x2C62, 0x2C62, 1, -10743), (0x2C63, 0x2C63, 1, -3814), (0x2C64, 0x2C64, 1, -10727),
    (0x2C67, 0x2C6B, 2, 1), (0x2C6D, 0x2C6D, 1, -10780), (0x2C6E, 0x2C6E, 1, -10749),
    (0x2C6F, 0x2C6F, 1, -10783), (0x2C70, 0x2C70, 1, -10782), (0x2C72, 0x2C72, 1, 1),
    (0x2C75, 0x2C75, 1, 1), (0x2C7E, 0x2C7F, 1, -10815), (0x2C80, 0x2CE2, 2, 1),
    (0x2CEB, 0x2CED, 2, 1), (0x2CF2, 0x2CF2, 1, 1), (0xA640, 0xA66C, 2, 1),
    (0xA680, 0xA69A, 2, 1), (0xA722, 0xA72E, 2, 1), (0xA732, 0xA76E, 2, 1),
    (0xA779, 0xA77B, 2, 1), (0xA77D, 0xA77D, 1, -35332), (0xA77E, 0xA786, 2, 1),
    (0xA78B, 0xA78B, 1, 1), (0xA78D, 0xA78D, 1, -42280), (0xA790, 0xA792, 2, 1),
    (0xA796, 0xA7A8, 2, 1), (0xA7AA, 0xA7AA, 1, -42308), (0xA7AB, 0xA7AB, 1, -42319),
    (0xA7AC, 0xA7AC, 1, -42315), (0xA7AD, 0xA7AD, 1, -42305), (0xA7AE, 0xA7AE, 1, -42308),
    (0xA7B0, 0xA7B0, 1, -42258), (0xA7B1, 0xA7B1, 1, -42282), (0xA7B2, 0xA7B2, 1, -42261),
    (0xA7B3, 0xA7B3, 1, 928), (0xA7B4, 0xA7C2, 2, 1), (0xA7C4, 0xA7C4, 1, -48),
    (0xA7C5, 0xA7C5, 1, -42307), (0xA7C6, 0xA7C6, 1, -35384), (0xA7C7, 0xA7C9, 2, 1),
    (0xA7D0, 0xA7D0, 1, 1), (0xA7D6, 0xA7D8, 2, 1), (0xA7F5, 0xA7F5, 1, 1),
    (0xFF21, 0xFF3A, 1, 32), (0x10400, 0x10427, 1, 40), (0x104B0, 0x104D3, 1, 40),
    (0x10570, 0x10594, 2, 39), (0x10571, 0x10579, 2, 39), (0x1057D, 0x10589, 2, 39),
    (0x1058D, 0x10591, 2, 39), (0x10595, 0x10595, 1, 39), (0x10C80, 0x10CB2, 1, 64),
    (0x118A0, 0x118BF, 1, 32), (0x16E40, 0x16E5F, 1, 32), (0x1E900, 0x1E921, 1, 34)]"

definition upper_ranges :: "(int \<times> int \<times> int \<times> int) list" where
  "upper_ranges = [
    (0x61, 0x7A, 1, -32), (0xB5, 0xB5, 1, 743), (0xE0, 0xF6, 1, -32),
    (0xF8, 0xFE, 1, -32), (0xFF, 0xFF, 1, 121), (0x101, 0x12F, 2, -1),
    (0x131, 0x131, 1, -232), (0x133, 0x137, 2, -1), (0x13A, 0x148, 2, -1),
    (0x14B, 0x177, 2, -1), (0x17A, 0x17E, 2, -1), (0x17F, 0x17F, 1, -300),
    (0x180, 0x180, 1, 195), (0x183, 0x185, 2, -1), (0x188, 0x188, 1, -1),
    (0x18C, 0x18C, 1, -1), (0x192, 0x192, 1, -1), (0x195, 0x195, 1, 97),
    (0x199, 0x199, 1, -1), (0x19A, 0x19A, 1, 163), (0x19E, 0x19E, 1, 130),
    (0x1A1, 0x1A5, 2, -1), (0x1A8, 0x1A8, 1, -1), (0x1AD, 0x1AD, 1, -1),
    (0x1B0, 0x1B0, 1, -1), (0x1B4, 0x1B6, 2, -1), (0x1B9, 0x1B9, 1, -1),
    (0x1BD, 0x1BD, 1, -1), (0x1BF, 0x1BF, 1, 56), (0x1C5, 0x1C5, 1, -1),
    (0x1C6, 0x1C6, 1, -2), (0x1C8, 0x1C8, 1, -1), (0x1C9, 0x1C9, 1, -2),
    (0x1CB, 0x1CB, 1, -1), (0x1CC, 0x1CC, 1, -2), (0x1CE, 0x1DC, 2, -1),
    (0x1DD, 0x1DD, 1, -79), (0x1DF, 0x1EF, 2, -1), (0x1F2, 0x1F2, 1, -1),
    (0x1F3, 0x1F3, 1, -2), (0x1F5, 0x1F5, 1, -1), (0x1F9, 0x21F, 2, -1),
    (0x223, 0x233, 2, -1), (0x23C, 0x23C, 1, -1), (0x23F, 0x240, 1, 10815),
    (0x242, 0x242, 1, -1), (0x247, 0x24F, 2, -1), (0x250, 0x250, 1, 10783),
    (0x251, 0x251, 1, 10780), (0x252, 0x252, 1, 10782), (0x253, 0x253, 1, -210),
    (0x254, 0x254, 1, -206), (0x256, 0x257, 1, -205), (0x259, 0x259, 1, -202),
    (0x25B, 0x25B, 1, -203), (0x25C, 0x25C, 1, 42319), (0x260, 0x260, 1, -205),
    (0x261, 0x261, 1, 42315), (0x263, 0x263, 1, -207), (0x265, 0x265, 1, 42280),
    (0x266, 0x266, 1, 42308), (0x268, 0x268, 1, -209), (0x269, 0x269, 1, -211),
    (0x26A, 0x26A, 1, 42308), (0x26B, 0x26B, 1, 10743), (0x26C, 0x26C, 1, 42305),
    (0x26F, 0x26F, 1, -211), (0x271, 0x271, 1, 10749), (0x272, 0x272, 1, -213),
    (0x275, 0x275, 1, -214), (0x27D, 0x27D, 1, 10727), (0x280, 0x280, 1, -218),
    (0x282, 0x282, 1, 42307), (0x283, 0x283, 1, -218), (0x287, 0x287, 1, 42282),
    (0x288, 0x288, 1, -218), (0x289, 0x289, 1, -69), (0x28A, 0x28B, 1, -217),
    (0x28C, 0x28C, 1, -71), (0x292, 0x292, 1, -219), (0x29D, 0x29D, 1, 42261),
    (0x29E, 0x29E, 1, 42258), (0x345, 0x345, 1, 84), (0x371, 0x373, 2, -1),
    (0x377, 0x377, 1, -1), (0x37B, 0x37D, 1, 130), (0x3AC, 0x3AC, 1, -38),
    (0x3AD, 0x3AF, 1, -37), (0x3B1, 0x3C1, 1, -32), (0x3C2, 0x3C2, 1, -31),
    (0x3C3, 0x3CB, 1, -32), (0x3CC, 0x3CC, 1, -64), (0x3CD, 0x3CE, 1, -63),
    (0x3D0, 0x3D0, 1, -62), (0x3D1, 0x3D1, 1, -57), (0x3D5, 0x3D5, 1, -47),
    (0x3D6, 0x3D6, 1, -54), (0x3D7, 0x3D7, 1, -8), (0x3D9, 0x3EF, 2, -1),
    (0x3F0, 0x3F0, 1, -86), (0x3F1, 0x3F1, 1, -80), (0x3F2, 0x3F2, 1, 7),
    (0x3F3, 0x3F3, 1, -116), (0x3F5, 0x3F5, 1, -96), (0x3F8, 0x3F8, 1, -1),
    (0x3FB, 0x3FB, 1, -1), (0x430, 0x44F, 1, -32), (0x450, 0x45F, 1, -80),
    (0x461, 0x481, 2, -1), (0x48B, 0x4BF, 2, -1), (0x4C2, 0x4CE, 2, -1),
    (0x4CF, 0x4CF, 1, -15), (0x4D1, 0x52F, 2, -1), (0x561, 0x586, 1, -48),
    (0x10D0, 0x10FA, 1, 3008), (0x10FD, 0x10FF, 1, 3008), (0x13F8, 0x13FD, 1, -8),
    (0x1C80, 0x1C80, 1, -6254), (0x1C81, 0x1C81, 1, -6253), (0x1C82, 0x1C82, 1, -6244),
    (0x1C83, 0x1C84, 1, -6242), (0x1C85, 0x1C85, 1, -6243), (0x1C86, 0x1C86, 1, -6236),
    (0x1C87, 0x1C87, 1, -6181), (0x1C88, 0x1C88, 1, 35266), (0x1D79, 0x1D79, 1, 35332),
    (0x1D7D, 0x1D7D, 1, 3814), (0x1D8E, 0x1D8E, 1, 35384), (0x1E01, 0x1E95, 2, -1),
    (0x1E9B, 0x1E9B, 1, -59), (0x1EA1, 0x1EFF, 2, -1), (0x1F00, 0x1F07, 1, 8),
    (0x1F10, 0x1F15, 1, 8), (0x1F20, 0x1F27, 1, 8), (0x1F30, 0x1F37, 1, 8),
    (0x1F40, 0x1F45, 1, 8), (0x1F51, 0x1F57, 2, 8), (0x1F60, 0x1F67, 1, 8),
    (0x1F70, 0x1F71, 1, 74), (0x1F72, 0x1F75, 1, 86), (0x1F76, 0x1F77, 1, 100),
    (0x1F78, 0x1F79, 1, 128), (0x1F7A, 0x1F7B, 1, 112), (0x1F7C, 0x1F7D, 1, 126),
    (0x1F80, 0x1F87, 1, 8), (0x1F90, 0x1F97, 1, 8), (0x1FA0, 0x1FA7, 1, 8),
    (0x1FB0, 0x1FB1, 1, 8), (0x1FB3, 0x1FB3, 1, 9), (0x1FBE, 0x1FBE, 1, -7205),
    (0x1FC3, 0x1FC3, 1, 9), (0x1FD0, 0x1FD1, 1, 8), (0x1FE0, 0x1FE1, 1, 8),
    (0x1FE5, 0x1FE5, 1, 7), (0x1FF3, 0x1FF3, 1, 9), (0x214E, 0x214E, 1, -28),
    (0x2170, 0x217F, 1, -16), (0x2184, 0x2184, 1, -1), (0x24D0, 0x24E9, 1, -26),
    (0x2C30, 0x2C5F, 1, -48), (0x2C61, 0x2C61, 1, -1), (0x2C65, 0x2C65, 1, -10795),
    (0x2C66, 0x2C66, 1, -10792), (0x2C68, 0x2C6C, 2, -1), (0x2C73, 0x2C73, 1, -1),
    (0x2C76, 0x2C76, 1, -1), (0x2C81, 0x2CE3, 2, -1), (0x2CEC, 0x2CEE, 2, -1),
    (0x2CF3, 0x2CF3, 1, -1), (0x2D00, 0x2D25, 1, -7264), (0x2D27, 0x2D27, 1, -7264),
    (0x2D2D, 0x2D2D, 1, -7264), (0xA641, 0xA66D, 2, -1), (0xA681, 0xA69B, 2, -1),
    (0xA723, 0xA72F, 2, -1), (0xA733, 0xA76F, 2, -1), (0xA77A, 0xA77C, 2, -1),
    (0xA77F, 0xA787, 2, -1), (0xA78C, 0xA78C, 1, -1), (0xA791, 0xA793, 2, -1),
    (0xA794, 0xA794, 1, 48), (0xA797, 0xA7A9, 2, -1), (0xA7B5, 0xA7C3, 2, -1),
    (0xA7C8, 0xA7CA, 2, -1), (0xA7D1, 0xA7D1, 1, -1), (0xA7D7, 0xA7D9, 2, -1),
    (0xA7F6, 0xA7F6, 1, -1), (0xAB53, 0xAB53, 1, -928), (0xAB70, 0xABBF, 1, -38864),
    (0xFF41, 0xFF5A, 1, -32), (0x10428, 0x1044F, 1, -40), (0x104D8, 0x104FB, 1, -40),
    (0x10597, 0x105BB, 2, -39), (0x10598, 0x105A0, 2, -39), (0x105A4, 0x105B0, 2, -39),
    (0x105B4, 0x105B8, 2, -39), (0x105BC, 0x105BC, 1, -39), (0x10CC0, 0x10CF2, 1, -64),
    (0x118C0, 0x118DF, 1, -32), (0x16E60, 0x16E7F, 1, -32), (0x1E922, 0x1E943, 1, -34)]"

definition digit_ranges :: "(int \<times> int) list" where
  "digit_ranges = [
    (0x30, 0x39), (0x660, 0x669), (0x6F0, 0x6F9), (0x7C0, 0x7C9),
    (0x966, 0x96F), (0x9E6, 0x9EF), (0xA66, 0xA6F), (0xAE6, 0xAEF),
    (0xB66, 0xB6F), (0xBE6, 0xBEF), (0xC66, 0xC6F), (0xCE6, 0xCEF),
    (0xD66, 0xD6F), (0xDE6, 0xDEF), (0xE50, 0xE59), (0xED0, 0xED9),
    (0xF20, 0xF29), (0x1040, 0x1049), (0x1090, 0x1099), (0x17E0, 0x17E9),
    (0x1810, 0x1819), (0x1946, 0x194F), (0x19D0, 0x19D9), (0x1A80, 0x1A89),
    (0x1A90, 0x1A99), (0x1B50, 0x1B59), (0x1BB0, 0x1BB9), (0x1C40, 0x1C49),
    (0x1C50, 0x1C59), (0xA620, 0xA629), (0xA8D0, 0xA8D9), (0xA900, 0xA909),
    (0xA9D0, 0xA9D9), (0xA9F0, 0xA9F9), (0xAA50, 0xAA59), (0xABF0, 0xABF9),
    (0xFF10, 0xFF19), (0x104A0, 0x104A9), (0x10D30, 0x10D39), (0x11066, 0x1106F),
    (0x110F0, 0x110F9), (0x11136, 0x1113F), (0x111D0, 0x111D9), (0x112F0, 0x112F9),
    (0x11450, 0x11459), (0x114D0, 0x114D9), (0x11650, 0x11659), (0x116C0, 0x116C9),
    (0x11730, 0x11739), (0x118E0, 0x118E9), (0x11950, 0x11959), (0x11C50, 0x11C59),
    (0x11D50, 0x11D59), (0x11DA0, 0x11DA9), (0x11F50, 0x11F59), (0x16A60, 0x16A69),
    (0x16AC0, 0x16AC9), (0x16B50, 0x16B59), (0x1D7CE, 0x1D7FF), (0x1E140, 0x1E149),
    (0x1E2F0, 0x1E2F9), (0x1E4F0, 0x1E4F9), (0x1E950, 0x1E959), (0x1FBF0, 0x1FBF9)]"

definition in_case_range :: "int \<Rightarrow> int \<times> int \<times> int \<times> int \<Rightarrow> bool" where
  "in_case_range r e =
     (case e of (lo, hi, step, _) \<Rightarrow> lo \<le> r \<and> r \<le> hi \<and> (r - lo) mod step = 0)"

definition case_delta :: "(int \<times> int \<times> int \<times> int) list \<Rightarrow> int \<Rightarrow> int" where
  "case_delta tab r =
     (case find (in_case_range r) tab of None \<Rightarrow> 0 | Some (_, _, _, d) \<Rightarrow> d)"

definition rune_lower :: "int \<Rightarrow> int" where
  "rune_lower r = r + case_delta lower_ranges r"

definition rune_upper :: "int \<Rightarrow> int" where
  "rune_upper r = r + case_delta upper_ranges r"

definition rune_is_digit :: "int \<Rightarrow> bool" where
  "rune_is_digit r = list_ex (\<lambda>(lo, hi). lo \<le> r \<and> r \<le> hi) digit_ranges"

definition rune_is_space :: "int \<Rightarrow> bool" where
  "rune_is_space r \<longleftrightarrow>
     (9 \<le> r \<and> r \<le> 13) \<or> r = 0x20 \<or> r = 0x85 \<or> r = 0xA0 \<or> r = 0x1680 \<or>
     (0x2000 \<le> r \<and> r \<le> 0x200A) \<or> r = 0x2028 \<or> r = 0x2029 \<or> r = 0x202F \<or>
     r = 0x205F \<or> r = 0x3000"

lemma rune_is_digit_ascii: "0 \<le> r \<Longrightarrow> r < 0x80 \<Longrightarrow> rune_is_digit r \<longleftrightarrow> 0x30 \<le> r \<and> r \<le> 0x39"
  by (simp add: rune_is_digit_def digit_ranges_def)

end
