(* ===== verification/GoStrings.thy ===== *)
theory GoStrings
  imports Prelude GoUnicode "HOL-Library.Sublist" "HOL-Library.Char_ord" "HOL-Library.List_Lexorder"
begin

text \<open>
  Go strings.  A Go \<open>string\<close> is a sequence of bytes; here it is \<open>string\<close>, a list of \<open>char\<close>, each
  \<open>char\<close> one byte.  The functions below are the ones of the packages \<open>strings\<close>, \<open>strconv\<close>,
  \<open>unicode/utf8\<close> the program calls, with the behaviour of the Go library on every byte string,
  malformed UTF-8 included.  Text outside ASCII is written \<open>utf8 [code points]\<close>.  Comparison of
  strings is by bytes, the lexicographic order of \<open>List_Lexorder\<close> over \<open>Char_ord\<close>.
\<close>

section \<open>UTF-8\<close>

definition byte :: "char \<Rightarrow> int" where
  "byte c = of_char c"

definition chr :: "int \<Rightarrow> char" where
  "chr b = char_of b"

lemma byte_range: "0 \<le> byte c" "byte c < 256"
  using pos_mod_bound [of 256 "byte c"] pos_mod_sign [of 256 "byte c"]
  by (simp_all add: byte_def)

lemma byte_chr [simp]: "0 \<le> b \<Longrightarrow> b < 256 \<Longrightarrow> byte (chr b) = b"
  by (simp add: byte_def chr_def)

lemma chr_byte [simp]: "chr (byte c) = c"
  by (simp add: byte_def chr_def)

lemma byte_inject [simp]: "byte c = byte d \<longleftrightarrow> c = d"
  by (metis chr_byte)

definition rune_error :: int where "rune_error = 0xFFFD"

definition valid_rune :: "int \<Rightarrow> bool" where
  "valid_rune r \<longleftrightarrow> (0 \<le> r \<and> r < 0xD800) \<or> (0xDFFF < r \<and> r \<le> 0x10FFFF)"

definition encode_rune :: "int \<Rightarrow> string" where
  "encode_rune r0 =
     (let r = (if valid_rune r0 then r0 else rune_error) in
      if r < 0x80 then [chr r]
      else if r < 0x800 then [chr (0xC0 + r div 64), chr (0x80 + r mod 64)]
      else if r < 0x10000 then
        [chr (0xE0 + r div 4096), chr (0x80 + r div 64 mod 64), chr (0x80 + r mod 64)]
      else
        [chr (0xF0 + r div 262144), chr (0x80 + r div 4096 mod 64),
         chr (0x80 + r div 64 mod 64), chr (0x80 + r mod 64)])"

definition utf8 :: "int list \<Rightarrow> string" where
  "utf8 rs = concat (map encode_rune rs)"

definition cont_byte :: "int \<Rightarrow> bool" where
  "cont_byte b \<longleftrightarrow> 0x80 \<le> b \<and> b \<le> 0xBF"

text \<open>\<open>utf8.DecodeRuneInString\<close>: the first code point and its width; \<open>(RuneError, 1)\<close> if malformed.\<close>

fun decode_rune :: "string \<Rightarrow> int \<times> nat" where
  "decode_rune [] = (rune_error, 0)"
| "decode_rune (c0 # cs) =
     (let b0 = byte c0 in
      if b0 < 0x80 then (b0, 1)
      else if 0xC2 \<le> b0 \<and> b0 \<le> 0xDF then
        (case cs of
           c1 # _ \<Rightarrow> (if cont_byte (byte c1)
                      then ((b0 - 0xC0) * 64 + (byte c1 - 0x80), 2) else (rune_error, 1))
         | _ \<Rightarrow> (rune_error, 1))
      else if 0xE0 \<le> b0 \<and> b0 \<le> 0xEF then
        (case cs of
           c1 # c2 # _ \<Rightarrow>
             (if cont_byte (byte c1) \<and> cont_byte (byte c2) \<and>
                 (b0 = 0xE0 \<longrightarrow> 0xA0 \<le> byte c1) \<and> (b0 = 0xED \<longrightarrow> byte c1 \<le> 0x9F)
              then ((b0 - 0xE0) * 4096 + (byte c1 - 0x80) * 64 + (byte c2 - 0x80), 3)
              else (rune_error, 1))
         | _ \<Rightarrow> (rune_error, 1))
      else if 0xF0 \<le> b0 \<and> b0 \<le> 0xF4 then
        (case cs of
           c1 # c2 # c3 # _ \<Rightarrow>
             (if cont_byte (byte c1) \<and> cont_byte (byte c2) \<and> cont_byte (byte c3) \<and>
                 (b0 = 0xF0 \<longrightarrow> 0x90 \<le> byte c1) \<and> (b0 = 0xF4 \<longrightarrow> byte c1 \<le> 0x8F)
              then ((b0 - 0xF0) * 262144 + (byte c1 - 0x80) * 4096 + (byte c2 - 0x80) * 64
                    + (byte c3 - 0x80), 4)
              else (rune_error, 1))
         | _ \<Rightarrow> (rune_error, 1))
      else (rune_error, 1))"

text \<open>\<open>[]rune(s)\<close>, and the code points a \<open>range\<close> loop over a string visits.\<close>

function runes :: "string \<Rightarrow> int list" where
  "runes [] = []"
| "runes (c # cs) = (case decode_rune (c # cs) of (r, w) \<Rightarrow> r # runes (drop (w - 1) cs))"
  by pat_completeness auto
termination
  by (relation "measure length") auto

definition is_ascii :: "string \<Rightarrow> bool" where
  "is_ascii s \<longleftrightarrow> (\<forall>c \<in> set s. byte c < 0x80)"

lemma is_ascii_simps [simp]:
  "is_ascii []"
  "is_ascii (c # s) \<longleftrightarrow> byte c < 0x80 \<and> is_ascii s"
  by (simp_all add: is_ascii_def)

lemma is_ascii_append [simp]: "is_ascii (s @ t) \<longleftrightarrow> is_ascii s \<and> is_ascii t"
  by (auto simp: is_ascii_def)

lemma runes_ascii: "is_ascii s \<Longrightarrow> runes s = map byte s"
  by (induction s) simp_all

section \<open>Trimming white space\<close>

definition space1 :: "char \<Rightarrow> bool" where
  "space1 c \<longleftrightarrow> (9 \<le> byte c \<and> byte c \<le> 13) \<or> byte c = 0x20"

definition space2 :: "char \<Rightarrow> char \<Rightarrow> bool" where
  "space2 c d \<longleftrightarrow> byte c = 0xC2 \<and> (byte d = 0x85 \<or> byte d = 0xA0)"

definition space3 :: "char \<Rightarrow> char \<Rightarrow> char \<Rightarrow> bool" where
  "space3 c d e \<longleftrightarrow>
     (byte c = 0xE1 \<and> byte d = 0x9A \<and> byte e = 0x80) \<or>
     (byte c = 0xE2 \<and> byte d = 0x80 \<and>
        ((0x80 \<le> byte e \<and> byte e \<le> 0x8A) \<or> byte e = 0xA8 \<or> byte e = 0xA9 \<or> byte e = 0xAF)) \<or>
     (byte c = 0xE2 \<and> byte d = 0x81 \<and> byte e = 0x9F) \<or>
     (byte c = 0xE3 \<and> byte d = 0x80 \<and> byte e = 0x80)"

text \<open>
  The encodings of the code points of \<open>unicode.IsSpace\<close> are one, two or three bytes.  \<open>strip\<close> drops
  them from the front; \<open>TrimSpace\<close> does so from both ends (on the reversed string for the back).
\<close>

fun space_width :: "(char \<Rightarrow> char \<Rightarrow> bool) \<Rightarrow> (char \<Rightarrow> char \<Rightarrow> char \<Rightarrow> bool) \<Rightarrow> string \<Rightarrow> nat" where
  "space_width s2 s3 [] = 0"
| "space_width s2 s3 [c] = (if space1 c then 1 else 0)"
| "space_width s2 s3 [c, d] = (if space1 c then 1 else if s2 c d then 2 else 0)"
| "space_width s2 s3 (c # d # e # cs) =
     (if space1 c then 1 else if s2 c d then 2 else if s3 c d e then 3 else 0)"

function strip :: "(char \<Rightarrow> char \<Rightarrow> bool) \<Rightarrow> (char \<Rightarrow> char \<Rightarrow> char \<Rightarrow> bool) \<Rightarrow> string \<Rightarrow> string" where
  "strip s2 s3 s =
     (if space_width s2 s3 s = 0 then s else strip s2 s3 (drop (space_width s2 s3 s) s))"
  by pat_completeness auto
termination
proof (relation "measure (\<lambda>(s2, s3, s). length s)")
  fix s2 :: "char \<Rightarrow> char \<Rightarrow> bool" and s3 :: "char \<Rightarrow> char \<Rightarrow> char \<Rightarrow> bool" and s :: string
  assume "space_width s2 s3 s \<noteq> 0"
  then show "((s2, s3, drop (space_width s2 s3 s) s), s2, s3, s) \<in> measure (\<lambda>(s2, s3, s). length s)"
    by (cases s) auto
qed simp

declare strip.simps [simp del]

definition trim_left :: "string \<Rightarrow> string" where
  "trim_left = strip space2 space3"

definition trim_right :: "string \<Rightarrow> string" where
  "trim_right s = rev (strip (\<lambda>d c. space2 c d) (\<lambda>e d c. space3 c d e) (rev s))"

definition trim_space :: "string \<Rightarrow> string" where
  "trim_space s = trim_right (trim_left s)"

lemma strip_fixed: "space_width s2 s3 s = 0 \<Longrightarrow> strip s2 s3 s = s"
  by (subst strip.simps) simp

lemma space_width_strip [simp]: "space_width s2 s3 (strip s2 s3 s) = 0"
proof (induction s2 s3 s rule: strip.induct)
  case (1 s2 s3 s)
  then show ?case by (cases "space_width s2 s3 s = 0") (simp_all add: strip.simps [of s2 s3 s])
qed

lemma strip_idem [simp]: "strip s2 s3 (strip s2 s3 s) = strip s2 s3 s"
  by (simp add: strip_fixed)

lemma strip_split: "\<exists>zs. s = zs @ strip s2 s3 s"
proof (induction s2 s3 s rule: strip.induct)
  case (1 s2 s3 s)
  show ?case
  proof (cases "space_width s2 s3 s = 0")
    case False
    then obtain zs where "drop (space_width s2 s3 s) s = zs @ strip s2 s3 (drop (space_width s2 s3 s) s)"
      using 1 by blast
    then have "s = (take (space_width s2 s3 s) s @ zs) @ strip s2 s3 (drop (space_width s2 s3 s) s)"
      by (metis append.assoc append_take_drop_id)
    with False show ?thesis by (subst strip.simps) (simp only: if_False, blast)
  qed (simp add: strip_fixed)
qed

lemma space_width_append:
  "space_width s2 s3 (s @ t) = 0 \<Longrightarrow> space_width s2 s3 s = 0"
  by (cases "(s2, s3, s @ t)" rule: space_width.cases; cases "(s2, s3, s)" rule: space_width.cases)
    (simp_all split: if_splits)

lemma strip_fixed_append:
  assumes "strip s2 s3 (s @ t) = s @ t"
  shows "strip s2 s3 s = s"
  using assms space_width_strip [of s2 s3 "s @ t"] space_width_append strip_fixed by metis

lemma trim_right_split: "\<exists>t. s = trim_right s @ t"
proof -
  let ?st = "strip (\<lambda>d c. space2 c d) (\<lambda>e d c. space3 c d e)"
  obtain t where "rev s = t @ ?st (rev s)" using strip_split by blast
  then have "s = rev (t @ ?st (rev s))" by (metis rev_rev_ident)
  then show ?thesis unfolding trim_right_def by (metis rev_append)
qed

lemma trim_left_idem [simp]: "trim_left (trim_left s) = trim_left s"
  by (simp add: trim_left_def)

lemma trim_right_idem [simp]: "trim_right (trim_right s) = trim_right s"
  by (simp add: trim_right_def)

lemma trim_left_trim_right: "trim_left s = s \<Longrightarrow> trim_left (trim_right s) = trim_right s"
  using strip_fixed_append trim_right_split [of s] unfolding trim_left_def by metis

lemma trim_space_idem [simp]: "trim_space (trim_space s) = trim_space s"
  by (simp add: trim_space_def trim_left_trim_right)

lemma trim_space_Nil [simp]: "trim_space [] = []"
  by (simp add: trim_space_def trim_left_def trim_right_def strip.simps [of _ _ "[]"])

lemma space_width_none:
  "\<forall>c \<in> set s. \<not> space1 c \<and> (\<forall>d. \<not> s2 c d \<and> (\<forall>e. \<not> s3 c d e)) \<Longrightarrow> space_width s2 s3 s = 0"
  by (cases "(s2, s3, s)" rule: space_width.cases) auto

lemma trim_space_no_space:
  assumes "\<forall>c \<in> set s. \<not> space1 c" and "is_ascii s"
  shows "trim_space s = s"
proof -
  have "space_width space2 space3 s = 0"
    by (rule space_width_none) (use assms in \<open>auto simp: is_ascii_def space2_def space3_def\<close>)
  moreover have "space_width (\<lambda>d c. space2 c d) (\<lambda>e d c. space3 c d e) (rev s) = 0"
    by (rule space_width_none) (use assms in \<open>auto simp: is_ascii_def space2_def space3_def\<close>)
  ultimately show ?thesis
    by (simp add: trim_space_def trim_left_def trim_right_def strip_fixed)
qed

section \<open>Case mapping\<close>

text \<open>
  \<open>strings.ToLower\<close> and \<open>strings.ToUpper\<close>: the letters A-Z (a-z) of an ASCII string; otherwise every
  code point through the table of \<open>GoUnicode\<close>, a malformed byte becoming U+FFFD as in \<open>strings.Map\<close>.
\<close>

definition char_lower :: "char \<Rightarrow> char" where
  "char_lower c = (if 65 \<le> byte c \<and> byte c \<le> 90 then chr (byte c + 32) else c)"

definition char_upper :: "char \<Rightarrow> char" where
  "char_upper c = (if 97 \<le> byte c \<and> byte c \<le> 122 then chr (byte c - 32) else c)"

definition to_lower :: "string \<Rightarrow> string" where
  "to_lower s = (if is_ascii s then map char_lower s else utf8 (map rune_lower (runes s)))"

definition to_upper :: "string \<Rightarrow> string" where
  "to_upper s = (if is_ascii s then map char_upper s else utf8 (map rune_upper (runes s)))"

lemma byte_char_lower: "byte (char_lower c) = (if 65 \<le> byte c \<and> byte c \<le> 90 then byte c + 32 else byte c)"
  by (simp add: char_lower_def)

lemma byte_char_upper: "byte (char_upper c) = (if 97 \<le> byte c \<and> byte c \<le> 122 then byte c - 32 else byte c)"
  by (simp add: char_upper_def)

lemma is_ascii_map_lower: "is_ascii s \<Longrightarrow> is_ascii (map char_lower s)"
  by (auto simp: is_ascii_def byte_char_lower)

lemma is_ascii_map_upper: "is_ascii s \<Longrightarrow> is_ascii (map char_upper s)"
  by (auto simp: is_ascii_def byte_char_upper)

lemma to_lower_idem_ascii: "is_ascii s \<Longrightarrow> to_lower (to_lower s) = to_lower s"
  by (auto simp: to_lower_def is_ascii_map_lower char_lower_def is_ascii_def)

lemma to_upper_idem_ascii: "is_ascii s \<Longrightarrow> to_upper (to_upper s) = to_upper s"
  by (auto simp: to_upper_def is_ascii_map_upper char_upper_def is_ascii_def)

lemma to_lower_Nil [simp]: "to_lower [] = []"
  by (simp add: to_lower_def)

lemma to_upper_Nil [simp]: "to_upper [] = []"
  by (simp add: to_upper_def)

section \<open>Searching and replacing\<close>

definition has_prefix :: "string \<Rightarrow> string \<Rightarrow> bool" where
  "has_prefix s p \<longleftrightarrow> take (length p) s = p"

definition has_suffix :: "string \<Rightarrow> string \<Rightarrow> bool" where
  "has_suffix s p \<longleftrightarrow> has_prefix (rev s) (rev p)"

lemma has_prefix_iff: "has_prefix s p \<longleftrightarrow> (\<exists>t. s = p @ t)"
  unfolding has_prefix_def by (metis append_eq_conv_conj append_take_drop_id)

text \<open>\<open>strings.Index\<close>: \<open>None\<close> for -1.\<close>

fun str_index :: "string \<Rightarrow> string \<Rightarrow> nat option" where
  "str_index [] sub = (if sub = [] then Some 0 else None)"
| "str_index (c # s) sub =
     (if has_prefix (c # s) sub then Some 0 else map_option Suc (str_index s sub))"

definition contains :: "string \<Rightarrow> string \<Rightarrow> bool" where
  "contains s sub \<longleftrightarrow> str_index s sub \<noteq> None"

lemma contains_iff: "contains s sub \<longleftrightarrow> (\<exists>a b. s = a @ sub @ b)"
proof (induction s)
  case Nil
  then show ?case by (auto simp: contains_def)
next
  case (Cons c s)
  have "contains (c # s) sub \<longleftrightarrow> has_prefix (c # s) sub \<or> contains s sub"
    by (simp add: contains_def)
  also have "\<dots> \<longleftrightarrow> (\<exists>a b. c # s = a @ sub @ b)"
    unfolding Cons.IH has_prefix_iff
    by (metis append_Cons append_Nil list.exhaust list.inject)
  finally show ?case .
qed

text \<open>\<open>strings.ReplaceAll\<close> with a non-empty pattern: leftmost, non-overlapping.\<close>

function replace_all :: "string \<Rightarrow> string \<Rightarrow> string \<Rightarrow> string" where
  "replace_all [] old new = []"
| "replace_all (c # s) old new =
     (if old \<noteq> [] \<and> has_prefix (c # s) old then new @ replace_all (drop (length old - 1) s) old new
      else c # replace_all s old new)"
  by pat_completeness auto
termination
  by (relation "measure (\<lambda>(s, old, new). length s)") auto

lemma replace_all_absent: "\<not> contains s old \<Longrightarrow> replace_all s old new = s"
proof (induction s)
  case Nil
  then show ?case by simp
next
  case (Cons c s)
  then have "old \<noteq> []" by (auto simp: contains_def has_prefix_def split: if_splits)
  with Cons show ?case by (simp add: contains_def split: if_splits)
qed

text \<open>A replacement brings in no byte that is in neither string.\<close>

lemma set_replace_all: "set (replace_all s old new) \<subseteq> set s \<union> set new"
proof (induction s old new rule: replace_all.induct)
  case (2 c s old new)
  then show ?case by (auto dest: in_set_dropD)
qed simp

section \<open>Decimal numbers\<close>

definition is_digit_char :: "char \<Rightarrow> bool" where
  "is_digit_char c \<longleftrightarrow> 48 \<le> byte c \<and> byte c \<le> 57"

fun show_nat :: "nat \<Rightarrow> string" where
  "show_nat n =
     (if n < 10 then [chr (48 + int n)] else show_nat (n div 10) @ [chr (48 + int (n mod 10))])"

declare show_nat.simps [simp del]

text \<open>\<open>strconv.Itoa\<close>, \<open>strconv.FormatInt with base 10\<close> and the verb \<open>%d\<close>.\<close>

definition itoa :: "int \<Rightarrow> string" where
  "itoa i = (if i < 0 then chr 45 # show_nat (nat (- i)) else show_nat (nat i))"

datatype num_error = ErrSyntax | ErrRange

definition max_uint64 :: int where "max_uint64 = 18446744073709551615"

text \<open>The digit loop of \<open>strconv.ParseUint\<close> in base 10 with 64 bits.\<close>

fun scan_uint :: "int \<Rightarrow> string \<Rightarrow> num_error + int" where
  "scan_uint acc [] = Inr acc"
| "scan_uint acc (c # cs) =
     (if \<not> is_digit_char c then Inl ErrSyntax
      else let n = acc * 10 + (byte c - 48) in
           if max_uint64 < n then Inl ErrRange else scan_uint n cs)"

definition parse_uint :: "string \<Rightarrow> num_error + int" where
  "parse_uint s = (if s = [] then Inl ErrSyntax else scan_uint 0 s)"

text \<open>
  \<open>strconv.ParseInt (s, 10, 64)\<close> and \<open>strconv.Atoi\<close>: the value and the error.  A syntax error returns 0,
  a number out of range returns the nearest 64-bit integer along with the error.
\<close>

definition parse_int :: "string \<Rightarrow> int \<times> num_error option" where
  "parse_int s =
     (let (neg, body) = (case s of
          c # cs \<Rightarrow> if byte c = 43 then (False, cs) else if byte c = 45 then (True, cs) else (False, s)
        | [] \<Rightarrow> (False, []))
      in case parse_uint body of
           Inl ErrSyntax \<Rightarrow> (0, Some ErrSyntax)
         | Inl ErrRange \<Rightarrow> (if neg then min_int64 else max_int64, Some ErrRange)
         | Inr u \<Rightarrow>
             if \<not> neg \<and> max_int64 < u then (max_int64, Some ErrRange)
             else if neg \<and> - min_int64 < u then (min_int64, Some ErrRange)
             else (if neg then - u else u, None))"

abbreviation atoi :: "string \<Rightarrow> int \<times> num_error option" where
  "atoi \<equiv> parse_int"

text \<open>The verb \<open>%d\<close> and the two directions of the conversion.\<close>

lemma show_nat_nonempty [simp]: "show_nat n \<noteq> []"
  by (subst show_nat.simps) simp

lemma set_show_nat: "\<forall>c \<in> set (show_nat n). is_digit_char c"
proof (induction n rule: show_nat.induct)
  case (1 n)
  then show ?case
    by (subst show_nat.simps) (auto simp: is_digit_char_def)
qed

lemma itoa_chars: "c \<in> set (itoa i) \<Longrightarrow> is_digit_char c \<or> c = CHR ''-''"
proof -
  have "chr 45 = CHR ''-''" by code_simp
  then show "c \<in> set (itoa i) \<Longrightarrow> is_digit_char c \<or> c = CHR ''-''"
    using set_show_nat by (auto simp: itoa_def split: if_splits)
qed

lemma scan_uint_show_nat:
  "int n \<le> max_uint64 \<Longrightarrow> scan_uint 0 (show_nat n @ t) = scan_uint (int n) t"
proof (induction n arbitrary: t rule: show_nat.induct)
  case (1 n)
  show ?case
  proof (cases "n < 10")
    case True
    then show ?thesis
      by (subst show_nat.simps) (simp add: is_digit_char_def max_uint64_def)
  next
    case False
    have "int (n div 10) \<le> max_uint64"
      using "1.prems" div_le_dividend [of n 10] by linarith
    then have "scan_uint 0 (show_nat (n div 10) @ chr (48 + int (n mod 10)) # t)
        = scan_uint (int (n div 10)) (chr (48 + int (n mod 10)) # t)"
      using "1.IH" [OF False] by simp
    moreover have "int (n div 10) * 10 + int (n mod 10) = int n"
      by (metis mult_div_mod_eq of_nat_add of_nat_mult of_nat_numeral mult.commute)
    moreover have "byte (chr (48 + int (n mod 10))) = 48 + int (n mod 10)"
      by (rule byte_chr) auto
    moreover have "n mod 10 \<le> 9"
      using mod_less_divisor [of 10 n] by linarith
    ultimately show ?thesis
      using False "1.prems"
      by (subst show_nat.simps) (simp add: is_digit_char_def Let_def del: of_nat_mod byte_chr)
  qed
qed

lemma parse_uint_show_nat: "int n \<le> max_uint64 \<Longrightarrow> parse_uint (show_nat n) = Inr (int n)"
  using scan_uint_show_nat [of n "[]"] by (simp add: parse_uint_def)

theorem parse_int_itoa:
  assumes "min_int64 \<le> i" "i \<le> max_int64"
  shows "parse_int (itoa i) = (i, None)"
proof (cases "i < 0")
  case True
  with assms have "parse_uint (show_nat (nat (- i))) = Inr (- i)"
    by (subst parse_uint_show_nat) (simp_all add: min_int64_def max_uint64_def)
  with True assms show ?thesis
    by (simp add: parse_int_def itoa_def)
next
  case False
  obtain c cs where c: "show_nat (nat i) = c # cs" by (cases "show_nat (nat i)") auto
  then have "is_digit_char c" using set_show_nat [of "nat i"] by simp
  moreover have "parse_uint (c # cs) = Inr i"
    using parse_uint_show_nat [of "nat i"] c False assms by (simp add: max_int64_def max_uint64_def)
  ultimately show ?thesis
    using False assms c by (simp add: parse_int_def itoa_def is_digit_char_def)
qed

lemma itoa_nonempty [simp]: "itoa i \<noteq> []"
  by (simp add: itoa_def)

lemma is_ascii_itoa: "is_ascii (itoa i)"
proof -
  have "is_ascii (show_nat n)" for n
    using set_show_nat [of n] by (auto simp: is_ascii_def is_digit_char_def)
  then show ?thesis by (simp add: itoa_def)
qed

lemma trim_space_itoa [simp]: "trim_space (itoa i) = itoa i"
proof (rule trim_space_no_space)
  have "\<not> space1 c" if "c \<in> set (show_nat n)" for c n
    using set_show_nat [of n] that by (auto simp: space1_def is_digit_char_def)
  then show "\<forall>c \<in> set (itoa i). \<not> space1 c"
    by (auto simp: itoa_def space1_def)
qed (rule is_ascii_itoa)

text \<open>What \<open>parse_int\<close> accepts is in the 64-bit range.\<close>

lemma scan_uint_nonneg: "scan_uint acc s = Inr u \<Longrightarrow> 0 \<le> acc \<Longrightarrow> 0 \<le> u"
  by (induction acc s rule: scan_uint.induct) (auto simp: Let_def is_digit_char_def split: if_splits)

lemma parse_uint_nonneg: "parse_uint s = Inr u \<Longrightarrow> 0 \<le> u"
  by (auto simp: parse_uint_def split: if_splits dest: scan_uint_nonneg)

lemma parse_int_range: "min_int64 \<le> fst (parse_int s) \<and> fst (parse_int s) \<le> max_int64"
proof -
  have "0 \<le> u" if "parse_uint t = Inr u" for t u
    using that by (rule parse_uint_nonneg)
  then show ?thesis
    by (auto simp: parse_int_def Let_def min_int64_def max_int64_def
        split: list.splits sum.splits num_error.splits if_splits)
      (fastforce simp: min_int64_def max_int64_def)+
qed

section \<open>Digit runs\<close>

text \<open>A string of ASCII digits that \<open>parse_int\<close> reads has the value of its digits.\<close>

definition all_digit_chars :: "string \<Rightarrow> bool" where
  "all_digit_chars s \<longleftrightarrow> s \<noteq> [] \<and> (\<forall>c \<in> set s. is_digit_char c)"

lemma all_digit_chars_itoa: "0 \<le> i \<Longrightarrow> all_digit_chars (itoa i)"
  using set_show_nat by (auto simp: all_digit_chars_def itoa_def)

lemma all_digit_chars_ascii: "all_digit_chars s \<Longrightarrow> is_ascii s"
  by (auto simp: all_digit_chars_def is_ascii_def is_digit_char_def)

section \<open>Case mapping and trimming together\<close>

lemma trim_space_fixedD:
  assumes "trim_space s = s"
  shows "space_width space2 space3 s = 0"
    and "space_width (\<lambda>d c. space2 c d) (\<lambda>e d c. space3 c d e) (rev s) = 0"
proof -
  have l: "trim_left s = s"
    using assms by (metis trim_left_idem trim_left_trim_right trim_space_def)
  then show "space_width space2 space3 s = 0"
    by (metis space_width_strip trim_left_def)
  have "trim_right s = s" using assms l by (simp add: trim_space_def)
  then have "strip (\<lambda>d c. space2 c d) (\<lambda>e d c. space3 c d e) (rev s) = rev s"
    unfolding trim_right_def by (metis rev_rev_ident)
  then show "space_width (\<lambda>d c. space2 c d) (\<lambda>e d c. space3 c d e) (rev s) = 0"
    by (metis space_width_strip)
qed

lemma space_width_map:
  assumes "\<forall>c \<in> set s. space1 (f c) = space1 c \<and> (\<forall>d. \<not> s2 (f c) d \<and> (\<forall>e. \<not> s3 (f c) d e))"
    and "space_width s2 s3 s = 0"
  shows "space_width s2 s3 (map f s) = 0"
  using assms by (cases "(s2, s3, s)" rule: space_width.cases) (auto split: if_splits)

lemma trim_space_map_ascii:
  assumes "is_ascii s" "trim_space s = s"
    and "\<And>c. byte c < 0x80 \<Longrightarrow> byte (f c) < 0x80 \<and> space1 (f c) = space1 c"
  shows "trim_space (map f s) = map f s"
proof -
  have "space_width space2 space3 (map f s) = 0"
    by (rule space_width_map [OF _ trim_space_fixedD(1) [OF assms(2)]])
      (use assms(1,3) in \<open>force simp: is_ascii_def space2_def space3_def\<close>)
  moreover have "space_width (\<lambda>d c. space2 c d) (\<lambda>e d c. space3 c d e) (rev (map f s)) = 0"
    unfolding rev_map
    by (rule space_width_map [OF _ trim_space_fixedD(2) [OF assms(2)]])
      (use assms(1,3) in \<open>force simp: is_ascii_def space2_def space3_def\<close>)
  ultimately show ?thesis
    by (simp add: trim_space_def trim_left_def trim_right_def strip_fixed)
qed

lemma is_ascii_trim_space: "is_ascii s \<Longrightarrow> is_ascii (trim_space s)"
proof -
  assume s: "is_ascii s"
  obtain t where "trim_left s = trim_space s @ t"
    unfolding trim_space_def using trim_right_split by blast
  moreover obtain z where "s = z @ trim_left s"
    unfolding trim_left_def using strip_split by blast
  ultimately show ?thesis using s by (metis is_ascii_append)
qed

lemma trim_upper_idem:
  assumes "is_ascii s"
  shows "to_upper (trim_space (to_upper (trim_space s))) = to_upper (trim_space s)"
proof -
  have a: "is_ascii (trim_space s)" by (rule is_ascii_trim_space [OF assms])
  then have "trim_space (map char_upper (trim_space s)) = map char_upper (trim_space s)"
    by (rule trim_space_map_ascii) (auto simp: byte_char_upper space1_def)
  with a show ?thesis
    using to_upper_idem_ascii [OF a] by (simp add: to_upper_def)
qed

lemma trim_lower_idem:
  assumes "is_ascii s"
  shows "to_lower (trim_space (to_lower (trim_space s))) = to_lower (trim_space s)"
proof -
  have a: "is_ascii (trim_space s)" by (rule is_ascii_trim_space [OF assms])
  then have "trim_space (map char_lower (trim_space s)) = map char_lower (trim_space s)"
    by (rule trim_space_map_ascii) (auto simp: byte_char_lower space1_def)
  with a show ?thesis
    using to_lower_idem_ascii [OF a] by (simp add: to_lower_def)
qed

section \<open>The value of a digit run\<close>

definition dec_value :: "string \<Rightarrow> int" where
  "dec_value s = foldl (\<lambda>a c. a * 10 + (byte c - 48)) 0 s"

lemma scan_uint_foldl:
  "scan_uint acc s = Inr u \<Longrightarrow>
   (\<forall>c \<in> set s. is_digit_char c) \<and> u = foldl (\<lambda>a c. a * 10 + (byte c - 48)) acc s"
  by (induction acc s rule: scan_uint.induct) (auto simp: Let_def split: if_splits)

lemma foldl_digits_ge:
  "\<forall>c \<in> set s. is_digit_char c \<Longrightarrow> 0 \<le> acc \<Longrightarrow>
   acc \<le> foldl (\<lambda>a c. a * 10 + (byte c - 48)) acc s"
proof (induction s arbitrary: acc)
  case (Cons c s)
  then have "acc \<le> acc * 10 + (byte c - 48)" by (simp add: is_digit_char_def)
  also have "\<dots> \<le> foldl (\<lambda>a c. a * 10 + (byte c - 48)) (acc * 10 + (byte c - 48)) s"
    using Cons by (intro Cons.IH) (auto simp: is_digit_char_def)
  finally show ?case by simp
qed simp

lemma scan_uint_digits:
  "\<forall>c \<in> set s. is_digit_char c \<Longrightarrow> 0 \<le> acc \<Longrightarrow>
   foldl (\<lambda>a c. a * 10 + (byte c - 48)) acc s \<le> max_uint64 \<Longrightarrow>
   scan_uint acc s = Inr (foldl (\<lambda>a c. a * 10 + (byte c - 48)) acc s)"
proof (induction s arbitrary: acc)
  case (Cons c s)
  have "acc * 10 + (byte c - 48) \<le> foldl (\<lambda>a c. a * 10 + (byte c - 48)) (acc * 10 + (byte c - 48)) s"
    using Cons.prems by (intro foldl_digits_ge) (auto simp: is_digit_char_def)
  then have "acc * 10 + (byte c - 48) \<le> max_uint64" using Cons.prems by simp
  with Cons show ?case by (auto simp: Let_def is_digit_char_def)
qed simp

text \<open>\<open>ParseInt\<close> on a string without a sign accepts exactly the digit runs within 64 bits.\<close>

lemma parse_int_digits_iff:
  assumes "s \<noteq> []" "byte (hd s) \<noteq> 43" "byte (hd s) \<noteq> 45"
  shows "parse_int s = (n, None) \<longleftrightarrow> all_digit_chars s \<and> n = dec_value s \<and> n \<le> max_int64"
proof -
  obtain c cs where s: "s = c # cs" using assms(1) by (cases s) auto
  have p: "parse_int s = (case scan_uint 0 s of
       Inl ErrSyntax \<Rightarrow> (0, Some ErrSyntax) | Inl ErrRange \<Rightarrow> (max_int64, Some ErrRange)
     | Inr u \<Rightarrow> if max_int64 < u then (max_int64, Some ErrRange) else (u, None))"
    using assms s by (simp add: parse_int_def parse_uint_def split: sum.splits num_error.splits)
  show ?thesis
  proof
    assume "parse_int s = (n, None)"
    then have "scan_uint 0 s = Inr n \<and> n \<le> max_int64"
      unfolding p by (auto split: sum.splits num_error.splits if_splits)
    then show "all_digit_chars s \<and> n = dec_value s \<and> n \<le> max_int64"
      using scan_uint_foldl [of 0 s n] assms(1) by (simp add: all_digit_chars_def dec_value_def)
  next
    assume a: "all_digit_chars s \<and> n = dec_value s \<and> n \<le> max_int64"
    then have "scan_uint 0 s = Inr n"
      using scan_uint_digits [of s 0]
      by (auto simp: all_digit_chars_def dec_value_def max_int64_def max_uint64_def)
    then show "parse_int s = (n, None)" using a unfolding p by simp
  qed
qed

end
