(* ===== verification/SS_Models.thy ===== *)
theory SS_Models
  imports GoStrings "HOL-Library.Word"
begin

text \<open>
  The data of package \<open>internal/storespace\<close> (\<open>models.go\<close>): one \<open>record\<close> per struct, the string types
  with their named constants (collected in \<open>go_defs\<close>), and the error values of the package.  The Go
  string types are open (a JSON body may carry any string), so they stay strings.  A \<open>time.Time\<close>
  is a number of nanoseconds, a pointer an \<open>option\<close>, a \<open>float64\<close> its 64 bits.
\<close>

type_synonym time = int
type_synonym float64 = "64 word"

section \<open>String types and their constants\<close>

type_synonym area_type = string
definition AreaTypeTreatment :: area_type where [go_defs]: "AreaTypeTreatment = ''treatment''"
definition AreaTypeVIPTreatment :: area_type where [go_defs]: "AreaTypeVIPTreatment = ''vip_treatment''"
definition AreaTypeConsultation :: area_type where [go_defs]: "AreaTypeConsultation = ''consultation''"
definition AreaTypeBeauty :: area_type where [go_defs]: "AreaTypeBeauty = ''beauty''"

type_synonym area_source = string
definition AreaSourceManual :: area_source where [go_defs]: "AreaSourceManual = ''manual''"
definition AreaSourceDesignPlan :: area_source where [go_defs]: "AreaSourceDesignPlan = ''design_plan''"
definition AreaSourceVideoChannel :: area_source where [go_defs]: "AreaSourceVideoChannel = ''video_channel''"
definition AreaSourceMultiple :: area_source where [go_defs]: "AreaSourceMultiple = ''multiple''"

type_synonym area_status = string
definition AreaStatusCandidate :: area_status where [go_defs]: "AreaStatusCandidate = ''candidate''"
definition AreaStatusConfirmed :: area_status where [go_defs]: "AreaStatusConfirmed = ''confirmed''"

type_synonym design_plan_status = string
definition DesignPlanStatusNotUploaded :: design_plan_status where [go_defs]: "DesignPlanStatusNotUploaded = ''not_uploaded''"
definition DesignPlanStatusPendingRecognition :: design_plan_status where [go_defs]: "DesignPlanStatusPendingRecognition = ''pending_recognition''"
definition DesignPlanStatusPendingAnnotation :: design_plan_status where [go_defs]: "DesignPlanStatusPendingAnnotation = ''pending_annotation''"
definition DesignPlanStatusCompleted :: design_plan_status where [go_defs]: "DesignPlanStatusCompleted = ''completed''"

type_synonym overall_status = string
definition OverallStatusIncomplete :: overall_status where [go_defs]: "OverallStatusIncomplete = ''incomplete''"
definition OverallStatusPartial :: overall_status where [go_defs]: "OverallStatusPartial = ''partial''"
definition OverallStatusCompleted :: overall_status where [go_defs]: "OverallStatusCompleted = ''completed''"
definition OverallStatusException :: overall_status where [go_defs]: "OverallStatusException = ''exception''"

type_synonym recognition_status = string
definition RecognitionStatusNotStarted :: recognition_status where [go_defs]: "RecognitionStatusNotStarted = ''not_started''"
definition RecognitionStatusRunning :: recognition_status where [go_defs]: "RecognitionStatusRunning = ''running''"
definition RecognitionStatusFailed :: recognition_status where [go_defs]: "RecognitionStatusFailed = ''failed''"
definition RecognitionStatusCompleted :: recognition_status where [go_defs]: "RecognitionStatusCompleted = ''completed''"

type_synonym recorder_status = string
definition RecorderStatusOnline :: recorder_status where [go_defs]: "RecorderStatusOnline = ''online''"
definition RecorderStatusOffline :: recorder_status where [go_defs]: "RecorderStatusOffline = ''offline''"

type_synonym channel_status = string
definition ChannelStatusPendingRecognition :: channel_status where [go_defs]: "ChannelStatusPendingRecognition = ''pending_recognition''"
definition ChannelStatusPendingConfirmation :: channel_status where [go_defs]: "ChannelStatusPendingConfirmation = ''pending_confirmation''"
definition ChannelStatusConfirmedBusiness :: channel_status where [go_defs]: "ChannelStatusConfirmedBusiness = ''confirmed_business''"
definition ChannelStatusConfirmedNonBusiness :: channel_status where [go_defs]: "ChannelStatusConfirmedNonBusiness = ''confirmed_non_business''"
definition ChannelStatusRecognitionFailed :: channel_status where [go_defs]: "ChannelStatusRecognitionFailed = ''recognition_failed''"
definition ChannelStatusInactive :: channel_status where [go_defs]: "ChannelStatusInactive = ''inactive''"

type_synonym scene_type = string
definition SceneTypeTreatment :: scene_type where [go_defs]: "SceneTypeTreatment = ''treatment''"
definition SceneTypeVIPTreatment :: scene_type where [go_defs]: "SceneTypeVIPTreatment = ''vip_treatment''"
definition SceneTypeConsultation :: scene_type where [go_defs]: "SceneTypeConsultation = ''consultation''"
definition SceneTypeBeauty :: scene_type where [go_defs]: "SceneTypeBeauty = ''beauty''"
definition SceneTypeFrontDesk :: scene_type where [go_defs]: "SceneTypeFrontDesk = ''front_desk''"
definition SceneTypeCorridor :: scene_type where [go_defs]: "SceneTypeCorridor = ''corridor''"
definition SceneTypePassage :: scene_type where [go_defs]: "SceneTypePassage = ''passage''"
definition SceneTypeWaitingArea :: scene_type where [go_defs]: "SceneTypeWaitingArea = ''waiting_area''"
definition SceneTypeHall :: scene_type where [go_defs]: "SceneTypeHall = ''hall''"
definition SceneTypeEntrance :: scene_type where [go_defs]: "SceneTypeEntrance = ''entrance''"
definition SceneTypeStorage :: scene_type where [go_defs]: "SceneTypeStorage = ''storage''"
definition SceneTypePharmacy :: scene_type where [go_defs]: "SceneTypePharmacy = ''pharmacy''"
definition SceneTypeMachineRoom :: scene_type where [go_defs]: "SceneTypeMachineRoom = ''machine_room''"
definition SceneTypeUnknown :: scene_type where [go_defs]: "SceneTypeUnknown = ''unknown''"

section \<open>Structs\<close>

record area_box =
  bx_x :: float64
  bx_y :: float64
  bx_width :: float64
  bx_height :: float64

record area =
  ae_id :: int
  ae_store_id :: int
  ae_type :: area_type
  ae_number :: int
  ae_display_name :: string
  ae_source :: area_source
  ae_status :: area_status
  ae_box :: "area_box option"
  ae_created_at :: time
  ae_updated_at :: time

record design_plan =
  dp_id :: int
  dp_store_id :: int
  dp_upload_id :: string
  dp_pdf_file_name :: string
  dp_original_pdf_path :: string
  dp_preview_image_path :: string
  dp_thumbnail_path :: string
  dp_page_count :: int
  dp_recognition_status :: recognition_status
  dp_created_at :: time
  dp_updated_at :: time

record channel =
  ch_id :: int
  ch_recorder_id :: int
  ch_channel_no :: int
  ch_channel_name :: string
  ch_status :: channel_status
  ch_is_active :: bool
  ch_scene_type :: scene_type
  ch_area_type :: area_type
  ch_area_number :: int
  ch_bed_label :: string
  ch_area_note :: string
  ch_area_id :: int
  ch_recognition_attempts :: int
  ch_recognition_result :: string
  ch_thumbnail_url :: string
  ch_full_image_url :: string
  ch_full_image_expires_at :: "time option"
  ch_confirmed_at :: "time option"
  ch_created_at :: time
  ch_updated_at :: time

record recorder =
  rc_id :: int
  rc_store_id :: int
  rc_ezviz_account_id :: int
  rc_device_code :: string
  rc_status :: recorder_status
  rc_effective_channel_count :: int
  rc_last_scanned_at :: "time option"
  rc_channels :: "channel list"
  rc_created_at :: time
  rc_updated_at :: time

record ezviz_account =
  ea_id :: int
  ea_account_name :: string
  ea_status :: string
  ea_last_verified_at :: "time option"
  ea_created_at :: time
  ea_updated_at :: time

record store =
  st_id :: int
  st_city :: string
  st_name :: string
  st_short_name :: string
  st_normalized_name :: string
  st_external_org_id :: string
  st_can_view_monitor :: bool
  st_design_plan_status :: design_plan_status
  st_overall_status :: overall_status
  st_areas :: "area list"
  st_design_plans :: "design_plan list"
  st_recorders :: "recorder list"
  st_created_at :: time
  st_updated_at :: time

record store_filters =
  sf_query :: string
  sf_city :: string
  sf_page :: int
  sf_page_size :: int

record recorder_input =
  ri_ezviz_account_id :: int
  ri_device_code :: string

record create_store_input =
  cs_city :: string
  cs_name :: string
  cs_short_name :: string
  cs_external_org_id :: string
  cs_design_plan_upload_id :: string
  cs_recorders :: "recorder_input list"

record update_store_basic_info_input =
  ub_city :: string
  ub_name :: string
  ub_short_name :: string
  ub_external_org_id :: string

record create_ezviz_account_input =
  ca_account_name :: string

record add_recorder_input =
  ar_ezviz_account_id :: int
  ar_device_code :: string

record scanned_channel =
  sc_channel_no :: int
  sc_channel_name :: string
  sc_active :: bool

record channel_input =
  ci_channel_no :: int
  ci_channel_name :: string
  ci_is_active :: bool

record channel_snapshot_input =
  si_thumbnail_path :: string
  si_full_image_path :: string
  si_full_image_expires_at :: "time option"
  si_recognition_result :: string
  si_status :: channel_status
  si_scene_type :: scene_type
  si_area_type :: area_type
  si_area_number_text :: string
  si_area_note :: string
  si_count_attempt :: bool

record snapshot_diagnostics =
  sd_code :: string
  sd_stage :: string
  sd_asset_store :: string
  sd_snapshot_name :: string
  sd_snapshot_key :: string
  sd_exists :: bool
  sd_detail :: string

record channel_recognition_result =
  rr_scene_type :: string
  rr_area_type :: string
  rr_area_number :: string
  rr_card_text :: string
  rr_decision_source :: string
  rr_confidence :: string
  rr_needs_review :: bool
  rr_raw_notes :: string
  rr_provider :: string
  rr_raw_result :: string

record channel_confirmation_input =
  cc_kind :: string
  cc_area_type :: area_type
  cc_area_number :: string
  cc_bed_label :: string
  cc_area_note :: string
  cc_scene_type :: scene_type

record design_area_input =
  di_id :: int
  di_display_name :: string
  di_type :: area_type
  di_number_text :: string
  di_confidence :: string
  di_needs_review :: bool
  di_box :: "area_box option"

record save_design_plan_input =
  sp_upload_id :: string
  sp_pdf_file_name :: string
  sp_original_pdf_path :: string
  sp_preview_image_path :: string
  sp_thumbnail_path :: string
  sp_page_count :: int
  sp_recognition_result :: string
  sp_areas :: "design_area_input list"

record duplicate_check_request =
  dr_name :: string
  dr_exclude_store_id :: int

record duplicate_match =
  dm_id :: int
  dm_name :: string
  dm_short_name :: string
  dm_normalized_name :: string
  dm_reason :: string
  dm_overall_status :: overall_status
  dm_updated_at :: time

record duplicate_check_result =
  dc_exact_match :: "duplicate_match option"
  dc_similar_matches :: "duplicate_match list"

record area_lookup =
  al_store_id :: int
  al_type :: area_type
  al_number_text :: string
  al_source :: area_source

record store_list_item =
  li_id :: int
  li_city :: string
  li_name :: string
  li_short_name :: string
  li_external_org_id :: string
  li_can_view_monitor :: bool
  li_design_plan_status :: design_plan_status
  li_overall_status :: overall_status
  li_recorder_count :: int
  li_channel_count :: int
  li_channels_fully_confirmed :: bool
  li_treatment_count :: int
  li_consultation_count :: int
  li_beauty_count :: int
  li_area_count :: int
  li_updated_at :: time

record store_list_summary =
  ls_store_count :: int
  ls_treatment_count :: int
  ls_consultation_count :: int
  ls_beauty_count :: int

record store_list_result =
  lr_items :: "store_list_item list"
  lr_page :: int
  lr_page_size :: int
  lr_total :: int
  lr_summary :: store_list_summary
  lr_cities :: "string list"

record probe_recognize_channel_input =
  pi_channel_no :: int

record probe_recognize_channel_result =
  pr_channel :: "channel option"
  pr_active :: bool
  pr_message :: string

record channel_mapping_export =
  me_file_name :: string
  me_content :: string
  me_content_type :: string

record channel_mapping_export_row =
  er_index :: int
  er_city :: string
  er_store_name :: string
  er_external_org_id :: string
  er_recorder_code :: string
  er_channel_no :: int
  er_snapshot_path :: string
  er_area_type_label :: string
  er_number_or_note :: string

section \<open>Zero values\<close>

text \<open>A Go composite literal leaves the fields it does not name at their zero value.\<close>

definition area_zero :: area where
  "area_zero = \<lparr>ae_id = 0, ae_store_id = 0, ae_type = [], ae_number = 0, ae_display_name = [],
     ae_source = [], ae_status = [], ae_box = None, ae_created_at = 0, ae_updated_at = 0\<rparr>"

definition design_plan_zero :: design_plan where
  "design_plan_zero = \<lparr>dp_id = 0, dp_store_id = 0, dp_upload_id = [], dp_pdf_file_name = [],
     dp_original_pdf_path = [], dp_preview_image_path = [], dp_thumbnail_path = [],
     dp_page_count = 0, dp_recognition_status = [], dp_created_at = 0, dp_updated_at = 0\<rparr>"

definition channel_zero :: channel where
  "channel_zero = \<lparr>ch_id = 0, ch_recorder_id = 0, ch_channel_no = 0, ch_channel_name = [],
     ch_status = [], ch_is_active = False, ch_scene_type = [], ch_area_type = [],
     ch_area_number = 0, ch_bed_label = [], ch_area_note = [], ch_area_id = 0,
     ch_recognition_attempts = 0, ch_recognition_result = [], ch_thumbnail_url = [],
     ch_full_image_url = [], ch_full_image_expires_at = None, ch_confirmed_at = None,
     ch_created_at = 0, ch_updated_at = 0\<rparr>"

definition recorder_zero :: recorder where
  "recorder_zero = \<lparr>rc_id = 0, rc_store_id = 0, rc_ezviz_account_id = 0, rc_device_code = [],
     rc_status = [], rc_effective_channel_count = 0, rc_last_scanned_at = None, rc_channels = [],
     rc_created_at = 0, rc_updated_at = 0\<rparr>"

definition store_zero :: store where
  "store_zero = \<lparr>st_id = 0, st_city = [], st_name = [], st_short_name = [],
     st_normalized_name = [], st_external_org_id = [], st_can_view_monitor = False,
     st_design_plan_status = [], st_overall_status = [], st_areas = [], st_design_plans = [],
     st_recorders = [], st_created_at = 0, st_updated_at = 0\<rparr>"

definition store_list_item_zero :: store_list_item where
  "store_list_item_zero = \<lparr>li_id = 0, li_city = [], li_name = [], li_short_name = [],
     li_external_org_id = [], li_can_view_monitor = False, li_design_plan_status = [],
     li_overall_status = [], li_recorder_count = 0, li_channel_count = 0,
     li_channels_fully_confirmed = False, li_treatment_count = 0, li_consultation_count = 0,
     li_beauty_count = 0, li_area_count = 0, li_updated_at = 0\<rparr>"

definition channel_snapshot_input_zero :: channel_snapshot_input where
  "channel_snapshot_input_zero = \<lparr>si_thumbnail_path = [], si_full_image_path = [],
     si_full_image_expires_at = None, si_recognition_result = [], si_status = [],
     si_scene_type = [], si_area_type = [], si_area_number_text = [], si_area_note = [],
     si_count_attempt = False\<rparr>"

section \<open>Errors\<close>

text \<open>
  \<open>ValidationError\<close> carries its map from field names to messages as an association list that
  \<open>AList.update\<close> writes; \<open>OtherError\<close> is an error of a caller-supplied component (the device
  scanner, the recogniser, the object store), known by its text.
\<close>

type_synonym fields = "(string \<times> string) list"

datatype ss_error =
    ErrNotFound
  | ErrNotImplemented
  | ErrCRMDirectoryReadOnly
  | ValidationError fields
  | OtherError string

definition fields_result :: "fields \<Rightarrow> ss_error + unit" where
  "fields_result fs = (if fs \<noteq> [] then Inl (ValidationError fs) else Inr ())"

lemma fields_result_ok [simp]: "fields_result fs = Inr u \<longleftrightarrow> fs = []"
  by (simp add: fields_result_def)

lemma fields_result_err: "fields_result fs = Inl e \<longleftrightarrow> fs \<noteq> [] \<and> e = ValidationError fs"
  by (auto simp: fields_result_def)

end
