(* ===== verification/SS_Validation.thy ===== *)
theory SS_Validation
  imports SS_Models
begin

text \<open>
  Input validation (\<open>validation.go\<close>) and the comparison of store names (\<open>duplicate.go\<close>) of package
  \<open>internal/storespace\<close>.  A validator collects messages per field and fails when it has any;
  the messages are the source's own, as code points.
\<close>

section \<open>Messages\<close>

definition msg_name_required :: string where
  "msg_name_required =
     utf8 [0x95E8, 0x5E97, 0x540D, 0x79F0, 0x5FC5, 0x586B]"

definition msg_city_required :: string where
  "msg_city_required =
     utf8 [0x57CE, 0x5E02, 0x5FC5, 0x586B]"

definition msg_max_recorders :: string where
  "msg_max_recorders =
     utf8 [0x5355, 0x95E8, 0x5E97, 0x6700, 0x591A, 0x20, 0x33, 0x20, 0x53F0, 0x5F55, 0x50CF,
     0x673A]"

definition msg_code_repeated :: string where
  "msg_code_repeated =
     utf8 [0x540C, 0x4E00, 0x95E8, 0x5E97, 0x5185, 0x5F55, 0x50CF, 0x673A, 0x8BBE, 0x5907,
     0x7F16, 0x7801, 0x4E0D, 0x80FD, 0x91CD, 0x590D]"

definition msg_resources :: string where
  "msg_resources =
     utf8 [0x8BF7, 0x81F3, 0x5C11, 0x4E0A, 0x4F20, 0x8BBE, 0x8BA1, 0x56FE, 0x6216, 0x586B,
     0x5199, 0x4E00, 0x4E2A, 0x5F55, 0x50CF, 0x673A, 0x8BBE, 0x5907, 0x7F16, 0x7801]"

definition msg_account_name_required :: string where
  "msg_account_name_required =
     utf8 [0x8D26, 0x53F7, 0x540D, 0x79F0, 0x5FC5, 0x586B]"

definition msg_code_required :: string where
  "msg_code_required =
     utf8 [0x5F55, 0x50CF, 0x673A, 0x8BBE, 0x5907, 0x7F16, 0x7801, 0x5FC5, 0x586B]"

definition msg_upload_first :: string where
  "msg_upload_first =
     utf8 [0x8BF7, 0x5148, 0x4E0A, 0x4F20, 0x8BBE, 0x8BA1, 0x56FE]"

definition msg_areas_required :: string where
  "msg_areas_required =
     utf8 [0x81F3, 0x5C11, 0x9700, 0x8981, 0x7EF4, 0x62A4, 0x20, 0x31, 0x20, 0x4E2A, 0x4E1A,
     0x52A1, 0x533A, 0x57DF]"

definition msg_area_type :: string where
  "msg_area_type =
     utf8 [0x533A, 0x57DF, 0x7C7B, 0x578B, 0x53EA, 0x80FD, 0x662F, 0x20, 0x74, 0x72, 0x65, 0x61,
     0x74, 0x6D, 0x65, 0x6E, 0x74, 0x3001, 0x76, 0x69, 0x70, 0x5F, 0x74, 0x72, 0x65, 0x61, 0x74,
     0x6D, 0x65, 0x6E, 0x74, 0x3001, 0x63, 0x6F, 0x6E, 0x73, 0x75, 0x6C, 0x74, 0x61, 0x74, 0x69,
     0x6F, 0x6E, 0x3001, 0x62, 0x65, 0x61, 0x75, 0x74, 0x79]"

definition msg_number_required :: string where
  "msg_number_required =
     utf8 [0x533A, 0x57DF, 0x7F16, 0x53F7, 0x5FC5, 0x586B]"

definition msg_number_digits :: string where
  "msg_number_digits =
     utf8 [0x533A, 0x57DF, 0x7F16, 0x53F7, 0x53EA, 0x80FD, 0x662F, 0x6570, 0x5B57]"

definition msg_number_positive :: string where
  "msg_number_positive =
     utf8 [0x533A, 0x57DF, 0x7F16, 0x53F7, 0x5FC5, 0x987B, 0x662F, 0x6B63, 0x6574, 0x6570]"

definition msg_box :: string where
  "msg_box =
     utf8 [0x9AD8, 0x4EAE, 0x6846, 0x4E0D, 0x80FD, 0x4E3A, 0x7A7A]"

definition msg_number_repeated :: string where
  "msg_number_repeated =
     utf8 [0x540C, 0x7C7B, 0x578B, 0x4E0B, 0x7F16, 0x53F7, 0x4E0D, 0x80FD, 0x91CD, 0x590D]"

definition msg_store_id_required :: string where
  "msg_store_id_required =
     utf8 [0x95E8, 0x5E97, 0x20, 0x49, 0x44, 0x20, 0x5FC5, 0x586B]"

definition msg_source :: string where
  "msg_source =
     utf8 [0x533A, 0x57DF, 0x6765, 0x6E90, 0x53EA, 0x80FD, 0x662F, 0x20, 0x6D, 0x61, 0x6E, 0x75,
     0x61, 0x6C, 0x3001, 0x64, 0x65, 0x73, 0x69, 0x67, 0x6E, 0x5F, 0x70, 0x6C, 0x61, 0x6E,
     0x3001, 0x76, 0x69, 0x64, 0x65, 0x6F, 0x5F, 0x63, 0x68, 0x61, 0x6E, 0x6E, 0x65, 0x6C,
     0x3001, 0x6D, 0x75, 0x6C, 0x74, 0x69, 0x70, 0x6C, 0x65]"

definition msg_kind :: string where
  "msg_kind =
     utf8 [0x786E, 0x8BA4, 0x7C7B, 0x578B, 0x53EA, 0x80FD, 0x662F, 0x20, 0x62, 0x75, 0x73, 0x69,
     0x6E, 0x65, 0x73, 0x73, 0x20, 0x6216, 0x20, 0x6E, 0x6F, 0x6E, 0x5F, 0x62, 0x75, 0x73, 0x69,
     0x6E, 0x65, 0x73, 0x73]"

definition msg_business_type_required :: string where
  "msg_business_type_required =
     utf8 [0x4E1A, 0x52A1, 0x533A, 0x57DF, 0x7C7B, 0x578B, 0x5FC5, 0x586B]"

definition msg_scene :: string where
  "msg_scene =
     utf8 [0x573A, 0x666F, 0x7C7B, 0x578B, 0x4E0D, 0x5408, 0x6CD5]"

definition msg_note_long :: string where
  "msg_note_long =
     utf8 [0x5907, 0x6CE8, 0x4E0D, 0x80FD, 0x8D85, 0x8FC7, 0x20, 0x34, 0x30, 0x20, 0x4E2A,
     0x5B57]"

section \<open>Helpers\<close>

definition validAreaType :: "area_type \<Rightarrow> bool" where
  "validAreaType value \<longleftrightarrow>
     value = AreaTypeTreatment \<or> value = AreaTypeVIPTreatment \<or>
     value = AreaTypeConsultation \<or> value = AreaTypeBeauty"

definition validAreaSource :: "area_source \<Rightarrow> bool" where
  "validAreaSource value \<longleftrightarrow>
     value = AreaSourceManual \<or> value = AreaSourceDesignPlan \<or>
     value = AreaSourceVideoChannel \<or> value = AreaSourceMultiple"

definition validSceneType :: "scene_type \<Rightarrow> bool" where
  "validSceneType value \<longleftrightarrow> value \<in> set
     [SceneTypeTreatment, SceneTypeVIPTreatment, SceneTypeConsultation, SceneTypeBeauty,
      SceneTypeFrontDesk, SceneTypeCorridor, SceneTypePassage, SceneTypeWaitingArea,
      SceneTypeHall, SceneTypeEntrance, SceneTypeStorage, SceneTypePharmacy,
      SceneTypeMachineRoom, SceneTypeUnknown]"

definition onlyDigits :: "string \<Rightarrow> bool" where
  "onlyDigits value \<longleftrightarrow> value \<noteq> [] \<and> list_all rune_is_digit (runes value)"

definition normalizeDeviceCode :: "string \<Rightarrow> string" where
  "normalizeDeviceCode value = to_upper (trim_space value)"

definition mustPositiveInt :: "string \<Rightarrow> int" where
  "mustPositiveInt value =
     (case atoi (trim_space value) of
        (_, Some _) \<Rightarrow> 0
      | (number, None) \<Rightarrow> if number < 0 then 0 else number)"

section \<open>Validators\<close>

definition validateStoreBasicFields :: "string \<Rightarrow> string \<Rightarrow> fields \<Rightarrow> fields" where
  "validateStoreBasicFields city name fs0 =
     (let fs1 = (if trim_space name = [] then AList.update ''name'' msg_name_required fs0 else fs0)
      in if trim_space city = [] then AList.update ''city'' msg_city_required fs1 else fs1)"

definition recorder_prefix :: "nat \<Rightarrow> string" where
  "recorder_prefix index = ''recorders['' @ itoa (int index) @ '']''"

text \<open>The loop over \<open>input.Recorders\<close>: whether a code was seen at all, the codes seen, the messages.\<close>

fun validate_recorders ::
  "nat \<Rightarrow> recorder_input list \<Rightarrow> bool \<Rightarrow> string list \<Rightarrow> fields \<Rightarrow> bool \<times> fields" where
  "validate_recorders index [] hasRecorder seen fs = (hasRecorder, fs)"
| "validate_recorders index (recorder # rest) hasRecorder seen fs =
     (let code = normalizeDeviceCode (ri_device_code recorder) in
      if code = [] then validate_recorders (Suc index) rest hasRecorder seen fs
      else validate_recorders (Suc index) rest True (code # seen)
             (if code \<in> set seen
              then AList.update (recorder_prefix index @ ''.device_code'') msg_code_repeated fs
              else fs))"

definition validateCreateStoreInput :: "create_store_input \<Rightarrow> ss_error + unit" where
  "validateCreateStoreInput input =
     (let fs1 = validateStoreBasicFields (cs_city input) (cs_name input) [];
          hasDesignPlan = (trim_space (cs_design_plan_upload_id input) \<noteq> []);
          fs2 = (if 3 < length (cs_recorders input)
                 then AList.update ''recorders'' msg_max_recorders fs1 else fs1);
          (hasRecorder, fs3) = validate_recorders 0 (cs_recorders input) False [] fs2;
          fs4 = (if \<not> hasDesignPlan \<and> \<not> hasRecorder
                 then AList.update ''resources'' msg_resources fs3 else fs3)
      in fields_result fs4)"

definition validateUpdateStoreBasicInfoInput ::
  "update_store_basic_info_input \<Rightarrow> ss_error + unit" where
  "validateUpdateStoreBasicInfoInput input =
     fields_result (validateStoreBasicFields (ub_city input) (ub_name input) [])"

definition validateCreateEzvizAccountInput :: "create_ezviz_account_input \<Rightarrow> ss_error + unit" where
  "validateCreateEzvizAccountInput input =
     fields_result (if trim_space (ca_account_name input) = []
                    then AList.update ''account_name'' msg_account_name_required [] else [])"

definition validateAddRecorderInput :: "add_recorder_input \<Rightarrow> ss_error + unit" where
  "validateAddRecorderInput input =
     fields_result (if normalizeDeviceCode (ar_device_code input) = []
                    then AList.update ''device_code'' msg_code_required [] else [])"

definition area_prefix :: "nat \<Rightarrow> string" where
  "area_prefix index = ''areas['' @ itoa (int index) @ '']''"

text \<open>One round of the loop over \<open>input.Areas\<close>: the keys seen so far and the messages.\<close>

definition validate_design_area ::
  "nat \<Rightarrow> design_area_input \<Rightarrow> string list \<times> fields \<Rightarrow> string list \<times> fields" where
  "validate_design_area index ar acc =
     (let (seen, fs0) = acc;
          prefix = area_prefix index;
          fs1 = (if \<not> validAreaType (di_type ar)
                 then AList.update (prefix @ ''.area_type'') msg_area_type fs0 else fs0);
          numberText = trim_space (di_number_text ar);
          number = mustPositiveInt numberText;
          fs2 = (if numberText = [] then
                   (if di_type ar \<noteq> AreaTypeVIPTreatment
                    then AList.update (prefix @ ''.area_number'') msg_number_required fs1 else fs1)
                 else if \<not> onlyDigits (di_number_text ar)
                 then AList.update (prefix @ ''.area_number'') msg_number_digits fs1
                 else if number \<le> 0
                 then AList.update (prefix @ ''.area_number'') msg_number_positive fs1
                 else fs1);
          fs3 = (if di_box ar = None then AList.update (prefix @ ''.box'') msg_box fs2 else fs2)
      in if di_type ar \<noteq> [] \<and> (0 < number \<or> (di_type ar = AreaTypeVIPTreatment \<and> numberText = []))
         then let key = di_type ar @ '':'' @ itoa number in
              (key # seen,
               if key \<in> set seen
               then AList.update (prefix @ ''.area_number'') msg_number_repeated fs3 else fs3)
         else (seen, fs3))"

fun validate_design_areas ::
  "nat \<Rightarrow> design_area_input list \<Rightarrow> string list \<times> fields \<Rightarrow> string list \<times> fields" where
  "validate_design_areas index [] acc = acc"
| "validate_design_areas index (ar # rest) acc =
     validate_design_areas (Suc index) rest (validate_design_area index ar acc)"

definition validateSaveDesignPlanInput :: "save_design_plan_input \<Rightarrow> ss_error + unit" where
  "validateSaveDesignPlanInput input =
     (let fs1 = (if trim_space (sp_preview_image_path input) = [] \<and> trim_space (sp_upload_id input) = []
                 then AList.update ''design_plan'' msg_upload_first [] else []);
          fs2 = (if sp_areas input = [] then AList.update ''areas'' msg_areas_required fs1 else fs1);
          (_, fs3) = validate_design_areas 0 (sp_areas input) ([], fs2)
      in fields_result fs3)"

definition validateAreaLookup :: "area_lookup \<Rightarrow> ss_error + int" where
  "validateAreaLookup input =
     (let fs1 = (if al_store_id input \<le> 0
                 then AList.update ''store_id'' msg_store_id_required [] else []);
          fs2 = (if \<not> validAreaType (al_type input)
                 then AList.update ''area_type'' msg_area_type fs1 else fs1);
          numberText = trim_space (al_number_text input);
          fs3 = (if numberText = [] then
                   (if al_type input \<noteq> AreaTypeVIPTreatment
                    then AList.update ''area_number'' msg_number_required fs2 else fs2)
                 else if \<not> onlyDigits numberText
                 then AList.update ''area_number'' msg_number_digits fs2 else fs2);
          fs4 = (if al_source input \<noteq> [] \<and> \<not> validAreaSource (al_source input)
                 then AList.update ''source'' msg_source fs3 else fs3)
      in if fs4 \<noteq> [] then Inl (ValidationError fs4)
         else if numberText = [] \<and> al_type input = AreaTypeVIPTreatment then Inr 0
         else case atoi numberText of
                (_, Some _) \<Rightarrow> Inl (ValidationError [(''area_number'', msg_number_positive)])
              | (number, None) \<Rightarrow>
                  if number \<le> 0 then Inl (ValidationError [(''area_number'', msg_number_positive)])
                  else Inr number)"

definition validateChannelConfirmationInput :: "channel_confirmation_input \<Rightarrow> ss_error + int" where
  "validateChannelConfirmationInput input =
     (let kind = trim_space (cc_kind input);
          fs1 = (if kind \<noteq> [] \<and> kind \<noteq> ''business'' \<and> kind \<noteq> ''non_business''
                 then AList.update ''kind'' msg_kind [] else [])
      in if cc_area_type input = [] then
           let fs2 = (if kind = ''business''
                      then AList.update ''area_type'' msg_business_type_required fs1 else fs1);
               fs3 = (if cc_scene_type input \<noteq> [] \<and> \<not> validSceneType (cc_scene_type input)
                      then AList.update ''scene_type'' msg_scene fs2 else fs2);
               fs4 = (if 40 < length (runes (trim_space (cc_area_note input)))
                      then AList.update ''area_note'' msg_note_long fs3 else fs3)
           in if fs4 \<noteq> [] then Inl (ValidationError fs4) else Inr 0
         else
           let fs2 = (if \<not> validAreaType (cc_area_type input)
                      then AList.update ''area_type'' msg_area_type fs1 else fs1);
               numberText = trim_space (cc_area_number input);
               fs3 = (if numberText = [] then
                        (if cc_area_type input \<noteq> AreaTypeVIPTreatment
                         then AList.update ''area_number'' msg_number_required fs2 else fs2)
                      else if \<not> onlyDigits numberText
                      then AList.update ''area_number'' msg_number_digits fs2 else fs2)
           in if fs3 \<noteq> [] then Inl (ValidationError fs3)
              else if numberText = [] \<and> cc_area_type input = AreaTypeVIPTreatment then Inr 0
              else case atoi numberText of
                     (_, Some _) \<Rightarrow> Inl (ValidationError [(''area_number'', msg_number_positive)])
                   | (number, None) \<Rightarrow>
                       if number \<le> 0
                       then Inl (ValidationError [(''area_number'', msg_number_positive)])
                       else Inr number)"

section \<open>Store names\<close>

text \<open>The characters \<open>NormalizeStoreName\<close> drops, and the words it removes, in its order.\<close>

definition store_name_skip :: "int \<Rightarrow> bool" where
  "store_name_skip r \<longleftrightarrow>
     rune_is_space r \<or> r = 0x2D \<or> r = 0x5F \<or> r = 0xB7 \<or> r = 0x30FB \<or>
     r = 0xFF08 \<or> r = 0x28 \<or> r = 0xFF09 \<or> r = 0x29"

definition store_name_suffixes :: "string list" where
  "store_name_suffixes =
     [utf8 [0x65B0, 0x6C27, 0x9752, 0x6625], utf8 [0x95E8, 0x5E97],
      utf8 [0x5E97], utf8 [0x5206, 0x9662], utf8 [0x9662]]"

definition NormalizeStoreName :: "string \<Rightarrow> string" where
  "NormalizeStoreName name =
     fold (\<lambda>suffix normalized. replace_all normalized suffix [])
       store_name_suffixes
       (utf8 (filter (\<lambda>r. \<not> store_name_skip r) (runes (trim_space (to_lower name)))))"

definition IsSimilarStoreName :: "string \<Rightarrow> string \<Rightarrow> bool" where
  "IsSimilarStoreName left0 right0 =
     (let left = NormalizeStoreName left0; right = NormalizeStoreName right0 in
      if left = [] \<or> right = [] \<or> left = right then left = right
      else contains left right \<or> contains right left)"

definition MatchesStoreSearch :: "string \<Rightarrow> string \<Rightarrow> string \<Rightarrow> bool" where
  "MatchesStoreSearch name normalizedName query0 =
     (let query = trim_space query0 in
      if query = [] then True
      else
        let rawName = to_lower (replace_all name '' '' []);
            rawQuery = to_lower (replace_all query '' '' [])
        in if rawQuery \<noteq> [] \<and> contains rawName rawQuery then True
           else let normalizedQuery = NormalizeStoreName query in
                normalizedQuery \<noteq> [] \<and> contains normalizedName normalizedQuery)"

section \<open>Area numbers\<close>

text \<open>
  The specification of an accepted number text: empty for a VIP treatment room (number 0), else a
  run of ASCII digits whose value is positive and fits in 64 bits.
\<close>

definition accepted_number :: "area_type \<Rightarrow> string \<Rightarrow> int \<Rightarrow> bool" where
  "accepted_number t text n \<longleftrightarrow>
     (if text = [] then t = AreaTypeVIPTreatment \<and> n = 0
      else all_digit_chars text \<and> n = dec_value text \<and> 0 < n \<and> n \<le> max_int64)"

lemma onlyDigits_no_sign: "onlyDigits s \<Longrightarrow> s \<noteq> [] \<and> byte (hd s) \<noteq> 43 \<and> byte (hd s) \<noteq> 45"
  by (cases s) (auto simp: onlyDigits_def rune_is_digit_ascii)

lemma all_digit_chars_onlyDigits: "all_digit_chars s \<Longrightarrow> onlyDigits s"
  using all_digit_chars_ascii [of s]
  by (auto simp: onlyDigits_def all_digit_chars_def runes_ascii list_all_iff is_digit_char_def
      rune_is_digit_ascii)

lemma onlyDigits_parse:
  "onlyDigits s \<Longrightarrow> parse_int s = (n, None) \<longleftrightarrow> all_digit_chars s \<and> n = dec_value s \<and> n \<le> max_int64"
  using onlyDigits_no_sign [of s] parse_int_digits_iff by blast

lemma parse_int_Nil: "parse_int [] = (0, Some ErrSyntax)"
  by (simp add: parse_int_def parse_uint_def)

text \<open>The branch structure the three number checks share.\<close>

lemma number_check:
  "(if numberText = [] \<and> t = AreaTypeVIPTreatment then Inr 0
    else case atoi numberText of
           (_, Some _) \<Rightarrow> Inl e
         | (number, None) \<Rightarrow> if number \<le> 0 then Inl e else Inr number) = Inr n \<Longrightarrow>
   numberText = [] \<or> onlyDigits numberText \<Longrightarrow> accepted_number t numberText n"
proof (cases "numberText = []")
  case True
  moreover assume "(if numberText = [] \<and> t = AreaTypeVIPTreatment then Inr 0
    else case atoi numberText of
           (_, Some _) \<Rightarrow> Inl e
         | (number, None) \<Rightarrow> if number \<le> 0 then Inl e else Inr number) = Inr n"
  ultimately show ?thesis
    by (simp add: accepted_number_def parse_int_Nil split: if_splits)
next
  case False
  assume "(if numberText = [] \<and> t = AreaTypeVIPTreatment then Inr 0
    else case atoi numberText of
           (_, Some _) \<Rightarrow> Inl e
         | (number, None) \<Rightarrow> if number \<le> 0 then Inl e else Inr number) = Inr n"
    and "numberText = [] \<or> onlyDigits numberText"
  with False have "parse_int numberText = (n, None)" "0 < n" "onlyDigits numberText"
    by (auto split: prod.splits option.splits if_splits)
  with False show ?thesis by (simp add: accepted_number_def onlyDigits_parse)
qed

lemma number_check_conv:
  assumes "accepted_number t numberText n"
  shows "(if numberText = [] \<and> t = AreaTypeVIPTreatment then Inr 0
     else case atoi numberText of
           (_, Some _) \<Rightarrow> Inl e
         | (number, None) \<Rightarrow> if number \<le> 0 then Inl e else Inr number) = Inr n"
proof (cases "numberText = []")
  case False
  with assms have "onlyDigits numberText" and d: "all_digit_chars numberText"
    "n = dec_value numberText" "0 < n" "n \<le> max_int64"
    by (auto simp: accepted_number_def all_digit_chars_onlyDigits)
  then have "parse_int numberText = (n, None)" by (simp add: onlyDigits_parse)
  with False d(3) show ?thesis by simp
qed (use assms in \<open>simp add: accepted_number_def\<close>)

lemma accepted_number_text:
  "accepted_number t text n \<Longrightarrow> (text = [] \<and> t = AreaTypeVIPTreatment) \<or> (text \<noteq> [] \<and> onlyDigits text)"
  by (auto simp: accepted_number_def all_digit_chars_onlyDigits split: if_splits)

lemma accepted_number_range: "accepted_number t text n \<Longrightarrow> 0 \<le> n \<and> n \<le> max_int64"
  by (auto simp: accepted_number_def max_int64_def split: if_splits)

text \<open>Printing an accepted number and reading it back.\<close>

lemma itoa_dec_value:
  assumes "0 < n" "n \<le> max_int64"
  shows "all_digit_chars (itoa n) \<and> dec_value (itoa n) = n"
proof -
  have d: "all_digit_chars (itoa n)" using assms by (simp add: all_digit_chars_itoa)
  moreover have "parse_int (itoa n) = (n, None)"
    using assms by (intro parse_int_itoa) (simp_all add: min_int64_def)
  ultimately show ?thesis
    using onlyDigits_parse [OF all_digit_chars_onlyDigits [OF d], of n] by simp
qed

lemma accepted_number_itoa:
  "0 < n \<Longrightarrow> n \<le> max_int64 \<Longrightarrow> accepted_number t (itoa n) n"
  using itoa_dec_value [of n] by (simp add: accepted_number_def)

section \<open>What the validators accept\<close>

lemma alist_if_eq_Nil [simp]: "(if b then AList.update k v fs else fs) = [] \<longleftrightarrow> \<not> b \<and> fs = []"
  by simp

lemma validateStoreBasicFields_Nil:
  "validateStoreBasicFields city name fs = [] \<longleftrightarrow>
     trim_space name \<noteq> [] \<and> trim_space city \<noteq> [] \<and> fs = []"
  by (auto simp: validateStoreBasicFields_def Let_def)

definition recorder_codes :: "recorder_input list \<Rightarrow> string list" where
  "recorder_codes rs = filter (\<lambda>c. c \<noteq> []) (map (normalizeDeviceCode \<circ> ri_device_code) rs)"

lemma recorder_codes_simps [simp]:
  "recorder_codes [] = []"
  "recorder_codes (r # rs) =
     (if normalizeDeviceCode (ri_device_code r) = [] then recorder_codes rs
      else normalizeDeviceCode (ri_device_code r) # recorder_codes rs)"
  by (simp_all add: recorder_codes_def)

lemma fst_validate_recorders:
  "fst (validate_recorders i rs h seen fs) \<longleftrightarrow> h \<or> recorder_codes rs \<noteq> []"
  by (induction i rs h seen fs rule: validate_recorders.induct) (auto simp: Let_def)

lemma snd_validate_recorders:
  "snd (validate_recorders i rs h seen fs) = [] \<longleftrightarrow>
     fs = [] \<and> distinct (recorder_codes rs) \<and> set (recorder_codes rs) \<inter> set seen = {}"
  by (induction i rs h seen fs rule: validate_recorders.induct) (auto simp: Let_def)

lemma validateCreateStoreInput_conv:
  "validateCreateStoreInput input = Inr () \<longleftrightarrow>
     trim_space (cs_name input) \<noteq> [] \<and> trim_space (cs_city input) \<noteq> [] \<and>
     length (cs_recorders input) \<le> 3 \<and> distinct (recorder_codes (cs_recorders input)) \<and>
     (trim_space (cs_design_plan_upload_id input) \<noteq> [] \<or> recorder_codes (cs_recorders input) \<noteq> [])"
proof -
  obtain h fs where v: "validate_recorders 0 (cs_recorders input) False []
      (if 3 < length (cs_recorders input)
       then AList.update ''recorders'' msg_max_recorders
              (validateStoreBasicFields (cs_city input) (cs_name input) [])
       else validateStoreBasicFields (cs_city input) (cs_name input) []) = (h, fs)"
    by fastforce
  have "h \<longleftrightarrow> recorder_codes (cs_recorders input) \<noteq> []"
    using arg_cong [OF v, of fst] by (simp add: fst_validate_recorders)
  moreover have "fs = [] \<longleftrightarrow> length (cs_recorders input) \<le> 3 \<and>
      trim_space (cs_name input) \<noteq> [] \<and> trim_space (cs_city input) \<noteq> [] \<and>
      distinct (recorder_codes (cs_recorders input))"
    using arg_cong [OF v, of snd]
    unfolding snd_conv snd_validate_recorders [of 0, symmetric]
    by (subst (asm) eq_commute) (auto simp: snd_validate_recorders validateStoreBasicFields_Nil)
  ultimately show ?thesis
    unfolding validateCreateStoreInput_def Let_def v
    by (auto simp: v)
qed

text \<open>
  \<open>validateCreateStoreInput\<close> accepts an input exactly when name and city are not blank, there are
  at most three recorders, no two recorders share a non-empty normalised device code, and the store
  comes with a design plan or with at least one device code.
\<close>

theorem validateCreateStoreInput_iff:
  "validateCreateStoreInput input = Inr () \<longleftrightarrow>
     trim_space (cs_name input) \<noteq> [] \<and> trim_space (cs_city input) \<noteq> [] \<and>
     length (cs_recorders input) \<le> 3 \<and> distinct (recorder_codes (cs_recorders input)) \<and>
     (trim_space (cs_design_plan_upload_id input) \<noteq> [] \<or> recorder_codes (cs_recorders input) \<noteq> [])"
  by (rule validateCreateStoreInput_conv)

lemma validateCreateStoreInput_iff_witness:
  "validateCreateStoreInput \<lparr>cs_city = ''Beijing'', cs_name = ''A1'', cs_short_name = [],
     cs_external_org_id = [], cs_design_plan_upload_id = [],
     cs_recorders = [\<lparr>ri_ezviz_account_id = 1, ri_device_code = '' abc ''\<rparr>]\<rparr> = Inr ()"
  unfolding validateCreateStoreInput_iff by code_simp

text \<open>
  \<open>validateAreaLookup\<close> returns the number \<open>n\<close> exactly when the store id is positive, the type is
  one of the four, the source is absent or known, and the trimmed text is an accepted number with
  value \<open>n\<close>; a text of digits outside ASCII is rejected although \<open>onlyDigits\<close> lets it through.
\<close>

theorem validateAreaLookup_iff:
  "validateAreaLookup input = Inr n \<longleftrightarrow>
     0 < al_store_id input \<and> validAreaType (al_type input) \<and>
     (al_source input = [] \<or> validAreaSource (al_source input)) \<and>
     accepted_number (al_type input) (trim_space (al_number_text input)) n"
    (is "?lhs \<longleftrightarrow> ?rhs")
proof
  assume l: ?lhs
  then have c: "0 < al_store_id input" "validAreaType (al_type input)"
    "al_source input = [] \<or> validAreaSource (al_source input)"
    "trim_space (al_number_text input) = [] \<or> onlyDigits (trim_space (al_number_text input))"
    by (auto simp: validateAreaLookup_def Let_def split: if_splits)
  from l have "accepted_number (al_type input) (trim_space (al_number_text input)) n"
    by (intro number_check [OF _ c(4)]) (auto simp: validateAreaLookup_def Let_def split: if_splits)
  with c show ?rhs by blast
next
  assume r: ?rhs
  note t = accepted_number_text [OF conjunct2 [OF conjunct2 [OF conjunct2 [OF r]]]]
  show ?lhs
    unfolding validateAreaLookup_def Let_def
    using r t number_check_conv [of "al_type input" "trim_space (al_number_text input)" n]
    by auto
qed

text \<open>The two shapes of a confirmation that \<open>validateChannelConfirmationInput\<close> accepts.\<close>

definition confirmation_ok :: "channel_confirmation_input \<Rightarrow> int \<Rightarrow> bool" where
  "confirmation_ok input n \<longleftrightarrow>
     trim_space (cc_kind input) \<in> {[], ''business'', ''non_business''} \<and>
     (if cc_area_type input = []
      then trim_space (cc_kind input) \<noteq> ''business'' \<and>
           (cc_scene_type input = [] \<or> validSceneType (cc_scene_type input)) \<and>
           length (runes (trim_space (cc_area_note input))) \<le> 40 \<and> n = 0
      else validAreaType (cc_area_type input) \<and>
           accepted_number (cc_area_type input) (trim_space (cc_area_number input)) n)"

lemma validateChannelConfirmationInput_conv:
  "validateChannelConfirmationInput input = Inr n \<longleftrightarrow> confirmation_ok input n" (is "?lhs \<longleftrightarrow> ?rhs")
proof (cases "cc_area_type input = []")
  case True
  then show ?thesis
    by (auto simp: validateChannelConfirmationInput_def confirmation_ok_def Let_def)
next
  case False
  let ?t = "trim_space (cc_area_number input)"
  show ?thesis
  proof
    assume l: ?lhs
    then have c: "trim_space (cc_kind input) \<in> {[], ''business'', ''non_business''}"
      "validAreaType (cc_area_type input)" "?t = [] \<or> onlyDigits ?t"
      using False by (auto simp: validateChannelConfirmationInput_def Let_def split: if_splits)
    from l False have "accepted_number (cc_area_type input) ?t n"
      by (intro number_check [OF _ c(3)])
        (auto simp: validateChannelConfirmationInput_def Let_def split: if_splits)
    with c False show ?rhs by (simp add: confirmation_ok_def)
  next
    assume r: ?rhs
    then have a: "accepted_number (cc_area_type input) ?t n" and v: "validAreaType (cc_area_type input)"
      and k: "trim_space (cc_kind input) \<in> {[], ''business'', ''non_business''}"
      using False by (simp_all add: confirmation_ok_def)
    show ?lhs
      unfolding validateChannelConfirmationInput_def Let_def
      using False v k accepted_number_text [OF a] number_check_conv [OF a] by auto
  qed
qed

text \<open>
  \<open>validateChannelConfirmationInput\<close> returns \<open>n\<close> exactly for a well-formed confirmation: without an
  area type, not of kind business, with a known scene and a note of at most 40 code points; with an
  area type, one of the four and with an accepted number.
\<close>

theorem validateChannelConfirmationInput_iff:
  "validateChannelConfirmationInput input = Inr n \<longleftrightarrow> confirmation_ok input n"
  by (rule validateChannelConfirmationInput_conv)

section \<open>Design plans\<close>

definition design_area_key :: "design_area_input \<Rightarrow> string" where
  "design_area_key ar = di_type ar @ '':'' @ itoa (mustPositiveInt (trim_space (di_number_text ar)))"

definition design_area_ok :: "design_area_input \<Rightarrow> bool" where
  "design_area_ok ar \<longleftrightarrow>
     validAreaType (di_type ar) \<and> di_box ar \<noteq> None \<and>
     (trim_space (di_number_text ar) = [] \<and> di_type ar = AreaTypeVIPTreatment \<or>
      trim_space (di_number_text ar) \<noteq> [] \<and> onlyDigits (di_number_text ar) \<and>
      0 < mustPositiveInt (trim_space (di_number_text ar)))"

lemma design_area_ok_keyed:
  "design_area_ok ar \<Longrightarrow>
     di_type ar \<noteq> [] \<and>
     (0 < mustPositiveInt (trim_space (di_number_text ar)) \<or>
      (di_type ar = AreaTypeVIPTreatment \<and> trim_space (di_number_text ar) = []))"
  by (auto simp: design_area_ok_def validAreaType_def go_defs)

lemma validate_design_area_Nil:
  "snd (validate_design_area i ar (seen, fs)) = [] \<longleftrightarrow>
     fs = [] \<and> design_area_ok ar \<and> design_area_key ar \<notin> set seen"
  by (auto simp: validate_design_area_def Let_def design_area_ok_def design_area_key_def
      validAreaType_def go_defs not_le)

lemma fst_validate_design_area:
  "design_area_ok ar \<Longrightarrow> fst (validate_design_area i ar (seen, fs)) = design_area_key ar # seen"
  using design_area_ok_keyed [of ar]
  by (auto simp: validate_design_area_def Let_def design_area_key_def)

lemma validate_design_areas_Nil:
  "snd (validate_design_areas i ars acc) = [] \<longleftrightarrow>
     snd acc = [] \<and> (\<forall>ar \<in> set ars. design_area_ok ar) \<and> distinct (map design_area_key ars) \<and>
     set (map design_area_key ars) \<inter> set (fst acc) = {}"
proof (induction i ars acc rule: validate_design_areas.induct)
  case (2 i ar rest acc)
  obtain seen fs where acc: "acc = (seen, fs)" by (cases acc)
  show ?case
  proof (cases "fs = [] \<and> design_area_ok ar \<and> design_area_key ar \<notin> set seen")
    case True
    then show ?thesis
      using 2 fst_validate_design_area [of ar i seen fs] validate_design_area_Nil [of i ar seen fs] acc
      by auto
  next
    case False
    then have "snd (validate_design_area i ar acc) \<noteq> []"
      using validate_design_area_Nil [of i ar seen fs] acc by simp
    with False 2 acc show ?thesis by auto
  qed
qed simp

text \<open>
  \<open>validateSaveDesignPlanInput\<close> accepts a plan exactly when something was uploaded, there is at least
  one area, every area is well formed (type, box, number) and no two areas have the same type and
  number.
\<close>

theorem validateSaveDesignPlanInput_iff:
  "validateSaveDesignPlanInput input = Inr () \<longleftrightarrow>
     (trim_space (sp_preview_image_path input) \<noteq> [] \<or> trim_space (sp_upload_id input) \<noteq> []) \<and>
     sp_areas input \<noteq> [] \<and> (\<forall>ar \<in> set (sp_areas input). design_area_ok ar) \<and>
     distinct (map design_area_key (sp_areas input))"
  unfolding validateSaveDesignPlanInput_def Let_def case_prod_beta
  by (auto simp: validate_design_areas_Nil)

lemma validateSaveDesignPlanInput_iff_witness:
  "validateSaveDesignPlanInput \<lparr>sp_upload_id = ''u1'', sp_pdf_file_name = [], sp_original_pdf_path = [],
     sp_preview_image_path = [], sp_thumbnail_path = [], sp_page_count = 1, sp_recognition_result = [],
     sp_areas = [\<lparr>di_id = 0, di_display_name = [], di_type = ''treatment'', di_number_text = ''7'',
       di_confidence = [], di_needs_review = False,
       di_box = Some \<lparr>bx_x = 0, bx_y = 0, bx_width = 1, bx_height = 1\<rparr>\<rparr>]\<rparr> = Inr ()"
  unfolding validateSaveDesignPlanInput_iff by code_simp

end
