(* ===== verification/SS_Store.thy ===== *)
theory SS_Store
  imports SS_Validation "HOL-Library.Product_Lexorder"
begin

text \<open>
  \<open>MemoryStore\<close> of \<open>internal/storespace/store.go\<close>, first part: its state, the accounts, the stores, the
  design plans with their areas, the recorders, the queries.  Every operation takes the state and the
  current time and returns its result together with the state it leaves.  The two Go maps that are
  iterated are association lists whose order stands for the order the iteration takes; a pointer
  \<open>&areas[i]\<close> is the index \<open>i\<close>.  The mutex makes each operation atomic, so an execution is a sequence
  of them.
\<close>

section \<open>State\<close>

record mem_store =
  ms_next_store_id :: int
  ms_next_area_id :: int
  ms_next_plan_id :: int
  ms_next_recorder_id :: int
  ms_next_account_id :: int
  ms_stores :: "(int \<times> store) list"
  ms_accounts :: "(int \<times> ezviz_account) list"
  ms_device_codes :: "string \<rightharpoonup> int"

definition NewMemoryStore :: mem_store where
  "NewMemoryStore = \<lparr>ms_next_store_id = 1, ms_next_area_id = 1, ms_next_plan_id = 1,
     ms_next_recorder_id = 1, ms_next_account_id = 1, ms_stores = [], ms_accounts = [],
     ms_device_codes = Map.empty\<rparr>"

definition get_store :: "mem_store \<Rightarrow> int \<Rightarrow> store option" where
  "get_store s i = map_of (ms_stores s) i"

definition put_store :: "int \<Rightarrow> store \<Rightarrow> mem_store \<Rightarrow> mem_store" where
  "put_store i st s = s\<lparr>ms_stores := AList.update i st (ms_stores s)\<rparr>"

fun find_index :: "('a \<Rightarrow> bool) \<Rightarrow> 'a list \<Rightarrow> nat option" where
  "find_index p [] = None"
| "find_index p (x # xs) = (if p x then Some 0 else map_option Suc (find_index p xs))"

section \<open>Copies handed to the caller\<close>

definition snapshot_marker :: string where
  "snapshot_marker = ''/api/store-space/channel-snapshots/''"

definition isSystemChannelSnapshotURL :: "string \<Rightarrow> bool" where
  "isSystemChannelSnapshotURL value \<longleftrightarrow> has_prefix (trim_space value) snapshot_marker"

definition normalizeChannelSnapshot :: "time \<Rightarrow> channel \<Rightarrow> channel" where
  "normalizeChannelSnapshot now ch =
     (case ch_full_image_expires_at ch of
        None \<Rightarrow> ch
      | Some expires \<Rightarrow>
          if now < expires then ch
          else if isSystemChannelSnapshotURL (ch_thumbnail_url ch) \<or>
                  isSystemChannelSnapshotURL (ch_full_image_url ch) then ch
          else ch\<lparr>ch_thumbnail_url := [], ch_full_image_url := []\<rparr>)"

definition cloneStore :: "time \<Rightarrow> store \<Rightarrow> store" where
  "cloneStore now st =
     st\<lparr>st_recorders :=
          map (\<lambda>rc. rc\<lparr>rc_channels := map (normalizeChannelSnapshot now) (rc_channels rc)\<rparr>)
            (st_recorders st)\<rparr>"

section \<open>Ezviz accounts\<close>

definition ListEzvizAccounts :: "mem_store \<Rightarrow> ezviz_account list" where
  "ListEzvizAccounts s = sort_key (\<lambda>a. (ea_account_name a, ea_id a)) (map snd (ms_accounts s))"

definition CreateEzvizAccount ::
  "time \<Rightarrow> create_ezviz_account_input \<Rightarrow> mem_store \<Rightarrow> ezviz_account \<times> mem_store" where
  "CreateEzvizAccount now input s =
     (let account = \<lparr>ea_id = ms_next_account_id s,
            ea_account_name = trim_space (ca_account_name input), ea_status = ''unverified'',
            ea_last_verified_at = None, ea_created_at = now, ea_updated_at = now\<rparr>
      in (account,
          s\<lparr>ms_next_account_id := ms_next_account_id s + 1,
            ms_accounts := AList.update (ea_id account) account (ms_accounts s)\<rparr>))"

definition EzvizAccountNameExists :: "string \<Rightarrow> mem_store \<Rightarrow> bool" where
  "EzvizAccountNameExists accountName s =
     list_ex (\<lambda>(_, account). ea_account_name account = trim_space accountName) (ms_accounts s)"

definition UpsertEzvizAccountName :: "time \<Rightarrow> string \<Rightarrow> mem_store \<Rightarrow> mem_store" where
  "UpsertEzvizAccountName now accountName s =
     (let cleanName = trim_space accountName in
      if cleanName = [] then s
      else case upd_first (\<lambda>(i, account).
               if ea_account_name account = cleanName
               then Some ((), (i, account\<lparr>ea_status := ''available'', ea_updated_at := now\<rparr>))
               else None) (ms_accounts s) of
             Some (_, accounts) \<Rightarrow> s\<lparr>ms_accounts := accounts\<rparr>
           | None \<Rightarrow>
               let account = \<lparr>ea_id = ms_next_account_id s, ea_account_name = cleanName,
                     ea_status = ''available'', ea_last_verified_at = None,
                     ea_created_at = now, ea_updated_at = now\<rparr>
               in s\<lparr>ms_next_account_id := ms_next_account_id s + 1,
                    ms_accounts := AList.update (ea_id account) account (ms_accounts s)\<rparr>)"

definition GetEzvizAccount :: "int \<Rightarrow> mem_store \<Rightarrow> ss_error + ezviz_account" where
  "GetEzvizAccount accountID s =
     (case map_of (ms_accounts s) accountID of None \<Rightarrow> Inl ErrNotFound | Some a \<Rightarrow> Inr a)"

section \<open>The list of stores\<close>

definition normalizeFilters :: "store_filters \<Rightarrow> store_filters" where
  "normalizeFilters filters =
     (let page = (if sf_page filters \<le> 0 then 1 else sf_page filters);
          size1 = (if sf_page_size filters \<le> 0 then 20 else sf_page_size filters);
          size2 = (if 100 < size1 then 100 else size1)
      in \<lparr>sf_query = trim_space (sf_query filters), sf_city = trim_space (sf_city filters),
          sf_page = page, sf_page_size = size2\<rparr>)"

definition msg_city_unset :: string where "msg_city_unset = utf8 [0x672A, 0x8BBE, 0x7F6E]"

definition storeCityOption :: "string \<Rightarrow> string" where
  "storeCityOption city = (if trim_space city = [] then msg_city_unset else trim_space city)"

definition matchesStoreCity :: "string \<Rightarrow> string \<Rightarrow> bool" where
  "matchesStoreCity storeCity filterCity =
     (if trim_space filterCity = [] then True
      else storeCityOption storeCity = trim_space filterCity)"

definition sortedCityOptions :: "string list \<Rightarrow> string list" where
  "sortedCityOptions cities = sort (remdups cities)"

definition activeChannelsFullyConfirmed :: "recorder list \<Rightarrow> bool" where
  "activeChannelsFullyConfirmed recorders =
     (let active = filter ch_is_active (concat (map rc_channels recorders)) in
      active \<noteq> [] \<and>
      list_all (\<lambda>ch. ch_status ch = ChannelStatusConfirmedBusiness \<or>
                     ch_status ch = ChannelStatusConfirmedNonBusiness) active)"

definition count_area :: "area \<Rightarrow> store_list_item \<Rightarrow> store_list_item" where
  "count_area ar item0 =
     (let item = item0\<lparr>li_area_count := li_area_count item0 + 1\<rparr> in
      if ae_type ar = AreaTypeTreatment \<or> ae_type ar = AreaTypeVIPTreatment
      then item\<lparr>li_treatment_count := li_treatment_count item + 1\<rparr>
      else if ae_type ar = AreaTypeConsultation
      then item\<lparr>li_consultation_count := li_consultation_count item + 1\<rparr>
      else if ae_type ar = AreaTypeBeauty
      then item\<lparr>li_beauty_count := li_beauty_count item + 1\<rparr>
      else item)"

definition storeListItem :: "store \<Rightarrow> store_list_item" where
  "storeListItem st =
     fold count_area (st_areas st)
       (store_list_item_zero\<lparr>li_id := st_id st, li_city := st_city st, li_name := st_name st,
          li_short_name := st_short_name st, li_external_org_id := st_external_org_id st,
          li_design_plan_status := st_design_plan_status st,
          li_overall_status := st_overall_status st,
          li_recorder_count := int (length (st_recorders st)),
          li_channel_count :=
            int (length (filter ch_is_active (concat (map rc_channels (st_recorders st))))),
          li_channels_fully_confirmed := activeChannelsFullyConfirmed (st_recorders st),
          li_updated_at := st_updated_at st\<rparr>)"

definition summarizeStoreListItems :: "store_list_item list \<Rightarrow> store_list_summary" where
  "summarizeStoreListItems items =
     \<lparr>ls_store_count = int (length items),
      ls_treatment_count = (\<Sum>item \<leftarrow> items. li_treatment_count item),
      ls_consultation_count = (\<Sum>item \<leftarrow> items. li_consultation_count item),
      ls_beauty_count = (\<Sum>item \<leftarrow> items. li_beauty_count item)\<rparr>"

text \<open>
  The bounds of the page in a list of \<open>total\<close> items, in 64-bit arithmetic, and the slice
  \<open>items[start:end]\<close>, which panics (\<open>None\<close>) unless \<open>0 \<le> start \<le> end \<le> total\<close>.
\<close>

definition page_bounds :: "store_filters \<Rightarrow> int \<Rightarrow> int \<times> int" where
  "page_bounds filters count =
     (let start0 = wrap64 ((sf_page filters - 1) * sf_page_size filters);
          start = (if count < start0 then count else start0);
          end0 = wrap64 (start + sf_page_size filters)
      in (start, if count < end0 then count else end0))"

definition go_slice :: "'a list \<Rightarrow> int \<times> int \<Rightarrow> 'a list option" where
  "go_slice xs b =
     (case b of (start, stop) \<Rightarrow>
        if 0 \<le> start \<and> start \<le> stop \<and> stop \<le> int (length xs)
        then Some (take (nat (stop - start)) (drop (nat start) xs)) else None)"

definition searched_stores :: "store_filters \<Rightarrow> mem_store \<Rightarrow> store list" where
  "searched_stores filters s =
     filter (\<lambda>st. MatchesStoreSearch (st_name st) (st_normalized_name st) (sf_query filters))
       (map snd (ms_stores s))"

definition ListStores :: "store_filters \<Rightarrow> mem_store \<Rightarrow> store_list_result option" where
  "ListStores filters0 s =
     (let filters = normalizeFilters filters0;
          found = searched_stores filters s;
          items = sort_key (\<lambda>item. - li_updated_at item)
                    (map storeListItem
                       (filter (\<lambda>st. matchesStoreCity (st_city st) (sf_city filters)) found));
          count = int (length items)
      in map_option (\<lambda>page. \<lparr>lr_items = page, lr_page = sf_page filters,
             lr_page_size = sf_page_size filters, lr_total = count,
             lr_summary = summarizeStoreListItems items,
             lr_cities = sortedCityOptions (map (storeCityOption \<circ> st_city) found)\<rparr>)
           (go_slice items (page_bounds filters count)))"

section \<open>Stores\<close>

definition GetStore :: "time \<Rightarrow> int \<Rightarrow> mem_store \<Rightarrow> ss_error + store" where
  "GetStore now i s =
     (case get_store s i of None \<Rightarrow> Inl ErrNotFound | Some st \<Rightarrow> Inr (cloneStore now st))"

definition GetStoreDesignPlanData :: "time \<Rightarrow> int \<Rightarrow> mem_store \<Rightarrow> ss_error + store" where
  "GetStoreDesignPlanData now i s =
     (case get_store s i of None \<Rightarrow> Inl ErrNotFound
      | Some st \<Rightarrow> Inr ((cloneStore now st)\<lparr>st_recorders := []\<rparr>))"

definition GetStoreChannelData :: "time \<Rightarrow> int \<Rightarrow> mem_store \<Rightarrow> ss_error + store" where
  "GetStoreChannelData now i s =
     (case get_store s i of None \<Rightarrow> Inl ErrNotFound
      | Some st \<Rightarrow> Inr ((cloneStore now st)\<lparr>st_areas := [], st_design_plans := []\<rparr>))"

definition new_recorder :: "time \<Rightarrow> int \<Rightarrow> int \<Rightarrow> int \<Rightarrow> string \<Rightarrow> recorder" where
  "new_recorder now rid storeID accountID code =
     recorder_zero\<lparr>rc_id := rid, rc_store_id := storeID, rc_ezviz_account_id := accountID,
       rc_device_code := code, rc_status := RecorderStatusOffline, rc_created_at := now,
       rc_updated_at := now\<rparr>"

text \<open>The loop over \<open>input.Recorders\<close>: next id, recorders so far, index of device codes.\<close>

fun create_recorders ::
  "time \<Rightarrow> int \<Rightarrow> recorder_input list \<Rightarrow> int \<times> recorder list \<times> (string \<rightharpoonup> int) \<Rightarrow>
   int \<times> recorder list \<times> (string \<rightharpoonup> int)" where
  "create_recorders now storeID [] acc = acc"
| "create_recorders now storeID (input # rest) (next, rcs, codes) =
     (let code = normalizeDeviceCode (ri_device_code input) in
      if code = [] then create_recorders now storeID rest (next, rcs, codes)
      else create_recorders now storeID rest
             (next + 1,
              rcs @ [new_recorder now next storeID (ri_ezviz_account_id input) code],
              codes(code \<mapsto> next)))"

definition CreateStore :: "time \<Rightarrow> create_store_input \<Rightarrow> mem_store \<Rightarrow> store \<times> mem_store" where
  "CreateStore now input s =
     (let sid = ms_next_store_id s;
          st0 = store_zero\<lparr>st_id := sid, st_city := trim_space (cs_city input),
            st_name := trim_space (cs_name input),
            st_short_name := trim_space (cs_short_name input),
            st_normalized_name := NormalizeStoreName (cs_name input),
            st_external_org_id := trim_space (cs_external_org_id input),
            st_design_plan_status := DesignPlanStatusNotUploaded,
            st_overall_status := OverallStatusPartial,
            st_created_at := now, st_updated_at := now\<rparr>;
          uploaded = (trim_space (cs_design_plan_upload_id input) \<noteq> []);
          st1 = (if uploaded then
                   st0\<lparr>st_design_plan_status := DesignPlanStatusPendingRecognition,
                     st_design_plans :=
                       [design_plan_zero\<lparr>dp_id := ms_next_plan_id s, dp_store_id := sid,
                          dp_upload_id := trim_space (cs_design_plan_upload_id input),
                          dp_recognition_status := RecognitionStatusNotStarted,
                          dp_created_at := now, dp_updated_at := now\<rparr>]\<rparr>
                 else st0);
          (next, rcs, codes) = create_recorders now sid (cs_recorders input)
                                 (ms_next_recorder_id s, [], ms_device_codes s);
          st2 = st1\<lparr>st_recorders := rcs\<rparr>
      in (cloneStore now st2,
          put_store sid st2
            (s\<lparr>ms_next_store_id := sid + 1,
               ms_next_plan_id := ms_next_plan_id s + (if uploaded then 1 else 0),
               ms_next_recorder_id := next, ms_device_codes := codes\<rparr>)))"

definition UpdateStoreBasicInfo ::
  "time \<Rightarrow> int \<Rightarrow> update_store_basic_info_input \<Rightarrow> mem_store \<Rightarrow> (ss_error + store) \<times> mem_store" where
  "UpdateStoreBasicInfo now i input s =
     (case get_store s i of
        None \<Rightarrow> (Inl ErrNotFound, s)
      | Some st \<Rightarrow>
          let st' = st\<lparr>st_city := trim_space (ub_city input), st_name := trim_space (ub_name input),
                st_short_name := trim_space (ub_short_name input),
                st_normalized_name := NormalizeStoreName (ub_name input),
                st_external_org_id := trim_space (ub_external_org_id input),
                st_updated_at := now\<rparr>
          in (Inr (cloneStore now st'), put_store i st' s))"

definition DeleteStore :: "int \<Rightarrow> mem_store \<Rightarrow> (ss_error + unit) \<times> mem_store" where
  "DeleteStore i s =
     (case get_store s i of
        None \<Rightarrow> (Inl ErrNotFound, s)
      | Some st \<Rightarrow>
          (Inr (),
           s\<lparr>ms_device_codes :=
               fold (\<lambda>rc codes. codes(rc_device_code rc := None)) (st_recorders st)
                 (ms_device_codes s),
             ms_stores := AList.delete i (ms_stores s)\<rparr>))"

section \<open>Areas and design plans\<close>

definition areaDisplayName :: "area_type \<Rightarrow> int \<Rightarrow> string" where
  "areaDisplayName areaType number =
     (if areaType = AreaTypeTreatment then utf8 [0x6CBB, 0x7597, 0x5BA4, 0x20] @ itoa number
      else if areaType = AreaTypeVIPTreatment then
        (if 0 < number then utf8 [0x56, 0x49, 0x50, 0x6CBB, 0x7597, 0x5BA4, 0x20] @ itoa number else utf8 [0x56, 0x49, 0x50, 0x6CBB, 0x7597, 0x5BA4])
      else if areaType = AreaTypeConsultation then utf8 [0x9762, 0x8BCA, 0x5BA4, 0x20] @ itoa number
      else if areaType = AreaTypeBeauty then utf8 [0x751F, 0x7F8E, 0x20] @ itoa number
      else areaType @ '' '' @ itoa number)"

definition displayNameOrDefault :: "string \<Rightarrow> area_type \<Rightarrow> int \<Rightarrow> string" where
  "displayNameOrDefault name areaType areaNumber =
     (if trim_space name \<noteq> [] then trim_space name else areaDisplayName areaType areaNumber)"

definition mergeAreaSource :: "area_source \<Rightarrow> area_source \<Rightarrow> area_source" where
  "mergeAreaSource existing incoming =
     (if existing = [] then incoming
      else if incoming = [] \<or> existing = incoming then existing
      else AreaSourceMultiple)"

definition findAreaByTypeNumber :: "area list \<Rightarrow> area_type \<Rightarrow> int \<Rightarrow> nat option" where
  "findAreaByTypeNumber areas areaType areaNumber =
     find_index (\<lambda>ar. ae_type ar = areaType \<and> ae_number ar = areaNumber) areas"

definition findAreaByID :: "area list \<Rightarrow> int \<Rightarrow> nat option" where
  "findAreaByID areas i = (if i = 0 then None else find_index (\<lambda>ar. ae_id ar = i) areas)"

text \<open>One round of the loop over \<open>input.Areas\<close>, on the areas of the store and the next area id.\<close>

definition save_design_area ::
  "time \<Rightarrow> int \<Rightarrow> design_area_input \<Rightarrow> area list \<times> int \<Rightarrow> area list \<times> int" where
  "save_design_area now storeID input acc =
     (let (areas, next) = acc;
          number = fst (atoi (trim_space (di_number_text input)));
          found = (case findAreaByID areas (di_id input) of
                     Some k \<Rightarrow> Some k
                   | None \<Rightarrow> findAreaByTypeNumber areas (di_type input) number)
      in case found of
           Some k \<Rightarrow>
             let ar = areas ! k;
                 source = mergeAreaSource (ae_source ar) AreaSourceDesignPlan;
                 ar1 = (if ae_source ar \<noteq> AreaSourceVideoChannel \<and> ae_source ar \<noteq> AreaSourceMultiple
                        then ar\<lparr>ae_type := di_type input, ae_number := number,
                               ae_display_name :=
                                 displayNameOrDefault (di_display_name input) (di_type input) number\<rparr>
                        else ar)
             in (areas[k := ar1\<lparr>ae_source := source, ae_status := AreaStatusConfirmed,
                                ae_box := di_box input, ae_updated_at := now\<rparr>], next)
         | None \<Rightarrow>
             (areas @ [area_zero\<lparr>ae_id := next, ae_store_id := storeID, ae_type := di_type input,
                ae_number := number,
                ae_display_name :=
                  displayNameOrDefault (di_display_name input) (di_type input) number,
                ae_source := AreaSourceDesignPlan, ae_status := AreaStatusConfirmed,
                ae_box := di_box input, ae_created_at := now, ae_updated_at := now\<rparr>], next + 1))"

definition SaveDesignPlan ::
  "time \<Rightarrow> int \<Rightarrow> save_design_plan_input \<Rightarrow> mem_store \<Rightarrow> (ss_error + store) \<times> mem_store" where
  "SaveDesignPlan now storeID input s =
     (case get_store s storeID of
        None \<Rightarrow> (Inl ErrNotFound, s)
      | Some st \<Rightarrow>
          let plan0 = design_plan_zero\<lparr>dp_id := ms_next_plan_id s, dp_store_id := storeID,
                dp_upload_id := trim_space (sp_upload_id input),
                dp_pdf_file_name := trim_space (sp_pdf_file_name input),
                dp_original_pdf_path := trim_space (sp_original_pdf_path input),
                dp_preview_image_path := trim_space (sp_preview_image_path input),
                dp_thumbnail_path := trim_space (sp_thumbnail_path input),
                dp_page_count := sp_page_count input,
                dp_recognition_status := RecognitionStatusCompleted,
                dp_created_at := now, dp_updated_at := now\<rparr>;
              (plan, nextPlan) = (case st_design_plans st of
                  old # _ \<Rightarrow> (plan0\<lparr>dp_id := dp_id old, dp_created_at := dp_created_at old\<rparr>,
                             ms_next_plan_id s)
                | [] \<Rightarrow> (plan0, ms_next_plan_id s + 1));
              (areas, nextArea) = fold (save_design_area now (st_id st)) (sp_areas input)
                                    (st_areas st, ms_next_area_id s);
              st' = st\<lparr>st_design_plans := [plan], st_areas := areas,
                      st_design_plan_status := DesignPlanStatusCompleted, st_updated_at := now\<rparr>
          in (Inr (cloneStore now st'),
              put_store storeID st'
                (s\<lparr>ms_next_plan_id := nextPlan, ms_next_area_id := nextArea\<rparr>)))"

definition FindOrCreateArea ::
  "time \<Rightarrow> area_lookup \<Rightarrow> int \<Rightarrow> mem_store \<Rightarrow> (ss_error + area) \<times> mem_store" where
  "FindOrCreateArea now input areaNumber s =
     (case get_store s (al_store_id input) of
        None \<Rightarrow> (Inl ErrNotFound, s)
      | Some st \<Rightarrow>
          (case findAreaByTypeNumber (st_areas st) (al_type input) areaNumber of
             Some k \<Rightarrow>
               let ar = st_areas st ! k in
               if ae_source ar \<noteq> al_source input \<and> al_source input \<noteq> [] then
                 let ar' = ar\<lparr>ae_source := AreaSourceMultiple, ae_updated_at := now\<rparr>
                 in (Inr ar',
                     put_store (al_store_id input)
                       (st\<lparr>st_areas := (st_areas st)[k := ar'], st_updated_at := now\<rparr>) s)
               else (Inr ar, s)
           | None \<Rightarrow>
               let ar = area_zero\<lparr>ae_id := ms_next_area_id s, ae_store_id := st_id st,
                     ae_type := al_type input, ae_number := areaNumber,
                     ae_display_name := areaDisplayName (al_type input) areaNumber,
                     ae_source := (if al_source input = [] then AreaSourceManual
                                   else al_source input),
                     ae_status := AreaStatusConfirmed, ae_created_at := now,
                     ae_updated_at := now\<rparr>
               in (Inr ar,
                   put_store (al_store_id input)
                     (st\<lparr>st_areas := st_areas st @ [ar], st_updated_at := now\<rparr>)
                     (s\<lparr>ms_next_area_id := ms_next_area_id s + 1\<rparr>))))"

section \<open>Recorders\<close>

definition AddRecorder ::
  "time \<Rightarrow> int \<Rightarrow> add_recorder_input \<Rightarrow> mem_store \<Rightarrow> (ss_error + store) \<times> mem_store" where
  "AddRecorder now storeID input s =
     (case get_store s storeID of
        None \<Rightarrow> (Inl ErrNotFound, s)
      | Some st \<Rightarrow>
          let code = normalizeDeviceCode (ar_device_code input);
              rid = ms_next_recorder_id s;
              st' = st\<lparr>st_recorders := st_recorders st @
                        [new_recorder now rid (st_id st) (ar_ezviz_account_id input) code],
                      st_updated_at := now\<rparr>
          in (Inr (cloneStore now st'),
              put_store storeID st'
                (s\<lparr>ms_next_recorder_id := rid + 1,
                   ms_device_codes := (ms_device_codes s)(code \<mapsto> rid)\<rparr>)))"

definition GetRecorder :: "int \<Rightarrow> mem_store \<Rightarrow> ss_error + recorder" where
  "GetRecorder recorderID s =
     (case find_some (\<lambda>(_, st). find (\<lambda>rc. rc_id rc = recorderID) (st_recorders st))
             (ms_stores s) of
        None \<Rightarrow> Inl ErrNotFound
      | Some rc \<Rightarrow> Inr rc)"

fun remove_recorder :: "int \<Rightarrow> recorder list \<Rightarrow> (recorder \<times> recorder list) option" where
  "remove_recorder recorderID [] = None"
| "remove_recorder recorderID (rc # rcs) =
     (if rc_id rc = recorderID then Some (rc, rcs)
      else map_option (\<lambda>(gone, rest). (gone, rc # rest)) (remove_recorder recorderID rcs))"

definition DeleteRecorder :: "time \<Rightarrow> int \<Rightarrow> mem_store \<Rightarrow> (ss_error + unit) \<times> mem_store" where
  "DeleteRecorder now recorderID s =
     (case upd_first (\<lambda>(i, st).
             map_option (\<lambda>(gone, rest).
                 (gone, (i, st\<lparr>st_recorders := rest, st_updated_at := now\<rparr>)))
               (remove_recorder recorderID (st_recorders st))) (ms_stores s) of
        None \<Rightarrow> (Inl ErrNotFound, s)
      | Some (gone, stores) \<Rightarrow>
          (Inr (), s\<lparr>ms_stores := stores,
                     ms_device_codes := (ms_device_codes s)(rc_device_code gone := None)\<rparr>))"

definition DeviceCodeExists :: "string \<Rightarrow> int \<Rightarrow> mem_store \<Rightarrow> bool" where
  "DeviceCodeExists deviceCode excludeRecorderID s =
     (case ms_device_codes s (normalizeDeviceCode deviceCode) of
        None \<Rightarrow> False | Some i \<Rightarrow> i \<noteq> excludeRecorderID)"

section \<open>Duplicate names\<close>

definition duplicate_match :: "store \<Rightarrow> string \<Rightarrow> duplicate_match" where
  "duplicate_match st reason =
     \<lparr>dm_id = st_id st, dm_name = st_name st, dm_short_name = st_short_name st,
      dm_normalized_name = st_normalized_name st, dm_reason = reason,
      dm_overall_status = st_overall_status st, dm_updated_at = st_updated_at st\<rparr>"

definition check_duplicate_step ::
  "string \<Rightarrow> int \<Rightarrow> store \<Rightarrow> duplicate_check_result \<Rightarrow> duplicate_check_result" where
  "check_duplicate_step name excludeStoreID st res =
     (if st_id st = excludeStoreID then res
      else if st_normalized_name st = NormalizeStoreName name then
        (case dc_exact_match res of
           None \<Rightarrow> res\<lparr>dc_exact_match := Some (duplicate_match st ''exact'')\<rparr>
         | Some _ \<Rightarrow> res)
      else if IsSimilarStoreName name (st_name st) then
        res\<lparr>dc_similar_matches := dc_similar_matches res @ [duplicate_match st ''similar'']\<rparr>
      else res)"

definition CheckDuplicate :: "string \<Rightarrow> int \<Rightarrow> mem_store \<Rightarrow> duplicate_check_result" where
  "CheckDuplicate name excludeStoreID s =
     fold (check_duplicate_step name excludeStoreID) (map snd (ms_stores s))
       \<lparr>dc_exact_match = None, dc_similar_matches = []\<rparr>"

section \<open>Finding\<close>

lemma find_index_SomeD:
  "find_index p xs = Some i \<Longrightarrow> i < length xs \<and> p (xs ! i) \<and> (\<forall>j<i. \<not> p (xs ! j))"
proof (induction xs arbitrary: i)
  case (Cons x xs)
  show ?case
  proof (cases "p x")
    case True
    with Cons.prems show ?thesis by simp
  next
    case False
    with Cons.prems obtain k where "find_index p xs = Some k" "i = Suc k" by auto
    with Cons.IH [of k] False show ?thesis by (auto simp: less_Suc_eq_0_disj)
  qed
qed simp

lemma find_index_None: "find_index p xs = None \<longleftrightarrow> (\<forall>x \<in> set xs. \<not> p x)"
  by (induction xs) auto

lemma find_index_length: "find_index p xs = Some i \<Longrightarrow> i < length xs"
  by (simp add: find_index_SomeD)

lemma find_index_sat: "find_index p xs = Some i \<Longrightarrow> p (xs ! i)"
  by (simp add: find_index_SomeD)

section \<open>Reading and writing stores\<close>

lemma get_store_put_store:
  "get_store (put_store i st s) j = (if j = i then Some st else get_store s j)"
  by (simp add: get_store_def put_store_def update_conv')

lemma put_store_fields [frame_simps]:
  "ms_next_store_id (put_store i st s) = ms_next_store_id s"
  "ms_next_area_id (put_store i st s) = ms_next_area_id s"
  "ms_next_plan_id (put_store i st s) = ms_next_plan_id s"
  "ms_next_recorder_id (put_store i st s) = ms_next_recorder_id s"
  "ms_next_account_id (put_store i st s) = ms_next_account_id s"
  "ms_accounts (put_store i st s) = ms_accounts s"
  "ms_device_codes (put_store i st s) = ms_device_codes s"
  by (simp_all add: put_store_def)

lemma put_store_split:
  assumes "get_store s i = Some st"
  obtains ys zs where "ms_stores s = ys @ (i, st) # zs" "i \<notin> fst ` set ys"
    "\<And>st'. ms_stores (put_store i st' s) = ys @ (i, st') # zs"
proof -
  have "map_of (ms_stores s) i = Some st" using assms by (simp add: get_store_def)
  then obtain ys zs where "ms_stores s = ys @ (i, st) # zs" "i \<notin> fst ` set ys"
  proof (induction "ms_stores s" arbitrary: thesis s)
    case (Cons p ps)
    show ?case
    proof (cases "fst p = i")
      case True
      with Cons.prems(2) Cons.hyps(2) [symmetric] show ?thesis
        by (intro Cons.prems(1) [of "[]" ps]) (auto simp: prod_eq_iff)
    next
      case False
      have "map_of (ms_stores (s\<lparr>ms_stores := ps\<rparr>)) i = Some st"
        using Cons.prems(2) Cons.hyps(2) [symmetric] False by (cases p) auto
      then obtain ys zs where "ps = ys @ (i, st) # zs" "i \<notin> fst ` set ys"
        using Cons.hyps(1) [of "s\<lparr>ms_stores := ps\<rparr>"] by auto
      then show ?thesis
        using Cons.hyps(2) [symmetric] False by (intro Cons.prems(1) [of "p # ys" zs]) auto
    qed
  qed simp
  then show thesis
    by (intro that [of ys zs]) (simp_all add: put_store_def alist_update_split)
qed

section \<open>Copies\<close>

text \<open>A copy differs from the store only in the image paths of channels whose picture expired.\<close>

lemma normalizeChannelSnapshot_frame [frame_simps]:
  "ch_id (normalizeChannelSnapshot now ch) = ch_id ch"
  "ch_status (normalizeChannelSnapshot now ch) = ch_status ch"
  "ch_is_active (normalizeChannelSnapshot now ch) = ch_is_active ch"
  "ch_area_id (normalizeChannelSnapshot now ch) = ch_area_id ch"
  "ch_area_type (normalizeChannelSnapshot now ch) = ch_area_type ch"
  "ch_area_number (normalizeChannelSnapshot now ch) = ch_area_number ch"
  "ch_channel_no (normalizeChannelSnapshot now ch) = ch_channel_no ch"
  by (simp_all add: normalizeChannelSnapshot_def split: option.splits)

lemma normalizeChannelSnapshot_idem:
  "normalizeChannelSnapshot now (normalizeChannelSnapshot now ch) = normalizeChannelSnapshot now ch"
  by (auto simp: normalizeChannelSnapshot_def split: option.splits if_splits)

lemma cloneStore_fields [frame_simps]:
  "st_id (cloneStore now st) = st_id st"
  "st_name (cloneStore now st) = st_name st"
  "st_areas (cloneStore now st) = st_areas st"
  "st_design_plans (cloneStore now st) = st_design_plans st"
  "length (st_recorders (cloneStore now st)) = length (st_recorders st)"
  by (simp_all add: cloneStore_def)

section \<open>Pages\<close>

lemma normalizeFilters_bounds:
  "1 \<le> sf_page (normalizeFilters f) \<and> 1 \<le> sf_page_size (normalizeFilters f) \<and>
   sf_page_size (normalizeFilters f) \<le> 100"
  by (simp add: normalizeFilters_def Let_def)

lemma page_bounds_exact:
  assumes "1 \<le> sf_page f" "1 \<le> sf_page_size f" "sf_page_size f \<le> 100"
    and "(sf_page f - 1) * sf_page_size f \<le> max_int64" and "0 \<le> count" "count \<le> max_int64 - 100"
  shows "page_bounds f count =
    (min count ((sf_page f - 1) * sf_page_size f), min count (sf_page f * sf_page_size f))"
proof -
  let ?o = "(sf_page f - 1) * sf_page_size f"
  have o: "0 \<le> ?o" using assms by simp
  have w: "wrap64 ?o = ?o"
    by (rule wrap64_id [OF order_trans [OF _ o] assms(4)]) (simp add: min_int64_def)
  let ?st = "if count < ?o then count else ?o"
  have s: "0 \<le> ?st" "?st \<le> count" using o assms by auto
  have e: "wrap64 (?st + sf_page_size f) = ?st + sf_page_size f"
    using s assms by (intro wrap64_id) (auto simp: min_int64_def max_int64_def)
  have "sf_page f * sf_page_size f = ?o + sf_page_size f" by (simp add: algebra_simps)
  with w e o assms show ?thesis by (auto simp: page_bounds_def Let_def)
qed

lemma go_slice_page:
  assumes "0 \<le> ofs" "0 \<le> p"
  shows "go_slice xs (min (int (length xs)) ofs, min (int (length xs)) (ofs + p))
    = Some (take (nat p) (drop (nat ofs) xs))"
proof (cases "int (length xs) \<le> ofs")
  case True
  then show ?thesis using assms by (simp add: go_slice_def min_def)
next
  case False
  then have "take (nat (min (int (length xs)) (ofs + p) - ofs)) (drop (nat ofs) xs)
      = take (nat p) (drop (nat ofs) xs)"
    using assms by (cases "int (length xs) \<le> ofs + p") (auto simp: min_def)
  with False assms show ?thesis by (simp add: go_slice_def min_def)
qed

definition store_items :: "store_filters \<Rightarrow> mem_store \<Rightarrow> store_list_item list" where
  "store_items filters s =
     sort_key (\<lambda>item. - li_updated_at item)
       (map storeListItem
          (filter (\<lambda>st. matchesStoreCity (st_city st) (sf_city filters)) (searched_stores filters s)))"

lemma ListStores_items:
  "ListStores f s =
     map_option (\<lambda>page. \<lparr>lr_items = page, lr_page = sf_page (normalizeFilters f),
         lr_page_size = sf_page_size (normalizeFilters f),
         lr_total = int (length (store_items (normalizeFilters f) s)),
         lr_summary = summarizeStoreListItems (store_items (normalizeFilters f) s),
         lr_cities = sortedCityOptions
           (map (storeCityOption \<circ> st_city) (searched_stores (normalizeFilters f) s))\<rparr>)
       (go_slice (store_items (normalizeFilters f) s)
         (page_bounds (normalizeFilters f) (int (length (store_items (normalizeFilters f) s)))))"
  by (simp add: ListStores_def store_items_def Let_def)

text \<open>
  Within 64 bits \<open>ListStores\<close> never panics, and its page is the run of \<open>page_size\<close> items from offset
  \<open>(page - 1) * page_size\<close> of the matching stores, newest first; total and summary are those of all
  matching stores, whatever the page.
\<close>

theorem ListStores_page:
  assumes "(sf_page (normalizeFilters f) - 1) * sf_page_size (normalizeFilters f) \<le> max_int64"
    and "int (length (ms_stores s)) \<le> max_int64 - 100"
  shows "\<exists>r. ListStores f s = Some r \<and>
    lr_items r = take (nat (sf_page_size (normalizeFilters f)))
      (drop (nat ((sf_page (normalizeFilters f) - 1) * sf_page_size (normalizeFilters f)))
        (store_items (normalizeFilters f) s)) \<and>
    sorted (map (\<lambda>item. - li_updated_at item) (lr_items r)) \<and>
    length (lr_items r) \<le> 100 \<and>
    lr_total r = int (length (store_items (normalizeFilters f) s)) \<and>
    lr_summary r = summarizeStoreListItems (store_items (normalizeFilters f) s)"
proof -
  let ?f = "normalizeFilters f"
  let ?items = "store_items ?f s"
  let ?n = "int (length ?items)"
  let ?o = "(sf_page ?f - 1) * sf_page_size ?f"
  note b = normalizeFilters_bounds [of f]
  have "length ?items \<le> length (ms_stores s)"
    unfolding store_items_def searched_stores_def
    by (auto intro: order_trans [OF length_filter_le])
  then have n: "?n \<le> max_int64 - 100" using assms(2) by linarith
  have pb: "page_bounds ?f ?n = (min ?n ?o, min ?n (sf_page ?f * sf_page_size ?f))"
    using b assms(1) n by (intro page_bounds_exact) auto
  have po: "sf_page ?f * sf_page_size ?f = ?o + sf_page_size ?f" by (simp add: algebra_simps)
  have o: "0 \<le> ?o" using b by simp
  have sl: "go_slice ?items (page_bounds ?f ?n) = Some (take (nat (sf_page_size ?f)) (drop (nat ?o) ?items))"
    unfolding pb po using b by (intro go_slice_page [OF o]) simp
  have "sorted (map (\<lambda>item. - li_updated_at item) ?items)"
    unfolding store_items_def by (rule sorted_sort_key)
  then have "sorted (map (\<lambda>item. - li_updated_at item) (take (nat (sf_page_size ?f)) (drop (nat ?o) ?items)))"
    by (simp add: take_map [symmetric] drop_map [symmetric] sorted_wrt_take sorted_wrt_drop)
  then show ?thesis
    using b by (auto simp: ListStores_items sl)
qed

lemma ListStores_page_witness:
  "\<exists>r. ListStores \<lparr>sf_query = [], sf_city = [], sf_page = 3, sf_page_size = 10\<rparr> NewMemoryStore = Some r \<and>
     lr_total r = 0"
proof -
  let ?f = "\<lparr>sf_query = [], sf_city = [], sf_page = 3, sf_page_size = 10\<rparr> :: store_filters"
  have "sf_page (normalizeFilters ?f) = 3" "sf_page_size (normalizeFilters ?f) = 10"
    by (simp_all add: normalizeFilters_def Let_def)
  moreover have "store_items (normalizeFilters ?f) NewMemoryStore = []"
    by (simp add: store_items_def searched_stores_def NewMemoryStore_def)
  ultimately show ?thesis
    using ListStores_page [of ?f NewMemoryStore] by (auto simp: max_int64_def NewMemoryStore_def)
qed

text \<open>
  The page number is not bounded before the product is taken: with the largest \<open>int\<close> as page the product
  wraps to -40 and the slice panics, whatever the stores.
\<close>

theorem ListStores_overflow:
  "ListStores \<lparr>sf_query = q, sf_city = c, sf_page = 9223372036854775807, sf_page_size = 20\<rparr> s = None"
  by (simp add: ListStores_def normalizeFilters_def page_bounds_def go_slice_def wrap64_def Let_def)

end
