(* ===== verification/SS_Channels.thy ===== *)
theory SS_Channels
  imports SS_Store
begin

text \<open>
  \<open>MemoryStore\<close> of \<open>internal/storespace/store.go\<close>, second part: the channels of a recorder and the
  areas they name.  A nested loop that stops at the first recorder or channel with the wanted id is
  \<open>locate_recorder\<close> or \<open>locate_channel\<close>; the pointers it binds are the store's key and the indices
  it returns.
\<close>

section \<open>Pointers into the state\<close>

definition locate_recorder :: "int \<Rightarrow> mem_store \<Rightarrow> (int \<times> nat) option" where
  "locate_recorder recorderID s =
     find_some (\<lambda>(sid, st).
         map_option (Pair sid) (find_index (\<lambda>rc. rc_id rc = recorderID) (st_recorders st)))
       (ms_stores s)"

fun channel_in_recorders :: "int \<Rightarrow> recorder list \<Rightarrow> (nat \<times> nat) option" where
  "channel_in_recorders channelID [] = None"
| "channel_in_recorders channelID (rc # rcs) =
     (case find_index (\<lambda>ch. ch_id ch = channelID) (rc_channels rc) of
        Some ci \<Rightarrow> Some (0, ci)
      | None \<Rightarrow> map_option (\<lambda>(ri, ci). (Suc ri, ci)) (channel_in_recorders channelID rcs))"

definition locate_channel :: "int \<Rightarrow> mem_store \<Rightarrow> (int \<times> nat \<times> nat) option" where
  "locate_channel channelID s =
     find_some (\<lambda>(sid, st). map_option (Pair sid) (channel_in_recorders channelID (st_recorders st)))
       (ms_stores s)"

definition store_at :: "mem_store \<Rightarrow> int \<Rightarrow> store" where
  "store_at s sid = the (get_store s sid)"

definition recorder_at :: "store \<Rightarrow> nat \<Rightarrow> recorder" where
  "recorder_at st ri = st_recorders st ! ri"

definition channel_at :: "store \<Rightarrow> nat \<Rightarrow> nat \<Rightarrow> channel" where
  "channel_at st ri ci = rc_channels (recorder_at st ri) ! ci"

definition set_recorder :: "nat \<Rightarrow> recorder \<Rightarrow> store \<Rightarrow> store" where
  "set_recorder ri rc st = st\<lparr>st_recorders := (st_recorders st)[ri := rc]\<rparr>"

definition set_channel :: "nat \<Rightarrow> nat \<Rightarrow> channel \<Rightarrow> store \<Rightarrow> store" where
  "set_channel ri ci ch st =
     set_recorder ri
       ((recorder_at st ri)\<lparr>rc_channels := (rc_channels (recorder_at st ri))[ci := ch]\<rparr>) st"

section \<open>Scanning\<close>

definition activeChannelCount :: "channel list \<Rightarrow> int" where
  "activeChannelCount channels =
     int (length (filter (\<lambda>ch. ch_is_active ch \<and> ch_status ch \<noteq> ChannelStatusInactive) channels))"

definition max_channel_id :: "channel list \<Rightarrow> int" where
  "max_channel_id channels = fold (\<lambda>ch m. if m < ch_id ch then ch_id ch else m) channels 0"

text \<open>\<open>scannedByNo\<close>: the last input for every positive channel number.\<close>

definition scanned_by_no :: "channel_input list \<Rightarrow> (int \<times> channel_input) list" where
  "scanned_by_no channels =
     fold (\<lambda>c m. if 0 < ci_channel_no c then AList.update (ci_channel_no c) c m else m) channels []"

definition was_confirmed :: "channel \<Rightarrow> bool" where
  "was_confirmed ch \<longleftrightarrow>
     ch_area_id ch \<noteq> 0 \<or> ch_area_type ch \<noteq> [] \<or> ch_area_number ch \<noteq> 0 \<or> ch_confirmed_at ch \<noteq> None"

definition confirmed_status_of :: "channel \<Rightarrow> channel_status" where
  "confirmed_status_of ch =
     (if ch_area_type ch \<noteq> [] then ChannelStatusConfirmedBusiness
      else ChannelStatusConfirmedNonBusiness)"

definition rescan_channel ::
  "time \<Rightarrow> (int \<times> channel_input) list \<Rightarrow> channel \<Rightarrow> channel" where
  "rescan_channel now scannedByNo ch =
     (case map_of scannedByNo (ch_channel_no ch) of
        Some scanned \<Rightarrow>
          if \<not> ci_is_active scanned then
            ch\<lparr>ch_is_active := False, ch_status := ChannelStatusInactive, ch_updated_at := now\<rparr>
          else
            let ch1 = ch\<lparr>ch_channel_name := trim_space (ci_channel_name scanned),
                        ch_is_active := True\<rparr>;
                ch2 = (if ch_status ch1 = ChannelStatusInactive then
                         (if was_confirmed ch1 then ch1\<lparr>ch_status := confirmed_status_of ch1\<rparr>
                          else ch1\<lparr>ch_status := ChannelStatusPendingRecognition,
                                  ch_scene_type := SceneTypeUnknown, ch_area_type := [],
                                  ch_area_number := 0, ch_area_id := 0,
                                  ch_confirmed_at := None\<rparr>)
                       else ch1)
            in ch2\<lparr>ch_updated_at := now\<rparr>
      | None \<Rightarrow>
          ch\<lparr>ch_is_active := False, ch_status := ChannelStatusInactive, ch_updated_at := now\<rparr>)"

text \<open>The loop over the channels known so far, each deleting its number from \<open>scannedByNo\<close>.\<close>

fun rescan_channels ::
  "time \<Rightarrow> (int \<times> channel_input) list \<Rightarrow> channel list \<Rightarrow>
   channel list \<times> (int \<times> channel_input) list" where
  "rescan_channels now scannedByNo [] = ([], scannedByNo)"
| "rescan_channels now scannedByNo (ch # chs) =
     (case rescan_channels now (AList.delete (ch_channel_no ch) scannedByNo) chs of
        (chs', rest) \<Rightarrow> (rescan_channel now scannedByNo ch # chs', rest))"

definition new_channel :: "time \<Rightarrow> int \<Rightarrow> int \<Rightarrow> channel_input \<Rightarrow> channel" where
  "new_channel now i recorderID input =
     channel_zero\<lparr>ch_id := i, ch_recorder_id := recorderID,
       ch_channel_no := ci_channel_no input,
       ch_channel_name := trim_space (ci_channel_name input),
       ch_status := ChannelStatusPendingRecognition, ch_is_active := True,
       ch_scene_type := SceneTypeUnknown, ch_recognition_attempts := 0,
       ch_created_at := now, ch_updated_at := now\<rparr>"

fun append_scanned :: "time \<Rightarrow> int \<Rightarrow> int \<Rightarrow> channel_input list \<Rightarrow> channel list" where
  "append_scanned now recorderID maxID [] = []"
| "append_scanned now recorderID maxID (c # cs) =
     (if \<not> ci_is_active c \<or> ci_channel_no c \<le> 0 then append_scanned now recorderID maxID cs
      else new_channel now (maxID + 1) recorderID c # append_scanned now recorderID (maxID + 1) cs)"

text \<open>
  The body for the recorder found.  \<open>range_order\<close> is the order in which Go's \<open>range\<close> visits what is
  left in \<open>scannedByNo\<close>; Go fixes no order, so a theorem allows every permutation.
\<close>

definition scan_recorder ::
  "time \<Rightarrow> (channel_input list \<Rightarrow> channel_input list) \<Rightarrow> channel_input list \<Rightarrow> recorder \<Rightarrow> recorder"
where
  "scan_recorder now range_order channels rc =
     (let maxID = max_channel_id (rc_channels rc);
          (known, rest) = rescan_channels now (scanned_by_no channels) (rc_channels rc);
          added = append_scanned now (rc_id rc) maxID (range_order (map snd rest));
          chs = sort_key ch_channel_no (known @ added);
          count = activeChannelCount chs
      in rc\<lparr>rc_channels := chs, rc_effective_channel_count := count,
            rc_last_scanned_at := Some now,
            rc_status := (if 0 < count then RecorderStatusOnline else RecorderStatusOffline),
            rc_updated_at := now\<rparr>)"

definition ReplaceRecorderChannels ::
  "time \<Rightarrow> (channel_input list \<Rightarrow> channel_input list) \<Rightarrow> int \<Rightarrow> channel_input list \<Rightarrow> mem_store \<Rightarrow>
   (ss_error + recorder) \<times> mem_store" where
  "ReplaceRecorderChannels now range_order recorderID channels s =
     (case locate_recorder recorderID s of
        None \<Rightarrow> (Inl ErrNotFound, s)
      | Some (sid, ri) \<Rightarrow>
          let st = store_at s sid;
              rc = scan_recorder now range_order channels (recorder_at st ri)
          in (Inr rc, put_store sid ((set_recorder ri rc st)\<lparr>st_updated_at := now\<rparr>) s))"

definition upsert_known :: "time \<Rightarrow> channel_input \<Rightarrow> channel \<Rightarrow> channel" where
  "upsert_known now input ch =
     (let ch1 = ch\<lparr>ch_channel_name := trim_space (ci_channel_name input), ch_is_active := True\<rparr>;
          ch2 = (if ch_status ch1 = ChannelStatusInactive then
                   (if was_confirmed ch1 then ch1\<lparr>ch_status := confirmed_status_of ch1\<rparr>
                    else ch1\<lparr>ch_status := ChannelStatusPendingRecognition,
                            ch_scene_type := SceneTypeUnknown\<rparr>)
                 else ch1)
      in ch2\<lparr>ch_updated_at := now\<rparr>)"

definition upsert_in_recorder :: "time \<Rightarrow> channel_input \<Rightarrow> recorder \<Rightarrow> channel \<times> recorder" where
  "upsert_in_recorder now input rc =
     (let (ch, chs) =
        (case find_index (\<lambda>ch. ch_channel_no ch = ci_channel_no input) (rc_channels rc) of
           Some ci \<Rightarrow>
             let ch = upsert_known now input (rc_channels rc ! ci)
             in (ch, (rc_channels rc)[ci := ch])
         | None \<Rightarrow>
             let ch = new_channel now (max_channel_id (rc_channels rc) + 1) (rc_id rc) input
             in (ch, sort_key ch_channel_no (rc_channels rc @ [ch])))
      in (ch, rc\<lparr>rc_channels := chs, rc_effective_channel_count := activeChannelCount chs,
                 rc_last_scanned_at := Some now, rc_status := RecorderStatusOnline,
                 rc_updated_at := now\<rparr>))"

definition UpsertRecorderChannel ::
  "time \<Rightarrow> int \<Rightarrow> channel_input \<Rightarrow> mem_store \<Rightarrow> (ss_error + channel) \<times> mem_store" where
  "UpsertRecorderChannel now recorderID input s =
     (case locate_recorder recorderID s of
        None \<Rightarrow> (Inl ErrNotFound, s)
      | Some (sid, ri) \<Rightarrow>
          if ci_channel_no input \<le> 0 \<or> \<not> ci_is_active input then (Inl ErrNotFound, s)
          else
            let st = store_at s sid;
                (ch, rc) = upsert_in_recorder now input (recorder_at st ri)
            in (Inr ch, put_store sid ((set_recorder ri rc st)\<lparr>st_updated_at := now\<rparr>) s))"

section \<open>Reading a channel with its context\<close>

definition GetChannelContext ::
  "int \<Rightarrow> mem_store \<Rightarrow> ss_error + channel \<times> recorder \<times> ezviz_account" where
  "GetChannelContext channelID s =
     (case locate_channel channelID s of
        None \<Rightarrow> Inl ErrNotFound
      | Some (sid, ri, ci) \<Rightarrow>
          let st = store_at s sid; rc = recorder_at st ri in
          (case map_of (ms_accounts s) (rc_ezviz_account_id rc) of
             None \<Rightarrow> Inl ErrNotFound
           | Some account \<Rightarrow> Inr (channel_at st ri ci, rc, account)))"

section \<open>Snapshots and recognition results\<close>

definition apply_snapshot :: "time \<Rightarrow> channel_snapshot_input \<Rightarrow> channel \<Rightarrow> channel" where
  "apply_snapshot now input ch0 =
     (let pending = (si_status input = ChannelStatusPendingConfirmation);
          number = mustPositiveInt (si_area_number_text input);
          ch1 = (if trim_space (si_thumbnail_path input) \<noteq> [] \<or> trim_space (si_full_image_path input) \<noteq> []
                 then ch0\<lparr>ch_thumbnail_url := trim_space (si_thumbnail_path input),
                         ch_full_image_url := trim_space (si_full_image_path input),
                         ch_full_image_expires_at := si_full_image_expires_at input\<rparr>
                 else ch0);
          ch2 = (if si_status input \<noteq> [] then ch1\<lparr>ch_status := si_status input\<rparr> else ch1);
          ch3 = (if si_scene_type input \<noteq> [] then ch2\<lparr>ch_scene_type := si_scene_type input\<rparr>
                 else ch2);
          ch4 = (if si_area_type input \<noteq> [] then ch3\<lparr>ch_area_type := si_area_type input\<rparr>
                 else if pending then ch3\<lparr>ch_area_type := []\<rparr> else ch3);
          ch5 = (if 0 < number then ch4\<lparr>ch_area_number := number, ch_area_note := []\<rparr>
                 else if pending then ch4\<lparr>ch_area_number := 0\<rparr> else ch4);
          ch6 = (if si_area_note input \<noteq> [] \<or> pending
                 then ch5\<lparr>ch_area_note := trim_space (si_area_note input)\<rparr> else ch5);
          ch7 = (if trim_space (si_recognition_result input) \<noteq> [] \<or> si_count_attempt input
                 then ch6\<lparr>ch_recognition_result := trim_space (si_recognition_result input)\<rparr>
                 else ch6);
          ch8 = (if si_count_attempt input
                 then ch7\<lparr>ch_recognition_attempts := ch_recognition_attempts ch7 + 1\<rparr> else ch7)
      in ch8\<lparr>ch_updated_at := now\<rparr>)"

definition SaveChannelSnapshot ::
  "time \<Rightarrow> int \<Rightarrow> channel_snapshot_input \<Rightarrow> mem_store \<Rightarrow> (ss_error + channel) \<times> mem_store" where
  "SaveChannelSnapshot now channelID input s =
     (case locate_channel channelID s of
        None \<Rightarrow> (Inl ErrNotFound, s)
      | Some (sid, ri, ci) \<Rightarrow>
          let st = store_at s sid;
              ch = apply_snapshot now input (channel_at st ri ci)
          in (Inr ch, put_store sid (set_channel ri ci ch st) s))"

section \<open>Areas named by channels\<close>

definition video_source :: "area_source \<Rightarrow> bool" where
  "video_source source \<longleftrightarrow> source = AreaSourceVideoChannel \<or> source = AreaSourceMultiple"

text \<open>The pointer to the area is its index in the areas returned; the last component is the next id.\<close>

definition findOrCreateAreaLocked ::
  "time \<Rightarrow> int \<Rightarrow> area_type \<Rightarrow> int \<Rightarrow> area_source \<Rightarrow> area list \<times> int \<Rightarrow> nat \<times> area list \<times> int" where
  "findOrCreateAreaLocked now storeID areaType areaNumber source acc =
     (case acc of (areas, next) \<Rightarrow>
        (case findAreaByTypeNumber areas areaType areaNumber of
           Some k \<Rightarrow>
             if ae_source (areas ! k) \<noteq> source \<and> source \<noteq> [] then
               (k, areas[k := (areas ! k)\<lparr>ae_source := AreaSourceMultiple, ae_updated_at := now\<rparr>],
                next)
             else (k, areas, next)
         | None \<Rightarrow>
             (length areas,
              areas @ [area_zero\<lparr>ae_id := next, ae_store_id := storeID, ae_type := areaType,
                ae_number := areaNumber, ae_display_name := areaDisplayName areaType areaNumber,
                ae_source := source, ae_status := AreaStatusConfirmed, ae_created_at := now,
                ae_updated_at := now\<rparr>], next + 1)))"

definition updateOrFindVideoAreaLocked ::
  "time \<Rightarrow> int \<Rightarrow> int \<Rightarrow> area_type \<Rightarrow> int \<Rightarrow> area list \<times> int \<Rightarrow> nat \<times> area list \<times> int" where
  "updateOrFindVideoAreaLocked now storeID currentAreaID areaType areaNumber acc =
     (case acc of (areas, next) \<Rightarrow>
        (case (if currentAreaID \<noteq> 0
               then find_index (\<lambda>ar. ae_id ar = currentAreaID \<and> video_source (ae_source ar)) areas
               else None) of
           Some k \<Rightarrow>
             (case findAreaByTypeNumber areas areaType areaNumber of
                Some e \<Rightarrow>
                  if ae_id (areas ! e) \<noteq> currentAreaID then
                    (let ar = areas ! e;
                         ar' = (if video_source (ae_source ar) then ar
                                else ar\<lparr>ae_source := AreaSourceMultiple\<rparr>)
                     in (e, areas[e := ar'\<lparr>ae_updated_at := now\<rparr>], next))
                  else
                    (k, areas[k := (areas ! k)\<lparr>ae_type := areaType, ae_number := areaNumber,
                       ae_display_name := areaDisplayName areaType areaNumber,
                       ae_updated_at := now\<rparr>], next)
              | None \<Rightarrow>
                  (k, areas[k := (areas ! k)\<lparr>ae_type := areaType, ae_number := areaNumber,
                     ae_display_name := areaDisplayName areaType areaNumber,
                     ae_updated_at := now\<rparr>], next))
         | None \<Rightarrow>
             findOrCreateAreaLocked now storeID areaType areaNumber AreaSourceVideoChannel acc))"

definition referenced_areas :: "recorder list \<Rightarrow> int list" where
  "referenced_areas recorders =
     filter (\<lambda>i. i \<noteq> 0) (map ch_area_id (concat (map rc_channels recorders)))"

definition deleteUnusedVideoAreasLocked :: "store \<Rightarrow> store" where
  "deleteUnusedVideoAreasLocked st =
     st\<lparr>st_areas :=
         filter (\<lambda>ar. \<not> (ae_source ar = AreaSourceVideoChannel \<and> ae_box ar = None \<and>
                          ae_id ar \<notin> set (referenced_areas (st_recorders st))))
           (st_areas st)\<rparr>"

section \<open>Confirming, unlocking, deleting\<close>

definition ConfirmChannel ::
  "time \<Rightarrow> int \<Rightarrow> channel_confirmation_input \<Rightarrow> mem_store \<Rightarrow> (ss_error + store) \<times> mem_store" where
  "ConfirmChannel now channelID input s =
     (case locate_channel channelID s of
        None \<Rightarrow> (Inl ErrNotFound, s)
      | Some (sid, ri, ci) \<Rightarrow>
          let st = store_at s sid;
              ch = (channel_at st ri ci)\<lparr>ch_scene_type := cc_scene_type input,
                     ch_updated_at := now, ch_confirmed_at := Some now\<rparr>;
              st1 = set_channel ri ci ch st
          in if cc_area_type input = [] then
               let ch' = ch\<lparr>ch_area_type := [], ch_area_number := 0, ch_bed_label := [],
                           ch_area_note := trim_space (cc_area_note input), ch_area_id := 0,
                           ch_status := ChannelStatusConfirmedNonBusiness\<rparr>;
                   st2 = (deleteUnusedVideoAreasLocked (set_channel ri ci ch' st))
                           \<lparr>st_updated_at := now\<rparr>
               in (Inr (cloneStore now st2), put_store sid st2 s)
             else
               let bad = Inl (ValidationError [(''area_number'', msg_number_positive)]);
                   number = (if trim_space (cc_area_number input) \<noteq> [] then
                               (case atoi (trim_space (cc_area_number input)) of
                                  (_, Some _) \<Rightarrow> None
                                | (n, None) \<Rightarrow> if n \<le> 0 then None else Some n)
                             else if cc_area_type input \<noteq> AreaTypeVIPTreatment then None
                             else Some 0)
               in (case number of
                     None \<Rightarrow> (bad, put_store sid st1 s)
                   | Some n \<Rightarrow>
                       let (k, areas, next) =
                             updateOrFindVideoAreaLocked now (st_id st) (ch_area_id ch)
                               (cc_area_type input) n (st_areas st, ms_next_area_id s);
                           ar = areas ! k;
                           ch' = ch\<lparr>ch_area_type := ae_type ar, ch_area_number := ae_number ar,
                                   ch_bed_label := trim_space (cc_bed_label input),
                                   ch_area_note := [], ch_area_id := ae_id ar,
                                   ch_scene_type := ae_type ar,
                                   ch_status := ChannelStatusConfirmedBusiness\<rparr>;
                           st2 = (deleteUnusedVideoAreasLocked
                                    ((set_channel ri ci ch' st)\<lparr>st_areas := areas\<rparr>))
                                   \<lparr>st_updated_at := now\<rparr>
                       in (Inr (cloneStore now st2),
                           put_store sid st2 (s\<lparr>ms_next_area_id := next\<rparr>))))"

definition msg_channel_not_editable :: string where
  "msg_channel_not_editable =
     utf8 [0x901A, 0x9053, 0x5DF2, 0x5931, 0x6548, 0xFF0C, 0x65E0, 0x6CD5, 0x7F16, 0x8F91]"

definition UnlockChannelForEdit ::
  "time \<Rightarrow> int \<Rightarrow> mem_store \<Rightarrow> (ss_error + channel) \<times> mem_store" where
  "UnlockChannelForEdit now channelID s =
     (case locate_channel channelID s of
        None \<Rightarrow> (Inl ErrNotFound, s)
      | Some (sid, ri, ci) \<Rightarrow>
          let st = store_at s sid; ch = channel_at st ri ci in
          if ch_status ch = ChannelStatusInactive \<or> \<not> ch_is_active ch then
            (Inl (ValidationError [(''channel'', msg_channel_not_editable)]), s)
          else
            let ch' = ch\<lparr>ch_status := ChannelStatusPendingConfirmation, ch_confirmed_at := None,
                        ch_updated_at := now\<rparr>
            in (Inr ch', put_store sid ((set_channel ri ci ch' st)\<lparr>st_updated_at := now\<rparr>) s))"

definition DeleteChannel ::
  "time \<Rightarrow> int \<Rightarrow> mem_store \<Rightarrow> (ss_error + store) \<times> mem_store" where
  "DeleteChannel now channelID s =
     (case locate_channel channelID s of
        None \<Rightarrow> (Inl ErrNotFound, s)
      | Some (sid, ri, ci) \<Rightarrow>
          let st = store_at s sid; rc = recorder_at st ri;
              chs = take ci (rc_channels rc) @ drop (Suc ci) (rc_channels rc);
              count = activeChannelCount chs;
              rc' = rc\<lparr>rc_channels := chs, rc_effective_channel_count := count,
                      rc_status := (if count = 0 then RecorderStatusOffline else rc_status rc),
                      rc_updated_at := now\<rparr>;
              st' = deleteUnusedVideoAreasLocked ((set_recorder ri rc' st)\<lparr>st_updated_at := now\<rparr>)
          in (Inr (cloneStore now st'), put_store sid st' s))"

section \<open>What the pointers point at\<close>

lemma locate_recorder_SomeD:
  assumes "locate_recorder rid s = Some (sid, ri)" "distinct (map fst (ms_stores s))"
  shows "\<exists>st. get_store s sid = Some st \<and> ri < length (st_recorders st) \<and>
    rc_id (st_recorders st ! ri) = rid"
proof -
  obtain p where p: "p \<in> set (ms_stores s)"
    "(case p of (sid, st) \<Rightarrow>
        map_option (Pair sid) (find_index (\<lambda>rc. rc_id rc = rid) (st_recorders st))) = Some (sid, ri)"
    using find_some_SomeD [OF assms(1) [unfolded locate_recorder_def]] by auto
  from p(2) obtain st where "p = (sid, st)" "find_index (\<lambda>rc. rc_id rc = rid) (st_recorders st) = Some ri"
    by (cases p) auto
  with p(1) assms(2) show ?thesis
    by (auto simp: get_store_def dest: find_index_SomeD)
qed

lemma channel_in_recorders_SomeD:
  "channel_in_recorders cid rcs = Some (ri, ci) \<Longrightarrow>
   ri < length rcs \<and> ci < length (rc_channels (rcs ! ri)) \<and> ch_id (rc_channels (rcs ! ri) ! ci) = cid"
proof (induction rcs arbitrary: ri ci)
  case (Cons rc rcs)
  show ?case
  proof (cases "find_index (\<lambda>ch. ch_id ch = cid) (rc_channels rc)")
    case None
    with Cons.prems obtain r where "channel_in_recorders cid rcs = Some (r, ci)" "ri = Suc r"
      by (auto split: prod.splits)
    with Cons.IH show ?thesis by auto
  next
    case (Some c)
    with Cons.prems find_index_SomeD [OF Some] show ?thesis by auto
  qed
qed simp

lemma channel_in_recorders_None:
  "channel_in_recorders cid rcs = None \<longleftrightarrow> (\<forall>rc \<in> set rcs. \<forall>ch \<in> set (rc_channels rc). ch_id ch \<noteq> cid)"
proof (induction rcs)
  case (Cons rc rcs)
  show ?case
  proof (cases "find_index (\<lambda>ch. ch_id ch = cid) (rc_channels rc)")
    case None
    then have "\<forall>ch \<in> set (rc_channels rc). ch_id ch \<noteq> cid" by (simp add: find_index_None)
    with Cons None show ?thesis by simp
  next
    case (Some ci)
    then have "ch_id (rc_channels rc ! ci) = cid" "rc_channels rc ! ci \<in> set (rc_channels rc)"
      by (auto dest: find_index_SomeD)
    with Some show ?thesis by auto
  qed
qed simp

lemma locate_channel_SomeD:
  assumes "locate_channel cid s = Some (sid, ri, ci)" "distinct (map fst (ms_stores s))"
  shows "\<exists>st. get_store s sid = Some st \<and> ri < length (st_recorders st) \<and>
    ci < length (rc_channels (recorder_at st ri)) \<and> ch_id (channel_at st ri ci) = cid"
proof -
  obtain p where p: "p \<in> set (ms_stores s)"
    "(case p of (sid, st) \<Rightarrow>
        map_option (Pair sid) (channel_in_recorders cid (st_recorders st))) = Some (sid, ri, ci)"
    using find_some_SomeD [OF assms(1) [unfolded locate_channel_def]] by auto
  from p(2) obtain st where "p = (sid, st)" "channel_in_recorders cid (st_recorders st) = Some (ri, ci)"
    by (cases p) auto
  with p(1) assms(2) show ?thesis
    by (auto simp: get_store_def recorder_at_def channel_at_def dest: channel_in_recorders_SomeD)
qed

lemma set_recorder_fields [frame_simps]:
  "st_id (set_recorder ri rc st) = st_id st"
  "st_areas (set_recorder ri rc st) = st_areas st"
  "st_recorders (set_recorder ri rc st) = (st_recorders st)[ri := rc]"
  "st_design_plans (set_recorder ri rc st) = st_design_plans st"
  by (simp_all add: set_recorder_def)

lemma set_channel_fields [frame_simps]:
  "st_id (set_channel ri ci ch st) = st_id st"
  "st_areas (set_channel ri ci ch st) = st_areas st"
  "st_recorders (set_channel ri ci ch st) = (st_recorders st)
     [ri := (recorder_at st ri)\<lparr>rc_channels := (rc_channels (recorder_at st ri))[ci := ch]\<rparr>]"
  by (simp_all add: set_channel_def frame_simps)

lemma deleteUnused_fields [frame_simps]:
  "st_id (deleteUnusedVideoAreasLocked st) = st_id st"
  "st_recorders (deleteUnusedVideoAreasLocked st) = st_recorders st"
  by (simp_all add: deleteUnusedVideoAreasLocked_def)

section \<open>Scanning\<close>

lemma rescan_channel_frame [frame_simps]:
  "ch_id (rescan_channel now sc ch) = ch_id ch"
  "ch_channel_no (rescan_channel now sc ch) = ch_channel_no ch"
  "ch_recorder_id (rescan_channel now sc ch) = ch_recorder_id ch"
  by (simp_all add: rescan_channel_def Let_def split: option.splits)

lemma upsert_known_frame [frame_simps]:
  "ch_id (upsert_known now c ch) = ch_id ch"
  "ch_channel_no (upsert_known now c ch) = ch_channel_no ch"
  "ch_recorder_id (upsert_known now c ch) = ch_recorder_id ch"
  "ch_is_active (upsert_known now c ch) = True"
  "ch_area_id (upsert_known now c ch) = ch_area_id ch"
  by (simp_all add: upsert_known_def Let_def)

text \<open>
  The loop with its deletions is the map of \<open>rescan_channel\<close> as long as no two channels of the recorder
  share a number; what is left over is keyed by the numbers no channel has.
\<close>

lemma rescan_channel_cong:
  "map_of sc (ch_channel_no ch) = map_of sc' (ch_channel_no ch) \<Longrightarrow>
   rescan_channel now sc ch = rescan_channel now sc' ch"
  by (simp add: rescan_channel_def)

lemma rescan_channels_eq:
  "distinct (map ch_channel_no chs) \<Longrightarrow>
   rescan_channels now sc chs = (map (rescan_channel now sc) chs,
     filter (\<lambda>(n, _). n \<notin> set (map ch_channel_no chs)) sc)"
proof (induction chs arbitrary: sc)
  case Nil
  then show ?case by (simp add: case_prod_beta)
next
  case (Cons ch chs)
  have "map (rescan_channel now (AList.delete (ch_channel_no ch) sc)) chs
      = map (rescan_channel now sc) chs"
  proof (intro map_cong refl rescan_channel_cong)
    fix x
    assume "x \<in> set chs"
    then have "ch_channel_no x \<in> ch_channel_no ` set chs" by (rule imageI)
    with Cons.prems have "ch_channel_no x \<noteq> ch_channel_no ch" by auto
    then show "map_of (AList.delete (ch_channel_no ch) sc) (ch_channel_no x) = map_of sc (ch_channel_no x)"
      by (simp add: delete_conv')
  qed
  moreover have "filter (\<lambda>(n, _). n \<notin> set (map ch_channel_no chs)) (AList.delete (ch_channel_no ch) sc)
      = filter (\<lambda>(n, _). n \<notin> set (map ch_channel_no (ch # chs))) sc"
    by (induction sc) auto
  ultimately show ?case using Cons by simp
qed

lemma scanned_by_no_step:
  "distinct (map fst m) \<Longrightarrow> \<forall>(n, c) \<in> set m. 0 < n \<and> ci_channel_no c = n \<Longrightarrow>
   (let m' = fold (\<lambda>c m. if 0 < ci_channel_no c then AList.update (ci_channel_no c) c m else m) cs m in
    distinct (map fst m') \<and> (\<forall>(n, c) \<in> set m'. 0 < n \<and> ci_channel_no c = n) \<and>
    set (map fst m') = set (map fst m) \<union> {ci_channel_no c | c. c \<in> set cs \<and> 0 < ci_channel_no c})"
proof (induction cs arbitrary: m)
  case Nil
  then show ?case by simp
next
  case (Cons c cs)
  let ?m = "if 0 < ci_channel_no c then AList.update (ci_channel_no c) c m else m"
  have d: "distinct (map fst ?m)" using Cons.prems by (simp add: distinct_update)
  have k: "\<forall>(n, c) \<in> set ?m. 0 < n \<and> ci_channel_no c = n"
  proof (cases "0 < ci_channel_no c")
    case True
    have "set (AList.update (ci_channel_no c) c m) \<subseteq> insert (ci_channel_no c, c) (set m)"
      by (induction m) auto
    with True Cons.prems show ?thesis by auto
  qed (use Cons.prems in simp)
  have f: "set (map fst ?m) = set (map fst m) \<union> (if 0 < ci_channel_no c then {ci_channel_no c} else {})"
    using dom_update [of "ci_channel_no c" c m] by auto
  show ?case
    using Cons.IH [OF d k] f by (auto simp: Let_def)
qed

lemma scanned_by_no:
  shows "distinct (map fst (scanned_by_no cs))"
    and "\<forall>(n, c) \<in> set (scanned_by_no cs). 0 < n \<and> ci_channel_no c = n"
    and "set (map fst (scanned_by_no cs)) = {ci_channel_no c | c. c \<in> set cs \<and> 0 < ci_channel_no c}"
  using scanned_by_no_step [of "[]" cs] by (simp_all add: scanned_by_no_def Let_def)

lemma max_channel_id_ge: "\<forall>ch \<in> set chs. ch_id ch \<le> max_channel_id chs" "0 \<le> max_channel_id chs"
proof -
  have "m \<le> fold (\<lambda>ch m. if m < ch_id ch then ch_id ch else m) chs m \<and>
      (\<forall>ch \<in> set chs. ch_id ch \<le> fold (\<lambda>ch m. if m < ch_id ch then ch_id ch else m) chs m)" for m
  proof (induction chs arbitrary: m)
    case (Cons c chs)
    show ?case using Cons [of "if m < ch_id c then ch_id c else m"] by auto
  qed simp
  from this [of 0] show "\<forall>ch \<in> set chs. ch_id ch \<le> max_channel_id chs" "0 \<le> max_channel_id chs"
    by (auto simp: max_channel_id_def)
qed

lemma append_scanned_props:
  "(\<forall>ch \<in> set (append_scanned now rid m cs).
      m < ch_id ch \<and> ch_recorder_id ch = rid \<and> 0 < ch_channel_no ch \<and> ch_is_active ch \<and>
      ch_status ch = ChannelStatusPendingRecognition \<and> ch_area_id ch = 0) \<and>
   distinct (map ch_id (append_scanned now rid m cs)) \<and>
   map ch_channel_no (append_scanned now rid m cs)
     = map ci_channel_no (filter (\<lambda>c. ci_is_active c \<and> 0 < ci_channel_no c) cs)"
proof (induction now rid m cs rule: append_scanned.induct)
  case (2 now rid m c cs)
  show ?case
  proof (cases "\<not> ci_is_active c \<or> ci_channel_no c \<le> 0")
    case True
    then show ?thesis using "2.IH"(1) [OF True] by auto
  next
    case False
    have "m + 1 \<notin> ch_id ` set (append_scanned now rid (m + 1) cs)"
      using "2.IH"(2) [OF False] by auto
    then show ?thesis
      using False "2.IH"(2) [OF False] by (auto simp: new_channel_def channel_zero_def)
  qed
qed simp

section \<open>Areas\<close>

text \<open>
  The area a confirmation ends up with has the type and number asked for, in every branch; area ids are
  kept, and at most one area is added, with the next id.
\<close>

lemma findOrCreateAreaLocked_spec:
  assumes "findOrCreateAreaLocked now sid t n src (areas, next) = (k, areas', next')"
  shows "k < length areas' \<and> ae_type (areas' ! k) = t \<and> ae_number (areas' ! k) = n \<and>
    (map ae_id areas' = map ae_id areas \<and> map ae_store_id areas' = map ae_store_id areas \<and>
       next' = next \<or>
     map ae_id areas' = map ae_id areas @ [next] \<and>
       map ae_store_id areas' = map ae_store_id areas @ [sid] \<and> next' = next + 1)"
proof (cases "findAreaByTypeNumber areas t n")
  case None
  with assms show ?thesis
    by (auto simp: findOrCreateAreaLocked_def area_zero_def nth_append)
next
  case (Some e)
  then have "e < length areas" "ae_type (areas ! e) = t" "ae_number (areas ! e) = n"
    by (auto simp: findAreaByTypeNumber_def dest: find_index_SomeD)
  with assms Some show ?thesis
    by (auto simp: findOrCreateAreaLocked_def map_list_update_same split: if_splits)
qed

lemma updateOrFindVideoAreaLocked_spec:
  assumes "updateOrFindVideoAreaLocked now sid cur t n (areas, next) = (k, areas', next')"
  shows "k < length areas' \<and> ae_type (areas' ! k) = t \<and> ae_number (areas' ! k) = n \<and>
    (map ae_id areas' = map ae_id areas \<and> map ae_store_id areas' = map ae_store_id areas \<and>
       next' = next \<or>
     map ae_id areas' = map ae_id areas @ [next] \<and>
       map ae_store_id areas' = map ae_store_id areas @ [sid] \<and> next' = next + 1)"
proof (cases "if cur \<noteq> 0 then find_index (\<lambda>ar. ae_id ar = cur \<and> video_source (ae_source ar)) areas
              else None")
  case None
  then have "findOrCreateAreaLocked now sid t n AreaSourceVideoChannel (areas, next) = (k, areas', next')"
    using assms by (simp add: updateOrFindVideoAreaLocked_def)
  then show ?thesis by (rule findOrCreateAreaLocked_spec)
next
  case (Some i)
  then have i: "i < length areas" by (auto dest: find_index_length split: if_splits)
  show ?thesis
  proof (cases "findAreaByTypeNumber areas t n")
    case None
    with Some i assms show ?thesis
      by (auto simp: updateOrFindVideoAreaLocked_def map_list_update_same)
  next
    case e: (Some e)
    then have e': "e < length areas" "ae_type (areas ! e) = t" "ae_number (areas ! e) = n"
      by (auto simp: findAreaByTypeNumber_def dest: find_index_SomeD)
    show ?thesis
    proof (cases "ae_id (areas ! e) \<noteq> cur")
      case True
      with Some e assms have "k = e" "next' = next" "areas' = areas[e :=
          (if video_source (ae_source (areas ! e)) then areas ! e
           else (areas ! e)\<lparr>ae_source := AreaSourceMultiple\<rparr>)\<lparr>ae_updated_at := now\<rparr>]"
        by (auto simp: updateOrFindVideoAreaLocked_def Let_def)
      with e' show ?thesis by (simp add: map_list_update_same)
    next
      case False
      with Some e assms i show ?thesis
        by (auto simp: updateOrFindVideoAreaLocked_def map_list_update_same)
    qed
  qed
qed

end
