(* ===== verification/SS_Inv.thy ===== *)
theory SS_Inv
  imports SS_Channels "HOL-Library.Multiset"
begin

text \<open>
  The invariant of \<open>MemoryStore\<close>: ids, back references, the area a channel names, the count of
  effective channels.  Each operation keeps it; the step relation \<open>mem_step\<close> has one rule per
  operation (and one for Go's freedom to iterate a map in any order), and every reachable state has
  the invariant.
\<close>

section \<open>The invariant\<close>

definition channel_ok :: "int \<Rightarrow> channel \<Rightarrow> bool" where
  "channel_ok rid ch \<longleftrightarrow>
     ch_recorder_id ch = rid \<and> 0 < ch_id ch \<and> 0 < ch_channel_no ch \<and>
     (ch_is_active ch \<longrightarrow> ch_status ch \<noteq> ChannelStatusInactive)"

definition recorder_ok :: "recorder \<Rightarrow> bool" where
  "recorder_ok rc \<longleftrightarrow>
     distinct (map ch_id (rc_channels rc)) \<and> distinct (map ch_channel_no (rc_channels rc)) \<and>
     (\<forall>ch \<in> set (rc_channels rc). channel_ok (rc_id rc) ch) \<and>
     rc_effective_channel_count rc = activeChannelCount (rc_channels rc)"

definition areas_named :: "store \<Rightarrow> recorder \<Rightarrow> bool" where
  "areas_named st rc \<longleftrightarrow>
     (\<forall>ch \<in> set (rc_channels rc). ch_area_id ch \<noteq> 0 \<longrightarrow> ch_area_id ch \<in> ae_id ` set (st_areas st))"

definition area_in :: "int \<Rightarrow> int \<Rightarrow> area \<Rightarrow> bool" where
  "area_in nextArea k ar \<longleftrightarrow> 0 < ae_id ar \<and> ae_id ar < nextArea \<and> ae_store_id ar = k"

definition recorder_in :: "int \<Rightarrow> int \<Rightarrow> recorder \<Rightarrow> bool" where
  "recorder_in nextRecorder k rc \<longleftrightarrow>
     recorder_ok rc \<and> rc_store_id rc = k \<and> 0 < rc_id rc \<and> rc_id rc < nextRecorder"

definition store_ok :: "int \<Rightarrow> int \<Rightarrow> int \<Rightarrow> store \<Rightarrow> bool" where
  "store_ok nextArea nextRecorder k st \<longleftrightarrow>
     st_id st = k \<and> distinct (map ae_id (st_areas st)) \<and>
     (\<forall>ar \<in> set (st_areas st). area_in nextArea k ar) \<and>
     (\<forall>rc \<in> set (st_recorders st). recorder_in nextRecorder k rc \<and> areas_named st rc)"

definition all_recorder_ids :: "(int \<times> store) list \<Rightarrow> int list" where
  "all_recorder_ids stores = concat (map (\<lambda>(k, st). map rc_id (st_recorders st)) stores)"

definition mem_inv :: "mem_store \<Rightarrow> bool" where
  "mem_inv s \<longleftrightarrow>
     0 < ms_next_store_id s \<and> 0 < ms_next_area_id s \<and> 0 < ms_next_recorder_id s \<and>
     0 < ms_next_account_id s \<and>
     distinct (map fst (ms_stores s)) \<and>
     (\<forall>(k, st) \<in> set (ms_stores s). 0 < k \<and> k < ms_next_store_id s \<and>
        store_ok (ms_next_area_id s) (ms_next_recorder_id s) k st) \<and>
     distinct (all_recorder_ids (ms_stores s)) \<and>
     distinct (map fst (ms_accounts s)) \<and>
     (\<forall>(k, a) \<in> set (ms_accounts s). ea_id a = k \<and> 0 < k \<and> k < ms_next_account_id s)"

section \<open>Parts of the invariant\<close>

lemma store_ok_fields [simp]:
  "store_ok na nr k (st\<lparr>st_updated_at := t\<rparr>) = store_ok na nr k st"
  "store_ok na nr k (st\<lparr>st_design_plans := p\<rparr>) = store_ok na nr k st"
  "store_ok na nr k (st\<lparr>st_design_plan_status := d\<rparr>) = store_ok na nr k st"
  by (simp_all add: store_ok_def areas_named_def)

lemma store_ok_mono:
  assumes "store_ok na nr k st" "na \<le> na'" "nr \<le> nr'"
  shows "store_ok na' nr' k st"
proof -
  have "area_in na k ar \<Longrightarrow> area_in na' k ar" for ar
    using assms(2) by (simp add: area_in_def)
  moreover have "recorder_in nr k rc \<Longrightarrow> recorder_in nr' k rc" for rc
    using assms(3) by (simp add: recorder_in_def)
  ultimately show ?thesis using assms(1) by (auto simp: store_ok_def)
qed

lemma mem_inv_stored:
  assumes "mem_inv s" "get_store s k = Some st"
  shows "store_ok (ms_next_area_id s) (ms_next_recorder_id s) k st" "0 < k" "k < ms_next_store_id s"
proof -
  have "(k, st) \<in> set (ms_stores s)"
    using assms(2) by (auto simp: get_store_def dest: map_of_SomeD)
  then show "store_ok (ms_next_area_id s) (ms_next_recorder_id s) k st" "0 < k" "k < ms_next_store_id s"
    using assms(1) unfolding mem_inv_def by fast+
qed

lemma mem_inv_distinct: "mem_inv s \<Longrightarrow> distinct (map fst (ms_stores s))"
  by (simp add: mem_inv_def)

text \<open>Replacing one store by another with the same recorder ids.\<close>

lemma mem_inv_put_area:
  assumes inv: "mem_inv s" and st: "get_store s k = Some st"
    and ok: "store_ok na (ms_next_recorder_id s) k st'"
    and ids: "map rc_id (st_recorders st') = map rc_id (st_recorders st)"
    and na: "ms_next_area_id s \<le> na"
  shows "mem_inv (put_store k st' (s\<lparr>ms_next_area_id := na, ms_next_plan_id := np\<rparr>))"
proof -
  obtain ys zs where sp: "ms_stores s = ys @ (k, st) # zs"
    "\<And>st'. ms_stores (put_store k st' s) = ys @ (k, st') # zs"
    using put_store_split [OF st] by metis
  let ?s = "put_store k st' (s\<lparr>ms_next_area_id := na, ms_next_plan_id := np\<rparr>)"
  have ms: "ms_stores ?s = ys @ (k, st') # zs"
    using sp(2) [of st'] by (simp add: put_store_def)
  have "store_ok na (ms_next_recorder_id s) j t" if "(j, t) \<in> set ys \<union> set zs" for j t
  proof -
    have "(j, t) \<in> set (ms_stores s)" using that sp(1) by auto
    with inv have "store_ok (ms_next_area_id s) (ms_next_recorder_id s) j t"
      by (auto simp: mem_inv_def)
    then show ?thesis using na by (rule store_ok_mono) simp
  qed
  moreover have "0 < j \<and> j < ms_next_store_id s" if "(j, t) \<in> set (ms_stores s)" for j t
    using inv that by (auto simp: mem_inv_def)
  ultimately have "\<forall>(j, t) \<in> set (ms_stores ?s). 0 < j \<and> j < ms_next_store_id s \<and>
      store_ok na (ms_next_recorder_id s) j t"
    using ok sp(1) unfolding ms by auto
  moreover have "all_recorder_ids (ms_stores ?s) = all_recorder_ids (ms_stores s)"
    unfolding ms sp(1) by (simp add: all_recorder_ids_def ids)
  moreover have "map fst (ms_stores ?s) = map fst (ms_stores s)"
    unfolding ms sp(1) by simp
  ultimately show ?thesis
    using inv na by (simp add: mem_inv_def frame_simps)
qed

lemma mem_inv_put:
  assumes "mem_inv s" "get_store s k = Some st"
    and "store_ok (ms_next_area_id s) (ms_next_recorder_id s) k st'"
    and "map rc_id (st_recorders st') = map rc_id (st_recorders st)"
  shows "mem_inv (put_store k st' s)"
  using mem_inv_put_area [OF assms, of "ms_next_plan_id s"] by simp

section \<open>Recorders and channels in place\<close>

lemma activeChannelCount_ok:
  "\<forall>ch \<in> set chs. channel_ok rid ch \<Longrightarrow>
   activeChannelCount chs = int (length (filter ch_is_active chs))"
proof -
  assume "\<forall>ch \<in> set chs. channel_ok rid ch"
  then have "filter (\<lambda>ch. ch_is_active ch \<and> ch_status ch \<noteq> ChannelStatusInactive) chs
      = filter ch_is_active chs"
    by (intro filter_cong) (auto simp: channel_ok_def)
  then show ?thesis by (simp add: activeChannelCount_def)
qed

lemma length_filter_map: "length (filter P xs) = length (filter id (map P xs))"
  by (induction xs) auto

text \<open>What a write to one channel must keep.\<close>

definition channel_frame :: "channel \<Rightarrow> channel \<Rightarrow> bool" where
  "channel_frame ch ch' \<longleftrightarrow>
     ch_id ch' = ch_id ch \<and> ch_channel_no ch' = ch_channel_no ch \<and>
     ch_recorder_id ch' = ch_recorder_id ch \<and> ch_is_active ch' = ch_is_active ch \<and>
     (ch_is_active ch' \<longrightarrow> ch_status ch' \<noteq> ChannelStatusInactive)"

lemma recorder_ok_set_channel:
  assumes rc: "recorder_ok rc" and ci: "ci < length (rc_channels rc)"
    and fr: "channel_frame (rc_channels rc ! ci) ch'"
  shows "recorder_ok (rc\<lparr>rc_channels := (rc_channels rc)[ci := ch']\<rparr>)"
proof -
  let ?chs = "(rc_channels rc)[ci := ch']"
  have ok: "\<forall>ch \<in> set ?chs. channel_ok (rc_id rc) ch"
  proof
    fix ch assume "ch \<in> set ?chs"
    then have "ch = ch' \<or> ch \<in> set (rc_channels rc)"
      using set_update_subset_insert by fastforce
    moreover have "channel_ok (rc_id rc) (rc_channels rc ! ci)"
      using rc ci by (simp add: recorder_ok_def)
    ultimately show "channel_ok (rc_id rc) ch"
      using rc fr by (auto simp: recorder_ok_def channel_ok_def channel_frame_def)
  qed
  have "length (filter ch_is_active ?chs) = length (filter ch_is_active (rc_channels rc))"
    using ci fr unfolding length_filter_map [of ch_is_active]
    by (simp add: map_list_update_same channel_frame_def)
  then have "activeChannelCount ?chs = activeChannelCount (rc_channels rc)"
    using activeChannelCount_ok [OF ok] activeChannelCount_ok [of "rc_channels rc" "rc_id rc"] rc
    by (simp add: recorder_ok_def)
  then show ?thesis
    using rc ok ci fr by (simp add: recorder_ok_def map_list_update_same channel_frame_def)
qed

lemma store_ok_set_recorder:
  assumes st: "store_ok na nr k st" and ri: "ri < length (st_recorders st)"
    and rc: "recorder_ok rc" "rc_id rc = rc_id (recorder_at st ri)"
      "rc_store_id rc = rc_store_id (recorder_at st ri)" "areas_named st rc"
  shows "store_ok na nr k (set_recorder ri rc st)"
proof -
  have mem: "recorder_at st ri \<in> set (st_recorders st)"
    using ri by (simp add: recorder_at_def)
  have new: "recorder_in nr k rc \<and> areas_named st rc"
    using st mem rc by (auto simp: store_ok_def recorder_in_def)
  have "recorder_in nr k r \<and> areas_named st r" if "r \<in> set ((st_recorders st)[ri := rc])" for r
  proof -
    have "r = rc \<or> r \<in> set (st_recorders st)" using that set_update_subset_insert by fastforce
    then show ?thesis using new st by (auto simp: store_ok_def)
  qed
  then show ?thesis using st by (simp add: store_ok_def frame_simps areas_named_def)
qed

lemma map_rc_id_set_recorder:
  "ri < length (st_recorders st) \<Longrightarrow> rc_id rc = rc_id (recorder_at st ri) \<Longrightarrow>
   map rc_id (st_recorders (set_recorder ri rc st)) = map rc_id (st_recorders st)"
  by (simp add: frame_simps map_list_update_same recorder_at_def)

lemma store_ok_set_channel:
  assumes st: "store_ok na nr k st" and ri: "ri < length (st_recorders st)"
    and ci: "ci < length (rc_channels (recorder_at st ri))"
    and fr: "channel_frame (channel_at st ri ci) ch'"
    and ar: "ch_area_id ch' \<noteq> 0 \<Longrightarrow> ch_area_id ch' \<in> ae_id ` set (st_areas st)"
  shows "store_ok na nr k (set_channel ri ci ch' st)"
proof -
  let ?rc = "recorder_at st ri"
  have mem: "?rc \<in> set (st_recorders st)" using ri by (simp add: recorder_at_def)
  then have rc: "recorder_ok ?rc" "areas_named st ?rc"
    using st by (auto simp: store_ok_def recorder_in_def)
  have "areas_named st (?rc\<lparr>rc_channels := (rc_channels ?rc)[ci := ch']\<rparr>)"
    using rc(2) ar set_update_subset_insert [of "rc_channels ?rc" ci ch']
    by (fastforce simp: areas_named_def)
  moreover have "recorder_ok (?rc\<lparr>rc_channels := (rc_channels ?rc)[ci := ch']\<rparr>)"
    using rc(1) ci fr by (intro recorder_ok_set_channel) (simp_all add: channel_at_def)
  ultimately show ?thesis
    unfolding set_channel_def using st ri by (intro store_ok_set_recorder) simp_all
qed

lemma map_rc_id_set_channel:
  "ri < length (st_recorders st) \<Longrightarrow>
   map rc_id (st_recorders (set_channel ri ci ch st)) = map rc_id (st_recorders st)"
  unfolding set_channel_def by (rule map_rc_id_set_recorder) simp_all

lemma areas_named_mono:
  "areas_named st rc \<Longrightarrow> ae_id ` set (st_areas st) \<subseteq> ae_id ` set (st_areas st') \<Longrightarrow> areas_named st' rc"
  by (auto simp: areas_named_def)

text \<open>Dropping unused video areas never drops one that a channel names.\<close>

lemma store_ok_deleteUnused:
  assumes "store_ok na nr k st"
  shows "store_ok na nr k (deleteUnusedVideoAreasLocked st)"
proof -
  have "areas_named (deleteUnusedVideoAreasLocked st) rc" if rc: "rc \<in> set (st_recorders st)" for rc
    unfolding areas_named_def
  proof (intro ballI impI)
    fix ch assume ch: "ch \<in> set (rc_channels rc)" "ch_area_id ch \<noteq> 0"
    then obtain ar where ar: "ar \<in> set (st_areas st)" "ae_id ar = ch_area_id ch"
      using assms rc by (fastforce simp: store_ok_def areas_named_def)
    have "ch_area_id ch \<in> set (referenced_areas (st_recorders st))"
      using ch rc by (auto simp: referenced_areas_def)
    with ar show "ch_area_id ch \<in> ae_id ` set (st_areas (deleteUnusedVideoAreasLocked st))"
      by (force simp: deleteUnusedVideoAreasLocked_def)
  qed
  moreover have "distinct (map ae_id (st_areas (deleteUnusedVideoAreasLocked st)))"
    using assms by (simp add: store_ok_def deleteUnusedVideoAreasLocked_def distinct_map_filter)
  ultimately show ?thesis
    using assms by (auto simp: store_ok_def frame_simps) (auto simp: deleteUnusedVideoAreasLocked_def)
qed

section \<open>Accounts\<close>

lemma mem_inv_accounts:
  assumes inv: "mem_inv s" and na: "ms_next_account_id s \<le> na"
    and d: "distinct (map fst accs)"
    and ok: "\<And>k a. (k, a) \<in> set accs \<Longrightarrow> ea_id a = k \<and> 0 < k \<and> k < na"
  shows "mem_inv (s\<lparr>ms_next_account_id := na, ms_accounts := accs\<rparr>)"
  using inv na d ok by (auto simp: mem_inv_def all_recorder_ids_def)

lemma mem_inv_account: "mem_inv s \<Longrightarrow> (k, a) \<in> set (ms_accounts s) \<Longrightarrow>
    ea_id a = k \<and> 0 < k \<and> k < ms_next_account_id s"
  unfolding mem_inv_def by fast

lemma mem_inv_add_account:
  assumes inv: "mem_inv s" and a: "ea_id a = ms_next_account_id s"
  shows "mem_inv (s\<lparr>ms_next_account_id := ms_next_account_id s + 1,
    ms_accounts := AList.update (ea_id a) a (ms_accounts s)\<rparr>)"
proof (rule mem_inv_accounts [OF inv])
  show "distinct (map fst (AList.update (ea_id a) a (ms_accounts s)))"
    using inv by (simp add: distinct_update mem_inv_def)
  fix k b assume "(k, b) \<in> set (AList.update (ea_id a) a (ms_accounts s))"
  then consider "k = ea_id a" "b = a" | "(k, b) \<in> set (ms_accounts s)"
    using set_alist_update by fast
  moreover have "0 < ms_next_account_id s" using inv by (simp add: mem_inv_def)
  ultimately show "ea_id b = k \<and> 0 < k \<and> k < ms_next_account_id s + 1"
    using a mem_inv_account [OF inv, of k b] by cases auto
qed simp

lemma CreateEzvizAccount_inv: "mem_inv s \<Longrightarrow> mem_inv (snd (CreateEzvizAccount now input s))"
  by (simp add: CreateEzvizAccount_def Let_def mem_inv_add_account [where a = "\<lparr>ea_id = i, ea_account_name = x,
    ea_status = y, ea_last_verified_at = z, ea_created_at = t, ea_updated_at = u\<rparr>" for i x y z t u, simplified])

lemma UpsertEzvizAccountName_inv:
  assumes "mem_inv s"
  shows "mem_inv (UpsertEzvizAccountName now name s)"
proof -
  let ?f = "\<lambda>(i, account). if ea_account_name account = trim_space name
      then Some ((), (i, account\<lparr>ea_status := ''available'', ea_updated_at := now\<rparr>)) else None"
  show ?thesis
  proof (cases "upd_first ?f (ms_accounts s)")
    case None
    then show ?thesis
      using assms by (simp add: UpsertEzvizAccountName_def Let_def
        mem_inv_add_account [where a = "\<lparr>ea_id = i, ea_account_name = x, ea_status = y,
          ea_last_verified_at = z, ea_created_at = t, ea_updated_at = u\<rparr>" for i x y z t u, simplified])
  next
    case (Some p)
    then obtain u accs where p: "upd_first ?f (ms_accounts s) = Some (u, accs)" by (cases p) auto
    have "map fst accs = map fst (ms_accounts s)"
      using p by (rule upd_first_map_eq) (auto split: if_splits)
    moreover have "ea_id b = k \<and> 0 < k \<and> k < ms_next_account_id s" if "(k, b) \<in> set accs" for k b
      using upd_first_set [OF p that] mem_inv_account [OF assms] by (fastforce split: if_splits)
    ultimately have "mem_inv (s\<lparr>ms_next_account_id := ms_next_account_id s, ms_accounts := accs\<rparr>)"
      using assms by (intro mem_inv_accounts) (auto simp: mem_inv_def)
    then show ?thesis using p assms by (simp add: UpsertEzvizAccountName_def Let_def)
  qed
qed

section \<open>Stores and their recorders\<close>

lemma all_recorder_ids_simps [simp]:
  "all_recorder_ids [] = []"
  "all_recorder_ids ((k, st) # xs) = map rc_id (st_recorders st) @ all_recorder_ids xs"
  "all_recorder_ids (xs @ ys) = all_recorder_ids xs @ all_recorder_ids ys"
  by (simp_all add: all_recorder_ids_def)

lemma recorder_ids_lt:
  assumes "mem_inv s" "i \<in> set (all_recorder_ids (ms_stores s))"
  shows "i < ms_next_recorder_id s"
proof -
  obtain k st rc where m: "(k, st) \<in> set (ms_stores s)" "rc \<in> set (st_recorders st)" "i = rc_id rc"
    using assms(2) by (auto simp: all_recorder_ids_def)
  with assms(1) have "store_ok (ms_next_area_id s) (ms_next_recorder_id s) k st"
    unfolding mem_inv_def by fast
  with m show ?thesis by (auto simp: store_ok_def recorder_in_def)
qed

lemma mem_inv_stores:
  assumes inv: "mem_inv s"
    and n: "ms_next_store_id s \<le> ms_next_store_id s'" "ms_next_area_id s \<le> ms_next_area_id s'"
      "ms_next_recorder_id s \<le> ms_next_recorder_id s'"
    and a: "ms_next_account_id s' = ms_next_account_id s" "ms_accounts s' = ms_accounts s"
    and d: "distinct (map fst (ms_stores s'))" "distinct (all_recorder_ids (ms_stores s'))"
    and ok: "\<And>k st. (k, st) \<in> set (ms_stores s') \<Longrightarrow> (k, st) \<in> set (ms_stores s) \<or>
      0 < k \<and> k < ms_next_store_id s' \<and> store_ok (ms_next_area_id s') (ms_next_recorder_id s') k st"
  shows "mem_inv s'"
proof -
  have "0 < k \<and> k < ms_next_store_id s' \<and> store_ok (ms_next_area_id s') (ms_next_recorder_id s') k st"
    if "(k, st) \<in> set (ms_stores s')" for k st
    using ok [OF that]
  proof
    assume "(k, st) \<in> set (ms_stores s)"
    then have "0 < k" "k < ms_next_store_id s" "store_ok (ms_next_area_id s) (ms_next_recorder_id s) k st"
      using inv unfolding mem_inv_def by fast+
    then show ?thesis using n store_ok_mono by auto
  qed
  then show ?thesis using inv n d a by (auto simp: mem_inv_def)
qed

text \<open>Only the stores, the accounts and the id counters matter.\<close>

lemma mem_inv_cong:
  "ms_next_store_id s' = ms_next_store_id s \<Longrightarrow> ms_next_area_id s' = ms_next_area_id s \<Longrightarrow>
   ms_next_recorder_id s' = ms_next_recorder_id s \<Longrightarrow> ms_next_account_id s' = ms_next_account_id s \<Longrightarrow>
   ms_stores s' = ms_stores s \<Longrightarrow> ms_accounts s' = ms_accounts s \<Longrightarrow> mem_inv s' = mem_inv s"
  by (simp add: mem_inv_def)

lemma recorder_ok_new: "recorder_ok (new_recorder now rid sid acc code)"
  by (simp add: recorder_ok_def new_recorder_def recorder_zero_def activeChannelCount_def)

lemma recorder_in_new:
  "0 < rid \<Longrightarrow> rid < nr \<Longrightarrow> recorder_in nr sid (new_recorder now rid sid acc code)"
  using recorder_ok_new [of now rid sid acc code]
  by (simp add: recorder_in_def) (simp add: new_recorder_def recorder_zero_def)

lemma areas_named_new [simp]: "areas_named st (new_recorder now rid sid acc code)"
  by (simp add: areas_named_def new_recorder_def recorder_zero_def)

text \<open>The recorders of a new store get the next ids, one after another.\<close>

lemma create_recorders_spec:
  assumes "create_recorders now sid inputs (next, rcs, codes) = (next', rcs', codes')" and "0 < next"
  shows "next \<le> next' \<and> (\<exists>new. rcs' = rcs @ new \<and> distinct (map rc_id new) \<and>
    (\<forall>rc \<in> set new. next \<le> rc_id rc \<and> recorder_in next' sid rc \<and> rc_channels rc = []))"
  using assms
proof (induction inputs arbitrary: "next" rcs codes)
  case Nil
  then show ?case by simp
next
  case (Cons input rest)
  show ?case
  proof (cases "normalizeDeviceCode (ri_device_code input) = []")
    case True
    with Cons show ?thesis by (simp add: Let_def)
  next
    case False
    let ?rc = "new_recorder now next sid (ri_ezviz_account_id input)
      (normalizeDeviceCode (ri_device_code input))"
    have id: "rc_id ?rc = next" "rc_channels ?rc = []" by (simp_all add: new_recorder_def recorder_zero_def)
    from False Cons.prems obtain codes0 where "create_recorders now sid rest
        (next + 1, rcs @ [?rc], codes0) = (next', rcs', codes')"
      by (auto simp: Let_def)
    from Cons.IH [OF this] Cons.prems(2) obtain new where new: "next + 1 \<le> next'"
      "rcs' = rcs @ ?rc # new" "distinct (map rc_id new)"
      "\<forall>rc \<in> set new. next + 1 \<le> rc_id rc \<and> recorder_in next' sid rc \<and> rc_channels rc = []"
      by auto
    have "recorder_in next' sid ?rc"
      using new(1) Cons.prems(2) by (intro recorder_in_new) auto
    moreover have "next \<notin> rc_id ` set new" using new(4) by fastforce
    ultimately show ?thesis
      using new id by (intro conjI exI [of _ "?rc # new"]) auto
  qed
qed

lemma CreateStore_inv:
  assumes inv: "mem_inv s"
  shows "mem_inv (snd (CreateStore now input s))"
proof -
  let ?sid = "ms_next_store_id s"
  have pos: "0 < ?sid" "0 < ms_next_recorder_id s" using inv by (auto simp: mem_inv_def)
  obtain nr rcs codes where cr: "create_recorders now ?sid (cs_recorders input)
      (ms_next_recorder_id s, [], ms_device_codes s) = (nr, rcs, codes)"
    by (metis prod_cases3)
  note rc = create_recorders_spec [OF cr pos(2), simplified]
  have fresh: "?sid \<notin> fst ` set (ms_stores s)"
    using inv unfolding mem_inv_def by fastforce
  obtain st np where st: "snd (CreateStore now input s) = put_store ?sid st
      (s\<lparr>ms_next_store_id := ?sid + 1, ms_next_plan_id := np, ms_next_recorder_id := nr,
         ms_device_codes := codes\<rparr>)" "st_id st = ?sid" "st_areas st = []" "st_recorders st = rcs"
    using cr by (simp add: CreateStore_def Let_def store_zero_def)
  have up: "AList.update ?sid st (ms_stores s) = ms_stores s @ [(?sid, st)]"
    using fresh by (rule alist_update_new)
  have ok: "store_ok (ms_next_area_id s) nr ?sid st"
    using rc st by (auto simp: store_ok_def areas_named_def)
  have disj: "set (all_recorder_ids (ms_stores s)) \<inter> rc_id ` set rcs = {}"
    using recorder_ids_lt [OF inv] rc by fastforce
  have "distinct (map fst (ms_stores s @ [(?sid, st)]))"
    using fresh inv by (simp add: mem_inv_def)
  moreover have "distinct (all_recorder_ids (ms_stores s @ [(?sid, st)]))"
    using inv rc disj st by (auto simp: mem_inv_def)
  ultimately show ?thesis
    unfolding st(1) using ok pos rc
    by (intro mem_inv_stores [OF inv]) (auto simp: put_store_def up)
qed

lemma UpdateStoreBasicInfo_inv:
  assumes "mem_inv s"
  shows "mem_inv (snd (UpdateStoreBasicInfo now i input s))"
proof (cases "get_store s i")
  case (Some st)
  note ok = mem_inv_stored(1) [OF assms Some]
  then have "mem_inv (put_store i (st\<lparr>st_city := trim_space (ub_city input),
      st_name := trim_space (ub_name input), st_short_name := trim_space (ub_short_name input),
      st_normalized_name := NormalizeStoreName (ub_name input),
      st_external_org_id := trim_space (ub_external_org_id input), st_updated_at := now\<rparr>) s)"
    by (intro mem_inv_put [OF assms Some]) (simp_all add: store_ok_def areas_named_def)
  then show ?thesis using Some by (simp add: UpdateStoreBasicInfo_def Let_def)
qed (simp add: UpdateStoreBasicInfo_def assms)

lemma distinct_all_recorder_ids_delete:
  "distinct (all_recorder_ids xs) \<Longrightarrow> distinct (all_recorder_ids (AList.delete i xs))"
proof -
  have "set (all_recorder_ids (AList.delete i xs)) \<subseteq> set (all_recorder_ids xs)" for xs
    by (induction xs) (auto split: if_splits)
  then show "distinct (all_recorder_ids xs) \<Longrightarrow> distinct (all_recorder_ids (AList.delete i xs))"
    by (induction xs) (auto, blast)
qed

lemma DeleteStore_inv:
  assumes "mem_inv s"
  shows "mem_inv (snd (DeleteStore i s))"
proof (cases "get_store s i")
  case (Some st)
  have sub: "set (AList.delete i (ms_stores s)) \<subseteq> set (ms_stores s)"
    by (auto simp: AList.delete_eq)
  show ?thesis
    using Some assms sub
    by (intro mem_inv_stores [OF assms])
      (auto simp: DeleteStore_def mem_inv_def distinct_delete distinct_all_recorder_ids_delete)
qed (simp add: DeleteStore_def assms)

section \<open>Areas\<close>

lemma mem_inv_write:
  assumes inv: "mem_inv s" and st: "get_store s k = Some st"
    and eq: "ms_stores s' = ms_stores (put_store k st' s)"
      "ms_next_store_id s' = ms_next_store_id s" "ms_next_recorder_id s' = ms_next_recorder_id s"
      "ms_next_account_id s' = ms_next_account_id s" "ms_accounts s' = ms_accounts s"
    and na: "ms_next_area_id s \<le> ms_next_area_id s'"
    and ok: "store_ok (ms_next_area_id s') (ms_next_recorder_id s) k st'"
    and ids: "map rc_id (st_recorders st') = map rc_id (st_recorders st)"
  shows "mem_inv s'"
proof -
  have "mem_inv (put_store k st' (s\<lparr>ms_next_area_id := ms_next_area_id s', ms_next_plan_id := 0\<rparr>))"
    by (rule mem_inv_put_area [OF inv st ok ids na])
  then show ?thesis
    by (rule mem_inv_cong [THEN iffD2, rotated -1]) (simp_all add: eq put_store_def)
qed

text \<open>What an operation on the areas of a store may do: keep them, or add one with the next id.\<close>

definition area_key :: "area \<Rightarrow> int \<times> int" where
  "area_key ar = (ae_id ar, ae_store_id ar)"

definition areas_grow :: "int \<Rightarrow> area list \<times> int \<Rightarrow> area list \<times> int \<Rightarrow> bool" where
  "areas_grow k old new \<longleftrightarrow>
     (map area_key (fst new) = map area_key (fst old) \<and> snd new = snd old \<or>
      map area_key (fst new) = map area_key (fst old) @ [(snd old, k)] \<and> snd new = snd old + 1)"

definition areas_ok :: "int \<Rightarrow> area list \<times> int \<Rightarrow> bool" where
  "areas_ok k a \<longleftrightarrow> 0 < snd a \<and> distinct (map ae_id (fst a)) \<and> (\<forall>ar \<in> set (fst a). area_in (snd a) k ar)"

lemma area_in_key: "area_in n k ar \<longleftrightarrow> 0 < fst (area_key ar) \<and> fst (area_key ar) < n \<and> snd (area_key ar) = k"
  by (simp add: area_in_def area_key_def)

lemma area_ids_keys: "map ae_id areas = map fst (map area_key areas)"
  by (simp add: area_key_def)

lemma areas_grow_ok:
  assumes ok: "areas_ok k old" and grow: "areas_grow k old new"
  shows "areas_ok k new \<and> ae_id ` set (fst old) \<subseteq> ae_id ` set (fst new) \<and> snd old \<le> snd new"
proof -
  have key: "areas_ok k a \<longleftrightarrow> 0 < snd a \<and> distinct (map fst (map area_key (fst a))) \<and>
      (\<forall>p \<in> set (map area_key (fst a)). 0 < fst p \<and> fst p < snd a \<and> snd p = k)" for a
    unfolding areas_ok_def area_ids_keys by (simp add: area_in_key)
  have ids: "ae_id ` set xs = fst ` set (map area_key xs)" for xs
    unfolding set_map [symmetric] area_ids_keys by simp
  from grow show ?thesis
    unfolding areas_grow_def
  proof
    assume "map area_key (fst new) = map area_key (fst old) \<and> snd new = snd old"
    with ok show ?thesis unfolding key ids by simp
  next
    assume n: "map area_key (fst new) = map area_key (fst old) @ [(snd old, k)] \<and> snd new = snd old + 1"
    have "snd old \<notin> fst ` set (map area_key (fst old))"
      using ok unfolding key by fastforce
    moreover have "\<forall>p \<in> set (map area_key (fst old) @ [(snd old, k)]). 0 < fst p \<and> fst p < snd old + 1 \<and> snd p = k"
      using ok unfolding key set_append by (auto simp del: set_map)
    ultimately show ?thesis using ok n unfolding key ids by (auto simp del: map_map)
  qed
qed

lemma areas_ok_store: "store_ok na nr k st \<Longrightarrow> 0 < na \<Longrightarrow> areas_ok k (st_areas st, na)"
  by (simp add: store_ok_def areas_ok_def)

lemma map_area_key_zip: "map area_key xs = zip (map ae_id xs) (map ae_store_id xs)"
  by (induction xs) (simp_all add: area_key_def)

lemma map_area_key: "map ae_id xs = map ae_id ys \<Longrightarrow> map ae_store_id xs = map ae_store_id ys \<Longrightarrow>
    map area_key xs = map area_key ys"
  by (simp add: map_area_key_zip)

lemma save_design_area_grow: "areas_grow k acc (save_design_area now k input acc)"
proof -
  obtain areas "next" where acc: "acc = (areas, next)" by (cases acc)
  let ?n = "fst (atoi (trim_space (di_number_text input)))"
  let ?found = "case findAreaByID areas (di_id input) of Some i \<Rightarrow> Some i
    | None \<Rightarrow> findAreaByTypeNumber areas (di_type input) ?n"
  show ?thesis
  proof (cases ?found)
    case None
    then show ?thesis
      by (simp add: acc save_design_area_def Let_def areas_grow_def area_key_def area_zero_def)
  next
    case (Some i)
    then have "i < length areas"
      by (auto simp: findAreaByID_def findAreaByTypeNumber_def dest: find_index_length
          split: option.splits if_splits)
    with Some show ?thesis
      by (simp add: acc save_design_area_def Let_def areas_grow_def map_list_update_same area_key_def)
  qed
qed

lemma save_design_areas_ok:
  "areas_ok k acc \<Longrightarrow> areas_ok k (fold (save_design_area now k) inputs acc) \<and>
     ae_id ` set (fst acc) \<subseteq> ae_id ` set (fst (fold (save_design_area now k) inputs acc)) \<and>
     snd acc \<le> snd (fold (save_design_area now k) inputs acc)"
proof (induction inputs arbitrary: acc)
  case (Cons i rest)
  note one = areas_grow_ok [OF Cons.prems save_design_area_grow, of now i]
  note rest = Cons.IH [OF conjunct1 [OF one]]
  show ?case
    unfolding fold.simps comp_apply
  proof (intro conjI)
    show "ae_id ` set (fst acc) \<subseteq> ae_id ` set (fst (fold (save_design_area now k) rest (save_design_area now k i acc)))"
      using one rest by (meson subset_trans)
    show "snd acc \<le> snd (fold (save_design_area now k) rest (save_design_area now k i acc))"
      using one rest by (meson order_trans)
  qed (use rest in blast)
qed simp

lemma store_ok_areas:
  assumes ok: "store_ok na nr k st" and new: "areas_ok k (areas, na')"
    and sub: "ae_id ` set (st_areas st) \<subseteq> ae_id ` set areas"
    and st': "st_id st' = st_id st" "st_areas st' = areas" "st_recorders st' = st_recorders st"
  shows "store_ok na' nr k st'"
proof -
  have "areas_named st' rc" if "rc \<in> set (st_recorders st)" for rc
    using ok that by (intro areas_named_mono [of st rc st']) (use sub st' in \<open>auto simp: store_ok_def\<close>)
  then show ?thesis using ok new st' by (simp add: store_ok_def areas_ok_def)
qed

lemma mem_inv_next: "mem_inv s \<Longrightarrow> 0 < ms_next_area_id s"
  by (simp add: mem_inv_def)

lemma SaveDesignPlan_inv:
  assumes inv: "mem_inv s"
  shows "mem_inv (snd (SaveDesignPlan now i input s))"
proof (cases "get_store s i")
  case (Some st)
  note ok = mem_inv_stored(1) [OF inv Some]
  have k: "st_id st = i" using ok by (simp add: store_ok_def)
  obtain areas na where f: "fold (save_design_area now i) (sp_areas input) (st_areas st, ms_next_area_id s)
      = (areas, na)" by fastforce
  note new = save_design_areas_ok [OF areas_ok_store [OF ok mem_inv_next [OF inv]], of now "sp_areas input",
    unfolded f fst_conv snd_conv]
  let ?s = "snd (SaveDesignPlan now i input s)"
  let ?st = "\<lambda>pl. st\<lparr>st_design_plans := [pl], st_areas := areas,
      st_design_plan_status := DesignPlanStatusCompleted, st_updated_at := now\<rparr>"
  obtain pl where ms: "ms_stores ?s = ms_stores (put_store i (?st pl) s)"
    using Some f k by (cases "st_design_plans st") (simp_all add: SaveDesignPlan_def Let_def put_store_def)
  have eq: "ms_next_store_id ?s = ms_next_store_id s"
    "ms_next_recorder_id ?s = ms_next_recorder_id s" "ms_next_account_id ?s = ms_next_account_id s"
    "ms_accounts ?s = ms_accounts s"
    using Some f k by (simp_all add: SaveDesignPlan_def frame_simps Let_def split: list.splits)
  have na: "ms_next_area_id ?s = na"
    using Some f k by (simp add: SaveDesignPlan_def frame_simps Let_def split: list.splits)
  have ok': "store_ok (ms_next_area_id ?s) (ms_next_recorder_id s) i (?st pl)"
    unfolding na using new by (intro store_ok_areas [OF ok, of areas]) auto
  show ?thesis
    using new na by (intro mem_inv_write [OF inv Some ms eq _ ok']) simp_all
qed (simp add: SaveDesignPlan_def inv)

lemma FindOrCreateArea_inv:
  assumes inv: "mem_inv s"
  shows "mem_inv (snd (FindOrCreateArea now input n s))"
proof (cases "get_store s (al_store_id input)")
  case st: (Some st)
  note ok = mem_inv_stored(1) [OF inv st]
  have k: "st_id st = al_store_id input" using ok by (simp add: store_ok_def)
  note old = areas_ok_store [OF ok mem_inv_next [OF inv]]
  have upd: "mem_inv (put_store (al_store_id input) (st\<lparr>st_areas := areas, st_updated_at := now\<rparr>)
      (s\<lparr>ms_next_area_id := na\<rparr>))"
    if "areas_grow (al_store_id input) (st_areas st, ms_next_area_id s) (areas, na)" for areas na
    using areas_grow_ok [OF old that]
    by (intro mem_inv_write [OF inv st, where st' = "st\<lparr>st_areas := areas, st_updated_at := now\<rparr>"]
        store_ok_areas [OF ok, where areas = areas]) (simp_all add: put_store_def)
  show ?thesis
  proof (cases "findAreaByTypeNumber (st_areas st) (al_type input) n")
    case None
    then show ?thesis
      using upd [where areas = "st_areas st @ [a]" and na = "ms_next_area_id s + 1" for a] k st
      by (simp add: FindOrCreateArea_def Let_def areas_grow_def area_key_def area_zero_def)
  next
    case (Some e)
    then have "e < length (st_areas st)"
      by (auto simp: findAreaByTypeNumber_def dest: find_index_length)
    then show ?thesis
      using upd [where areas = "(st_areas st)[e := a]" and na = "ms_next_area_id s" for a] k st Some inv
      by (simp add: FindOrCreateArea_def Let_def areas_grow_def area_key_def map_list_update_same)
  qed
qed (simp add: FindOrCreateArea_def inv)

section \<open>Recorders\<close>

lemma AddRecorder_inv:
  assumes inv: "mem_inv s"
  shows "mem_inv (snd (AddRecorder now k input s))"
proof (cases "get_store s k")
  case (Some st)
  let ?n = "ms_next_recorder_id s"
  note ok = mem_inv_stored [OF inv Some]
  have k: "st_id st = k" using ok by (simp add: store_ok_def)
  let ?rc = "new_recorder now ?n k (ar_ezviz_account_id input) (normalizeDeviceCode (ar_device_code input))"
  let ?st = "st\<lparr>st_recorders := st_recorders st @ [?rc], st_updated_at := now\<rparr>"
  let ?s = "snd (AddRecorder now k input s)"
  have pos: "0 < ?n" using inv by (simp add: mem_inv_def)
  have id: "rc_id ?rc = ?n" by (simp add: new_recorder_def)
  obtain ys zs where sp: "ms_stores s = ys @ (k, st) # zs" "ms_stores (put_store k ?st s) = ys @ (k, ?st) # zs"
    using put_store_split [OF Some] by metis
  have ms: "ms_stores ?s = ys @ (k, ?st) # zs"
    using Some sp k by (simp add: AddRecorder_def Let_def put_store_def)
  have "store_ok (ms_next_area_id s) (?n + 1) k st" using ok(1) by (rule store_ok_mono) simp_all
  moreover have "recorder_in (?n + 1) k ?rc" by (rule recorder_in_new) (use pos in simp_all)
  ultimately have new: "store_ok (ms_next_area_id s) (?n + 1) k ?st"
    by (simp add: store_ok_def) (simp add: areas_named_def)
  have fresh: "?n \<notin> set (all_recorder_ids (ms_stores s))"
    using recorder_ids_lt [OF inv] by blast
  have "distinct (all_recorder_ids (ms_stores s))" using inv by (simp add: mem_inv_def)
  then have "distinct (all_recorder_ids (ms_stores ?s))"
    using fresh id unfolding ms sp(1) by auto
  moreover have "distinct (map fst (ms_stores ?s))"
    using mem_inv_distinct [OF inv] unfolding ms sp(1) by simp
  ultimately show ?thesis
    using new ok ms sp(1) Some
    by (intro mem_inv_stores [OF inv]) (auto simp: AddRecorder_def Let_def frame_simps)
qed (simp add: AddRecorder_def inv)

lemma remove_recorder_SomeE:
  assumes "remove_recorder rid rcs = Some (gone, rest)"
  obtains ys zs where "rcs = ys @ gone # zs" "rest = ys @ zs" "rc_id gone = rid"
    "\<forall>rc \<in> set ys. rc_id rc \<noteq> rid"
  using assms
proof (induction rcs arbitrary: rest thesis)
  case (Cons rc rcs)
  show ?case
  proof (cases "rc_id rc = rid")
    case True
    with Cons.prems(2) show ?thesis by (intro Cons.prems(1) [of "[]" rcs]) auto
  next
    case False
    with Cons.prems(2) obtain r where r: "remove_recorder rid rcs = Some (gone, r)" "rest = rc # r"
      by auto
    from Cons.IH [OF _ r(1)] obtain ys zs where "rcs = ys @ gone # zs" "r = ys @ zs" "rc_id gone = rid"
      "\<forall>rc \<in> set ys. rc_id rc \<noteq> rid" by blast
    with False r(2) show ?thesis by (intro Cons.prems(1) [of "rc # ys" zs]) auto
  qed
qed simp

lemma remove_recorder_None: "remove_recorder rid rcs = None \<longleftrightarrow> (\<forall>rc \<in> set rcs. rc_id rc \<noteq> rid)"
  by (induction rcs) auto

text \<open>What deleting a recorder leaves: the same stores, one of them without the recorder.\<close>

lemma DeleteRecorder_cases:
  obtains "snd (DeleteRecorder now rid s) = s" "fst (DeleteRecorder now rid s) = Inl ErrNotFound"
      "\<forall>(k, st) \<in> set (ms_stores s). \<forall>rc \<in> set (st_recorders st). rc_id rc \<noteq> rid"
  | ys k st zs as gone bs where "ms_stores s = ys @ (k, st) # zs" "st_recorders st = as @ gone # bs"
      "rc_id gone = rid" "fst (DeleteRecorder now rid s) = Inr ()"
      "snd (DeleteRecorder now rid s) =
        s\<lparr>ms_stores := ys @ (k, st\<lparr>st_recorders := as @ bs, st_updated_at := now\<rparr>) # zs,
          ms_device_codes := (ms_device_codes s)(rc_device_code gone := None)\<rparr>"
proof -
  let ?f = "\<lambda>(i, st). map_option (\<lambda>(gone, rest). (gone, (i, st\<lparr>st_recorders := rest, st_updated_at := now\<rparr>)))
               (remove_recorder rid (st_recorders st))"
  show thesis
  proof (cases "upd_first ?f (ms_stores s)")
    case None
    have "remove_recorder rid (st_recorders st) = None" if "(k, st) \<in> set (ms_stores s)" for k st
      using bspec [OF None [unfolded upd_first_None] that] by simp
    then show ?thesis
      using None by (intro that(1)) (auto simp: DeleteRecorder_def remove_recorder_None)
  next
    case (Some p)
    obtain gone stores where p: "p = (gone, stores)" by (cases p)
    from Some [unfolded p] show ?thesis
    proof (rule upd_first_SomeE)
      fix ys x x' zs
      assume x: "ms_stores s = ys @ x # zs" "stores = ys @ x' # zs" "?f x = Some (gone, x')"
      obtain k st where kst: "x = (k, st)" by (cases x)
      with x(3) obtain rest where r: "remove_recorder rid (st_recorders st) = Some (gone, rest)"
        "x' = (k, st\<lparr>st_recorders := rest, st_updated_at := now\<rparr>)" by auto
      from r(1) obtain as bs where "st_recorders st = as @ gone # bs" "rest = as @ bs" "rc_id gone = rid"
        by (rule remove_recorder_SomeE)
      with x kst r(2) Some p show ?thesis
        by (intro that(2) [of ys k st zs as gone bs]) (simp_all add: DeleteRecorder_def)
    qed
  qed
qed

lemma DeleteRecorder_inv:
  assumes inv: "mem_inv s"
  shows "mem_inv (snd (DeleteRecorder now rid s))"
proof (cases rule: DeleteRecorder_cases [of now rid s])
  case (2 ys k st zs as gone bs)
  let ?st = "st\<lparr>st_recorders := as @ bs, st_updated_at := now\<rparr>"
  have in_s: "(k, st) \<in> set (ms_stores s)" using 2(1) by simp
  then have ok: "0 < k" "k < ms_next_store_id s" "store_ok (ms_next_area_id s) (ms_next_recorder_id s) k st"
    using inv unfolding mem_inv_def by fast+
  then have "store_ok (ms_next_area_id s) (ms_next_recorder_id s) k ?st"
    using 2(2) by (simp add: store_ok_def areas_named_def)
  moreover have "distinct (all_recorder_ids (ms_stores s))" "distinct (map fst (ms_stores s))"
    using inv by (simp_all add: mem_inv_def)
  ultimately show ?thesis
    using ok 2 by (intro mem_inv_stores [OF inv]) auto
qed (use inv in simp)

section \<open>Scanning\<close>

lemma locate_recorder_inv:
  assumes inv: "mem_inv s" and l: "locate_recorder rid s = Some (k, ri)"
  obtains st where "get_store s k = Some st" "store_at s k = st" "ri < length (st_recorders st)"
    "rc_id (recorder_at st ri) = rid" "store_ok (ms_next_area_id s) (ms_next_recorder_id s) k st"
    "recorder_in (ms_next_recorder_id s) k (recorder_at st ri)" "areas_named st (recorder_at st ri)"
proof -
  obtain st where st: "get_store s k = Some st" "ri < length (st_recorders st)"
    "rc_id (st_recorders st ! ri) = rid"
    using locate_recorder_SomeD [OF l mem_inv_distinct [OF inv]] by blast
  moreover have "store_ok (ms_next_area_id s) (ms_next_recorder_id s) k st"
    using inv st(1) by (rule mem_inv_stored)
  moreover have "recorder_at st ri \<in> set (st_recorders st)" using st by (simp add: recorder_at_def)
  ultimately show thesis
    by (intro that [of st]) (auto simp: store_at_def recorder_at_def store_ok_def)
qed

lemma locate_channel_inv:
  assumes inv: "mem_inv s" and l: "locate_channel cid s = Some (k, ri, ci)"
  obtains st where "get_store s k = Some st" "store_at s k = st" "ri < length (st_recorders st)"
    "ci < length (rc_channels (recorder_at st ri))" "ch_id (channel_at st ri ci) = cid"
    "store_ok (ms_next_area_id s) (ms_next_recorder_id s) k st"
    "recorder_in (ms_next_recorder_id s) k (recorder_at st ri)" "areas_named st (recorder_at st ri)"
    "channel_ok (rc_id (recorder_at st ri)) (channel_at st ri ci)"
proof -
  obtain st where st: "get_store s k = Some st" "ri < length (st_recorders st)"
    "ci < length (rc_channels (recorder_at st ri))" "ch_id (channel_at st ri ci) = cid"
    using locate_channel_SomeD [OF l mem_inv_distinct [OF inv]] by blast
  moreover have ok: "store_ok (ms_next_area_id s) (ms_next_recorder_id s) k st"
    using inv st(1) by (rule mem_inv_stored)
  moreover have "recorder_at st ri \<in> set (st_recorders st)" using st by (simp add: recorder_at_def)
  moreover from this ok have "recorder_ok (recorder_at st ri)" by (auto simp: store_ok_def recorder_in_def)
  moreover have "channel_at st ri ci \<in> set (rc_channels (recorder_at st ri))"
    using st(3) by (simp add: channel_at_def)
  ultimately show thesis
    by (intro that [of st]) (auto simp: store_at_def store_ok_def recorder_ok_def)
qed

lemma distinct_map_sort_key [simp]: "distinct (map f (sort_key k xs)) = distinct (map f xs)"
proof -
  have "mset (map f (sort_key k xs)) = mset (map f xs)" by simp
  then show ?thesis by (rule mset_eq_imp_distinct_iff)
qed

lemma status_not_inactive [simp]:
  "confirmed_status_of ch \<noteq> ChannelStatusInactive"
  "ChannelStatusPendingRecognition \<noteq> ChannelStatusInactive"
  "ChannelStatusPendingConfirmation \<noteq> ChannelStatusInactive"
  "ChannelStatusRecognitionFailed \<noteq> ChannelStatusInactive"
  "ChannelStatusConfirmedBusiness \<noteq> ChannelStatusInactive"
  "ChannelStatusConfirmedNonBusiness \<noteq> ChannelStatusInactive"
  by (simp_all add: confirmed_status_of_def go_defs)

lemma rescan_channel_ok: "channel_ok rid ch \<Longrightarrow> channel_ok rid (rescan_channel now sc ch)"
  by (auto simp: channel_ok_def frame_simps)
    (auto simp: rescan_channel_def Let_def split: option.splits if_splits)

lemma rescan_channel_area: "ch_area_id (rescan_channel now sc ch) \<in> {0, ch_area_id ch}"
  by (simp add: rescan_channel_def Let_def split: option.splits)

lemma upsert_known_ok: "channel_ok rid ch \<Longrightarrow> channel_ok rid (upsert_known now c ch)"
  by (auto simp: channel_ok_def frame_simps)
    (auto simp: upsert_known_def Let_def split: if_splits)

lemma new_channel_fields [simp]:
  "ch_id (new_channel now i rid c) = i" "ch_recorder_id (new_channel now i rid c) = rid"
  "ch_channel_no (new_channel now i rid c) = ci_channel_no c" "ch_is_active (new_channel now i rid c)"
  "ch_status (new_channel now i rid c) = ChannelStatusPendingRecognition"
  "ch_area_id (new_channel now i rid c) = 0"
  by (simp_all add: new_channel_def channel_zero_def)

text \<open>
  What a scan leaves: every known channel once (marked anew), then the new numbers; nothing else.
  \<open>rest\<close> is what the loop left in \<open>scannedByNo\<close>.
\<close>

definition scan_rest :: "channel_input list \<Rightarrow> recorder \<Rightarrow> (int \<times> channel_input) list" where
  "scan_rest cs rc =
     filter (\<lambda>(n, _). n \<notin> set (map ch_channel_no (rc_channels rc))) (scanned_by_no cs)"

lemma scan_recorder_channels:
  assumes "recorder_ok rc"
  shows "rc_channels (scan_recorder now range_order cs rc) =
    sort_key ch_channel_no
      (map (rescan_channel now (scanned_by_no cs)) (rc_channels rc) @
       append_scanned now (rc_id rc) (max_channel_id (rc_channels rc))
         (range_order (map snd (scan_rest cs rc))))"
  using assms
  by (simp add: scan_recorder_def rescan_channels_eq Let_def scan_rest_def recorder_ok_def)

lemma scan_rest_nos:
  "map ci_channel_no (map snd (scan_rest cs rc)) = map fst (scan_rest cs rc)"
  "distinct (map fst (scan_rest cs rc))"
  "set (map fst (scan_rest cs rc)) \<inter> set (map ch_channel_no (rc_channels rc)) = {}"
proof -
  show "map ci_channel_no (map snd (scan_rest cs rc)) = map fst (scan_rest cs rc)"
    using scanned_by_no(2) [of cs] by (auto simp: scan_rest_def)
  show "distinct (map fst (scan_rest cs rc))"
    using scanned_by_no(1) [of cs] unfolding scan_rest_def by (rule distinct_map_filter)
  show "set (map fst (scan_rest cs rc)) \<inter> set (map ch_channel_no (rc_channels rc)) = {}"
    by (auto simp: scan_rest_def)
qed

lemma scan_recorder_ok:
  assumes ok: "recorder_ok rc" and ord: "\<And>xs. mset (range_order xs) = mset xs"
  shows "recorder_ok (scan_recorder now range_order cs rc)"
proof -
  let ?known = "map (rescan_channel now (scanned_by_no cs)) (rc_channels rc)"
  let ?rest = "range_order (map snd (scan_rest cs rc))"
  let ?added = "append_scanned now (rc_id rc) (max_channel_id (rc_channels rc)) ?rest"
  note add = append_scanned_props [of now "rc_id rc" "max_channel_id (rc_channels rc)" ?rest]
  note chs = scan_recorder_channels [OF ok, of now range_order cs]
  have kid: "map ch_id ?known = map ch_id (rc_channels rc)"
    and kno: "map ch_channel_no ?known = map ch_channel_no (rc_channels rc)"
    by (simp_all add: comp_def frame_simps)
  have rest: "mset (map ci_channel_no ?rest) = mset (map fst (scan_rest cs rc))"
    using ord [of "map snd (scan_rest cs rc)"] scan_rest_nos(1) by (metis mset_map)
  have no_sub: "set (map ch_channel_no ?added) \<subseteq> set (map fst (scan_rest cs rc))"
    using add mset_eq_setD [OF rest] by auto
  have no_dist: "distinct (map ch_channel_no ?added)"
    using add mset_eq_imp_distinct_iff [OF rest] scan_rest_nos(2) by (simp add: distinct_map_filter)
  have id_disj: "ch_id ` set (rc_channels rc) \<inter> ch_id ` set ?added = {}"
    using add max_channel_id_ge [of "rc_channels rc"] by fastforce
  have ids: "distinct (map ch_id (?known @ ?added))"
    using ok add id_disj unfolding map_append kid by (auto simp: recorder_ok_def)
  have nos: "distinct (map ch_channel_no (?known @ ?added))"
    using ok no_dist no_sub scan_rest_nos(3) [of cs rc] unfolding map_append kno
    by (auto simp: recorder_ok_def)
  have "channel_ok (rc_id rc) ch" if "ch \<in> set ?added" for ch
    using add that max_channel_id_ge(2) [of "rc_channels rc"]
    by (fastforce simp: channel_ok_def)
  then have all: "\<forall>ch \<in> set (?known @ ?added). channel_ok (rc_id rc) ch"
    using ok rescan_channel_ok by (auto simp: recorder_ok_def)
  have "rc_effective_channel_count (scan_recorder now range_order cs rc) =
      activeChannelCount (rc_channels (scan_recorder now range_order cs rc))"
    "rc_id (scan_recorder now range_order cs rc) = rc_id rc"
    by (simp_all add: scan_recorder_def Let_def split: prod.splits)
  with ids nos all show ?thesis
    by (simp add: recorder_ok_def chs del: map_append)
qed

lemma scan_recorder_fields [simp]:
  "rc_id (scan_recorder now range_order cs rc) = rc_id rc"
  "rc_store_id (scan_recorder now range_order cs rc) = rc_store_id rc"
  "rc_device_code (scan_recorder now range_order cs rc) = rc_device_code rc"
  by (simp_all add: scan_recorder_def Let_def split: prod.splits)

lemma scan_recorder_areas:
  assumes "recorder_ok rc" "areas_named st rc"
  shows "areas_named st (scan_recorder now range_order cs rc)"
proof -
  let ?added = "append_scanned now (rc_id rc) (max_channel_id (rc_channels rc))
    (range_order (map snd (scan_rest cs rc)))"
  have "ch_area_id ch = 0" if "ch \<in> set ?added" for ch
    using append_scanned_props that by blast
  moreover have "ch_area_id (rescan_channel now (scanned_by_no cs) ch) \<in> {0, ch_area_id ch}" for ch
    by (rule rescan_channel_area)
  ultimately show ?thesis
    using assms(2) unfolding areas_named_def scan_recorder_channels [OF assms(1)]
    by fastforce
qed

text \<open>A write to one recorder of a store.\<close>

lemma mem_inv_set_recorder:
  assumes inv: "mem_inv s" and l: "locate_recorder rid s = Some (k, ri)"
    and rc: "recorder_ok rc" "rc_id rc = rid" "rc_store_id rc = rc_store_id (recorder_at (store_at s k) ri)"
      "areas_named (store_at s k) rc"
  shows "mem_inv (put_store k ((set_recorder ri rc (store_at s k))\<lparr>st_updated_at := now\<rparr>) s)"
proof -
  obtain st where st: "get_store s k = Some st" "store_at s k = st" "ri < length (st_recorders st)"
    "rc_id (recorder_at st ri) = rid" "store_ok (ms_next_area_id s) (ms_next_recorder_id s) k st"
    using locate_recorder_inv [OF inv l] by blast
  then have "store_ok (ms_next_area_id s) (ms_next_recorder_id s) k (set_recorder ri rc st)"
    using rc by (intro store_ok_set_recorder) auto
  moreover have "map rc_id (st_recorders (set_recorder ri rc st)) = map rc_id (st_recorders st)"
    using st rc by (intro map_rc_id_set_recorder) auto
  ultimately show ?thesis
    unfolding st(2) by (intro mem_inv_put [OF inv st(1)]) simp_all
qed

lemma ReplaceRecorderChannels_inv:
  assumes inv: "mem_inv s" and ord: "\<And>xs. mset (range_order xs) = mset xs"
  shows "mem_inv (snd (ReplaceRecorderChannels now range_order rid cs s))"
proof (cases "locate_recorder rid s")
  case (Some p)
  then obtain k ri where l: "locate_recorder rid s = Some (k, ri)" by (cases p) auto
  obtain st where st: "store_at s k = st" "rc_id (recorder_at st ri) = rid"
    "recorder_in (ms_next_recorder_id s) k (recorder_at st ri)" "areas_named st (recorder_at st ri)"
    using locate_recorder_inv [OF inv l] by blast
  have ok: "recorder_ok (recorder_at st ri)" using st(3) by (simp add: recorder_in_def)
  have "mem_inv (put_store k ((set_recorder ri (scan_recorder now range_order cs (recorder_at (store_at s k) ri))
      (store_at s k))\<lparr>st_updated_at := now\<rparr>) s)"
    using st ok scan_recorder_ok [OF ok ord] scan_recorder_areas [OF ok st(4)]
    by (intro mem_inv_set_recorder [OF inv l]) simp_all
  then show ?thesis by (simp add: ReplaceRecorderChannels_def l Let_def)
qed (simp add: ReplaceRecorderChannels_def inv)

lemma upsert_in_recorder_ok:
  assumes ok: "recorder_ok rc" and no: "0 < ci_channel_no input" and ar: "areas_named st rc"
    and up: "upsert_in_recorder now input rc = (ch, rc')"
  shows "recorder_ok rc' \<and> rc_id rc' = rc_id rc \<and> rc_store_id rc' = rc_store_id rc \<and> areas_named st rc'"
proof (cases "find_index (\<lambda>ch. ch_channel_no ch = ci_channel_no input) (rc_channels rc)")
  case (Some ci)
  note ci = find_index_length [OF Some]
  let ?chs = "(rc_channels rc)[ci := upsert_known now input (rc_channels rc ! ci)]"
  have rc': "rc' = rc\<lparr>rc_channels := ?chs, rc_effective_channel_count := activeChannelCount ?chs,
      rc_last_scanned_at := Some now, rc_status := RecorderStatusOnline, rc_updated_at := now\<rparr>"
    using up Some by (auto simp: upsert_in_recorder_def Let_def)
  have mem: "rc_channels rc ! ci \<in> set (rc_channels rc)" using ci by simp
  have sub: "set ?chs \<subseteq> insert (upsert_known now input (rc_channels rc ! ci)) (set (rc_channels rc))"
    by (rule set_update_subset_insert)
  have "map ch_id ?chs = map ch_id (rc_channels rc)" "map ch_channel_no ?chs = map ch_channel_no (rc_channels rc)"
    using ci by (simp_all add: map_list_update_same frame_simps)
  moreover have "channel_ok (rc_id rc) c" if "c \<in> set ?chs" for c
    using sub that ok mem upsert_known_ok [of "rc_id rc"] by (auto simp: recorder_ok_def)
  moreover have "ch_area_id c \<noteq> 0 \<longrightarrow> ch_area_id c \<in> ae_id ` set (st_areas st)" if "c \<in> set ?chs" for c
    using sub that ar mem by (auto simp: areas_named_def frame_simps)
  ultimately show ?thesis using ok by (simp add: rc' recorder_ok_def areas_named_def)
next
  case None
  let ?new = "new_channel now (max_channel_id (rc_channels rc) + 1) (rc_id rc) input"
  let ?chs = "sort_key ch_channel_no (rc_channels rc @ [?new])"
  have rc': "rc' = rc\<lparr>rc_channels := ?chs, rc_effective_channel_count := activeChannelCount ?chs,
      rc_last_scanned_at := Some now, rc_status := RecorderStatusOnline, rc_updated_at := now\<rparr>"
    using up None by (auto simp: upsert_in_recorder_def Let_def)
  have "max_channel_id (rc_channels rc) + 1 \<notin> ch_id ` set (rc_channels rc)"
    using max_channel_id_ge(1) [of "rc_channels rc"] by fastforce
  moreover have "ci_channel_no input \<notin> ch_channel_no ` set (rc_channels rc)"
    using None by (auto simp: find_index_None)
  moreover have "channel_ok (rc_id rc) ?new"
    using no max_channel_id_ge(2) [of "rc_channels rc"] by (simp add: channel_ok_def)
  ultimately have "distinct (map ch_id ?chs)" "distinct (map ch_channel_no ?chs)"
    "\<forall>c \<in> set ?chs. channel_ok (rc_id rc) c"
    using ok by (simp_all add: recorder_ok_def)
  then show ?thesis using ok ar by (simp add: rc' recorder_ok_def areas_named_def)
qed

lemma UpsertRecorderChannel_inv:
  assumes inv: "mem_inv s"
  shows "mem_inv (snd (UpsertRecorderChannel now rid input s))"
proof (cases "locate_recorder rid s")
  case (Some p)
  then obtain k ri where l: "locate_recorder rid s = Some (k, ri)" by (cases p) auto
  obtain st where st: "store_at s k = st" "rc_id (recorder_at st ri) = rid"
    "recorder_in (ms_next_recorder_id s) k (recorder_at st ri)" "areas_named st (recorder_at st ri)"
    using locate_recorder_inv [OF inv l] by blast
  have ok: "recorder_ok (recorder_at st ri)" using st(3) by (simp add: recorder_in_def)
  obtain ch rc where up: "upsert_in_recorder now input (recorder_at st ri) = (ch, rc)" by fastforce
  show ?thesis
  proof (cases "ci_channel_no input \<le> 0 \<or> \<not> ci_is_active input")
    case True
    then show ?thesis using l inv by (auto simp: UpsertRecorderChannel_def)
  next
    case False
    then have "mem_inv (put_store k ((set_recorder ri rc (store_at s k))\<lparr>st_updated_at := now\<rparr>) s)"
      using upsert_in_recorder_ok [OF ok _ st(4) up] st
      by (intro mem_inv_set_recorder [OF inv l]) auto
    then show ?thesis using False up by (simp add: UpsertRecorderChannel_def l Let_def st)
  qed
qed (simp add: UpsertRecorderChannel_def inv)

section \<open>Channels\<close>

lemma mem_inv_set_channel:
  assumes inv: "mem_inv s" and l: "locate_channel cid s = Some (k, ri, ci)"
    and fr: "channel_frame (channel_at (store_at s k) ri ci) ch'"
    and ar: "ch_area_id ch' \<noteq> 0 \<Longrightarrow> ch_area_id ch' \<in> ae_id ` set (st_areas (store_at s k))"
  shows "store_ok (ms_next_area_id s) (ms_next_recorder_id s) k (set_channel ri ci ch' (store_at s k))"
    and "mem_inv (put_store k (set_channel ri ci ch' (store_at s k)) s)"
    and "mem_inv (put_store k ((set_channel ri ci ch' (store_at s k))\<lparr>st_updated_at := now\<rparr>) s)"
    and "mem_inv (put_store k ((deleteUnusedVideoAreasLocked (set_channel ri ci ch' (store_at s k)))
      \<lparr>st_updated_at := now\<rparr>) s)"
proof -
  obtain st where st: "get_store s k = Some st" "store_at s k = st" "ri < length (st_recorders st)"
    "ci < length (rc_channels (recorder_at st ri))"
    "store_ok (ms_next_area_id s) (ms_next_recorder_id s) k st"
    using locate_channel_inv [OF inv l] by blast
  show ok: "store_ok (ms_next_area_id s) (ms_next_recorder_id s) k (set_channel ri ci ch' (store_at s k))"
    using st fr ar by (simp add: store_ok_set_channel)
  have ids: "map rc_id (st_recorders (set_channel ri ci ch' (store_at s k))) = map rc_id (st_recorders st)"
    using st by (simp add: map_rc_id_set_channel)
  show "mem_inv (put_store k (set_channel ri ci ch' (store_at s k)) s)"
    by (rule mem_inv_put [OF inv st(1) ok ids])
  show "mem_inv (put_store k ((set_channel ri ci ch' (store_at s k))\<lparr>st_updated_at := now\<rparr>) s)"
    using ok ids by (intro mem_inv_put [OF inv st(1)]) simp_all
  show "mem_inv (put_store k ((deleteUnusedVideoAreasLocked (set_channel ri ci ch' (store_at s k)))
      \<lparr>st_updated_at := now\<rparr>) s)"
    using store_ok_deleteUnused [OF ok] ids
    by (intro mem_inv_put [OF inv st(1)]) (simp_all add: frame_simps)
qed

lemma channel_frame_area:
  assumes "mem_inv s" "locate_channel cid s = Some (k, ri, ci)"
  shows "channel_ok (rc_id (recorder_at (store_at s k) ri)) (channel_at (store_at s k) ri ci)"
    and "ch_area_id (channel_at (store_at s k) ri ci) \<noteq> 0 \<Longrightarrow>
      ch_area_id (channel_at (store_at s k) ri ci) \<in> ae_id ` set (st_areas (store_at s k))"
proof -
  obtain st where "store_at s k = st" "ci < length (rc_channels (recorder_at st ri))"
    "areas_named st (recorder_at st ri)" "channel_ok (rc_id (recorder_at st ri)) (channel_at st ri ci)"
    using locate_channel_inv [OF assms] by blast
  then show "channel_ok (rc_id (recorder_at (store_at s k) ri)) (channel_at (store_at s k) ri ci)"
    and "ch_area_id (channel_at (store_at s k) ri ci) \<noteq> 0 \<Longrightarrow>
      ch_area_id (channel_at (store_at s k) ri ci) \<in> ae_id ` set (st_areas (store_at s k))"
    by (auto simp: areas_named_def channel_at_def)
qed

lemma apply_snapshot_frame [frame_simps]:
  "ch_id (apply_snapshot now input ch) = ch_id ch"
  "ch_recorder_id (apply_snapshot now input ch) = ch_recorder_id ch"
  "ch_channel_no (apply_snapshot now input ch) = ch_channel_no ch"
  "ch_channel_name (apply_snapshot now input ch) = ch_channel_name ch"
  "ch_is_active (apply_snapshot now input ch) = ch_is_active ch"
  "ch_area_id (apply_snapshot now input ch) = ch_area_id ch"
  "ch_confirmed_at (apply_snapshot now input ch) = ch_confirmed_at ch"
  "ch_bed_label (apply_snapshot now input ch) = ch_bed_label ch"
  "ch_status (apply_snapshot now input ch) = (if si_status input = [] then ch_status ch else si_status input)"
  by (simp_all add: apply_snapshot_def Let_def)

lemma SaveChannelSnapshot_inv:
  assumes inv: "mem_inv s" and si: "si_status input \<noteq> ChannelStatusInactive"
  shows "mem_inv (snd (SaveChannelSnapshot now cid input s))"
proof (cases "locate_channel cid s")
  case (Some p)
  then obtain k ri ci where l: "locate_channel cid s = Some (k, ri, ci)" by (cases p) auto
  note ch = channel_frame_area [OF inv l]
  have "channel_frame (channel_at (store_at s k) ri ci) (apply_snapshot now input (channel_at (store_at s k) ri ci))"
    using ch(1) si by (simp add: channel_frame_def channel_ok_def frame_simps)
  then show ?thesis
    using mem_inv_set_channel(2) [OF inv l, of "apply_snapshot now input (channel_at (store_at s k) ri ci)"] ch(2)
    by (simp add: SaveChannelSnapshot_def l Let_def frame_simps)
qed (simp add: SaveChannelSnapshot_def inv)

lemma UnlockChannelForEdit_inv:
  assumes inv: "mem_inv s"
  shows "mem_inv (snd (UnlockChannelForEdit now cid s))"
proof (cases "locate_channel cid s")
  case (Some p)
  then obtain k ri ci where l: "locate_channel cid s = Some (k, ri, ci)" by (cases p) auto
  note ch = channel_frame_area [OF inv l]
  let ?ch = "channel_at (store_at s k) ri ci"
  have "channel_frame ?ch (?ch\<lparr>ch_status := ChannelStatusPendingConfirmation, ch_confirmed_at := None,
      ch_updated_at := now\<rparr>)"
    by (simp add: channel_frame_def)
  from mem_inv_set_channel(3) [OF inv l this, of now] ch(2) inv show ?thesis
    by (simp add: UnlockChannelForEdit_def l Let_def)
qed (simp add: UnlockChannelForEdit_def inv)

lemma updateOrFind_grow:
  assumes "updateOrFindVideoAreaLocked now k cur t n (areas, next) = (i, areas', next')"
  shows "areas_grow k (areas, next) (areas', next') \<and> i < length areas' \<and>
    ae_type (areas' ! i) = t \<and> ae_number (areas' ! i) = n"
proof -
  note sp = updateOrFindVideoAreaLocked_spec [OF assms]
  then have "areas_grow k (areas, next) (areas', next')"
    by (elim conjE disjE) (auto simp: areas_grow_def map_area_key_zip)
  with sp show ?thesis by blast
qed

text \<open>The confirmed channel, when an area is asked for: the channel written and the area it names.\<close>

lemma mem_inv_confirm_area:
  assumes inv: "mem_inv s" and l: "locate_channel cid s = Some (k, ri, ci)"
    and fr: "channel_frame (channel_at (store_at s k) ri ci) ch'"
    and up: "updateOrFindVideoAreaLocked now k cur t n (st_areas (store_at s k), ms_next_area_id s) = (i, areas, na)"
    and ar: "ch_area_id ch' = ae_id (areas ! i)"
  shows "mem_inv (put_store k ((deleteUnusedVideoAreasLocked
      ((set_channel ri ci ch' (store_at s k))\<lparr>st_areas := areas\<rparr>))\<lparr>st_updated_at := now\<rparr>)
      (s\<lparr>ms_next_area_id := na\<rparr>))"
proof -
  obtain st where st: "get_store s k = Some st" "store_at s k = st" "ri < length (st_recorders st)"
    "ci < length (rc_channels (recorder_at st ri))"
    "store_ok (ms_next_area_id s) (ms_next_recorder_id s) k st"
    using locate_channel_inv [OF inv l] by blast
  note grow = updateOrFind_grow [OF up [unfolded st(2)]]
  have "areas_grow k (st_areas st, ms_next_area_id s) (areas, na)" using grow by blast
  from areas_grow_ok [OF areas_ok_store [OF st(5) mem_inv_next [OF inv]] this]
  have new: "areas_ok k (areas, na)" "ae_id ` set (st_areas st) \<subseteq> ae_id ` set areas" "ms_next_area_id s \<le> na"
    by simp_all
  let ?sta = "st\<lparr>st_areas := areas\<rparr>"
  have sta: "store_ok na (ms_next_recorder_id s) k ?sta"
    using new by (intro store_ok_areas [OF st(5), of areas]) simp_all
  have comm: "(set_channel ri ci ch' st)\<lparr>st_areas := areas\<rparr> = set_channel ri ci ch' ?sta"
    by (simp add: set_channel_def set_recorder_def recorder_at_def)
  have at: "recorder_at ?sta ri = recorder_at st ri" "channel_at ?sta ri ci = channel_at st ri ci"
    by (simp_all add: recorder_at_def channel_at_def)
  have "store_ok na (ms_next_recorder_id s) k (set_channel ri ci ch' ?sta)"
  proof (rule store_ok_set_channel [OF sta])
    show "ch_area_id ch' \<in> ae_id ` set (st_areas ?sta)" using ar grow by simp
  qed (use st fr at in simp_all)
  then have "store_ok na (ms_next_recorder_id s) k
      ((deleteUnusedVideoAreasLocked (set_channel ri ci ch' ?sta))\<lparr>st_updated_at := now\<rparr>)"
    by (simp add: store_ok_deleteUnused)
  moreover have "map rc_id (st_recorders (set_channel ri ci ch' ?sta)) = map rc_id (st_recorders st)"
    using st by (subst map_rc_id_set_channel) simp_all
  ultimately show ?thesis
    unfolding st(2) comm using new
    by (intro mem_inv_write [OF inv st(1), where
          st' = "(deleteUnusedVideoAreasLocked (set_channel ri ci ch' ?sta))\<lparr>st_updated_at := now\<rparr>"])
      (simp_all add: put_store_def frame_simps)
qed

lemma ConfirmChannel_inv:
  assumes inv: "mem_inv s"
  shows "mem_inv (snd (ConfirmChannel now cid input s))"
proof (cases "locate_channel cid s")
  case (Some p)
  then obtain k ri ci where l: "locate_channel cid s = Some (k, ri, ci)" by (cases p) auto
  note ch = channel_frame_area [OF inv l]
  have k: "st_id (store_at s k) = k"
    using locate_channel_inv [OF inv l] by (metis store_ok_def)
  let ?ch = "(channel_at (store_at s k) ri ci)\<lparr>ch_scene_type := cc_scene_type input,
    ch_updated_at := now, ch_confirmed_at := Some now\<rparr>"
  have bad: "mem_inv (put_store k (set_channel ri ci ?ch (store_at s k)) s)"
    using ch by (intro mem_inv_set_channel(2) [OF inv l]) (simp_all add: channel_frame_def channel_ok_def)
  show ?thesis
  proof (cases "cc_area_type input = []")
    case True
    let ?ch' = "?ch\<lparr>ch_area_type := [], ch_area_number := 0, ch_bed_label := [],
      ch_area_note := trim_space (cc_area_note input), ch_area_id := 0,
      ch_status := ChannelStatusConfirmedNonBusiness\<rparr>"
    have "mem_inv (put_store k ((deleteUnusedVideoAreasLocked (set_channel ri ci ?ch' (store_at s k)))
        \<lparr>st_updated_at := now\<rparr>) s)"
      by (intro mem_inv_set_channel(4) [OF inv l]) (simp_all add: channel_frame_def)
    then show ?thesis using True by (simp add: ConfirmChannel_def l Let_def)
  next
    case False
    have good: "mem_inv (put_store k ((deleteUnusedVideoAreasLocked ((set_channel ri ci
        (?ch\<lparr>ch_area_type := t, ch_area_number := n, ch_bed_label := b, ch_area_note := [],
          ch_area_id := ae_id (areas ! i), ch_scene_type := sc,
          ch_status := ChannelStatusConfirmedBusiness\<rparr>) (store_at s k))\<lparr>st_areas := areas\<rparr>))
        \<lparr>st_updated_at := now\<rparr>) (s\<lparr>ms_next_area_id := na\<rparr>))"
      if "updateOrFindVideoAreaLocked now k cur u m (st_areas (store_at s k), ms_next_area_id s) = (i, areas, na)"
      for cur u m i areas na t n b sc
      by (rule mem_inv_confirm_area [OF inv l _ that]) (simp_all add: channel_frame_def)
    show ?thesis
      using False bad good
      by (simp add: ConfirmChannel_def l Let_def k split: option.splits prod.splits)
  qed
qed (simp add: ConfirmChannel_def inv)

lemma distinct_map_remove:
  assumes "distinct (map f xs)"
  shows "distinct (map f (take i xs @ drop (Suc i) xs))"
proof -
  have "set (take i (map f xs)) \<inter> set (drop (Suc i) (map f xs)) = {}"
    by (rule set_take_disj_set_drop_if_distinct [OF assms]) simp
  moreover have "distinct (take i (map f xs))" "distinct (drop (Suc i) (map f xs))"
    using assms by (rule distinct_take, rule distinct_drop)
  ultimately show ?thesis by (simp add: take_map drop_map)
qed

lemma set_remove_sub: "set (take i xs @ drop j xs) \<subseteq> set xs"
  using set_take_subset [of i xs] set_drop_subset [of j xs] by simp

lemma DeleteChannel_inv:
  assumes inv: "mem_inv s"
  shows "mem_inv (snd (DeleteChannel now cid s))"
proof (cases "locate_channel cid s")
  case (Some p)
  then obtain k ri ci where l: "locate_channel cid s = Some (k, ri, ci)" by (cases p) auto
  obtain st where st: "get_store s k = Some st" "store_at s k = st" "ri < length (st_recorders st)"
    "store_ok (ms_next_area_id s) (ms_next_recorder_id s) k st"
    "recorder_in (ms_next_recorder_id s) k (recorder_at st ri)" "areas_named st (recorder_at st ri)"
    using locate_channel_inv [OF inv l] by blast
  let ?rc = "recorder_at st ri"
  let ?chs = "take ci (rc_channels ?rc) @ drop (Suc ci) (rc_channels ?rc)"
  let ?rc' = "?rc\<lparr>rc_channels := ?chs, rc_effective_channel_count := activeChannelCount ?chs,
    rc_status := (if activeChannelCount ?chs = 0 then RecorderStatusOffline else rc_status ?rc),
    rc_updated_at := now\<rparr>"
  have sub: "set ?chs \<subseteq> set (rc_channels ?rc)" by (rule set_remove_sub)
  have ok: "recorder_ok ?rc" using st(5) by (simp add: recorder_in_def)
  have "distinct (map ch_id ?chs)" "distinct (map ch_channel_no ?chs)"
    using ok by (auto simp: recorder_ok_def intro!: distinct_map_remove simp del: map_append)
  moreover have "\<forall>c \<in> set ?chs. channel_ok (rc_id ?rc) c"
    using ok sub by (auto simp: recorder_ok_def)
  ultimately have ok': "recorder_ok ?rc'" by (simp add: recorder_ok_def)
  have "areas_named st ?rc'" using st(6) sub by (auto simp: areas_named_def)
  then have "store_ok (ms_next_area_id s) (ms_next_recorder_id s) k (set_recorder ri ?rc' st)"
    using st ok' by (intro store_ok_set_recorder) simp_all
  then have "store_ok (ms_next_area_id s) (ms_next_recorder_id s) k
      (deleteUnusedVideoAreasLocked ((set_recorder ri ?rc' st)\<lparr>st_updated_at := now\<rparr>))"
    by (intro store_ok_deleteUnused) simp
  moreover have "map rc_id (st_recorders (set_recorder ri ?rc' st)) = map rc_id (st_recorders st)"
    using st by (intro map_rc_id_set_recorder) simp_all
  ultimately have "mem_inv (put_store k
      (deleteUnusedVideoAreasLocked ((set_recorder ri ?rc' st)\<lparr>st_updated_at := now\<rparr>)) s)"
    by (intro mem_inv_put [OF inv st(1)]) (simp_all add: frame_simps)
  then show ?thesis unfolding DeleteChannel_def l Let_def option.case prod.case snd_conv st(2) .
qed (simp add: DeleteChannel_def inv)

section \<open>Reachable states\<close>

text \<open>
  One rule per operation of the repository; reads do not change the state.  \<open>reorder\<close> is Go's freedom
  to iterate the maps \<open>stores\<close> and \<open>accounts\<close> in another order the next time.  A snapshot never
  carries the status \<open>inactive\<close>: the service writes only the statuses of a recognition.
\<close>

inductive mem_step :: "mem_store \<Rightarrow> mem_store \<Rightarrow> bool" where
  create_account: "mem_step s (snd (CreateEzvizAccount now ca s))"
| upsert_account: "mem_step s (UpsertEzvizAccountName now name s)"
| create_store: "mem_step s (snd (CreateStore now cs s))"
| update_store: "mem_step s (snd (UpdateStoreBasicInfo now k ub s))"
| save_plan: "mem_step s (snd (SaveDesignPlan now k sp s))"
| delete_store: "mem_step s (snd (DeleteStore k s))"
| add_recorder: "mem_step s (snd (AddRecorder now k ar s))"
| delete_recorder: "mem_step s (snd (DeleteRecorder now rid s))"
| replace_channels: "(\<And>xs. mset (range_order xs) = mset xs) \<Longrightarrow>
    mem_step s (snd (ReplaceRecorderChannels now range_order rid chs s))"
| upsert_channel: "mem_step s (snd (UpsertRecorderChannel now rid c s))"
| save_snapshot: "si_status si \<noteq> ChannelStatusInactive \<Longrightarrow>
    mem_step s (snd (SaveChannelSnapshot now cid si s))"
| confirm: "mem_step s (snd (ConfirmChannel now cid cc s))"
| unlock: "mem_step s (snd (UnlockChannelForEdit now cid s))"
| delete_channel: "mem_step s (snd (DeleteChannel now cid s))"
| find_area: "mem_step s (snd (FindOrCreateArea now al n s))"
| reorder: "mset stores = mset (ms_stores s) \<Longrightarrow> mset accounts = mset (ms_accounts s) \<Longrightarrow>
    mem_step s (s\<lparr>ms_stores := stores, ms_accounts := accounts\<rparr>)"

inductive mem_reachable :: "mem_store \<Rightarrow> bool" where
  init: "mem_reachable NewMemoryStore"
| step: "mem_reachable s \<Longrightarrow> mem_step s s' \<Longrightarrow> mem_reachable s'"

lemma mset_concat_map: "mset xs = mset ys \<Longrightarrow> mset (concat (map f xs)) = mset (concat (map f ys))"
  by (metis mset_concat mset_map sum_mset_sum_list)

lemma reorder_inv:
  assumes inv: "mem_inv s" and st: "mset stores = mset (ms_stores s)"
    and ac: "mset accounts = mset (ms_accounts s)"
  shows "mem_inv (s\<lparr>ms_stores := stores, ms_accounts := accounts\<rparr>)"
proof -
  have "distinct (map fst stores) = distinct (map fst (ms_stores s))"
    "distinct (map fst accounts) = distinct (map fst (ms_accounts s))"
    by (rule mset_eq_imp_distinct_iff, simp add: st, rule mset_eq_imp_distinct_iff, simp add: ac)
  moreover have "distinct (all_recorder_ids stores) = distinct (all_recorder_ids (ms_stores s))"
    unfolding all_recorder_ids_def by (rule mset_eq_imp_distinct_iff [OF mset_concat_map [OF st]])
  moreover have "set stores = set (ms_stores s)" "set accounts = set (ms_accounts s)"
    using mset_eq_setD [OF st] mset_eq_setD [OF ac] by simp_all
  ultimately show ?thesis using inv by (simp add: mem_inv_def)
qed

lemmas operation_inv =
  CreateEzvizAccount_inv UpsertEzvizAccountName_inv CreateStore_inv UpdateStoreBasicInfo_inv
  SaveDesignPlan_inv DeleteStore_inv AddRecorder_inv DeleteRecorder_inv ReplaceRecorderChannels_inv
  UpsertRecorderChannel_inv SaveChannelSnapshot_inv ConfirmChannel_inv UnlockChannelForEdit_inv
  DeleteChannel_inv FindOrCreateArea_inv reorder_inv

lemma mem_step_inv: "mem_step s s' \<Longrightarrow> mem_inv s \<Longrightarrow> mem_inv s'"
  by (induction rule: mem_step.induct) (simp_all add: operation_inv)

lemma NewMemoryStore_inv: "mem_inv NewMemoryStore"
  by (simp add: mem_inv_def NewMemoryStore_def)

lemma reachable_inv: "mem_reachable s \<Longrightarrow> mem_inv s"
  by (induction rule: mem_reachable.induct) (blast intro: NewMemoryStore_inv mem_step_inv)+

end
