(* ===== verification/GoJson.thy ===== *)
theory GoJson
  imports GoStrings
begin

text \<open>
  What the program uses of \<open>encoding/json\<close>: \<open>Marshal\<close> of a map from strings to strings, integers, booleans
  and \<open>RawMessage\<close> values.  \<open>Marshal\<close> writes the keys in byte order, escapes strings for HTML, and
  checks and compacts a raw message; it fails if that is not one JSON value.
\<close>

section \<open>Writing strings\<close>

definition hex_digit :: "int \<Rightarrow> char" where
  "hex_digit n = (if n < 10 then chr (n + 48) else chr (n + 87))"

definition quote :: char where "quote = CHR 0x22"
definition backslash :: char where "backslash = CHR 0x5C"

definition escape_ascii :: "char \<Rightarrow> string" where
  "escape_ascii c =
     (if c = quote \<or> c = backslash then [backslash, c]
      else if byte c = 8 then [backslash, CHR ''b'']
      else if byte c = 12 then [backslash, CHR ''f'']
      else if byte c = 10 then [backslash, CHR ''n'']
      else if byte c = 13 then [backslash, CHR ''r'']
      else if byte c = 9 then [backslash, CHR ''t'']
      else if byte c < 32 \<or> c = CHR ''<'' \<or> c = CHR ''>'' \<or> c = CHR ''&''
      then [backslash, CHR ''u'', CHR ''0'', CHR ''0'', hex_digit (byte c div 16), hex_digit (byte c mod 16)]
      else [c])"

function json_escape :: "string \<Rightarrow> string" where
  "json_escape [] = []"
| "json_escape (c # cs) =
     (if byte c < 128 then escape_ascii c @ json_escape cs
      else case decode_rune (c # cs) of
        (r, w) \<Rightarrow>
          (if r = rune_error \<and> w = 1 then [backslash] @ ''ufffd''
           else if r = 0x2028 then [backslash] @ ''u2028''
           else if r = 0x2029 then [backslash] @ ''u2029''
           else take w (c # cs)) @ json_escape (drop (w - 1) cs))"
  by pat_completeness auto
termination
  by (relation "measure length") auto

definition json_string :: "string \<Rightarrow> string" where
  "json_string s = quote # json_escape s @ [quote]"

section \<open>Checking and compacting a raw message\<close>

definition json_space :: "char \<Rightarrow> bool" where
  "json_space c \<longleftrightarrow> byte c \<in> {32, 9, 10, 13}"

definition skip_ws :: "string \<Rightarrow> string" where
  "skip_ws s = dropWhile json_space s"

definition is_hex :: "char \<Rightarrow> bool" where
  "is_hex c \<longleftrightarrow> is_digit_char c \<or> (97 \<le> byte c \<and> byte c \<le> 102) \<or> (65 \<le> byte c \<and> byte c \<le> 70)"

definition emit :: "string \<Rightarrow> (string \<times> string) option \<Rightarrow> (string \<times> string) option" where
  "emit w r = map_option (\<lambda>(text, rest). (w @ text, rest)) r"

lemma emit_simps [simp]: "emit w None = None" "emit w (Some (t, r)) = Some (w @ t, r)"
  by (simp_all add: emit_def)

lemma emit_append: "emit (v @ w) r = emit v (emit w r)"
  by (cases r) auto

text \<open>The rest of a string after its opening quote.\<close>

fun js_string :: "string \<Rightarrow> (string \<times> string) option" where
  "js_string [] = None"
| "js_string (c # cs) =
     (if c = quote then Some ([quote], cs)
      else if c = backslash then
        (case cs of
           e # rest \<Rightarrow>
             if e = quote \<or> e = backslash \<or> e \<in> set ''/bfnrt'' then emit [c, e] (js_string rest)
             else if e = CHR ''u'' then
               (case rest of
                  h1 # h2 # h3 # h4 # rest' \<Rightarrow>
                    if is_hex h1 \<and> is_hex h2 \<and> is_hex h3 \<and> is_hex h4
                    then emit [c, e, h1, h2, h3, h4] (js_string rest') else None
                | _ \<Rightarrow> None)
             else None
         | [] \<Rightarrow> None)
      else if byte c < 32 then None
      else if c = CHR ''<'' \<or> c = CHR ''>'' \<or> c = CHR ''&'' then emit (escape_ascii c) (js_string cs)
      else
        (case cs of
           d # e # rest \<Rightarrow>
             if byte c = 0xE2 \<and> byte d = 0x80 \<and> (byte e = 0xA8 \<or> byte e = 0xA9)
             then emit ([backslash] @ ''u202'' @ [hex_digit (byte e mod 16)]) (js_string rest)
             else emit [c] (js_string cs)
         | _ \<Rightarrow> emit [c] (js_string cs)))"

definition js_digits :: "string \<Rightarrow> (string \<times> string) option" where
  "js_digits s =
     (let ds = takeWhile is_digit_char s in if ds = [] then None else Some (ds, dropWhile is_digit_char s))"

definition js_int :: "string \<Rightarrow> (string \<times> string) option" where
  "js_int s =
     (case s of
        c # cs \<Rightarrow> if c = CHR ''0'' then Some ([c], cs) else js_digits s
      | [] \<Rightarrow> None)"

definition js_frac :: "string \<Rightarrow> (string \<times> string) option" where
  "js_frac s = (case s of c # cs \<Rightarrow> if c = CHR ''.'' then emit [c] (js_digits cs) else Some ([], s) | [] \<Rightarrow> Some ([], s))"

definition js_exp :: "string \<Rightarrow> (string \<times> string) option" where
  "js_exp s =
     (case s of
        c # cs \<Rightarrow>
          if c = CHR ''e'' \<or> c = CHR ''E'' then
            (case cs of
               d # ds \<Rightarrow> if d = CHR ''+'' \<or> d = CHR ''-'' then emit [c, d] (js_digits ds) else emit [c] (js_digits cs)
             | [] \<Rightarrow> None)
          else Some ([], s)
      | [] \<Rightarrow> Some ([], s))"

definition js_then :: "(string \<times> string) option \<Rightarrow> (string \<Rightarrow> (string \<times> string) option) \<Rightarrow> (string \<times> string) option" where
  "js_then r f = (case r of None \<Rightarrow> None | Some (text, rest) \<Rightarrow> emit text (f rest))"

definition js_number :: "string \<Rightarrow> (string \<times> string) option" where
  "js_number s =
     (case s of
        c # cs \<Rightarrow>
          if c = CHR ''-'' then emit [c] (js_then (js_then (js_int cs) js_frac) js_exp)
          else js_then (js_then (js_int s) js_frac) js_exp
      | [] \<Rightarrow> None)"

text \<open>
  One value; \<open>fuel\<close> bounds the number of nested calls (two of them read at least one character, so
  twice the length of the text is enough), \<open>depth\<close> is the nesting still allowed, 10000 at the top.
\<close>

fun js_value :: "nat \<Rightarrow> int \<Rightarrow> string \<Rightarrow> (string \<times> string) option"
  and js_members :: "nat \<Rightarrow> int \<Rightarrow> string \<Rightarrow> (string \<times> string) option"
  and js_elements :: "nat \<Rightarrow> int \<Rightarrow> string \<Rightarrow> (string \<times> string) option" where
  "js_value 0 depth s = None"
| "js_value (Suc fuel) depth s =
     (case skip_ws s of
        [] \<Rightarrow> None
      | c # cs \<Rightarrow>
          if c = quote then emit [c] (js_string cs)
          else if c = CHR ''{'' then
            (if depth \<le> 0 then None
             else case skip_ws cs of
               [] \<Rightarrow> None
             | d # ds \<Rightarrow> if d = CHR ''}'' then Some ([c, d], ds) else emit [c] (js_members fuel (depth - 1) cs))
          else if c = CHR ''['' then
            (if depth \<le> 0 then None
             else case skip_ws cs of
               [] \<Rightarrow> None
             | d # ds \<Rightarrow> if d = CHR '']'' then Some ([c, d], ds) else emit [c] (js_elements fuel (depth - 1) cs))
          else if has_prefix (c # cs) ''true'' then Some (''true'', drop 4 (c # cs))
          else if has_prefix (c # cs) ''false'' then Some (''false'', drop 5 (c # cs))
          else if has_prefix (c # cs) ''null'' then Some (''null'', drop 4 (c # cs))
          else js_number (c # cs))"
| "js_members 0 depth s = None"
| "js_members (Suc fuel) depth s =
     (case skip_ws s of
        [] \<Rightarrow> None
      | c # cs \<Rightarrow>
          if c \<noteq> quote then None
          else js_then (emit [c] (js_string cs)) (\<lambda>r1.
            case skip_ws r1 of
              [] \<Rightarrow> None
            | d # ds \<Rightarrow>
                if d \<noteq> CHR '':'' then None
                else js_then (emit [d] (js_value fuel depth ds)) (\<lambda>r2.
                  case skip_ws r2 of
                    [] \<Rightarrow> None
                  | e # es \<Rightarrow>
                      if e = CHR ''}'' then Some ([e], es)
                      else if e = CHR '','' then emit [e] (js_members fuel depth es)
                      else None)))"
| "js_elements 0 depth s = None"
| "js_elements (Suc fuel) depth s =
     js_then (js_value fuel depth s) (\<lambda>r.
       case skip_ws r of
         [] \<Rightarrow> None
       | e # es \<Rightarrow>
           if e = CHR '']'' then Some ([e], es)
           else if e = CHR '','' then emit [e] (js_elements fuel depth es)
           else None)"

definition json_compact :: "string \<Rightarrow> string option" where
  "json_compact s =
     (case js_value (2 * length s + 2) 10000 s of
        Some (text, rest) \<Rightarrow> if skip_ws rest = [] then Some text else None
      | None \<Rightarrow> None)"

section \<open>Marshalling a map\<close>

datatype json_value = JStr string | JInt int | JBool bool | JRaw string

fun json_of :: "json_value \<Rightarrow> string option" where
  "json_of (JStr s) = Some (json_string s)"
| "json_of (JInt n) = Some (itoa n)"
| "json_of (JBool b) = Some (if b then ''true'' else ''false'')"
| "json_of (JRaw s) = json_compact s"

fun json_members :: "(string \<times> json_value) list \<Rightarrow> string option" where
  "json_members [] = Some []"
| "json_members ((k, v) # rest) =
     (case json_of v of
        None \<Rightarrow> None
      | Some t \<Rightarrow>
          (case json_members rest of
             None \<Rightarrow> None
           | Some u \<Rightarrow> Some (json_string k @ '':'' @ t @ (if rest = [] then [] else CHR '','' # u))))"

text \<open>The map as an association list without a repeated key.\<close>

definition json_marshal_map :: "(string \<times> json_value) list \<Rightarrow> string option" where
  "json_marshal_map m = map_option (\<lambda>t. CHR ''{'' # t @ ''}'') (json_members (sort_key fst m))"

end
