(* ===== verification/GoMime.thy ===== *)
theory GoMime
  imports GoStrings
begin

text \<open>
  What the program uses of \<open>mime\<close>, \<open>encoding/base64\<close> and \<open>path/filepath\<close>: the media type of a
  \<open>Content-Type\<close> with its parameters checked, the standard base64 encoding, the extension of a file
  name.
\<close>

section \<open>Media types\<close>

definition is_tspecial :: "char \<Rightarrow> bool" where
  "is_tspecial c \<longleftrightarrow> c \<in> set ''()<>@,;:/[]?='' \<or> byte c = 34 \<or> byte c = 92"

definition is_token_char :: "char \<Rightarrow> bool" where
  "is_token_char c \<longleftrightarrow> 32 < byte c \<and> byte c < 127 \<and> \<not> is_tspecial c"

definition consume_token :: "string \<Rightarrow> string \<times> string" where
  "consume_token v = (takeWhile is_token_char v, dropWhile is_token_char v)"

text \<open>A quoted value after its opening quote; \<open>None\<close> when the quote is not closed.\<close>

fun consume_quoted :: "string \<Rightarrow> (string \<times> string) option" where
  "consume_quoted [] = None"
| "consume_quoted (c # cs) =
     (if byte c = 34 then Some ([], cs)
      else if byte c = 92 then
        (case cs of
           d # ds \<Rightarrow>
             if is_tspecial d then map_option (\<lambda>(v, r). (d # v, r)) (consume_quoted ds)
             else map_option (\<lambda>(v, r). (c # v, r)) (consume_quoted cs)
         | [] \<Rightarrow> None)
      else if byte c = 13 \<or> byte c = 10 then None
      else map_option (\<lambda>(v, r). (c # v, r)) (consume_quoted cs))"

definition consume_value :: "string \<Rightarrow> string \<times> string" where
  "consume_value v =
     (case v of
        [] \<Rightarrow> ([], [])
      | c # cs \<Rightarrow>
          if byte c \<noteq> 34 then consume_token v
          else case consume_quoted cs of Some r \<Rightarrow> r | None \<Rightarrow> ([], v))"

text \<open>One parameter and the rest; \<open>None\<close> where Go returns an empty key.\<close>

definition consume_media_param :: "string \<Rightarrow> (string \<times> string \<times> string) option" where
  "consume_media_param v =
     (case trim_left v of
        c # rest1 \<Rightarrow>
          if c \<noteq> CHR '';'' then None
          else (case consume_token (trim_left rest1) of
            (param, rest2) \<Rightarrow>
              if param = [] then None
              else (case trim_left rest2 of
                  e # rest3 \<Rightarrow>
                    if e \<noteq> CHR ''='' then None
                    else (case consume_value (trim_left rest3) of
                      (val, rest4) \<Rightarrow>
                        if val = [] \<and> rest4 = trim_left rest3 then None
                        else Some (to_lower param, val, rest4))
                | [] \<Rightarrow> None))
      | [] \<Rightarrow> None)"

text \<open>The loop over the parameters with those seen so far; each round reads at least the semicolon, so the
length of the text is enough fuel.\<close>

fun media_params_ok :: "nat \<Rightarrow> (string \<times> string) list \<Rightarrow> string \<Rightarrow> bool" where
  "media_params_ok 0 seen v \<longleftrightarrow> trim_left v = []"
| "media_params_ok (Suc fuel) seen v \<longleftrightarrow>
     (if trim_left v = [] then True
      else case consume_media_param (trim_left v) of
        None \<Rightarrow> trim_space (trim_left v) = '';''
      | Some (k, x, rest) \<Rightarrow>
          (case map_of seen k of
             Some y \<Rightarrow> x = y \<and> media_params_ok fuel seen rest
           | None \<Rightarrow> media_params_ok fuel ((k, x) # seen) rest))"

text \<open>\<open>mime.ParseMediaType\<close>: the media type, \<open>None\<close> where it returns an error.\<close>

definition media_type_ok :: "string \<Rightarrow> bool" where
  "media_type_ok s \<longleftrightarrow>
     (case consume_token s of (typ, rest) \<Rightarrow>
        typ \<noteq> [] \<and>
        (rest = [] \<or>
         (case rest of
            c # cs \<Rightarrow> c = CHR ''/'' \<and> fst (consume_token cs) \<noteq> [] \<and> snd (consume_token cs) = []
          | [] \<Rightarrow> False)))"

definition ParseMediaType :: "string \<Rightarrow> string option" where
  "ParseMediaType v =
     (let base = takeWhile (\<lambda>c. c \<noteq> CHR '';'') v;
          mediatype = trim_space (to_lower base);
          rest = drop (length base) v
      in if media_type_ok mediatype \<and> media_params_ok (length rest) [] rest then Some mediatype else None)"

section \<open>Base64\<close>

definition base64_alphabet :: string where
  "base64_alphabet = ''ABCDEFGHIJKLMNOPQRSTUVWXYZabcdefghijklmnopqrstuvwxyz0123456789+/''"

definition base64_char :: "int \<Rightarrow> char" where
  "base64_char n = base64_alphabet ! nat n"

fun base64_encode :: "string \<Rightarrow> string" where
  "base64_encode [] = []"
| "base64_encode [a] =
     [base64_char (byte a div 4), base64_char (byte a mod 4 * 16), CHR ''='', CHR ''='']"
| "base64_encode [a, b] =
     [base64_char (byte a div 4), base64_char (byte a mod 4 * 16 + byte b div 16),
      base64_char (byte b mod 16 * 4), CHR ''='']"
| "base64_encode (a # b # c # rest) =
     base64_char (byte a div 4) # base64_char (byte a mod 4 * 16 + byte b div 16) #
     base64_char (byte b mod 16 * 4 + byte c div 64) # base64_char (byte c mod 64) #
     base64_encode rest"

section \<open>File names\<close>

fun last_index :: "char \<Rightarrow> string \<Rightarrow> nat option" where
  "last_index c [] = None"
| "last_index c (x # xs) =
     (case last_index c xs of Some i \<Rightarrow> Some (Suc i) | None \<Rightarrow> if x = c then Some 0 else None)"

text \<open>\<open>filepath.Ext\<close>: from the last dot after the last slash.\<close>

definition filepath_ext :: "string \<Rightarrow> string" where
  "filepath_ext s =
     (let tail = rev (takeWhile (\<lambda>d. d \<noteq> CHR ''/'') (rev s)) in
      case last_index (CHR ''.'') tail of Some i \<Rightarrow> drop i tail | None \<Rightarrow> [])"

definition trim_suffix :: "string \<Rightarrow> string \<Rightarrow> string" where
  "trim_suffix s suf = (if has_suffix s suf then take (length s - length suf) s else s)"

lemma has_suffix_iff: "has_suffix s p \<longleftrightarrow> (\<exists>t. s = t @ p)"
  unfolding has_suffix_def has_prefix_iff by (metis rev_append rev_rev_ident)

lemma trim_suffix_append [simp]: "trim_suffix (t @ p) p = t"
  by (auto simp: trim_suffix_def has_suffix_iff)

lemma last_index_None: "last_index c s = None \<longleftrightarrow> c \<notin> set s"
  by (induction s) (auto split: option.splits)

lemma last_index_drop:
  "last_index c s = Some i \<Longrightarrow> i < length s \<and> s ! i = c \<and> c \<notin> set (drop (Suc i) s)"
proof (induction s arbitrary: i)
  case (Cons x xs)
  then show ?case
    using last_index_None [of c xs] by (cases "last_index c xs") (auto split: if_splits)
qed simp

section \<open>Addresses\<close>

text \<open>\<open>net.SplitHostPort\<close>, only the host; \<open>None\<close> for its errors.\<close>

definition split_host_port :: "string \<Rightarrow> string option" where
  "split_host_port s =
     (case last_index (CHR '':'') s of
        None \<Rightarrow> None
      | Some i \<Rightarrow>
          if s \<noteq> [] \<and> hd s = CHR ''['' then
            (case str_index s '']'' of
               None \<Rightarrow> None
             | Some e \<Rightarrow>
                 if e + 1 \<noteq> i then None
                 else if contains (drop 1 s) ''['' \<or> contains (drop (e + 1) s) '']'' then None
                 else Some (drop 1 (take e s)))
          else
            if contains (take i s) '':'' then None
            else if contains s ''['' \<or> contains s '']'' then None
            else Some (take i s))"

section \<open>Readers\<close>

text \<open>\<open>io.LimitReader\<close>\<close>

definition limited :: "int \<Rightarrow> string \<Rightarrow> string" where
  "limited n s = (if int (length s) \<le> n then s else take (nat n) s)"

end
