(* ===== verification/SS_Service.thy ===== *)
theory SS_Service
  imports SS_Inv GoJson GoMime
begin

text \<open>
  \<open>Service\<close> of \<open>internal/storespace/service.go\<close> over the memory repository, with the file names of
  \<open>snapshots.go\<close> and the export rows.  The device scanner, the image recogniser and the snapshot
  store are interfaces of the package: they are fields of the service, functions that return a value or an
  error.  An operation takes the service, the time of its repository calls and the repository's state.
  Log lines are left out; a duration in milliseconds is an argument.
\<close>

section \<open>The service and its collaborators\<close>

record scanner =
  sn_scan :: "ezviz_account \<Rightarrow> recorder \<Rightarrow> ss_error + scanned_channel list"
  sn_capture :: "ezviz_account \<Rightarrow> recorder \<Rightarrow> channel \<Rightarrow> ss_error + channel_snapshot_input"

type_synonym recognizer = "string \<Rightarrow> ss_error + channel_recognition_result"

text \<open>An opened snapshot: its bytes, the error that ends them if any, and its content type.\<close>

record snapshot_store =
  sn_save_remote :: "string \<Rightarrow> ss_error + string"
  sn_open :: "string \<Rightarrow> ss_error + (string \<times> ss_error option \<times> string)"

record service =
  sv_scanner :: "scanner option"
  sv_recognizer :: "recognizer option"
  sv_snapshot_store :: "snapshot_store option"
  sv_crm_institution_authority :: bool

text \<open>The durations one recognition measures.\<close>

record timings =
  tm_capture_ms :: int
  tm_recognition_ms :: int
  tm_total_ms :: int

definition NewService :: service where
  "NewService = \<lparr>sv_scanner = None, sv_recognizer = None, sv_snapshot_store = None,
     sv_crm_institution_authority = False\<rparr>"

definition UseCRMInstitutionAuthority :: "service \<Rightarrow> service" where
  "UseCRMInstitutionAuthority s = s\<lparr>sv_crm_institution_authority := True\<rparr>"

fun error_text :: "ss_error \<Rightarrow> string" where
  "error_text ErrNotFound = ''store space resource not found''"
| "error_text ErrNotImplemented = ''not implemented''"
| "error_text ErrCRMDirectoryReadOnly = utf8 [0x673A, 0x6784, 0x4FE1, 0x606F, 0x7EDF, 0x4E00, 0x7531, 0x20, 0x43, 0x52, 0x4D, 0x20, 0x7EF4, 0x62A4, 0xFF0C, 0x65E7, 0x673A, 0x6784, 0x76EE, 0x5F55, 0x5DF2, 0x505C, 0x6B62, 0x65B0, 0x589E, 0x3001, 0x4FEE, 0x6539, 0x548C, 0x5220, 0x9664, 0x3002]"
| "error_text (ValidationError fs) = ''validation failed''"
| "error_text (OtherError text) = text"

definition msg_account_exists :: string where
  "msg_account_exists = utf8 [0x8424, 0x77F3, 0x4E91, 0x8D26, 0x53F7, 0x540D, 0x79F0, 0x5DF2, 0x5B58, 0x5728]"

definition msg_code_exists :: string where
  "msg_code_exists = utf8 [0x5F55, 0x50CF, 0x673A, 0x8BBE, 0x5907, 0x7F16, 0x7801, 0x5DF2, 0x5B58, 0x5728]"

definition msg_same_name :: string where
  "msg_same_name = utf8 [0x5DF2, 0x5B58, 0x5728, 0x540C, 0x540D, 0x95E8, 0x5E97]"

definition msg_account_missing :: string where
  "msg_account_missing = utf8 [0x7F3A, 0x5C11, 0x8424, 0x77F3, 0x4E91, 0x8D26, 0x53F7]"

definition msg_account_not_found :: string where
  "msg_account_not_found = utf8 [0x627E, 0x4E0D, 0x5230, 0x8424, 0x77F3, 0x4E91, 0x8D26, 0x53F7]"

definition msg_channel_no :: string where
  "msg_channel_no = utf8 [0x901A, 0x9053, 0x53F7, 0x5FC5, 0x987B, 0x5927, 0x4E8E, 0x20, 0x30]"

definition msg_inactive_recognize :: string where
  "msg_inactive_recognize = utf8 [0x901A, 0x9053, 0x5DF2, 0x5931, 0x6548, 0xFF0C, 0x65E0, 0x6CD5, 0x8BC6, 0x522B]"

definition msg_inactive_refresh :: string where
  "msg_inactive_refresh = utf8 [0x901A, 0x9053, 0x5DF2, 0x5931, 0x6548, 0xFF0C, 0x65E0, 0x6CD5, 0x5237, 0x65B0, 0x622A, 0x56FE]"

definition msg_confirmed_recognize :: string where
  "msg_confirmed_recognize = utf8 [0x901A, 0x9053, 0x5DF2, 0x786E, 0x8BA4, 0xFF0C, 0x5982, 0x9700, 0x91CD, 0x65B0, 0x8BC6, 0x522B, 0x8BF7, 0x5148, 0x70B9, 0x51FB, 0x7F16, 0x8F91]"

definition invalid :: "string \<Rightarrow> string \<Rightarrow> ss_error + 'a" where
  "invalid field msg = Inl (ValidationError [(field, msg)])"

section \<open>Accounts\<close>

fun SyncEzvizAccountNames_from :: "time \<Rightarrow> string list \<Rightarrow> string list \<Rightarrow> mem_store \<Rightarrow> mem_store" where
  "SyncEzvizAccountNames_from now seen [] s = s"
| "SyncEzvizAccountNames_from now seen (accountName # rest) s =
     (let cleanName = trim_space accountName in
      if cleanName = [] \<or> cleanName \<in> set seen then SyncEzvizAccountNames_from now seen rest s
      else SyncEzvizAccountNames_from now (cleanName # seen) rest (UpsertEzvizAccountName now cleanName s))"

definition SyncEzvizAccountNames :: "time \<Rightarrow> string list \<Rightarrow> mem_store \<Rightarrow> mem_store" where
  "SyncEzvizAccountNames now accountNames s = SyncEzvizAccountNames_from now [] accountNames s"

definition svc_CreateEzvizAccount ::
  "time \<Rightarrow> create_ezviz_account_input \<Rightarrow> mem_store \<Rightarrow> (ss_error + ezviz_account) \<times> mem_store" where
  "svc_CreateEzvizAccount now input s =
     (case validateCreateEzvizAccountInput input of
        Inl e \<Rightarrow> (Inl e, s)
      | Inr _ \<Rightarrow>
          let input' = input\<lparr>ca_account_name := trim_space (ca_account_name input)\<rparr> in
          if EzvizAccountNameExists (ca_account_name input') s
          then (invalid ''account_name'' msg_account_exists, s)
          else (case CreateEzvizAccount now input' s of (a, s') \<Rightarrow> (Inr a, s')))"

section \<open>Stores\<close>

definition ensureNoExactDuplicate :: "string \<Rightarrow> int \<Rightarrow> mem_store \<Rightarrow> ss_error + unit" where
  "ensureNoExactDuplicate name excludeStoreID s =
     (if dc_exact_match (CheckDuplicate name excludeStoreID s) \<noteq> None
      then invalid ''name'' msg_same_name else Inr ())"

text \<open>The loop over \<open>input.Recorders\<close>: normalised codes, none of them in use.\<close>

fun check_recorders :: "nat \<Rightarrow> recorder_input list \<Rightarrow> mem_store \<Rightarrow> ss_error + recorder_input list" where
  "check_recorders index [] s = Inr []"
| "check_recorders index (r # rest) s =
     (let code = normalizeDeviceCode (ri_device_code r); r' = r\<lparr>ri_device_code := code\<rparr> in
      if code \<noteq> [] \<and> DeviceCodeExists code 0 s
      then invalid (recorder_prefix index @ ''.device_code'') msg_code_exists
      else bind_sum (check_recorders (Suc index) rest s) (\<lambda>rs. Inr (r' # rs)))"

definition svc_CreateStore ::
  "service \<Rightarrow> time \<Rightarrow> create_store_input \<Rightarrow> mem_store \<Rightarrow> (ss_error + store) \<times> mem_store" where
  "svc_CreateStore sv now input s =
     (if sv_crm_institution_authority sv then (Inl ErrCRMDirectoryReadOnly, s)
      else case validateCreateStoreInput input of
        Inl e \<Rightarrow> (Inl e, s)
      | Inr _ \<Rightarrow>
          let input1 = input\<lparr>cs_city := trim_space (cs_city input), cs_name := trim_space (cs_name input),
                cs_external_org_id := trim_space (cs_external_org_id input),
                cs_design_plan_upload_id := trim_space (cs_design_plan_upload_id input)\<rparr>
          in case ensureNoExactDuplicate (cs_name input1) 0 s of
               Inl e \<Rightarrow> (Inl e, s)
             | Inr _ \<Rightarrow>
                 (case check_recorders 0 (cs_recorders input1) s of
                    Inl e \<Rightarrow> (Inl e, s)
                  | Inr rs \<Rightarrow>
                      (case CreateStore now (input1\<lparr>cs_recorders := rs\<rparr>) s of (st, s') \<Rightarrow> (Inr st, s'))))"

definition svc_UpdateStoreBasicInfo ::
  "service \<Rightarrow> time \<Rightarrow> int \<Rightarrow> update_store_basic_info_input \<Rightarrow> mem_store \<Rightarrow>
   (ss_error + store) \<times> mem_store" where
  "svc_UpdateStoreBasicInfo sv now i input s =
     (if sv_crm_institution_authority sv then (Inl ErrCRMDirectoryReadOnly, s)
      else case validateUpdateStoreBasicInfoInput input of
        Inl e \<Rightarrow> (Inl e, s)
      | Inr _ \<Rightarrow>
          let input1 = input\<lparr>ub_city := trim_space (ub_city input), ub_name := trim_space (ub_name input),
                ub_external_org_id := trim_space (ub_external_org_id input)\<rparr>
          in case ensureNoExactDuplicate (ub_name input1) i s of
               Inl e \<Rightarrow> (Inl e, s)
             | Inr _ \<Rightarrow> UpdateStoreBasicInfo now i input1 s)"

definition trim_design_area :: "design_area_input \<Rightarrow> design_area_input" where
  "trim_design_area ar =
     ar\<lparr>di_display_name := trim_space (di_display_name ar), di_number_text := trim_space (di_number_text ar)\<rparr>"

definition svc_SaveDesignPlan ::
  "time \<Rightarrow> int \<Rightarrow> save_design_plan_input \<Rightarrow> mem_store \<Rightarrow> (ss_error + store) \<times> mem_store" where
  "svc_SaveDesignPlan now storeID input s =
     (let input1 = input\<lparr>sp_upload_id := trim_space (sp_upload_id input),
            sp_pdf_file_name := trim_space (sp_pdf_file_name input),
            sp_original_pdf_path := trim_space (sp_original_pdf_path input),
            sp_preview_image_path := trim_space (sp_preview_image_path input),
            sp_thumbnail_path := trim_space (sp_thumbnail_path input),
            sp_areas := map trim_design_area (sp_areas input)\<rparr>
      in case validateSaveDesignPlanInput input1 of
           Inl e \<Rightarrow> (Inl e, s)
         | Inr _ \<Rightarrow> SaveDesignPlan now storeID input1 s)"

definition svc_DeleteStore :: "service \<Rightarrow> int \<Rightarrow> mem_store \<Rightarrow> (ss_error + unit) \<times> mem_store" where
  "svc_DeleteStore sv i s =
     (if sv_crm_institution_authority sv then (Inl ErrCRMDirectoryReadOnly, s) else DeleteStore i s)"

definition svc_CheckDuplicate ::
  "duplicate_check_request \<Rightarrow> mem_store \<Rightarrow> ss_error + duplicate_check_result" where
  "svc_CheckDuplicate request s =
     (if trim_space (dr_name request) = [] then invalid ''name'' msg_name_required
      else Inr (CheckDuplicate (trim_space (dr_name request)) (dr_exclude_store_id request) s))"

definition svc_FindOrCreateArea ::
  "time \<Rightarrow> area_lookup \<Rightarrow> mem_store \<Rightarrow> (ss_error + area) \<times> mem_store" where
  "svc_FindOrCreateArea now input s =
     (let input1 = input\<lparr>al_number_text := trim_space (al_number_text input),
            al_source := (if al_source input = [] then AreaSourceManual else al_source input)\<rparr>
      in case validateAreaLookup input1 of
           Inl e \<Rightarrow> (Inl e, s)
         | Inr number \<Rightarrow> FindOrCreateArea now input1 number s)"

section \<open>Recorders\<close>

text \<open>
  \<open>AddRecorder\<close> is a check (repository reads) followed by the repository's write.  The two are not one
  critical section: another request may run between them.
\<close>

definition add_recorder_check ::
  "time \<Rightarrow> int \<Rightarrow> add_recorder_input \<Rightarrow> mem_store \<Rightarrow> ss_error + add_recorder_input" where
  "add_recorder_check now storeID input s =
     (case validateAddRecorderInput input of
        Inl e \<Rightarrow> Inl e
      | Inr _ \<Rightarrow>
          (case GetStore now storeID s of
             Inl e \<Rightarrow> Inl e
           | Inr st \<Rightarrow>
               if 3 \<le> length (st_recorders st) then invalid ''recorders'' msg_max_recorders
               else
                 let input1 = input\<lparr>ar_device_code := normalizeDeviceCode (ar_device_code input)\<rparr>
                 in if DeviceCodeExists (ar_device_code input1) 0 s
                    then invalid ''device_code'' msg_code_exists
                    else Inr input1))"

definition svc_AddRecorder ::
  "time \<Rightarrow> int \<Rightarrow> add_recorder_input \<Rightarrow> mem_store \<Rightarrow> (ss_error + store) \<times> mem_store" where
  "svc_AddRecorder now storeID input s =
     (case add_recorder_check now storeID input s of
        Inl e \<Rightarrow> (Inl e, s)
      | Inr input1 \<Rightarrow> AddRecorder now storeID input1 s)"

text \<open>The account of a recorder, as the scanning operations look it up.\<close>

definition recorder_account :: "recorder \<Rightarrow> mem_store \<Rightarrow> ss_error + ezviz_account" where
  "recorder_account rc s =
     (if rc_ezviz_account_id rc = 0 then invalid ''ezviz_account_id'' msg_account_missing
      else case GetEzvizAccount (rc_ezviz_account_id rc) s of
        Inl e \<Rightarrow> (if e = ErrNotFound then invalid ''ezviz_account_id'' msg_account_not_found else Inl e)
      | Inr a \<Rightarrow> Inr a)"

definition scanned_inputs :: "scanned_channel list \<Rightarrow> channel_input list" where
  "scanned_inputs channels =
     map (\<lambda>c. \<lparr>ci_channel_no = sc_channel_no c, ci_channel_name = trim_space (sc_channel_name c),
                ci_is_active = True\<rparr>)
       (filter (\<lambda>c. \<not> (sc_channel_no c \<le> 0 \<or> \<not> sc_active c)) channels)"

definition svc_ScanRecorderChannels ::
  "service \<Rightarrow> time \<Rightarrow> (channel_input list \<Rightarrow> channel_input list) \<Rightarrow> int \<Rightarrow> mem_store \<Rightarrow>
   (ss_error + recorder) \<times> mem_store" where
  "svc_ScanRecorderChannels sv now range_order recorderID s =
     (case sv_scanner sv of
        None \<Rightarrow> (Inl ErrNotImplemented, s)
      | Some scanner \<Rightarrow>
          (case GetRecorder recorderID s of
             Inl e \<Rightarrow> (Inl e, s)
           | Inr rc \<Rightarrow>
               (case recorder_account rc s of
                  Inl e \<Rightarrow> (Inl e, s)
                | Inr account \<Rightarrow>
                    (case sn_scan scanner account rc of
                       Inl e \<Rightarrow> (Inl e, s)
                     | Inr scanned \<Rightarrow>
                         ReplaceRecorderChannels now range_order recorderID (scanned_inputs scanned) s))))"

section \<open>Texts of a recognition\<close>

definition firstNonEmpty :: "string list \<Rightarrow> string" where
  "firstNonEmpty vals =
     (case find (\<lambda>v. trim_space v \<noteq> []) vals of Some v \<Rightarrow> trim_space v | None \<Rightarrow> [])"

definition isConfirmedChannelStatus :: "channel_status \<Rightarrow> bool" where
  "isConfirmedChannelStatus status \<longleftrightarrow>
     status = ChannelStatusConfirmedBusiness \<or> status = ChannelStatusConfirmedNonBusiness"

definition marshal_or :: "string \<Rightarrow> (string \<times> json_value) list \<Rightarrow> string" where
  "marshal_or fallback payload = (case json_marshal_map payload of Some t \<Rightarrow> t | None \<Rightarrow> fallback)"

definition channelRecognitionStatusJSON :: "string \<Rightarrow> string \<Rightarrow> int \<Rightarrow> int \<Rightarrow> int \<Rightarrow> string" where
  "channelRecognitionStatusJSON status message captureMS recognitionMS totalMS =
     marshal_or ''{}''
       ([(''status'', JStr status), (''capture_ms'', JInt captureMS),
         (''recognition_ms'', JInt recognitionMS), (''total_ms'', JInt totalMS)] @
        (if trim_space message \<noteq> [] then [(''message'', JStr (trim_space message))] else []))"

definition channelRecognitionErrorJSON :: "string \<Rightarrow> int \<Rightarrow> int \<Rightarrow> int \<Rightarrow> string" where
  "channelRecognitionErrorJSON message captureMS recognitionMS totalMS =
     channelRecognitionStatusJSON
       (if 0 < captureMS then ''recognition_failed'' else ''capture_failed'')
       message captureMS recognitionMS totalMS"

definition recognitionSceneNote :: "scene_type \<Rightarrow> string \<Rightarrow> string" where
  "recognitionSceneNote sceneType recognizedNumber =
     (let note = trim_space recognizedNumber in
      if note \<noteq> [] \<and> \<not> onlyDigits note then note
      else if sceneType = SceneTypeFrontDesk then utf8 [0x524D, 0x53F0]
      else if sceneType = SceneTypeCorridor then utf8 [0x8D70, 0x5ECA]
      else if sceneType = SceneTypePassage then utf8 [0x901A, 0x9053]
      else if sceneType = SceneTypeWaitingArea then utf8 [0x5019, 0x8BCA, 0x533A]
      else if sceneType = SceneTypeHall then utf8 [0x5927, 0x5385]
      else if sceneType = SceneTypeEntrance then utf8 [0x95E8, 0x53E3]
      else if sceneType = SceneTypeStorage then utf8 [0x5E93, 0x623F]
      else if sceneType = SceneTypePharmacy then utf8 [0x836F, 0x623F]
      else if sceneType = SceneTypeMachineRoom then utf8 [0x673A, 0x623F]
      else [])"

definition normalizeRecognitionAreaType :: "string \<Rightarrow> area_type" where
  "normalizeRecognitionAreaType value =
     (let t = to_lower (trim_space value) in
      if t \<in> {AreaTypeTreatment, AreaTypeVIPTreatment, AreaTypeConsultation, AreaTypeBeauty}
      then t else [])"

definition normalizeRecognitionSceneType :: "string \<Rightarrow> scene_type" where
  "normalizeRecognitionSceneType value =
     (let t = to_lower (trim_space value) in if validSceneType t then t else SceneTypeUnknown)"

definition normalizeRecognitionDecisionSource :: "string \<Rightarrow> string" where
  "normalizeRecognitionDecisionSource value =
     (let t = to_lower (trim_space value) in
      if t \<in> {''number_card'', ''scene'', ''none''} then t else ''none'')"

definition normalizeRecognitionConfidence :: "string \<Rightarrow> string" where
  "normalizeRecognitionConfidence value =
     (let t = to_lower (trim_space value) in
      if t \<in> {''high'', ''medium'', ''low''} then t else ''medium'')"

definition recognition_payload ::
  "channel_recognition_result \<Rightarrow> scene_type \<Rightarrow> area_type \<Rightarrow> int \<Rightarrow> int \<Rightarrow> int \<Rightarrow> (string \<times> json_value) list" where
  "recognition_payload result sceneType areaType captureMS recognitionMS totalMS =
     [(''status'', JStr ''recognized''), (''provider'', JStr (trim_space (rr_provider result))),
      (''scene_type'', JStr sceneType), (''area_type'', JStr areaType),
      (''area_number'', JStr (trim_space (rr_area_number result))),
      (''card_text'', JStr (trim_space (rr_card_text result))),
      (''decision_source'', JStr (normalizeRecognitionDecisionSource (rr_decision_source result))),
      (''confidence'', JStr (normalizeRecognitionConfidence (rr_confidence result))),
      (''needs_review'', JBool (rr_needs_review result)),
      (''raw_notes'', JStr (trim_space (rr_raw_notes result))),
      (''capture_ms'', JInt captureMS), (''recognition_ms'', JInt recognitionMS),
      (''total_ms'', JInt totalMS)] @
     (if trim_space (rr_raw_result result) \<noteq> [] then [(''raw_result'', JRaw (rr_raw_result result))] else [])"

definition applyChannelRecognition ::
  "channel_snapshot_input \<Rightarrow> channel_recognition_result \<Rightarrow> int \<Rightarrow> int \<Rightarrow> int \<Rightarrow> channel_snapshot_input" where
  "applyChannelRecognition snapshot result captureMS recognitionMS totalMS =
     (let areaType = normalizeRecognitionAreaType (rr_area_type result);
          sceneType = (if areaType \<noteq> [] then areaType
                       else normalizeRecognitionSceneType (rr_scene_type result));
          number = trim_space (rr_area_number result);
          snap1 = snapshot\<lparr>si_status := ChannelStatusPendingConfirmation, si_scene_type := sceneType,
                           si_area_type := areaType\<rparr>;
          snap2 = (if onlyDigits number then snap1\<lparr>si_area_number_text := number\<rparr>
                   else if areaType = []
                   then snap1\<lparr>si_area_note := recognitionSceneNote sceneType number\<rparr>
                   else snap1)
      in snap2\<lparr>si_recognition_result :=
           marshal_or (channelRecognitionStatusJSON ''recognized'' [] captureMS recognitionMS totalMS)
             (recognition_payload result sceneType areaType captureMS recognitionMS totalMS)\<rparr>)"

section \<open>The image handed to the recogniser\<close>

definition hex_name_char :: "int \<Rightarrow> bool" where
  "hex_name_char ch \<longleftrightarrow> (48 \<le> ch \<and> ch \<le> 57) \<or> (97 \<le> ch \<and> ch \<le> 102)"

definition validSnapshotName :: "string \<Rightarrow> bool" where
  "validSnapshotName name \<longleftrightarrow>
     \<not> (length name < 5 \<or> contains name ''/'' \<or> contains name [chr 92]) \<and>
     (let extension = to_lower (filepath_ext name) in
      extension \<in> {''.jpg'', ''.png'', ''.webp''} \<and>
      (let base = trim_suffix name extension in
       length base = 32 \<and> list_all hex_name_char (runes base)))"

text \<open>A valid name has no slash and no dot segment, so \<open>filepath.Join\<close> leaves it as it is.\<close>

definition snapshotKey :: "string \<Rightarrow> string" where
  "snapshotKey name = ''channel-snapshots/'' @ name"

definition snapshotKeyForDiagnostics :: "string \<Rightarrow> string" where
  "snapshotKeyForDiagnostics name = (if validSnapshotName name then snapshotKey name else [])"

definition snapshotNameFromAPIPath :: "string \<Rightarrow> string" where
  "snapshotNameFromAPIPath value0 =
     (let value = trim_space value0 in
      case str_index value snapshot_marker of
        None \<Rightarrow> []
      | Some index \<Rightarrow>
          let name = takeWhile (\<lambda>c. c \<noteq> CHR ''?'' \<and> c \<noteq> CHR ''#'')
                       (drop (index + length snapshot_marker) value)
          in if validSnapshotName name then name else [])"

definition normalizeImageContentType :: "string \<Rightarrow> string \<Rightarrow> string" where
  "normalizeImageContentType contentType0 name =
     (let contentType = trim_space (to_lower contentType0);
          byName = (case last_index (CHR ''.'') name of
                      None \<Rightarrow> ''image/jpeg''
                    | Some i \<Rightarrow>
                        let e = to_lower (trim_space (drop i name)) in
                        if e = ''.png'' then ''image/png''
                        else if e = ''.webp'' then ''image/webp'' else ''image/jpeg'')
      in case ParseMediaType contentType of
           Some mediaType \<Rightarrow>
             if mediaType \<in> {''image/jpeg'', ''image/png'', ''image/webp''} then mediaType else byName
         | None \<Rightarrow> byName)"

definition maxSnapshotBytes :: int where "maxSnapshotBytes = 6291456"

definition prepareRecognitionImageURL :: "service \<Rightarrow> string \<Rightarrow> string + string" where
  "prepareRecognitionImageURL sv imageURL0 =
     (let imageURL = trim_space imageURL0; lower = to_lower imageURL in
      if imageURL = [] then Inl ''missing channel snapshot image url''
      else if has_prefix lower ''http://'' \<or> has_prefix lower ''https://'' \<or> has_prefix lower ''data:''
      then Inr imageURL
      else
        let name = snapshotNameFromAPIPath imageURL in
        case sv_snapshot_store sv of
          None \<Rightarrow> Inr imageURL
        | Some store \<Rightarrow>
            if name = [] then Inr imageURL
            else case sn_open store name of
              Inl e \<Rightarrow> Inl (''open stored snapshot for recognition: '' @ error_text e)
            | Inr (content, failure, contentType) \<Rightarrow>
                let payload = take (nat (maxSnapshotBytes + 1)) content in
                (case (if int (length content) \<le> maxSnapshotBytes then failure else None) of
                   Some e \<Rightarrow> Inl (''read stored snapshot for recognition: '' @ error_text e)
                 | None \<Rightarrow>
                     if maxSnapshotBytes < int (length payload)
                     then Inl (''stored snapshot exceeds '' @ itoa maxSnapshotBytes @ '' bytes'')
                     else Inr (''data:'' @ normalizeImageContentType contentType name @ '';base64,'' @
                               base64_encode payload)))"

section \<open>Recognising a channel\<close>

text \<open>
  From the captured snapshot to the input saved for the channel, shared by \<open>recognizeChannel\<close> and
  \<open>ProbeRecognizeChannel\<close>: the remote picture is stored first; \<open>Inl\<close> is the error of storing it.
\<close>

definition store_picture ::
  "service \<Rightarrow> channel_snapshot_input \<Rightarrow> ss_error + (channel_snapshot_input \<times> string)" where
  "store_picture sv snapshot =
     (let url = firstNonEmpty [si_full_image_path snapshot, si_thumbnail_path snapshot] in
      case sv_snapshot_store sv of
        None \<Rightarrow> Inr (snapshot, url)
      | Some store \<Rightarrow>
          if trim_space url = [] then Inr (snapshot, url)
          else case sn_save_remote store url of
            Inl e \<Rightarrow> Inl e
          | Inr localURL \<Rightarrow>
              Inr (snapshot\<lparr>si_thumbnail_path := localURL, si_full_image_path := localURL,
                            si_full_image_expires_at := None\<rparr>, localURL))"

definition failed_attempt :: "string \<Rightarrow> timings \<Rightarrow> channel_snapshot_input" where
  "failed_attempt err tm = channel_snapshot_input_zero\<lparr>
     si_recognition_result := channelRecognitionErrorJSON err (tm_capture_ms tm) 0 (tm_total_ms tm),
     si_count_attempt := True\<rparr>"

definition recognize_picture ::
  "service \<Rightarrow> timings \<Rightarrow> channel_status \<Rightarrow> string \<Rightarrow> channel_snapshot_input \<Rightarrow> channel_snapshot_input" where
  "recognize_picture sv tm status url snapshot0 =
     (let snapshot = snapshot0\<lparr>si_count_attempt := True,
            si_recognition_result :=
              channelRecognitionStatusJSON ''captured'' [] (tm_capture_ms tm) 0 (tm_total_ms tm)\<rparr>
      in case sv_recognizer sv of
           None \<Rightarrow> snapshot
         | Some recognize \<Rightarrow>
             if isConfirmedChannelStatus status then snapshot
             else case prepareRecognitionImageURL sv url of
               Inl text \<Rightarrow>
                 snapshot\<lparr>si_status := ChannelStatusRecognitionFailed,
                   si_recognition_result :=
                     channelRecognitionErrorJSON text (tm_capture_ms tm) 0 (tm_total_ms tm)\<rparr>
             | Inr picture \<Rightarrow>
                 (case recognize picture of
                    Inl e \<Rightarrow>
                      snapshot\<lparr>si_status := ChannelStatusRecognitionFailed,
                        si_recognition_result :=
                          channelRecognitionErrorJSON (error_text e) (tm_capture_ms tm)
                            (tm_recognition_ms tm) (tm_total_ms tm)\<rparr>
                  | Inr result \<Rightarrow>
                      applyChannelRecognition snapshot result (tm_capture_ms tm) (tm_recognition_ms tm)
                        (tm_total_ms tm)))"

definition recognition_input ::
  "service \<Rightarrow> timings \<Rightarrow> scanner \<Rightarrow> ezviz_account \<Rightarrow> recorder \<Rightarrow> channel \<Rightarrow> channel_snapshot_input" where
  "recognition_input sv tm scanner account rc ch =
     (case sn_capture scanner account rc ch of
        Inl e \<Rightarrow> failed_attempt (error_text e) tm
      | Inr snapshot \<Rightarrow>
          (case store_picture sv snapshot of
             Inl e \<Rightarrow> failed_attempt (error_text e) tm
           | Inr (snapshot', url) \<Rightarrow> recognize_picture sv tm (ch_status ch) url snapshot'))"

definition recognizeChannel ::
  "service \<Rightarrow> time \<Rightarrow> timings \<Rightarrow> scanner \<Rightarrow> ezviz_account \<Rightarrow> recorder \<Rightarrow> channel \<Rightarrow> mem_store \<Rightarrow>
   (ss_error + channel) \<times> mem_store" where
  "recognizeChannel sv now tm scanner account rc ch s =
     SaveChannelSnapshot now (ch_id ch) (recognition_input sv tm scanner account rc ch) s"

definition RecognizeChannel ::
  "service \<Rightarrow> time \<Rightarrow> timings \<Rightarrow> int \<Rightarrow> mem_store \<Rightarrow> (ss_error + channel) \<times> mem_store" where
  "RecognizeChannel sv now tm channelID s =
     (case sv_scanner sv of
        None \<Rightarrow> (Inl ErrNotImplemented, s)
      | Some scanner \<Rightarrow>
          (case GetChannelContext channelID s of
             Inl e \<Rightarrow> (Inl e, s)
           | Inr (ch, rc, account) \<Rightarrow>
               if \<not> ch_is_active ch \<or> ch_status ch = ChannelStatusInactive
               then (invalid ''channel'' msg_inactive_recognize, s)
               else if isConfirmedChannelStatus (ch_status ch)
               then (invalid ''channel'' msg_confirmed_recognize, s)
               else recognizeChannel sv now tm scanner account rc ch s))"

definition maxRecorderRecognitionChannelsPerRequest :: nat where
  "maxRecorderRecognitionChannelsPerRequest = 1"

definition recognizable_channels :: "recorder \<Rightarrow> channel list" where
  "recognizable_channels rc =
     take maxRecorderRecognitionChannelsPerRequest
       (sort_key ch_channel_no
          (filter (\<lambda>ch. \<not> (\<not> ch_is_active ch \<or> ch_status ch = ChannelStatusInactive \<or>
                           isConfirmedChannelStatus (ch_status ch))) (rc_channels rc)))"

fun recognize_all ::
  "service \<Rightarrow> time \<Rightarrow> timings \<Rightarrow> scanner \<Rightarrow> ezviz_account \<Rightarrow> recorder \<Rightarrow> channel list \<Rightarrow> mem_store \<Rightarrow>
   (ss_error + unit) \<times> mem_store" where
  "recognize_all sv now tm scanner account rc [] s = (Inr (), s)"
| "recognize_all sv now tm scanner account rc (ch # chs) s =
     (case recognizeChannel sv now tm scanner account rc ch s of
        (Inl e, s') \<Rightarrow> (Inl e, s')
      | (Inr _, s') \<Rightarrow> recognize_all sv now tm scanner account rc chs s')"

definition RecognizeRecorderChannels ::
  "service \<Rightarrow> time \<Rightarrow> timings \<Rightarrow> int \<Rightarrow> mem_store \<Rightarrow> (ss_error + recorder) \<times> mem_store" where
  "RecognizeRecorderChannels sv now tm recorderID s =
     (case sv_scanner sv of
        None \<Rightarrow> (Inl ErrNotImplemented, s)
      | Some scanner \<Rightarrow>
          (case GetRecorder recorderID s of
             Inl e \<Rightarrow> (Inl e, s)
           | Inr rc \<Rightarrow>
               (case recorder_account rc s of
                  Inl e \<Rightarrow> (Inl e, s)
                | Inr account \<Rightarrow>
                    (case recognize_all sv now tm scanner account rc (recognizable_channels rc) s of
                       (Inl e, s') \<Rightarrow> (Inl e, s')
                     | (Inr _, s') \<Rightarrow> (GetRecorder recorderID s', s')))))"

definition probe_channel :: "int \<Rightarrow> int \<Rightarrow> channel" where
  "probe_channel recorderID channelNo =
     channel_zero\<lparr>ch_recorder_id := recorderID, ch_channel_no := channelNo,
       ch_channel_name := utf8 [0x901A, 0x9053] @ itoa channelNo, ch_status := ChannelStatusPendingRecognition,
       ch_is_active := True, ch_scene_type := SceneTypeUnknown\<rparr>"

definition ProbeRecognizeChannel ::
  "service \<Rightarrow> time \<Rightarrow> timings \<Rightarrow> int \<Rightarrow> probe_recognize_channel_input \<Rightarrow> mem_store \<Rightarrow>
   (ss_error + probe_recognize_channel_result) \<times> mem_store" where
  "ProbeRecognizeChannel sv now tm recorderID input s =
     (case sv_scanner sv of
        None \<Rightarrow> (Inl ErrNotImplemented, s)
      | Some scanner \<Rightarrow>
          if pi_channel_no input \<le> 0 then (invalid ''channel_no'' msg_channel_no, s)
          else case GetRecorder recorderID s of
            Inl e \<Rightarrow> (Inl e, s)
          | Inr rc \<Rightarrow>
              (case recorder_account rc s of
                 Inl e \<Rightarrow> (Inl e, s)
               | Inr account \<Rightarrow>
                   let probe = probe_channel (rc_id rc) (pi_channel_no input) in
                   (case sn_capture scanner account rc probe of
                      Inl e \<Rightarrow> (Inr \<lparr>pr_channel = None, pr_active = False, pr_message = error_text e\<rparr>, s)
                    | Inr snapshot \<Rightarrow>
                        (case UpsertRecorderChannel now recorderID
                                \<lparr>ci_channel_no = pi_channel_no input,
                                 ci_channel_name = ch_channel_name probe, ci_is_active = True\<rparr> s of
                           (Inl e, s1) \<Rightarrow> (Inl e, s1)
                         | (Inr ch, s1) \<Rightarrow>
                             (case store_picture sv snapshot of
                                Inl e \<Rightarrow>
                                  (case SaveChannelSnapshot now (ch_id ch) (failed_attempt (error_text e) tm) s1 of
                                     (Inl e', s2) \<Rightarrow> (Inl e', s2)
                                   | (Inr updated, s2) \<Rightarrow>
                                       (Inr \<lparr>pr_channel = Some updated, pr_active = True,
                                             pr_message = error_text e\<rparr>, s2))
                              | Inr (snapshot', url) \<Rightarrow>
                                  (case SaveChannelSnapshot now (ch_id ch)
                                          (recognize_picture sv tm (ch_status ch) url snapshot') s1 of
                                     (Inl e', s2) \<Rightarrow> (Inl e', s2)
                                   | (Inr updated, s2) \<Rightarrow>
                                       (Inr \<lparr>pr_channel = Some updated, pr_active = True,
                                             pr_message = []\<rparr>, s2)))))))"

definition RefreshChannelSnapshot ::
  "service \<Rightarrow> time \<Rightarrow> int \<Rightarrow> mem_store \<Rightarrow> (ss_error + channel) \<times> mem_store" where
  "RefreshChannelSnapshot sv now channelID s =
     (case sv_scanner sv of
        None \<Rightarrow> (Inl ErrNotImplemented, s)
      | Some scanner \<Rightarrow>
          (case GetChannelContext channelID s of
             Inl e \<Rightarrow> (Inl e, s)
           | Inr (ch, rc, account) \<Rightarrow>
               if \<not> ch_is_active ch \<or> ch_status ch = ChannelStatusInactive
               then (invalid ''channel'' msg_inactive_refresh, s)
               else
                 (case sn_capture scanner account rc ch of
                    Inl e \<Rightarrow> (Inl e, s)
                  | Inr snapshot \<Rightarrow>
                      (case store_picture sv snapshot of
                         Inl e \<Rightarrow> (Inl e, s)
                       | Inr (snapshot', _) \<Rightarrow>
                           SaveChannelSnapshot now (ch_id ch)
                             (snapshot'\<lparr>si_status := [], si_scene_type := [], si_area_type := [],
                                si_area_number_text := [], si_area_note := [],
                                si_recognition_result := [], si_count_attempt := False\<rparr>) s))))"

section \<open>Confirming\<close>

definition svc_ConfirmChannel ::
  "time \<Rightarrow> int \<Rightarrow> channel_confirmation_input \<Rightarrow> mem_store \<Rightarrow> (ss_error + store) \<times> mem_store" where
  "svc_ConfirmChannel now channelID input s =
     (let input1 = input\<lparr>cc_area_number := trim_space (cc_area_number input),
            cc_scene_type := (if cc_scene_type input = [] then SceneTypeUnknown else cc_scene_type input)\<rparr>
      in case validateChannelConfirmationInput input1 of
           Inl e \<Rightarrow> (Inl e, s)
         | Inr number \<Rightarrow>
             let input2 = (if cc_area_type input1 \<noteq> [] then
                   input1\<lparr>cc_area_number :=
                            (if cc_area_type input1 = AreaTypeVIPTreatment \<and> number = 0 then []
                             else itoa number),
                          cc_scene_type := cc_area_type input1\<rparr>
                 else input1)
             in ConfirmChannel now channelID input2 s)"

section \<open>Rows of the export\<close>

definition label_consultation :: string where "label_consultation = utf8 [0x9762, 0x8BCA, 0x5BA4]"
definition label_treatment :: string where "label_treatment = utf8 [0x6CBB, 0x7597, 0x5BA4]"
definition label_vip :: string where "label_vip = utf8 [0x56, 0x49, 0x50, 0x6CBB, 0x7597, 0x5BA4]"
definition label_beauty :: string where "label_beauty = utf8 [0x7F8E, 0x5BB9, 0x5BA4]"
definition label_other :: string where "label_other = utf8 [0x5176, 0x4ED6, 0x533A, 0x57DF]"

definition channelAreaTypeLabel :: "channel \<Rightarrow> string" where
  "channelAreaTypeLabel ch =
     (if ch_area_type ch = AreaTypeConsultation then label_consultation
      else if ch_area_type ch = AreaTypeTreatment then label_treatment
      else if ch_area_type ch = AreaTypeVIPTreatment then label_vip
      else if ch_area_type ch = AreaTypeBeauty then label_beauty
      else label_other)"

definition channelNumberOrNote :: "channel \<Rightarrow> string" where
  "channelNumberOrNote ch =
     (if ch_area_type ch \<noteq> [] \<and> 0 < ch_area_number ch then
        (if trim_space (ch_bed_label ch) \<noteq> []
         then itoa (ch_area_number ch) @ ''-'' @ trim_space (ch_bed_label ch)
         else itoa (ch_area_number ch))
      else if trim_space (ch_area_note ch) \<noteq> [] then trim_space (ch_area_note ch)
      else ''-'')"

definition channelExportTypeRank :: "string \<Rightarrow> int" where
  "channelExportTypeRank label =
     (if label = label_consultation then 0
      else if label = label_treatment \<or> label = label_vip then 1
      else if label = label_beauty then 2 else 3)"

definition parseLeadingInt :: "string \<Rightarrow> int \<times> bool" where
  "parseLeadingInt value0 =
     (let match = takeWhile is_digit_char (trim_space value0) in
      if match = [] then (0, False)
      else case atoi match of (number, err) \<Rightarrow> (number, err = None))"

definition compareNumberOrText :: "string \<Rightarrow> string \<Rightarrow> int" where
  "compareNumberOrText left right =
     (let (leftNumber, leftOK) = parseLeadingInt left; (rightNumber, rightOK) = parseLeadingInt right in
      if leftOK \<and> rightOK \<and> leftNumber \<noteq> rightNumber
      then (if leftNumber < rightNumber then - 1 else 1)
      else if left < right then - 1
      else if right < left then 1 else 0)"

definition export_less :: "channel_mapping_export_row \<Rightarrow> channel_mapping_export_row \<Rightarrow> bool" where
  "export_less left right \<longleftrightarrow>
     (if channelExportTypeRank (er_area_type_label left) \<noteq> channelExportTypeRank (er_area_type_label right)
      then channelExportTypeRank (er_area_type_label left) < channelExportTypeRank (er_area_type_label right)
      else if compareNumberOrText (er_number_or_note left) (er_number_or_note right) \<noteq> 0
      then compareNumberOrText (er_number_or_note left) (er_number_or_note right) < 0
      else if er_recorder_code left \<noteq> er_recorder_code right
      then er_recorder_code left < er_recorder_code right
      else er_channel_no left < er_channel_no right)"

text \<open>
  \<open>sort.SliceStable\<close> sorts blocks of twenty by this insertion, moving each row to the left past the rows it
  is less than, and then merges stably: on at most twenty rows it is this function, and on any number of rows
  it has the same result as long as the comparison is a strict weak order.  The sorted part is kept reversed.
\<close>

fun insert_back :: "('a \<Rightarrow> 'a \<Rightarrow> bool) \<Rightarrow> 'a \<Rightarrow> 'a list \<Rightarrow> 'a list" where
  "insert_back lt x [] = [x]"
| "insert_back lt x (y # ys) = (if lt x y then y # insert_back lt x ys else x # y # ys)"

definition sort_stable :: "('a \<Rightarrow> 'a \<Rightarrow> bool) \<Rightarrow> 'a list \<Rightarrow> 'a list" where
  "sort_stable lt xs = rev (fold (insert_back lt) xs [])"

definition export_row :: "store \<Rightarrow> recorder \<Rightarrow> channel \<Rightarrow> channel_mapping_export_row" where
  "export_row st rc ch =
     \<lparr>er_index = 0, er_city = st_city st, er_store_name = st_name st,
      er_external_org_id = st_external_org_id st, er_recorder_code = rc_device_code rc,
      er_channel_no = ch_channel_no ch,
      er_snapshot_path = firstNonEmpty [ch_full_image_url ch, ch_thumbnail_url ch],
      er_area_type_label = channelAreaTypeLabel ch, er_number_or_note = channelNumberOrNote ch\<rparr>"

definition export_rows :: "store \<Rightarrow> channel_mapping_export_row list" where
  "export_rows st =
     concat (map (\<lambda>rc. if rc_status rc = RecorderStatusOffline then []
                      else map (export_row st rc)
                             (filter (\<lambda>ch. \<not> (\<not> ch_is_active ch \<or> ch_status ch = ChannelStatusInactive))
                               (rc_channels rc)))
       (st_recorders st))"

fun number_rows :: "int \<Rightarrow> channel_mapping_export_row list \<Rightarrow> channel_mapping_export_row list" where
  "number_rows n [] = []"
| "number_rows n (r # rs) = r\<lparr>er_index := n\<rparr> # number_rows (n + 1) rs"

definition channelMappingExportRows :: "store \<Rightarrow> channel_mapping_export_row list" where
  "channelMappingExportRows st = number_rows 1 (sort_stable export_less (export_rows st))"

section \<open>Texts for the log\<close>

definition safeLogID :: "string \<Rightarrow> string" where
  "safeLogID value0 =
     (let value = trim_space value0 in
      if value = [] then ''-''
      else if length value \<le> 8 then value
      else take 4 value @ ''...'' @ drop (length value - 4) value)"

end
