(* ===== verification/SS_Scanner.thy ===== *)
theory SS_Scanner
  imports SS_Service
begin

text \<open>
  The scanner interface and its implementation over the Ezviz client (\<open>ezviz_scanner.go\<close>).  The client's
  \<open>CameraList\<close> and \<open>Capture\<close> calls go over the network: they are functions of the account, the device and
  the channel.  What the service relies on when it captures a channel is the locale \<open>capturing\<close>: a capture
  carries a picture and nothing else.
\<close>

section \<open>The Ezviz scanner\<close>

record ezviz_credentials =
  ez_name :: string
  ez_app_key :: string
  ez_app_secret :: string
  ez_access_token :: string

record ezviz_camera =
  cam_channel_no :: int
  cam_name :: string
  cam_status :: int

record ezviz_client =
  cl_camera_list :: "ezviz_credentials \<Rightarrow> string \<Rightarrow> ss_error + ezviz_camera list"
  cl_capture :: "ezviz_credentials \<Rightarrow> string \<Rightarrow> int \<Rightarrow> ss_error + string"

record ezviz_scanner =
  es_client :: "ezviz_client option"
  es_accounts :: "(string \<times> ezviz_credentials) list"

definition msg_account_unconfigured :: string where
  "msg_account_unconfigured = utf8 [0x627E, 0x4E0D, 0x5230, 0x8424, 0x77F3, 0x4E91, 0x8D26, 0x53F7, 0x914D, 0x7F6E]"

definition msg_app_key :: string where
  "msg_app_key = utf8 [0x7F3A, 0x5C11, 0x8424, 0x77F3, 0x4E91, 0x20, 0x61, 0x70, 0x70, 0x4B, 0x65, 0x79]"

definition msg_app_secret :: string where
  "msg_app_secret = utf8 [0x7F3A, 0x5C11, 0x8424, 0x77F3, 0x4E91, 0x20, 0x61, 0x70, 0x70, 0x53, 0x65, 0x63, 0x72, 0x65, 0x74]"

text \<open>Accounts without a name are left out; the last account of a name wins.\<close>

definition NewEzvizScanner :: "ezviz_client option \<Rightarrow> ezviz_credentials list \<Rightarrow> ezviz_scanner" where
  "NewEzvizScanner client accounts =
     \<lparr>es_client = client,
      es_accounts = fold (\<lambda>a m. if trim_space (ez_name a) = [] then m else AList.update (ez_name a) a m)
        accounts []\<rparr>"

definition EzvizAccountNames :: "ezviz_credentials list \<Rightarrow> string list" where
  "EzvizAccountNames accounts = filter (\<lambda>n. n \<noteq> []) (map (trim_space \<circ> ez_name) accounts)"

definition ezviz_credentials_of :: "ezviz_scanner \<Rightarrow> ezviz_account \<Rightarrow> ss_error + (ezviz_client \<times> ezviz_credentials)" where
  "ezviz_credentials_of sc account =
     (case es_client sc of
        None \<Rightarrow> Inl ErrNotImplemented
      | Some client \<Rightarrow>
          (case map_of (es_accounts sc) (ea_account_name account) of
             None \<Rightarrow> invalid ''ezviz_account_id'' msg_account_unconfigured
           | Some credentials \<Rightarrow>
               if trim_space (ez_app_key credentials) = [] then invalid ''app_key'' msg_app_key
               else if trim_space (ez_app_secret credentials) = [] then invalid ''app_secret'' msg_app_secret
               else Inr (client, credentials)))"

definition ezviz_ScanRecorderChannels ::
  "ezviz_scanner \<Rightarrow> ezviz_account \<Rightarrow> recorder \<Rightarrow> ss_error + scanned_channel list" where
  "ezviz_ScanRecorderChannels sc account rc =
     bind_sum (ezviz_credentials_of sc account) (\<lambda>(client, credentials).
       bind_sum (cl_camera_list client credentials (rc_device_code rc)) (\<lambda>cameras.
         Inr (map (\<lambda>cam. \<lparr>sc_channel_no = cam_channel_no cam, sc_channel_name = trim_space (cam_name cam),
                          sc_active = (cam_status cam = 1)\<rparr>) cameras)))"

definition snapshot_lifetime :: int where "snapshot_lifetime = 7 * 24 * 3600 * 1000000000"

definition ezviz_CaptureChannel ::
  "ezviz_scanner \<Rightarrow> time \<Rightarrow> ezviz_account \<Rightarrow> recorder \<Rightarrow> channel \<Rightarrow> ss_error + channel_snapshot_input" where
  "ezviz_CaptureChannel sc now account rc ch =
     bind_sum (ezviz_credentials_of sc account) (\<lambda>(client, credentials).
       bind_sum (cl_capture client credentials (rc_device_code rc) (ch_channel_no ch)) (\<lambda>url.
         Inr (channel_snapshot_input_zero\<lparr>si_thumbnail_path := url, si_full_image_path := url,
                si_full_image_expires_at := Some (now + snapshot_lifetime)\<rparr>)))"

section \<open>What a capture promises\<close>

definition only_picture :: "channel_snapshot_input \<Rightarrow> bool" where
  "only_picture si \<longleftrightarrow>
     si_status si = [] \<and> si_scene_type si = [] \<and> si_area_type si = [] \<and> si_area_number_text si = [] \<and>
     si_area_note si = [] \<and> si_recognition_result si = [] \<and> \<not> si_count_attempt si"

locale capturing =
  fixes capture :: "ezviz_account \<Rightarrow> recorder \<Rightarrow> channel \<Rightarrow> ss_error + channel_snapshot_input"
  assumes capture_picture: "capture account rc ch = Inr si \<Longrightarrow> only_picture si"

text \<open>What the service saves after a recognition has one of three statuses.\<close>

definition recognition_statuses :: "channel_status set" where
  "recognition_statuses = {[], ChannelStatusRecognitionFailed, ChannelStatusPendingConfirmation}"

lemma store_picture_status:
  "store_picture sv snapshot = Inr (snapshot', url) \<Longrightarrow> si_status snapshot' = si_status snapshot"
  by (auto simp: store_picture_def Let_def split: option.splits if_splits sum.splits)

lemma applyChannelRecognition_fields [simp]:
  "si_status (applyChannelRecognition snapshot result a b c) = ChannelStatusPendingConfirmation"
  "si_count_attempt (applyChannelRecognition snapshot result a b c) = si_count_attempt snapshot"
  by (simp_all add: applyChannelRecognition_def Let_def)

lemma recognize_picture_status:
  "si_status snapshot = [] \<Longrightarrow> si_status (recognize_picture sv tm status url snapshot) \<in> recognition_statuses"
  by (auto simp: recognize_picture_def recognition_statuses_def Let_def split: option.splits sum.splits)

lemma recognize_picture_attempt [simp]: "si_count_attempt (recognize_picture sv tm status url snapshot)"
  by (auto simp: recognize_picture_def Let_def split: option.splits sum.splits)

lemma failed_attempt_fields [simp]:
  "si_status (failed_attempt e tm) = []" "si_count_attempt (failed_attempt e tm)"
  by (simp_all add: failed_attempt_def channel_snapshot_input_zero_def)

lemma recognition_statuses_not_inactive: "x \<in> recognition_statuses \<Longrightarrow> x \<noteq> ChannelStatusInactive"
  by (auto simp: recognition_statuses_def go_defs)

context capturing
begin

lemma recognition_input_status:
  assumes "sn_capture scanner = capture"
  shows "si_status (recognition_input sv tm scanner account rc ch) \<in> recognition_statuses"
proof (cases "capture account rc ch")
  case (Inl e)
  then show ?thesis using assms by (simp add: recognition_input_def recognition_statuses_def)
next
  case (Inr si)
  then have "si_status si = []" using capture_picture by (simp add: only_picture_def)
  then show ?thesis
    using assms Inr
    by (auto simp: recognition_input_def intro!: recognize_picture_status dest!: store_picture_status
        split: sum.splits) (simp add: recognition_statuses_def)
qed

lemma capture_not_inactive:
  "capture account rc ch = Inr si \<Longrightarrow> store_picture sv si = Inr (si', url) \<Longrightarrow>
   si_status (recognize_picture sv tm status url' si') \<noteq> ChannelStatusInactive"
  using capture_picture store_picture_status recognize_picture_status recognition_statuses_not_inactive
  by (metis only_picture_def)

end

lemma recognition_input_attempt: "si_count_attempt (recognition_input sv tm scanner account rc ch)"
  by (auto simp: recognition_input_def split: sum.splits)

text \<open>The Ezviz scanner keeps the promise.\<close>

interpretation ezviz: capturing "ezviz_CaptureChannel sc now" for sc now
  by unfold_locales (auto simp: ezviz_CaptureChannel_def bind_sum_eq_Inr only_picture_def
      channel_snapshot_input_zero_def)

definition ezviz_as_scanner :: "ezviz_scanner \<Rightarrow> time \<Rightarrow> scanner" where
  "ezviz_as_scanner sc now =
     \<lparr>sn_scan = ezviz_ScanRecorderChannels sc, sn_capture = ezviz_CaptureChannel sc now\<rparr>"

end
