(* ===== verification/SS_Props.thy ===== *)
theory SS_Props
  imports SS_Inv
begin

text \<open>
  What the repository of stores promises: the invariant of every reachable state, reads that do not depend
  on the order in which a map is iterated (and one that does), the meaning of a rescan, of a confirmation, of
  a deletion, of a duplicate check.
\<close>

section \<open>A state with two stores\<close>

text \<open>One account, two stores with one recorder each, and channel 1 probed on both recorders.\<close>

definition demo_accounts :: mem_store where
  "demo_accounts = snd (CreateEzvizAccount 1 \<lparr>ca_account_name = ''acc''\<rparr> NewMemoryStore)"

definition demo_store_input :: "string \<Rightarrow> string \<Rightarrow> create_store_input" where
  "demo_store_input name code =
     \<lparr>cs_city = ''c'', cs_name = name, cs_short_name = [], cs_external_org_id = [],
      cs_design_plan_upload_id = [], cs_recorders = [\<lparr>ri_ezviz_account_id = 1, ri_device_code = code\<rparr>]\<rparr>"

definition demo_stores :: mem_store where
  "demo_stores = snd (CreateStore 2 (demo_store_input ''b'' ''R2'')
     (snd (CreateStore 2 (demo_store_input ''a'' ''R1'') demo_accounts)))"

definition demo_scan :: "int \<Rightarrow> channel_input" where
  "demo_scan n = \<lparr>ci_channel_no = n, ci_channel_name = ''c'', ci_is_active = True\<rparr>"

definition demo :: mem_store where
  "demo = snd (UpsertRecorderChannel 3 2 (demo_scan 1) (snd (UpsertRecorderChannel 3 1 (demo_scan 1) demo_stores)))"

lemma demo_stores_reachable: "mem_reachable demo_stores"
  unfolding demo_stores_def demo_accounts_def
  by (intro mem_reachable.step [OF _ create_store] mem_reachable.step [OF _ create_account]
      mem_reachable.init)

lemma demo_reachable: "mem_reachable demo"
  unfolding demo_def by (intro mem_reachable.step [OF _ upsert_channel] demo_stores_reachable)

section \<open>The invariant\<close>

text \<open>
  C2. In every state the repository reaches, whatever operations ran and in whatever order the maps were
  iterated, the invariant holds: ids are positive, below their counters and not repeated; recorders and areas
  carry the id of their store and channels the id of their recorder; no recorder has two channels with one
  number; the count of effective channels is right; no active channel has the status \<open>inactive\<close>; and an area
  that a channel names exists in its store.
\<close>

theorem memory_store_invariant:
  assumes "mem_reachable s"
  shows "mem_inv s"
  using assms by (rule reachable_inv)

lemma memory_store_invariant_witness: "mem_inv demo"
  using demo_reachable by (rule memory_store_invariant)

text \<open>
  A channel with an area id names exactly one area of its own store.
\<close>

theorem channel_area_exists:
  assumes "mem_reachable s" and "(k, st) \<in> set (ms_stores s)" and "rc \<in> set (st_recorders st)"
    and "ch \<in> set (rc_channels rc)" and "ch_area_id ch \<noteq> 0"
  shows "\<exists>!ar. ar \<in> set (st_areas st) \<and> ae_id ar = ch_area_id ch"
proof -
  have "store_ok (ms_next_area_id s) (ms_next_recorder_id s) k st"
    using reachable_inv [OF assms(1)] assms(2) unfolding mem_inv_def by fast
  then have d: "distinct (map ae_id (st_areas st))" and n: "ch_area_id ch \<in> ae_id ` set (st_areas st)"
    using assms(3-5) by (auto simp: store_ok_def areas_named_def)
  from n obtain ar where "ar \<in> set (st_areas st)" "ae_id ar = ch_area_id ch" by auto
  moreover have "a = b" if "a \<in> set (st_areas st)" "b \<in> set (st_areas st)" "ae_id a = ae_id b" for a b
    using d that by (auto simp: distinct_map inj_on_def)
  ultimately show ?thesis by metis
qed

definition demo_confirmed :: mem_store where
  "demo_confirmed = snd (ConfirmChannel 5 1 \<lparr>cc_kind = [], cc_area_type = ''treatment'', cc_area_number = ''3'',
     cc_bed_label = [], cc_area_note = [], cc_scene_type = []\<rparr> demo)"

definition first_store :: "mem_store \<Rightarrow> store" where
  "first_store s = snd (hd (ms_stores s))"

lemma channel_area_exists_witness:
  "\<exists>!ar. ar \<in> set (st_areas (first_store demo_confirmed)) \<and> ae_id ar = 1"
proof -
  let ?rc = "hd (st_recorders (first_store demo_confirmed))"
  let ?ch = "hd (rc_channels ?rc)"
  have "(fst (hd (ms_stores demo_confirmed)), first_store demo_confirmed) = hd (ms_stores demo_confirmed)"
    by (simp add: first_store_def)
  moreover have "ms_stores demo_confirmed \<noteq> []" by code_simp
  ultimately have a: "(fst (hd (ms_stores demo_confirmed)), first_store demo_confirmed) \<in> set (ms_stores demo_confirmed)"
    by simp
  have "st_recorders (first_store demo_confirmed) \<noteq> []" by code_simp
  then have b: "?rc \<in> set (st_recorders (first_store demo_confirmed))" by simp
  have "rc_channels ?rc \<noteq> []" by code_simp
  then have c: "?ch \<in> set (rc_channels ?rc)" by simp
  have i: "ch_area_id ?ch = 1" by code_simp
  have r: "mem_reachable demo_confirmed"
    unfolding demo_confirmed_def by (intro mem_reachable.step [OF _ confirm] demo_reachable)
  show ?thesis using channel_area_exists [OF r a b c] i by simp
qed

section \<open>Order of iteration\<close>

lemma find_some_perm:
  assumes eq: "mset xs = mset ys"
    and one: "\<And>x y r t. x \<in> set ys \<Longrightarrow> y \<in> set ys \<Longrightarrow> f x = Some r \<Longrightarrow> f y = Some t \<Longrightarrow> r = t"
  shows "find_some f xs = find_some f ys"
proof (cases "find_some f ys")
  case None
  then have "find_some f xs = None" using mset_eq_setD [OF eq] by (simp add: find_some_None)
  with None show ?thesis by simp
next
  case (Some r)
  then obtain y where y: "y \<in> set ys" "f y = Some r" using find_some_SomeD by metis
  have "find_some f xs = Some r"
  proof (rule find_some_unique [of y])
    show "\<forall>z \<in> set xs. f z = None \<or> f z = Some r"
      using mset_eq_setD [OF eq] one [OF _ y(1) _ y(2)] by (metis not_None_eq)
  qed (use y mset_eq_setD [OF eq] in auto)
  with Some show ?thesis by simp
qed

lemma recorder_ids_in: "(k, st) \<in> set xs \<Longrightarrow> rc \<in> set (st_recorders st) \<Longrightarrow> rc_id rc \<in> set (all_recorder_ids xs)"
  by (force simp: all_recorder_ids_def)

lemma distinct_recorder_ids:
  "distinct (all_recorder_ids xs) \<Longrightarrow> (k, st) \<in> set xs \<Longrightarrow> rc \<in> set (st_recorders st) \<Longrightarrow>
   (j, su) \<in> set xs \<Longrightarrow> rd \<in> set (st_recorders su) \<Longrightarrow> rc_id rc = rc_id rd \<Longrightarrow> (k, st) = (j, su) \<and> rc = rd"
proof (induction xs)
  case (Cons x xs)
  obtain i sv where x: "x = (i, sv)" by (cases x)
  have d: "distinct (map rc_id (st_recorders sv))" "distinct (all_recorder_ids xs)"
    "rc_id ` set (st_recorders sv) \<inter> set (all_recorder_ids xs) = {}"
    using Cons.prems(1) x by auto
  consider "(k, st) = x" "(j, su) = x" | "(k, st) = x" "(j, su) \<in> set xs" | "(k, st) \<in> set xs" "(j, su) = x"
    | "(k, st) \<in> set xs" "(j, su) \<in> set xs"
    using Cons.prems(2,4) by auto
  then show ?case
  proof cases
    case 1
    then show ?thesis using d(1) Cons.prems(3,5,6) x by (auto simp: distinct_map inj_on_def)
  next
    case 2
    then show ?thesis using recorder_ids_in [OF 2(2) Cons.prems(5)] d(3) Cons.prems(3,6) x by auto
  next
    case 3
    then show ?thesis using recorder_ids_in [OF 3(1) Cons.prems(3)] d(3) Cons.prems(5,6) x by force
  next
    case 4
    then show ?thesis using Cons.IH [OF d(2)] Cons.prems(3,5,6) by blast
  qed
qed simp

lemma recorder_id_unique:
  assumes "mem_inv s" "(k, st) \<in> set (ms_stores s)" "rc \<in> set (st_recorders st)"
    "(j, su) \<in> set (ms_stores s)" "rd \<in> set (st_recorders su)" "rc_id rc = rc_id rd"
  shows "(k, st) = (j, su) \<and> rc = rd"
proof -
  have "distinct (all_recorder_ids (ms_stores s))" using assms(1) by (simp add: mem_inv_def)
  then show ?thesis using assms(2-6) by (rule distinct_recorder_ids)
qed

text \<open>
  \<open>GetRecorder\<close> does not depend on the order in which Go visits the map of stores.
\<close>

theorem GetRecorder_order:
  assumes "mem_reachable s" and "mset stores = mset (ms_stores s)"
  shows "GetRecorder rid (s\<lparr>ms_stores := stores\<rparr>) = GetRecorder rid s"
proof -
  let ?f = "\<lambda>(_::int, st). find (\<lambda>rc. rc_id rc = rid) (st_recorders st)"
  note inv = reachable_inv [OF assms(1)]
  have "find_some ?f stores = find_some ?f (ms_stores s)"
  proof (rule find_some_perm [OF assms(2)])
    fix x y r t
    assume m: "x \<in> set (ms_stores s)" "y \<in> set (ms_stores s)" "?f x = Some r" "?f y = Some t"
    obtain k st j su where xy: "x = (k, st)" "y = (j, su)" by (cases x, cases y)
    with m have "r \<in> set (st_recorders st)" "t \<in> set (st_recorders su)" "rc_id r = rc_id t"
      by (auto simp: find_Some_iff)
    with recorder_id_unique [OF inv] m xy show "r = t" by blast
  qed
  then show ?thesis by (simp add: GetRecorder_def)
qed

lemma GetRecorder_order_witness:
  "GetRecorder 2 (demo\<lparr>ms_stores := rev (ms_stores demo)\<rparr>) = GetRecorder 2 demo"
  by (rule GetRecorder_order [OF demo_reachable]) simp

text \<open>
  Channel ids are numbered per recorder: in the state \<open>demo\<close>, which the repository reaches, the two
  recorders both have a channel with id 1, and which of the two \<open>GetChannelContext\<close>, \<open>DeleteChannel\<close> and every
  other operation by channel id acts on depends on the order in which Go visits the map of stores.
\<close>

theorem channel_ids_collide:
  "mem_reachable demo \<and>
   map_option fst (locate_channel 1 demo) = Some 1 \<and>
   map_option fst (locate_channel 1 (demo\<lparr>ms_stores := rev (ms_stores demo)\<rparr>)) = Some 2 \<and>
   GetChannelContext 1 (demo\<lparr>ms_stores := rev (ms_stores demo)\<rparr>) \<noteq> GetChannelContext 1 demo"
proof -
  have "map_option fst (locate_channel 1 demo) = Some 1" by code_simp
  moreover have "map_option fst (locate_channel 1 (demo\<lparr>ms_stores := rev (ms_stores demo)\<rparr>)) = Some 2"
    by code_simp
  moreover have "(case GetChannelContext 1 (demo\<lparr>ms_stores := rev (ms_stores demo)\<rparr>) of
      Inr (ch, rc, a) \<Rightarrow> rc_id rc = 2 | _ \<Rightarrow> False)" by code_simp
  moreover have "(case GetChannelContext 1 demo of Inr (ch, rc, a) \<Rightarrow> rc_id rc = 1 | _ \<Rightarrow> False)"
    by code_simp
  ultimately show ?thesis
    using demo_reachable by (auto split: sum.splits)
qed

section \<open>Rescans\<close>

lemma map_of_scan_active:
  "map_of (scanned_by_no cs) n = Some c \<Longrightarrow> 0 < n \<and> ci_channel_no c = n"
  using scanned_by_no(2) [of cs] by (auto dest!: map_of_SomeD)

lemma append_scanned_source:
  "ch \<in> set (append_scanned now rid m cs) \<Longrightarrow>
   \<exists>c \<in> set cs. ci_is_active c \<and> 0 < ci_channel_no c \<and> ch = new_channel now (ch_id ch) rid c"
  by (induction now rid m cs rule: append_scanned.induct) (auto simp: new_channel_def split: if_splits)

text \<open>The last entry of a scan for a number.\<close>

definition scan_entry :: "channel_input list \<Rightarrow> int \<Rightarrow> channel_input option" where
  "scan_entry cs n = find (\<lambda>c. 0 < n \<and> ci_channel_no c = n) (rev cs)"

lemma scanned_by_no_entry: "map_of (scanned_by_no cs) n = scan_entry cs n"
proof (induction cs rule: rev_induct)
  case Nil
  then show ?case by (simp add: scanned_by_no_def scan_entry_def)
next
  case (snoc c cs)
  have "scanned_by_no (cs @ [c]) =
      (if 0 < ci_channel_no c then AList.update (ci_channel_no c) c (scanned_by_no cs) else scanned_by_no cs)"
    by (simp add: scanned_by_no_def)
  then show ?case using snoc by (auto simp: scan_entry_def update_conv')
qed

text \<open>
  What a rescan means for a channel the recorder had.  A channel that the scan misses or finds inactive goes off line.
  One that it finds has its name and is active; if it was off line it returns confirmed where it has any trace of an
  area or a confirmation, business exactly if it has an area type, and otherwise waits for recognition.  Nothing
  else of the channel changes.
\<close>

definition rescanned :: "time \<Rightarrow> channel_input list \<Rightarrow> channel \<Rightarrow> channel" where
  "rescanned now cs ch =
     (case scan_entry cs (ch_channel_no ch) of
        None \<Rightarrow> ch\<lparr>ch_is_active := False, ch_status := ''inactive'', ch_updated_at := now\<rparr>
      | Some c \<Rightarrow>
          if \<not> ci_is_active c then ch\<lparr>ch_is_active := False, ch_status := ''inactive'', ch_updated_at := now\<rparr>
          else
            let seen = ch\<lparr>ch_channel_name := trim_space (ci_channel_name c), ch_is_active := True, ch_updated_at := now\<rparr>
            in if ch_status ch \<noteq> ''inactive'' then seen
               else if ch_area_type ch \<noteq> [] then seen\<lparr>ch_status := ''confirmed_business''\<rparr>
               else if ch_area_id ch \<noteq> 0 \<or> ch_area_number ch \<noteq> 0 \<or> ch_confirmed_at ch \<noteq> None
               then seen\<lparr>ch_status := ''confirmed_non_business''\<rparr>
               else seen\<lparr>ch_status := ''pending_recognition'', ch_scene_type := ''unknown''\<rparr>)"

lemma rescan_channel_rescanned: "rescan_channel now (scanned_by_no cs) ch = rescanned now cs ch"
  by (cases "scan_entry cs (ch_channel_no ch)")
    (auto simp: rescan_channel_def rescanned_def scanned_by_no_entry was_confirmed_def confirmed_status_of_def
      ChannelStatusInactive_def ChannelStatusConfirmedBusiness_def ChannelStatusConfirmedNonBusiness_def
      ChannelStatusPendingRecognition_def SceneTypeUnknown_def Let_def)

text \<open>A channel of its own for an entry whose number the recorder did not have; its id is the only freedom.\<close>

definition discovered :: "time \<Rightarrow> int \<Rightarrow> channel_input \<Rightarrow> channel \<Rightarrow> bool" where
  "discovered now rid c ch \<longleftrightarrow>
     ch = \<lparr>ch_id = ch_id ch, ch_recorder_id = rid, ch_channel_no = ci_channel_no c,
       ch_channel_name = trim_space (ci_channel_name c), ch_status = ''pending_recognition'', ch_is_active = True,
       ch_scene_type = ''unknown'', ch_area_type = [], ch_area_number = 0, ch_bed_label = [], ch_area_note = [],
       ch_area_id = 0, ch_recognition_attempts = 0, ch_recognition_result = [], ch_thumbnail_url = [],
       ch_full_image_url = [], ch_full_image_expires_at = None, ch_confirmed_at = None, ch_created_at = now,
       ch_updated_at = now\<rparr>"

lemma new_channel_discovered: "ch = new_channel now i rid c \<Longrightarrow> discovered now rid c ch"
  by (simp add: new_channel_def channel_zero_def discovered_def ChannelStatusPendingRecognition_def SceneTypeUnknown_def)

text \<open>
  The recorder after a rescan: its known channels, each once, and one for every number that the scan found active
  and the recorder did not have, in the order of the numbers, without a number or an id twice; the count and the
  status that follow from the active channels; and the rest of the recorder as it was.
\<close>

definition rescan_leaves :: "time \<Rightarrow> channel_input list \<Rightarrow> recorder \<Rightarrow> recorder \<Rightarrow> bool" where
  "rescan_leaves now cs rc rc' \<longleftrightarrow>
     sorted_wrt (<) (map ch_channel_no (rc_channels rc')) \<and> distinct (map ch_id (rc_channels rc')) \<and>
     (\<exists>added. mset (rc_channels rc') = mset (map (rescanned now cs) (rc_channels rc) @ added) \<and>
        ch_channel_no ` set added =
          {n. \<exists>c. scan_entry cs n = Some c \<and> ci_is_active c} - ch_channel_no ` set (rc_channels rc) \<and>
        (\<forall>ch \<in> set added. (\<forall>old \<in> set (rc_channels rc). ch_id old < ch_id ch) \<and>
          (\<exists>c. scan_entry cs (ch_channel_no ch) = Some c \<and> discovered now (rc_id rc) c ch))) \<and>
     (let count = int (length (filter ch_is_active (rc_channels rc')))
      in rc' = rc\<lparr>rc_channels := rc_channels rc', rc_effective_channel_count := count, rc_last_scanned_at := Some now,
           rc_status := (if 0 < count then ''online'' else ''offline''), rc_updated_at := now\<rparr>)"

lemma scan_recorder_frame:
  assumes "rc' = scan_recorder now range_order cs rc"
  shows "rc' = rc\<lparr>rc_channels := rc_channels rc', rc_effective_channel_count := activeChannelCount (rc_channels rc'),
    rc_last_scanned_at := Some now,
    rc_status := (if 0 < activeChannelCount (rc_channels rc') then RecorderStatusOnline else RecorderStatusOffline),
    rc_updated_at := now\<rparr>"
  unfolding assms
  by (cases "rescan_channels now (scanned_by_no cs) (rc_channels rc)") (simp add: scan_recorder_def Let_def)

lemma scan_recorder_leaves:
  assumes ok: "recorder_ok rc" and ord: "\<And>xs. mset (range_order xs) = mset xs"
  shows "rescan_leaves now cs rc (scan_recorder now range_order cs rc)"
proof -
  define rc' where "rc' = scan_recorder now range_order cs rc"
  define rest where "rest = range_order (map snd (scan_rest cs rc))"
  define added where "added = append_scanned now (rc_id rc) (max_channel_id (rc_channels rc)) rest"
  have chs: "rc_channels rc' = sort_key ch_channel_no (map (rescanned now cs) (rc_channels rc) @ added)"
    unfolding rc'_def added_def rest_def scan_recorder_channels [OF ok] rescan_channel_rescanned ..
  have ok': "recorder_ok rc'" unfolding rc'_def by (rule scan_recorder_ok [OF ok ord])
  have rest: "set rest = snd ` set (scan_rest cs rc)"
    unfolding rest_def using mset_eq_setD [OF ord [of "map snd (scan_rest cs rc)"]] by simp
  have entry: "ci_channel_no c = n \<and> 0 < n" if "scan_entry cs n = Some c" for n c
    using map_of_scan_active [of cs n c] that by (simp add: scanned_by_no_entry)
  have "(n, c) \<in> set (scanned_by_no cs) \<longleftrightarrow> scan_entry cs n = Some c" for n c
    using scanned_by_no(1) [of cs] scanned_by_no_entry by (metis map_of_eq_Some_iff)
  then have in_scan: "(n, c) \<in> set (scan_rest cs rc) \<longleftrightarrow> scan_entry cs n = Some c \<and> n \<notin> ch_channel_no ` set (rc_channels rc)" for n c
    by (simp add: scan_rest_def)
  have in_rest: "c \<in> set rest \<longleftrightarrow>
      scan_entry cs (ci_channel_no c) = Some c \<and> ci_channel_no c \<notin> ch_channel_no ` set (rc_channels rc)" for c
  proof
    assume "c \<in> set rest"
    then obtain n where "(n, c) \<in> set (scan_rest cs rc)" by (auto simp: rest)
    then show "scan_entry cs (ci_channel_no c) = Some c \<and> ci_channel_no c \<notin> ch_channel_no ` set (rc_channels rc)"
      using entry [of n c] by (simp add: in_scan)
  next
    assume "scan_entry cs (ci_channel_no c) = Some c \<and> ci_channel_no c \<notin> ch_channel_no ` set (rc_channels rc)"
    then have "(ci_channel_no c, c) \<in> set (scan_rest cs rc)" by (simp add: in_scan)
    then show "c \<in> set rest" unfolding rest by (rule rev_image_eqI) simp
  qed
  have source: "\<exists>c \<in> set rest. ci_is_active c \<and> ch = new_channel now (ch_id ch) (rc_id rc) c" if "ch \<in> set added" for ch
    using append_scanned_source [OF that [unfolded added_def]] by blast
  have no: "ch_channel_no ch = ci_channel_no c" if "ch = new_channel now i rid c" for ch i rid c
    using that by (simp add: new_channel_def)
  have numbers: "map ch_channel_no added = map ci_channel_no (filter (\<lambda>c. ci_is_active c \<and> 0 < ci_channel_no c) rest)"
    unfolding added_def by (rule append_scanned_props [THEN conjunct2, THEN conjunct2])
  have "ch_channel_no ` set added = ci_channel_no ` {c \<in> set rest. ci_is_active c \<and> 0 < ci_channel_no c}"
    using arg_cong [OF numbers, of set] by simp
  also have "\<dots> = {n. \<exists>c. scan_entry cs n = Some c \<and> ci_is_active c} - ch_channel_no ` set (rc_channels rc)"
    using entry by (auto simp: in_rest)
  finally have "ch_channel_no ` set added =
      {n. \<exists>c. scan_entry cs n = Some c \<and> ci_is_active c} - ch_channel_no ` set (rc_channels rc)" .
  moreover have "(\<forall>old \<in> set (rc_channels rc). ch_id old < ch_id ch) \<and>
      (\<exists>c. scan_entry cs (ch_channel_no ch) = Some c \<and> discovered now (rc_id rc) c ch)" if ch: "ch \<in> set added" for ch
  proof
    have "max_channel_id (rc_channels rc) < ch_id ch"
      using ch append_scanned_props unfolding added_def by blast
    then show "\<forall>old \<in> set (rc_channels rc). ch_id old < ch_id ch"
      using max_channel_id_ge(1) by fastforce
    obtain c where c: "c \<in> set rest" "ch = new_channel now (ch_id ch) (rc_id rc) c" using source [OF ch] by blast
    then have "scan_entry cs (ch_channel_no ch) = Some c" using in_rest no by metis
    then show "\<exists>c. scan_entry cs (ch_channel_no ch) = Some c \<and> discovered now (rc_id rc) c ch"
      using new_channel_discovered [OF c(2)] by blast
  qed
  moreover have "mset (rc_channels rc') = mset (map (rescanned now cs) (rc_channels rc) @ added)"
    by (simp add: chs)
  moreover have "sorted_wrt (<) (map ch_channel_no (rc_channels rc'))" "distinct (map ch_id (rc_channels rc'))"
    using ok' sorted_sort_key [of ch_channel_no] by (simp_all add: strict_sorted_iff recorder_ok_def chs)
  moreover have "activeChannelCount (rc_channels rc') = int (length (filter ch_is_active (rc_channels rc')))"
    using ok' activeChannelCount_ok by (metis recorder_ok_def)
  note scan_recorder_frame [OF rc'_def, unfolded this RecorderStatusOnline_def RecorderStatusOffline_def]
  ultimately show ?thesis unfolding rescan_leaves_def rc'_def [symmetric] Let_def by blast
qed

text \<open>
  C7. A rescan of a recorder of any store.  The recorder is written back as \<open>rescan_leaves\<close> says and is what the call
  returns: the known channels kept, each once, with the outcome of the scan's last entry for their number; a new
  channel, waiting for recognition, for every other number whose last entry is active; all in the order of their
  numbers; the count of the active ones, and the status.  Nothing else changes but the time of the store: not its
  other recorders, no other store, no account, code or counter.  This holds for every order in which Go may visit the
  scanned numbers.
\<close>

theorem rescan_meaning:
  assumes "mem_reachable s" and "\<And>xs. mset (range_order xs) = mset xs"
    and "locate_recorder rid s = Some (k, ri)"
  shows "\<exists>rc' s'. ReplaceRecorderChannels now range_order rid cs s = (Inr rc', s') \<and> rc_id rc' = rid \<and>
    rescan_leaves now cs (recorder_at (store_at s k) ri) rc' \<and>
    (\<forall>j. get_store s' j =
      (if j = k then Some ((store_at s k)\<lparr>st_recorders := (st_recorders (store_at s k))[ri := rc'], st_updated_at := now\<rparr>)
       else get_store s j)) \<and>
    recorder_at (store_at s' k) ri = rc' \<and> s'\<lparr>ms_stores := ms_stores s\<rparr> = s"
proof -
  obtain st where st: "store_at s k = st" "rc_id (recorder_at st ri) = rid" "ri < length (st_recorders st)"
    "recorder_in (ms_next_recorder_id s) k (recorder_at st ri)"
    using locate_recorder_inv [OF reachable_inv [OF assms(1)] assms(3)] by blast
  then have "recorder_ok (recorder_at st ri)" by (simp add: recorder_in_def)
  note leaves = scan_recorder_leaves [OF this assms(2), of now cs]
  let ?rc = "scan_recorder now range_order cs (recorder_at st ri)"
  let ?s = "put_store k ((set_recorder ri ?rc st)\<lparr>st_updated_at := now\<rparr>) s"
  have "ReplaceRecorderChannels now range_order rid cs s = (Inr ?rc, ?s)"
    by (simp add: ReplaceRecorderChannels_def assms(3) Let_def st(1))
  moreover have "get_store ?s j =
      (if j = k then Some (st\<lparr>st_recorders := (st_recorders st)[ri := ?rc], st_updated_at := now\<rparr>) else get_store s j)" for j
    by (simp add: get_store_put_store set_recorder_def)
  moreover from this [of k] have "recorder_at (store_at ?s k) ri = ?rc"
    using st(3) by (simp add: store_at_def recorder_at_def)
  moreover have "?s\<lparr>ms_stores := ms_stores s\<rparr> = s" by (simp add: put_store_def)
  ultimately show ?thesis using leaves st(1,2) by (intro exI [of _ ?rc] exI [of _ ?s]) simp
qed

lemma rescan_meaning_witness:
  "\<exists>rc' s'. ReplaceRecorderChannels 4 id 1 [demo_scan 2] demo = (Inr rc', s') \<and> rc_id rc' = 1 \<and>
     rescan_leaves 4 [demo_scan 2] (recorder_at (store_at demo 1) 0) rc' \<and> recorder_at (store_at s' 1) 0 = rc'"
proof -
  have l: "locate_recorder 1 demo = Some (1, 0)" by code_simp
  show ?thesis using rescan_meaning [OF demo_reachable _ l, of id 4 "[demo_scan 2]"] by auto
qed

text \<open>Going off line and coming back.\<close>

lemma rescan_lost:
  "map_of sc (ch_channel_no ch) = None \<Longrightarrow>
   rescan_channel now sc ch = ch\<lparr>ch_is_active := False, ch_status := ChannelStatusInactive, ch_updated_at := now\<rparr>"
  by (simp add: rescan_channel_def)

text \<open>
  A channel that one scan misses and a later one finds again has its name from the scan and, if it had
  any trace of an area or a confirmation, the status confirmed again: business if it has an area type, else
  non-business.  Its area, number, label, note, scene and the time of confirmation are what they were.
\<close>

theorem lost_and_found:
  assumes "map_of sc1 (ch_channel_no ch) = None" and "map_of sc2 (ch_channel_no ch) = Some c"
    and "ci_is_active c" and "was_confirmed ch"
  shows "rescan_channel t2 sc2 (rescan_channel t1 sc1 ch) =
    ch\<lparr>ch_channel_name := trim_space (ci_channel_name c), ch_is_active := True,
       ch_status := (if ch_area_type ch \<noteq> [] then ChannelStatusConfirmedBusiness
                     else ChannelStatusConfirmedNonBusiness),
       ch_updated_at := t2\<rparr>"
  using assms by (simp add: rescan_lost) (simp add: rescan_channel_def was_confirmed_def confirmed_status_of_def Let_def)

definition demo_pending :: channel where
  "demo_pending = channel_zero\<lparr>ch_channel_no := 1, ch_is_active := True,
     ch_status := ChannelStatusPendingConfirmation, ch_area_type := ''treatment'', ch_area_number := 3\<rparr>"

lemma lost_and_found_witness:
  "ch_status (rescan_channel 2 [(1, demo_scan 1)] (rescan_channel 1 [] demo_pending)) = ''confirmed_business''"
  by (subst lost_and_found [where c = "demo_scan 1"]) code_simp+

text \<open>
  So a suggestion of the recogniser that nobody confirmed (status \<open>pending_confirmation\<close>, no time of
  confirmation) comes back from an outage as a confirmed business channel.
\<close>

theorem suggestion_promoted:
  "ch_status demo_pending = ChannelStatusPendingConfirmation \<and> ch_confirmed_at demo_pending = None \<and>
   (let back = rescan_channel 2 [(1, demo_scan 1)] (rescan_channel 1 [] demo_pending) in
    ch_status back = ChannelStatusConfirmedBusiness \<and> ch_confirmed_at back = None)"
  by code_simp

section \<open>Deleting a store\<close>

lemma fold_clear_codes:
  "fold (\<lambda>rc codes. codes(rc_device_code rc := None)) rcs codes x =
     (if x \<in> rc_device_code ` set rcs then None else codes x)"
  by (induction rcs arbitrary: codes) auto

text \<open>
  Deleting a store that exists removes it and nothing else, and frees the device codes of its
  recorders and no other; deleting one that does not exist changes nothing.
\<close>

theorem DeleteStore_meaning:
  "(case get_store s i of
      None \<Rightarrow> DeleteStore i s = (Inl ErrNotFound, s)
    | Some st \<Rightarrow>
        fst (DeleteStore i s) = Inr () \<and>
        (\<forall>j. get_store (snd (DeleteStore i s)) j = (if j = i then None else get_store s j)) \<and>
        (\<forall>x. ms_device_codes (snd (DeleteStore i s)) x =
           (if x \<in> rc_device_code ` set (st_recorders st) then None else ms_device_codes s x)) \<and>
        ms_accounts (snd (DeleteStore i s)) = ms_accounts s \<and>
        ms_next_store_id (snd (DeleteStore i s)) = ms_next_store_id s)"
  by (simp add: DeleteStore_def get_store_def delete_conv' fold_clear_codes split: option.split)

section \<open>Duplicates\<close>

lemma check_duplicate_exact:
  "dc_exact_match (fold (check_duplicate_step name ex) sts res) \<noteq> None \<longleftrightarrow>
     dc_exact_match res \<noteq> None \<or>
     (\<exists>st \<in> set sts. st_id st \<noteq> ex \<and> st_normalized_name st = NormalizeStoreName name)"
  by (induction sts arbitrary: res) (auto simp: check_duplicate_step_def split: option.splits)

lemma check_duplicate_similar:
  "dc_similar_matches (fold (check_duplicate_step name ex) sts res) =
     dc_similar_matches res @ map (\<lambda>st. duplicate_match st ''similar'')
       (filter (\<lambda>st. st_id st \<noteq> ex \<and> st_normalized_name st \<noteq> NormalizeStoreName name \<and>
                     IsSimilarStoreName name (st_name st)) sts)"
  by (induction sts arbitrary: res) (auto simp: check_duplicate_step_def split: option.splits)

text \<open>
  \<open>CheckDuplicate\<close> reports an exact match exactly if a store other than the excluded one has the same
  normalised name, and its similar matches are the other stores with a similar name, each once.
\<close>

theorem CheckDuplicate_meaning:
  "(dc_exact_match (CheckDuplicate name ex s) = None \<longleftrightarrow>
      list_all (\<lambda>(k, st). st_id st = ex \<or> st_normalized_name st \<noteq> NormalizeStoreName name) (ms_stores s)) \<and>
   dc_similar_matches (CheckDuplicate name ex s) =
     map (\<lambda>st. duplicate_match st ''similar'')
       (filter (\<lambda>st. st_id st \<noteq> ex \<and> st_normalized_name st \<noteq> NormalizeStoreName name \<and>
                     IsSimilarStoreName name (st_name st)) (map snd (ms_stores s)))"
proof -
  have "dc_exact_match (CheckDuplicate name ex s) \<noteq> None \<longleftrightarrow>
      (\<exists>st \<in> set (map snd (ms_stores s)). st_id st \<noteq> ex \<and> st_normalized_name st = NormalizeStoreName name)"
    unfolding CheckDuplicate_def check_duplicate_exact by simp
  then show ?thesis
    by (auto simp: list_all_iff case_prod_beta CheckDuplicate_def check_duplicate_similar)
qed

lemma CheckDuplicate_meaning_witness:
  "dc_exact_match (CheckDuplicate ''A'' 0 demo) \<noteq> None"
  unfolding CheckDuplicate_meaning [THEN conjunct1] by code_simp

end
