(* ===== verification/SS_Directory.thy ===== *)
theory SS_Directory
  imports SS_Scanner SS_Props
begin

text \<open>
  The directory of stores as the service keeps it when requests run one after another: store names that
  stay distinct after normalisation, at most three recorders a store, device codes used once, an index
  of device codes that is exact, account names used once.  The abstraction \<open>entries\<close> keeps of a store its
  id, its normalised name and the codes and ids of its recorders.
\<close>

section \<open>The abstraction\<close>

type_synonym entry = "int \<times> string \<times> (string \<times> int) list"

definition recorder_codes_of :: "store \<Rightarrow> (string \<times> int) list" where
  "recorder_codes_of st = map (\<lambda>rc. (rc_device_code rc, rc_id rc)) (st_recorders st)"

definition entry_of :: "int \<times> store \<Rightarrow> entry" where
  "entry_of p = (fst p, st_normalized_name (snd p), recorder_codes_of (snd p))"

definition entries :: "mem_store \<Rightarrow> entry list" where
  "entries s = map entry_of (ms_stores s)"

definition account_names :: "mem_store \<Rightarrow> string list" where
  "account_names s = map (\<lambda>(_, a). ea_account_name a) (ms_accounts s)"

definition entry_codes :: "entry list \<Rightarrow> (string \<times> int) list" where
  "entry_codes d = concat (map (\<lambda>e. snd (snd e)) d)"

definition entries_ok :: "entry list \<Rightarrow> (string \<rightharpoonup> int) \<Rightarrow> bool" where
  "entries_ok d codes \<longleftrightarrow>
     distinct (map (\<lambda>e. fst (snd e)) d) \<and> (\<forall>e \<in> set d. length (snd (snd e)) \<le> 3) \<and>
     distinct (map fst (entry_codes d)) \<and> codes = map_of (entry_codes d)"

definition directory_ok :: "mem_store \<Rightarrow> bool" where
  "directory_ok s \<longleftrightarrow>
     mem_inv s \<and> entries_ok (entries s) (ms_device_codes s) \<and> distinct (account_names s)"

lemma entry_codes_simps [simp]:
  "entry_codes [] = []"
  "entry_codes (e # d) = snd (snd e) @ entry_codes d"
  "entry_codes (d @ d') = entry_codes d @ entry_codes d'"
  by (simp_all add: entry_codes_def)

section \<open>Operations that the abstraction does not see\<close>

lemma entries_put_store:
  assumes "get_store s k = Some st"
  obtains ys zs where "entries s = ys @ entry_of (k, st) # zs"
    "\<And>st'. entries (put_store k st' s) = ys @ entry_of (k, st') # zs"
proof -
  obtain ys zs where "ms_stores s = ys @ (k, st) # zs" "\<And>st'. ms_stores (put_store k st' s) = ys @ (k, st') # zs"
    using put_store_split [OF assms] by metis
  then show thesis by (intro that [of "map entry_of ys" "map entry_of zs"]) (simp_all add: entries_def)
qed

text \<open>Two states that differ in nothing the directory sees.\<close>

definition same_directory :: "mem_store \<Rightarrow> mem_store \<Rightarrow> bool" where
  "same_directory s s' \<longleftrightarrow>
     entries s' = entries s \<and> ms_device_codes s' = ms_device_codes s \<and> ms_accounts s' = ms_accounts s"

lemma same_directory_refl [simp]: "same_directory s s"
  by (simp add: same_directory_def)

lemma same_directory_put:
  assumes "get_store s k = Some st" and "entry_of (k, st') = entry_of (k, st)"
    and "ms_stores s' = ms_stores (put_store k st' s)" "ms_device_codes s' = ms_device_codes s"
      "ms_accounts s' = ms_accounts s"
  shows "same_directory s s'"
proof -
  obtain ys zs where sp: "entries s = ys @ entry_of (k, st) # zs"
    "entries (put_store k st' s) = ys @ entry_of (k, st') # zs"
    using entries_put_store [OF assms(1)] by metis
  have "entries s' = entries (put_store k st' s)" using assms(3) by (simp add: entries_def)
  then show ?thesis using sp assms(2,4,5) by (simp add: same_directory_def)
qed

lemma directory_ok_same:
  "directory_ok s \<Longrightarrow> same_directory s s' \<Longrightarrow> mem_inv s' \<Longrightarrow> directory_ok s'"
  by (simp add: directory_ok_def same_directory_def account_names_def)

lemma recorder_codes_of_set_recorder:
  "ri < length (st_recorders st) \<Longrightarrow> rc_device_code rc = rc_device_code (recorder_at st ri) \<Longrightarrow>
   rc_id rc = rc_id (recorder_at st ri) \<Longrightarrow>
   recorder_codes_of (set_recorder ri rc st) = recorder_codes_of st"
  by (simp add: recorder_codes_of_def frame_simps map_list_update_same recorder_at_def)

lemma entry_of_fields [simp]:
  "entry_of (k, st\<lparr>st_updated_at := t\<rparr>) = entry_of (k, st)"
  "entry_of (k, st\<lparr>st_areas := a\<rparr>) = entry_of (k, st)"
  "entry_of (k, st\<lparr>st_design_plans := p\<rparr>) = entry_of (k, st)"
  "entry_of (k, st\<lparr>st_design_plan_status := q\<rparr>) = entry_of (k, st)"
  "entry_of (k, deleteUnusedVideoAreasLocked st) = entry_of (k, st)"
  by (simp_all add: entry_of_def recorder_codes_of_def deleteUnusedVideoAreasLocked_def)

lemma entry_of_set_recorder:
  assumes "ri < length (st_recorders st)" "rc_device_code rc = rc_device_code (recorder_at st ri)"
    "rc_id rc = rc_id (recorder_at st ri)"
  shows "entry_of (k, set_recorder ri rc st) = entry_of (k, st)"
  using recorder_codes_of_set_recorder [OF assms] by (simp add: entry_of_def set_recorder_def)

lemma entry_of_set_channel:
  "ri < length (st_recorders st) \<Longrightarrow> entry_of (k, set_channel ri ci ch st) = entry_of (k, st)"
  unfolding set_channel_def by (rule entry_of_set_recorder) simp_all

lemma locate_channel_store:
  assumes "mem_inv s" "locate_channel cid s = Some (k, ri, ci)"
  shows "get_store s k = Some (store_at s k)" "ri < length (st_recorders (store_at s k))"
  using locate_channel_inv [OF assms] by metis+

lemma locate_recorder_store:
  assumes "mem_inv s" "locate_recorder rid s = Some (k, ri)"
  shows "get_store s k = Some (store_at s k)" "ri < length (st_recorders (store_at s k))"
    "rc_id (recorder_at (store_at s k) ri) = rid"
  using locate_recorder_inv [OF assms] by metis+

text \<open>Every operation on a channel leaves the directory as it is.\<close>

lemma SaveChannelSnapshot_directory:
  assumes inv: "mem_inv s"
  shows "same_directory s (snd (SaveChannelSnapshot now cid input s))"
proof (cases "locate_channel cid s")
  case (Some p)
  then obtain k ri ci where l: "locate_channel cid s = Some (k, ri, ci)" by (cases p) auto
  note at = locate_channel_store [OF inv l]
  show ?thesis
    using at
    by (simp add: SaveChannelSnapshot_def l Let_def)
      (rule same_directory_put [OF at(1) entry_of_set_channel [OF at(2)] refl], simp_all add: frame_simps)
qed (simp add: SaveChannelSnapshot_def)

lemma UnlockChannelForEdit_directory:
  assumes inv: "mem_inv s"
  shows "same_directory s (snd (UnlockChannelForEdit now cid s))"
proof (cases "locate_channel cid s")
  case (Some p)
  then obtain k ri ci where l: "locate_channel cid s = Some (k, ri, ci)" by (cases p) auto
  note at = locate_channel_store [OF inv l]
  have "same_directory s (put_store k ((set_channel ri ci ch (store_at s k))\<lparr>st_updated_at := now\<rparr>) s)" for ch
    by (rule same_directory_put [OF at(1) _ refl])
      (use at entry_of_set_channel in \<open>simp_all add: frame_simps\<close>)
  then show ?thesis by (simp add: UnlockChannelForEdit_def l Let_def)
qed (simp add: UnlockChannelForEdit_def)

lemma DeleteChannel_directory:
  assumes inv: "mem_inv s"
  shows "same_directory s (snd (DeleteChannel now cid s))"
proof (cases "locate_channel cid s")
  case (Some p)
  then obtain k ri ci where l: "locate_channel cid s = Some (k, ri, ci)" by (cases p) auto
  note at = locate_channel_store [OF inv l]
  have "same_directory s (put_store k (deleteUnusedVideoAreasLocked
      ((set_recorder ri rc (store_at s k))\<lparr>st_updated_at := now\<rparr>)) s)"
    if "rc_device_code rc = rc_device_code (recorder_at (store_at s k) ri)"
      "rc_id rc = rc_id (recorder_at (store_at s k) ri)" for rc
    by (rule same_directory_put [OF at(1) _ refl])
      (use at that entry_of_set_recorder in \<open>simp_all add: frame_simps\<close>)
  then show ?thesis by (simp add: DeleteChannel_def l Let_def)
qed (simp add: DeleteChannel_def)

lemma ConfirmChannel_directory:
  assumes inv: "mem_inv s"
  shows "same_directory s (snd (ConfirmChannel now cid input s))"
proof (cases "locate_channel cid s")
  case (Some p)
  then obtain k ri ci where l: "locate_channel cid s = Some (k, ri, ci)" by (cases p) auto
  note at = locate_channel_store [OF inv l]
  have a: "same_directory s (put_store k (set_channel ri ci ch (store_at s k)) s)"
    "same_directory s (put_store k ((deleteUnusedVideoAreasLocked (set_channel ri ci ch (store_at s k)))
       \<lparr>st_updated_at := now\<rparr>) s)" for ch
    by (rule same_directory_put [OF at(1) _ refl];
        use at entry_of_set_channel in \<open>simp add: frame_simps\<close>)+
  have b: "same_directory s (put_store k ((deleteUnusedVideoAreasLocked
      ((set_channel ri ci ch (store_at s k))\<lparr>st_areas := areas\<rparr>))\<lparr>st_updated_at := now\<rparr>)
      (s\<lparr>ms_next_area_id := na\<rparr>))" for ch areas na
    by (rule same_directory_put [OF at(1), where st' = "(deleteUnusedVideoAreasLocked
      ((set_channel ri ci ch (store_at s k))\<lparr>st_areas := areas\<rparr>))\<lparr>st_updated_at := now\<rparr>"])
      (use at entry_of_set_channel in \<open>simp_all add: put_store_def\<close>)
  show ?thesis using a b by (simp add: ConfirmChannel_def l Let_def split: option.splits prod.splits)
qed (simp add: ConfirmChannel_def)

lemma ReplaceRecorderChannels_directory:
  assumes inv: "mem_inv s"
  shows "same_directory s (snd (ReplaceRecorderChannels now ord rid cs s))"
proof (cases "locate_recorder rid s")
  case (Some p)
  then obtain k ri where l: "locate_recorder rid s = Some (k, ri)" by (cases p) auto
  note at = locate_recorder_store [OF inv l]
  have "same_directory s (put_store k ((set_recorder ri (scan_recorder now ord cs (recorder_at (store_at s k) ri))
      (store_at s k))\<lparr>st_updated_at := now\<rparr>) s)"
    by (rule same_directory_put [OF at(1) _ refl])
      (use at entry_of_set_recorder in \<open>simp_all add: frame_simps\<close>)
  then show ?thesis by (simp add: ReplaceRecorderChannels_def l Let_def)
qed (simp add: ReplaceRecorderChannels_def)

lemma UpsertRecorderChannel_directory:
  assumes inv: "mem_inv s"
  shows "same_directory s (snd (UpsertRecorderChannel now rid c s))"
proof (cases "locate_recorder rid s")
  case (Some p)
  then obtain k ri where l: "locate_recorder rid s = Some (k, ri)" by (cases p) auto
  note at = locate_recorder_store [OF inv l]
  obtain ch rc where up: "upsert_in_recorder now c (recorder_at (store_at s k) ri) = (ch, rc)" by fastforce
  then have "rc_device_code rc = rc_device_code (recorder_at (store_at s k) ri)"
    "rc_id rc = rc_id (recorder_at (store_at s k) ri)"
    by (auto simp: upsert_in_recorder_def Let_def split: prod.splits)
  then have "same_directory s (put_store k ((set_recorder ri rc (store_at s k))\<lparr>st_updated_at := now\<rparr>) s)"
    by (intro same_directory_put [OF at(1) _ refl])
      (use at entry_of_set_recorder in \<open>simp_all add: frame_simps\<close>)
  then show ?thesis by (simp add: UpsertRecorderChannel_def l Let_def up)
qed (simp add: UpsertRecorderChannel_def)

lemma SaveDesignPlan_directory: "same_directory s (snd (SaveDesignPlan now k input s))"
proof (cases "get_store s k")
  case (Some st)
  obtain areas na where f: "fold (save_design_area now (st_id st)) (sp_areas input) (st_areas st, ms_next_area_id s)
      = (areas, na)" by fastforce
  let ?s = "snd (SaveDesignPlan now k input s)"
  obtain pl where ms: "ms_stores ?s = ms_stores (put_store k (st\<lparr>st_design_plans := [pl], st_areas := areas,
      st_design_plan_status := DesignPlanStatusCompleted, st_updated_at := now\<rparr>) s)"
    using Some f by (cases "st_design_plans st") (simp_all add: SaveDesignPlan_def Let_def put_store_def)
  have "ms_device_codes ?s = ms_device_codes s" "ms_accounts ?s = ms_accounts s"
    using Some f by (simp_all add: SaveDesignPlan_def frame_simps Let_def split: list.splits)
  then show ?thesis by (intro same_directory_put [OF Some _ ms]) simp_all
qed (simp add: SaveDesignPlan_def)

lemma FindOrCreateArea_directory: "same_directory s (snd (FindOrCreateArea now input n s))"
proof (cases "get_store s (al_store_id input)")
  case (Some st)
  have "same_directory s (put_store (al_store_id input) (st\<lparr>st_areas := areas, st_updated_at := now\<rparr>)
      (s\<lparr>ms_next_area_id := na\<rparr>))" for areas na
    by (rule same_directory_put [OF Some, where st' = "st\<lparr>st_areas := areas, st_updated_at := now\<rparr>"])
      (simp_all add: put_store_def)
  from this [of _ "ms_next_area_id s"] this show ?thesis
    using Some by (simp add: FindOrCreateArea_def Let_def split: option.splits)
qed (simp add: FindOrCreateArea_def)

section \<open>Operations on the directory\<close>

lemma entries_ok_fresh:
  assumes ok: "entries_ok (xs @ ys) codes" and n: "name \<notin> (\<lambda>e. fst (snd e)) ` set (xs @ ys)"
    and l: "length cs \<le> 3" and d: "distinct (map fst cs)" and f: "\<forall>c \<in> fst ` set cs. codes c = None"
  shows "entries_ok (xs @ (k, name, cs) # ys) (\<lambda>c. if c \<in> fst ` set cs then map_of cs c else codes c)"
proof -
  let ?all = "entry_codes (xs @ ys)"
  have disj: "fst ` set cs \<inter> fst ` set ?all = {}"
    using f ok by (auto simp: entries_ok_def map_of_eq_None_iff)
  have "map_of (entry_codes (xs @ (k, name, cs) # ys)) c = (if c \<in> fst ` set cs then map_of cs c else codes c)" for c
  proof (cases "c \<in> fst ` set cs")
    case True
    then have "map_of (entry_codes xs) c = None" "map_of cs c \<noteq> None"
      using disj by (auto simp: map_of_eq_None_iff)
    with True show ?thesis by (auto simp: map_add_def split: option.splits)
  next
    case False
    then have "map_of cs c = None" by (simp add: map_of_eq_None_iff)
    with False ok show ?thesis by (auto simp: entries_ok_def map_add_def split: option.splits)
  qed
  moreover have "distinct (map fst (entry_codes (xs @ (k, name, cs) # ys)))"
    using ok d disj by (auto simp: entries_ok_def)
  ultimately show ?thesis
    using ok n l by (auto simp: entries_ok_def)
qed

text \<open>Taking a store out, or one recorder out of a store.\<close>

lemma entries_ok_remove:
  assumes ok: "entries_ok (xs @ (k, name, as @ bs @ cs) # ys) codes"
  shows "entries_ok (xs @ (k, name, as @ cs) # ys) (\<lambda>c. if c \<in> fst ` set bs then None else codes c)"
proof -
  have d: "distinct (map fst (entry_codes (xs @ (k, name, as @ bs @ cs) # ys)))"
    and c: "codes = map_of (entry_codes (xs @ (k, name, as @ bs @ cs) # ys))"
    using ok by (simp_all add: entries_ok_def)
  have "map_of (entry_codes (xs @ (k, name, as @ cs) # ys)) x =
      (if x \<in> fst ` set bs then None else codes x)" for x
  proof (cases "x \<in> fst ` set bs")
    case True
    then have "x \<notin> fst ` set (entry_codes (xs @ (k, name, as @ cs) # ys))" using d by auto
    then have "map_of (entry_codes (xs @ (k, name, as @ cs) # ys)) x = None"
      by (simp only: map_of_eq_None_iff not_False_eq_True)
    with True show ?thesis by simp
  next
    case False
    then have "map_of bs x = None" by (simp add: map_of_eq_None_iff)
    with False show ?thesis unfolding c by (auto simp: map_add_def split: option.splits)
  qed
  moreover have "distinct (map fst (entry_codes (xs @ (k, name, as @ cs) # ys)))" using d by auto
  ultimately show ?thesis using ok by (auto simp: entries_ok_def)
qed

lemma entries_ok_drop:
  assumes ok: "entries_ok (xs @ (k, name, bs) # ys) codes"
  shows "entries_ok (xs @ ys) (\<lambda>c. if c \<in> fst ` set bs then None else codes c)"
proof -
  have "entries_ok (xs @ (k, name, []) # ys) (\<lambda>c. if c \<in> fst ` set bs then None else codes c)"
    using entries_ok_remove [of xs k name "[]" bs "[]" ys codes] ok by simp
  then show ?thesis by (simp add: entries_ok_def)
qed

lemma entries_ok_rename:
  assumes ok: "entries_ok (xs @ (k, name, cs) # ys) codes"
    and n: "name' \<notin> (\<lambda>e. fst (snd e)) ` set (xs @ ys)"
  shows "entries_ok (xs @ (k, name', cs) # ys) codes"
  using ok n by (auto simp: entries_ok_def)

lemma same_directory_ok:
  "directory_ok s \<Longrightarrow> entries s' = entries s \<Longrightarrow> ms_device_codes s' = ms_device_codes s \<Longrightarrow>
   distinct (account_names s') \<Longrightarrow> mem_inv s' \<Longrightarrow> directory_ok s'"
  by (simp add: directory_ok_def)

text \<open>With exact codes and positive ids, \<open>DeviceCodeExists\<close> without an exclusion is a lookup.\<close>

lemma device_code_free:
  assumes ok: "directory_ok s"
  shows "DeviceCodeExists code 0 s \<longleftrightarrow> ms_device_codes s (normalizeDeviceCode code) \<noteq> None"
proof (cases "ms_device_codes s (normalizeDeviceCode code)")
  case (Some i)
  have inv: "mem_inv s" and "ms_device_codes s = map_of (entry_codes (entries s))"
    using ok by (simp_all add: directory_ok_def entries_ok_def)
  then have "(normalizeDeviceCode code, i) \<in> set (entry_codes (entries s))"
    using Some by (auto dest: map_of_SomeD)
  then obtain k st rc where m: "(k, st) \<in> set (ms_stores s)" "rc \<in> set (st_recorders st)" "rc_id rc = i"
    by (auto simp: entry_codes_def entries_def entry_of_def recorder_codes_of_def)
  have "store_ok (ms_next_area_id s) (ms_next_recorder_id s) k st"
    using inv m(1) unfolding mem_inv_def by fast
  then have "0 < i" using m by (auto simp: store_ok_def recorder_in_def)
  then show ?thesis using Some by (simp add: DeviceCodeExists_def)
qed (simp add: DeviceCodeExists_def)

lemma entry_codes_fst: "fst ` set (recorder_codes_of st) = rc_device_code ` set (st_recorders st)"
  by (auto simp: recorder_codes_of_def image_image)

subsection \<open>Recorders\<close>

lemma entries_ok_append:
  assumes ok: "entries_ok (xs @ (k, name, cs) # ys) codes" and l: "length cs < 3" and f: "codes code = None"
  shows "entries_ok (xs @ (k, name, cs @ [(code, i)]) # ys) (codes(code \<mapsto> i))"
proof -
  let ?all = "entry_codes (xs @ (k, name, cs) # ys)"
  have c: "codes = map_of ?all" and d: "distinct (map fst ?all)" using ok by (simp_all add: entries_ok_def)
  have "map_of ?all code = None" using f c by (simp only:)
  then have new: "code \<notin> fst ` set ?all" by (simp only: map_of_eq_None_iff not_False_eq_True)
  have "map_of (entry_codes (xs @ (k, name, cs @ [(code, i)]) # ys)) x = (codes(code \<mapsto> i)) x" for x
  proof (cases "x = code")
    case True
    have "map_of (entry_codes xs) code = None" "map_of cs code = None"
      using new by (auto simp: map_of_eq_None_iff)
    with True show ?thesis by (simp add: map_add_def)
  next
    case False
    then show ?thesis unfolding c by (simp add: map_add_def split: option.splits)
  qed
  moreover have "distinct (map fst (entry_codes (xs @ (k, name, cs @ [(code, i)]) # ys)))"
    using d new by auto
  ultimately show ?thesis using ok l by (auto simp: entries_ok_def)
qed

lemma svc_AddRecorder_directory:
  assumes ok: "directory_ok s"
  shows "directory_ok (snd (svc_AddRecorder now k input s))"
proof (cases "add_recorder_check now k input s")
  case (Inl e)
  then show ?thesis using ok by (simp add: svc_AddRecorder_def)
next
  case (Inr input1)
  let ?code = "normalizeDeviceCode (ar_device_code input1)"
  have inv: "mem_inv s" using ok by (simp add: directory_ok_def)
  obtain st where st: "get_store s k = Some st" "length (st_recorders st) < 3"
    "\<not> DeviceCodeExists (ar_device_code input1) 0 s"
    using Inr by (auto simp: add_recorder_check_def GetStore_def invalid_def frame_simps Let_def
        split: sum.splits option.splits if_splits)
  then have free: "ms_device_codes s ?code = None" using device_code_free [OF ok] by auto
  obtain ys zs where sp: "entries s = ys @ entry_of (k, st) # zs"
    "\<And>st'. entries (put_store k st' s) = ys @ entry_of (k, st') # zs"
    using entries_put_store [OF st(1)] by blast
  let ?s = "snd (AddRecorder now k input1 s)"
  let ?i = "ms_next_recorder_id s"
  let ?rc = "new_recorder now ?i (st_id st) (ar_ezviz_account_id input1) ?code"
  let ?st = "st\<lparr>st_recorders := st_recorders st @ [?rc], st_updated_at := now\<rparr>"
  have "entries ?s = entries (put_store k ?st s)"
    using st by (simp add: AddRecorder_def Let_def entries_def put_store_def)
  then have e: "entries ?s = ys @ (k, st_normalized_name st, recorder_codes_of st @ [(?code, ?i)]) # zs"
    unfolding sp by (simp add: entry_of_def recorder_codes_of_def new_recorder_def)
  have c: "ms_device_codes ?s = (ms_device_codes s)(?code \<mapsto> ?i)" and a: "ms_accounts ?s = ms_accounts s"
    using st by (simp_all add: AddRecorder_def Let_def frame_simps)
  have "entries_ok (entries ?s) (ms_device_codes ?s)"
    unfolding e c using ok st(2) sp(1) free
    by (intro entries_ok_append) (simp_all add: directory_ok_def entry_of_def recorder_codes_of_def)
  then show ?thesis
    using ok a AddRecorder_inv [OF inv]
    by (simp add: svc_AddRecorder_def Inr directory_ok_def account_names_def)
qed

lemma DeleteRecorder_directory:
  assumes ok: "directory_ok s"
  shows "directory_ok (snd (DeleteRecorder now rid s))"
proof (cases rule: DeleteRecorder_cases [of now rid s])
  case 1
  then show ?thesis using ok by simp
next
  case (2 ys k st zs as gone bs)
  have inv: "mem_inv s" using ok by (simp add: directory_ok_def)
  let ?p = "\<lambda>rc. (rc_device_code rc, rc_id rc)"
  have "entries s = map entry_of ys @ (k, st_normalized_name st, map ?p as @ [?p gone] @ map ?p bs) # map entry_of zs"
    using 2 by (simp add: entries_def entry_of_def recorder_codes_of_def)
  with ok have "entries_ok (map entry_of ys @ (k, st_normalized_name st, map ?p as @ map ?p bs) # map entry_of zs)
      (\<lambda>c. if c \<in> fst ` set [?p gone] then None else ms_device_codes s c)"
    by (intro entries_ok_remove) (simp add: directory_ok_def)
  moreover have "(\<lambda>c. if c \<in> fst ` set [?p gone] then None else ms_device_codes s c)
      = (ms_device_codes s)(rc_device_code gone := None)" by (auto simp: fun_eq_iff)
  ultimately show ?thesis
    using ok 2 DeleteRecorder_inv [OF inv, of now rid]
    by (simp add: directory_ok_def account_names_def entries_def entry_of_def recorder_codes_of_def)
qed

lemma svc_DeleteStore_directory:
  assumes ok: "directory_ok s"
  shows "directory_ok (snd (svc_DeleteStore sv i s))"
proof (cases "sv_crm_institution_authority sv \<or> get_store s i = None")
  case True
  then show ?thesis using ok by (auto simp: svc_DeleteStore_def DeleteStore_def split: option.splits)
next
  case False
  then obtain st where st: "get_store s i = Some st" "\<not> sv_crm_institution_authority sv" by auto
  have inv: "mem_inv s" using ok by (simp add: directory_ok_def)
  obtain ys zs where sp: "ms_stores s = ys @ (i, st) # zs" "i \<notin> fst ` set ys"
    using put_store_split [OF st(1)] by metis
  have "i \<notin> fst ` set zs" using mem_inv_distinct [OF inv] sp by auto
  then have del: "AList.delete i (ms_stores s) = ys @ zs"
  proof -
    have "AList.delete i ys = ys" "AList.delete i zs = zs"
      using sp \<open>i \<notin> fst ` set zs\<close> by (simp_all add: delete_idem)
    then show ?thesis using sp by (simp add: AList.delete_eq)
  qed
  let ?s = "snd (DeleteStore i s)"
  have e: "entries ?s = map entry_of ys @ map entry_of zs"
    using st del by (simp add: DeleteStore_def entries_def)
  have c: "ms_device_codes ?s = (\<lambda>c. if c \<in> fst ` set (recorder_codes_of st) then None else ms_device_codes s c)"
    using st by (simp add: DeleteStore_def fun_eq_iff fold_clear_codes entry_codes_fst)
  have "entries_ok (map entry_of ys @ (i, st_normalized_name st, recorder_codes_of st) # map entry_of zs)
      (ms_device_codes s)"
    using ok sp by (simp add: directory_ok_def entries_def entry_of_def)
  then have "entries_ok (entries ?s) (ms_device_codes ?s)"
    unfolding e c by (rule entries_ok_drop)
  moreover have "ms_accounts ?s = ms_accounts s" using st by (simp add: DeleteStore_def)
  ultimately show ?thesis
    using ok st DeleteStore_inv [OF inv, of i] by (simp add: svc_DeleteStore_def directory_ok_def account_names_def)
qed

subsection \<open>Stores\<close>

text \<open>An exact match is a store of the directory with the same normalised name, other than the excluded one.\<close>

lemma no_exact_duplicate:
  assumes "ensureNoExactDuplicate name ex s = Inr u"
  shows "\<forall>(k, st) \<in> set (ms_stores s). st_id st = ex \<or> st_normalized_name st \<noteq> NormalizeStoreName name"
proof -
  have "dc_exact_match (CheckDuplicate name ex s) = None"
    using assms by (auto simp: ensureNoExactDuplicate_def invalid_def split: if_splits)
  then have "\<not> (\<exists>st \<in> set (map snd (ms_stores s)). st_id st \<noteq> ex \<and> st_normalized_name st = NormalizeStoreName name)"
    unfolding CheckDuplicate_def by (metis check_duplicate_exact)
  then show ?thesis by auto
qed

text \<open>The codes the repository stores for a list of inputs, and the index it leaves.\<close>

lemma create_recorders_codes:
  assumes "create_recorders now sid inputs (n, rcs, codes) = (n', rcs', codes')"
    and "distinct (recorder_codes inputs)"
  shows "\<exists>new. rcs' = rcs @ new \<and> map rc_device_code new = recorder_codes inputs \<and>
    codes' = (\<lambda>c. if c \<in> set (recorder_codes inputs)
                  then map_of (map (\<lambda>rc. (rc_device_code rc, rc_id rc)) new) c else codes c)"
  using assms
proof (induction inputs arbitrary: n rcs codes)
  case Nil
  then show ?case by auto
next
  case (Cons r inputs)
  let ?code = "normalizeDeviceCode (ri_device_code r)"
  show ?case
  proof (cases "?code = []")
    case True
    then show ?thesis using Cons by (simp add: Let_def)
  next
    case False
    let ?rc = "new_recorder now n sid (ri_ezviz_account_id r) ?code"
    have rc: "rc_device_code ?rc = ?code" "rc_id ?rc = n" by (simp_all add: new_recorder_def)
    from False Cons.prems have step: "create_recorders now sid inputs (n + 1, rcs @ [?rc], codes(?code \<mapsto> n))
        = (n', rcs', codes')" and d: "distinct (recorder_codes inputs)" "?code \<notin> set (recorder_codes inputs)"
      by (simp_all add: Let_def)
    from Cons.IH [OF step d(1)] obtain new where new: "rcs' = (rcs @ [?rc]) @ new"
      "map rc_device_code new = recorder_codes inputs"
      "codes' = (\<lambda>c. if c \<in> set (recorder_codes inputs)
          then map_of (map (\<lambda>rc. (rc_device_code rc, rc_id rc)) new) c else (codes(?code \<mapsto> n)) c)"
      by blast
    show ?thesis
      using new rc False d(2) by (intro exI [of _ "?rc # new"]) (auto simp: fun_eq_iff)
  qed
qed

lemma check_recorders_spec:
  "check_recorders i rs s = Inr rs' \<Longrightarrow>
   map ri_device_code rs' = map (normalizeDeviceCode \<circ> ri_device_code) rs \<and>
   (\<forall>c \<in> set (map ri_device_code rs'). c \<noteq> [] \<longrightarrow> \<not> DeviceCodeExists c 0 s)"
proof (induction rs arbitrary: i rs')
  case (Cons r rs)
  then show ?case
    by (cases "check_recorders (Suc i) rs s") (auto simp: Let_def invalid_def split: if_splits)
qed simp

definition ascii_codes :: "recorder_input list \<Rightarrow> bool" where
  "ascii_codes rs \<longleftrightarrow> (\<forall>r \<in> set rs. is_ascii (ri_device_code r))"

lemma recorder_codes_normal:
  assumes "ascii_codes rs" "map ri_device_code rs' = map (normalizeDeviceCode \<circ> ri_device_code) rs"
  shows "recorder_codes rs' = recorder_codes rs"
proof -
  have "map (normalizeDeviceCode \<circ> ri_device_code) rs' = map normalizeDeviceCode (map ri_device_code rs')"
    by simp
  also have "\<dots> = map (normalizeDeviceCode \<circ> ri_device_code) rs"
    unfolding assms(2) using assms(1)
    by (auto simp: ascii_codes_def normalizeDeviceCode_def trim_upper_idem)
  finally show ?thesis by (simp add: recorder_codes_def)
qed

lemma recorder_codes_in: "c \<in> set (recorder_codes rs) \<Longrightarrow> \<exists>d \<in> set (map ri_device_code rs). c = normalizeDeviceCode d \<and> c \<noteq> []"
  by (auto simp: recorder_codes_def)

lemma normalizeDeviceCode_Nil [simp]: "normalizeDeviceCode [] = []"
  by (simp add: normalizeDeviceCode_def)

lemma svc_CreateStore_directory:
  assumes ok: "directory_ok s" and ascii: "ascii_codes (cs_recorders input)"
  shows "directory_ok (snd (svc_CreateStore sv now input s))"
proof -
  let ?in1 = "input\<lparr>cs_city := trim_space (cs_city input), cs_name := trim_space (cs_name input),
    cs_external_org_id := trim_space (cs_external_org_id input),
    cs_design_plan_upload_id := trim_space (cs_design_plan_upload_id input)\<rparr>"
  show ?thesis
  proof (cases "\<exists>rs. \<not> sv_crm_institution_authority sv \<and> validateCreateStoreInput input = Inr () \<and>
      ensureNoExactDuplicate (cs_name ?in1) 0 s = Inr () \<and> check_recorders 0 (cs_recorders input) s = Inr rs")
    case False
    then have "snd (svc_CreateStore sv now input s) = s"
      by (auto simp: svc_CreateStore_def Let_def split: sum.splits)
    then show ?thesis using ok by simp
  next
    case True
    then obtain rs where t: "\<not> sv_crm_institution_authority sv" "validateCreateStoreInput input = Inr ()"
      "ensureNoExactDuplicate (cs_name ?in1) 0 s = Inr ()" "check_recorders 0 (cs_recorders input) s = Inr rs"
      by blast
    let ?in2 = "?in1\<lparr>cs_recorders := rs\<rparr>"
    let ?s = "snd (CreateStore now ?in2 s)"
    have inv: "mem_inv s" using ok by (simp add: directory_ok_def)
    have v: "length (cs_recorders input) \<le> 3" "distinct (recorder_codes (cs_recorders input))"
      using t(2) unfolding validateCreateStoreInput_conv by blast+
    note cr = check_recorders_spec [OF t(4)]
    have rcs: "recorder_codes rs = recorder_codes (cs_recorders input)"
      by (rule recorder_codes_normal [OF ascii conjunct1 [OF cr]])
    let ?sid = "ms_next_store_id s"
    obtain nr rcs0 codes where c0: "create_recorders now ?sid rs (ms_next_recorder_id s, [], ms_device_codes s)
        = (nr, rcs0, codes)" by (metis prod_cases3)
    obtain new where new: "rcs0 = new" "map rc_device_code new = recorder_codes rs"
      "codes = (\<lambda>c. if c \<in> set (recorder_codes rs)
         then map_of (map (\<lambda>rc. (rc_device_code rc, rc_id rc)) new) c else ms_device_codes s c)"
      using create_recorders_codes [OF c0] v(2) rcs by auto
    have fresh: "?sid \<notin> fst ` set (ms_stores s)" using inv unfolding mem_inv_def by fastforce
    obtain st where st: "ms_stores ?s = AList.update ?sid st (ms_stores s)" "st_recorders st = new"
      "st_normalized_name st = NormalizeStoreName (trim_space (cs_name input))"
      "ms_device_codes ?s = codes" "ms_accounts ?s = ms_accounts s"
      using c0 new(1) by (simp add: CreateStore_def Let_def store_zero_def put_store_def)
    let ?cs = "map (\<lambda>rc. (rc_device_code rc, rc_id rc)) new"
    have keys: "fst ` set ?cs = set (recorder_codes rs)"
      using arg_cong [OF new(2), of set] by (simp add: image_image)
    have e: "entries ?s = entries s @ (?sid, NormalizeStoreName (trim_space (cs_name input)), ?cs) # []"
      using fresh st by (simp add: entries_def alist_update_new entry_of_def recorder_codes_of_def)
    have c: "ms_device_codes ?s = (\<lambda>c. if c \<in> fst ` set ?cs then map_of ?cs c else ms_device_codes s c)"
      unfolding keys using st(4) new(3) by simp
    have "st_normalized_name su \<noteq> NormalizeStoreName (trim_space (cs_name input))"
      if "(k, su) \<in> set (ms_stores s)" for k su
    proof -
      have "0 < k" "store_ok (ms_next_area_id s) (ms_next_recorder_id s) k su"
        using inv that unfolding mem_inv_def by fast+
      then have "st_id su \<noteq> 0" by (simp add: store_ok_def)
      moreover have "st_id su = 0 \<or> st_normalized_name su \<noteq> NormalizeStoreName (cs_name ?in1)"
        using no_exact_duplicate [OF t(3)] that by fast
      ultimately show ?thesis by simp
    qed
    then have names: "NormalizeStoreName (trim_space (cs_name input)) \<notin> (\<lambda>e. fst (snd e)) ` set (entries s @ [])"
      by (force simp: entries_def entry_of_def)
    have free: "\<forall>c \<in> fst ` set ?cs. ms_device_codes s c = None"
    proof
      fix c assume "c \<in> fst ` set ?cs"
      then obtain d where d: "d \<in> set (map ri_device_code rs)" "c = normalizeDeviceCode d" "c \<noteq> []"
        unfolding keys using recorder_codes_in by blast
      then have "d \<noteq> []" by auto
      with cr d have "\<not> DeviceCodeExists d 0 s" by blast
      then show "ms_device_codes s c = None" using device_code_free [OF ok] d by simp
    qed
    have l: "length ?cs \<le> 3"
    proof -
      have "length ?cs = length (recorder_codes (cs_recorders input))"
        using arg_cong [OF new(2), of length] rcs by simp
      also have "\<dots> \<le> length (cs_recorders input)"
        unfolding recorder_codes_def by (metis length_filter_le length_map)
      finally show ?thesis using v(1) by simp
    qed
    have dist: "distinct (map fst ?cs)" using new(2) v(2) rcs by (simp add: comp_def)
    have "entries_ok (entries s @ []) (ms_device_codes s)" using ok by (simp add: directory_ok_def)
    then have "entries_ok (entries ?s) (ms_device_codes ?s)"
      unfolding e c by (rule entries_ok_fresh [OF _ names l dist free])
    then have "directory_ok ?s"
      using ok st(5) CreateStore_inv [OF inv] by (simp add: directory_ok_def account_names_def)
    moreover have "snd (svc_CreateStore sv now input s) = ?s"
      using t by (simp add: svc_CreateStore_def Let_def split: prod.splits)
    ultimately show ?thesis by simp
  qed
qed

lemma svc_UpdateStoreBasicInfo_directory:
  assumes ok: "directory_ok s"
  shows "directory_ok (snd (svc_UpdateStoreBasicInfo sv now i input s))"
proof -
  let ?in1 = "input\<lparr>ub_city := trim_space (ub_city input), ub_name := trim_space (ub_name input),
    ub_external_org_id := trim_space (ub_external_org_id input)\<rparr>"
  show ?thesis
  proof (cases "\<exists>st. \<not> sv_crm_institution_authority sv \<and> validateUpdateStoreBasicInfoInput input = Inr () \<and>
      ensureNoExactDuplicate (ub_name ?in1) i s = Inr () \<and> get_store s i = Some st")
    case False
    then have "snd (svc_UpdateStoreBasicInfo sv now i input s) = s"
      by (auto simp: svc_UpdateStoreBasicInfo_def UpdateStoreBasicInfo_def Let_def split: sum.splits option.splits)
    then show ?thesis using ok by simp
  next
    case True
    then obtain st where t: "\<not> sv_crm_institution_authority sv" "validateUpdateStoreBasicInfoInput input = Inr ()"
      "ensureNoExactDuplicate (ub_name ?in1) i s = Inr ()" "get_store s i = Some st"
      by blast
    have inv: "mem_inv s" using ok by (simp add: directory_ok_def)
    obtain ys zs where sp: "ms_stores s = ys @ (i, st) # zs"
      "\<And>st'. ms_stores (put_store i st' s) = ys @ (i, st') # zs"
      using put_store_split [OF t(4)] by metis
    let ?s = "snd (UpdateStoreBasicInfo now i ?in1 s)"
    let ?name = "NormalizeStoreName (ub_name ?in1)"
    have e: "entries ?s = map entry_of ys @ (i, ?name, recorder_codes_of st) # map entry_of zs"
      using t(4) sp by (simp add: UpdateStoreBasicInfo_def Let_def entries_def entry_of_def recorder_codes_of_def)
    have "st_normalized_name su \<noteq> ?name" if m: "(k, su) \<in> set (ys @ zs)" for k su
    proof -
      have "(k, su) \<in> set (ms_stores s)" "k \<noteq> i"
        using m sp(1) mem_inv_distinct [OF inv] by (auto, (force+)?)
      then have "st_id su \<noteq> i" using inv unfolding mem_inv_def store_ok_def by fast
      then show ?thesis using no_exact_duplicate [OF t(3)] \<open>(k, su) \<in> set (ms_stores s)\<close> by fast
    qed
    then have n: "?name \<notin> (\<lambda>e. fst (snd e)) ` set (map entry_of ys @ map entry_of zs)"
      by (force simp: entry_of_def)
    have "entries_ok (map entry_of ys @ (i, st_normalized_name st, recorder_codes_of st) # map entry_of zs)
        (ms_device_codes s)"
      using ok sp(1) by (simp add: directory_ok_def entries_def entry_of_def)
    then have "entries_ok (entries ?s) (ms_device_codes s)"
      unfolding e using n by (rule entries_ok_rename)
    moreover have "ms_device_codes ?s = ms_device_codes s" "ms_accounts ?s = ms_accounts s"
      using t(4) by (simp_all add: UpdateStoreBasicInfo_def Let_def frame_simps)
    ultimately have "directory_ok ?s"
      using ok UpdateStoreBasicInfo_inv [OF inv] by (simp add: directory_ok_def account_names_def)
    moreover have "snd (svc_UpdateStoreBasicInfo sv now i input s) = ?s"
      using t by (simp add: svc_UpdateStoreBasicInfo_def Let_def)
    ultimately show ?thesis by simp
  qed
qed

subsection \<open>Accounts\<close>

lemma account_names_add:
  assumes inv: "mem_inv s"
  shows "map (\<lambda>(_, a). ea_account_name a) (AList.update (ms_next_account_id s) a (ms_accounts s))
    = account_names s @ [ea_account_name a]"
proof -
  have "ms_next_account_id s \<notin> fst ` set (ms_accounts s)" using inv unfolding mem_inv_def by fastforce
  then show ?thesis by (simp add: alist_update_new account_names_def)
qed

lemma directory_ok_accounts:
  assumes "directory_ok s" "entries s' = entries s" "ms_device_codes s' = ms_device_codes s"
    "distinct (account_names s')" "mem_inv s'"
  shows "directory_ok s'"
  using assms by (simp add: directory_ok_def)

lemma svc_CreateEzvizAccount_directory:
  assumes ok: "directory_ok s"
  shows "directory_ok (snd (svc_CreateEzvizAccount now input s))"
proof (cases "validateCreateEzvizAccountInput input = Inr () \<and>
    \<not> EzvizAccountNameExists (trim_space (ca_account_name input)) s")
  case False
  then have "snd (svc_CreateEzvizAccount now input s) = s"
    by (auto simp: svc_CreateEzvizAccount_def Let_def split: sum.splits)
  then show ?thesis using ok by simp
next
  case True
  let ?in = "input\<lparr>ca_account_name := trim_space (ca_account_name input)\<rparr>"
  let ?s = "snd (CreateEzvizAccount now ?in s)"
  have inv: "mem_inv s" using ok by (simp add: directory_ok_def)
  have "trim_space (ca_account_name input) \<notin> set (account_names s)"
    using True by (auto simp: EzvizAccountNameExists_def account_names_def list_ex_iff)
  moreover have "account_names ?s = account_names s @ [trim_space (ca_account_name input)]"
    using account_names_add [OF inv] by (simp add: CreateEzvizAccount_def Let_def account_names_def)
  ultimately have "directory_ok ?s"
    using ok CreateEzvizAccount_inv [OF inv]
    by (intro directory_ok_accounts [OF ok])
      (simp_all add: directory_ok_def, simp_all add: CreateEzvizAccount_def Let_def entries_def)
  moreover have "snd (svc_CreateEzvizAccount now input s) = ?s"
    using True by (simp add: svc_CreateEzvizAccount_def Let_def split: prod.splits)
  ultimately show ?thesis by simp
qed

lemma UpsertEzvizAccountName_directory:
  assumes ok: "directory_ok s"
  shows "directory_ok (UpsertEzvizAccountName now name s)"
proof -
  let ?f = "\<lambda>(i, account). if ea_account_name account = trim_space name
      then Some ((), (i, account\<lparr>ea_status := ''available'', ea_updated_at := now\<rparr>)) else None"
  let ?s = "UpsertEzvizAccountName now name s"
  have inv: "mem_inv s" and d: "distinct (account_names s)" using ok by (simp_all add: directory_ok_def)
  have "distinct (account_names ?s)"
  proof (cases "trim_space name = []")
    case True
    then show ?thesis using d by (simp add: UpsertEzvizAccountName_def)
  next
    case False
    show ?thesis
    proof (cases "upd_first ?f (ms_accounts s)")
      case None
      have "trim_space name \<notin> set (account_names s)"
      proof
        assume "trim_space name \<in> set (account_names s)"
        then obtain i a where "(i, a) \<in> set (ms_accounts s)" "ea_account_name a = trim_space name"
          by (auto simp: account_names_def)
        with None [unfolded upd_first_None] show False by fastforce
      qed
      moreover have "account_names ?s = account_names s @ [trim_space name]"
        using None False account_names_add [OF inv]
        by (simp add: UpsertEzvizAccountName_def Let_def account_names_def)
      ultimately show ?thesis using d by simp
    next
      case (Some p)
      then obtain u accs where p: "upd_first ?f (ms_accounts s) = Some (u, accs)" by (cases p) auto
      have "map (\<lambda>(_, a). ea_account_name a) accs = account_names s"
        unfolding account_names_def using p by (rule upd_first_map_eq) (auto split: if_splits)
      then show ?thesis
        using p False d by (simp add: UpsertEzvizAccountName_def Let_def account_names_def)
    qed
  qed
  then show ?thesis
    using UpsertEzvizAccountName_inv [OF inv]
    by (intro directory_ok_accounts [OF ok])
      (simp_all, simp_all add: UpsertEzvizAccountName_def Let_def entries_def split: option.splits prod.splits)
qed

lemma SyncEzvizAccountNames_directory:
  "directory_ok s \<Longrightarrow> directory_ok (SyncEzvizAccountNames now names s)"
proof -
  have "directory_ok s \<Longrightarrow> directory_ok (SyncEzvizAccountNames_from now seen names s)" for seen
    by (induction now seen names s rule: SyncEzvizAccountNames_from.induct)
      (simp_all add: Let_def UpsertEzvizAccountName_directory)
  then show "directory_ok s \<Longrightarrow> directory_ok (SyncEzvizAccountNames now names s)"
    by (simp add: SyncEzvizAccountNames_def)
qed

section \<open>Requests\<close>

lemma directory_repo:
  assumes ok: "directory_ok s"
  shows "directory_ok (snd (SaveDesignPlan now k sp s))"
    and "directory_ok (snd (FindOrCreateArea now al n s))"
    and "directory_ok (snd (DeleteChannel now cid s))"
    and "directory_ok (snd (UnlockChannelForEdit now cid s))"
    and "directory_ok (snd (ConfirmChannel now cid cc s))"
    and "directory_ok (snd (UpsertRecorderChannel now rid c s))"
    and "si_status si \<noteq> ChannelStatusInactive \<Longrightarrow> directory_ok (snd (SaveChannelSnapshot now cid si s))"
    and "(\<And>xs. mset (range_order xs) = mset xs) \<Longrightarrow>
      directory_ok (snd (ReplaceRecorderChannels now range_order rid cs s))"
proof -
  have inv: "mem_inv s" using ok by (simp add: directory_ok_def)
  note same = directory_ok_same [OF ok]
  show "directory_ok (snd (SaveDesignPlan now k sp s))"
    by (rule same [OF SaveDesignPlan_directory SaveDesignPlan_inv [OF inv]])
  show "directory_ok (snd (FindOrCreateArea now al n s))"
    by (rule same [OF FindOrCreateArea_directory FindOrCreateArea_inv [OF inv]])
  show "directory_ok (snd (DeleteChannel now cid s))"
    by (rule same [OF DeleteChannel_directory [OF inv] DeleteChannel_inv [OF inv]])
  show "directory_ok (snd (UnlockChannelForEdit now cid s))"
    by (rule same [OF UnlockChannelForEdit_directory [OF inv] UnlockChannelForEdit_inv [OF inv]])
  show "directory_ok (snd (ConfirmChannel now cid cc s))"
    by (rule same [OF ConfirmChannel_directory [OF inv] ConfirmChannel_inv [OF inv]])
  show "directory_ok (snd (UpsertRecorderChannel now rid c s))"
    by (rule same [OF UpsertRecorderChannel_directory [OF inv] UpsertRecorderChannel_inv [OF inv]])
  show "si_status si \<noteq> ChannelStatusInactive \<Longrightarrow> directory_ok (snd (SaveChannelSnapshot now cid si s))"
    by (rule same [OF SaveChannelSnapshot_directory [OF inv] SaveChannelSnapshot_inv [OF inv]])
  show "(\<And>xs. mset (range_order xs) = mset xs) \<Longrightarrow>
      directory_ok (snd (ReplaceRecorderChannels now range_order rid cs s))"
    by (rule same [OF ReplaceRecorderChannels_directory [OF inv] ReplaceRecorderChannels_inv [OF inv]])
qed

definition plain_service :: "service \<Rightarrow> bool" where
  "plain_service sv \<longleftrightarrow> (\<forall>sn. sv_scanner sv = Some sn \<longrightarrow> capturing (sn_capture sn))"

lemma plain_serviceD: "plain_service sv \<Longrightarrow> sv_scanner sv = Some sn \<Longrightarrow> capturing (sn_capture sn)"
  by (simp add: plain_service_def)

lemma recognizeChannel_ok:
  assumes ok: "directory_ok s" and cap: "capturing (sn_capture sn)"
  shows "directory_ok (snd (recognizeChannel sv now tm sn account rc ch s))"
  unfolding recognizeChannel_def
  by (rule directory_repo(7) [OF ok recognition_statuses_not_inactive
        [OF capturing.recognition_input_status [OF cap refl]]])

lemma recognize_all_ok:
  "directory_ok s \<Longrightarrow> capturing (sn_capture sn) \<Longrightarrow>
   directory_ok (snd (recognize_all sv now tm sn account rc chs s))"
proof (induction chs arbitrary: s)
  case (Cons ch chs)
  then show ?case
    using recognizeChannel_ok [OF Cons.prems, of sv now tm account rc ch]
    by (auto split: prod.splits sum.splits)
qed simp

lemma RecognizeRecorderChannels_ok:
  assumes "directory_ok s" "plain_service sv"
  shows "directory_ok (snd (RecognizeRecorderChannels sv now tm rid s))"
proof -
  have "directory_ok s'" if "sv_scanner sv = Some sn" "recognize_all sv now tm sn account rc chs s = (r, s')"
    for sn account rc chs r s'
    using recognize_all_ok [OF assms(1) plain_serviceD [OF assms(2) that(1)], of sv now tm account rc chs] that(2)
    by simp
  then show ?thesis
    using assms(1) by (auto simp: RecognizeRecorderChannels_def split: option.splits sum.splits prod.splits)
qed

lemma RecognizeChannel_ok:
  assumes "directory_ok s" "plain_service sv"
  shows "directory_ok (snd (RecognizeChannel sv now tm cid s))"
  using assms recognizeChannel_ok [OF assms(1) plain_serviceD [OF assms(2)]]
  by (auto simp: RecognizeChannel_def split: option.splits sum.splits)

lemma RefreshChannelSnapshot_ok:
  assumes "directory_ok s"
  shows "directory_ok (snd (RefreshChannelSnapshot sv now cid s))"
  using assms
  by (auto simp: RefreshChannelSnapshot_def ChannelStatusInactive_def intro!: directory_repo(7)
      split: option.splits sum.splits)

lemma ProbeRecognizeChannel_ok:
  assumes ok: "directory_ok s" and plain: "plain_service sv"
  shows "directory_ok (snd (ProbeRecognizeChannel sv now tm rid input s))"
proof (cases "sv_scanner sv")
  case (Some sn)
  note cap = plain_serviceD [OF plain Some]
  have up: "directory_ok s'" if "UpsertRecorderChannel now rid c s = (r, s')" for c r s'
    using directory_repo(6) [OF ok, of now rid c] that by simp
  have failed: "directory_ok s2"
    if "SaveChannelSnapshot now cid (failed_attempt e tm) s1 = (r, s2)" "directory_ok s1" for s1 s2 cid e r
    using directory_repo(7) [OF that(2), of "failed_attempt e tm" now cid] that(1)
    by (simp add: ChannelStatusInactive_def)
  have saved: "directory_ok s2"
    if "SaveChannelSnapshot now cid (recognize_picture sv tm st url si') s1 = (r, s2)"
      "sn_capture sn a rc ch = Inr si" "store_picture sv si = Inr (si', url)" "directory_ok s1"
    for s1 s2 cid a rc ch si si' url st r
    using directory_repo(7) [OF that(4) capturing.capture_not_inactive [OF cap that(2,3)], of now cid tm st url]
      that(1) by simp
  show ?thesis
    using Some ok
    by (auto simp: ProbeRecognizeChannel_def Let_def split: sum.splits prod.splits
        intro: up dest: failed [OF _ up] saved [OF _ _ _ up])
qed (simp add: ProbeRecognizeChannel_def ok)

lemma svc_ScanRecorderChannels_ok:
  assumes "directory_ok s" "\<And>xs. mset (range_order xs) = mset xs"
  shows "directory_ok (snd (svc_ScanRecorderChannels sv now range_order rid s))"
  using assms directory_repo(8) [OF assms]
  by (simp add: svc_ScanRecorderChannels_def split: option.splits sum.splits)

text \<open>
  One rule per request of \<open>Service\<close> that may change the repository, each run to its end before the next.
  Device codes of a new store are ASCII (they are serial numbers; the upper case of other letters
  need not be stable), the scanner captures pictures only, and a scan's new channels may be visited in any
  order.
\<close>

inductive svc_step :: "mem_store \<Rightarrow> mem_store \<Rightarrow> bool" where
  req_create_account: "svc_step s (snd (svc_CreateEzvizAccount now ca s))"
| req_sync_accounts: "svc_step s (SyncEzvizAccountNames now names s)"
| req_create_store: "ascii_codes (cs_recorders cs) \<Longrightarrow> svc_step s (snd (svc_CreateStore sv now cs s))"
| req_update_store: "svc_step s (snd (svc_UpdateStoreBasicInfo sv now k ub s))"
| req_save_plan: "svc_step s (snd (svc_SaveDesignPlan now k sp s))"
| req_delete_store: "svc_step s (snd (svc_DeleteStore sv k s))"
| req_find_area: "svc_step s (snd (svc_FindOrCreateArea now al s))"
| req_add_recorder: "svc_step s (snd (svc_AddRecorder now k ar s))"
| req_delete_recorder: "svc_step s (snd (DeleteRecorder now rid s))"
| req_delete_channel: "svc_step s (snd (DeleteChannel now cid s))"
| req_scan: "(\<And>xs. mset (range_order xs) = mset xs) \<Longrightarrow>
    svc_step s (snd (svc_ScanRecorderChannels sv now range_order rid s))"
| req_probe: "plain_service sv \<Longrightarrow> svc_step s (snd (ProbeRecognizeChannel sv now tm rid pi s))"
| req_recognize: "plain_service sv \<Longrightarrow> svc_step s (snd (RecognizeChannel sv now tm cid s))"
| req_recognize_recorder: "plain_service sv \<Longrightarrow> svc_step s (snd (RecognizeRecorderChannels sv now tm rid s))"
| req_refresh: "svc_step s (snd (RefreshChannelSnapshot sv now cid s))"
| req_confirm: "svc_step s (snd (svc_ConfirmChannel now cid cc s))"
| req_unlock: "svc_step s (snd (UnlockChannelForEdit now cid s))"
| req_reorder: "mset stores = mset (ms_stores s) \<Longrightarrow> mset accounts = mset (ms_accounts s) \<Longrightarrow>
    svc_step s (s\<lparr>ms_stores := stores, ms_accounts := accounts\<rparr>)"

inductive svc_reachable :: "mem_store \<Rightarrow> bool" where
  svc_init: "svc_reachable NewMemoryStore"
| svc_next: "svc_reachable s \<Longrightarrow> svc_step s s' \<Longrightarrow> svc_reachable s'"

lemma svc_SaveDesignPlan_ok: "directory_ok s \<Longrightarrow> directory_ok (snd (svc_SaveDesignPlan now k sp s))"
  by (simp add: svc_SaveDesignPlan_def Let_def directory_repo split: sum.splits)

lemma svc_FindOrCreateArea_ok: "directory_ok s \<Longrightarrow> directory_ok (snd (svc_FindOrCreateArea now al s))"
  by (simp add: svc_FindOrCreateArea_def Let_def directory_repo split: sum.splits)

lemma svc_ConfirmChannel_ok: "directory_ok s \<Longrightarrow> directory_ok (snd (svc_ConfirmChannel now cid cc s))"
  by (simp add: svc_ConfirmChannel_def Let_def directory_repo split: sum.splits)

lemma mset_distinct_map: "mset xs = mset ys \<Longrightarrow> distinct (map f xs) = distinct (map f ys)"
  by (rule mset_eq_imp_distinct_iff) simp

lemma reorder_directory:
  assumes ok: "directory_ok s" and st: "mset stores = mset (ms_stores s)"
    and ac: "mset accounts = mset (ms_accounts s)"
  shows "directory_ok (s\<lparr>ms_stores := stores, ms_accounts := accounts\<rparr>)"
proof -
  let ?s = "s\<lparr>ms_stores := stores, ms_accounts := accounts\<rparr>"
  have inv: "mem_inv ?s" by (rule reorder_inv [OF _ st ac]) (use ok in \<open>simp add: directory_ok_def\<close>)
  have e: "mset (entries ?s) = mset (entries s)" using st by (simp add: entries_def)
  have c: "mset (entry_codes (entries ?s)) = mset (entry_codes (entries s))"
    unfolding entry_codes_def by (rule mset_concat_map [OF e])
  have eo: "entries_ok (entries s) (ms_device_codes s)" using ok by (simp add: directory_ok_def)
  have d: "distinct (map fst (entry_codes (entries ?s)))" "distinct (map fst (entry_codes (entries s)))"
    using eo mset_distinct_map [OF c, of fst] by (simp_all add: entries_ok_def)
  have "map_of (entry_codes (entries ?s)) = map_of (entry_codes (entries s))"
    using d mset_eq_setD [OF c] by (intro map_of_inject_set [THEN iffD2]) auto
  then have "entries_ok (entries ?s) (ms_device_codes ?s)"
    using eo d mset_distinct_map [OF e, of "\<lambda>e. fst (snd e)"] mset_eq_setD [OF e]
    by (simp add: entries_ok_def)
  moreover have "distinct (account_names ?s)"
    using ok mset_distinct_map [OF ac, of "\<lambda>(_, a). ea_account_name a"]
    by (simp add: directory_ok_def account_names_def)
  ultimately show ?thesis using inv by (simp add: directory_ok_def)
qed

lemmas request_ok =
  svc_CreateEzvizAccount_directory SyncEzvizAccountNames_directory svc_CreateStore_directory
  svc_UpdateStoreBasicInfo_directory svc_SaveDesignPlan_ok svc_DeleteStore_directory
  svc_FindOrCreateArea_ok svc_AddRecorder_directory DeleteRecorder_directory directory_repo(3,4)
  svc_ScanRecorderChannels_ok ProbeRecognizeChannel_ok RecognizeChannel_ok RecognizeRecorderChannels_ok
  RefreshChannelSnapshot_ok svc_ConfirmChannel_ok reorder_directory

lemma svc_step_ok: "svc_step s s' \<Longrightarrow> directory_ok s \<Longrightarrow> directory_ok s'"
  by (induction rule: svc_step.induct) (simp_all add: request_ok)

lemma NewMemoryStore_directory: "directory_ok NewMemoryStore"
  using NewMemoryStore_inv
  by (simp add: directory_ok_def)
    (simp add: NewMemoryStore_def entries_def entries_ok_def account_names_def fun_eq_iff)

lemma svc_reachable_ok: "svc_reachable s \<Longrightarrow> directory_ok s"
  by (induction rule: svc_reachable.induct) (blast intro: NewMemoryStore_directory svc_step_ok)+

definition all_device_codes :: "mem_store \<Rightarrow> string list" where
  "all_device_codes s = concat (map (\<lambda>(_, st). map rc_device_code (st_recorders st)) (ms_stores s))"

lemma all_device_codes_entries: "all_device_codes s = map fst (entry_codes (entries s))"
  by (simp add: all_device_codes_def entry_codes_def entries_def map_concat comp_def entry_of_def
      recorder_codes_of_def case_prod_unfold)

text \<open>
  C1. As long as requests run one after another, from any start and in any number: no two stores have the
  same normalised name, no store has more than three recorders, no two recorders share a device code, the
  index of device codes answers for exactly the codes in use, and no two accounts share a name.
\<close>

theorem service_directory:
  assumes "svc_reachable s"
  shows "distinct (map (\<lambda>(_, st). st_normalized_name st) (ms_stores s)) \<and>
    list_all (\<lambda>(_, st). length (st_recorders st) \<le> 3) (ms_stores s) \<and>
    distinct (all_device_codes s) \<and>
    (DeviceCodeExists code 0 s \<longleftrightarrow> normalizeDeviceCode code \<in> set (all_device_codes s)) \<and>
    distinct (account_names s)"
proof -
  have ok: "directory_ok s" using assms by (rule svc_reachable_ok)
  then have e: "entries_ok (entries s) (ms_device_codes s)" by (simp add: directory_ok_def)
  have "DeviceCodeExists code 0 s \<longleftrightarrow> normalizeDeviceCode code \<in> set (all_device_codes s)"
    unfolding device_code_free [OF ok] all_device_codes_entries
    using e by (simp add: entries_ok_def map_of_eq_None_iff)
  moreover have "list_all (\<lambda>(_, st). length (st_recorders st) \<le> 3) (ms_stores s)"
    using e by (auto simp: list_all_iff entries_ok_def entries_def entry_of_def recorder_codes_of_def)
  moreover have "distinct (map (\<lambda>(_, st). st_normalized_name st) (ms_stores s))"
    using e by (simp add: entries_ok_def entries_def entry_of_def comp_def case_prod_unfold)
  ultimately show ?thesis
    using ok e unfolding all_device_codes_entries by (simp add: directory_ok_def entries_ok_def)
qed

definition demo_served :: mem_store where
  "demo_served = snd (svc_AddRecorder 3 1 \<lparr>ar_ezviz_account_id = 1, ar_device_code = ''r9''\<rparr>
     (snd (svc_CreateStore NewService 2 (demo_store_input ''a'' ''r1'') NewMemoryStore)))"

lemma service_directory_witness:
  "distinct (all_device_codes demo_served) \<and> all_device_codes demo_served = [''R1'', ''R9'']"
proof -
  have "svc_reachable demo_served"
    unfolding demo_served_def
    by (intro svc_next [OF svc_next [OF svc_init req_create_store] req_add_recorder])
      (simp add: ascii_codes_def demo_store_input_def byte_def)
  then show ?thesis using service_directory [of demo_served "[]"] by code_simp
qed

text \<open>
  Two \<open>AddRecorder\<close> requests that both check before either writes: both checks pass, and the two stores
  end up with recorders of one device code, of which the index knows only the second.
\<close>

theorem add_recorder_race:
  "let input = \<lparr>ar_ezviz_account_id = 1, ar_device_code = ''R9''\<rparr>;
       s' = snd (AddRecorder 4 2 input (snd (AddRecorder 4 1 input demo_stores)))
   in add_recorder_check 3 1 input demo_stores = Inr input \<and>
      add_recorder_check 3 2 input demo_stores = Inr input \<and>
      all_device_codes s' = [''R1'', ''R9'', ''R2'', ''R9''] \<and> ms_device_codes s' ''R9'' = Some 4"
  by code_simp

end
