(* ===== verification/SS_Service_Props.thy ===== *)
theory SS_Service_Props
  imports SS_Directory
begin

text \<open>
  What the requests of the service do to a channel: a confirmation, a recognition, a refresh; the names of
  stored snapshots; the rows of the export.
\<close>

section \<open>Confirmation\<close>

lemma trim_space_itoa_ne: "trim_space (itoa n) \<noteq> []"
  using itoa_nonempty [of n] by (simp add: trim_space_itoa)

text \<open>The repository reads back the number the service wrote.\<close>

lemma ConfirmChannel_area:
  assumes l: "locate_channel cid s = Some (k, ri, ci)" and t: "cc_area_type input \<noteq> []"
    and n: "cc_area_number input = [] \<and> cc_area_type input = AreaTypeVIPTreatment \<and> n = 0 \<or>
            cc_area_number input = itoa n \<and> 0 < n \<and> n \<le> max_int64"
    and up: "updateOrFindVideoAreaLocked now (st_id (store_at s k)) (ch_area_id (channel_at (store_at s k) ri ci))
      (cc_area_type input) n (st_areas (store_at s k), ms_next_area_id s) = (i, areas, na)"
    and st': "st' = (deleteUnusedVideoAreasLocked ((set_channel ri ci
      ((channel_at (store_at s k) ri ci)\<lparr>ch_updated_at := now,
        ch_confirmed_at := Some now, ch_area_type := ae_type (areas ! i), ch_area_number := ae_number (areas ! i),
        ch_bed_label := trim_space (cc_bed_label input), ch_area_note := [], ch_area_id := ae_id (areas ! i),
        ch_scene_type := ae_type (areas ! i), ch_status := ChannelStatusConfirmedBusiness\<rparr>) (store_at s k))\<lparr>st_areas := areas\<rparr>))
      \<lparr>st_updated_at := now\<rparr>"
  shows "ConfirmChannel now cid input s =
    (Inr (cloneStore now st'), put_store k st' (s\<lparr>ms_next_area_id := na\<rparr>))"
proof -
  have "(if trim_space (cc_area_number input) \<noteq> [] then
           (case atoi (trim_space (cc_area_number input)) of
              (_, Some _) \<Rightarrow> None | (m, None) \<Rightarrow> if m \<le> 0 then None else Some m)
         else if cc_area_type input \<noteq> AreaTypeVIPTreatment then None else Some 0) = Some n"
    using n
  proof (elim disjE conjE)
    assume "cc_area_number input = itoa n" "0 < n" "n \<le> max_int64"
    moreover from this have "atoi (itoa n) = (n, None)"
      by (intro parse_int_itoa) (simp_all add: min_int64_def)
    ultimately show ?thesis by (simp add: trim_space_itoa itoa_nonempty)
  qed simp
  then show ?thesis
    using t up unfolding st' by (simp add: ConfirmChannel_def l Let_def)
qed

lemma ConfirmChannel_no_area:
  assumes "locate_channel cid s = Some (k, ri, ci)" and "cc_area_type input = []"
  shows "ConfirmChannel now cid input s =
    (let st' = (deleteUnusedVideoAreasLocked (set_channel ri ci
        ((channel_at (store_at s k) ri ci)\<lparr>ch_scene_type := cc_scene_type input, ch_updated_at := now,
          ch_confirmed_at := Some now, ch_area_type := [], ch_area_number := 0, ch_bed_label := [],
          ch_area_note := trim_space (cc_area_note input), ch_area_id := 0,
          ch_status := ChannelStatusConfirmedNonBusiness\<rparr>) (store_at s k)))\<lparr>st_updated_at := now\<rparr>
     in (Inr (cloneStore now st'), put_store k st' s))"
  using assms by (simp add: ConfirmChannel_def Let_def)

lemma SceneTypeUnknown_valid [simp]: "validSceneType SceneTypeUnknown" "SceneTypeUnknown \<noteq> []"
  by (simp_all add: validSceneType_def go_defs)

lemma confirmation_ok_trim:
  "confirmation_ok (input\<lparr>cc_area_number := trim_space (cc_area_number input),
     cc_scene_type := (if cc_scene_type input = [] then SceneTypeUnknown else cc_scene_type input)\<rparr>) n
   = confirmation_ok input n"
  by (simp add: confirmation_ok_def)

text \<open>What is left of the areas still holds the one the channel names.\<close>

lemma deleteUnused_keeps:
  assumes "ar \<in> set (st_areas st)" "rc \<in> set (st_recorders st)" "ch \<in> set (rc_channels rc)"
    "ch_area_id ch = ae_id ar" "ch_area_id ch \<noteq> 0"
  shows "ar \<in> set (st_areas (deleteUnusedVideoAreasLocked st))"
proof -
  have "ae_id ar \<in> set (referenced_areas (st_recorders st))"
    using assms unfolding referenced_areas_def by (auto intro!: bexI [of _ ch] image_eqI [of _ _ ch])
  then show ?thesis using assms(1) by (simp add: deleteUnusedVideoAreasLocked_def)
qed

definition channel_written :: "store \<Rightarrow> nat \<Rightarrow> nat \<Rightarrow> channel \<Rightarrow> store \<Rightarrow> bool" where
  "channel_written st ri ci ch st' \<longleftrightarrow>
     st_recorders st' = (st_recorders st)[ri := (recorder_at st ri)
       \<lparr>rc_channels := (rc_channels (recorder_at st ri))[ci := ch]\<rparr>]"

text \<open>
  C6. A well-formed confirmation of a channel that exists always succeeds.  It writes that channel and no
  other: confirmed now, with the type and number asked for, business if it has a type and non-business
  otherwise; a business channel names an area of its store with that type and number.  Other stores are left
  alone.
\<close>

theorem confirmation_takes_effect:
  assumes re: "mem_reachable s" and ok: "confirmation_ok input n"
    and l: "locate_channel cid s = Some (k, ri, ci)"
  shows "\<exists>st' ch. get_store (snd (svc_ConfirmChannel now cid input s)) k = Some st' \<and>
    fst (svc_ConfirmChannel now cid input s) = Inr (cloneStore now st') \<and>
    (\<forall>j. j \<noteq> k \<longrightarrow> get_store (snd (svc_ConfirmChannel now cid input s)) j = get_store s j) \<and>
    channel_written (store_at s k) ri ci ch st' \<and> ch_id ch = cid \<and>
    ch_confirmed_at ch = Some now \<and> ch_area_type ch = cc_area_type input \<and> ch_area_number ch = n \<and>
    ch_status ch = (if cc_area_type input = [] then ChannelStatusConfirmedNonBusiness
                    else ChannelStatusConfirmedBusiness) \<and>
    (if cc_area_type input = [] then ch_area_id ch = 0
     else \<exists>ar \<in> set (st_areas st'). ae_id ar = ch_area_id ch \<and> ae_type ar = cc_area_type input \<and> ae_number ar = n)"
proof -
  note inv = reachable_inv [OF re]
  obtain st where st: "get_store s k = Some st" "store_at s k = st" "ri < length (st_recorders st)"
    "ci < length (rc_channels (recorder_at st ri))" "ch_id (channel_at st ri ci) = cid"
    "store_ok (ms_next_area_id s) (ms_next_recorder_id s) k st"
    using locate_channel_inv [OF inv l] by blast
  let ?in1 = "input\<lparr>cc_area_number := trim_space (cc_area_number input),
     cc_scene_type := (if cc_scene_type input = [] then SceneTypeUnknown else cc_scene_type input)\<rparr>"
  have v: "validateChannelConfirmationInput ?in1 = Inr n"
    unfolding validateChannelConfirmationInput_conv confirmation_ok_trim by (rule ok)
  show ?thesis
  proof (cases "cc_area_type input = []")
    case True
    then have "n = 0" using ok by (simp add: confirmation_ok_def)
    have "svc_ConfirmChannel now cid input s = ConfirmChannel now cid ?in1 s"
      using v True by (simp add: svc_ConfirmChannel_def Let_def)
    then show ?thesis
      using True \<open>n = 0\<close> st
      by (auto simp: ConfirmChannel_no_area [OF l] Let_def get_store_put_store channel_written_def frame_simps)
  next
    case False
    let ?in2 = "?in1\<lparr>cc_area_number := (if cc_area_type input = AreaTypeVIPTreatment \<and> n = 0 then [] else itoa n),
      cc_scene_type := cc_area_type input\<rparr>"
    have svc: "svc_ConfirmChannel now cid input s = ConfirmChannel now cid ?in2 s"
      using v False by (simp add: svc_ConfirmChannel_def Let_def)
    have num: "cc_area_number ?in2 = [] \<and> cc_area_type ?in2 = AreaTypeVIPTreatment \<and> n = 0 \<or>
        cc_area_number ?in2 = itoa n \<and> 0 < n \<and> n \<le> max_int64"
      using ok False by (auto simp: confirmation_ok_def accepted_number_def split: if_splits)
    obtain i areas na where up: "updateOrFindVideoAreaLocked now k
      (ch_area_id (channel_at st ri ci)) (cc_area_type ?in2) n (st_areas st, ms_next_area_id s) = (i, areas, na)"
      by (metis prod_cases3)
    note grow = updateOrFind_grow [OF up]
    have sid: "st_id st = k" using st(6) by (simp add: store_ok_def)
    let ?ch = "(channel_at st ri ci)\<lparr>ch_updated_at := now,
        ch_confirmed_at := Some now, ch_area_type := ae_type (areas ! i), ch_area_number := ae_number (areas ! i),
        ch_bed_label := trim_space (cc_bed_label ?in2), ch_area_note := [], ch_area_id := ae_id (areas ! i),
        ch_scene_type := ae_type (areas ! i), ch_status := ChannelStatusConfirmedBusiness\<rparr>"
    let ?mid = "(set_channel ri ci ?ch st)\<lparr>st_areas := areas\<rparr>"
    let ?st' = "(deleteUnusedVideoAreasLocked ?mid)\<lparr>st_updated_at := now\<rparr>"
    have run: "svc_ConfirmChannel now cid input s
        = (Inr (cloneStore now ?st'), put_store k ?st' (s\<lparr>ms_next_area_id := na\<rparr>))"
      unfolding svc by (rule ConfirmChannel_area [OF l _ num]) (use False up st sid in simp_all)
    have "areas_ok k (areas, na)"
      using areas_grow_ok [OF areas_ok_store [OF st(6) mem_inv_next [OF inv]]] grow by blast
    then have pos: "0 < ae_id (areas ! i)" using grow by (auto simp: areas_ok_def area_in_def)
    have "areas ! i \<in> set (st_areas (deleteUnusedVideoAreasLocked ?mid))"
    proof (rule deleteUnused_keeps)
      show "areas ! i \<in> set (st_areas ?mid)" using grow by simp
      show "(recorder_at st ri)\<lparr>rc_channels := (rc_channels (recorder_at st ri))[ci := ?ch]\<rparr> \<in> set (st_recorders ?mid)"
        using st by (simp add: frame_simps set_update_memI)
      show "?ch \<in> set (rc_channels ((recorder_at st ri)\<lparr>rc_channels := (rc_channels (recorder_at st ri))[ci := ?ch]\<rparr>))"
        using st by (simp add: set_update_memI)
    qed (use pos in simp_all)
    then show ?thesis
      using False st grow
      by (intro exI [of _ ?st'] exI [of _ ?ch])
        (auto simp: run get_store_put_store channel_written_def frame_simps get_store_def put_store_def update_conv')
  qed
qed

lemma confirmation_takes_effect_witness:
  "\<exists>st' ch. get_store (snd (svc_ConfirmChannel 9 1 \<lparr>cc_kind = [], cc_area_type = ''treatment'',
      cc_area_number = '' 12 '', cc_bed_label = [], cc_area_note = [], cc_scene_type = []\<rparr> demo)) 1 = Some st' \<and>
    channel_written (store_at demo 1) 0 0 ch st' \<and> ch_area_number ch = 12 \<and>
    ch_status ch = ChannelStatusConfirmedBusiness"
proof -
  let ?in = "\<lparr>cc_kind = [], cc_area_type = ''treatment'', cc_area_number = '' 12 '', cc_bed_label = [],
    cc_area_note = [], cc_scene_type = []\<rparr> :: channel_confirmation_input"
  have "confirmation_ok ?in 12" by code_simp
  moreover have "locate_channel 1 demo = Some (1, 0, 0)" by code_simp
  ultimately show ?thesis
    using confirmation_takes_effect [OF demo_reachable, of ?in 12 1 1 0 0 9] by auto
qed

section \<open>Recognition and refresh\<close>

lemma GetChannelContext_InrD:
  assumes "GetChannelContext cid s = Inr (ch, rc, account)" "mem_inv s"
  shows "\<exists>k ri ci. locate_channel cid s = Some (k, ri, ci) \<and> channel_at (store_at s k) ri ci = ch \<and> ch_id ch = cid"
proof -
  obtain k ri ci where l: "locate_channel cid s = Some (k, ri, ci)"
    using assms(1) by (auto simp: GetChannelContext_def split: option.splits)
  moreover have "channel_at (store_at s k) ri ci = ch"
    using assms(1) l by (auto simp: GetChannelContext_def Let_def split: option.splits)
  moreover have "ch_id (channel_at (store_at s k) ri ci) = cid"
    using locate_channel_inv [OF assms(2) l] by metis
  ultimately show ?thesis by blast
qed

lemma SaveChannelSnapshot_located:
  "locate_channel cid s = Some (k, ri, ci) \<Longrightarrow>
   fst (SaveChannelSnapshot now cid si s) = Inr (apply_snapshot now si (channel_at (store_at s k) ri ci))"
  by (simp add: SaveChannelSnapshot_def Let_def)

lemma apply_snapshot_attempt:
  "ch_recognition_attempts (apply_snapshot now si ch)
     = ch_recognition_attempts ch + (if si_count_attempt si then 1 else 0)"
  by (simp add: apply_snapshot_def Let_def)

lemma recognition_status_not_confirmed:
  "x \<in> recognition_statuses \<Longrightarrow> x \<noteq> [] \<Longrightarrow> \<not> isConfirmedChannelStatus x"
  by (auto simp: recognition_statuses_def isConfirmedChannelStatus_def go_defs)

text \<open>
  The part of a recognition before its last call of the repository: the guards, and what the capture and the
  recogniser lead to.  Other requests may change the repository before the save.
\<close>

definition recognition_begin ::
  "service \<Rightarrow> timings \<Rightarrow> int \<Rightarrow> mem_store \<Rightarrow> ss_error + int \<times> channel_snapshot_input" where
  "recognition_begin sv tm channelID s =
     (case sv_scanner sv of
        None \<Rightarrow> Inl ErrNotImplemented
      | Some scanner \<Rightarrow>
          (case GetChannelContext channelID s of
             Inl e \<Rightarrow> Inl e
           | Inr (ch, rc, account) \<Rightarrow>
               if \<not> ch_is_active ch \<or> ch_status ch = ChannelStatusInactive
               then invalid ''channel'' msg_inactive_recognize
               else if isConfirmedChannelStatus (ch_status ch)
               then invalid ''channel'' msg_confirmed_recognize
               else Inr (ch_id ch, recognition_input sv tm scanner account rc ch)))"

lemma RecognizeChannel_begin:
  "RecognizeChannel sv now tm cid s =
     (case recognition_begin sv tm cid s of Inl e \<Rightarrow> (Inl e, s) | Inr (i, si) \<Rightarrow> SaveChannelSnapshot now i si s)"
  by (auto simp: RecognizeChannel_def recognition_begin_def recognizeChannel_def invalid_def split: option.split sum.split)

lemma recognition_begin_InrD:
  assumes "mem_inv s" "sv_scanner sv = Some sn" "capturing (sn_capture sn)"
    and begun: "recognition_begin sv tm cid s = Inr (i, si)"
  shows "\<exists>ch rc account. GetChannelContext cid s = Inr (ch, rc, account) \<and> ch_is_active ch \<and>
      \<not> isConfirmedChannelStatus (ch_status ch) \<and> ch_id ch = cid"
    and "i = cid" and "si_status si \<in> recognition_statuses" and "si_count_attempt si"
proof -
  obtain ch rc account where c: "GetChannelContext cid s = Inr (ch, rc, account)"
    and ch: "ch_is_active ch" "\<not> isConfirmedChannelStatus (ch_status ch)"
    and r: "i = ch_id ch" "si = recognition_input sv tm sn account rc ch"
    using begun assms(2) by (auto simp: recognition_begin_def invalid_def split: sum.splits if_splits)
  have "ch_id ch = cid" using GetChannelContext_InrD [OF c assms(1)] by blast
  then show "\<exists>ch rc account. GetChannelContext cid s = Inr (ch, rc, account) \<and> ch_is_active ch \<and>
      \<not> isConfirmedChannelStatus (ch_status ch) \<and> ch_id ch = cid" "i = cid"
    using c ch r(1) by auto
  show "si_status si \<in> recognition_statuses" "si_count_attempt si"
    unfolding r(2) using capturing.recognition_input_status [OF assms(3) refl] recognition_input_attempt by blast+
qed

text \<open>What a save of a recognition does to the channel it finds, and to the repository around it.\<close>

definition recognition_saved :: "time \<Rightarrow> channel \<Rightarrow> channel \<Rightarrow> bool" where
  "recognition_saved now old new \<longleftrightarrow>
     new = old\<lparr>ch_recognition_attempts := ch_recognition_attempts old + 1, ch_updated_at := now,
       ch_status := ch_status new, ch_scene_type := ch_scene_type new, ch_area_type := ch_area_type new,
       ch_area_number := ch_area_number new, ch_area_note := ch_area_note new,
       ch_recognition_result := ch_recognition_result new, ch_thumbnail_url := ch_thumbnail_url new,
       ch_full_image_url := ch_full_image_url new, ch_full_image_expires_at := ch_full_image_expires_at new\<rparr> \<and>
     (ch_status new = ch_status old \<or> ch_status new = ''recognition_failed'' \<or> ch_status new = ''pending_confirmation'')"

lemma apply_snapshot_created: "ch_created_at (apply_snapshot now si ch) = ch_created_at ch"
  by (simp add: apply_snapshot_def Let_def)

lemma apply_snapshot_saved:
  assumes "si_status si \<in> recognition_statuses" "si_count_attempt si"
  shows "recognition_saved now ch (apply_snapshot now si ch)"
proof -
  let ?new = "apply_snapshot now si ch"
  have "?new = ch\<lparr>ch_recognition_attempts := ch_recognition_attempts ?new, ch_updated_at := ch_updated_at ?new,
       ch_status := ch_status ?new, ch_scene_type := ch_scene_type ?new, ch_area_type := ch_area_type ?new,
       ch_area_number := ch_area_number ?new, ch_area_note := ch_area_note ?new,
       ch_recognition_result := ch_recognition_result ?new, ch_thumbnail_url := ch_thumbnail_url ?new,
       ch_full_image_url := ch_full_image_url ?new, ch_full_image_expires_at := ch_full_image_expires_at ?new\<rparr>"
    by (rule channel.equality) (simp_all add: frame_simps apply_snapshot_created)
  moreover have "ch_updated_at ?new = now" by (simp add: apply_snapshot_def Let_def)
  moreover have "ch_recognition_attempts ?new = ch_recognition_attempts ch + 1"
    using assms(2) by (simp add: apply_snapshot_attempt)
  moreover have "ch_status ?new \<in> {ch_status ch, ''recognition_failed'', ''pending_confirmation''}"
    using assms(1) by (auto simp: frame_simps recognition_statuses_def go_defs)
  ultimately show ?thesis by (simp add: recognition_saved_def)
qed

text \<open>
  C33. A recognition, with a scanner that captures pictures only, whatever other requests do between its guards
  and its save.  It goes past its guards only for an active channel whose status is no confirmation; a refused
  one changes nothing, and one that nothing interrupts is the guards and the save in the same state.  The save, in
  any reachable state, writes the one channel with that id, if there is one, and nothing else: one more attempt, what
  was recognised, and a status that is the channel's own, failed or waiting for confirmation, never a
  confirmation that it did not have; the id, the area id, the bed label, the time of confirmation, the number, the name
  and the activity of the channel stay.
\<close>

theorem recognition_never_confirms:
  assumes re: "mem_reachable s" "mem_reachable s1" and sn: "sv_scanner sv = Some sn" and cap: "capturing (sn_capture sn)"
  shows "case recognition_begin sv tm cid s of
      Inl e \<Rightarrow> RecognizeChannel sv now tm cid s = (Inl e, s)
    | Inr (i, si) \<Rightarrow> i = cid \<and> RecognizeChannel sv now tm cid s = SaveChannelSnapshot now cid si s \<and>
        (\<exists>ch rc account. GetChannelContext cid s = Inr (ch, rc, account) \<and>
           ch_is_active ch \<and> \<not> isConfirmedChannelStatus (ch_status ch) \<and> ch_id ch = cid) \<and>
        (case locate_channel cid s1 of
           None \<Rightarrow> SaveChannelSnapshot now cid si s1 = (Inl ErrNotFound, s1)
         | Some (k, ri, ci) \<Rightarrow> \<exists>new s'. SaveChannelSnapshot now cid si s1 = (Inr new, s') \<and>
             recognition_saved now (channel_at (store_at s1 k) ri ci) new \<and> ch_id new = cid \<and>
             (\<forall>j. get_store s' j =
                (if j = k then Some (set_channel ri ci new (store_at s1 k)) else get_store s1 j)) \<and>
             s'\<lparr>ms_stores := ms_stores s1\<rparr> = s1)"
proof (cases "recognition_begin sv tm cid s")
  case (Inl e)
  then show ?thesis by (simp add: RecognizeChannel_begin)
next
  case (Inr p)
  obtain i si where p: "p = (i, si)" by fastforce
  note begun = recognition_begin_InrD [OF reachable_inv [OF re(1)] sn cap Inr [unfolded p]]
  have "RecognizeChannel sv now tm cid s = SaveChannelSnapshot now cid si s"
    using Inr p begun(2) by (simp add: RecognizeChannel_begin)
  moreover have "case locate_channel cid s1 of
           None \<Rightarrow> SaveChannelSnapshot now cid si s1 = (Inl ErrNotFound, s1)
         | Some (k, ri, ci) \<Rightarrow> \<exists>new s'. SaveChannelSnapshot now cid si s1 = (Inr new, s') \<and>
             recognition_saved now (channel_at (store_at s1 k) ri ci) new \<and> ch_id new = cid \<and>
             (\<forall>j. get_store s' j =
                (if j = k then Some (set_channel ri ci new (store_at s1 k)) else get_store s1 j)) \<and>
             s'\<lparr>ms_stores := ms_stores s1\<rparr> = s1"
  proof (cases "locate_channel cid s1")
    case None
    then show ?thesis by (simp add: SaveChannelSnapshot_def)
  next
    case (Some at)
    then obtain k ri ci where l: "locate_channel cid s1 = Some (k, ri, ci)" by (cases at) auto
    let ?old = "channel_at (store_at s1 k) ri ci"
    have "ch_id ?old = cid" using locate_channel_inv [OF reachable_inv [OF re(2)] l] by metis
    moreover have "(put_store k st s1)\<lparr>ms_stores := ms_stores s1\<rparr> = s1" for st by (simp add: put_store_def)
    ultimately show ?thesis
      using apply_snapshot_saved [OF begun(3,4), of now ?old]
      by (simp add: l SaveChannelSnapshot_def Let_def get_store_put_store frame_simps)
  qed
  ultimately show ?thesis using Inr p begun(1,2) by simp
qed

definition demo_scanner :: scanner where
  "demo_scanner = ezviz_as_scanner
     (NewEzvizScanner (Some \<lparr>cl_camera_list = (\<lambda>a d. Inr []), cl_capture = (\<lambda>a d n. Inr ''http://h/p.jpg'')\<rparr>)
        [\<lparr>ez_name = ''acc'', ez_app_key = ''k'', ez_app_secret = ''s'', ez_access_token = []\<rparr>]) 7"

definition demo_service :: service where
  "demo_service = NewService\<lparr>sv_scanner := Some demo_scanner\<rparr>"

definition demo_times :: timings where
  "demo_times = \<lparr>tm_capture_ms = 1, tm_recognition_ms = 2, tm_total_ms = 3\<rparr>"

definition demo_input :: channel_snapshot_input where
  "demo_input = snd (projr (recognition_begin demo_service demo_times 1 demo))"

lemma demo_begun: "recognition_begin demo_service demo_times 1 demo = Inr (1, demo_input)"
proof -
  have "case GetChannelContext 1 demo of
      Inr (ch, rc, a) \<Rightarrow> ch_is_active ch \<and> ch_status ch = ChannelStatusPendingRecognition \<and> ch_id ch = 1
    | Inl _ \<Rightarrow> False" by code_simp
  then have "\<exists>si. recognition_begin demo_service demo_times 1 demo = Inr (1, si)"
    by (auto simp: recognition_begin_def demo_service_def isConfirmedChannelStatus_def go_defs split: sum.splits)
  then show ?thesis by (auto simp: demo_input_def)
qed

text \<open>The witness saves into the state in which the channel was confirmed meanwhile.\<close>

lemma recognition_never_confirms_witness:
  "\<exists>new s'. SaveChannelSnapshot 8 1 demo_input demo_confirmed = (Inr new, s') \<and> ch_id new = 1 \<and>
     recognition_saved 8 (channel_at (store_at demo_confirmed 1) 0 0) new"
proof -
  have sn: "sv_scanner demo_service = Some demo_scanner" by (simp add: demo_service_def)
  have cap: "capturing (sn_capture demo_scanner)"
    by (simp add: demo_scanner_def ezviz_as_scanner_def ezviz.capturing_axioms)
  have r: "mem_reachable demo_confirmed"
    unfolding demo_confirmed_def by (intro mem_reachable.step [OF _ confirm] demo_reachable)
  have "locate_channel 1 demo_confirmed = Some (1, 0, 0)" by code_simp
  then show ?thesis
    using recognition_never_confirms [OF demo_reachable r sn cap, where now = 8 and tm = demo_times and cid = 1]
    by (auto simp: demo_begun)
qed

text \<open>
  The save does not look at the status it finds: a channel that a user confirms while its picture is being
  recognised is unconfirmed again when the recogniser fails or makes its suggestion.
\<close>

definition failing_service :: service where
  "failing_service = demo_service\<lparr>sv_recognizer := Some (\<lambda>_. Inl (OtherError ''busy''))\<rparr>"

theorem confirmation_overwritten:
  "isConfirmedChannelStatus (ch_status (channel_at (store_at demo_confirmed 1) 0 0)) \<and>
   (case recognition_begin failing_service demo_times 1 demo of
      Inr (i, si) \<Rightarrow> (case fst (SaveChannelSnapshot 8 i si demo_confirmed) of
          Inr ch \<Rightarrow> ch_status ch = ''recognition_failed'' \<and> ch_confirmed_at ch \<noteq> None
        | Inl _ \<Rightarrow> False)
    | Inl _ \<Rightarrow> False)"
  by code_simp

text \<open>
  A refresh replaces the picture of a channel and nothing else: with the picture and the time of the update
  put back, the channel is the one that was there before.
\<close>

theorem refresh_only_picture:
  assumes re: "mem_reachable s" and r: "RefreshChannelSnapshot sv now cid s = (Inr ch', s')"
  shows "\<exists>ch rc account. GetChannelContext cid s = Inr (ch, rc, account) \<and> ch_is_active ch \<and>
    ch'\<lparr>ch_thumbnail_url := ch_thumbnail_url ch, ch_full_image_url := ch_full_image_url ch,
        ch_full_image_expires_at := ch_full_image_expires_at ch, ch_updated_at := ch_updated_at ch\<rparr> = ch"
proof -
  obtain sn where sn: "sv_scanner sv = Some sn"
    using r by (auto simp: RefreshChannelSnapshot_def split: option.splits)
  obtain ch rc account where c: "GetChannelContext cid s = Inr (ch, rc, account)"
    using r sn by (auto simp: RefreshChannelSnapshot_def split: sum.splits)
  have act: "ch_is_active ch"
    using r sn c by (auto simp: RefreshChannelSnapshot_def invalid_def split: if_splits)
  obtain si where si: "SaveChannelSnapshot now (ch_id ch) (si\<lparr>si_status := [], si_scene_type := [],
      si_area_type := [], si_area_number_text := [], si_area_note := [], si_recognition_result := [],
      si_count_attempt := False\<rparr>) s = (Inr ch', s')"
    using r sn c by (auto simp: RefreshChannelSnapshot_def invalid_def split: if_splits sum.splits)
  obtain k ri ci where l: "locate_channel cid s = Some (k, ri, ci)" "channel_at (store_at s k) ri ci = ch"
    "ch_id ch = cid"
    using GetChannelContext_InrD [OF c reachable_inv [OF re]] by blast
  have "ch' = apply_snapshot now (si\<lparr>si_status := [], si_scene_type := [],
      si_area_type := [], si_area_number_text := [], si_area_note := [], si_recognition_result := [],
      si_count_attempt := False\<rparr>) ch"
    using SaveChannelSnapshot_located [OF l(1)] l(2,3) si by (metis Inr_inject fst_conv)
  moreover have "mustPositiveInt [] = 0" by code_simp
  ultimately show ?thesis
    using c act by (intro exI [of _ ch] exI [of _ rc] exI [of _ account])
      (simp add: apply_snapshot_def Let_def ChannelStatusPendingConfirmation_def)
qed

lemma refresh_only_picture_witness:
  "\<exists>ch ch'. fst (RefreshChannelSnapshot demo_service 8 1 demo) = Inr ch' \<and> ch_full_image_url ch' = ''http://h/p.jpg'' \<and>
    ch'\<lparr>ch_thumbnail_url := ch_thumbnail_url ch, ch_full_image_url := ch_full_image_url ch,
        ch_full_image_expires_at := ch_full_image_expires_at ch, ch_updated_at := ch_updated_at ch\<rparr> = ch"
proof -
  have "case fst (RefreshChannelSnapshot demo_service 8 1 demo) of
      Inr ch' \<Rightarrow> ch_full_image_url ch' = ''http://h/p.jpg'' | Inl _ \<Rightarrow> False" by code_simp
  then obtain ch' s' where r: "RefreshChannelSnapshot demo_service 8 1 demo = (Inr ch', s')"
    "ch_full_image_url ch' = ''http://h/p.jpg''"
    by (cases "RefreshChannelSnapshot demo_service 8 1 demo") (auto split: sum.splits)
  show ?thesis using refresh_only_picture [OF demo_reachable r(1)] r by auto
qed

section \<open>Names of snapshots\<close>

lemma decode_rune_high: "128 \<le> byte c \<Longrightarrow> 128 \<le> fst (decode_rune (c # cs))"
  by (auto simp: Let_def rune_error_def cont_byte_def split: list.splits)

lemma runes_low_ascii: "list_all (\<lambda>r. r < 128) (runes s) \<Longrightarrow> is_ascii s"
proof (induction s rule: runes.induct)
  case (2 c cs)
  obtain r w where d: "decode_rune (c # cs) = (r, w)" by (cases "decode_rune (c # cs)")
  have "r < 128" using "2.prems" d by (simp del: decode_rune.simps)
  then have c: "byte c < 128" using decode_rune_high [of c cs] d by fastforce
  then have "w = 1" using d by simp
  then have "list_all (\<lambda>r. r < 128) (runes cs)" using "2.prems" d by (simp del: decode_rune.simps)
  with "2.IH" [OF d [symmetric]] \<open>w = 1\<close> c show ?case by simp
qed simp

definition is_hex_lower :: "char \<Rightarrow> bool" where
  "is_hex_lower c \<longleftrightarrow> hex_name_char (byte c)"

lemma hex_runes: "list_all hex_name_char (runes s) \<longleftrightarrow> list_all is_hex_lower s"
proof
  assume h: "list_all hex_name_char (runes s)"
  then have "list_all (\<lambda>r. r < 128) (runes s)" by (auto simp: list_all_iff hex_name_char_def)
  then have "runes s = map byte s" by (intro runes_ascii runes_low_ascii)
  with h show "list_all is_hex_lower s" by (simp add: list_all_iff is_hex_lower_def)
next
  assume h: "list_all is_hex_lower s"
  then have "is_ascii s" by (auto simp: list_all_iff is_hex_lower_def hex_name_char_def is_ascii_def)
  with h show "list_all hex_name_char (runes s)" by (simp add: runes_ascii list_all_iff is_hex_lower_def)
qed

lemma last_index_append: "c \<notin> set t \<Longrightarrow> last_index c (s @ c # t) = Some (length s)"
proof (induction s)
  case Nil
  then show ?case using last_index_None [of c t] by simp
qed simp

lemma filepath_ext_plain:
  assumes "CHR ''/'' \<notin> set base" "CHR ''/'' \<notin> set ext" "CHR ''.'' \<notin> set ext"
  shows "filepath_ext (base @ CHR ''.'' # ext) = CHR ''.'' # ext"
proof -
  have "takeWhile (\<lambda>d. d \<noteq> CHR ''/'') (rev (base @ CHR ''.'' # ext)) = rev (base @ CHR ''.'' # ext)"
    using assms by (auto simp: takeWhile_eq_all_conv)
  then have "rev (takeWhile (\<lambda>d. d \<noteq> CHR ''/'') (rev (base @ CHR ''.'' # ext))) = base @ CHR ''.'' # ext"
    by (metis rev_rev_ident)
  then show ?thesis
    unfolding filepath_ext_def Let_def using last_index_append [OF assms(3), of base] by simp
qed

lemma filepath_ext_none: "CHR ''.'' \<notin> set s \<Longrightarrow> filepath_ext s = []"
proof -
  assume "CHR ''.'' \<notin> set s"
  then have "CHR ''.'' \<notin> set (rev (takeWhile (\<lambda>d. d \<noteq> CHR ''/'') (rev s)))"
    by (auto dest: set_takeWhileD)
  then show ?thesis by (simp add: filepath_ext_def last_index_None [THEN iffD2])
qed

lemma hex_lower_plain: "is_hex_lower c \<Longrightarrow> c \<noteq> CHR ''.'' \<and> c \<noteq> CHR ''/'' \<and> c \<noteq> chr 92"
  by (auto simp: is_hex_lower_def hex_name_char_def byte_def [of "CHR ''.''"] byte_def [of "CHR ''/''"])

lemma contains_single: "contains s [c] \<longleftrightarrow> c \<in> set s"
  unfolding contains_iff by (metis append_Cons append_Nil in_set_conv_decomp)

text \<open>
  A valid snapshot name is exactly 32 lower-case hexadecimal digits followed by \<open>.jpg\<close>, \<open>.png\<close> or \<open>.webp\<close>:
  no separator, no dot segment, nothing that leaves the snapshot directory.
\<close>

theorem validSnapshotName_iff:
  "validSnapshotName name \<longleftrightarrow>
     (\<exists>base ext. name = base @ ext \<and> length base = 32 \<and> list_all is_hex_lower base \<and>
        ext \<in> {''.jpg'', ''.png'', ''.webp''})" (is "_ \<longleftrightarrow> ?rhs")
proof
  assume v: "validSnapshotName name"
  let ?e = "to_lower (filepath_ext name)"
  have e: "?e \<in> {''.jpg'', ''.png'', ''.webp''}"
    and b: "length (trim_suffix name ?e) = 32" "list_all is_hex_lower (trim_suffix name ?e)"
    using v by (simp_all add: validSnapshotName_def Let_def hex_runes)
  have "has_suffix name ?e"
  proof (rule ccontr)
    assume "\<not> has_suffix name ?e"
    then have "list_all is_hex_lower name" using b(2) by (simp add: trim_suffix_def)
    then have "CHR ''.'' \<notin> set name" using hex_lower_plain by (auto simp: list_all_iff)
    then show False using e by (simp add: filepath_ext_none)
  qed
  then obtain t where "name = t @ ?e" unfolding has_suffix_iff by blast
  then have "name = trim_suffix name ?e @ ?e" by (metis trim_suffix_append)
  then show ?rhs using e b by blast
next
  assume ?rhs
  then obtain base ext where n: "name = base @ ext" "length base = 32" "list_all is_hex_lower base"
    "ext \<in> {''.jpg'', ''.png'', ''.webp''}" by blast
  have plain: "\<forall>c \<in> set base. c \<noteq> CHR ''.'' \<and> c \<noteq> CHR ''/'' \<and> c \<noteq> chr 92"
    using n(3) hex_lower_plain by (auto simp: list_all_iff)
  obtain t where t: "ext = CHR ''.'' # t" "CHR ''.'' \<notin> set t" "CHR ''/'' \<notin> set t" "chr 92 \<notin> set t"
    "to_lower ext = ext"
  proof (rule that [of "tl ext"])
    have "list_all (\<lambda>e. e = CHR ''.'' # tl e \<and> CHR ''.'' \<notin> set (tl e) \<and> CHR ''/'' \<notin> set (tl e) \<and>
        chr 92 \<notin> set (tl e) \<and> to_lower e = e) [''.jpg'', ''.png'', ''.webp'']" by code_simp
    then show "ext = CHR ''.'' # tl ext" "CHR ''.'' \<notin> set (tl ext)" "CHR ''/'' \<notin> set (tl ext)"
      "chr 92 \<notin> set (tl ext)" "to_lower ext = ext" using n(4) by auto
  qed
  have ext: "filepath_ext name = ext"
    unfolding n(1) t(1) by (rule filepath_ext_plain) (use plain t(2,3) in auto)
  have "trim_suffix name ext = base"
    using n(1) by simp
  moreover have "chr 92 \<noteq> CHR ''.''" by code_simp
  then have "\<not> contains name ''/''" "\<not> contains name [chr 92]"
    using plain t(2-4) unfolding n(1) t(1) contains_single by auto
  ultimately show "validSnapshotName name"
    unfolding validSnapshotName_def Let_def ext t(5) hex_runes using n by auto
qed

lemma validSnapshotName_iff_witness:
  "validSnapshotName ''0123456789abcdef0123456789abcdef.png''"
  unfolding validSnapshotName_iff
  by (rule exI [of _ "''0123456789abcdef0123456789abcdef''"], rule exI [of _ "''.png''"]) code_simp

section \<open>Rows of the export\<close>

lemma mset_insert_back [simp]: "mset (insert_back lt x xs) = add_mset x (mset xs)"
  by (induction xs) auto

lemma mset_sort_stable: "mset (sort_stable lt xs) = mset xs"
proof -
  have "mset (fold (insert_back lt) xs acc) = mset xs + mset acc" for acc
    by (induction xs arbitrary: acc) auto
  then show ?thesis by (simp add: sort_stable_def)
qed

lemma number_rows_props:
  "map er_index (number_rows n rows) = map (\<lambda>i. n + int i) [0..<length rows]"
  "map (\<lambda>r. r\<lparr>er_index := 0\<rparr>) (number_rows n rows) = map (\<lambda>r. r\<lparr>er_index := 0\<rparr>) rows"
proof (induction rows arbitrary: n)
  case (Cons r rows)
  case 1
  have "map (\<lambda>i. n + int i) [0..<length (r # rows)] = n # map (\<lambda>i. n + 1 + int i) [0..<length rows]"
    by (simp add: upt_conv_Cons map_Suc_upt [symmetric] comp_def del: upt_Suc)
  then show ?case using Cons(1) [of "n + 1"] by simp
qed simp_all

text \<open>
  The export has one row for each channel that is active and not marked inactive of each recorder that is
  not off line, no other row and none twice, numbered from 1 in the order of the rows.
\<close>

theorem export_rows_complete:
  "map er_index (channelMappingExportRows st) = map (\<lambda>i. 1 + int i) [0..<length (export_rows st)] \<and>
   mset (map (\<lambda>r. r\<lparr>er_index := 0\<rparr>) (channelMappingExportRows st)) = mset (export_rows st)"
proof -
  let ?rows = "sort_stable export_less (export_rows st)"
  have m: "mset ?rows = mset (export_rows st)" by (rule mset_sort_stable)
  have "r\<lparr>er_index := 0\<rparr> = r" if "r \<in> set (export_rows st)" for r
    using that by (auto simp: export_rows_def export_row_def split: if_splits)
  then have z: "map (\<lambda>r. r\<lparr>er_index := 0\<rparr>) ?rows = ?rows"
    using mset_eq_setD [OF m] by (intro map_idI) auto
  show ?thesis
    unfolding channelMappingExportRows_def
    using number_rows_props [of 1 ?rows] m size_mset [of ?rows] size_mset [of "export_rows st"] z by metis
qed

text \<open>
  \<open>compareNumberOrText\<close> is no order: a note of digits that does not fit in 64 bits is compared as text with
  numbers that are compared as numbers among themselves, so three notes can each be less than the next in a
  circle, and the order of an export with such notes depends on the sorting algorithm.
\<close>

theorem compareNumberOrText_cycle:
  "compareNumberOrText ''9'' ''10'' = - 1 \<and>
   compareNumberOrText ''10'' ''20000000000000000000'' = - 1 \<and>
   compareNumberOrText ''20000000000000000000'' ''9'' = - 1"
  by code_simp

end
