(* ===== verification/GoCrypto.thy ===== *)
theory GoCrypto
  imports GoMime "HOL-Library.Word"
begin

text \<open>
  What the program uses of \<open>crypto/sha256\<close>, \<open>encoding/hex\<close> and \<open>base64.RawURLEncoding\<close>: the digest of
  a byte string (FIPS 180-4, on 32-bit words), lower-case hexadecimal, and the unpadded URL alphabet.
  Nothing is assumed of the digest: a theorem that needs two digests to differ names the two texts.
\<close>

unbundle bit_operations_syntax

section \<open>SHA-256\<close>

text \<open>
  The constants as the standard derives them: the first 32 bits of the fractional parts of the cube roots
  of the first 64 primes, and of the square roots of the first eight. \<open>root_bits k n i r\<close> extends \<open>r\<close>
  by the lowest \<open>i\<close> bits of the integer \<open>k\<close>-th root of \<open>n\<close>, the highest bit first.
\<close>

fun root_bits :: "nat \<Rightarrow> int \<Rightarrow> nat \<Rightarrow> int \<Rightarrow> int" where
  "root_bits k n 0 r = r"
| "root_bits k n (Suc i) r = root_bits k n i (if (r + 2 ^ i) ^ k \<le> n then r + 2 ^ i else r)"

definition small_primes :: "int list" where
  "small_primes = filter (\<lambda>p. list_all (\<lambda>d. p mod d \<noteq> 0) [2..p - 1]) [2..311]"

definition sha_k :: "32 word list" where
  "sha_k = map (\<lambda>p. word_of_int (root_bits 3 (p * 2 ^ 96) 36 0)) small_primes"

definition sha_init :: "32 word list" where
  "sha_init = map (\<lambda>p. word_of_int (root_bits 2 (p * 2 ^ 64) 37 0)) (take 8 small_primes)"

lemma root_bits_root:
  assumes "r ^ k \<le> n" "n < (r + 2 ^ i) ^ k" "0 \<le> r"
  shows "root_bits k n i r ^ k \<le> n \<and> n < (root_bits k n i r + 1) ^ k"
  using assms by (induction i arbitrary: r) (auto simp: algebra_simps)

lemma length_small_primes: "8 \<le> length small_primes"
proof -
  let ?P = "\<lambda>p::int. list_all (\<lambda>d. p mod d \<noteq> 0) [2..p - 1]"
  have first: "length (filter ?P [2..19]) = 8" by code_simp
  have "[2..311] = [2..19] @ [19 + 1..311::int]" by (rule upto_split2) simp_all
  then have split: "small_primes = filter ?P [2..19] @ filter ?P [19 + 1..311]"
    by (simp only: small_primes_def filter_append)
  have "length small_primes = 8 + length (filter ?P [19 + 1..311])"
    unfolding split length_append first ..
  then show ?thesis by linarith
qed

text \<open>The message, a one bit, zeros up to eight bytes before a multiple of 64, and its length in bits.\<close>

fun be_bytes :: "nat \<Rightarrow> int \<Rightarrow> int list" where
  "be_bytes 0 n = []"
| "be_bytes (Suc k) n = be_bytes k (n div 256) @ [n mod 256]"

definition sha_pad :: "string \<Rightarrow> int list" where
  "sha_pad s =
     map byte s @ [128] @ replicate ((119 - length s mod 64) mod 64) 0 @ be_bytes 8 (8 * int (length s))"

fun be_words :: "int list \<Rightarrow> 32 word list" where
  "be_words (a # b # c # d # bs) = word_of_int (((a * 256 + b) * 256 + c) * 256 + d) # be_words bs"
| "be_words bs = []"

definition sha_sigma0 :: "32 word \<Rightarrow> 32 word" where
  "sha_sigma0 x = word_rotr 7 x XOR word_rotr 18 x XOR drop_bit 3 x"

definition sha_sigma1 :: "32 word \<Rightarrow> 32 word" where
  "sha_sigma1 x = word_rotr 17 x XOR word_rotr 19 x XOR drop_bit 10 x"

text \<open>The schedule, the latest word first.\<close>

definition sha_extend :: "32 word list \<Rightarrow> 32 word list" where
  "sha_extend ws = (sha_sigma1 (ws ! 1) + ws ! 6 + sha_sigma0 (ws ! 14) + ws ! 15) # ws"

definition sha_schedule :: "32 word list \<Rightarrow> 32 word list" where
  "sha_schedule block = rev ((sha_extend ^^ 48) (rev block))"

fun sha_round :: "32 word \<times> 32 word \<Rightarrow> 32 word list \<Rightarrow> 32 word list" where
  "sha_round (k, w) [a, b, c, d, e, f, g, h] =
     (let s1 = word_rotr 6 e XOR word_rotr 11 e XOR word_rotr 25 e;
          ch = (e AND f) XOR (NOT e AND g);
          t1 = h + s1 + ch + k + w;
          s0 = word_rotr 2 a XOR word_rotr 13 a XOR word_rotr 22 a;
          maj = (a AND b) XOR (a AND c) XOR (b AND c)
      in [t1 + (s0 + maj), a, b, c, d + t1, e, f, g])"
| "sha_round kw hs = hs"

definition sha_block :: "32 word list \<Rightarrow> 32 word list \<Rightarrow> 32 word list" where
  "sha_block block hs = map2 (+) hs (fold sha_round (zip sha_k (sha_schedule block)) hs)"

function sha_blocks :: "32 word list \<Rightarrow> 32 word list \<Rightarrow> 32 word list" where
  "sha_blocks ws hs = (if length ws < 16 then hs else sha_blocks (drop 16 ws) (sha_block (take 16 ws) hs))"
  by pat_completeness auto
termination by (relation "measure (length \<circ> fst)") auto

declare sha_blocks.simps [simp del]

definition sha256 :: "string \<Rightarrow> string" where
  "sha256 s =
     concat (map (\<lambda>w. map chr (be_bytes 4 (uint w))) (sha_blocks (be_words (sha_pad s)) sha_init))"

text \<open>The digest always has 32 bytes.\<close>

lemma length_sha_round: "length hs = 8 \<Longrightarrow> length (sha_round kw hs) = 8"
  by (cases "(kw, hs)" rule: sha_round.cases) (auto simp: Let_def)

lemma length_sha_fold: "length hs = 8 \<Longrightarrow> length (fold sha_round kws hs) = 8"
  by (induction kws arbitrary: hs) (simp_all add: length_sha_round)

lemma length_sha_blocks: "length hs = 8 \<Longrightarrow> length (sha_blocks ws hs) = 8"
proof (induction ws hs rule: sha_blocks.induct)
  case (1 ws hs)
  then show ?case
    by (simp add: sha_blocks.simps [of ws hs] sha_block_def length_sha_fold)
qed

lemma length_be_bytes [simp]: "length (be_bytes k n) = k"
  by (induction k arbitrary: n) simp_all

lemma length_sha256 [simp]: "length (sha256 s) = 32"
proof -
  have "length (concat (map (\<lambda>w. map chr (be_bytes 4 (uint w))) ws)) = 4 * length ws" for ws :: "32 word list"
    by (induction ws) simp_all
  moreover have "length sha_init = 8" using length_small_primes by (simp add: sha_init_def)
  ultimately show ?thesis by (simp add: sha256_def length_sha_blocks)
qed

section \<open>Hexadecimal and the URL alphabet\<close>

definition hex_char :: "int \<Rightarrow> char" where
  "hex_char n = chr (if n < 10 then 48 + n else 87 + n)"

text \<open>\<open>hex.EncodeToString\<close>.\<close>

definition hex_encode :: "string \<Rightarrow> string" where
  "hex_encode s = concat (map (\<lambda>c. [hex_char (byte c div 16), hex_char (byte c mod 16)]) s)"

definition is_hex_char :: "char \<Rightarrow> bool" where
  "is_hex_char c \<longleftrightarrow>
     48 \<le> byte c \<and> byte c \<le> 57 \<or> 97 \<le> byte c \<and> byte c \<le> 102 \<or> 65 \<le> byte c \<and> byte c \<le> 70"

text \<open>\<open>hex.DecodeString\<close> returns no error: an even number of hexadecimal digits of either case.\<close>

definition hex_decodes :: "string \<Rightarrow> bool" where
  "hex_decodes s \<longleftrightarrow> even (length s) \<and> list_all is_hex_char s"

lemma hex_encode_simps [simp]:
  "hex_encode [] = []"
  "hex_encode (c # s) = hex_char (byte c div 16) # hex_char (byte c mod 16) # hex_encode s"
  by (simp_all add: hex_encode_def)

lemma length_hex_encode [simp]: "length (hex_encode s) = 2 * length s"
  by (induction s) simp_all

lemma nibbles: "0 \<le> byte c div 16" "byte c div 16 < 16" "0 \<le> byte c mod 16" "byte c mod 16 < 16"
  using byte_range [of c] by auto

lemma byte_hex_char: "0 \<le> n \<Longrightarrow> n < 16 \<Longrightarrow> byte (hex_char n) = (if n < 10 then 48 + n else 87 + n)"
  by (auto simp: hex_char_def)

lemma hex_encode_decodes: "hex_decodes (hex_encode s)"
proof -
  have "is_hex_char (hex_char n)" if "0 \<le> n" "n < 16" for n
    using that by (auto simp: is_hex_char_def byte_hex_char)
  then have "list_all is_hex_char (hex_encode s)"
    using nibbles by (induction s) simp_all
  then show ?thesis by (simp add: hex_decodes_def)
qed

lemma hex_encode_inject [simp]: "hex_encode s = hex_encode t \<longleftrightarrow> s = t"
proof
  assume "hex_encode s = hex_encode t"
  then show "s = t"
  proof (induction s arbitrary: t)
    case Nil
    then show ?case by (cases t) simp_all
  next
    case (Cons c s)
    then obtain d t' where t: "t = d # t'" by (cases t) simp_all
    have inj: "m = n" if "hex_char m = hex_char n" "0 \<le> m" "m < 16" "0 \<le> n" "n < 16" for m n
    proof -
      have "byte (hex_char m) = byte (hex_char n)" using that(1) by simp
      then show ?thesis using that(2-5) by (auto simp: byte_hex_char split: if_splits)
    qed
    have "byte c div 16 = byte d div 16" "byte c mod 16 = byte d mod 16"
      using Cons.prems t inj nibbles [of c] nibbles [of d] by simp_all
    then have "byte c = byte d" by (metis div_mult_mod_eq)
    with Cons t show ?case by simp
  qed
qed simp

text \<open>\<open>base64.RawURLEncoding.EncodeToString\<close>: minus and underscore, and no padding.\<close>

definition url_char :: "char \<Rightarrow> char" where
  "url_char c = (if c = CHR ''+'' then CHR ''-'' else if c = CHR ''/'' then CHR ''_'' else c)"

definition raw_url_encode :: "string \<Rightarrow> string" where
  "raw_url_encode s = map url_char (filter (\<lambda>c. c \<noteq> CHR ''='') (base64_encode s))"

lemma raw_url_encode_nonempty: "s \<noteq> [] \<Longrightarrow> raw_url_encode s \<noteq> []"
proof -
  have "base64_char n \<noteq> CHR ''=''" if "0 \<le> n" "n < 64" for n
  proof -
    have "base64_char n \<in> set base64_alphabet"
      unfolding base64_char_def using that by (intro nth_mem) (simp add: base64_alphabet_def)
    then show ?thesis by (auto simp: base64_alphabet_def)
  qed
  moreover have "0 \<le> byte c div 4 \<and> byte c div 4 < 64" for c
    using byte_range [of c] by auto
  moreover assume "s \<noteq> []"
  ultimately show ?thesis
    unfolding raw_url_encode_def by (cases s rule: base64_encode.cases) auto
qed

end
