(* ===== verification/GoTime.thy ===== *)
theory GoTime
  imports Prelude
begin

text \<open>
  What the program uses of package \<open>time\<close>.  A \<open>time.Time\<close> is the number of nanoseconds since the zero
  time (January 1 of year 1, UTC), so \<open>IsZero\<close> is equality with 0 and \<open>Before\<close>, \<open>After\<close> and \<open>Equal\<close>
  are the orders of the integers; a \<open>time.Duration\<close> is a 64-bit number of nanoseconds, and \<open>Sub\<close>
  saturates at its ends.
\<close>

type_synonym gotime = int
type_synonym duration = int

definition millisecond :: duration where "millisecond = 1000000"
definition second :: duration where "second = 1000000000"
definition minute :: duration where "minute = 60 * 1000000000"
definition hour :: duration where "hour = 3600 * 1000000000"

definition time_sub :: "gotime \<Rightarrow> gotime \<Rightarrow> duration" where
  "time_sub t u = max min_int64 (min max_int64 (t - u))"

text \<open>\<open>Duration.Milliseconds\<close>: division towards zero.\<close>

definition milliseconds :: "duration \<Rightarrow> int" where
  "milliseconds d = (if 0 \<le> d then d div 1000000 else - ((- d) div 1000000))"

lemma milliseconds_pos: "0 < milliseconds (time_sub t u) \<longleftrightarrow> u + millisecond \<le> t"
proof (cases "u \<le> t")
  case True
  then have "time_sub t u = min max_int64 (t - u)"
    by (simp add: time_sub_def min_int64_def max_int64_def)
  with True show ?thesis
    by (auto simp: milliseconds_def millisecond_def max_int64_def min_def pos_imp_zdiv_pos_iff)
next
  case False
  then have "time_sub t u < 0"
    by (simp add: time_sub_def min_int64_def max_int64_def)
  moreover have "milliseconds d \<le> 0" if "d < 0" for d
    using that by (simp add: milliseconds_def pos_imp_zdiv_nonneg_iff)
  ultimately have "\<not> 0 < milliseconds (time_sub t u)" by (simp add: not_less)
  with False show ?thesis by (simp add: millisecond_def)
qed

lemma milliseconds_mono: "d \<le> e \<Longrightarrow> milliseconds d \<le> milliseconds e"
proof -
  assume "d \<le> e"
  then consider "0 \<le> d" | "d < 0" "0 \<le> e" | "e < 0" by linarith
  then show ?thesis
  proof cases
    case 1
    then show ?thesis using \<open>d \<le> e\<close> by (simp add: milliseconds_def zdiv_mono1)
  next
    case 2
    then have "0 \<le> (- d) div 1000000" "0 \<le> e div 1000000" by (simp_all add: pos_imp_zdiv_nonneg_iff)
    then show ?thesis using 2 by (simp add: milliseconds_def)
  next
    case 3
    then show ?thesis using \<open>d \<le> e\<close> by (simp add: milliseconds_def zdiv_mono1)
  qed
qed

end
