(* ===== verification/App_Session.thy ===== *)
theory App_Session
  imports GoCrypto GoTime
begin

text \<open>
  Login sessions (\<^verbatim>\<open>internal/app/auth_session.go\<close>): the store of sessions of the process, keyed by the
  hexadecimal SHA-256 digest of the session token.  A session dies after 30 minutes without activity,
  8 hours after it was created, or when it is revoked, and one SSO credential starts one session.
  The operations return the new store beside their result; the random bytes of \<open>rand.Read\<close> (\<open>None\<close>
  for an error) and the value of \<open>time.Now()\<close> are arguments.
\<close>

section \<open>Data\<close>

datatype auth_error =
    ErrUnauthorizedAuth
  | ErrForbiddenAuth
  | ErrSessionIdleTimeout
  | ErrSessionAbsoluteTimeout
  | ErrSessionLoginRequired
  | ErrSessionReauthenticationRequired
  | ErrAuthSessionUnavailable
  | ErrAuditUnavailable
  | ErrAuditMutationUnavailable
  | ErrOther string

definition defaultAuthIdleTimeout :: duration where "defaultAuthIdleTimeout = 30 * minute"
definition defaultAuthAbsoluteTimeout :: duration where "defaultAuthAbsoluteTimeout = 8 * hour"

record AuthSessionStatus =
  idle_remaining_ms :: int
  absolute_remaining_ms :: int

record AuthSessionCreate =
  sc_user_id :: int
  sc_sso_subject :: string
  sc_ip_address :: string
  sc_user_agent :: string
  sc_now :: gotime

record auth_session =
  as_user_id :: int
  as_sso_subject :: string
  as_last_activity :: gotime
  as_expires_at :: gotime
  as_revoked_at :: gotime
  as_created_at :: gotime
  as_revoke_reason :: string

type_synonym auth_sessions = "(string \<times> auth_session) list"

definition newMemoryAuthSessionStore :: auth_sessions where
  "newMemoryAuthSessionStore = []"

section \<open>Tokens and fingerprints\<close>

definition newAuthSessionToken :: "string option \<Rightarrow> auth_error + string" where
  "newAuthSessionToken rnd =
     (case rnd of None \<Rightarrow> Inl (ErrOther ''rand'') | Some bytes \<Rightarrow> Inr (raw_url_encode bytes))"

definition session_key :: "string \<Rightarrow> string" where
  "session_key token = hex_encode (sha256 token)"

definition fingerprint_prefix :: string where
  "fingerprint_prefix = ''jwt-sha256:v1:''"

definition ssoCredentialFingerprint :: "string \<Rightarrow> string" where
  "ssoCredentialFingerprint token = fingerprint_prefix @ hex_encode (sha256 token)"

definition isSSOCredentialFingerprint :: "string \<Rightarrow> bool" where
  "isSSOCredentialFingerprint v \<longleftrightarrow>
     (if length v \<noteq> length fingerprint_prefix + 64 \<or> take (length fingerprint_prefix) v \<noteq> fingerprint_prefix
      then False
      else hex_decodes (drop (length fingerprint_prefix) v))"

lemma fingerprint_recognised: "isSSOCredentialFingerprint (ssoCredentialFingerprint token)"
  by (simp add: isSSOCredentialFingerprint_def ssoCredentialFingerprint_def hex_encode_decodes)

section \<open>Operations\<close>

text \<open>\<^verbatim>\<open>if now.IsZero() { now = time.Now() }\<close>\<close>

definition effective_now :: "gotime \<Rightarrow> gotime \<Rightarrow> gotime" where
  "effective_now clock now = (if now = 0 then clock else now)"

definition GetAuthSessionStatus ::
  "auth_sessions \<Rightarrow> string \<Rightarrow> int \<Rightarrow> gotime \<Rightarrow> auth_error + AuthSessionStatus" where
  "GetAuthSessionStatus ss token userID now =
     (case map_of ss (session_key token) of
        None \<Rightarrow> Inl ErrSessionIdleTimeout
      | Some row \<Rightarrow>
          if as_user_id row \<noteq> userID \<or> as_revoked_at row \<noteq> 0 then Inl ErrSessionIdleTimeout
          else
            let absolute = milliseconds (time_sub (as_created_at row + defaultAuthAbsoluteTimeout) now);
                first = milliseconds (time_sub (as_expires_at row) now);
                idle = milliseconds (time_sub (as_last_activity row + defaultAuthIdleTimeout) now);
                remaining = (if idle < first then idle else first)
            in if absolute \<le> 0 then Inl ErrSessionAbsoluteTimeout
               else if remaining \<le> 0 then Inl ErrSessionIdleTimeout
               else Inr \<lparr>idle_remaining_ms = remaining, absolute_remaining_ms = absolute\<rparr>)"

definition credential_used :: "auth_sessions \<Rightarrow> AuthSessionCreate \<Rightarrow> bool" where
  "credential_used ss input \<longleftrightarrow>
     (\<exists>(k, session) \<in> set ss.
        as_user_id session = sc_user_id input \<and> as_sso_subject session = sc_sso_subject input)"

definition new_session :: "AuthSessionCreate \<Rightarrow> gotime \<Rightarrow> auth_session" where
  "new_session input now =
     \<lparr>as_user_id = sc_user_id input, as_sso_subject = sc_sso_subject input,
      as_last_activity = now, as_expires_at = now + defaultAuthIdleTimeout,
      as_revoked_at = 0, as_created_at = now, as_revoke_reason = ''''\<rparr>"

definition CreateAuthSession ::
  "auth_sessions \<Rightarrow> string option \<Rightarrow> gotime \<Rightarrow> AuthSessionCreate \<Rightarrow> (auth_error + string) \<times> auth_sessions" where
  "CreateAuthSession ss rnd clock input =
     (case newAuthSessionToken rnd of
        Inl e \<Rightarrow> (Inl e, ss)
      | Inr token \<Rightarrow>
          let now = effective_now clock (sc_now input) in
          if isSSOCredentialFingerprint (sc_sso_subject input) \<and> credential_used ss input
          then (Inl ErrSessionReauthenticationRequired, ss)
          else (Inr token, AList.update (session_key token) (new_session input now) ss))"

definition touched :: "auth_session \<Rightarrow> gotime \<Rightarrow> auth_session" where
  "touched session now =
     (if now > as_last_activity session then
        let expires = now + defaultAuthIdleTimeout;
            deadline = as_created_at session + defaultAuthAbsoluteTimeout
        in session\<lparr>as_last_activity := now,
                   as_expires_at := (if expires > deadline then deadline else expires)\<rparr>
      else session)"

definition TouchAuthSession ::
  "auth_sessions \<Rightarrow> gotime \<Rightarrow> string \<Rightarrow> int \<Rightarrow> gotime \<Rightarrow> duration \<Rightarrow> (auth_error + bool) \<times> auth_sessions" where
  "TouchAuthSession ss clock token userID now0 idle =
     (let now = effective_now clock now0; key = session_key token in
      case map_of ss key of
        None \<Rightarrow> (Inr False, ss)
      | Some session \<Rightarrow>
          if as_user_id session \<noteq> userID \<or> as_revoked_at session \<noteq> 0 then (Inr False, ss)
          else if \<not> now < as_created_at session + defaultAuthAbsoluteTimeout
          then (Inl ErrSessionAbsoluteTimeout, ss)
          else if \<not> now < as_expires_at session \<or> \<not> now < as_last_activity session + defaultAuthIdleTimeout
          then (Inr False, ss)
          else (Inr True, AList.update key (touched session now) ss))"

definition RevokeAuthSession ::
  "auth_sessions \<Rightarrow> gotime \<Rightarrow> string \<Rightarrow> int \<Rightarrow> string \<Rightarrow> gotime \<Rightarrow> auth_sessions" where
  "RevokeAuthSession ss clock token userID reason now0 =
     (let now = effective_now clock now0; key = session_key token in
      case map_of ss key of
        Some session \<Rightarrow>
          if as_user_id session = userID \<and> as_revoked_at session = 0
          then AList.update key (session\<lparr>as_revoked_at := now, as_revoke_reason := reason\<rparr>) ss
          else ss
      | None \<Rightarrow> ss)"

section \<open>When a request is let through\<close>

text \<open>The session of a token accepts a request of a user at a time.\<close>

definition session_live :: "auth_sessions \<Rightarrow> string \<Rightarrow> int \<Rightarrow> gotime \<Rightarrow> bool" where
  "session_live ss token userID now \<longleftrightarrow>
     (case map_of ss (session_key token) of
        None \<Rightarrow> False
      | Some s \<Rightarrow> as_user_id s = userID \<and> as_revoked_at s = 0 \<and>
          now < as_created_at s + defaultAuthAbsoluteTimeout \<and> now < as_expires_at s \<and>
          now < as_last_activity s + defaultAuthIdleTimeout)"

lemma touch_live:
  "fst (TouchAuthSession ss clock token userID now idle) = Inr True \<longleftrightarrow>
   session_live ss token userID (effective_now clock now)"
  by (auto simp: TouchAuthSession_def session_live_def Let_def split: option.splits)

lemma touch_dead_same:
  "fst (TouchAuthSession ss clock token userID now idle) \<noteq> Inr True \<Longrightarrow>
   snd (TouchAuthSession ss clock token userID now idle) = ss"
  by (auto simp: TouchAuthSession_def Let_def split: option.splits)

lemma map_of_update: "map_of (AList.update k v al) k' = (if k' = k then Some v else map_of al k')"
  by (simp add: update_conv')

lemma touch_state:
  assumes "TouchAuthSession ss clock token userID now idle = (r, ss')"
  shows "ss' = ss \<or> (\<exists>s. map_of ss (session_key token) = Some s \<and> as_revoked_at s = 0 \<and> as_user_id s = userID \<and>
     r = Inr True \<and> ss' = AList.update (session_key token) (touched s (effective_now clock now)) ss)"
  using assms by (auto simp: TouchAuthSession_def Let_def split: option.splits if_splits)

lemma revoke_state:
  "RevokeAuthSession ss clock token userID reason now = ss \<or>
   (\<exists>s. map_of ss (session_key token) = Some s \<and> as_user_id s = userID \<and>
     RevokeAuthSession ss clock token userID reason now =
       AList.update (session_key token) (s\<lparr>as_revoked_at := effective_now clock now, as_revoke_reason := reason\<rparr>) ss)"
  by (auto simp: RevokeAuthSession_def Let_def split: option.splits)

lemma create_state:
  assumes "CreateAuthSession ss rnd clock input = (r, ss')"
  shows "(\<exists>e. r = Inl e) \<and> ss' = ss \<or>
    (\<exists>token. r = Inr token \<and>
       (isSSOCredentialFingerprint (sc_sso_subject input) \<longrightarrow> \<not> credential_used ss input) \<and>
       ss' = AList.update (session_key token) (new_session input (effective_now clock (sc_now input))) ss)"
  using assms
  by (cases rnd) (auto simp: CreateAuthSession_def newAuthSessionToken_def Let_def split: if_splits)

lemma new_session_fields [simp]:
  "as_user_id (new_session i t) = sc_user_id i" "as_sso_subject (new_session i t) = sc_sso_subject i"
  "as_last_activity (new_session i t) = t" "as_expires_at (new_session i t) = t + defaultAuthIdleTimeout"
  "as_revoked_at (new_session i t) = 0" "as_created_at (new_session i t) = t"
  by (simp_all add: new_session_def)

lemma touched_fields [simp]:
  "as_user_id (touched s t) = as_user_id s" "as_sso_subject (touched s t) = as_sso_subject s"
  "as_revoked_at (touched s t) = as_revoked_at s" "as_created_at (touched s t) = as_created_at s"
  by (simp_all add: touched_def Let_def)

lemma touched_last_activity: "as_last_activity (touched s t) = max t (as_last_activity s)"
  by (simp add: touched_def Let_def max_def)

section \<open>Runs\<close>

text \<open>
  A run of the store, with the log of the sessions created (key, user, time) and of the activity: the
  creations and the requests that were let through.  Any operation may come at any time, with any clock.
\<close>

type_synonym session_log = "(string \<times> int \<times> gotime) list"

inductive session_run :: "session_log \<Rightarrow> session_log \<Rightarrow> auth_sessions \<Rightarrow> bool" where
  run_start: "session_run [] [] newMemoryAuthSessionStore"
| run_create: "session_run C A ss \<Longrightarrow> CreateAuthSession ss rnd clock input = (Inr token, ss') \<Longrightarrow>
     entry = (session_key token, sc_user_id input, effective_now clock (sc_now input)) \<Longrightarrow>
     session_run (entry # C) (entry # A) ss'"
| run_create_refused: "session_run C A ss \<Longrightarrow> CreateAuthSession ss rnd clock input = (Inl e, ss') \<Longrightarrow>
     session_run C A ss'"
| run_touch: "session_run C A ss \<Longrightarrow> TouchAuthSession ss clock token userID now idle = (Inr True, ss') \<Longrightarrow>
     session_run C ((session_key token, userID, effective_now clock now) # A) ss'"
| run_touch_refused: "session_run C A ss \<Longrightarrow> TouchAuthSession ss clock token userID now idle = (r, ss') \<Longrightarrow>
     r \<noteq> Inr True \<Longrightarrow> session_run C A ss'"
| run_revoke: "session_run C A ss \<Longrightarrow> session_run C A (RevokeAuthSession ss clock token userID reason now)"

text \<open>Every session was created by its user at the time it names and last used at an activity of the log.\<close>

definition logged :: "session_log \<Rightarrow> session_log \<Rightarrow> auth_sessions \<Rightarrow> bool" where
  "logged C A ss \<longleftrightarrow>
     (\<forall>k s. map_of ss k = Some s \<longrightarrow>
        (k, as_user_id s, as_created_at s) \<in> set C \<and> (k, as_user_id s, as_last_activity s) \<in> set A)"

lemma loggedD:
  "logged C A ss \<Longrightarrow> map_of ss k = Some s \<Longrightarrow>
   (k, as_user_id s, as_created_at s) \<in> set C \<and> (k, as_user_id s, as_last_activity s) \<in> set A"
  by (simp add: logged_def)

lemma logged_update:
  assumes "logged C A ss" "set C \<subseteq> set C'" "set A \<subseteq> set A'"
    and "(k, as_user_id s, as_created_at s) \<in> set C'" "(k, as_user_id s, as_last_activity s) \<in> set A'"
  shows "logged C' A' (AList.update k s ss)"
  using assms unfolding logged_def map_of_update by (auto split: if_splits)

lemma run_logged: "session_run C A ss \<Longrightarrow> logged C A ss"
proof (induction rule: session_run.induct)
  case run_start
  then show ?case by (simp add: logged_def newMemoryAuthSessionStore_def)
next
  case (run_create C A ss rnd clock input token ss' entry)
  from create_state [OF run_create(2)] have
    "ss' = AList.update (session_key token) (new_session input (effective_now clock (sc_now input))) ss"
    by auto
  then show ?case using run_create by (auto intro!: logged_update)
next
  case (run_create_refused C A ss rnd clock input e ss')
  then show ?case using create_state [OF run_create_refused(2)] by auto
next
  case (run_touch C A ss clock token userID now idle ss')
  let ?t = "effective_now clock now"
  have "ss' = ss \<Longrightarrow> logged C ((session_key token, userID, ?t) # A) ss'"
    using run_touch.IH by (auto simp: logged_def)
  moreover have "logged C ((session_key token, userID, ?t) # A) ss'"
    if s: "map_of ss (session_key token) = Some s" "as_user_id s = userID"
      "ss' = AList.update (session_key token) (touched s ?t) ss" for s
  proof -
    have "(session_key token, userID, as_last_activity (touched s ?t)) \<in>
        set ((session_key token, userID, ?t) # A)"
      using loggedD [OF run_touch.IH s(1)] s(2) by (auto simp: touched_last_activity max_def)
    with s loggedD [OF run_touch.IH s(1)] show ?thesis
      by (auto intro!: logged_update [OF run_touch.IH])
  qed
  ultimately show ?case using touch_state [OF run_touch(2)] by blast
next
  case (run_touch_refused C A ss clock token userID now idle r ss')
  then show ?case using touch_dead_same [of ss clock token userID now idle] by simp
next
  case (run_revoke C A ss clock token userID reason now)
  have "logged C A (AList.update (session_key token) (s\<lparr>as_revoked_at := t, as_revoke_reason := reason\<rparr>) ss)"
    if "map_of ss (session_key token) = Some s" for s t
    using that loggedD [OF run_revoke.IH] by (auto intro!: logged_update [OF run_revoke.IH])
  then show ?case
    using revoke_state [of ss clock token userID reason now] run_revoke.IH by auto
qed

lemma lifetime_log:
  assumes "session_run C A ss"
    and "TouchAuthSession ss clock token userID now idle = (Inr True, ss')"
  shows "\<exists>c a. (session_key token, userID, c) \<in> set C \<and> effective_now clock now < c + 8 * hour \<and>
    (session_key token, userID, a) \<in> set A \<and> effective_now clock now < a + 30 * minute"
proof -
  have "session_live ss token userID (effective_now clock now)"
    using assms(2) touch_live [of ss clock token userID now idle] by simp
  then obtain s where "map_of ss (session_key token) = Some s" "as_user_id s = userID"
      "effective_now clock now < as_created_at s + 8 * hour"
      "effective_now clock now < as_last_activity s + 30 * minute"
    by (auto simp: session_live_def defaultAuthAbsoluteTimeout_def defaultAuthIdleTimeout_def
        split: option.splits)
  then show ?thesis using loggedD [OF run_logged [OF assms(1)]] by blast
qed

text \<open>
  C5. A request is let through only on a session that the same user started less than eight hours
  before and used less than thirty minutes before: over every run of the session store, when
  \<open>TouchAuthSession\<close> answers true, the log holds the creation of a session under the key of this token
  for this user less than 8 hours earlier, and an activity on it (its creation or a request let
  through) less than 30 minutes earlier.
\<close>

theorem session_lifetime:
  assumes "session_run C A ss"
    and "TouchAuthSession ss clock token userID now idle = (Inr True, ss')"
  shows "\<exists>c a. (session_key token, userID, c) \<in> set C \<and> effective_now clock now < c + 8 * hour \<and>
    (session_key token, userID, a) \<in> set A \<and> effective_now clock now < a + 30 * minute"
  using assms by (rule lifetime_log)

section \<open>Sessions that stay dead\<close>

text \<open>One operation of the store that does not start a session under the key \<open>k\<close>.\<close>

inductive session_step :: "string \<Rightarrow> auth_sessions \<Rightarrow> auth_sessions \<Rightarrow> bool" for k where
  step_create: "CreateAuthSession ss rnd clock input = (r, ss') \<Longrightarrow>
     \<forall>token. r = Inr token \<longrightarrow> session_key token \<noteq> k \<Longrightarrow> session_step k ss ss'"
| step_touch: "TouchAuthSession ss clock token userID now idle = (r, ss') \<Longrightarrow> session_step k ss ss'"
| step_revoke: "session_step k ss (RevokeAuthSession ss clock token userID reason now)"

lemma step_at_key:
  assumes "session_step k ss ss'"
  shows "case map_of ss k of
      None \<Rightarrow> map_of ss' k = None
    | Some s \<Rightarrow> \<exists>s'. map_of ss' k = Some s' \<and> as_user_id s' = as_user_id s \<and>
        as_sso_subject s' = as_sso_subject s \<and> as_created_at s' = as_created_at s \<and>
        (as_revoked_at s \<noteq> 0 \<longrightarrow> as_revoked_at s' = as_revoked_at s)"
  using assms
proof (cases rule: session_step.cases)
  case (step_create rnd clock input r)
  from create_state [OF step_create(1)] step_create(2) show ?thesis
    by (auto simp: map_of_update split: option.splits)
next
  case (step_touch clock token userID now idle r)
  from touch_state [OF step_touch] show ?thesis
    by (auto simp: map_of_update split: option.splits)
next
  case (step_revoke clock token userID reason now)
  then show ?thesis
    by (auto simp: RevokeAuthSession_def Let_def map_of_update split: option.splits)
qed

definition dead_for :: "string \<Rightarrow> int \<Rightarrow> auth_sessions \<Rightarrow> bool" where
  "dead_for k userID ss \<longleftrightarrow>
     (case map_of ss k of None \<Rightarrow> True | Some s \<Rightarrow> as_user_id s \<noteq> userID \<or> as_revoked_at s \<noteq> 0)"

lemma dead_step: "session_step k ss ss' \<Longrightarrow> dead_for k userID ss \<Longrightarrow> dead_for k userID ss'"
  using step_at_key [of k ss ss'] by (auto simp: dead_for_def split: option.splits)

lemma dead_steps: "(session_step k)\<^sup>*\<^sup>* ss ss' \<Longrightarrow> dead_for k userID ss \<Longrightarrow> dead_for k userID ss'"
  by (induction rule: rtranclp_induct) (auto intro: dead_step)

lemma revoke_dead:
  "effective_now clock now \<noteq> 0 \<Longrightarrow>
   dead_for (session_key token) userID (RevokeAuthSession ss clock token userID reason now)"
  by (auto simp: dead_for_def RevokeAuthSession_def Let_def map_of_update split: option.splits)

lemma dead_touch:
  "dead_for (session_key token) userID ss \<Longrightarrow>
   TouchAuthSession ss clock token userID now idle = (Inr False, ss)"
  by (auto simp: dead_for_def TouchAuthSession_def Let_def split: option.splits)

text \<open>
  A revocation is final: after \<open>RevokeAuthSession\<close>, whatever other operations follow (short of
  starting a session under the same digest), every request with that token and user is refused as an
  ended session and the status endpoint reports the idle timeout.
\<close>

theorem revocation_final:
  assumes "(session_step (session_key token))\<^sup>*\<^sup>* (RevokeAuthSession ss clock token userID reason now) ss'"
    and "effective_now clock now \<noteq> 0"
  shows "TouchAuthSession ss' clock' token userID now' idle = (Inr False, ss') \<and>
    GetAuthSessionStatus ss' token userID now' = Inl ErrSessionIdleTimeout"
proof -
  have dead: "dead_for (session_key token) userID ss'"
    using dead_steps [OF assms(1) revoke_dead [OF assms(2)]] .
  then have "GetAuthSessionStatus ss' token userID now' = Inl ErrSessionIdleTimeout"
    by (auto simp: dead_for_def GetAuthSessionStatus_def split: option.splits)
  with dead_touch [OF dead] show ?thesis by blast
qed

section \<open>One session per credential\<close>

definition credential_free :: "auth_sessions \<Rightarrow> bool" where
  "credential_free ss \<longleftrightarrow>
     (\<forall>k k' s s'. map_of ss k = Some s \<longrightarrow> map_of ss k' = Some s' \<longrightarrow>
        isSSOCredentialFingerprint (as_sso_subject s) \<longrightarrow>
        as_user_id s = as_user_id s' \<longrightarrow> as_sso_subject s = as_sso_subject s' \<longrightarrow> k = k')"

lemma credential_usedI:
  "map_of ss k = Some s \<Longrightarrow> as_user_id s = sc_user_id input \<Longrightarrow> as_sso_subject s = sc_sso_subject input \<Longrightarrow>
   credential_used ss input"
  unfolding credential_used_def by (auto dest!: map_of_SomeD)

lemma credential_free_same:
  assumes "credential_free ss" "map_of ss k = Some s"
    and "as_user_id s' = as_user_id s" "as_sso_subject s' = as_sso_subject s"
  shows "credential_free (AList.update k s' ss)"
  using assms unfolding credential_free_def map_of_update by (metis option.inject)

lemma credential_free_new:
  assumes "credential_free ss"
    and "isSSOCredentialFingerprint (sc_sso_subject input) \<longrightarrow> \<not> credential_used ss input"
  shows "credential_free (AList.update k (new_session input t) ss)"
proof -
  have other: "\<not> (as_user_id s = sc_user_id input \<and> as_sso_subject s = sc_sso_subject input)"
    if "isSSOCredentialFingerprint (sc_sso_subject input)" "map_of ss k' = Some s" for k' s
    using that assms(2) credential_usedI by blast
  show ?thesis
    unfolding credential_free_def map_of_update
  proof (intro allI impI)
    fix j j' s s'
    assume *: "(if j = k then Some (new_session input t) else map_of ss j) = Some s"
        "(if j' = k then Some (new_session input t) else map_of ss j') = Some s'"
        "isSSOCredentialFingerprint (as_sso_subject s)" "as_user_id s = as_user_id s'"
        "as_sso_subject s = as_sso_subject s'"
    then show "j = j'"
      using other [of j s] other [of j' s'] assms(1)
      by (cases "j = k"; cases "j' = k") (auto simp: credential_free_def)
  qed
qed

lemma run_credential_free: "session_run C A ss \<Longrightarrow> credential_free ss"
proof (induction rule: session_run.induct)
  case run_start
  then show ?case by (simp add: credential_free_def newMemoryAuthSessionStore_def)
next
  case (run_create C A ss rnd clock input token ss' entry)
  then show ?case using create_state [OF run_create(2)] by (auto intro: credential_free_new)
next
  case (run_create_refused C A ss rnd clock input e ss')
  then show ?case using create_state [OF run_create_refused(2)] by auto
next
  case (run_touch C A ss clock token userID now idle ss')
  then show ?case using touch_state [OF run_touch(2)] by (auto intro: credential_free_same)
next
  case (run_touch_refused C A ss clock token userID now idle r ss')
  then show ?case using touch_dead_same [of ss clock token userID now idle] by simp
next
  case (run_revoke C A ss clock token userID reason now)
  then show ?case
    using revoke_state [of ss clock token userID reason now]
    by (elim disjE exE conjE) (simp_all add: credential_free_same)
qed

lemma credential_kept:
  assumes "(session_step k)\<^sup>*\<^sup>* ss ss'"
    and "\<exists>s. map_of ss k = Some s \<and> as_user_id s = u \<and> as_sso_subject s = subj"
  shows "\<exists>s. map_of ss' k = Some s \<and> as_user_id s = u \<and> as_sso_subject s = subj"
  using assms
proof (induction rule: rtranclp_induct)
  case (step ss1 ss2)
  then show ?case using step_at_key [OF step.hyps(2)] by (auto split: option.splits)
qed simp

lemma reuse_refused:
  assumes "CreateAuthSession ss rnd clock input = (Inr token, ss1)"
    and "isSSOCredentialFingerprint (sc_sso_subject input)"
    and "(session_step (session_key token))\<^sup>*\<^sup>* ss1 ss2"
    and "sc_user_id again = sc_user_id input" "sc_sso_subject again = sc_sso_subject input"
  shows "CreateAuthSession ss2 (Some bytes) clock' again = (Inl ErrSessionReauthenticationRequired, ss2)"
proof -
  have "ss1 = AList.update (session_key token) (new_session input (effective_now clock (sc_now input))) ss"
    using create_state [OF assms(1)] by auto
  then have "\<exists>s. map_of ss1 (session_key token) = Some s \<and> as_user_id s = sc_user_id input \<and>
      as_sso_subject s = sc_sso_subject input"
    by (simp add: map_of_update)
  from credential_kept [OF assms(3) this] obtain s where
    "map_of ss2 (session_key token) = Some s" "as_user_id s = sc_user_id input"
    "as_sso_subject s = sc_sso_subject input" by blast
  then have "credential_used ss2 again"
    using credential_usedI [of ss2 "session_key token" s again] assms(4,5) by simp
  then show ?thesis
    using assms(2,5) by (simp add: CreateAuthSession_def newAuthSessionToken_def Let_def)
qed

text \<open>
  C9. An SSO credential starts one session: in every run no two sessions of a user hold the same
  credential fingerprint, and once a session was started with a credential every later login of that
  user with it is refused and changes nothing, whatever happened to the session in between (it may have
  ended or been revoked), as long as its digest is not reused.
\<close>

theorem credential_single_use:
  assumes "session_run C A ss" "CreateAuthSession ss rnd clock input = (Inr token, ss1)"
    and "isSSOCredentialFingerprint (sc_sso_subject input)"
    and "(session_step (session_key token))\<^sup>*\<^sup>* ss1 ss2"
    and "sc_user_id again = sc_user_id input" "sc_sso_subject again = sc_sso_subject input"
  shows "credential_free ss1 \<and>
    CreateAuthSession ss2 (Some bytes) clock' again = (Inl ErrSessionReauthenticationRequired, ss2)"
proof
  show "credential_free ss1"
    by (rule run_credential_free, rule run_create [OF assms(1,2)]) (rule refl)
  show "CreateAuthSession ss2 (Some bytes) clock' again = (Inl ErrSessionReauthenticationRequired, ss2)"
    using assms(2-6) by (rule reuse_refused)
qed

section \<open>The status agrees with the requests\<close>

lemma status_live:
  "(\<exists>st. GetAuthSessionStatus ss token userID now = Inr st) \<longleftrightarrow> session_live ss token userID (now + 999999)"
proof (cases "map_of ss (session_key token)")
  case None
  then show ?thesis by (simp add: GetAuthSessionStatus_def session_live_def)
next
  case (Some s)
  have pos: "milliseconds (time_sub t now) \<le> 0 \<longleftrightarrow> \<not> now + 999999 < t" for t
    unfolding not_less [symmetric] milliseconds_pos millisecond_def by linarith
  have "(if a < b then a else b) \<le> 0 \<longleftrightarrow> a \<le> 0 \<or> b \<le> 0" for a b :: int by auto
  with Some pos show ?thesis
    by (simp add: GetAuthSessionStatus_def session_live_def Let_def) blast
qed

text \<open>
  The status endpoint and the requests agree up to the last millisecond: \<open>GetAuthSessionStatus\<close>
  reports remaining times at a moment exactly when \<open>TouchAuthSession\<close> 999,999 nanoseconds later would
  still let a request through (the status rounds down to milliseconds and takes 0 for the end).
\<close>

theorem status_agrees_with_touch:
  assumes "0 < now"
  shows "(\<exists>st. GetAuthSessionStatus ss token userID now = Inr st) \<longleftrightarrow>
    fst (TouchAuthSession ss clock token userID (now + 999999) idle) = Inr True"
  using assms by (simp add: status_live touch_live effective_now_def)

section \<open>The interface the handlers use\<close>

text \<open>
  \<open>authSessionStore\<close> as the request handlers rely on it.  \<open>ended token userID st\<close>: no request of the
  user with the token will be let through.  A revocation ends a session, an ended session refuses, and
  no later request or revocation brings it back.
\<close>

locale session_store =
  fixes touch :: "'st \<Rightarrow> gotime \<Rightarrow> string \<Rightarrow> int \<Rightarrow> gotime \<Rightarrow> duration \<Rightarrow> (auth_error + bool) \<times> 'st"
    and revoke :: "'st \<Rightarrow> gotime \<Rightarrow> string \<Rightarrow> int \<Rightarrow> string \<Rightarrow> gotime \<Rightarrow> 'st"
    and ended :: "string \<Rightarrow> int \<Rightarrow> 'st \<Rightarrow> bool"
  assumes touch_ended: "ended token userID st \<Longrightarrow> touch st clock token userID now idle = (Inr False, st)"
    and revoke_ends: "effective_now clock now \<noteq> 0 \<Longrightarrow>
      ended token userID (revoke st clock token userID reason now)"
    and touch_keeps: "ended token userID st \<Longrightarrow> ended token userID (snd (touch st clock token' userID' now idle))"
    and revoke_keeps: "ended token userID st \<Longrightarrow> ended token userID (revoke st clock token' userID' reason now)"

definition session_ended :: "string \<Rightarrow> int \<Rightarrow> auth_sessions \<Rightarrow> bool" where
  "session_ended token userID ss \<longleftrightarrow> dead_for (session_key token) userID ss"

interpretation mem_sessions: session_store TouchAuthSession RevokeAuthSession session_ended
proof
  fix token userID st clock now idle token' userID' reason
  show "session_ended token userID st \<Longrightarrow> TouchAuthSession st clock token userID now idle = (Inr False, st)"
    by (simp add: session_ended_def dead_touch)
  show "effective_now clock now \<noteq> 0 \<Longrightarrow>
      session_ended token userID (RevokeAuthSession st clock token userID reason now)"
    by (simp add: session_ended_def revoke_dead)
  show "session_ended token userID st \<Longrightarrow>
      session_ended token userID (snd (TouchAuthSession st clock token' userID' now idle))"
    unfolding session_ended_def
    by (rule dead_step [OF step_touch [OF prod.collapse [symmetric]]])
  show "session_ended token userID st \<Longrightarrow>
      session_ended token userID (RevokeAuthSession st clock token' userID' reason now)"
    unfolding session_ended_def by (rule dead_step [OF step_revoke])
qed

section \<open>A concrete run\<close>

text \<open>User 7 logs in at 1,000 seconds, comes back 20 minutes later and logs out.\<close>

definition demo_create :: AuthSessionCreate where
  "demo_create = \<lparr>sc_user_id = 7, sc_sso_subject = ssoCredentialFingerprint ''jwt'', sc_ip_address = [],
     sc_user_agent = [], sc_now = 1000 * second\<rparr>"

definition demo_sessions :: auth_sessions where
  "demo_sessions = [(session_key (raw_url_encode ''seed''), new_session demo_create (1000 * second))]"

lemma demo_created:
  "CreateAuthSession newMemoryAuthSessionStore (Some ''seed'') 0 demo_create =
     (Inr (raw_url_encode ''seed''), demo_sessions)"
  by (simp add: CreateAuthSession_def newAuthSessionToken_def newMemoryAuthSessionStore_def
      credential_used_def demo_sessions_def effective_now_def demo_create_def second_def)

lemma demo_run:
  "session_run [(session_key (raw_url_encode ''seed''), 7, 1000 * second)]
     [(session_key (raw_url_encode ''seed''), 7, 1000 * second)] demo_sessions"
  by (rule run_create [OF run_start demo_created]) (simp add: effective_now_def demo_create_def second_def)

lemma demo_touch:
  "fst (TouchAuthSession demo_sessions 0 (raw_url_encode ''seed'') 7 (2200 * second) 0) = Inr True"
  by (simp add: touch_live session_live_def demo_sessions_def effective_now_def new_session_def
      demo_create_def defaultAuthIdleTimeout_def defaultAuthAbsoluteTimeout_def second_def minute_def hour_def)

theorem session_lifetime_witness:
  "\<exists>c a. (session_key (raw_url_encode ''seed''), 7, c) \<in>
       set [(session_key (raw_url_encode ''seed''), 7, 1000 * second)] \<and> 2200 * second < c + 8 * hour \<and>
     (session_key (raw_url_encode ''seed''), 7, a) \<in>
       set [(session_key (raw_url_encode ''seed''), 7, 1000 * second)] \<and> 2200 * second < a + 30 * minute"
  using session_lifetime [OF demo_run, of 0 "raw_url_encode ''seed''" 7 "2200 * second" 0] demo_touch
  by (simp add: effective_now_def second_def prod_eq_iff)

theorem revocation_final_witness:
  "TouchAuthSession (RevokeAuthSession demo_sessions 0 (raw_url_encode ''seed'') 7 ''manual_logout'' (2200 * second))
     0 (raw_url_encode ''seed'') 7 (2201 * second) 0 =
   (Inr False, RevokeAuthSession demo_sessions 0 (raw_url_encode ''seed'') 7 ''manual_logout'' (2200 * second))"
  using revocation_final [OF rtranclp.rtrancl_refl, of 0 "2200 * second"]
  by (simp add: effective_now_def second_def)

theorem credential_single_use_witness:
  "CreateAuthSession demo_sessions (Some ''other'') 0 demo_create =
     (Inl ErrSessionReauthenticationRequired, demo_sessions)"
  using credential_single_use [OF run_start demo_created _ rtranclp.rtrancl_refl refl refl]
  by (simp add: demo_create_def fingerprint_recognised)

theorem status_agrees_with_touch_witness:
  "\<exists>st. GetAuthSessionStatus demo_sessions (raw_url_encode ''seed'') 7 (2200 * second - 999999) = Inr st"
  using status_agrees_with_touch [of "2200 * second - 999999" demo_sessions "raw_url_encode ''seed''" 7 0 0]
    demo_touch
  by (simp add: second_def)

end
