(* ===== verification/GoRegex.thy ===== *)
theory GoRegex
  imports GoStrings
begin

text \<open>
  What the program uses of \<open>regexp\<close>: \<open>MatchString\<close> of patterns in the case-insensitive mode \<open>(?i)\<close>.  A
  pattern is matched on the code points of the text (an invalid byte is U+FFFD); the zero-width tests
  look at the code point before the position, which is part of the matcher's state.
\<close>

datatype regex =
    RxOne
  | RxSet "(int \<times> int) list"
  | RxNot "(int \<times> int) list"
  | RxCat regex regex
  | RxAlt regex regex
  | RxStar regex
  | RxBegin
  | RxWordBoundary

type_synonym rx_state = "int option \<times> int list"

definition in_ranges :: "(int \<times> int) list \<Rightarrow> int \<Rightarrow> bool" where
  "in_ranges rs c \<longleftrightarrow> list_ex (\<lambda>(lo, hi). lo \<le> c \<and> c \<le> hi) rs"

definition word_rune :: "int \<Rightarrow> bool" where
  "word_rune c \<longleftrightarrow> in_ranges [(48, 57), (65, 90), (95, 95), (97, 122)] c"

definition rx_char :: "(int \<Rightarrow> bool) \<Rightarrow> rx_state \<Rightarrow> rx_state list" where
  "rx_char p st = (case st of (_, c # cs) \<Rightarrow> if p c then [(Some c, cs)] else [] | (_, []) \<Rightarrow> [])"

text \<open>The states reached by repeating a step that reads something, at most \<open>fuel\<close> times.\<close>

fun rx_iterate :: "(rx_state \<Rightarrow> rx_state list) \<Rightarrow> nat \<Rightarrow> rx_state \<Rightarrow> rx_state list" where
  "rx_iterate f 0 st = [st]"
| "rx_iterate f (Suc n) st =
     st # concat (map (rx_iterate f n) (filter (\<lambda>st'. length (snd st') < length (snd st)) (f st)))"

text \<open>The states in which a match started in a state can end.\<close>

fun rx_ends :: "regex \<Rightarrow> rx_state \<Rightarrow> rx_state list" where
  "rx_ends RxOne st = [st]"
| "rx_ends (RxSet rs) st = rx_char (in_ranges rs) st"
| "rx_ends (RxNot rs) st = rx_char (\<lambda>c. \<not> in_ranges rs c) st"
| "rx_ends (RxCat a b) st = concat (map (rx_ends b) (rx_ends a st))"
| "rx_ends (RxAlt a b) st = rx_ends a st @ rx_ends b st"
| "rx_ends (RxStar a) st = rx_iterate (rx_ends a) (length (snd st)) st"
| "rx_ends RxBegin st = (if fst st = None then [st] else [])"
| "rx_ends RxWordBoundary st =
     (let before = (case fst st of None \<Rightarrow> False | Some c \<Rightarrow> word_rune c);
          after = (case snd st of [] \<Rightarrow> False | c # _ \<Rightarrow> word_rune c)
      in if before \<noteq> after then [st] else [])"

fun rx_search :: "regex \<Rightarrow> int option \<Rightarrow> int list \<Rightarrow> bool" where
  "rx_search r p [] \<longleftrightarrow> rx_ends r (p, []) \<noteq> []"
| "rx_search r p (c # cs) \<longleftrightarrow> rx_ends r (p, c # cs) \<noteq> [] \<or> rx_search r (Some c) cs"

definition match_string :: "regex \<Rightarrow> string \<Rightarrow> bool" where
  "match_string r s \<longleftrightarrow> rx_search r None (runes s)"

section \<open>Notation of the patterns\<close>

text \<open>A letter in the mode \<open>(?i)\<close>: k and s also fold to the Kelvin sign and the long s.\<close>

definition fold_letter :: "char \<Rightarrow> (int \<times> int) list" where
  "fold_letter c =
     (let b = byte c in
      if 97 \<le> b \<and> b \<le> 122
      then [(b, b), (b - 32, b - 32)] @ (if b = 107 then [(0x212A, 0x212A)] else if b = 115 then [(0x17F, 0x17F)] else [])
      else [(b, b)])"

definition rx_text :: "string \<Rightarrow> regex" where
  "rx_text s = foldr (\<lambda>c r. RxCat (RxSet (fold_letter c)) r) s RxOne"

definition rx_opt :: "regex \<Rightarrow> regex" where
  "rx_opt r = RxAlt r RxOne"

definition rx_plus :: "regex \<Rightarrow> regex" where
  "rx_plus r = RxCat r (RxStar r)"

fun rx_cats :: "regex list \<Rightarrow> regex" where
  "rx_cats [] = RxOne"
| "rx_cats (r # rs) = RxCat r (rx_cats rs)"

fun rx_alts :: "regex list \<Rightarrow> regex" where
  "rx_alts [] = RxNot [(0, 0x10FFFF)]"
| "rx_alts [r] = r"
| "rx_alts (r # s # rs) = RxAlt r (rx_alts (s # rs))"

text \<open>\<open>[a-z0-9]\<close> in the mode \<open>(?i)\<close>, and \<open>\s\<close>.\<close>

definition alnum_ranges :: "(int \<times> int) list" where
  "alnum_ranges = [(97, 122), (65, 90), (48, 57), (0x17F, 0x17F), (0x212A, 0x212A)]"

definition rx_space :: regex where
  "rx_space = RxSet [(9, 10), (12, 13), (32, 32)]"

section \<open>Patterns that need a code point\<close>

text \<open>A code point that the pattern has to read, so that a text without it has no match.\<close>

fun rx_needs :: "(int \<Rightarrow> bool) \<Rightarrow> regex \<Rightarrow> bool" where
  "rx_needs P (RxSet rs) \<longleftrightarrow> list_all (\<lambda>(lo, hi). lo = hi \<and> P lo) rs"
| "rx_needs P (RxCat a b) \<longleftrightarrow> rx_needs P a \<or> rx_needs P b"
| "rx_needs P (RxAlt a b) \<longleftrightarrow> rx_needs P a \<and> rx_needs P b"
| "rx_needs P _ \<longleftrightarrow> False"

lemma rx_iterate_subset:
  assumes "\<And>st st'. st' \<in> set (f st) \<Longrightarrow> set (snd st') \<subseteq> set (snd st)"
  shows "st' \<in> set (rx_iterate f n st) \<Longrightarrow> set (snd st') \<subseteq> set (snd st)"
proof (induction n arbitrary: st)
  case (Suc n)
  from Suc.prems consider "st' = st" | st1 where "st1 \<in> set (f st)" "st' \<in> set (rx_iterate f n st1)"
    by auto
  then show ?case
  proof cases
    case 2
    then show ?thesis using Suc.IH [of st1] assms [of st1 st] by blast
  qed simp
qed simp

lemma rx_ends_subset: "st' \<in> set (rx_ends r st) \<Longrightarrow> set (snd st') \<subseteq> set (snd st)"
proof (induction r arbitrary: st st')
  case (RxCat a b)
  then obtain st1 where "st1 \<in> set (rx_ends a st)" "st' \<in> set (rx_ends b st1)" by auto
  then show ?case using RxCat.IH by blast
next
  case (RxAlt a b)
  then show ?case by (metis Un_iff rx_ends.simps(5) set_append)
next
  case (RxStar r)
  show ?case
    by (rule rx_iterate_subset [of "rx_ends r"]) (use RxStar in auto)
qed (auto simp: rx_char_def Let_def split: list.splits if_splits)

lemma rx_needs_ends:
  "rx_needs P r \<Longrightarrow> \<forall>c \<in> set (snd st). \<not> P c \<Longrightarrow> rx_ends r st = []"
proof (induction r arbitrary: st)
  case (RxSet rs)
  then show ?case
    by (auto simp: rx_char_def in_ranges_def list_all_iff list_ex_iff split: prod.splits list.splits) force
next
  case (RxCat a b)
  show ?case
  proof (cases "rx_needs P a")
    case True
    then show ?thesis using RxCat by simp
  next
    case False
    then have b: "rx_needs P b" using RxCat.prems(1) by simp
    have "rx_ends b st1 = []" if "st1 \<in> set (rx_ends a st)" for st1
      using RxCat.IH(2) [OF b] RxCat.prems(2) rx_ends_subset [OF that] by blast
    then show ?thesis by auto
  qed
qed auto

lemma rx_needs_search:
  "rx_needs P r \<Longrightarrow> \<forall>c \<in> set cs. \<not> P c \<Longrightarrow> \<not> rx_search r p cs"
  by (induction cs arbitrary: p) (auto simp: rx_needs_ends)

end
