(* ===== verification/GoJsonDecode.thy ===== *)
theory GoJsonDecode
  imports GoJson
begin

text \<open>
  What the program uses of \<open>json.Unmarshal\<close>: the members of an object as raw messages, the text of a
  string literal, and whether a number fits a \<open>float64\<close>.  \<open>Unmarshal\<close> first checks the whole text, so the
  functions below only read texts that \<open>json_compact\<close> accepts.
\<close>

section \<open>String literals\<close>

definition hex_val :: "char \<Rightarrow> int" where
  "hex_val c =
     (if byte c \<le> 57 then byte c - 48 else if byte c \<le> 70 then byte c - 55 else byte c - 87)"

definition hex4 :: "char \<Rightarrow> char \<Rightarrow> char \<Rightarrow> char \<Rightarrow> int" where
  "hex4 a b c d = ((hex_val a * 16 + hex_val b) * 16 + hex_val c) * 16 + hex_val d"

definition surrogate :: "int \<Rightarrow> bool" where
  "surrogate r \<longleftrightarrow> 0xD800 \<le> r \<and> r < 0xE000"

text \<open>\<open>utf16.DecodeRune\<close>; the replacement character for an invalid pair.\<close>

definition decode_surrogates :: "int \<Rightarrow> int \<Rightarrow> int" where
  "decode_surrogates r1 r2 =
     (if 0xD800 \<le> r1 \<and> r1 < 0xDC00 \<and> 0xDC00 \<le> r2 \<and> r2 < 0xE000
      then (r1 - 0xD800) * 1024 + (r2 - 0xDC00) + 0x10000 else rune_error)"

definition unescaped :: "char \<Rightarrow> char" where
  "unescaped e =
     (if e = CHR ''b'' then chr 8 else if e = CHR ''f'' then chr 12 else if e = CHR ''n'' then chr 10
      else if e = CHR ''r'' then chr 13 else if e = CHR ''t'' then chr 9 else e)"

text \<open>The text of a literal after its opening quote, up to the closing one.\<close>

function json_unquote :: "string \<Rightarrow> string" where
  "json_unquote [] = []"
| "json_unquote (c # cs) =
     (if c = quote then []
      else if c = backslash then
        (case cs of
           [] \<Rightarrow> []
         | e # rest \<Rightarrow>
             if e = CHR ''u'' then
               (case rest of
                  h1 # h2 # h3 # h4 # rest' \<Rightarrow>
                    let r = hex4 h1 h2 h3 h4 in
                    if surrogate r then
                      (case rest' of
                         b # u # g1 # g2 # g3 # g4 # rest'' \<Rightarrow>
                           if b = backslash \<and> u = CHR ''u'' \<and> decode_surrogates r (hex4 g1 g2 g3 g4) \<noteq> rune_error
                           then encode_rune (decode_surrogates r (hex4 g1 g2 g3 g4)) @ json_unquote rest''
                           else encode_rune rune_error @ json_unquote rest'
                       | _ \<Rightarrow> encode_rune rune_error @ json_unquote rest')
                    else encode_rune r @ json_unquote rest'
                | _ \<Rightarrow> [])
             else unescaped e # json_unquote rest)
      else if byte c < 128 then c # json_unquote cs
      else case decode_rune (c # cs) of
        (r, w) \<Rightarrow> encode_rune r @ json_unquote (drop (w - 1) cs))"
  by pat_completeness auto
termination
  by (relation "measure length") auto

declare json_unquote.simps(2) [simp del]

section \<open>The members of an object\<close>

text \<open>The members after the opening brace, as pairs of key and raw value; the text was checked before.\<close>

fun object_members :: "nat \<Rightarrow> string \<Rightarrow> (string \<times> string) list" where
  "object_members 0 s = []"
| "object_members (Suc fuel) s =
     (case skip_ws s of
        [] \<Rightarrow> []
      | c # cs \<Rightarrow>
          if c \<noteq> quote then []
          else (case js_string cs of
            None \<Rightarrow> []
          | Some (_, r1) \<Rightarrow>
              (let val = skip_ws (drop 1 (skip_ws r1)) in
               case js_value (2 * length val + 2) 10000 val of
                 None \<Rightarrow> []
               | Some (_, r2) \<Rightarrow>
                   (json_unquote cs, take (length val - length r2) val) #
                   (case skip_ws r2 of
                      e # es \<Rightarrow> if e = CHR '','' then object_members fuel es else []
                    | [] \<Rightarrow> []))))"

text \<open>
  \<open>json.Unmarshal\<close> into a \<open>map[string]json.RawMessage\<close>: \<open>None\<close> for an error; the later of two equal
  keys wins, and \<open>null\<close> leaves the map empty.
\<close>

definition unmarshal_raw_map :: "string \<Rightarrow> (string \<times> string) list option" where
  "unmarshal_raw_map s =
     (if json_compact s = None then None
      else case skip_ws s of
        c # cs \<Rightarrow>
          if c = CHR ''{''
          then Some (fold (\<lambda>(k, v). AList.update k v) (object_members (length cs) cs) [])
          else if c = CHR ''n'' then Some [] else None
      | [] \<Rightarrow> None)"

section \<open>Numbers\<close>

text \<open>The exponent as \<open>strconv.ParseFloat\<close> reads it: digits beyond 10000 are dropped.\<close>

definition capped_exponent :: "string \<Rightarrow> int" where
  "capped_exponent ds = foldl (\<lambda>e d. if e < 10000 then e * 10 + (byte d - 48) else e) 0 ds"

definition exponent_of :: "string \<Rightarrow> int" where
  "exponent_of s =
     (case s of
        e # d # ds \<Rightarrow>
          if d = CHR ''-'' then - capped_exponent ds
          else if d = CHR ''+'' then capped_exponent ds
          else capped_exponent (d # ds)
      | _ \<Rightarrow> 0)"

text \<open>
  \<open>strconv.ParseFloat\<close> reports a number out of range: its absolute value is at least
  \<open>2 ^ 1024 - 2 ^ 970\<close>, half a unit above the largest \<open>float64\<close>.  The decimal digits and their number
  decide the clear cases, so that the power is only computed near the limit.
\<close>

definition float_overflows :: "string \<Rightarrow> bool" where
  "float_overflows num =
     (let body = (case num of c # cs \<Rightarrow> if c = CHR ''-'' then cs else num | [] \<Rightarrow> num);
          mant = takeWhile (\<lambda>c. c \<noteq> CHR ''e'' \<and> c \<noteq> CHR ''E'') body;
          ip = takeWhile (\<lambda>c. c \<noteq> CHR ''.'') mant;
          fp = drop (length ip + 1) mant;
          ds = dropWhile (\<lambda>c. c = CHR ''0'') (ip @ fp);
          ex = exponent_of (drop (length mant) body) - int (length fp)
      in if ds = [] then False
         else if int (length ds) + ex > 400 then True
         else if int (length ds) + ex < 300 then False
         else if 0 \<le> ex then dec_value ds * 10 ^ nat ex \<ge> 2 ^ 1024 - 2 ^ 970
         else dec_value ds \<ge> (2 ^ 1024 - 2 ^ 970) * 10 ^ nat (- ex))"

lemma unmarshal_raw_map_distinct: "unmarshal_raw_map s = Some m \<Longrightarrow> distinct (map fst m)"
proof -
  have "distinct (map fst al) \<Longrightarrow> distinct (map fst (fold (\<lambda>(k, v). AList.update k v) kvs al))" for kvs :: "(string \<times> string) list" and al
    by (induction kvs arbitrary: al) (auto simp: AList.distinct_update)
  then show "unmarshal_raw_map s = Some m \<Longrightarrow> distinct (map fst m)"
    by (auto simp: unmarshal_raw_map_def split: list.splits if_splits)
qed

end
