(* ===== verification/GoSort.thy ===== *)
theory GoSort
  imports GoStrings "HOL-Library.Product_Lexorder" "HOL-Library.Multiset"
begin

text \<open>
  What the program uses of package \<open>sort\<close> and of \<open>strings.Join\<close>.  The order of \<open>string\<close> is that of the
  bytes, as in Go, so a \<open>sort.Slice\<close> whose comparison looks at keys in turn is \<open>sort_key\<close> of the tuple of
  the keys (pairs compare lexicographically).  \<open>sort.Slice\<close> is not stable: where two elements can have
  equal keys the program leaves their order open and the model shows one outcome.
\<close>

text \<open>\<open>sort.Strings\<close>\<close>

definition sort_strings :: "string list \<Rightarrow> string list" where
  "sort_strings xs = sort xs"

lemma sort_strings_unique: "mset xs = mset ys \<Longrightarrow> sort_strings xs = sort_strings ys"
  unfolding sort_strings_def by (intro properties_for_sort) simp_all

lemma set_sort_strings [simp]: "set (sort_strings xs) = set xs"
  by (simp add: sort_strings_def)

lemma distinct_sort_strings [simp]: "distinct (sort_strings xs) = distinct xs"
  by (simp add: sort_strings_def)

text \<open>\<open>strings.Join\<close>\<close>

fun join :: "string \<Rightarrow> string list \<Rightarrow> string" where
  "join sep [] = []"
| "join sep [x] = x"
| "join sep (x # y # ys) = x @ sep @ join sep (y # ys)"

text \<open>\<open>strings.Split\<close> at one character.\<close>

fun split_on :: "char \<Rightarrow> string \<Rightarrow> string list" where
  "split_on c [] = [[]]"
| "split_on c (x # xs) =
     (if x = c then [] # split_on c xs
      else case split_on c xs of part # parts \<Rightarrow> (x # part) # parts | [] \<Rightarrow> [[x]])"

lemma split_on_nonempty [simp]: "split_on c s \<noteq> []"
  by (cases s) (auto split: list.split)

lemma split_on_append: "split_on c (xs @ [c] @ ys) = split_on c xs @ split_on c ys"
proof (induction xs)
  case (Cons x xs)
  then show ?case by (cases "split_on c xs") auto
qed simp

lemma split_on_no_sep: "c \<notin> set s \<Longrightarrow> split_on c s = [s]"
  by (induction s) auto

lemma join_split: "join [c] (split_on c s) = s"
proof (induction s)
  case (Cons x xs)
  obtain part parts where p: "split_on c xs = part # parts" by (cases "split_on c xs") auto
  then show ?case using Cons.IH by (cases parts) auto
qed simp

end
