(* ===== verification/App_Audit.thy ===== *)
theory App_Audit
  imports GoRegex GoJsonDecode GoTime GoSort
begin

text \<open>
  Audit events (\<^verbatim>\<open>internal/auditlog/auditlog.go\<close>) and the pure part of the audit log of the application
  (\<^verbatim>\<open>internal/app/audit_logs.go\<close>): what is kept of the metadata and the details of an event, and the
  page of a listing.  A \<open>nil\<close> raw message is the empty string.
\<close>

section \<open>Data\<close>

record AuditEvent =
  ev_id :: int
  ev_user_id :: "int option"
  ev_actor_display_name :: string
  ev_user_email :: string
  ev_action :: string
  ev_entity_type :: string
  ev_entity_id :: "int option"
  ev_store_id :: "int option"
  ev_external_org_id :: string
  ev_channel_id :: "int option"
  ev_asset_logical_key :: string
  ev_ip_address :: string
  ev_user_agent :: string
  ev_request_id :: string
  ev_result :: string
  ev_detail_json :: string
  ev_created_at :: gotime

record AuditLogFilter =
  lf_start_at :: gotime
  lf_end_at :: gotime
  lf_user_id :: "int option"
  lf_action :: string
  lf_page :: int
  lf_page_size :: int

record AuditLogPage =
  lp_items :: "AuditEvent list"
  lp_page :: int
  lp_page_size :: int
  lp_total :: int

definition defaultAuditLogPageSize :: int where "defaultAuditLogPageSize = 20"
definition maxAuditLogPageSize :: int where "maxAuditLogPageSize = 100"

definition internalAuditActionSnapshotRefreshPrepare :: string where
  "internalAuditActionSnapshotRefreshPrepare = ''snapshot.refresh.prepare''"

section \<open>The page of a listing\<close>

definition normalizeAuditLogFilter :: "AuditLogFilter \<Rightarrow> AuditLogFilter \<times> int" where
  "normalizeAuditLogFilter f =
     (let page = (if lf_page f < 1 then 1 else lf_page f);
          size0 = (if lf_page_size f \<le> 0 then defaultAuditLogPageSize else lf_page_size f);
          size = (if size0 > maxAuditLogPageSize then maxAuditLogPageSize else size0);
          offset = (if page > 1 then
                      if page - 1 > max_int64 div size then max_int64 else (page - 1) * size
                    else 0)
      in (f\<lparr>lf_page := page, lf_page_size := size, lf_action := trim_space (lf_action f)\<rparr>, offset))"

section \<open>Sensitive values\<close>

text \<open>Two words joined by an optional blank, underscore or minus.\<close>

definition rx_two :: "string \<Rightarrow> string \<Rightarrow> regex" where
  "rx_two a b = rx_cats [rx_text a, rx_opt (RxSet [(32, 32), (95, 95), (45, 45)]), rx_text b]"

definition sensitiveAuditValueAssignmentPattern :: regex where
  "sensitiveAuditValueAssignmentPattern =
     rx_cats
      [RxAlt RxBegin (RxNot alnum_ranges),
       rx_alts [rx_two ''access'' ''token'', rx_two ''client'' ''secret'', rx_two ''user'' ''password'',
         rx_text ''password'', rx_text ''passcode'', rx_text ''token'', rx_text ''authorization'',
         rx_two ''api'' ''key'', rx_text ''secret'', rx_text ''signature'', rx_two ''signed'' ''url'',
         rx_two ''wss'' ''url'', rx_text ''media''],
       RxStar rx_space,
       rx_opt (RxCat (RxSet [(34, 34), (39, 39)]) (RxStar rx_space)),
       RxSet [(58, 58), (61, 61)]]"

definition bearer_ranges :: "(int \<times> int) list" where
  "bearer_ranges = alnum_ranges @ [(46, 46), (95, 95), (126, 126), (43, 43), (47, 47), (61, 61), (45, 45)]"

definition bearerCredentialPattern :: regex where
  "bearerCredentialPattern =
     rx_cats ([RxWordBoundary, rx_text ''bearer'', rx_plus rx_space]
       @ replicate 12 (RxSet bearer_ranges) @ [RxStar (RxSet bearer_ranges)])"

definition dataURIBase64Pattern :: regex where
  "dataURIBase64Pattern =
     rx_cats [RxWordBoundary, rx_text ''data'', rx_opt (rx_text '':''),
       rx_opt (rx_plus (RxNot [(59, 59), (44, 44)])), rx_text '';base64'']"

definition base64_body :: "char \<Rightarrow> bool" where
  "base64_body c \<longleftrightarrow>
     65 \<le> byte c \<and> byte c \<le> 90 \<or> 97 \<le> byte c \<and> byte c \<le> 122 \<or> 48 \<le> byte c \<and> byte c \<le> 57 \<or>
     c = CHR ''+'' \<or> c = CHR ''/''"

text \<open>The loop of \<open>looksLikeBase64Payload\<close> from a byte index, with the padding seen so far.\<close>

fun base64_scan :: "nat \<Rightarrow> nat \<Rightarrow> nat \<Rightarrow> string \<Rightarrow> bool" where
  "base64_scan len index padding [] \<longleftrightarrow> padding \<le> 2"
| "base64_scan len index padding (c # cs) \<longleftrightarrow>
     (if base64_body c then (if padding > 0 then False else base64_scan len (index + 1) padding cs)
      else if c = CHR ''='' then
        (if index < len - 2 then False else base64_scan len (index + 1) (padding + 1) cs)
      else False)"

definition looksLikeBase64Payload :: "string \<Rightarrow> bool" where
  "looksLikeBase64Payload v \<longleftrightarrow>
     (let trimmed = trim_space v in
      if length trimmed < 128 \<or> length trimmed mod 4 \<noteq> 0 then False
      else base64_scan (length trimmed) 0 0 trimmed)"

definition sensitive_markers :: "string list" where
  "sensitive_markers = [''signed_url'', ''signature='', ''wss://'', ''ws://'', ''x-oss-signature'']"

definition containsSensitiveAuditValue :: "string \<Rightarrow> bool" where
  "containsSensitiveAuditValue v \<longleftrightarrow>
     (let lower = to_lower v in
      match_string sensitiveAuditValueAssignmentPattern v \<or> match_string bearerCredentialPattern v \<or>
      match_string dataURIBase64Pattern v \<or> looksLikeBase64Payload v \<or>
      list_ex (contains lower) sensitive_markers)"

section \<open>What is kept of an event\<close>

definition safeAuditDetailKeys :: "string list" where
  "safeAuditDetailKeys =
     [''summary'', ''source'', ''reason'', ''error_code'', ''target_name'', ''target_email'', ''store_name'',
      ''channel_name'', ''role'', ''enabled'', ''previous_enabled'', ''scope_count'', ''scope_ids'',
      ''scope_update_mode'', ''scope_resource_type'', ''scope_previous_count'', ''scope_added_ids'',
      ''scope_removed_ids'', ''start_time'', ''end_time'', ''captured_at'', ''date_range'']"

text \<open>
  The value is decoded into an interface: a string is a string, a number in range a \<open>float64\<close>, and a
  boolean a \<open>bool\<close>; \<open>null\<close>, arrays and objects are neither.
\<close>

definition isSafeAuditDetailValue :: "string \<Rightarrow> bool" where
  "isSafeAuditDetailValue raw \<longleftrightarrow>
     (case json_compact raw of
        None \<Rightarrow> False
      | Some _ \<Rightarrow>
          (case skip_ws raw of
             [] \<Rightarrow> False
           | c # cs \<Rightarrow>
               if c = quote then \<not> containsSensitiveAuditValue (json_unquote cs)
               else if c = CHR ''t'' \<or> c = CHR ''f'' then True
               else if c = CHR ''-'' \<or> is_digit_char c
               then \<not> float_overflows (takeWhile (\<lambda>c. \<not> json_space c) (c # cs))
               else False))"

definition sanitizeAuditDetail :: "string \<Rightarrow> string" where
  "sanitizeAuditDetail raw =
     (if raw = [] then []
      else case unmarshal_raw_map raw of
        None \<Rightarrow> []
      | Some detail \<Rightarrow>
          (let sanitized = filter (\<lambda>(k, v). \<not> (k \<notin> set safeAuditDetailKeys \<or> \<not> isSafeAuditDetailValue v)) detail
           in if sanitized = [] then []
              else case json_marshal_map (map (\<lambda>(k, v). (k, JRaw v)) sanitized) of
                None \<Rightarrow> []
              | Some encoded \<Rightarrow> encoded))"

definition sanitizeAuditMetadata :: "string \<Rightarrow> nat \<Rightarrow> string" where
  "sanitizeAuditMetadata v0 maxRunes =
     (let v = trim_space v0 in
      if v = [] \<or> containsSensitiveAuditValue v then []
      else if length (runes v) > maxRunes then utf8 (take maxRunes (runes v))
      else v)"

section \<open>The offset\<close>

lemma page_size_bounds:
  "1 \<le> lf_page_size (fst (normalizeAuditLogFilter f)) \<and> lf_page_size (fst (normalizeAuditLogFilter f)) \<le> 100"
  by (simp add: normalizeAuditLogFilter_def Let_def defaultAuditLogPageSize_def maxAuditLogPageSize_def)

lemma normalized_page: "lf_page (fst (normalizeAuditLogFilter f)) = max 1 (lf_page f)"
  by (simp add: normalizeAuditLogFilter_def Let_def max_def)

lemma int_less_div_mult: "0 < (k::int) \<Longrightarrow> m div k < n \<longleftrightarrow> m < n * k"
proof
  assume k: "0 < k" and "m div k < n"
  then have "(m div k + 1) * k \<le> n * k" by simp
  moreover have "m < (m div k + 1) * k"
    using pos_mod_bound [OF k, of m] div_mult_mod_eq [of m k] unfolding distrib_right by linarith
  ultimately show "m < n * k" by simp
next
  assume k: "0 < k" and lt: "m < n * k"
  show "m div k < n"
  proof (rule ccontr)
    assume "\<not> m div k < n"
    then have "n * k \<le> m div k * k" using k by simp
    also have "\<dots> \<le> m" using k pos_mod_sign [OF k, of m] div_mult_mod_eq [of m k] by linarith
    finally show False using lt by simp
  qed
qed

lemma offset_cases:
  "snd (normalizeAuditLogFilter f) =
     min max_int64
       ((lf_page (fst (normalizeAuditLogFilter f)) - 1) * lf_page_size (fst (normalizeAuditLogFilter f)))"
proof -
  define page where "page = lf_page (fst (normalizeAuditLogFilter f))"
  define size where "size = lf_page_size (fst (normalizeAuditLogFilter f))"
  have size: "0 < size" using page_size_bounds [of f] by (simp add: size_def)
  have page: "1 \<le> page" by (simp add: page_def normalized_page)
  have off: "snd (normalizeAuditLogFilter f) =
      (if page > 1 then if page - 1 > max_int64 div size then max_int64 else (page - 1) * size else 0)"
    by (simp add: normalizeAuditLogFilter_def Let_def page_def size_def)
  have "page - 1 > max_int64 div size \<longleftrightarrow> max_int64 < (page - 1) * size"
    using int_less_div_mult [OF size, of max_int64 "page - 1"] .
  with off page show ?thesis
    unfolding page_def [symmetric] size_def [symmetric] by (auto simp: min_def max_int64_def)
qed

section \<open>Base64 payloads\<close>

lemma not_body_pad: "\<not> base64_body (CHR ''='')"
  by (simp add: base64_body_def byte_def)

lemma base64_scan_padding:
  "0 < padding \<Longrightarrow> len - 2 \<le> index \<Longrightarrow>
   base64_scan len index padding s \<longleftrightarrow> (\<forall>c \<in> set s. c = CHR ''='') \<and> padding + length s \<le> 2"
  by (induction s arbitrary: index padding) (auto simp: not_body_pad)

lemma base64_scan_iff:
  "index + length s = len \<Longrightarrow>
   base64_scan len index 0 s \<longleftrightarrow>
     (\<exists>body k. s = body @ replicate k (CHR ''='') \<and> k \<le> 2 \<and> list_all base64_body body)"
proof (induction s arbitrary: index)
  case Nil
  then show ?case by simp
next
  case (Cons c cs)
  show ?case
  proof (cases "base64_body c")
    case True
    let ?padded = "\<lambda>s. \<exists>body k. s = body @ replicate k (CHR ''='') \<and> k \<le> 2 \<and> list_all base64_body body"
    have "?padded (c # cs) \<longleftrightarrow> ?padded cs"
    proof
      assume "?padded (c # cs)"
      then obtain body k where b: "c # cs = body @ replicate k (CHR ''='')" "k \<le> 2" "list_all base64_body body"
        by blast
      with True not_body_pad obtain body' where "body = c # body'" by (cases body; cases k) auto
      with b show "?padded cs" by auto
    next
      assume "?padded cs"
      then obtain body k where "cs = body @ replicate k (CHR ''='')" "k \<le> 2" "list_all base64_body body"
        by blast
      with True have "c # cs = (c # body) @ replicate k (CHR ''='') \<and> k \<le> 2 \<and> list_all base64_body (c # body)"
        by simp
      then show "?padded (c # cs)" by blast
    qed
    with True Cons show ?thesis by simp
  next
    case no: False
    have pads: "(\<exists>body k. c # cs = body @ replicate k (CHR ''='') \<and> k \<le> 2 \<and> list_all base64_body body) \<longleftrightarrow>
        c = CHR ''='' \<and> (\<forall>d \<in> set cs. d = CHR ''='') \<and> length cs \<le> 1" (is "?L \<longleftrightarrow> ?R")
    proof
      assume ?L
      then obtain body k where b: "c # cs = body @ replicate k (CHR ''='')" "k \<le> 2" "list_all base64_body body"
        by blast
      with no have "body = []" by (cases body) auto
      with b show ?R by (cases k) auto
    next
      assume R: ?R
      then have "c # cs = [] @ replicate (Suc (length cs)) (CHR ''='')"
        by (simp add: replicate_length_same)
      with R show ?L by (intro exI [of _ "[]"] exI [of _ "Suc (length cs)"]) auto
    qed
    show ?thesis
    proof (cases "index < len - 2")
      case True
      then have "1 < length cs" using Cons.prems by simp
      with True no pads show ?thesis by auto
    next
      case False
      then show ?thesis unfolding pads using no base64_scan_padding [of 1 len "index + 1" cs] by auto
    qed
  qed
qed

text \<open>
  \<open>looksLikeBase64Payload\<close> recognises exactly the padded base64 texts of at least 128 bytes: the
  trimmed text has a multiple of four bytes, all of the base64 alphabet up to at most two equals signs
  at the end.
\<close>

theorem looksLikeBase64Payload_iff:
  "looksLikeBase64Payload v \<longleftrightarrow>
     128 \<le> length (trim_space v) \<and> 4 dvd length (trim_space v) \<and>
     (\<exists>body k. trim_space v = body @ replicate k (CHR ''='') \<and> k \<le> 2 \<and> list_all base64_body body)"
  using base64_scan_iff [of 0 "trim_space v" "length (trim_space v)"]
  by (auto simp: looksLikeBase64Payload_def Let_def dvd_eq_mod_eq_0 not_less)

section \<open>Texts that no pattern matches\<close>

text \<open>Every pattern reads some other character than the letter a.\<close>

definition not_letter_a :: "int \<Rightarrow> bool" where
  "not_letter_a c \<longleftrightarrow> c \<noteq> 65 \<and> c \<noteq> 97"

lemmas pattern_defs =
  sensitiveAuditValueAssignmentPattern_def bearerCredentialPattern_def dataURIBase64Pattern_def
  rx_two_def rx_opt_def rx_plus_def rx_text_def fold_letter_def

lemma patterns_need_other:
  "rx_needs not_letter_a sensitiveAuditValueAssignmentPattern"
  "rx_needs not_letter_a bearerCredentialPattern"
  "rx_needs not_letter_a dataURIBase64Pattern"
  by (simp_all add: pattern_defs not_letter_a_def byte_def Let_def)

lemma char_lower_A: "char_lower (CHR ''A'') = CHR ''a''"
  by code_simp

lemma encode_rune_A: "encode_rune 65 = ''A''"
  by code_simp

lemma letters_a:
  assumes "s = replicate n (CHR ''A'')"
  shows "is_ascii s" "trim_space s = s" "runes s = replicate n 65" "to_lower s = replicate n (CHR ''a'')"
proof -
  show ascii: "is_ascii s" using assms by (simp add: is_ascii_def byte_def)
  show "trim_space s = s"
    using ascii assms by (intro trim_space_no_space) (auto simp: space1_def byte_def)
  show "runes s = replicate n 65" using runes_ascii [OF ascii] assms by (simp add: byte_def)
  show "to_lower s = replicate n (CHR ''a'')"
    using ascii assms char_lower_A by (simp add: to_lower_def)
qed

lemma letters_a_sensitive:
  "containsSensitiveAuditValue (replicate n (CHR ''A'')) \<longleftrightarrow> 128 \<le> n \<and> n mod 4 = 0"
proof -
  let ?s = "replicate n (CHR ''A'')"
  note a = letters_a [OF refl [of ?s]]
  have "\<not> match_string r ?s" if "rx_needs not_letter_a r" for r
    unfolding match_string_def a(3)
    by (rule rx_needs_search [OF that]) (auto simp: not_letter_a_def)
  then have "\<not> match_string sensitiveAuditValueAssignmentPattern ?s" "\<not> match_string bearerCredentialPattern ?s"
      "\<not> match_string dataURIBase64Pattern ?s"
    using patterns_need_other by blast+
  moreover have "\<not> contains (to_lower ?s) m" if "m \<in> set sensitive_markers" for m
  proof
    assume "contains (to_lower ?s) m"
    then obtain p q where "replicate n (CHR ''a'') = p @ m @ q" unfolding a(4) contains_iff by blast
    then have "set m \<subseteq> {CHR ''a''}"
      by (metis (no_types, lifting) Un_iff set_append set_replicate_conv_if subsetI empty_iff)
    with that show False by (auto simp: sensitive_markers_def)
  qed
  then have "\<not> list_ex (contains (to_lower ?s)) sensitive_markers" by (auto simp: list_ex_iff)
  moreover have "looksLikeBase64Payload ?s \<longleftrightarrow> 128 \<le> n \<and> n mod 4 = 0"
  proof -
    have "\<exists>body k. ?s = body @ replicate k (CHR ''='') \<and> k \<le> 2 \<and> list_all base64_body body"
      by (rule exI [of _ ?s], rule exI [of _ 0]) (auto simp: list_all_iff base64_body_def byte_def)
    then show ?thesis
      using base64_scan_iff [of 0 ?s n] a(2) by (auto simp: looksLikeBase64Payload_def not_less)
  qed
  ultimately show ?thesis by (simp add: containsSensitiveAuditValue_def Let_def)
qed

text \<open>
  \<open>sanitizeAuditMetadata\<close> tests the whole text and then cuts it, so it can store a text that it would
  itself drop: a user agent of 513 letters is not a base64 payload (513 is no multiple of four), and the
  512 letters that are stored are one.
\<close>

theorem truncation_after_check:
  "sanitizeAuditMetadata (replicate 513 (CHR ''A'')) 512 = replicate 512 (CHR ''A'') \<and>
   sanitizeAuditMetadata (replicate 512 (CHR ''A'')) 512 = []"
proof -
  have "utf8 (replicate n 65) = replicate n (CHR ''A'')" for n
    by (induction n) (simp_all add: utf8_def encode_rune_A)
  then show ?thesis
    unfolding sanitizeAuditMetadata_def Let_def letters_a(2,3) [OF refl] letters_a_sensitive
    by simp
qed

end
