(* ===== verification/App_Store.thy ===== *)
theory App_Store
  imports App_Audit GoCrypto
begin

text \<open>
  The in-memory store of the application (\<^verbatim>\<open>internal/app/memory_store.go\<close>): users with their roles and
  the institutions a viewer may watch, the audit log, and the system settings; with the pure functions
  of \<^verbatim>\<open>auth_users.go\<close>, \<^verbatim>\<open>mysql_monitor_scopes.go\<close>, \<^verbatim>\<open>ai_settings.go\<close> and
  \<^verbatim>\<open>digital_twin_settings_store.go\<close> it uses.  The operations run under one mutex, so each is one step:
  a function from the store to its result and the new store.  The time (\<open>s.now()\<close>, \<open>time.Now()\<close>) and
  the error of the request context (\<open>None\<close> while it is live) are arguments.
\<close>

section \<open>Data\<close>

datatype store_error =
    ErrAuthUserNotFound
  | ErrMonitorScopeConflict
  | ErrDigitalTwinSettingsConflict
  | ErrContext string
  | ErrText string

record AuthUserResourceScope =
  sc_store_id :: int
  sc_city :: string
  sc_name :: string
  sc_external_org_id :: string
  sc_unavailable :: bool

record AuthUserRecord =
  au_id :: int
  au_email :: string
  au_username :: string
  au_display_name :: string
  au_feishu_user_id :: string
  au_phone :: string
  au_role :: string
  au_enabled :: bool
  au_last_login_at :: "gotime option"
  au_scope_count :: int
  au_scopes :: "AuthUserResourceScope list"
  au_scope_revision :: string

record AuthUserPatch =
  ap_email :: string
  ap_username :: string
  ap_display_name :: string
  ap_feishu_user_id :: string
  ap_phone :: string

text \<open>\<open>None\<close> is the \<open>nil\<close> slice: the grants are to be kept.\<close>

record AuthUserMutation =
  am_email :: string
  am_username :: string
  am_display_name :: string
  am_role :: string
  am_enabled :: bool
  am_institution_ids :: "int list option"
  am_scope_revision :: string
  am_legacy_store_ids :: "string option"

record DigitalTwinSettings =
  dt_store_ids :: "string list"
  dt_version :: string

record app_store =
  as_ai_provider :: string
  as_watermark_enabled :: "bool option"
  as_digital_twin_json :: "string option"
  as_auth_users :: "(string \<times> AuthUserRecord) list"
  as_scope_candidates :: "AuthUserResourceScope list"
  as_scopes_by_user :: "(int \<times> AuthUserResourceScope list) list"
  as_audit_logs :: "AuditEvent list"
  as_next_audit_id :: int

definition defaultAdminEmail :: string where "defaultAdminEmail = ''shalei@soyoung.com''"
definition RoleAdmin :: string where "RoleAdmin = ''admin''"
definition RoleEditor :: string where "RoleEditor = ''editor''"
definition RoleViewer :: string where "RoleViewer = ''viewer''"
definition PermissionStoreRead :: string where "PermissionStoreRead = ''store:read''"
definition PermissionStoreWrite :: string where "PermissionStoreWrite = ''store:write''"
definition PermissionStoreExport :: string where "PermissionStoreExport = ''store:export''"
definition PermissionUserManage :: string where "PermissionUserManage = ''user:manage''"
definition PermissionAuditView :: string where "PermissionAuditView = ''audit.view''"
definition ResourceTypeCRMInstitution :: string where "ResourceTypeCRMInstitution = ''crm_institution''"

lemmas role_defs = RoleAdmin_def RoleEditor_def RoleViewer_def
lemmas permission_defs =
  PermissionStoreRead_def PermissionStoreWrite_def PermissionStoreExport_def PermissionUserManage_def
  PermissionAuditView_def role_defs

section \<open>Roles, emails, identifiers\<close>

definition app_firstNonEmpty :: "string list \<Rightarrow> string" where
  "app_firstNonEmpty vs =
     (case find (\<lambda>v. trim_space v \<noteq> []) vs of Some v \<Rightarrow> trim_space v | None \<Rightarrow> [])"

definition normalizeEmail :: "string \<Rightarrow> string" where
  "normalizeEmail v = to_lower (trim_space v)"

definition normalizeRole :: "string \<Rightarrow> string" where
  "normalizeRole v =
     (let r = to_lower (trim_space v) in
      if r = RoleAdmin then RoleAdmin else if r = RoleEditor then RoleEditor else RoleViewer)"

definition permissions :: "AuthUserRecord \<Rightarrow> string list" where
  "permissions u =
     (let r = to_lower (trim_space (au_role u)) in
      if r = RoleAdmin
      then [RoleAdmin, PermissionStoreRead, PermissionStoreWrite, PermissionStoreExport, PermissionUserManage,
            PermissionAuditView]
      else if r = RoleEditor then [RoleEditor, PermissionStoreRead, PermissionStoreWrite]
      else [RoleViewer, PermissionStoreRead])"

definition hasPermission :: "string list \<Rightarrow> string \<Rightarrow> bool" where
  "hasPermission values target \<longleftrightarrow> list_ex (\<lambda>v. v = target) values"

definition max_safe_integer :: int where "max_safe_integer = 9007199254740991"

definition canonicalInstitutionID :: "string \<Rightarrow> int \<times> bool" where
  "canonicalInstitutionID key =
     (case parse_int key of (n, err) \<Rightarrow>
        (n, err = None \<and> n > 0 \<and> n \<le> max_safe_integer \<and> itoa n = key))"

definition uniquePositiveInt64s :: "int list \<Rightarrow> int list" where
  "uniquePositiveInt64s values =
     rev (fold (\<lambda>v result. if v \<le> 0 \<or> v \<in> set result then result else v # result) values [])"

section \<open>The revision of a user's grants\<close>

definition monitorScopeRevision :: "string list \<Rightarrow> string" where
  "monitorScopeRevision tokens = hex_encode (sha256 (join [chr 10] (sort_strings tokens)))"

definition scope_token :: "AuthUserResourceScope \<Rightarrow> string" where
  "scope_token scope =
     ResourceTypeCRMInstitution @ '':'' @ itoa (sc_store_id scope) @ '':'' @ sc_external_org_id scope"

definition memoryScopeRevision :: "AuthUserResourceScope list \<Rightarrow> string" where
  "memoryScopeRevision scopes = monitorScopeRevision (map scope_token scopes)"

definition user_token :: "string \<Rightarrow> bool \<Rightarrow> string" where
  "user_token role enabled = ''user:'' @ normalizeRole role @ '':'' @ (if enabled then ''true'' else ''false'')"

definition userMonitorScopeRevision :: "string list \<Rightarrow> string \<Rightarrow> bool \<Rightarrow> string" where
  "userMonitorScopeRevision tokens role enabled = monitorScopeRevision (tokens @ [user_token role enabled])"

definition scopes_of :: "app_store \<Rightarrow> int \<Rightarrow> AuthUserResourceScope list" where
  "scopes_of s userID = (case map_of (as_scopes_by_user s) userID of None \<Rightarrow> [] | Some scopes \<Rightarrow> scopes)"

definition attachMemoryMonitorScopes :: "app_store \<Rightarrow> AuthUserRecord \<Rightarrow> AuthUserRecord" where
  "attachMemoryMonitorScopes s user =
     (let scopes = scopes_of s (au_id user) in
      user\<lparr>au_scopes := scopes, au_scope_count := int (length scopes),
           au_scope_revision := userMonitorScopeRevision [memoryScopeRevision scopes] (au_role user) (au_enabled user)\<rparr>)"

section \<open>Start\<close>

definition seed_user :: "int \<Rightarrow> string \<Rightarrow> string \<Rightarrow> string \<Rightarrow> AuthUserRecord" where
  "seed_user uid email username role =
     \<lparr>au_id = uid, au_email = email, au_username = username, au_display_name = [], au_feishu_user_id = [],
      au_phone = [], au_role = role, au_enabled = True, au_last_login_at = None, au_scope_count = 0,
      au_scopes = [], au_scope_revision = []\<rparr>"

definition seed_candidate :: "int \<Rightarrow> int list \<Rightarrow> int list \<Rightarrow> string \<Rightarrow> AuthUserResourceScope" where
  "seed_candidate iid city name org =
     \<lparr>sc_store_id = iid, sc_city = utf8 city, sc_name = utf8 name, sc_external_org_id = org,
      sc_unavailable = False\<rparr>"

definition app_NewMemoryStore :: app_store where
  "app_NewMemoryStore =
     \<lparr>as_ai_provider = [], as_watermark_enabled = None, as_digital_twin_json = None,
      as_auth_users =
        [(defaultAdminEmail, seed_user 1 defaultAdminEmail ''shalei'' RoleAdmin),
         (''maming@soyoung.com'', seed_user 2 ''maming@soyoung.com'' ''maming'' RoleAdmin),
         (''changwenxia@soyoung.com'', seed_user 3 ''changwenxia@soyoung.com'' ''changwenxia'' RoleEditor),
         (''wangxiaofan@soyoung.com'', seed_user 4 ''wangxiaofan@soyoung.com'' ''wangxiaofan'' RoleEditor)],
      as_scope_candidates =
        [seed_candidate 10030 [0x5317, 0x4EAC] [0x5317, 0x4EAC, 0x4FDD, 0x5229, 0x5B9E, 0x9A8C, 0x5BA4, 0x95E8, 0x5E97] ''10030'',
         seed_candidate 10019 [0x4E0A, 0x6D77] [0x65B0, 0x6C27, 0x9752, 0x6625, 0x8BCA, 0x6240, 0x28, 0x4E0A, 0x6D77, 0x9646, 0x5BB6, 0x5634, 0x5E97, 0x29] ''10019'',
         seed_candidate 10001 [0x5317, 0x4EAC] [0x5408, 0x6210, 0x20, 0x4E, 0x56, 0x52, 0x20, 0x6D4B, 0x8BD5, 0x673A, 0x6784] ''10001''],
      as_scopes_by_user = [], as_audit_logs = [], as_next_audit_id = 0\<rparr>"

section \<open>The audit log\<close>

definition stored_log :: "int \<Rightarrow> gotime \<Rightarrow> AuditEvent \<Rightarrow> AuditEvent" where
  "stored_log nr now log =
     log\<lparr>ev_id := nr, ev_created_at := now,
         ev_asset_logical_key := trim_space (ev_asset_logical_key log),
         ev_ip_address := sanitizeAuditMetadata (ev_ip_address log) 64,
         ev_user_agent := sanitizeAuditMetadata (ev_user_agent log) 512,
         ev_request_id := sanitizeAuditMetadata (ev_request_id log) 128,
         ev_detail_json := sanitizeAuditDetail (ev_detail_json log)\<rparr>"

definition createAuditLogLocked ::
  "app_store \<Rightarrow> string option \<Rightarrow> gotime \<Rightarrow> AuditEvent \<Rightarrow> (store_error + unit) \<times> app_store" where
  "createAuditLogLocked s ctx now log =
     (case ctx of
        Some err \<Rightarrow> (Inl (ErrContext err), s)
      | None \<Rightarrow>
          (let nr = as_next_audit_id s + 1 in
           (Inr (), s\<lparr>as_next_audit_id := nr, as_audit_logs := as_audit_logs s @ [stored_log nr now log]\<rparr>)))"

definition CreateAuditLog where
  "CreateAuditLog s ctx now log = createAuditLogLocked s ctx now log"

definition RecordAudit where
  "RecordAudit s ctx now event = CreateAuditLog s ctx now event"

definition audit_log_listed :: "AuditLogFilter \<Rightarrow> AuditEvent \<Rightarrow> bool" where
  "audit_log_listed f log \<longleftrightarrow>
     \<not> (ev_action log = internalAuditActionSnapshotRefreshPrepare) \<and>
     \<not> (ev_created_at log < lf_start_at f \<or> \<not> ev_created_at log < lf_end_at f) \<and>
     \<not> (lf_user_id f \<noteq> None \<and> (ev_user_id log = None \<or> ev_user_id log \<noteq> lf_user_id f)) \<and>
     \<not> (lf_action f \<noteq> [] \<and> ev_action log \<noteq> lf_action f)"

text \<open>Newest first, and the larger id first among equals; ids do not repeat, so the order is complete.\<close>

definition audit_order :: "AuditEvent \<Rightarrow> int \<times> int" where
  "audit_order log = (- ev_created_at log, - ev_id log)"

definition ListAuditLogs :: "app_store \<Rightarrow> AuditLogFilter \<Rightarrow> AuditLogPage" where
  "ListAuditLogs s filter0 =
     (case normalizeAuditLogFilter filter0 of (f, offset) \<Rightarrow>
        let items = sort_key audit_order (filter (audit_log_listed f) (as_audit_logs s));
            total = int (length items)
        in if offset \<ge> total
           then \<lparr>lp_items = [], lp_page = lf_page f, lp_page_size = lf_page_size f, lp_total = total\<rparr>
           else
             let end0 = offset + lf_page_size f;
                 end1 = (if end0 > total then total else end0)
             in \<lparr>lp_items = take (nat (end1 - offset)) (drop (nat offset) items),
                 lp_page = lf_page f, lp_page_size = lf_page_size f, lp_total = total\<rparr>)"

section \<open>Settings\<close>

definition NormalizeMonitorScreenshotWatermarkEnabled :: "string \<Rightarrow> bool" where
  "NormalizeMonitorScreenshotWatermarkEnabled v \<longleftrightarrow>
     to_lower (trim_space v) \<notin> set [''false'', ''0'', ''off'', ''no'']"

definition AIProviderOpenAI :: string where "AIProviderOpenAI = ''openai''"
definition AIProviderMiniMax :: string where "AIProviderMiniMax = ''minimax''"

definition NormalizeAIProvider :: "string \<Rightarrow> string" where
  "NormalizeAIProvider v =
     (let p = to_lower (trim_space v) in
      if p \<in> set ['''', ''openai'', ''responses'', ''openai-responses''] then AIProviderOpenAI
      else if p = ''minimax'' then AIProviderMiniMax
      else [])"

definition NextAIProvider :: "string \<Rightarrow> string" where
  "NextAIProvider current =
     (if NormalizeAIProvider current = AIProviderMiniMax then AIProviderOpenAI else AIProviderMiniMax)"

definition GetAIProvider :: "app_store \<Rightarrow> string" where
  "GetAIProvider s = as_ai_provider s"

definition SetAIProvider :: "app_store \<Rightarrow> string \<Rightarrow> app_store" where
  "SetAIProvider s provider = s\<lparr>as_ai_provider := NormalizeAIProvider provider\<rparr>"

definition GetMonitorScreenshotWatermarkEnabled :: "app_store \<Rightarrow> bool" where
  "GetMonitorScreenshotWatermarkEnabled s = (case as_watermark_enabled s of None \<Rightarrow> True | Some b \<Rightarrow> b)"

definition SetMonitorScreenshotWatermarkEnabled :: "app_store \<Rightarrow> bool \<Rightarrow> app_store" where
  "SetMonitorScreenshotWatermarkEnabled s b = s\<lparr>as_watermark_enabled := Some b\<rparr>"

section \<open>Users\<close>

definition GetAuthUserByEmail :: "app_store \<Rightarrow> string \<Rightarrow> store_error + AuthUserRecord" where
  "GetAuthUserByEmail s email =
     (case map_of (as_auth_users s) (normalizeEmail email) of
        None \<Rightarrow> Inl ErrAuthUserNotFound
      | Some user \<Rightarrow> Inr (attachMemoryMonitorScopes s user))"

definition GetAuthUserByID :: "app_store \<Rightarrow> int \<Rightarrow> store_error + AuthUserRecord" where
  "GetAuthUserByID s uid =
     (case find (\<lambda>(email, user). au_id user = uid) (as_auth_users s) of
        Some (email, user) \<Rightarrow> Inr (attachMemoryMonitorScopes s user)
      | None \<Rightarrow> Inl ErrAuthUserNotFound)"

definition profile_user :: "AuthUserRecord \<Rightarrow> gotime \<Rightarrow> AuthUserPatch \<Rightarrow> AuthUserRecord" where
  "profile_user user now patch =
     user\<lparr>au_username := app_firstNonEmpty [ap_username patch, au_username user],
          au_display_name := app_firstNonEmpty [ap_display_name patch, au_display_name user],
          au_feishu_user_id := app_firstNonEmpty [ap_feishu_user_id patch, au_feishu_user_id user],
          au_phone := app_firstNonEmpty [ap_phone patch, au_phone user],
          au_last_login_at := Some now\<rparr>"

definition UpdateAuthUserProfile ::
  "app_store \<Rightarrow> gotime \<Rightarrow> AuthUserPatch \<Rightarrow> (store_error + AuthUserRecord) \<times> app_store" where
  "UpdateAuthUserProfile s now patch =
     (let email = normalizeEmail (ap_email patch) in
      case map_of (as_auth_users s) email of
        None \<Rightarrow> (Inl ErrAuthUserNotFound, s)
      | Some user \<Rightarrow>
          if \<not> au_enabled user then (Inr user, s)
          else
            (let user' = profile_user user now patch in
             (Inr user', s\<lparr>as_auth_users := AList.update email user' (as_auth_users s)\<rparr>)))"

text \<open>Enabled users first, then by email; the emails of the store do not repeat.\<close>

definition ListAuthUsers :: "app_store \<Rightarrow> AuthUserRecord list" where
  "ListAuthUsers s =
     sort_key (\<lambda>u. (\<not> au_enabled u, au_email u))
       (map (\<lambda>(email, user). attachMemoryMonitorScopes s user) (as_auth_users s))"

definition known_scopes :: "app_store \<Rightarrow> int \<Rightarrow> int \<Rightarrow> AuthUserResourceScope option" where
  "known_scopes s userID =
     fold (\<lambda>scope m. m(sc_store_id scope \<mapsto> scope))
       (scopes_of s userID @ filter (\<lambda>scope. \<not> sc_unavailable scope) (as_scope_candidates s))
       Map.empty"

fun scopes_for :: "(int \<Rightarrow> AuthUserResourceScope option) \<Rightarrow> int list \<Rightarrow> store_error + AuthUserResourceScope list" where
  "scopes_for byID [] = Inr []"
| "scopes_for byID (n # ids) =
     (case byID n of
        None \<Rightarrow> Inl (ErrText (utf8 [0x673A, 0x6784, 0x20] @ itoa n @ utf8 [0x20, 0x672A, 0x542F, 0x7528, 0x6216, 0x4E0D, 0x5B58, 0x5728, 0xFF0C, 0x4E0D, 0x80FD, 0x65B0, 0x589E, 0x6388, 0x6743]))
      | Some scope \<Rightarrow> bind_sum (scopes_for byID ids) (\<lambda>scopes. Inr (scope # scopes)))"

definition monitorScopesForIDs ::
  "app_store \<Rightarrow> int \<Rightarrow> int list option \<Rightarrow> store_error + AuthUserResourceScope list" where
  "monitorScopesForIDs s userID ids0 =
     (case ids0 of
        None \<Rightarrow> Inr (scopes_of s userID)
      | Some ids \<Rightarrow>
          if list_ex (\<lambda>id. id \<le> 0 \<or> id > max_safe_integer) ids
          then Inl (ErrText (utf8 [0x673A, 0x6784, 0x20, 0x49, 0x44, 0x20, 0x5FC5, 0x987B, 0x4E3A, 0x5B89, 0x5168, 0x8303, 0x56F4, 0x5185, 0x7684, 0x6B63, 0x6574, 0x6570]))
          else scopes_for (known_scopes s userID) (uniquePositiveInt64s ids))"

definition set_scopes :: "app_store \<Rightarrow> int \<Rightarrow> AuthUserResourceScope list \<Rightarrow> app_store" where
  "set_scopes s userID scopes = s\<lparr>as_scopes_by_user := AList.update userID scopes (as_scopes_by_user s)\<rparr>"

definition put_user :: "app_store \<Rightarrow> string \<Rightarrow> AuthUserRecord \<Rightarrow> app_store" where
  "put_user s email user = s\<lparr>as_auth_users := AList.update email user (as_auth_users s)\<rparr>"

definition CreateAuthUser ::
  "app_store \<Rightarrow> AuthUserMutation \<Rightarrow> (store_error + AuthUserRecord) \<times> app_store" where
  "CreateAuthUser s input =
     (let email = normalizeEmail (am_email input) in
      if email = [] then (Inl (ErrText ''missing email''), s)
      else if map_of (as_auth_users s) email \<noteq> None then (Inl (ErrText ''auth user exists''), s)
      else
        let user = \<lparr>au_id = int (length (as_auth_users s)) + 1, au_email = email,
              au_username = trim_space (am_username input), au_display_name = trim_space (am_display_name input),
              au_feishu_user_id = [], au_phone = [], au_role = normalizeRole (am_role input),
              au_enabled = am_enabled input, au_last_login_at = None, au_scope_count = 0, au_scopes = [],
              au_scope_revision = []\<rparr>
        in case monitorScopesForIDs s (au_id user) (am_institution_ids input) of
             Inl err \<Rightarrow> (Inl err, s)
           | Inr scopes \<Rightarrow>
               let s1 = set_scopes s (au_id user) scopes;
                   user' = attachMemoryMonitorScopes s1 user
               in (Inr user', put_user s1 email user'))"

definition updated_user :: "AuthUserRecord \<Rightarrow> AuthUserMutation \<Rightarrow> AuthUserRecord" where
  "updated_user user input =
     user\<lparr>au_username := trim_space (am_username input), au_display_name := trim_space (am_display_name input),
          au_role := normalizeRole (am_role input), au_enabled := am_enabled input\<rparr>"

definition UpdateAuthUser ::
  "app_store \<Rightarrow> int \<Rightarrow> AuthUserMutation \<Rightarrow> (store_error + AuthUserRecord) \<times> app_store" where
  "UpdateAuthUser s uid input =
     (case find (\<lambda>(email, user). au_id user = uid) (as_auth_users s) of
        None \<Rightarrow> (Inl ErrAuthUserNotFound, s)
      | Some (email, user0) \<Rightarrow>
          let user = attachMemoryMonitorScopes s user0 in
          if am_scope_revision input \<noteq> au_scope_revision user then (Inl ErrMonitorScopeConflict, s)
          else case monitorScopesForIDs s (au_id user) (am_institution_ids input) of
            Inl err \<Rightarrow> (Inl err, s)
          | Inr scopes \<Rightarrow>
              let s1 = set_scopes s (au_id user) scopes;
                  user' = attachMemoryMonitorScopes s1 (updated_user user input)
              in (Inr user', put_user s1 email user'))"

definition int64Pointer :: "int \<Rightarrow> int option" where
  "int64Pointer v = (if v \<le> 0 then None else Some v)"

text \<open>The audit event that follows a mutation of a user.\<close>

definition with_audit ::
  "(store_error + AuthUserRecord) \<times> app_store \<Rightarrow> string option \<Rightarrow> gotime \<Rightarrow> AuditEvent \<Rightarrow>
   (store_error + AuthUserRecord) \<times> app_store" where
  "with_audit result ctx now event =
     (case result of
        (Inl err, s) \<Rightarrow> (Inl err, s)
      | (Inr user, s) \<Rightarrow>
          let event' = (if ev_entity_id event = None then event\<lparr>ev_entity_id := int64Pointer (au_id user)\<rparr> else event)
          in case RecordAudit s ctx now event' of
               (Inl err, s') \<Rightarrow> (Inl err, s')
             | (Inr _, s') \<Rightarrow> (Inr user, s'))"

definition CreateAuthUserWithAudit where
  "CreateAuthUserWithAudit s ctx now input event = with_audit (CreateAuthUser s input) ctx now event"

definition UpdateAuthUserWithAudit where
  "UpdateAuthUserWithAudit s ctx now uid input event = with_audit (UpdateAuthUser s uid input) ctx now event"

definition ListMonitorStoreScopeCandidates :: "app_store \<Rightarrow> AuthUserResourceScope list" where
  "ListMonitorStoreScopeCandidates s = as_scope_candidates s"

definition GetUserMonitorStoreScopes :: "app_store \<Rightarrow> int \<Rightarrow> AuthUserResourceScope list" where
  "GetUserMonitorStoreScopes s userID = scopes_of s userID"

definition CanUserViewMonitorStore :: "app_store \<Rightarrow> AuthUserRecord \<Rightarrow> string \<Rightarrow> bool" where
  "CanUserViewMonitorStore s user externalOrgID =
     (let orgID = trim_space externalOrgID in
      case canonicalInstitutionID orgID of (institutionID, valid) \<Rightarrow>
        if \<not> valid then False
        else if \<not> list_ex (\<lambda>c. sc_store_id c = institutionID \<and> sc_external_org_id c = orgID \<and> \<not> sc_unavailable c)
                  (as_scope_candidates s)
        then False
        else if normalizeRole (au_role user) \<noteq> RoleViewer then True
        else list_ex (\<lambda>c. sc_store_id c = institutionID \<and> sc_external_org_id c = orgID)
               (scopes_of s (au_id user)))"

section \<open>The digital twin white list\<close>

definition canonical_store_id :: "string \<Rightarrow> bool" where
  "canonical_store_id v \<longleftrightarrow>
     \<not> (length v = 0 \<or> length v > 18 \<or> byte (v ! 0) < 49 \<or> byte (v ! 0) > 57) \<and>
     list_all is_digit_char (drop 1 v)"

definition NormalizeDigitalTwinStoreIDs :: "string list \<Rightarrow> store_error + string list" where
  "NormalizeDigitalTwinStoreIDs ids =
     (if length ids > 100 then Inl (ErrText ''at most 100 digital twin store IDs allowed'')
      else if \<not> list_all canonical_store_id ids then Inl (ErrText ''invalid digital twin store ID'')
      else Inr (sort_key (\<lambda>id. (length id, id))
             (rev (fold (\<lambda>id result. if id \<in> set result then result else id # result) ids []))))"

text \<open>\<open>json.Marshal\<close> of a list of strings.\<close>

definition marshal_strings :: "string list \<Rightarrow> string" where
  "marshal_strings xs = CHR ''['' # join '','' (map json_string xs) @ '']''"

definition digitalTwinSettingsValue :: "string list \<Rightarrow> DigitalTwinSettings" where
  "digitalTwinSettingsValue ids =
     \<lparr>dt_store_ids = ids, dt_version = ''saved:'' @ hex_encode (sha256 (marshal_strings ids))\<rparr>"

definition defaultDigitalTwinSettings :: DigitalTwinSettings where
  "defaultDigitalTwinSettings = \<lparr>dt_store_ids = [''10001''], dt_version = ''missing:10001''\<rparr>"

text \<open>
  The members of a JSON array of strings (\<open>None\<close> for an array with another value): the text was checked
  before.  A \<open>null\<close> element leaves its string empty.
\<close>

fun string_elements :: "nat \<Rightarrow> string \<Rightarrow> string list option" where
  "string_elements 0 s = None"
| "string_elements (Suc fuel) s =
     (case skip_ws s of
        [] \<Rightarrow> None
      | c # cs \<Rightarrow>
          let continue = (\<lambda>x rest. case skip_ws rest of
                e # es \<Rightarrow>
                  if e = CHR '','' then map_option (\<lambda>xs. x # xs) (string_elements fuel es) else Some [x]
              | [] \<Rightarrow> Some [x])
          in if c = quote then
               (case js_string cs of None \<Rightarrow> None | Some (_, rest) \<Rightarrow> continue (json_unquote cs) rest)
             else if c = CHR ''n'' then continue [] (drop 4 (c # cs))
             else None)"

definition unmarshal_strings :: "string \<Rightarrow> string list option option" where
  "unmarshal_strings raw =
     (if json_compact raw = None then None
      else case skip_ws raw of
        c # cs \<Rightarrow>
          if c = CHR ''n'' then Some None
          else if c \<noteq> CHR ''['' then None
          else (case skip_ws cs of
              d # ds \<Rightarrow> if d = CHR '']'' then Some (Some []) else map_option Some (string_elements (length cs) cs)
            | [] \<Rightarrow> None)
      | [] \<Rightarrow> None)"

definition parseDigitalTwinSettings :: "string \<Rightarrow> store_error + DigitalTwinSettings" where
  "parseDigitalTwinSettings raw =
     (case unmarshal_strings raw of
        None \<Rightarrow> Inl (ErrText ''invalid digital twin settings JSON'')
      | Some None \<Rightarrow> Inl (ErrText ''digital twin settings must be an array'')
      | Some (Some ids) \<Rightarrow>
          bind_sum (NormalizeDigitalTwinStoreIDs ids) (\<lambda>ids. Inr (digitalTwinSettingsValue ids)))"

definition digitalTwinSettingsAudit ::
  "AuditEvent \<Rightarrow> DigitalTwinSettings \<Rightarrow> DigitalTwinSettings \<Rightarrow> AuditEvent" where
  "digitalTwinSettingsAudit event previous nxt =
     (let summary = utf8 [0x6570, 0x5B57, 0x5B6A, 0x751F, 0x767D, 0x540D, 0x5355, 0xFF1A, 0x539F, 0x673A, 0x6784, 0x49, 0x44, 0x3D] @ marshal_strings (dt_store_ids previous) @
            utf8 [0xFF1B, 0x65B0, 0x673A, 0x6784, 0x49, 0x44, 0x3D] @ marshal_strings (dt_store_ids nxt);
          summary' = summary @
            (if dt_version previous = dt_version defaultDigitalTwinSettings
             then utf8 [0xFF1B, 0x539F, 0x914D, 0x7F6E, 0x6765, 0x6E90, 0x3D, 0x7CFB, 0x7EDF, 0x9ED8, 0x8BA4] else [])
      in event\<lparr>ev_action := ''system.digital_twin_whitelist.update'', ev_entity_type := ''system_setting'',
               ev_entity_id := None, ev_store_id := None, ev_channel_id := None, ev_external_org_id := [],
               ev_asset_logical_key := [], ev_result := ''success'',
               ev_detail_json := (case json_marshal_map [(''summary'', JStr summary')] of None \<Rightarrow> [] | Some t \<Rightarrow> t)\<rparr>)"

definition current_digital_twin :: "app_store \<Rightarrow> store_error + DigitalTwinSettings" where
  "current_digital_twin s =
     (case as_digital_twin_json s of
        None \<Rightarrow> Inr defaultDigitalTwinSettings
      | Some raw \<Rightarrow> parseDigitalTwinSettings raw)"

definition GetDigitalTwinSettings :: "app_store \<Rightarrow> string option \<Rightarrow> store_error + DigitalTwinSettings" where
  "GetDigitalTwinSettings s ctx =
     (case ctx of Some err \<Rightarrow> Inl (ErrContext err) | None \<Rightarrow> current_digital_twin s)"

definition UpdateDigitalTwinSettings ::
  "app_store \<Rightarrow> string option \<Rightarrow> gotime \<Rightarrow> string \<Rightarrow> string list \<Rightarrow> AuditEvent \<Rightarrow>
   (store_error + DigitalTwinSettings) \<times> app_store" where
  "UpdateDigitalTwinSettings s ctx now expectedVersion ids0 event =
     (case NormalizeDigitalTwinStoreIDs ids0 of
        Inl err \<Rightarrow> (Inl err, s)
      | Inr ids \<Rightarrow>
          (case ctx of
             Some err \<Rightarrow> (Inl (ErrContext err), s)
           | None \<Rightarrow>
               (case current_digital_twin s of
                  Inl err \<Rightarrow> (Inl err, s)
                | Inr previous \<Rightarrow>
                    if dt_version previous \<noteq> expectedVersion then (Inl ErrDigitalTwinSettingsConflict, s)
                    else
                      let nxt = digitalTwinSettingsValue ids in
                      case createAuditLogLocked s ctx now (digitalTwinSettingsAudit event previous nxt) of
                        (Inl err, s') \<Rightarrow> (Inl err, s')
                      | (Inr _, s') \<Rightarrow> (Inr nxt, s'\<lparr>as_digital_twin_json := Some (marshal_strings ids)\<rparr>))))"

end
