(* ===== verification/App_Auth.thy ===== *)
theory App_Auth
  imports App_Session App_Store GoSort
begin

text \<open>
  Authentication and authorisation of requests (\<^verbatim>\<open>internal/app/auth.go\<close>, \<^verbatim>\<open>authz.go\<close>,
  \<^verbatim>\<open>audit_recorder.go\<close>): the SSO token of the company gateway, the local login session, the gate in
  front of the API, the callback that starts a session and the logout that ends it.

  A handler reads a request, the stores and the time, and returns what it decides, the new session
  store and the audit events it sends to the recorder (whose errors these handlers only log).  The
  session store is reached through the functions \<open>touch\<close>, \<open>revoke\<close>, \<open>create\<close> and \<open>status\<close> of the
  interface, which are arguments.  Also arguments, in \<open>jwt_lib\<close>: the decoding of the two JSON structs of
  a token, the parsing of the PEM public key and the RSA check of a signature.
\<close>

section \<open>Data\<close>

record AuthConfig =
  cfg_enabled :: bool
  cfg_cookie_name :: string
  cfg_jwt_public_key :: string
  cfg_expected_sub :: string
  cfg_clock_skew :: duration
  cfg_require_email :: bool

record AuthUserResponse =
  ur_email :: string
  ur_username :: string
  ur_display_name :: string
  ur_open_id :: string
  ur_feishu_user_id :: string
  ur_phone :: string
  ur_login_way :: string
  ur_subject :: string
  ur_role :: string

record apisixSSOUserData =
  ud_display :: string
  ud_mail :: string
  ud_open_id :: string
  ud_user_id :: string
  ud_phone :: string
  ud_username :: string
  ud_login_way :: string

record apisixSSOTokenClaims =
  cl_data :: apisixSSOUserData
  cl_exp :: int
  cl_sub :: string

text \<open>The header's algorithm, the claims of a payload, and the check of a signature of a digest.\<close>

record 'key jwt_lib =
  jl_algorithm :: "string \<Rightarrow> string option"
  jl_public_key :: "string \<Rightarrow> 'key option"
  jl_verify :: "'key \<Rightarrow> string \<Rightarrow> string \<Rightarrow> bool"
  jl_claims :: "string \<Rightarrow> apisixSSOTokenClaims option"

record http_request =
  rq_host :: string
  rq_path :: string
  rq_get :: bool
  rq_cookies :: "(string \<times> string) list"
  rq_remote_addr :: string
  rq_user_agent :: string
  rq_request_id :: string
  rq_sec_fetch_site :: string

text \<open>The handler; \<open>ah_sessions\<close>: a session store is configured, \<open>ah_audit\<close>: an audit recorder is.\<close>

record auth_handler =
  ah_auth :: AuthConfig
  ah_idle_timeout :: duration
  ah_sessions :: bool
  ah_audit :: bool
  ah_base_path :: string

record auth_identity =
  id_record :: AuthUserRecord
  id_user :: AuthUserResponse

section \<open>Configuration\<close>

definition isTruthy :: "string \<Rightarrow> bool" where
  "isTruthy v \<longleftrightarrow> to_lower (trim_space v) \<in> set [''1'', ''true'', ''yes'', ''on'']"

definition defaultAPISIXSSOCookieName :: string where
  "defaultAPISIXSSOCookieName = ''sy_sso_token''"

text \<open>The environment is a function; the built-in public key of the gateway is an argument.\<close>

definition AuthConfigFromEnv :: "string \<Rightarrow> (string \<Rightarrow> string) \<Rightarrow> AuthConfig" where
  "AuthConfigFromEnv default_key env =
     (let cookie = trim_space (env ''SSO_COOKIE_NAME''); key = trim_space (env ''SSO_JWT_PUBLIC_KEY'') in
      \<lparr>cfg_enabled = isTruthy (env ''SSO_ENABLED''),
       cfg_cookie_name = (if cookie = [] then defaultAPISIXSSOCookieName else cookie),
       cfg_jwt_public_key = (if key = [] then default_key else key),
       cfg_expected_sub = trim_space (env ''SSO_EXPECTED_SUB''),
       cfg_clock_skew = 30 * second, cfg_require_email = True\<rparr>)"

definition equal_fold :: "string \<Rightarrow> string \<Rightarrow> bool" where
  "equal_fold v lit \<longleftrightarrow> list_all2 (\<lambda>r c. in_ranges (fold_letter c) r) (runes v) lit"

definition MonitorPlaybackModeNVR :: string where "MonitorPlaybackModeNVR = ''nvr''"
definition MonitorPlaybackModeLegacy :: string where "MonitorPlaybackModeLegacy = ''legacy''"

definition MonitorPlaybackModeFromEnv :: "(string \<Rightarrow> string) \<Rightarrow> string" where
  "MonitorPlaybackModeFromEnv env =
     (if equal_fold (trim_space (env ''MONITOR_PLAYBACK_MODE'')) MonitorPlaybackModeNVR
      then MonitorPlaybackModeNVR else MonitorPlaybackModeLegacy)"

section \<open>Hosts and paths\<close>

definition hostname_of :: "string \<Rightarrow> string" where
  "hostname_of host = takeWhile (\<lambda>c. c \<noteq> CHR '':'') (to_lower (trim_space host))"

definition logoutGatewayHost :: "string \<Rightarrow> string" where
  "logoutGatewayHost host =
     (let h = hostname_of host in
      if h = ''lite.sy.soyoung.com'' then ''security-test.sy.soyoung.com''
      else if h = ''lite.soyoung.com'' then ''security.soyoung.com''
      else [])"

definition companyApplicationOrigin :: "string \<Rightarrow> string" where
  "companyApplicationOrigin host =
     (let h = hostname_of host in
      if h = ''lite.sy.soyoung.com'' then ''https://lite.sy.soyoung.com''
      else if h = ''lite.soyoung.com'' then ''http://lite.soyoung.com''
      else [])"

definition uniqueStrings :: "string list \<Rightarrow> string list" where
  "uniqueStrings values =
     rev (fold (\<lambda>v result. if v \<in> set result then result else v # result) values [])"

definition authCookieClearDomains :: "string \<Rightarrow> string list" where
  "authCookieClearDomains host =
     (let h = hostname_of host in
      if h = [] \<or> h = ''localhost'' \<or> count_list h (CHR ''.'') = 0 then [[]]
      else
        let parts = split_on (CHR ''.'') h; n = length parts;
            parent = (if n \<ge> 3 then [parts ! (n - 3) @ ''.'' @ parts ! (n - 2) @ ''.'' @ parts ! (n - 1)] else [])
        in uniqueStrings ([[], h] @ parent))"

definition defaultAppBasePath :: string where "defaultAppBasePath = ''/erzhuang-project''"
definition legacyAppBasePath :: string where "legacyAppBasePath = ''/erzhuang''"

text \<open>\<open>strings.Trim(value, "/")\<close>\<close>

definition trim_slashes :: "string \<Rightarrow> string" where
  "trim_slashes v =
     rev (dropWhile (\<lambda>c. c = CHR ''/'') (rev (dropWhile (\<lambda>c. c = CHR ''/'') v)))"

definition normalizeBasePath :: "string \<Rightarrow> string" where
  "normalizeBasePath v =
     (if v = [] \<or> v = ''/'' then defaultAppBasePath
      else let w = CHR ''/'' # trim_slashes v in if w = ''/'' then defaultAppBasePath else w)"

definition configuredBasePaths :: "string \<Rightarrow> string list" where
  "configuredBasePaths env =
     (let base = normalizeBasePath env in
      if base \<noteq> legacyAppBasePath then [base, legacyAppBasePath] else [base])"

definition trim_prefix :: "string \<Rightarrow> string \<Rightarrow> string" where
  "trim_prefix s p = (if has_prefix s p then drop (length p) s else s)"

definition isAPIPath :: "string \<Rightarrow> string \<Rightarrow> bool" where
  "isAPIPath env path \<longleftrightarrow>
     list_ex (\<lambda>base. has_prefix path (base @ ''/api/'')) (configuredBasePaths env) \<or> has_prefix path ''/api/''"

definition isAuthGateExemptPath :: "string \<Rightarrow> string \<Rightarrow> bool" where
  "isAuthGateExemptPath env path0 \<longleftrightarrow>
     fold (\<lambda>base path. trim_prefix path base) (configuredBasePaths env) path0 \<in>
       set [''/health'', ''/_/auth/callback'', ''/api/auth/logout'', ''/logout'', ''/api/auth/session-status'']"

definition safeAuthLogValue :: "string \<Rightarrow> string" where
  "safeAuthLogValue v0 =
     (let v = trim_space v0 in
      if v = [] then []
      else case str_index v ''@'' of
        None \<Rightarrow> ''***''
      | Some at \<Rightarrow> if at \<le> 1 then ''***'' else take 1 v @ ''***'' @ drop at v)"

section \<open>The SSO token\<close>

definition url_value :: "char \<Rightarrow> int option" where
  "url_value c =
     (let b = byte c in
      if 65 \<le> b \<and> b \<le> 90 then Some (b - 65)
      else if 97 \<le> b \<and> b \<le> 122 then Some (b - 71)
      else if 48 \<le> b \<and> b \<le> 57 then Some (b + 4)
      else if c = CHR ''-'' then Some 62
      else if c = CHR ''_'' then Some 63
      else None)"

text \<open>\<open>base64.RawURLEncoding.DecodeString\<close>: line ends are skipped, the bits left over are not checked.\<close>

fun url_quads :: "int list \<Rightarrow> string option" where
  "url_quads [] = Some []"
| "url_quads [a] = None"
| "url_quads [a, b] = Some [chr (a * 4 + b div 16)]"
| "url_quads [a, b, c] = Some [chr (a * 4 + b div 16), chr (b mod 16 * 16 + c div 4)]"
| "url_quads (a # b # c # d # rest) =
     map_option (\<lambda>t. chr (a * 4 + b div 16) # chr (b mod 16 * 16 + c div 4) # chr (c mod 4 * 64 + d) # t)
       (url_quads rest)"

definition raw_url_decode :: "string \<Rightarrow> string option" where
  "raw_url_decode s =
     (let vs = map url_value (filter (\<lambda>c. byte c \<noteq> 13 \<and> byte c \<noteq> 10) s) in
      if list_ex (\<lambda>v. v = None) vs then None else url_quads (map the vs))"

definition unix_second :: "int \<Rightarrow> gotime" where
  "unix_second n = (n + 62135596800) * second"

text \<open>
  \<open>AuthConfig.validateAPISIXSSOToken\<close>; the claims, or \<open>None\<close> for any of its errors (its callers only
  look whether there is one).
\<close>

definition validateAPISIXSSOToken ::
  "'key jwt_lib \<Rightarrow> AuthConfig \<Rightarrow> string \<Rightarrow> gotime \<Rightarrow> apisixSSOTokenClaims option" where
  "validateAPISIXSSOToken lib cfg token now =
     (case split_on (CHR ''.'') token of
        [p0, p1, p2] \<Rightarrow>
          (case raw_url_decode p0 of None \<Rightarrow> None | Some header \<Rightarrow>
          (case jl_algorithm lib header of None \<Rightarrow> None | Some alg \<Rightarrow>
           if alg \<noteq> ''RS256'' then None
           else case jl_public_key lib (cfg_jwt_public_key cfg) of None \<Rightarrow> None | Some key \<Rightarrow>
          (case raw_url_decode p2 of None \<Rightarrow> None | Some signature \<Rightarrow>
           if \<not> jl_verify lib key (sha256 (p0 @ ''.'' @ p1)) signature then None
           else case raw_url_decode p1 of None \<Rightarrow> None | Some payload \<Rightarrow>
          (case jl_claims lib payload of None \<Rightarrow> None | Some claims \<Rightarrow>
           if cl_exp claims = 0 \<or> now > unix_second (cl_exp claims) + cfg_clock_skew cfg then None
           else if cfg_expected_sub cfg \<noteq> [] \<and> cl_sub claims \<noteq> cfg_expected_sub cfg then None
           else if cfg_require_email cfg \<and> trim_space (ud_mail (cl_data claims)) = [] then None
           else Some claims))))
      | _ \<Rightarrow> None)"

definition authUser :: "apisixSSOTokenClaims \<Rightarrow> AuthUserResponse" where
  "authUser claims =
     (let d = cl_data claims; email = trim_space (ud_mail d);
          username = app_firstNonEmpty [ud_username d, email]
      in \<lparr>ur_email = email, ur_username = username,
          ur_display_name = app_firstNonEmpty [ud_display d, username, email],
          ur_open_id = trim_space (ud_open_id d), ur_feishu_user_id = trim_space (ud_user_id d),
          ur_phone = trim_space (ud_phone d), ur_login_way = trim_space (ud_login_way d),
          ur_subject = trim_space (cl_sub claims), ur_role = ''admin''\<rparr>)"

definition applyToResponse :: "AuthUserRecord \<Rightarrow> AuthUserResponse \<Rightarrow> AuthUserResponse" where
  "applyToResponse record user =
     (let email = trim_space (au_email record);
          username = app_firstNonEmpty [au_username record, ur_username user, email]
      in user\<lparr>ur_email := email, ur_username := username,
             ur_display_name := app_firstNonEmpty [au_display_name record, ur_display_name user, username, email],
             ur_feishu_user_id := app_firstNonEmpty [au_feishu_user_id record, ur_feishu_user_id user],
             ur_phone := app_firstNonEmpty [au_phone record, ur_phone user],
             ur_role := app_firstNonEmpty [au_role record, ''viewer'']\<rparr>)"

section \<open>Audit events of the login\<close>

definition requestIPAddress :: "http_request \<Rightarrow> string" where
  "requestIPAddress r =
     (let addr = trim_space (rq_remote_addr r) in
      case split_host_port addr of Some host \<Rightarrow> host | None \<Rightarrow> trim_space addr)"

record auditActor =
  act_user_id :: "int option"
  act_display_name :: string
  act_email :: string

definition auditActorFromClaims :: "AuthUserResponse \<Rightarrow> auditActor" where
  "auditActorFromClaims user =
     \<lparr>act_user_id = None,
      act_display_name = app_firstNonEmpty [ur_display_name user, ur_username user, ur_email user],
      act_email = trim_space (ur_email user)\<rparr>"

definition actorFromAuthUser :: "AuthUserRecord \<Rightarrow> AuthUserResponse \<Rightarrow> auditActor" where
  "actorFromAuthUser record user =
     (let actor = auditActorFromClaims user in
      \<lparr>act_user_id = (if au_id record \<noteq> 0 then Some (au_id record) else None),
       act_display_name = app_firstNonEmpty [au_display_name record, act_display_name actor],
       act_email = app_firstNonEmpty [au_email record, act_email actor]\<rparr>)"

definition auth_event :: "http_request \<Rightarrow> string \<Rightarrow> string \<Rightarrow> auditActor \<Rightarrow> string \<Rightarrow> AuditEvent" where
  "auth_event r action result actor detail =
     \<lparr>ev_id = 0, ev_user_id = act_user_id actor, ev_actor_display_name = act_display_name actor,
      ev_user_email = act_email actor, ev_action = action, ev_entity_type = [], ev_entity_id = None,
      ev_store_id = None, ev_external_org_id = [], ev_channel_id = None, ev_asset_logical_key = [],
      ev_ip_address = requestIPAddress r, ev_user_agent = trim_space (rq_user_agent r),
      ev_request_id = trim_space (rq_request_id r), ev_result = result, ev_detail_json = detail,
      ev_created_at = 0\<rparr>"

definition recordAuthAuditEvent :: "http_request \<Rightarrow> string \<Rightarrow> string \<Rightarrow> auditActor \<Rightarrow> AuditEvent list" where
  "recordAuthAuditEvent r action result actor = [auth_event r action result actor []]"

definition reason_detail :: "string \<Rightarrow> string" where
  "reason_detail reason =
     CHR ''{'' # quote # ''reason'' @ quote # CHR '':'' # quote # reason @ quote # ''}''"

definition recordAuthSessionTimeout ::
  "auth_handler \<Rightarrow> http_request \<Rightarrow> AuthUserRecord \<Rightarrow> AuthUserResponse \<Rightarrow> string \<Rightarrow> AuditEvent list" where
  "recordAuthSessionTimeout h r record user reason =
     (if \<not> ah_audit h then []
      else [auth_event r (''auth.'' @ reason) ''success'' (actorFromAuthUser record user) (reason_detail reason)])"

section \<open>Authentication\<close>

text \<open>\<open>r.Cookie\<close>: the first cookie of the name.\<close>

definition cookie_value :: "http_request \<Rightarrow> string \<Rightarrow> string option" where
  "cookie_value r name = map_of (rq_cookies r) name"

definition authSessionCookieName :: string where
  "authSessionCookieName = ''erzhuang_session''"

text \<open>The value of a cookie, when there is one that is not blank.\<close>

definition filled_cookie :: "http_request \<Rightarrow> string \<Rightarrow> string option" where
  "filled_cookie r name =
     (case cookie_value r name of
        None \<Rightarrow> None
      | Some v \<Rightarrow> if trim_space v = [] then None else Some v)"

definition authRequired :: "auth_handler \<Rightarrow> http_request \<Rightarrow> bool" where
  "authRequired h r \<longleftrightarrow> cfg_enabled (ah_auth h) \<or> logoutGatewayHost (rq_host r) \<noteq> []"

definition empty_user :: AuthUserRecord where
  "empty_user = \<lparr>au_id = 0, au_email = [], au_username = [], au_display_name = [], au_feishu_user_id = [],
     au_phone = [], au_role = [], au_enabled = False, au_last_login_at = None, au_scope_count = 0,
     au_scopes = [], au_scope_revision = []\<rparr>"

definition empty_response :: AuthUserResponse where
  "empty_response = \<lparr>ur_email = [], ur_username = [], ur_display_name = [], ur_open_id = [],
     ur_feishu_user_id = [], ur_phone = [], ur_login_way = [], ur_subject = [], ur_role = []\<rparr>"

text \<open>The bypass of a local development host.\<close>

definition local_admin :: auth_identity where
  "local_admin = \<lparr>id_record = empty_user\<lparr>au_role := RoleAdmin, au_enabled := True\<rparr>, id_user = empty_response\<rparr>"

definition authenticateSSO ::
  "'key jwt_lib \<Rightarrow> auth_handler \<Rightarrow> app_store \<Rightarrow> http_request \<Rightarrow> gotime \<Rightarrow> auth_error + auth_identity" where
  "authenticateSSO lib h s r now =
     (case filled_cookie r (cfg_cookie_name (ah_auth h)) of
        None \<Rightarrow> if \<not> authRequired h r then Inr local_admin else Inl ErrUnauthorizedAuth
      | Some token \<Rightarrow>
          (case validateAPISIXSSOToken lib (ah_auth h) token now of
             None \<Rightarrow> if \<not> authRequired h r then Inr local_admin else Inl ErrUnauthorizedAuth
           | Some claims \<Rightarrow>
               (case GetAuthUserByEmail s (ur_email (authUser claims)) of
                  Inl err \<Rightarrow> if err = ErrAuthUserNotFound then Inl ErrForbiddenAuth else Inl (ErrOther ''store'')
                | Inr record \<Rightarrow>
                    if \<not> au_enabled record then Inl ErrForbiddenAuth
                    else Inr \<lparr>id_record = record, id_user = authUser claims\<rparr>)))"

definition authIdleTimeout :: "auth_handler \<Rightarrow> duration" where
  "authIdleTimeout h =
     (if ah_idle_timeout h \<le> 0 \<or> ah_idle_timeout h > defaultAuthIdleTimeout then defaultAuthIdleTimeout
      else ah_idle_timeout h)"

type_synonym 'st touch_op =
  "'st \<Rightarrow> gotime \<Rightarrow> string \<Rightarrow> int \<Rightarrow> gotime \<Rightarrow> duration \<Rightarrow> (auth_error + bool) \<times> 'st"
type_synonym 'st revoke_op = "'st \<Rightarrow> gotime \<Rightarrow> string \<Rightarrow> int \<Rightarrow> string \<Rightarrow> gotime \<Rightarrow> 'st"

definition authenticateRequest ::
  "'st touch_op \<Rightarrow> 'st revoke_op \<Rightarrow> 'key jwt_lib \<Rightarrow> auth_handler \<Rightarrow> app_store \<Rightarrow> http_request \<Rightarrow> gotime \<Rightarrow> 'st \<Rightarrow>
   (auth_error + auth_identity) \<times> 'st \<times> AuditEvent list" where
  "authenticateRequest touch revoke lib h s r now st =
     (case authenticateSSO lib h s r now of
        Inl err \<Rightarrow> (Inl err, st, [])
      | Inr identity \<Rightarrow>
          if \<not> authRequired h r then (Inr identity, st, [])
          else if \<not> ah_sessions h then (Inl ErrAuthSessionUnavailable, st, [])
          else case filled_cookie r authSessionCookieName of
            None \<Rightarrow> (Inl ErrSessionLoginRequired, st, [])
          | Some token \<Rightarrow>
              (let uid = au_id (id_record identity) in
               case touch st now token uid now (authIdleTimeout h) of
                 (Inl err, st1) \<Rightarrow>
                   if err = ErrSessionAbsoluteTimeout
                   then (Inl ErrSessionAbsoluteTimeout, revoke st1 now token uid ''absolute_timeout'' now,
                         recordAuthSessionTimeout h r (id_record identity) (id_user identity) ''absolute_timeout'')
                   else (Inl ErrAuthSessionUnavailable, st1, [])
               | (Inr active, st1) \<Rightarrow>
                   if \<not> active
                   then (Inl ErrSessionIdleTimeout, revoke st1 now token uid ''idle_timeout'' now,
                         recordAuthSessionTimeout h r (id_record identity) (id_user identity) ''idle_timeout'')
                   else (Inr identity, st1, [])))"

text \<open>The gate: the request goes on, with the identity it leaves in the context, or is answered.\<close>

datatype gate = GatePass "auth_identity option" | GateReject auth_error

definition authGate ::
  "'st touch_op \<Rightarrow> 'st revoke_op \<Rightarrow> 'key jwt_lib \<Rightarrow> auth_handler \<Rightarrow> app_store \<Rightarrow> http_request \<Rightarrow> gotime \<Rightarrow> 'st \<Rightarrow>
   gate \<times> 'st \<times> AuditEvent list" where
  "authGate touch revoke lib h s r now st =
     (if \<not> authRequired h r \<or> isAuthGateExemptPath (ah_base_path h) (rq_path r) \<or>
         \<not> isAPIPath (ah_base_path h) (rq_path r)
      then (GatePass None, st, [])
      else case authenticateRequest touch revoke lib h s r now st of
        (Inl err, rest) \<Rightarrow> (GateReject err, rest)
      | (Inr identity, rest) \<Rightarrow> (GatePass (Some identity), rest))"

text \<open>The identity of a handler behind the gate: the one in the context, or a fresh authentication.\<close>

definition currentAuthIdentity ::
  "'st touch_op \<Rightarrow> 'st revoke_op \<Rightarrow> 'key jwt_lib \<Rightarrow> auth_handler \<Rightarrow> app_store \<Rightarrow> http_request \<Rightarrow> gotime \<Rightarrow>
   auth_identity option \<Rightarrow> 'st \<Rightarrow> (auth_error + auth_identity) \<times> 'st \<times> AuditEvent list" where
  "currentAuthIdentity touch revoke lib h s r now ctx st =
     (case ctx of
        Some identity \<Rightarrow> (Inr identity, st, [])
      | None \<Rightarrow> authenticateRequest touch revoke lib h s r now st)"

datatype access = Allowed AuthUserRecord | Denied | AccessError auth_error

definition requirePermission ::
  "'st touch_op \<Rightarrow> 'st revoke_op \<Rightarrow> 'key jwt_lib \<Rightarrow> auth_handler \<Rightarrow> app_store \<Rightarrow> http_request \<Rightarrow> gotime \<Rightarrow>
   auth_identity option \<Rightarrow> string \<Rightarrow> 'st \<Rightarrow> access \<times> 'st \<times> AuditEvent list" where
  "requirePermission touch revoke lib h s r now ctx permission st =
     (case currentAuthIdentity touch revoke lib h s r now ctx st of
        (Inl err, rest) \<Rightarrow> (AccessError err, rest)
      | (Inr identity, rest) \<Rightarrow>
          if \<not> hasPermission (permissions (id_record identity)) permission then (Denied, rest)
          else (Allowed (id_record identity), rest))"

definition nvrLabAdminGuard ::
  "'st touch_op \<Rightarrow> 'st revoke_op \<Rightarrow> 'key jwt_lib \<Rightarrow> auth_handler \<Rightarrow> app_store \<Rightarrow> http_request \<Rightarrow> gotime \<Rightarrow>
   auth_identity option \<Rightarrow> 'st \<Rightarrow> access \<times> 'st \<times> AuditEvent list" where
  "nvrLabAdminGuard touch revoke lib h s r now ctx st =
     (case currentAuthIdentity touch revoke lib h s r now ctx st of
        (Inl err, rest) \<Rightarrow> (AccessError err, rest)
      | (Inr identity, rest) \<Rightarrow>
          if normalizeRole (au_role (id_record identity)) \<noteq> RoleAdmin then (Denied, rest)
          else (Allowed (id_record identity), rest))"

section \<open>The answer to an authentication error\<close>

text \<open>HTTP status and machine-readable code.\<close>

definition writeAuthError :: "auth_error \<Rightarrow> int \<times> string" where
  "writeAuthError err =
     (case err of
        ErrSessionIdleTimeout \<Rightarrow> (401, ''session_idle_timeout'')
      | ErrSessionAbsoluteTimeout \<Rightarrow> (401, ''session_absolute_timeout'')
      | ErrSessionReauthenticationRequired \<Rightarrow> (401, ''session_reauthentication_required'')
      | ErrSessionLoginRequired \<Rightarrow> (401, ''session_login_required'')
      | ErrAuthSessionUnavailable \<Rightarrow> (503, ''auth_session_unavailable'')
      | ErrUnauthorizedAuth \<Rightarrow> (401, [])
      | ErrForbiddenAuth \<Rightarrow> (403, [])
      | _ \<Rightarrow> (500, []))"

definition isSessionAuthError :: "auth_error \<Rightarrow> bool" where
  "isSessionAuthError err \<longleftrightarrow>
     err = ErrUnauthorizedAuth \<or> err = ErrSessionIdleTimeout \<or> err = ErrSessionAbsoluteTimeout \<or>
     err = ErrSessionLoginRequired \<or> err = ErrSessionReauthenticationRequired \<or> err = ErrAuthSessionUnavailable"

datatype monitor_auth_error = MonitorUnauthorized | MonitorForbidden | MonitorOther auth_error

definition nvrMonitorAuthError :: "auth_error \<Rightarrow> monitor_auth_error" where
  "nvrMonitorAuthError err =
     (if isSessionAuthError err then MonitorUnauthorized
      else if err = ErrForbiddenAuth then MonitorForbidden
      else MonitorOther err)"

section \<open>Who may watch what\<close>

text \<open>
  \<open>FilterStores\<close> and \<open>FilterMonitorStores\<close>: the stores of each city that the user may watch, and the
  cities with one left; \<open>org\<close> reads the organisation key of a store.
\<close>

definition filter_monitor_stores ::
  "app_store \<Rightarrow> AuthUserRecord \<Rightarrow> ('store \<Rightarrow> string) \<Rightarrow> (string \<times> 'store list) list \<Rightarrow> (string \<times> 'store list) list" where
  "filter_monitor_stores s user org cities =
     filter (\<lambda>(city, stores). length stores > 0)
       (map (\<lambda>(city, stores). (city, filter (\<lambda>st. CanUserViewMonitorStore s user (org st)) stores)) cities)"

definition CanBackfillSnapshot :: "app_store \<Rightarrow> AuthUserRecord \<Rightarrow> string \<Rightarrow> bool" where
  "CanBackfillSnapshot s user externalOrgID \<longleftrightarrow>
     (if \<not> hasPermission (permissions user) PermissionStoreWrite then False
      else CanUserViewMonitorStore s user externalOrgID)"

section \<open>Login and logout\<close>

definition recordAuthLogin ::
  "'key jwt_lib \<Rightarrow> auth_handler \<Rightarrow> app_store \<Rightarrow> http_request \<Rightarrow> gotime \<Rightarrow> AuditEvent list" where
  "recordAuthLogin lib h s r now =
     (if \<not> ah_audit h then []
      else
        let nobody = \<lparr>act_user_id = None, act_display_name = [], act_email = []\<rparr> in
        case filled_cookie r (cfg_cookie_name (ah_auth h)) of
          None \<Rightarrow> recordAuthAuditEvent r ''auth.login'' ''denied'' nobody
        | Some token \<Rightarrow>
            (case validateAPISIXSSOToken lib (ah_auth h) token now of
               None \<Rightarrow> recordAuthAuditEvent r ''auth.login'' ''failed'' nobody
             | Some claims \<Rightarrow>
                 (case GetAuthUserByEmail s (ur_email (authUser claims)) of
                    Inr record \<Rightarrow>
                      if au_enabled record
                      then recordAuthAuditEvent r ''auth.login'' ''success'' (actorFromAuthUser record (authUser claims))
                      else recordAuthAuditEvent r ''auth.login'' ''denied'' nobody
                  | Inl err \<Rightarrow>
                      recordAuthAuditEvent r ''auth.login''
                        (if err = ErrAuthUserNotFound then ''denied'' else ''failed'') nobody)))"

definition recordAuthLogout ::
  "'key jwt_lib \<Rightarrow> auth_handler \<Rightarrow> app_store \<Rightarrow> http_request \<Rightarrow> gotime \<Rightarrow> AuditEvent list" where
  "recordAuthLogout lib h s r now =
     (if \<not> ah_audit h then []
      else
        let nobody = \<lparr>act_user_id = None, act_display_name = [], act_email = []\<rparr> in
        case filled_cookie r (cfg_cookie_name (ah_auth h)) of
          None \<Rightarrow> recordAuthAuditEvent r ''auth.logout'' ''denied'' nobody
        | Some token \<Rightarrow>
            (case validateAPISIXSSOToken lib (ah_auth h) token now of
               None \<Rightarrow> recordAuthAuditEvent r ''auth.logout'' ''failed'' nobody
             | Some claims \<Rightarrow>
                 (let claimed = auditActorFromClaims (authUser claims) in
                  case GetAuthUserByEmail s (ur_email (authUser claims)) of
                    Inr record \<Rightarrow>
                      recordAuthAuditEvent r ''auth.logout'' (if au_enabled record then ''success'' else ''denied'')
                        (actorFromAuthUser record (authUser claims))
                  | Inl err \<Rightarrow>
                      recordAuthAuditEvent r ''auth.logout''
                        (if err = ErrAuthUserNotFound then ''denied'' else ''failed'') claimed)))"

definition revokeLocalAuthSession ::
  "'st revoke_op \<Rightarrow> 'key jwt_lib \<Rightarrow> auth_handler \<Rightarrow> app_store \<Rightarrow> http_request \<Rightarrow> gotime \<Rightarrow> 'st \<Rightarrow> 'st" where
  "revokeLocalAuthSession revoke lib h s r now st =
     (if \<not> ah_sessions h then st
      else case filled_cookie r authSessionCookieName of
        None \<Rightarrow> st
      | Some token \<Rightarrow>
          (case filled_cookie r (cfg_cookie_name (ah_auth h)) of
             None \<Rightarrow> st
           | Some sso \<Rightarrow>
               (case validateAPISIXSSOToken lib (ah_auth h) sso now of
                  None \<Rightarrow> st
                | Some claims \<Rightarrow>
                    (case GetAuthUserByEmail s (ur_email (authUser claims)) of
                       Inl err \<Rightarrow> st
                     | Inr record \<Rightarrow>
                         if \<not> au_enabled record then st
                         else revoke st now token (au_id record) ''manual_logout'' now))))"

definition isCrossSiteLogoutRequest :: "http_request \<Rightarrow> bool" where
  "isCrossSiteLogoutRequest r \<longleftrightarrow> equal_fold (trim_space (rq_sec_fetch_site r)) ''cross-site''"

text \<open>The logout: refused for another site's navigation, else the session ends and the event is sent.\<close>

definition authLogoutHandler ::
  "'st revoke_op \<Rightarrow> 'key jwt_lib \<Rightarrow> auth_handler \<Rightarrow> app_store \<Rightarrow> http_request \<Rightarrow> gotime \<Rightarrow> 'st \<Rightarrow>
   bool \<times> 'st \<times> AuditEvent list" where
  "authLogoutHandler revoke lib h s r now st =
     (if rq_get r \<and> isCrossSiteLogoutRequest r then (False, st, [])
      else (True, revokeLocalAuthSession revoke lib h s r now st, recordAuthLogout lib h s r now))"

text \<open>
  The callback after the gateway's login.  \<open>CallbackOk\<close> carries the new session token for the cookie, if
  one was created; \<open>CallbackReject\<close> is an error handed to \<open>rejectAuthCallback\<close>.
\<close>

datatype callback = CallbackError auth_error | CallbackReject auth_error | CallbackOk "string option"

type_synonym 'st create_op =
  "'st \<Rightarrow> string option \<Rightarrow> gotime \<Rightarrow> AuthSessionCreate \<Rightarrow> (auth_error + string) \<times> 'st"

definition authCallbackHandler ::
  "'st touch_op \<Rightarrow> 'st revoke_op \<Rightarrow> 'st create_op \<Rightarrow> 'key jwt_lib \<Rightarrow> auth_handler \<Rightarrow> app_store \<Rightarrow> http_request \<Rightarrow>
   gotime \<Rightarrow> string option \<Rightarrow> 'st \<Rightarrow> callback \<times> 'st \<times> AuditEvent list" where
  "authCallbackHandler touch revoke create lib h s r now rnd st =
     (if \<not> authRequired h r then (CallbackOk None, st, recordAuthLogin lib h s r now)
      else case authenticateSSO lib h s r now of
        Inl err \<Rightarrow> (CallbackError err, st, [])
      | Inr identity \<Rightarrow>
          if \<not> ah_sessions h then (CallbackError ErrAuthSessionUnavailable, st, [])
          else case filled_cookie r authSessionCookieName of
            Some token \<Rightarrow>
              (case authenticateRequest touch revoke lib h s r now st of
                 (Inl err, rest) \<Rightarrow> (CallbackReject err, rest)
               | (Inr _, st1, events) \<Rightarrow> (CallbackOk None, st1, events @ recordAuthLogin lib h s r now))
          | None \<Rightarrow>
              (let sso = (case cookie_value r (cfg_cookie_name (ah_auth h)) of Some v \<Rightarrow> v | None \<Rightarrow> []) in
               case create st rnd now
                      \<lparr>sc_user_id = au_id (id_record identity), sc_sso_subject = ssoCredentialFingerprint sso,
                       sc_ip_address = requestIPAddress r, sc_user_agent = rq_user_agent r, sc_now = now\<rparr> of
                 (Inl err, st1) \<Rightarrow>
                   (CallbackReject (if err = ErrSessionReauthenticationRequired then err else ErrAuthSessionUnavailable),
                    st1, [])
               | (Inr token, st1) \<Rightarrow>
                   if token = [] then (CallbackError ErrAuthSessionUnavailable, st1, [])
                   else (CallbackOk (Some token), st1, recordAuthLogin lib h s r now)))"

section \<open>The status of a session\<close>

type_synonym 'st status_op = "'st \<Rightarrow> string \<Rightarrow> int \<Rightarrow> gotime \<Rightarrow> auth_error + AuthSessionStatus"

definition readAuthSessionStatus ::
  "'st status_op \<Rightarrow> http_request \<Rightarrow> int \<Rightarrow> gotime \<Rightarrow> 'st \<Rightarrow> auth_error + AuthSessionStatus" where
  "readAuthSessionStatus status r userID now st =
     (case filled_cookie r authSessionCookieName of
        None \<Rightarrow> Inl ErrSessionLoginRequired
      | Some token \<Rightarrow>
          (case status st token userID now of
             Inl err \<Rightarrow>
               if err \<noteq> ErrSessionIdleTimeout \<and> err \<noteq> ErrSessionAbsoluteTimeout
               then Inl ErrAuthSessionUnavailable else Inl err
           | Inr v \<Rightarrow> Inr v))"

datatype status_answer = StatusDisabled | StatusError auth_error | StatusOk AuthSessionStatus

definition authSessionStatusHandler ::
  "'st status_op \<Rightarrow> 'st revoke_op \<Rightarrow> 'key jwt_lib \<Rightarrow> auth_handler \<Rightarrow> app_store \<Rightarrow> http_request \<Rightarrow> gotime \<Rightarrow> 'st \<Rightarrow>
   status_answer \<times> 'st \<times> AuditEvent list" where
  "authSessionStatusHandler status revoke lib h s r now st =
     (case authenticateSSO lib h s r now of
        Inl err \<Rightarrow> (StatusError err, st, [])
      | Inr identity \<Rightarrow>
          if \<not> authRequired h r then (StatusDisabled, st, [])
          else if \<not> ah_sessions h then (StatusError ErrAuthSessionUnavailable, st, [])
          else
            let uid = au_id (id_record identity) in
            case readAuthSessionStatus status r uid now st of
              Inr v \<Rightarrow> (StatusOk v, st, [])
            | Inl err \<Rightarrow>
                if err = ErrSessionIdleTimeout \<or> err = ErrSessionAbsoluteTimeout then
                  let reason = (if err = ErrSessionAbsoluteTimeout then ''absolute_timeout'' else ''idle_timeout'');
                      st1 = (case cookie_value r authSessionCookieName of
                               Some token \<Rightarrow> revoke st now token uid reason now
                             | None \<Rightarrow> st)
                  in (StatusError err, st1, recordAuthSessionTimeout h r (id_record identity) (id_user identity) reason)
                else (StatusError err, st, []))"

end
