(* ===== verification/App_Store_Props.thy ===== *)
theory App_Store_Props
  imports App_Store
begin

text \<open>
  What the operations of the application's store keep and mean: users, grants, the revision that
  guards their edits, the audit log and its pages, and the digital twin white list.
\<close>

section \<open>Pieces\<close>

lemma set_uniquePositive: "set (uniquePositiveInt64s xs) = {x \<in> set xs. 0 < x}"
proof -
  have "set (fold (\<lambda>v r. if v \<le> 0 \<or> v \<in> set r then r else v # r) xs acc) = set acc \<union> {x \<in> set xs. 0 < x}" for acc :: "int list"
    by (induction xs arbitrary: acc) auto
  then show ?thesis by (simp add: uniquePositiveInt64s_def)
qed

lemma distinct_uniquePositive: "distinct (uniquePositiveInt64s xs)"
proof -
  have "distinct acc \<Longrightarrow> distinct (fold (\<lambda>v r. if v \<le> 0 \<or> v \<in> set r then r else v # r) xs acc)" for acc :: "int list"
    by (induction xs arbitrary: acc) auto
  then show ?thesis by (simp add: uniquePositiveInt64s_def)
qed

lemma map_update_snd_same:
  "distinct (map fst al) \<Longrightarrow> map_of al k = Some v \<Longrightarrow> f w = f v \<Longrightarrow>
   map (f \<circ> snd) (AList.update k w al) = map (f \<circ> snd) al"
  by (induction al) auto

lemma map_fst_update_same: "map_of al k = Some v \<Longrightarrow> map fst (AList.update k w al) = map fst al"
  by (induction al) auto

lemma update_new: "map_of al k = None \<Longrightarrow> AList.update k w al = al @ [(k, w)]"
  by (induction al) (auto split: if_splits)

lemma set_update_same:
  "distinct (map fst al) \<Longrightarrow> p \<in> set (AList.update k w al) \<Longrightarrow> p = (k, w) \<or> p \<in> set al"
  using set_alist_update by fastforce

lemma find_user:
  "find (\<lambda>(email, user). P user) al = Some (email, user) \<Longrightarrow> (email, user) \<in> set al \<and> P user"
  by (induction al) (auto split: if_splits)

text \<open>What the grants of an edit are made of.\<close>

lemma fold_upd_Some:
  "fold (\<lambda>c m. m(f c \<mapsto> c)) cs m k = Some c \<Longrightarrow> m k = Some c \<or> c \<in> set cs \<and> f c = k"
proof (induction cs arbitrary: m)
  case (Cons a cs)
  then show ?case using Cons.IH [of "m(f a \<mapsto> a)"] by (auto split: if_splits)
qed simp

lemma known_scopes_source:
  assumes "known_scopes s userID k = Some c"
  shows "sc_store_id c = k \<and>
    (c \<in> set (scopes_of s userID) \<or> c \<in> set (as_scope_candidates s) \<and> \<not> sc_unavailable c)"
  using fold_upd_Some [OF assms [unfolded known_scopes_def]] by auto

lemmas known_scopes_key = known_scopes_source [THEN conjunct1]

lemma scopes_for_Inr:
  "scopes_for byID ns = Inr scopes \<Longrightarrow> map byID ns = map Some scopes"
  by (induction ns arbitrary: scopes) (auto simp: bind_sum_eq_Inr split: option.splits)

lemma monitorScopesForIDs_Some:
  assumes "monitorScopesForIDs s userID (Some ids) = Inr scopes"
  shows "map sc_store_id scopes = uniquePositiveInt64s ids \<and>
    (\<forall>c \<in> set scopes. c \<in> set (scopes_of s userID) \<or> c \<in> set (as_scope_candidates s) \<and> \<not> sc_unavailable c)"
proof -
  have m: "map (known_scopes s userID) (uniquePositiveInt64s ids) = map Some scopes"
    using assms scopes_for_Inr by (auto simp: monitorScopesForIDs_def split: if_splits)
  have "map sc_store_id scopes = ns" if "map (known_scopes s userID) ns = map Some scopes" for ns
    using that
  proof (induction ns arbitrary: scopes)
    case (Cons n ns)
    then show ?case by (cases scopes) (auto dest: known_scopes_key)
  qed simp
  moreover have "\<exists>n. known_scopes s userID n = Some c" if "c \<in> set scopes" for c
  proof -
    have "Some c \<in> set (map Some scopes)" using that by simp
    then show ?thesis unfolding m [symmetric] by auto
  qed
  ultimately show ?thesis using m known_scopes_source by blast
qed

section \<open>The invariant of the store\<close>

definition user_ids_upto :: "nat \<Rightarrow> int list" where
  "user_ids_upto n = map (\<lambda>i. int i + 1) [0..<n]"

lemma user_ids_upto_Suc: "user_ids_upto (Suc n) = user_ids_upto n @ [int n + 1]"
  by (simp add: user_ids_upto_def)

lemma length_user_ids_upto [simp]: "length (user_ids_upto n) = n"
  by (simp add: user_ids_upto_def)

lemma distinct_user_ids_upto [simp]: "distinct (user_ids_upto n)"
  by (auto simp: user_ids_upto_def distinct_map inj_on_def)

definition users_ok :: "app_store \<Rightarrow> bool" where
  "users_ok s \<longleftrightarrow>
     distinct (map fst (as_auth_users s)) \<and>
     (\<forall>(email, u) \<in> set (as_auth_users s). au_email u = email) \<and>
     map (au_id \<circ> snd) (as_auth_users s) = user_ids_upto (length (as_auth_users s))"

text \<open>An institution is named by its id.\<close>

definition named :: "AuthUserResourceScope \<Rightarrow> bool" where
  "named c \<longleftrightarrow> sc_external_org_id c = itoa (sc_store_id c)"

definition grants_ok :: "app_store \<Rightarrow> bool" where
  "grants_ok s \<longleftrightarrow>
     (\<forall>c \<in> set (as_scope_candidates s). named c) \<and>
     (\<forall>userID. distinct (map sc_store_id (scopes_of s userID)) \<and>
        (\<forall>c \<in> set (scopes_of s userID). 0 < sc_store_id c \<and> named c))"

text \<open>What a stored audit event looks like.\<close>

definition log_ok :: "AuditEvent \<Rightarrow> bool" where
  "log_ok log \<longleftrightarrow>
     (\<exists>ip. ev_ip_address log = sanitizeAuditMetadata ip 64) \<and>
     (\<exists>ua. ev_user_agent log = sanitizeAuditMetadata ua 512) \<and>
     (\<exists>rid. ev_request_id log = sanitizeAuditMetadata rid 128) \<and>
     (\<exists>detail. ev_detail_json log = sanitizeAuditDetail detail)"

definition logs_ok :: "app_store \<Rightarrow> bool" where
  "logs_ok s \<longleftrightarrow>
     map ev_id (as_audit_logs s) = user_ids_upto (length (as_audit_logs s)) \<and>
     as_next_audit_id s = int (length (as_audit_logs s)) \<and>
     (\<forall>log \<in> set (as_audit_logs s). log_ok log)"

definition app_store_ok :: "app_store \<Rightarrow> bool" where
  "app_store_ok s \<longleftrightarrow> users_ok s \<and> grants_ok s \<and> logs_ok s"

section \<open>Every operation keeps it\<close>

lemma users_ok_frame:
  "as_auth_users s' = as_auth_users s \<Longrightarrow> users_ok s' = users_ok s"
  by (simp add: users_ok_def)

lemma grants_ok_frame:
  "as_scopes_by_user s' = as_scopes_by_user s \<Longrightarrow> as_scope_candidates s' = as_scope_candidates s \<Longrightarrow>
   grants_ok s' = grants_ok s"
  by (simp add: grants_ok_def scopes_of_def)

lemma logs_ok_frame:
  "as_audit_logs s' = as_audit_logs s \<Longrightarrow> as_next_audit_id s' = as_next_audit_id s \<Longrightarrow> logs_ok s' = logs_ok s"
  by (simp add: logs_ok_def)

lemma ev_id_stored [simp]: "ev_id (stored_log nr now log) = nr"
  by (simp add: stored_log_def)

lemma log_ok_stored: "log_ok (stored_log nr now log)"
  by (auto simp: log_ok_def stored_log_def)

lemma createAuditLogLocked_ok:
  assumes "app_store_ok s" "createAuditLogLocked s ctx now log = (r, s')"
  shows "app_store_ok s'"
proof (cases ctx)
  case (Some err)
  then show ?thesis using assms by (simp add: createAuditLogLocked_def)
next
  case None
  then have s': "s' = s\<lparr>as_next_audit_id := as_next_audit_id s + 1,
      as_audit_logs := as_audit_logs s @ [stored_log (as_next_audit_id s + 1) now log]\<rparr>"
    using assms(2) by (auto simp: createAuditLogLocked_def Let_def)
  then have "users_ok s'" "grants_ok s'"
    using assms(1) users_ok_frame [of s' s] grants_ok_frame [of s' s] by (simp_all add: app_store_ok_def)
  moreover have "logs_ok s'"
    using assms(1) s' log_ok_stored by (auto simp: logs_ok_def app_store_ok_def user_ids_upto_Suc)
  ultimately show ?thesis by (simp add: app_store_ok_def)
qed

lemma put_existing_ok:
  assumes "app_store_ok s" "(email, user) \<in> set (as_auth_users s)"
    and "au_id user' = au_id user" "au_email user' = au_email user"
  shows "app_store_ok (put_user s email user')"
proof -
  let ?al = "as_auth_users s"
  have ok: "users_ok s" using assms(1) by (simp add: app_store_ok_def)
  then have dist: "distinct (map fst ?al)" by (simp add: users_ok_def)
  then have look: "map_of ?al email = Some user" using assms(2) by simp
  then have fst': "map fst (AList.update email user' ?al) = map fst ?al" by (rule map_fst_update_same)
  then have len: "length (AList.update email user' ?al) = length ?al" by (metis length_map)
  have "users_ok (put_user s email user')"
    using ok assms(2-4) set_update_same [OF dist] map_update_snd_same [OF dist look, of au_id user'] dist fst' len
    by (fastforce simp: users_ok_def put_user_def)
  then show ?thesis
    using assms(1) grants_ok_frame [of "put_user s email user'" s] logs_ok_frame [of "put_user s email user'" s]
    by (simp add: app_store_ok_def put_user_def)
qed

lemma scopes_of_set: "scopes_of (set_scopes s u scopes) u' = (if u' = u then scopes else scopes_of s u')"
  by (simp add: scopes_of_def set_scopes_def update_conv')

lemma set_scopes_fields [simp]:
  "as_scope_candidates (set_scopes s u scopes) = as_scope_candidates s"
  "as_auth_users (set_scopes s u scopes) = as_auth_users s"
  by (simp_all add: set_scopes_def)

lemma scopes_of_put [simp]: "scopes_of (put_user s e u) = scopes_of s"
  by (rule ext) (simp add: scopes_of_def put_user_def)

lemma monitorScopesForIDs_ok:
  assumes "grants_ok s" "monitorScopesForIDs s userID ids = Inr scopes"
  shows "distinct (map sc_store_id scopes) \<and> (\<forall>c \<in> set scopes. 0 < sc_store_id c \<and> named c)"
proof (cases ids)
  case None
  with assms(2) have "scopes = scopes_of s userID" by (simp add: monitorScopesForIDs_def)
  then show ?thesis using assms(1) unfolding grants_ok_def by blast
next
  case (Some xs)
  with monitorScopesForIDs_Some assms(2) have eq: "map sc_store_id scopes = uniquePositiveInt64s xs" by blast
  then have "sc_store_id c \<in> set (uniquePositiveInt64s xs)" if "c \<in> set scopes" for c
    using that by (metis image_eqI list.set_map)
  moreover have "named c" if "c \<in> set scopes" for c
    using that assms monitorScopesForIDs_Some [of s userID xs scopes] Some
    unfolding grants_ok_def by blast
  ultimately show ?thesis using eq distinct_uniquePositive by (auto simp: set_uniquePositive)
qed

lemma set_scopes_ok:
  assumes "app_store_ok s" "monitorScopesForIDs s userID ids = Inr scopes"
  shows "app_store_ok (set_scopes s userID scopes)"
proof -
  have "grants_ok (set_scopes s userID scopes)"
  proof -
    have g: "grants_ok s" using assms(1) by (simp only: app_store_ok_def)
    show ?thesis
      unfolding grants_ok_def scopes_of_set set_scopes_fields
      using g [unfolded grants_ok_def] monitorScopesForIDs_ok [OF g assms(2)] by presburger
  qed
  then show ?thesis
    using assms(1) users_ok_frame [of "set_scopes s userID scopes" s] logs_ok_frame [of "set_scopes s userID scopes" s]
    by (simp add: app_store_ok_def set_scopes_def)
qed

lemma attach_fields [simp]:
  "au_id (attachMemoryMonitorScopes s u) = au_id u" "au_email (attachMemoryMonitorScopes s u) = au_email u"
  "au_role (attachMemoryMonitorScopes s u) = au_role u" "au_enabled (attachMemoryMonitorScopes s u) = au_enabled u"
  "au_scopes (attachMemoryMonitorScopes s u) = scopes_of s (au_id u)"
  "au_scope_revision (attachMemoryMonitorScopes s u) =
     userMonitorScopeRevision [memoryScopeRevision (scopes_of s (au_id u))] (au_role u) (au_enabled u)"
  by (simp_all add: attachMemoryMonitorScopes_def Let_def)

lemma updated_fields [simp]:
  "au_id (updated_user u i) = au_id u" "au_email (updated_user u i) = au_email u"
  "au_role (updated_user u i) = normalizeRole (am_role i)" "au_enabled (updated_user u i) = am_enabled i"
  by (simp_all add: updated_user_def)

text \<open>The two ways an edit of a user can end.\<close>

lemma UpdateAuthUser_Inr:
  assumes "UpdateAuthUser s uid input = (Inr user', s')"
  obtains email user scopes where
    "find (\<lambda>(e, u). au_id u = uid) (as_auth_users s) = Some (email, user)"
    "(email, user) \<in> set (as_auth_users s)" "au_id user = uid"
    "am_scope_revision input = au_scope_revision (attachMemoryMonitorScopes s user)"
    "monitorScopesForIDs s uid (am_institution_ids input) = Inr scopes"
    "user' = attachMemoryMonitorScopes (set_scopes s uid scopes)
       (updated_user (attachMemoryMonitorScopes s user) input)"
    "s' = put_user (set_scopes s uid scopes) email user'"
proof (cases "find (\<lambda>(e, u). au_id u = uid) (as_auth_users s)")
  case None
  then show ?thesis using assms by (simp add: UpdateAuthUser_def)
next
  case (Some p)
  obtain email user where p: "p = (email, user)" by (cases p)
  with Some find_user [of "\<lambda>u. au_id u = uid" "as_auth_users s"] have
    "(email, user) \<in> set (as_auth_users s)" "au_id user = uid" by auto
  moreover from this assms Some p obtain scopes where
    "monitorScopesForIDs s uid (am_institution_ids input) = Inr scopes"
    by (cases "monitorScopesForIDs s uid (am_institution_ids input)")
      (auto simp: UpdateAuthUser_def Let_def split: if_splits)
  ultimately show ?thesis
    using assms Some p by (intro that) (auto simp: UpdateAuthUser_def Let_def split: if_splits)
qed

lemma UpdateAuthUser_Inl: "UpdateAuthUser s uid input = (Inl err, s') \<Longrightarrow> s' = s"
  by (auto simp: UpdateAuthUser_def Let_def split: option.splits prod.splits if_splits sum.splits)

lemma UpdateAuthUser_ok:
  assumes "app_store_ok s" "UpdateAuthUser s uid input = (r, s')"
  shows "app_store_ok s'"
proof (cases r)
  case (Inl err)
  then show ?thesis using assms UpdateAuthUser_Inl by blast
next
  case (Inr user')
  with assms(2) have "UpdateAuthUser s uid input = (Inr user', s')" by simp
  then show ?thesis
  proof (rule UpdateAuthUser_Inr)
    fix email user scopes
    assume *: "(email, user) \<in> set (as_auth_users s)"
      "monitorScopesForIDs s uid (am_institution_ids input) = Inr scopes"
      "user' = attachMemoryMonitorScopes (set_scopes s uid scopes)
         (updated_user (attachMemoryMonitorScopes s user) input)"
      "s' = put_user (set_scopes s uid scopes) email user'"
    have "(email, user) \<in> set (as_auth_users (set_scopes s uid scopes))"
      using *(1) by (simp add: set_scopes_def)
    from put_existing_ok [OF set_scopes_ok [OF assms(1) *(2)] this, of user'] *(3,4)
    show ?thesis by simp
  qed
qed

lemma CreateAuthUser_Inr:
  assumes "CreateAuthUser s input = (Inr user', s')"
  obtains user scopes where
    "normalizeEmail (am_email input) \<noteq> []"
    "map_of (as_auth_users s) (normalizeEmail (am_email input)) = None"
    "au_id user = int (length (as_auth_users s)) + 1" "au_email user = normalizeEmail (am_email input)"
    "au_role user = normalizeRole (am_role input)" "au_enabled user = am_enabled input"
    "monitorScopesForIDs s (au_id user) (am_institution_ids input) = Inr scopes"
    "user' = attachMemoryMonitorScopes (set_scopes s (au_id user) scopes) user"
    "s' = put_user (set_scopes s (au_id user) scopes) (normalizeEmail (am_email input)) user'"
proof -
  define user where "user = \<lparr>au_id = int (length (as_auth_users s)) + 1,
    au_email = normalizeEmail (am_email input),
    au_username = trim_space (am_username input), au_display_name = trim_space (am_display_name input),
    au_feishu_user_id = [], au_phone = [], au_role = normalizeRole (am_role input),
    au_enabled = am_enabled input, au_last_login_at = None, au_scope_count = 0, au_scopes = [],
    au_scope_revision = []\<rparr>"
  obtain scopes where "monitorScopesForIDs s (au_id user) (am_institution_ids input) = Inr scopes"
    using assms
    by (cases "monitorScopesForIDs s (au_id user) (am_institution_ids input)")
      (auto simp: CreateAuthUser_def Let_def user_def split: if_splits)
  then show ?thesis
    using assms
    by (intro that [of user scopes]) (auto simp: CreateAuthUser_def Let_def user_def split: if_splits)
qed

lemma CreateAuthUser_Inl: "CreateAuthUser s input = (Inl err, s') \<Longrightarrow> s' = s"
  by (auto simp: CreateAuthUser_def Let_def split: if_splits sum.splits)

lemma put_new_ok:
  assumes "app_store_ok s" "map_of (as_auth_users s) email = None"
    and "au_id user = int (length (as_auth_users s)) + 1" "au_email user = email"
  shows "app_store_ok (put_user s email user)"
proof -
  have "users_ok (put_user s email user)"
    using assms unfolding users_ok_def put_user_def app_store_ok_def
    by (auto simp: update_new user_ids_upto_Suc map_of_eq_None_iff)
  then show ?thesis
    using assms(1) grants_ok_frame [of "put_user s email user" s] logs_ok_frame [of "put_user s email user" s]
    by (simp add: app_store_ok_def put_user_def)
qed

lemma CreateAuthUser_ok:
  assumes "app_store_ok s" "CreateAuthUser s input = (r, s')"
  shows "app_store_ok s'"
proof (cases r)
  case (Inl err)
  then show ?thesis using assms CreateAuthUser_Inl by blast
next
  case (Inr user')
  with assms(2) have "CreateAuthUser s input = (Inr user', s')" by simp
  then show ?thesis
  proof (rule CreateAuthUser_Inr)
    fix user scopes
    assume *: "map_of (as_auth_users s) (normalizeEmail (am_email input)) = None"
      "au_id user = int (length (as_auth_users s)) + 1" "au_email user = normalizeEmail (am_email input)"
      "monitorScopesForIDs s (au_id user) (am_institution_ids input) = Inr scopes"
      "user' = attachMemoryMonitorScopes (set_scopes s (au_id user) scopes) user"
      "s' = put_user (set_scopes s (au_id user) scopes) (normalizeEmail (am_email input)) user'"
    have "as_auth_users (set_scopes s (au_id user) scopes) = as_auth_users s" by (simp add: set_scopes_def)
    then show ?thesis
      unfolding *(6) using *(1,2,3,5)
      by (intro put_new_ok set_scopes_ok [OF assms(1) *(4)]) simp_all
  qed
qed

lemma with_audit_ok:
  assumes "\<And>r s1. result = (r, s1) \<Longrightarrow> app_store_ok s1"
    and "with_audit result ctx now event = (r', s')"
  shows "app_store_ok s'"
proof -
  obtain r s1 where res: "result = (r, s1)" by (cases result)
  with assms(1) have ok: "app_store_ok s1" by blast
  show ?thesis
  proof (cases r)
    case (Inl err)
    then show ?thesis using assms(2) res ok by (simp add: with_audit_def)
  next
    case (Inr user)
    let ?ev = "if ev_entity_id event = None then event\<lparr>ev_entity_id := int64Pointer (au_id user)\<rparr> else event"
    obtain r2 s2 where r2: "createAuditLogLocked s1 ctx now ?ev = (r2, s2)"
      by (cases "createAuditLogLocked s1 ctx now ?ev")
    then have "s' = s2"
      using assms(2) res Inr by (auto simp: with_audit_def RecordAudit_def CreateAuditLog_def Let_def split: sum.splits)
    then show ?thesis using createAuditLogLocked_ok [OF ok r2] by simp
  qed
qed

lemma UpdateAuthUserProfile_ok:
  assumes "app_store_ok s" "UpdateAuthUserProfile s now patch = (r, s')"
  shows "app_store_ok s'"
proof (cases "map_of (as_auth_users s) (normalizeEmail (ap_email patch))")
  case None
  then show ?thesis using assms by (simp add: UpdateAuthUserProfile_def)
next
  case (Some user)
  then have mem: "(normalizeEmail (ap_email patch), user) \<in> set (as_auth_users s)" by (rule map_of_SomeD)
  have "s' = s \<or> s' = put_user s (normalizeEmail (ap_email patch)) (profile_user user now patch)"
    using assms(2) Some by (auto simp: UpdateAuthUserProfile_def put_user_def Let_def split: if_splits)
  then show ?thesis
    using assms(1) put_existing_ok [OF assms(1) mem, of "profile_user user now patch"]
    by (auto simp: profile_user_def)
qed

lemma frame_ok:
  assumes "app_store_ok s" "as_auth_users s' = as_auth_users s" "as_scopes_by_user s' = as_scopes_by_user s"
    and "as_audit_logs s' = as_audit_logs s" "as_next_audit_id s' = as_next_audit_id s"
    and "as_scope_candidates s' = as_scope_candidates s"
  shows "app_store_ok s'"
  using assms users_ok_frame [of s' s] grants_ok_frame [of s' s] logs_ok_frame [of s' s]
  by (simp add: app_store_ok_def)

lemma UpdateDigitalTwinSettings_cases:
  assumes "UpdateDigitalTwinSettings s ctx now v ids0 event = (r, s')"
  obtains (refused) "s' = s" "\<exists>err. r = Inl err"
  | (saved) ids previous where "NormalizeDigitalTwinStoreIDs ids0 = Inr ids" "ctx = None"
      "current_digital_twin s = Inr previous" "dt_version previous = v"
      "r = Inr (digitalTwinSettingsValue ids)"
      "s' = snd (createAuditLogLocked s None now
         (digitalTwinSettingsAudit event previous (digitalTwinSettingsValue ids)))
         \<lparr>as_digital_twin_json := Some (marshal_strings ids)\<rparr>"
proof (cases "NormalizeDigitalTwinStoreIDs ids0")
  case (Inl err)
  then show ?thesis using assms by (intro refused) (auto simp: UpdateDigitalTwinSettings_def)
next
  case ids: (Inr ids)
  show ?thesis
  proof (cases "current_digital_twin s")
    case (Inl err)
    with assms ids have ref: "s' = s \<and> (\<exists>err. r = Inl err)"
      by (cases ctx) (simp_all add: UpdateDigitalTwinSettings_def, metis+)
    show ?thesis by (rule refused) (use ref in auto)
  next
    case (Inr previous)
    then show ?thesis using assms ids
      by (cases "ctx = None \<and> dt_version previous = v")
        (auto simp: UpdateDigitalTwinSettings_def createAuditLogLocked_def Let_def
          split: option.splits if_splits intro: refused saved)
  qed
qed

lemma UpdateDigitalTwinSettings_ok:
  assumes "app_store_ok s" "UpdateDigitalTwinSettings s ctx now v ids0 event = (r, s')"
  shows "app_store_ok s'"
  using assms(2)
proof (cases rule: UpdateDigitalTwinSettings_cases)
  case refused
  then show ?thesis using assms(1) by simp
next
  case (saved ids previous)
  let ?ev = "digitalTwinSettingsAudit event previous (digitalTwinSettingsValue ids)"
  have "app_store_ok (snd (createAuditLogLocked s None now ?ev))"
    by (rule createAuditLogLocked_ok [OF assms(1) prod.collapse [symmetric]])
  then show ?thesis unfolding saved(6) by (rule frame_ok) simp_all
qed

section \<open>Reachable states\<close>

inductive app_step :: "app_store \<Rightarrow> app_store \<Rightarrow> bool" where
  step_audit: "RecordAudit s ctx now event = (r, s') \<Longrightarrow> app_step s s'"
| step_profile: "UpdateAuthUserProfile s now patch = (ru, s') \<Longrightarrow> app_step s s'"
| step_create: "CreateAuthUser s input = (ru, s') \<Longrightarrow> app_step s s'"
| step_create_audit: "CreateAuthUserWithAudit s ctx now input event = (ru, s') \<Longrightarrow> app_step s s'"
| step_update: "UpdateAuthUser s uid input = (ru, s') \<Longrightarrow> app_step s s'"
| step_update_audit: "UpdateAuthUserWithAudit s ctx now uid input event = (ru, s') \<Longrightarrow> app_step s s'"
| step_provider: "app_step s (SetAIProvider s provider)"
| step_watermark: "app_step s (SetMonitorScreenshotWatermarkEnabled s b)"
| step_twins: "UpdateDigitalTwinSettings s ctx now v ids event = (rd, s') \<Longrightarrow> app_step s s'"

lemma app_step_ok: "app_step s s' \<Longrightarrow> app_store_ok s \<Longrightarrow> app_store_ok s'"
proof (induction rule: app_step.induct)
  case (step_audit s ctx now event r s')
  then show ?case unfolding RecordAudit_def CreateAuditLog_def by (blast intro: createAuditLogLocked_ok)
next
  case (step_create_audit s ctx now input event ru s')
  then show ?case
    unfolding CreateAuthUserWithAudit_def by (blast intro: with_audit_ok CreateAuthUser_ok)
next
  case (step_update_audit s ctx now uid input event ru s')
  then show ?case
    unfolding UpdateAuthUserWithAudit_def by (blast intro: with_audit_ok UpdateAuthUser_ok)
next
  case (step_provider s provider)
  then show ?case by (rule frame_ok) (simp_all add: SetAIProvider_def)
next
  case (step_watermark s b)
  then show ?case by (rule frame_ok) (simp_all add: SetMonitorScreenshotWatermarkEnabled_def)
next
  case (step_profile s now patch ru s')
  then show ?case by (blast intro: UpdateAuthUserProfile_ok)
next
  case (step_create s input ru s')
  then show ?case by (blast intro: CreateAuthUser_ok)
next
  case (step_update s uid input ru s')
  then show ?case by (blast intro: UpdateAuthUser_ok)
next
  case (step_twins s ctx now v ids event rd s')
  then show ?case by (blast intro: UpdateDigitalTwinSettings_ok)
qed

lemma string_eqI: "map byte s = map byte t \<Longrightarrow> s = t"
  by (simp add: inj_map_eq_map inj_def)

lemma itoa_seeds: "itoa 10030 = ''10030''" "itoa 10019 = ''10019''" "itoa 10001 = ''10001''"
  by (rule string_eqI, simp add: itoa_def show_nat.simps, simp add: byte_def)+

lemma app_start_ok: "app_store_ok app_NewMemoryStore"
proof -
  have "users_ok app_NewMemoryStore"
    by (simp add: users_ok_def app_NewMemoryStore_def seed_user_def defaultAdminEmail_def user_ids_upto_def
        upt_rec numeral_eq_Suc)
  moreover have "grants_ok app_NewMemoryStore"
  proof -
    have c: "\<forall>c \<in> set (as_scope_candidates app_NewMemoryStore). named c"
      by (simp add: app_NewMemoryStore_def named_def seed_candidate_def itoa_seeds)
    have "scopes_of app_NewMemoryStore userID = []" for userID
      by (simp add: scopes_of_def app_NewMemoryStore_def)
    then show ?thesis unfolding grants_ok_def by (intro conjI allI c) simp_all
  qed
  moreover have "logs_ok app_NewMemoryStore"
    by (simp add: logs_ok_def app_NewMemoryStore_def user_ids_upto_def)
  ultimately show ?thesis by (simp add: app_store_ok_def)
qed

text \<open>
  C4. In every state the application's store can reach, whatever sequence of requests led there: each
  user is stored under their own email, ids are 1 to n in the order of creation, nobody is granted an
  institution twice or a non-positive one, and the audit log is numbered 1 to n without a gap, with
  every stored event passed through the filters of \<open>createAuditLogLocked\<close>.
\<close>

theorem app_store_invariant:
  assumes "app_step\<^sup>*\<^sup>* app_NewMemoryStore s"
  shows "app_store_ok s"
  using assms
proof (induction rule: rtranclp_induct)
  case base
  show ?case by (rule app_start_ok)
next
  case (step s1 s2)
  then show ?case using app_step_ok by blast
qed

end
