(* ===== verification/App_Users_Props.thy ===== *)
theory App_Users_Props
  imports App_Store_Props
begin

text \<open>
  What the edits of users mean: the grants an edit leaves, what a viewer may then watch, and the
  revision that keeps two editors from overwriting each other.
\<close>

section \<open>Identifiers\<close>

lemma itoa_inject:
  assumes "itoa i = itoa j" "0 < i" "i \<le> max_safe_integer" "0 < j" "j \<le> max_safe_integer"
  shows "i = j"
proof -
  have range: "min_int64 \<le> k \<and> k \<le> max_int64" if "0 < k" "k \<le> max_safe_integer" for k
    using that unfolding max_safe_integer_def min_int64_def max_int64_def by linarith
  have "parse_int (itoa i) = (i, None)" "parse_int (itoa j) = (j, None)"
    using assms(2-5) range by (blast intro: parse_int_itoa)+
  then show ?thesis unfolding assms(1) by (metis prod.inject)
qed

lemma canonical_itoa:
  "0 < i \<Longrightarrow> i \<le> max_safe_integer \<Longrightarrow> canonicalInstitutionID (itoa i) = (i, True)"
  using parse_int_itoa [of i]
  by (simp add: canonicalInstitutionID_def max_safe_integer_def min_int64_def max_int64_def)

lemma canonical_valid:
  "canonicalInstitutionID key = (i, True) \<Longrightarrow> itoa i = key \<and> 0 < i \<and> i \<le> max_safe_integer"
  by (auto simp: canonicalInstitutionID_def split: prod.splits)

lemma canonicalInstitutionID_iff:
  "canonicalInstitutionID key = (i, True) \<longleftrightarrow> key = itoa i \<and> 0 < i \<and> i \<le> max_safe_integer"
  using canonical_itoa canonical_valid by metis

lemma normalizeRole_cases:
  "normalizeRole r = RoleAdmin \<or> normalizeRole r = RoleEditor \<or> normalizeRole r = RoleViewer"
  by (simp add: normalizeRole_def Let_def)

lemma normalizeRole_fixed [simp]:
  "normalizeRole RoleAdmin = RoleAdmin" "normalizeRole RoleEditor = RoleEditor"
  "normalizeRole RoleViewer = RoleViewer"
  by code_simp+

lemma normalizeRole_idem [simp]: "normalizeRole (normalizeRole r) = normalizeRole r"
  using normalizeRole_cases [of r] by auto

section \<open>The user an edit leaves\<close>

lemma unique_user:
  assumes "users_ok s" "(e, u) \<in> set (as_auth_users s)" "(e', u') \<in> set (as_auth_users s)" "au_id u = au_id u'"
  shows "(e, u) = (e', u')"
proof -
  have "distinct (map (au_id \<circ> snd) (as_auth_users s))"
    using assms(1) by (simp add: users_ok_def)
  then have "inj_on (au_id \<circ> snd) (set (as_auth_users s))" by (simp add: distinct_map)
  from inj_onD [OF this, of "(e, u)" "(e', u')"] show ?thesis using assms(2-4) by simp
qed

lemma find_by_id:
  assumes "users_ok s" "(e, u) \<in> set (as_auth_users s)"
  shows "find (\<lambda>(email, user). au_id user = au_id u) (as_auth_users s) = Some (e, u)"
proof (cases "find (\<lambda>(email, user). au_id user = au_id u) (as_auth_users s)")
  case None
  then show ?thesis using assms(2) by (auto simp: find_None_iff)
next
  case (Some p)
  obtain e' u' where p: "p = (e', u')" by (cases p)
  have "(e', u') \<in> set (as_auth_users s) \<and> au_id u' = au_id u"
    by (rule find_user) (use Some p in simp)
  then have "(e', u') = (e, u)" using unique_user [OF assms(1)] assms(2) by blast
  then show ?thesis using Some p by simp
qed

lemma attach_twice [simp]:
  "attachMemoryMonitorScopes s (attachMemoryMonitorScopes s u) = attachMemoryMonitorScopes s u"
  by (simp add: attachMemoryMonitorScopes_def Let_def)

lemma attach_put [simp]: "attachMemoryMonitorScopes (put_user s e u) = attachMemoryMonitorScopes s"
  by (rule ext) (simp add: attachMemoryMonitorScopes_def)

lemma UpdateAuthUser_lookup:
  assumes "app_store_ok s" "UpdateAuthUser s uid input = (Inr u, s')"
  shows "find (\<lambda>(email, user). au_id user = uid) (as_auth_users s') = Some (au_email u, u) \<and>
    attachMemoryMonitorScopes s' u = u \<and> au_id u = uid"
  using assms(2)
proof (rule UpdateAuthUser_Inr)
  fix email user scopes
  assume *: "(email, user) \<in> set (as_auth_users s)" "au_id user = uid"
    "u = attachMemoryMonitorScopes (set_scopes s uid scopes)
       (updated_user (attachMemoryMonitorScopes s user) input)"
    "s' = put_user (set_scopes s uid scopes) email u"
  have ok: "users_ok s'" using UpdateAuthUser_ok [OF assms] by (simp add: app_store_ok_def)
  have mem: "(email, u) \<in> set (as_auth_users s')"
    unfolding *(4) put_user_def by (simp add: map_of_SomeD update_conv')
  have "au_id u = uid" using *(2,3) by simp
  moreover have "au_email u = email" using ok mem by (auto simp: users_ok_def)
  moreover have "attachMemoryMonitorScopes s' u = u" unfolding *(3,4) by simp
  ultimately show ?thesis using find_by_id [OF ok mem] by simp
qed

section \<open>Grants\<close>

lemma UpdateAuthUser_scopes:
  assumes "UpdateAuthUser s uid input = (Inr u, s')"
  obtains scopes where "monitorScopesForIDs s uid (am_institution_ids input) = Inr scopes"
    "\<And>v. scopes_of s' v = (if v = uid then scopes else scopes_of s v)"
    "as_scope_candidates s' = as_scope_candidates s"
    "au_role u = normalizeRole (am_role input)" "au_enabled u = am_enabled input"
  using assms
proof (rule UpdateAuthUser_Inr)
  fix email user scopes
  assume *: "monitorScopesForIDs s uid (am_institution_ids input) = Inr scopes"
    "u = attachMemoryMonitorScopes (set_scopes s uid scopes)
       (updated_user (attachMemoryMonitorScopes s user) input)"
    "s' = put_user (set_scopes s uid scopes) email u"
  then show ?thesis
    by (intro that [OF *(1)]) (simp_all add: scopes_of_set, simp add: put_user_def)
qed

text \<open>
  What an edit of a user grants: after \<open>UpdateAuthUser\<close> with a list of institutions, the user holds
  exactly the listed positive ids, in the order of their first occurrence and once each, every grant is
  an institution that is active or was already granted to this user, no other user's grants move, and
  the user read back by id is the one returned.
\<close>

theorem grants_meaning:
  assumes "app_step\<^sup>*\<^sup>* app_NewMemoryStore s"
    and "UpdateAuthUser s uid input = (Inr u, s')" "am_institution_ids input = Some ids"
  shows "map sc_store_id (au_scopes u) = uniquePositiveInt64s ids \<and>
    (\<forall>c \<in> set (au_scopes u). c \<in> set (scopes_of s uid) \<or> c \<in> set (as_scope_candidates s) \<and> \<not> sc_unavailable c) \<and>
    (\<forall>other. other \<noteq> uid \<longrightarrow> scopes_of s' other = scopes_of s other) \<and>
    GetAuthUserByID s' uid = Inr u"
proof -
  have ok: "app_store_ok s" using assms(1) by (induction rule: rtranclp_induct) (auto intro: app_start_ok app_step_ok)
  note lookup = UpdateAuthUser_lookup [OF ok assms(2)]
  show ?thesis
    using assms(2)
  proof (rule UpdateAuthUser_scopes)
    fix scopes
    assume *: "monitorScopesForIDs s uid (am_institution_ids input) = Inr scopes"
      "\<And>v. scopes_of s' v = (if v = uid then scopes else scopes_of s v)"
    have "au_scopes u = scopes_of s' uid"
      using lookup by (metis attach_fields(5))
    then have "au_scopes u = scopes" using *(2) by simp
    moreover have "GetAuthUserByID s' uid = Inr u" using lookup by (simp add: GetAuthUserByID_def)
    ultimately show ?thesis
      using monitorScopesForIDs_Some [OF *(1) [unfolded assms(3)]] *(2) by auto
  qed
qed

text \<open>Who may watch a store, in a store of the application whose grants are well formed.\<close>

lemma CanUserViewMonitorStore_iff:
  assumes "grants_ok s"
  shows "CanUserViewMonitorStore s u org \<longleftrightarrow>
    (\<exists>i. 0 < i \<and> i \<le> max_safe_integer \<and> trim_space org = itoa i \<and>
       (\<exists>c \<in> set (as_scope_candidates s). sc_store_id c = i \<and> \<not> sc_unavailable c) \<and>
       (normalizeRole (au_role u) = RoleViewer \<longrightarrow> i \<in> sc_store_id ` set (scopes_of s (au_id u))))"
proof (cases "canonicalInstitutionID (trim_space org)")
  case (Pair i valid)
  have cand: "sc_external_org_id c = itoa (sc_store_id c)" if "c \<in> set (as_scope_candidates s)" for c
    using that assms unfolding grants_ok_def named_def by blast
  have gran: "sc_external_org_id c = itoa (sc_store_id c)" if "c \<in> set (scopes_of s v)" for c v
    using that assms unfolding grants_ok_def named_def by blast
  show ?thesis
  proof (cases valid)
    case True
    then have key: "trim_space org = itoa i" "0 < i" "i \<le> max_safe_integer"
      using Pair canonicalInstitutionID_iff by auto
    have "(\<exists>j. 0 < j \<and> j \<le> max_safe_integer \<and> trim_space org = itoa j \<and> P j) \<longleftrightarrow> P i" for P
      using key itoa_inject [of i] by auto
    moreover have "list_ex (\<lambda>c. sc_store_id c = i \<and> sc_external_org_id c = itoa i \<and> \<not> sc_unavailable c) (as_scope_candidates s)
        \<longleftrightarrow> (\<exists>c \<in> set (as_scope_candidates s). sc_store_id c = i \<and> \<not> sc_unavailable c)"
      using cand by (auto simp: list_ex_iff)
    moreover have "list_ex (\<lambda>c. sc_store_id c = i \<and> sc_external_org_id c = itoa i) (scopes_of s v)
        \<longleftrightarrow> i \<in> sc_store_id ` set (scopes_of s v)" for v
      using gran by (auto simp: list_ex_iff image_iff)
    ultimately show ?thesis using Pair True key(1) by (auto simp: CanUserViewMonitorStore_def Let_def)
  next
    case False
    then have "trim_space org \<noteq> itoa j" if "0 < j" "j \<le> max_safe_integer" for j
      using Pair canonical_itoa [OF that] by auto
    then show ?thesis using Pair False by (auto simp: CanUserViewMonitorStore_def Let_def)
  qed
qed

text \<open>What an accepted edit or creation makes of the grants.\<close>

lemma monitorScopesForIDs_set:
  assumes "monitorScopesForIDs s uid ids0 = Inr scopes"
  shows "case ids0 of None \<Rightarrow> scopes = scopes_of s uid | Some ids \<Rightarrow> sc_store_id ` set scopes = set ids"
proof (cases ids0)
  case (Some ids)
  have "set (map sc_store_id scopes) = {x \<in> set ids. 0 < x}"
    using monitorScopesForIDs_Some [OF assms [unfolded Some]] by (simp add: set_uniquePositive)
  moreover have "0 < i" if "i \<in> set ids" for i
    using assms that Some by (force simp: monitorScopesForIDs_def list_ex_iff split: if_splits)
  ultimately show ?thesis using Some by auto
qed (use assms in \<open>simp add: monitorScopesForIDs_def\<close>)

lemma UpdateAuthUser_grants:
  assumes "UpdateAuthUser s uid input = (r, s')"
  shows "scopes_of s' v = scopes_of s v \<or>
    (\<exists>u ids. v = uid \<and> r = Inr u \<and> am_institution_ids input = Some ids \<and> sc_store_id ` set (scopes_of s' v) = set ids)"
proof (cases r)
  case (Inl e)
  then show ?thesis using assms by (auto simp: UpdateAuthUser_def Let_def split: option.splits prod.splits if_splits sum.splits)
next
  case (Inr u)
  obtain scopes where "monitorScopesForIDs s uid (am_institution_ids input) = Inr scopes"
    "scopes_of s' v = (if v = uid then scopes else scopes_of s v)"
    using UpdateAuthUser_scopes [OF assms [unfolded Inr]] by metis
  then show ?thesis using monitorScopesForIDs_set Inr by (fastforce split: option.splits)
qed

lemma CreateAuthUser_grants:
  assumes "CreateAuthUser s input = (r, s')"
  shows "scopes_of s' v = scopes_of s v \<or>
    (\<exists>u ids. r = Inr u \<and> au_id u = v \<and> am_institution_ids input = Some ids \<and> sc_store_id ` set (scopes_of s' v) = set ids)"
proof (cases r)
  case (Inl e)
  then show ?thesis using assms CreateAuthUser_Inl by blast
next
  case (Inr u)
  from assms [unfolded Inr] show ?thesis
  proof (rule CreateAuthUser_Inr)
    fix user scopes
    assume *: "monitorScopesForIDs s (au_id user) (am_institution_ids input) = Inr scopes"
      "u = attachMemoryMonitorScopes (set_scopes s (au_id user) scopes) user"
      "s' = put_user (set_scopes s (au_id user) scopes) (normalizeEmail (am_email input)) u"
    then have "au_id u = au_id user" "scopes_of s' v = (if v = au_id user then scopes else scopes_of s v)"
      by (simp_all add: scopes_of_set)
    then show ?thesis using monitorScopesForIDs_set [OF *(1)] Inr by (auto split: option.splits)
  qed
qed

lemma audit_keeps_scopes: "scopes_of (snd (createAuditLogLocked s ctx now log)) = scopes_of s"
  by (rule ext) (simp add: createAuditLogLocked_def scopes_of_def Let_def split: option.split)

lemma audit_step_scopes: "createAuditLogLocked s ctx now log = (r, s') \<Longrightarrow> scopes_of s' = scopes_of s"
  using audit_keeps_scopes by (metis snd_conv)

lemma with_audit_scopes: "scopes_of (snd (with_audit result ctx now event)) = scopes_of (snd result)"
  by (auto simp: with_audit_def RecordAudit_def CreateAuditLog_def Let_def dest!: audit_step_scopes split: sum.split prod.split)

lemma scopes_of_twins: "scopes_of (s\<lparr>as_digital_twin_json := json\<rparr>) = scopes_of s"
  by (rule ext) (simp add: scopes_of_def)

text \<open>The requests that change what a user is granted.\<close>

definition edits_grants :: "app_store \<Rightarrow> int \<Rightarrow> int list \<Rightarrow> bool" where
  "edits_grants s uid ids \<longleftrightarrow>
     (\<exists>input u s1. am_institution_ids input = Some ids \<and>
        (UpdateAuthUser s uid input = (Inr u, s1) \<or> CreateAuthUser s input = (Inr u, s1) \<and> au_id u = uid))"

lemma app_step_grants:
  assumes "app_step s s'"
  shows "scopes_of s' uid = scopes_of s uid \<or>
    (\<exists>ids. edits_grants s uid ids \<and> sc_store_id ` set (scopes_of s' uid) = set ids)"
  using assms
proof (cases rule: app_step.cases)
  case (step_audit ctx now event r)
  then show ?thesis using audit_keeps_scopes by (metis CreateAuditLog_def RecordAudit_def snd_conv)
next
  case (step_profile now patch ru)
  then show ?thesis by (auto simp: UpdateAuthUserProfile_def scopes_of_def Let_def split: option.splits if_splits)
next
  case (step_create input ru)
  then show ?thesis using CreateAuthUser_grants [of s input ru s' uid] unfolding edits_grants_def by blast
next
  case (step_create_audit ctx now input event ru)
  obtain r s1 where r: "CreateAuthUser s input = (r, s1)" by fastforce
  then have "scopes_of s' = scopes_of s1"
    using step_create_audit with_audit_scopes unfolding CreateAuthUserWithAudit_def by (metis snd_conv)
  then show ?thesis using CreateAuthUser_grants [OF r, of uid] r unfolding edits_grants_def by metis
next
  case (step_update i input ru)
  then show ?thesis using UpdateAuthUser_grants [of s i input ru s' uid] unfolding edits_grants_def by blast
next
  case (step_update_audit ctx now i input event ru)
  obtain r s1 where r: "UpdateAuthUser s i input = (r, s1)" by fastforce
  then have "scopes_of s' = scopes_of s1"
    using step_update_audit with_audit_scopes unfolding UpdateAuthUserWithAudit_def by (metis snd_conv)
  then show ?thesis using UpdateAuthUser_grants [OF r, of uid] r unfolding edits_grants_def by metis
next
  case (step_provider provider)
  then show ?thesis by (simp add: SetAIProvider_def scopes_of_def)
next
  case (step_watermark b)
  then show ?thesis by (simp add: SetMonitorScreenshotWatermarkEnabled_def scopes_of_def)
next
  case (step_twins ctx now v ids event rd)
  then show ?thesis
    by (cases rule: UpdateDigitalTwinSettings_cases [OF step_twins])
      (simp_all add: scopes_of_twins audit_keeps_scopes)
qed

text \<open>
  C34. Who may watch which store, in every state the application's store can reach.  Any user may watch exactly the
  stores whose organisation key is, blanks aside, the decimal of a positive id in the range of safe integers of an
  institution that is active; a viewer, only those of them that the user is granted.  At the start nobody is granted
  anything, and a grant changes only by an accepted edit or creation of that user with a list of institutions, which
  leaves exactly the listed ids; an accepted edit with such a list always does, and one without a list keeps what
  was granted.
\<close>

theorem viewer_access:
  assumes "app_step\<^sup>*\<^sup>* app_NewMemoryStore s"
  shows "(CanUserViewMonitorStore s u org \<longleftrightarrow>
      (\<exists>i. 0 < i \<and> i \<le> max_safe_integer \<and> trim_space org = itoa i \<and>
         (\<exists>c \<in> set (as_scope_candidates s). sc_store_id c = i \<and> \<not> sc_unavailable c) \<and>
         (normalizeRole (au_role u) = RoleViewer \<longrightarrow> i \<in> sc_store_id ` set (scopes_of s (au_id u))))) \<and>
    scopes_of app_NewMemoryStore uid = [] \<and>
    (app_step s s' \<longrightarrow> scopes_of s' uid = scopes_of s uid \<or>
      (\<exists>ids. edits_grants s uid ids \<and> sc_store_id ` set (scopes_of s' uid) = set ids)) \<and>
    (UpdateAuthUser s uid input = (Inr v, s') \<longrightarrow> au_role v = normalizeRole (am_role input) \<and>
      (case am_institution_ids input of
         None \<Rightarrow> scopes_of s' uid = scopes_of s uid
       | Some ids \<Rightarrow> sc_store_id ` set (scopes_of s' uid) = set ids))"
proof (intro conjI impI)
  have "app_store_ok s" using assms by (induction rule: rtranclp_induct) (auto intro: app_start_ok app_step_ok)
  then have "grants_ok s" by (simp add: app_store_ok_def)
  then show "CanUserViewMonitorStore s u org \<longleftrightarrow>
      (\<exists>i. 0 < i \<and> i \<le> max_safe_integer \<and> trim_space org = itoa i \<and>
         (\<exists>c \<in> set (as_scope_candidates s). sc_store_id c = i \<and> \<not> sc_unavailable c) \<and>
         (normalizeRole (au_role u) = RoleViewer \<longrightarrow> i \<in> sc_store_id ` set (scopes_of s (au_id u))))"
    by (rule CanUserViewMonitorStore_iff)
  show "scopes_of app_NewMemoryStore uid = []" by (simp add: scopes_of_def app_NewMemoryStore_def)
  show "app_step s s' \<Longrightarrow> scopes_of s' uid = scopes_of s uid \<or>
      (\<exists>ids. edits_grants s uid ids \<and> sc_store_id ` set (scopes_of s' uid) = set ids)"
    by (rule app_step_grants)
  assume edit: "UpdateAuthUser s uid input = (Inr v, s')"
  obtain scopes where sc: "monitorScopesForIDs s uid (am_institution_ids input) = Inr scopes"
    "scopes_of s' uid = scopes" "au_role v = normalizeRole (am_role input)"
    using UpdateAuthUser_scopes [OF edit] by metis
  show "au_role v = normalizeRole (am_role input)" by (rule sc(3))
  show "case am_institution_ids input of
         None \<Rightarrow> scopes_of s' uid = scopes_of s uid
       | Some ids \<Rightarrow> sc_store_id ` set (scopes_of s' uid) = set ids"
    unfolding sc(2) by (rule monitorScopesForIDs_set [OF sc(1)])
qed

section \<open>Edits from a stale page\<close>

text \<open>The two texts that a revision hashes: the grants, and their digest with the role and the state.\<close>

definition grants_text :: "AuthUserResourceScope list \<Rightarrow> string" where
  "grants_text scopes = join [chr 10] (sort_strings (map scope_token scopes))"

definition user_text :: "AuthUserResourceScope list \<Rightarrow> string \<Rightarrow> bool \<Rightarrow> string" where
  "user_text scopes role enabled =
     join [chr 10] (sort_strings [memoryScopeRevision scopes, user_token role enabled])"

lemma revision_text:
  "userMonitorScopeRevision [memoryScopeRevision scopes] role enabled = hex_encode (sha256 (user_text scopes role enabled))"
  by (simp add: userMonitorScopeRevision_def monitorScopeRevision_def user_text_def)

lemma memory_text: "memoryScopeRevision scopes = hex_encode (sha256 (grants_text scopes))"
  by (simp add: memoryScopeRevision_def monitorScopeRevision_def grants_text_def)

lemma char_less_byte: "c < d \<longleftrightarrow> byte c < byte d"
proof -
  have "byte e = int (of_char e)" for e by (simp add: byte_def of_nat_of_char)
  then show ?thesis by (simp add: less_char_def)
qed

lemma hex_le_user: "hex_encode d \<le> user_token role enabled"
proof (cases d)
  case (Cons c cs)
  have "byte (hex_char (byte c div 16)) < 117"
    using nibbles [of c] by (simp add: byte_hex_char)
  then have "hex_char (byte c div 16) < CHR ''u''"
    unfolding char_less_byte by (simp add: byte_def)
  then show ?thesis by (simp add: Cons user_token_def)
qed simp

lemma user_text_eq:
  "user_text scopes role enabled = memoryScopeRevision scopes @ [chr 10] @ user_token role enabled"
  using hex_le_user [of "sha256 (grants_text scopes)" role enabled]
  by (simp add: user_text_def sort_strings_def memory_text)

lemma user_token_inject:
  "user_token r e = user_token r' e' \<longleftrightarrow> normalizeRole r = normalizeRole r' \<and> e = e'"
  using normalizeRole_cases [of r] normalizeRole_cases [of r']
  by (cases e; cases e') (auto simp: user_token_def role_defs)

lemma user_text_inject:
  assumes "user_text scopes role enabled = user_text scopes' role' enabled'"
  shows "sha256 (grants_text scopes) = sha256 (grants_text scopes') \<and>
    normalizeRole role = normalizeRole role' \<and> enabled = enabled'"
proof -
  have "length (memoryScopeRevision scopes) = length (memoryScopeRevision scopes')"
    by (simp add: memory_text)
  then have "memoryScopeRevision scopes = memoryScopeRevision scopes' \<and> user_token role enabled = user_token role' enabled'"
    using assms by (simp add: user_text_eq)
  then show ?thesis by (simp add: memory_text user_token_inject)
qed

text \<open>The tokens of the grants can be read off their text.\<close>

lemma join_lines_inject:
  assumes "join [nl] xs = join [nl] ys" "\<forall>x \<in> set xs. x \<noteq> [] \<and> nl \<notin> set x" "\<forall>y \<in> set ys. y \<noteq> [] \<and> nl \<notin> set y"
  shows "xs = ys"
  using assms
proof (induction xs arbitrary: ys)
  case Nil
  then show ?case by (cases "([nl], ys)" rule: join.cases) auto
next
  case (Cons x xs)
  have ys: "ys \<noteq> []" using Cons.prems by (cases xs) auto
  then obtain y ys' where y: "ys = y # ys'" by (cases ys) auto
  have line: "takeWhile (\<lambda>c. c \<noteq> nl) (join [nl] (z # zs)) = z" if "nl \<notin> set z" for z zs
    using that by (cases zs) (auto simp: takeWhile_append takeWhile_eq_all_conv)
  have "x = y" using line [of x xs] line [of y ys'] Cons.prems y by simp
  moreover have "join [nl] xs = join [nl] ys'"
    using Cons.prems(1) \<open>x = y\<close> y by (cases xs; cases ys') auto
  moreover have "xs = [] \<longleftrightarrow> ys' = []"
    using Cons.prems(1) \<open>x = y\<close> y by (cases xs; cases ys') auto
  ultimately show ?case using Cons y by auto
qed

lemma no_newline_token: "named c \<Longrightarrow> chr 10 \<notin> set (scope_token c)"
proof -
  have "\<not> is_digit_char (chr 10)" "chr 10 \<noteq> CHR ''-''" by code_simp+
  then have "chr 10 \<notin> set (itoa i)" for i using itoa_chars by blast
  moreover have "chr 10 \<notin> set ResourceTypeCRMInstitution" "chr 10 \<noteq> CHR '':''" by code_simp+
  ultimately show "named c \<Longrightarrow> chr 10 \<notin> set (scope_token c)"
    by (auto simp: scope_token_def named_def)
qed

lemma scope_token_ids:
  assumes "scope_token c = scope_token d" "named c" "named d"
  shows "itoa (sc_store_id c) = itoa (sc_store_id d)"
proof -
  have no: "CHR '':'' \<notin> set (itoa i)" for i
  proof -
    have "\<not> is_digit_char (CHR '':'')" "CHR '':'' \<noteq> chr 45" by code_simp+
    then show ?thesis using itoa_chars by blast
  qed
  have "itoa (sc_store_id e) = takeWhile (\<lambda>c. c \<noteq> CHR '':'') (drop (length ResourceTypeCRMInstitution + 1) (scope_token e))" for e
    using no [of "sc_store_id e"] by (simp add: scope_token_def takeWhile_append takeWhile_eq_all_conv)
  with assms(1) show ?thesis by metis
qed

lemma token_ids_subset:
  assumes "scope_token ` S \<subseteq> scope_token ` T" "\<forall>c \<in> S \<union> T. named c"
  shows "(\<lambda>c. itoa (sc_store_id c)) ` S \<subseteq> (\<lambda>c. itoa (sc_store_id c)) ` T"
proof
  fix x assume "x \<in> (\<lambda>c. itoa (sc_store_id c)) ` S"
  then obtain c where c: "c \<in> S" "x = itoa (sc_store_id c)" by blast
  then obtain d where d: "d \<in> T" "scope_token c = scope_token d" using assms(1) by blast
  then have "x = itoa (sc_store_id d)" using c scope_token_ids assms(2) by blast
  with d(1) show "x \<in> (\<lambda>c. itoa (sc_store_id c)) ` T" by blast
qed

lemma grants_text_ids:
  assumes "grants_text scopes = grants_text scopes'" "\<forall>c \<in> set scopes \<union> set scopes'. named c"
  shows "(\<lambda>c. itoa (sc_store_id c)) ` set scopes = (\<lambda>c. itoa (sc_store_id c)) ` set scopes'"
proof -
  have lines: "\<forall>x \<in> set (sort_strings (map scope_token cs)). x \<noteq> [] \<and> chr 10 \<notin> set x"
    if "\<forall>c \<in> set cs. named c" for cs
    using that no_newline_token by (auto simp: scope_token_def)
  have "sort_strings (map scope_token scopes) = sort_strings (map scope_token scopes')"
    by (rule join_lines_inject [OF assms(1) [unfolded grants_text_def]]) (rule lines; use assms(2) in blast)+
  then have "scope_token ` set scopes = scope_token ` set scopes'"
    by (metis list.set_map set_sort_strings)
  then show ?thesis
    using assms(2) by (intro equalityI token_ids_subset) (simp_all add: Un_commute)
qed

text \<open>
  C35. Two editors of one user: after an edit that was accepted, a second edit prepared from the same
  page (the same revision) is refused as a conflict and changes nothing, unless the first edit left the
  role, the state and the set of granted institutions as they were, or two of the texts that the
  revisions hash are a collision of SHA-256.
\<close>

theorem stale_edit_refused:
  assumes "app_step\<^sup>*\<^sup>* app_NewMemoryStore s"
    and "GetAuthUserByID s uid = Inr before"
    and "UpdateAuthUser s uid edit1 = (Inr u, s1)"
    and "am_scope_revision edit2 = am_scope_revision edit1"
  shows "UpdateAuthUser s1 uid edit2 = (Inl ErrMonitorScopeConflict, s1) \<or>
    (normalizeRole (au_role before) = normalizeRole (au_role u) \<and> au_enabled before = au_enabled u \<and>
     (\<lambda>c. itoa (sc_store_id c)) ` set (au_scopes before) = (\<lambda>c. itoa (sc_store_id c)) ` set (au_scopes u)) \<or>
    (\<exists>a b. a \<noteq> b \<and> sha256 a = sha256 b \<and>
       ((a, b) = (grants_text (au_scopes before), grants_text (au_scopes u)) \<or>
        (a, b) = (user_text (au_scopes before) (au_role before) (au_enabled before),
                  user_text (au_scopes u) (au_role u) (au_enabled u))))"
proof -
  have ok: "app_store_ok s" using assms(1) by (induction rule: rtranclp_induct) (auto intro: app_start_ok app_step_ok)
  have g: "grants_ok s" "grants_ok s1" using ok UpdateAuthUser_ok [OF ok assms(3)] by (simp_all only: app_store_ok_def)
  note look = UpdateAuthUser_lookup [OF ok assms(3)]
  have after: "au_scopes u = scopes_of s1 uid"
    "au_scope_revision u = hex_encode (sha256 (user_text (au_scopes u) (au_role u) (au_enabled u)))"
    using look revision_text by (metis attach_fields(5), metis attach_fields(5,6))
  obtain email user where user: "find (\<lambda>(e, u). au_id u = uid) (as_auth_users s) = Some (email, user)"
      "au_id user = uid" "am_scope_revision edit1 = au_scope_revision (attachMemoryMonitorScopes s user)"
    using assms(3) by (rule UpdateAuthUser_Inr)
  then have before: "before = attachMemoryMonitorScopes s user"
    using assms(2) by (simp add: GetAuthUserByID_def)
  then have old: "au_scopes before = scopes_of s uid"
    "am_scope_revision edit2 = hex_encode (sha256 (user_text (au_scopes before) (au_role before) (au_enabled before)))"
    using user assms(4) by (simp_all add: revision_text)
  show ?thesis
  proof (cases "am_scope_revision edit2 = au_scope_revision u")
    case False
    then have "UpdateAuthUser s1 uid edit2 = (Inl ErrMonitorScopeConflict, s1)"
      using look by (simp add: UpdateAuthUser_def Let_def del: attach_fields)
    then show ?thesis ..
  next
    case True
    then have same: "sha256 (user_text (au_scopes before) (au_role before) (au_enabled before)) =
        sha256 (user_text (au_scopes u) (au_role u) (au_enabled u))"
      using old(2) after(2) by simp
    have named: "\<forall>c \<in> set (au_scopes before) \<union> set (au_scopes u). named c"
      using g unfolding grants_ok_def old(1) after(1) by blast
    show ?thesis
      using same user_text_inject [of "au_scopes before" "au_role before" "au_enabled before"
          "au_scopes u" "au_role u" "au_enabled u"]
        grants_text_ids [OF _ named] by blast
  qed
qed

section \<open>A concrete edit\<close>

text \<open>User 3, an editor, becomes a viewer of institution 10030.\<close>

definition demo_edit :: AuthUserMutation where
  "demo_edit = \<lparr>am_email = '''', am_username = ''changwenxia'', am_display_name = '''', am_role = RoleViewer,
     am_enabled = True, am_institution_ids = Some [10030, 10030, 10019],
     am_scope_revision = userMonitorScopeRevision [memoryScopeRevision []] RoleEditor True,
     am_legacy_store_ids = None\<rparr>"

lemma demo_scopes:
  "monitorScopesForIDs app_NewMemoryStore 3 (Some [10030, 10030, 10019]) =
     Inr (take 2 (as_scope_candidates app_NewMemoryStore))"
  by (simp add: monitorScopesForIDs_def max_safe_integer_def uniquePositiveInt64s_def known_scopes_def
      scopes_of_def app_NewMemoryStore_def seed_candidate_def)

lemma demo_edit_accepted:
  "\<exists>u s1. UpdateAuthUser app_NewMemoryStore 3 demo_edit = (Inr u, s1)"
proof -
  have find: "find (\<lambda>(email, user). au_id user = 3) (as_auth_users app_NewMemoryStore) =
      Some (''changwenxia@soyoung.com'', seed_user 3 ''changwenxia@soyoung.com'' ''changwenxia'' RoleEditor)"
    by (simp add: app_NewMemoryStore_def seed_user_def)
  have none: "scopes_of app_NewMemoryStore 3 = []" by (simp add: scopes_of_def app_NewMemoryStore_def)
  have "au_id (seed_user 3 e n r) = 3" "au_role (seed_user 3 e n r) = r" "au_enabled (seed_user 3 e n r)" for e n r
    by (simp_all add: seed_user_def)
  then show ?thesis
    unfolding UpdateAuthUser_def find
    by (simp add: Let_def demo_edit_def none demo_scopes)
qed

theorem grants_meaning_witness:
  "\<exists>u s1. UpdateAuthUser app_NewMemoryStore 3 demo_edit = (Inr u, s1) \<and>
     map sc_store_id (au_scopes u) = [10030, 10019]"
  using grants_meaning [OF rtranclp.rtrancl_refl, of 3 demo_edit _ _ "[10030, 10030, 10019]"] demo_edit_accepted
  by (auto simp: demo_edit_def uniquePositiveInt64s_def)

text \<open>The viewer that the edit leaves watches one of the institutions of the list and not another one.\<close>

theorem viewer_access_witness:
  "\<exists>u s1. UpdateAuthUser app_NewMemoryStore 3 demo_edit = (Inr u, s1) \<and>
     CanUserViewMonitorStore s1 u ''10030'' \<and> \<not> CanUserViewMonitorStore s1 u ''10001''"
proof -
  obtain u s1 where e: "UpdateAuthUser app_NewMemoryStore 3 demo_edit = (Inr u, s1)"
    using demo_edit_accepted by blast
  have start: "app_step\<^sup>*\<^sup>* app_NewMemoryStore app_NewMemoryStore" by blast
  have r: "app_step\<^sup>*\<^sup>* app_NewMemoryStore s1" using e by (blast intro: step_update)
  have edited: "au_role u = RoleViewer" "sc_store_id ` set (scopes_of s1 3) = {10030, 10019}"
    using viewer_access [OF start, where input = demo_edit and uid = 3 and v = u and s' = s1] e
    by (simp_all add: demo_edit_def)
  have ids: "au_id u = 3" "as_scope_candidates s1 = as_scope_candidates app_NewMemoryStore"
    using UpdateAuthUser_lookup [OF app_start_ok e] UpdateAuthUser_scopes [OF e] by metis+
  have keys: "trim_space ''10001'' = itoa 10001" "trim_space ''10030'' = itoa 10030"
    by (metis itoa_seeds(3) trim_space_itoa, metis itoa_seeds(1) trim_space_itoa)
  have "list_ex (\<lambda>c. sc_store_id c = 10030 \<and> \<not> sc_unavailable c) (as_scope_candidates app_NewMemoryStore)" by code_simp
  then have active: "\<exists>c \<in> set (as_scope_candidates s1). sc_store_id c = 10030 \<and> \<not> sc_unavailable c"
    by (simp add: ids(2) list_ex_iff)
  have safe: "(10030::int) \<le> max_safe_integer" "(10001::int) \<le> max_safe_integer" by (simp_all add: max_safe_integer_def)
  note watch = viewer_access [where u = u, OF r, THEN conjunct1]
  have "CanUserViewMonitorStore s1 u ''10030''"
    unfolding watch keys using safe active edited ids(1) by (intro exI [of _ 10030]) simp
  moreover have "\<not> CanUserViewMonitorStore s1 u ''10001''"
  proof
    assume "CanUserViewMonitorStore s1 u ''10001''"
    then obtain i where i: "itoa 10001 = itoa i" "0 < i" "i \<le> max_safe_integer" "i \<in> {10030, 10019}"
      unfolding watch keys using edited ids(1) by auto
    then show False using itoa_inject [OF i(1) _ safe(2)] by auto
  qed
  ultimately show ?thesis using e by blast
qed

theorem stale_edit_refused_witness:
  "\<exists>u s1. UpdateAuthUser app_NewMemoryStore 3 demo_edit = (Inr u, s1) \<and>
     (UpdateAuthUser s1 3 demo_edit = (Inl ErrMonitorScopeConflict, s1) \<or> (\<exists>a b. a \<noteq> b \<and> sha256 a = sha256 b))"
proof -
  obtain u s1 where e: "UpdateAuthUser app_NewMemoryStore 3 demo_edit = (Inr u, s1)"
    using demo_edit_accepted by blast
  then have "au_role u = RoleViewer" by (rule UpdateAuthUser_scopes) (simp add: demo_edit_def)
  moreover obtain before where b: "GetAuthUserByID app_NewMemoryStore 3 = Inr before" "au_role before = RoleEditor"
    by (simp add: GetAuthUserByID_def app_NewMemoryStore_def seed_user_def)
  ultimately have "normalizeRole (au_role before) \<noteq> normalizeRole (au_role u)" by simp (simp add: role_defs)
  then show ?thesis using stale_edit_refused [OF rtranclp.rtrancl_refl b(1) e refl] e by blast
qed

theorem app_store_invariant_witness:
  "app_store_ok (SetAIProvider app_NewMemoryStore ''minimax'')"
  by (rule app_store_invariant, rule r_into_rtranclp, rule step_provider)

end
