(* ===== verification/App_Auth_Props.thy ===== *)
theory App_Auth_Props
  imports App_Auth App_Users_Props
begin

text \<open>
  What the gate of the API, the login callback and the logout guarantee.  The lemmas on the session
  store are proved in the context of its interface and used at the store of the process.
\<close>

section \<open>Who authenticates\<close>

text \<open>A token that the gateway's cookie carries and that is accepted, with the user of the store it names.\<close>

definition sso_user ::
  "'key jwt_lib \<Rightarrow> auth_handler \<Rightarrow> app_store \<Rightarrow> http_request \<Rightarrow> gotime \<Rightarrow> AuthUserRecord \<Rightarrow> bool" where
  "sso_user lib h s r now user \<longleftrightarrow>
     (\<exists>token claims. filled_cookie r (cfg_cookie_name (ah_auth h)) = Some token \<and>
        validateAPISIXSSOToken lib (ah_auth h) token now = Some claims \<and>
        GetAuthUserByEmail s (ud_mail (cl_data claims)) = Inr user \<and> au_enabled user)"

lemma normalizeEmail_trim [simp]: "normalizeEmail (trim_space v) = normalizeEmail v"
  by (simp add: normalizeEmail_def)

lemma lookup_trim [simp]: "GetAuthUserByEmail s (trim_space v) = GetAuthUserByEmail s v"
  by (simp add: GetAuthUserByEmail_def)

lemma ur_email_authUser [simp]: "ur_email (authUser claims) = trim_space (ud_mail (cl_data claims))"
  by (simp add: authUser_def Let_def)

lemma authenticateSSO_Inr:
  assumes "authenticateSSO lib h s r now = Inr identity" "authRequired h r"
  shows "sso_user lib h s r now (id_record identity)"
  using assms
  by (auto simp: authenticateSSO_def sso_user_def split: option.splits sum.splits if_splits)

lemma sso_user_authenticates:
  "sso_user lib h s r now user \<Longrightarrow>
   \<exists>identity. authenticateSSO lib h s r now = Inr identity \<and> id_record identity = user"
  by (auto simp: sso_user_def authenticateSSO_def)

text \<open>What \<open>validateAPISIXSSOToken\<close> requires of a token.\<close>

lemma token_accepted:
  assumes "validateAPISIXSSOToken lib cfg token now = Some claims"
  shows "\<exists>p0 p1 p2 header key signature payload. split_on (CHR ''.'') token = [p0, p1, p2] \<and>
    raw_url_decode p0 = Some header \<and> jl_algorithm lib header = Some ''RS256'' \<and>
    jl_public_key lib (cfg_jwt_public_key cfg) = Some key \<and> raw_url_decode p2 = Some signature \<and>
    jl_verify lib key (sha256 (p0 @ ''.'' @ p1)) signature \<and>
    raw_url_decode p1 = Some payload \<and> jl_claims lib payload = Some claims \<and>
    cl_exp claims \<noteq> 0 \<and> now \<le> unix_second (cl_exp claims) + cfg_clock_skew cfg \<and>
    (cfg_expected_sub cfg \<noteq> [] \<longrightarrow> cl_sub claims = cfg_expected_sub cfg)"
  using assms
  by (auto simp: validateAPISIXSSOToken_def split: list.splits option.splits if_splits)

section \<open>Requests over any session store\<close>

context session_store
begin

lemma authenticated_touch:
  assumes "authenticateRequest touch revoke lib h s r now st = (Inr identity, st', events)" "authRequired h r"
  obtains token where "filled_cookie r authSessionCookieName = Some token"
    "authenticateSSO lib h s r now = Inr identity"
    "touch st now token (au_id (id_record identity)) now (authIdleTimeout h) = (Inr True, st')"
  using assms
  by (auto simp: authenticateRequest_def Let_def split: sum.splits option.splits if_splits prod.splits)

lemma timeout_ends:
  assumes "authenticateRequest touch revoke lib h s r now st = (Inl err, st', events)"
    and "err = ErrSessionIdleTimeout \<or> err = ErrSessionAbsoluteTimeout"
    and "filled_cookie r authSessionCookieName = Some token"
    and "authenticateSSO lib h s r now = Inr identity" "now \<noteq> 0"
  shows "ended token (au_id (id_record identity)) st'"
proof -
  have now: "effective_now now now \<noteq> 0" using assms(5) by (simp add: effective_now_def)
  obtain st1 reason where "st' = revoke st1 now token (au_id (id_record identity)) reason now"
    using assms(1-4)
    by (auto simp: authenticateRequest_def Let_def split: sum.splits option.splits if_splits prod.splits)
  then show ?thesis using revoke_ends [OF now] by simp
qed

lemma ended_refused:
  assumes "ended token (au_id (id_record identity)) st" "authenticateSSO lib h s r now = Inr identity"
    and "authRequired h r" "ah_sessions h" "filled_cookie r authSessionCookieName = Some token"
  shows "fst (authenticateRequest touch revoke lib h s r now st) = Inl ErrSessionIdleTimeout \<and>
    ended token (au_id (id_record identity)) (fst (snd (authenticateRequest touch revoke lib h s r now st)))"
  using assms touch_ended [OF assms(1)] revoke_keeps [OF assms(1)]
  by (simp add: authenticateRequest_def Let_def)

lemma logout_ends:
  assumes "authLogoutHandler revoke lib h s r now st = (True, st', events)"
    and "ah_sessions h" "filled_cookie r authSessionCookieName = Some token"
    and "sso_user lib h s r now user" "now \<noteq> 0"
  shows "ended token (au_id user) st'"
proof -
  have now: "effective_now now now \<noteq> 0" using assms(5) by (simp add: effective_now_def)
  have "st' = revoke st now token (au_id user) ''manual_logout'' now"
    using assms(1-4)
    by (auto simp: authLogoutHandler_def revokeLocalAuthSession_def sso_user_def split: if_splits)
  then show ?thesis using revoke_ends [OF now] by simp
qed

end

section \<open>The gate\<close>

lemma gate_cases:
  assumes "authGate touch revoke lib h s r now st = (GatePass ctx, st', events)"
    and "authRequired h r" "isAPIPath (ah_base_path h) (rq_path r)"
    and "\<not> isAuthGateExemptPath (ah_base_path h) (rq_path r)"
  obtains identity where "ctx = Some identity"
    "authenticateRequest touch revoke lib h s r now st = (Inr identity, st', events)"
proof (cases "authenticateRequest touch revoke lib h s r now st")
  case (fields res st1 ev)
  then show ?thesis using assms that by (cases res) (auto simp: authGate_def)
qed

text \<open>
  C3. What passes the gate: on a host that requires authentication, a request for an API path that is
  not exempt goes on only with an identity, and then the gateway's cookie holds an accepted token whose
  mail names an enabled user of the store, that user's session under the session cookie was created
  less than 8 hours before, and it was last used (or created) less than 30 minutes before.
\<close>

theorem gate_soundness:
  assumes "session_run C A ss" "now \<noteq> 0"
    and "authGate TouchAuthSession RevokeAuthSession lib h s r now ss = (GatePass ctx, ss', events)"
    and "authRequired h r" "isAPIPath (ah_base_path h) (rq_path r)"
    and "\<not> isAuthGateExemptPath (ah_base_path h) (rq_path r)"
  shows "\<exists>identity token c a. ctx = Some identity \<and> sso_user lib h s r now (id_record identity) \<and>
    filled_cookie r authSessionCookieName = Some token \<and>
    (session_key token, au_id (id_record identity), c) \<in> set C \<and> now < c + 8 * hour \<and>
    (session_key token, au_id (id_record identity), a) \<in> set A \<and> now < a + 30 * minute"
  using assms(3-6)
proof (rule gate_cases)
  fix identity
  assume id: "ctx = Some identity"
    "authenticateRequest TouchAuthSession RevokeAuthSession lib h s r now ss = (Inr identity, ss', events)"
  from mem_sessions.authenticated_touch [OF id(2) assms(4)] obtain token where
    t: "filled_cookie r authSessionCookieName = Some token" "authenticateSSO lib h s r now = Inr identity"
      "TouchAuthSession ss now token (au_id (id_record identity)) now (authIdleTimeout h) = (Inr True, ss')"
    by blast
  have "effective_now now now = now" by (simp add: effective_now_def)
  with lifetime_log [OF assms(1) t(3)] obtain c a where
    "(session_key token, au_id (id_record identity), c) \<in> set C" "now < c + 8 * hour"
    "(session_key token, au_id (id_record identity), a) \<in> set A" "now < a + 30 * minute"
    by auto
  with id(1) t authenticateSSO_Inr [OF t(2) assms(4)] show ?thesis by blast
qed

text \<open>
  The company hosts are never open: whatever the configuration, a request to either host of the
  company with no accepted token is not authenticated, so no API path lets it through but the exempt
  ones, and the local administrator does not exist there.
\<close>

theorem company_hosts_closed:
  assumes "logoutGatewayHost (rq_host r) \<noteq> []"
    and "\<forall>token claims. filled_cookie r (cfg_cookie_name (ah_auth h)) = Some token \<longrightarrow>
           validateAPISIXSSOToken lib (ah_auth h) token now \<noteq> Some claims"
  shows "authenticateSSO lib h s r now = Inl ErrUnauthorizedAuth \<and>
    (isAPIPath (ah_base_path h) (rq_path r) \<longrightarrow> \<not> isAuthGateExemptPath (ah_base_path h) (rq_path r) \<longrightarrow>
       authGate TouchAuthSession RevokeAuthSession lib h s r now ss = (GateReject ErrUnauthorizedAuth, ss, []))"
proof -
  have req: "authRequired h r" using assms(1) by (simp add: authRequired_def)
  have "authenticateSSO lib h s r now = Inl ErrUnauthorizedAuth"
    using assms(2) req by (auto simp: authenticateSSO_def split: option.splits)
  then show ?thesis using req by (simp add: authGate_def authenticateRequest_def)
qed

section \<open>Ends of sessions\<close>

lemma steps_ended:
  "(session_step (session_key token))\<^sup>*\<^sup>* ss ss' \<Longrightarrow> session_ended token uid ss \<Longrightarrow> session_ended token uid ss'"
  unfolding session_ended_def by (rule dead_steps)

text \<open>
  C8. A timeout and a logout are final: once the gate answered a request with the idle or the absolute
  timeout, or a logout with an accepted token went through, every later request of that user with the
  same session cookie is answered with the idle timeout, whatever the session store did in between
  (short of starting a session under the same digest).
\<close>

theorem ended_sessions_stay_ended:
  assumes "(\<exists>err events. (err = ErrSessionIdleTimeout \<or> err = ErrSessionAbsoluteTimeout) \<and>
       authenticateRequest TouchAuthSession RevokeAuthSession lib h s r now ss = (Inl err, ss1, events) \<and>
       authRequired h r) \<or>
     (\<exists>events. authLogoutHandler RevokeAuthSession lib h s r now ss = (True, ss1, events))"
    and "sso_user lib h s r now user" "filled_cookie r authSessionCookieName = Some token"
    and "ah_sessions h" "now \<noteq> 0"
    and "(session_step (session_key token))\<^sup>*\<^sup>* ss1 ss2"
    and "sso_user lib h s' r' now' user'" "au_id user' = au_id user"
    and "filled_cookie r' authSessionCookieName = Some token" "authRequired h r'"
  shows "fst (authenticateRequest TouchAuthSession RevokeAuthSession lib h s' r' now' ss2) =
    Inl ErrSessionIdleTimeout"
proof -
  obtain identity where id: "authenticateSSO lib h s r now = Inr identity" "id_record identity = user"
    using sso_user_authenticates [OF assms(2)] by blast
  have "session_ended token (au_id user) ss1"
    using assms(1) mem_sessions.timeout_ends [OF _ _ assms(3) id(1) assms(5)]
      mem_sessions.logout_ends [OF _ assms(4,3,2,5)] id(2) by blast
  then have ended: "session_ended token (au_id user') ss2"
    using steps_ended [OF assms(6)] assms(8) by simp
  obtain identity' where "authenticateSSO lib h s' r' now' = Inr identity'" "id_record identity' = user'"
    using sso_user_authenticates [OF assms(7)] by blast
  then show ?thesis
    using mem_sessions.ended_refused [of token identity' ss2 lib h s' r' now'] ended assms(4,9,10) by simp
qed

text \<open>
  One login per credential: after the callback started a session with a gateway token, a later
  callback of the same user with the same gateway token and no session cookie is refused for
  reauthentication and starts nothing, even when the first session has ended.
\<close>

theorem callback_single_use:
  assumes "authCallbackHandler TouchAuthSession RevokeAuthSession CreateAuthSession lib h s r now rnd ss =
      (CallbackOk (Some token), ss1, events)"
    and "(session_step (session_key token))\<^sup>*\<^sup>* ss1 ss2"
    and "sso_user lib h s r now user" "sso_user lib h s' r' now' user'" "au_id user' = au_id user"
    and "cookie_value r' (cfg_cookie_name (ah_auth h)) = cookie_value r (cfg_cookie_name (ah_auth h))"
    and "filled_cookie r' authSessionCookieName = None" "authRequired h r'" "ah_sessions h"
  shows "authCallbackHandler TouchAuthSession RevokeAuthSession CreateAuthSession lib h s' r' now' (Some bytes) ss2 =
      (CallbackReject ErrSessionReauthenticationRequired, ss2, [])"
proof -
  obtain identity where id: "authenticateSSO lib h s r now = Inr identity" "id_record identity = user"
    using sso_user_authenticates [OF assms(3)] by blast
  obtain identity' where id': "authenticateSSO lib h s' r' now' = Inr identity'" "id_record identity' = user'"
    using sso_user_authenticates [OF assms(4)] by blast
  define sso where "sso = (case cookie_value r (cfg_cookie_name (ah_auth h)) of Some v \<Rightarrow> v | None \<Rightarrow> [])"
  define input where "input = \<lparr>sc_user_id = au_id user, sc_sso_subject = ssoCredentialFingerprint sso,
    sc_ip_address = requestIPAddress r, sc_user_agent = rq_user_agent r, sc_now = now\<rparr>"
  have created: "CreateAuthSession ss rnd now input = (Inr token, ss1)"
    using assms(1) id
    by (auto simp: authCallbackHandler_def input_def sso_def Let_def split: if_splits option.splits sum.splits prod.splits)
  define again where "again = \<lparr>sc_user_id = au_id user', sc_sso_subject = ssoCredentialFingerprint sso,
    sc_ip_address = requestIPAddress r', sc_user_agent = rq_user_agent r', sc_now = now'\<rparr>"
  have "CreateAuthSession ss2 (Some bytes) now' again = (Inl ErrSessionReauthenticationRequired, ss2)"
    by (rule reuse_refused [OF created _ assms(2)])
      (simp_all add: input_def again_def assms(5) fingerprint_recognised)
  then show ?thesis
    using assms(6-9) id' by (simp add: authCallbackHandler_def Let_def again_def sso_def)
qed

section \<open>Changes of a user take effect\<close>

lemma unique_email:
  assumes "users_ok s" "(e, u) \<in> set (as_auth_users s)"
  shows "map_of (as_auth_users s) e = Some u" "au_email u = e"
  using assms by (auto simp: users_ok_def)

text \<open>
  An edit of a user acts on the next request: after \<open>UpdateAuthUser\<close>, a request whose accepted
  token names that user's mail is forbidden if the edit disabled the user, and otherwise carries
  exactly the permissions of the role the edit gave (every permission is read from the store, none from
  the token or an earlier request).
\<close>

theorem edit_takes_effect:
  assumes "app_step\<^sup>*\<^sup>* app_NewMemoryStore s"
    and "UpdateAuthUser s uid input = (Inr u, s')"
    and "filled_cookie r (cfg_cookie_name (ah_auth h)) = Some token"
    and "validateAPISIXSSOToken lib (ah_auth h) token now = Some claims"
    and "normalizeEmail (ud_mail (cl_data claims)) = au_email u"
  shows "authenticateSSO lib h s' r now =
      (if am_enabled input then Inr \<lparr>id_record = u, id_user = authUser claims\<rparr> else Inl ErrForbiddenAuth) \<and>
    (hasPermission (permissions u) PermissionStoreRead \<and>
     (hasPermission (permissions u) PermissionStoreWrite \<longleftrightarrow> normalizeRole (am_role input) \<noteq> RoleViewer) \<and>
     (hasPermission (permissions u) PermissionUserManage \<longleftrightarrow> normalizeRole (am_role input) = RoleAdmin) \<and>
     (hasPermission (permissions u) PermissionStoreExport \<longleftrightarrow> normalizeRole (am_role input) = RoleAdmin) \<and>
     (hasPermission (permissions u) PermissionAuditView \<longleftrightarrow> normalizeRole (am_role input) = RoleAdmin))"
proof -
  have ok: "app_store_ok s" using assms(1) by (induction rule: rtranclp_induct) (auto intro: app_start_ok app_step_ok)
  have ok': "users_ok s'" using UpdateAuthUser_ok [OF ok assms(2)] by (simp only: app_store_ok_def)
  note look = UpdateAuthUser_lookup [OF ok assms(2)]
  then have "(au_email u, u) \<in> set (as_auth_users s')"
    using find_user [of "\<lambda>u. au_id u = uid" "as_auth_users s'"] by blast
  then have "map_of (as_auth_users s') (au_email u) = Some u" using unique_email(1) [OF ok'] by blast
  then have get: "GetAuthUserByEmail s' (ud_mail (cl_data claims)) = Inr u"
    using look assms(5) by (simp add: GetAuthUserByEmail_def del: attach_fields)
  have role: "au_role u = normalizeRole (am_role input)" and en: "au_enabled u = am_enabled input"
    using assms(2) by (rule UpdateAuthUser_scopes; simp)+
  have perms: "permissions u =
      (if normalizeRole (am_role input) = RoleAdmin
       then [RoleAdmin, PermissionStoreRead, PermissionStoreWrite, PermissionStoreExport, PermissionUserManage, PermissionAuditView]
       else if normalizeRole (am_role input) = RoleEditor then [RoleEditor, PermissionStoreRead, PermissionStoreWrite]
       else [RoleViewer, PermissionStoreRead])"
  proof -
    have "to_lower (trim_space (normalizeRole x)) = normalizeRole x" for x
    proof -
      have "to_lower (trim_space RoleAdmin) = RoleAdmin" "to_lower (trim_space RoleEditor) = RoleEditor"
          "to_lower (trim_space RoleViewer) = RoleViewer" by code_simp+
      then show ?thesis using normalizeRole_cases [of x] by auto
    qed
    then show ?thesis by (simp add: permissions_def role Let_def)
  qed
  have "authenticateSSO lib h s' r now =
      (if am_enabled input then Inr \<lparr>id_record = u, id_user = authUser claims\<rparr> else Inl ErrForbiddenAuth)"
    using assms(3,4) get en by (simp add: authenticateSSO_def)
  moreover have "RoleViewer \<noteq> RoleAdmin" "RoleViewer \<noteq> RoleEditor" "RoleEditor \<noteq> RoleAdmin"
    by (simp_all add: role_defs)
  ultimately show ?thesis
    unfolding perms using normalizeRole_cases [of "am_role input"]
    by (auto simp: hasPermission_def permission_defs)
qed

section \<open>A concrete deployment\<close>

text \<open>
  A library that accepts every signature, the first user of the store behind the gateway of one of the
  company hosts, and a session the user started at 1,000 seconds.
\<close>

definition demo_claims :: apisixSSOTokenClaims where
  "demo_claims =
     \<lparr>cl_data = \<lparr>ud_display = '''', ud_mail = ''Shalei@soyoung.com '', ud_open_id = '''', ud_user_id = '''',
        ud_phone = '''', ud_username = '''', ud_login_way = ''''\<rparr>, cl_exp = 1, cl_sub = ''''\<rparr>"

definition demo_lib :: "unit jwt_lib" where
  "demo_lib = \<lparr>jl_algorithm = (\<lambda>_. Some ''RS256''), jl_public_key = (\<lambda>_. Some ()),
     jl_verify = (\<lambda>_ _ _. True), jl_claims = (\<lambda>_. Some demo_claims)\<rparr>"

definition demo_handler :: auth_handler where
  "demo_handler = \<lparr>ah_auth = AuthConfigFromEnv '''' (\<lambda>_. ''''), ah_idle_timeout = defaultAuthIdleTimeout,
     ah_sessions = True, ah_audit = True, ah_base_path = ''''\<rparr>"

definition demo_request :: "(string \<times> string) list \<Rightarrow> http_request" where
  "demo_request cookies = \<lparr>rq_host = ''lite.soyoung.com'', rq_path = ''/api/users'', rq_get = True,
     rq_cookies = cookies, rq_remote_addr = '''', rq_user_agent = '''', rq_request_id = '''',
     rq_sec_fetch_site = ''''\<rparr>"

definition demo_token :: string where "demo_token = ''QQ.QQ.QQ''"

definition demo_cookies :: "(string \<times> string) list" where
  "demo_cookies = [(''sy_sso_token'', demo_token), (''erzhuang_session'', raw_url_encode ''seed'')]"

definition admin_create :: AuthSessionCreate where
  "admin_create = \<lparr>sc_user_id = 1, sc_sso_subject = ssoCredentialFingerprint demo_token, sc_ip_address = [],
     sc_user_agent = [], sc_now = 1000 * second\<rparr>"

definition admin_sessions :: auth_sessions where
  "admin_sessions = [(session_key (raw_url_encode ''seed''), new_session admin_create (1000 * second))]"

lemma demo_config: "cfg_cookie_name (ah_auth demo_handler) = ''sy_sso_token''"
  "cfg_enabled (ah_auth demo_handler) = False" "cfg_expected_sub (ah_auth demo_handler) = []"
  by code_simp+

lemma seed_token: "raw_url_encode ''seed'' = ''c2VlZA''"
  by code_simp

lemma demo_valid:
  assumes "now \<le> unix_second 1"
  shows "validateAPISIXSSOToken demo_lib (ah_auth demo_handler) demo_token now = Some demo_claims"
proof -
  have "split_on (CHR ''.'') demo_token = [''QQ'', ''QQ'', ''QQ'']" "raw_url_decode ''QQ'' = Some ''A''"
      "trim_space (ud_mail (cl_data demo_claims)) \<noteq> []" by code_simp+
  moreover have "cl_exp demo_claims = 1" "0 \<le> cfg_clock_skew (ah_auth demo_handler)"
    by (simp_all add: demo_claims_def demo_handler_def AuthConfigFromEnv_def Let_def second_def)
  ultimately show ?thesis
    using assms by (simp add: validateAPISIXSSOToken_def demo_lib_def demo_config)
qed

lemma demo_lookup:
  "GetAuthUserByEmail app_NewMemoryStore (ud_mail (cl_data demo_claims)) =
     Inr (attachMemoryMonitorScopes app_NewMemoryStore (seed_user 1 defaultAdminEmail ''shalei'' RoleAdmin))"
proof -
  have "normalizeEmail (ud_mail (cl_data demo_claims)) = defaultAdminEmail" by code_simp
  then show ?thesis by (simp add: GetAuthUserByEmail_def app_NewMemoryStore_def)
qed

definition demo_admin :: AuthUserRecord where
  "demo_admin = attachMemoryMonitorScopes app_NewMemoryStore (seed_user 1 defaultAdminEmail ''shalei'' RoleAdmin)"

lemma demo_admin_fields [simp]: "au_id demo_admin = 1" "au_enabled demo_admin"
  by (simp_all add: demo_admin_def seed_user_def)

lemma demo_filled:
  "filled_cookie (demo_request ((''sy_sso_token'', demo_token) # cs)) ''sy_sso_token'' = Some demo_token"
  "filled_cookie (demo_request demo_cookies) authSessionCookieName = Some (raw_url_encode ''seed'')"
  "filled_cookie (demo_request [(''sy_sso_token'', demo_token)]) authSessionCookieName = None"
  "filled_cookie (demo_request []) x = None"
proof -
  have "trim_space demo_token \<noteq> []" "trim_space ''c2VlZA'' \<noteq> []" by code_simp+
  then show "filled_cookie (demo_request ((''sy_sso_token'', demo_token) # cs)) ''sy_sso_token'' = Some demo_token"
      "filled_cookie (demo_request demo_cookies) authSessionCookieName = Some (raw_url_encode ''seed'')"
      "filled_cookie (demo_request [(''sy_sso_token'', demo_token)]) authSessionCookieName = None"
      "filled_cookie (demo_request []) x = None"
    by (simp_all add: filled_cookie_def cookie_value_def demo_request_def demo_cookies_def seed_token
        authSessionCookieName_def)
qed

lemma demo_user:
  "now \<le> unix_second 1 \<Longrightarrow>
   sso_user demo_lib demo_handler app_NewMemoryStore (demo_request ((''sy_sso_token'', demo_token) # cs)) now demo_admin"
  unfolding sso_user_def demo_config
  by (rule exI [of _ demo_token], rule exI [of _ demo_claims])
    (simp add: demo_filled demo_valid demo_lookup demo_admin_def seed_user_def)

lemma demo_host: "logoutGatewayHost (rq_host (demo_request cs)) \<noteq> []"
proof -
  have "logoutGatewayHost ''lite.soyoung.com'' \<noteq> []" by code_simp
  then show ?thesis by (simp add: demo_request_def)
qed

lemma demo_required: "authRequired demo_handler (demo_request cs)"
  using demo_host by (simp add: authRequired_def)

lemma demo_api:
  "isAPIPath (ah_base_path demo_handler) (rq_path (demo_request cs))"
  "\<not> isAuthGateExemptPath (ah_base_path demo_handler) (rq_path (demo_request cs))"
proof -
  have "isAPIPath '''' ''/api/users''" "\<not> isAuthGateExemptPath '''' ''/api/users''" by code_simp+
  then show "isAPIPath (ah_base_path demo_handler) (rq_path (demo_request cs))"
      "\<not> isAuthGateExemptPath (ah_base_path demo_handler) (rq_path (demo_request cs))"
    by (simp_all add: demo_handler_def demo_request_def)
qed

lemma admin_created:
  "CreateAuthSession newMemoryAuthSessionStore (Some ''seed'') 5 admin_create =
     (Inr (raw_url_encode ''seed''), admin_sessions)"
  by (simp add: CreateAuthSession_def newAuthSessionToken_def newMemoryAuthSessionStore_def
      credential_used_def admin_sessions_def effective_now_def admin_create_def second_def)

lemma admin_run:
  "session_run [(session_key (raw_url_encode ''seed''), 1, 1000 * second)]
     [(session_key (raw_url_encode ''seed''), 1, 1000 * second)] admin_sessions"
  by (rule run_create [OF run_start admin_created]) (simp add: effective_now_def admin_create_def second_def)

lemma early: "2200 * second \<le> unix_second 1" "8200 * second \<le> unix_second 1" "1000 * second \<le> unix_second 1"
  by (simp_all add: unix_second_def second_def)

lemma admin_touch:
  "\<exists>ss'. TouchAuthSession admin_sessions (2200 * second) (raw_url_encode ''seed'') 1 (2200 * second) idle =
     (Inr True, ss')"
proof -
  have "fst (TouchAuthSession admin_sessions (2200 * second) (raw_url_encode ''seed'') 1 (2200 * second) idle) = Inr True"
    by (simp add: touch_live session_live_def admin_sessions_def effective_now_def new_session_def
        admin_create_def defaultAuthIdleTimeout_def defaultAuthAbsoluteTimeout_def second_def minute_def hour_def)
  then show ?thesis by (metis prod.collapse)
qed

lemma demo_cookies_Cons: "demo_cookies = (''sy_sso_token'', demo_token) # tl demo_cookies"
  by (simp add: demo_cookies_def)

lemma demo_sso:
  assumes "now \<le> unix_second 1"
  shows "authenticateSSO demo_lib demo_handler app_NewMemoryStore (demo_request ((''sy_sso_token'', demo_token) # cs)) now =
    Inr \<lparr>id_record = demo_admin, id_user = authUser demo_claims\<rparr>"
  using assms
  by (simp add: authenticateSSO_def demo_config demo_filled demo_valid demo_lookup demo_admin_def [symmetric])

lemma demo_gate:
  "\<exists>ss'. authGate TouchAuthSession RevokeAuthSession demo_lib demo_handler app_NewMemoryStore
     (demo_request demo_cookies) (2200 * second) admin_sessions =
     (GatePass (Some \<lparr>id_record = demo_admin, id_user = authUser demo_claims\<rparr>), ss', [])"
proof -
  have "ah_sessions demo_handler" by (simp add: demo_handler_def)
  then show ?thesis
    using admin_touch [of "authIdleTimeout demo_handler"] demo_sso [OF early(1), of "tl demo_cookies"]
    by (auto simp: authGate_def authenticateRequest_def demo_required demo_api demo_filled Let_def
        demo_cookies_Cons [symmetric])
qed

theorem gate_soundness_witness:
  "\<exists>ctx ss' identity. authGate TouchAuthSession RevokeAuthSession demo_lib demo_handler app_NewMemoryStore
     (demo_request demo_cookies) (2200 * second) admin_sessions = (GatePass ctx, ss', []) \<and> ctx = Some identity \<and>
     sso_user demo_lib demo_handler app_NewMemoryStore (demo_request demo_cookies) (2200 * second) (id_record identity)"
proof -
  obtain ss' where g: "authGate TouchAuthSession RevokeAuthSession demo_lib demo_handler app_NewMemoryStore
      (demo_request demo_cookies) (2200 * second) admin_sessions =
      (GatePass (Some \<lparr>id_record = demo_admin, id_user = authUser demo_claims\<rparr>), ss', [])"
    using demo_gate by blast
  have "2200 * second \<noteq> 0" by (simp add: second_def)
  from gate_soundness [OF admin_run this g demo_required demo_api] g show ?thesis by blast
qed

theorem company_hosts_closed_witness:
  "authenticateSSO demo_lib demo_handler app_NewMemoryStore (demo_request []) (2200 * second) = Inl ErrUnauthorizedAuth"
  by (rule company_hosts_closed [OF demo_host, THEN conjunct1]) (simp add: demo_filled)

theorem ended_sessions_stay_ended_witness:
  "\<exists>ss1 events. authLogoutHandler RevokeAuthSession demo_lib demo_handler app_NewMemoryStore
      (demo_request demo_cookies) (2200 * second) admin_sessions = (True, ss1, events) \<and>
    fst (authenticateRequest TouchAuthSession RevokeAuthSession demo_lib demo_handler app_NewMemoryStore
      (demo_request demo_cookies) (8200 * second) ss1) = Inl ErrSessionIdleTimeout"
proof -
  have "\<not> isCrossSiteLogoutRequest (demo_request demo_cookies)"
  proof -
    have "\<not> equal_fold (trim_space '''') ''cross-site''" by code_simp
    then show ?thesis by (simp add: isCrossSiteLogoutRequest_def demo_request_def)
  qed
  then obtain ss1 events where out: "authLogoutHandler RevokeAuthSession demo_lib demo_handler app_NewMemoryStore
      (demo_request demo_cookies) (2200 * second) admin_sessions = (True, ss1, events)"
    by (simp add: authLogoutHandler_def)
  have "2200 * second \<noteq> 0" "ah_sessions demo_handler" by (simp_all add: second_def demo_handler_def)
  then have "fst (authenticateRequest TouchAuthSession RevokeAuthSession demo_lib demo_handler app_NewMemoryStore
      (demo_request demo_cookies) (8200 * second) ss1) = Inl ErrSessionIdleTimeout"
    using out demo_user [OF early(1), of "tl demo_cookies"] demo_user [OF early(2), of "tl demo_cookies"]
    by (intro ended_sessions_stay_ended [where r = "demo_request demo_cookies" and now = "2200 * second"
          and user = demo_admin and user' = demo_admin and ss = admin_sessions and ?ss1.0 = ss1
          and s = app_NewMemoryStore and token = "raw_url_encode ''seed''"])
      (auto simp: demo_filled demo_required demo_cookies_Cons [symmetric])
  then show ?thesis using out by blast
qed

lemma demo_first_login:
  "\<exists>events. authCallbackHandler TouchAuthSession RevokeAuthSession CreateAuthSession demo_lib demo_handler
      app_NewMemoryStore (demo_request [(''sy_sso_token'', demo_token)]) (1000 * second) (Some ''seed'')
      newMemoryAuthSessionStore = (CallbackOk (Some (raw_url_encode ''seed'')), admin_sessions, events)"
proof -
  have c: "cookie_value (demo_request [(''sy_sso_token'', demo_token)]) ''sy_sso_token'' = Some demo_token"
    by (simp add: cookie_value_def demo_request_def)
  have "CreateAuthSession newMemoryAuthSessionStore (Some ''seed'') (1000 * second)
      \<lparr>sc_user_id = 1, sc_sso_subject = ssoCredentialFingerprint demo_token,
       sc_ip_address = requestIPAddress (demo_request [(''sy_sso_token'', demo_token)]),
       sc_user_agent = rq_user_agent (demo_request [(''sy_sso_token'', demo_token)]), sc_now = 1000 * second\<rparr> =
      (Inr (raw_url_encode ''seed''), admin_sessions)"
    by (simp add: CreateAuthSession_def newAuthSessionToken_def newMemoryAuthSessionStore_def new_session_def
      credential_used_def admin_sessions_def effective_now_def admin_create_def second_def)
  moreover have "ah_sessions demo_handler" by (simp add: demo_handler_def)
  ultimately show ?thesis
    using demo_sso [OF early(3), of "[]"]
    by (simp add: authCallbackHandler_def demo_required demo_filled demo_config c seed_token)
qed

theorem callback_single_use_witness:
  "authCallbackHandler TouchAuthSession RevokeAuthSession CreateAuthSession demo_lib demo_handler
     app_NewMemoryStore (demo_request [(''sy_sso_token'', demo_token)]) (2200 * second) (Some ''other'')
     admin_sessions = (CallbackReject ErrSessionReauthenticationRequired, admin_sessions, [])"
proof -
  obtain events where "authCallbackHandler TouchAuthSession RevokeAuthSession CreateAuthSession demo_lib demo_handler
      app_NewMemoryStore (demo_request [(''sy_sso_token'', demo_token)]) (1000 * second) (Some ''seed'')
      newMemoryAuthSessionStore = (CallbackOk (Some (raw_url_encode ''seed'')), admin_sessions, events)"
    using demo_first_login by blast
  then show ?thesis
    by (rule callback_single_use [OF _ rtranclp.rtrancl_refl demo_user [OF early(3)] demo_user [OF early(1)]])
      (simp_all add: demo_filled demo_required, simp add: demo_handler_def)
qed

theorem edit_takes_effect_witness:
  "\<exists>u s1. UpdateAuthUser app_NewMemoryStore 3 demo_edit = (Inr u, s1) \<and>
     \<not> hasPermission (permissions u) PermissionStoreWrite"
proof -
  obtain u s1 where e: "UpdateAuthUser app_NewMemoryStore 3 demo_edit = (Inr u, s1)"
    using demo_edit_accepted by blast
  define lib where "lib = demo_lib\<lparr>jl_claims := \<lambda>_. Some (demo_claims\<lparr>cl_data := (cl_data demo_claims)
     \<lparr>ud_mail := ''changwenxia@soyoung.com''\<rparr>\<rparr>)\<rparr>"
  let ?claims = "demo_claims\<lparr>cl_data := (cl_data demo_claims)\<lparr>ud_mail := ''changwenxia@soyoung.com''\<rparr>\<rparr>"
  have "validateAPISIXSSOToken lib (ah_auth demo_handler) demo_token (2200 * second) = Some ?claims"
  proof -
    have "split_on (CHR ''.'') demo_token = [''QQ'', ''QQ'', ''QQ'']" "raw_url_decode ''QQ'' = Some ''A''"
        "trim_space ''changwenxia@soyoung.com'' \<noteq> []" by code_simp+
    moreover have "cl_exp demo_claims = 1" "0 \<le> cfg_clock_skew (ah_auth demo_handler)"
      by (simp_all add: demo_claims_def demo_handler_def AuthConfigFromEnv_def Let_def second_def)
    ultimately show ?thesis
      using early(1) by (simp add: validateAPISIXSSOToken_def lib_def demo_lib_def demo_config)
  qed
  moreover have "normalizeEmail (ud_mail (cl_data ?claims)) = au_email u"
  proof -
    have "normalizeEmail ''changwenxia@soyoung.com'' = ''changwenxia@soyoung.com''" by code_simp
    moreover have "au_email u = ''changwenxia@soyoung.com''"
      using e
    proof (rule UpdateAuthUser_Inr)
      fix email user scopes
      assume "find (\<lambda>(e, u). au_id u = 3) (as_auth_users app_NewMemoryStore) = Some (email, user)"
        "u = attachMemoryMonitorScopes (set_scopes app_NewMemoryStore 3 scopes)
           (updated_user (attachMemoryMonitorScopes app_NewMemoryStore user) demo_edit)"
      then show ?thesis by (auto simp: app_NewMemoryStore_def seed_user_def)
    qed
    ultimately show ?thesis by simp
  qed
  moreover have "filled_cookie (demo_request [(''sy_sso_token'', demo_token)])
      (cfg_cookie_name (ah_auth demo_handler)) = Some demo_token"
    by (simp add: demo_config demo_filled)
  moreover have "normalizeRole (am_role demo_edit) = RoleViewer" by (simp add: demo_edit_def)
  ultimately have "\<not> hasPermission (permissions u) PermissionStoreWrite"
    using edit_takes_effect [OF rtranclp.rtrancl_refl e, of "demo_request [(''sy_sso_token'', demo_token)]"
        demo_handler demo_token lib "2200 * second" ?claims] by simp
  with e show ?thesis by blast
qed

end
