(* ===== verification/App_Settings_Props.thy ===== *)
theory App_Settings_Props
  imports App_Store_Props
begin

text \<open>
  The digital twin white list as it is saved and read back, the pages of the audit log, and what the
  memory store does when the audit event of an edit cannot be written.
\<close>

section \<open>Lists of digit strings as JSON\<close>

definition digits :: "string \<Rightarrow> bool" where
  "digits v \<longleftrightarrow> list_all is_digit_char v"

lemma digit_char: "is_digit_char c \<Longrightarrow> 48 \<le> byte c \<and> byte c \<le> 57"
  by (simp add: is_digit_char_def)

lemma digit_not_special:
  assumes "is_digit_char c"
  shows "c \<noteq> quote" "c \<noteq> backslash" "escape_ascii c = [c]" "byte c < 128" "\<not> byte c < 32"
    "c \<noteq> CHR ''<''" "c \<noteq> CHR ''>''" "c \<noteq> CHR ''&''" "byte c \<noteq> 0xE2"
proof -
  have b: "48 \<le> byte c" "byte c \<le> 57" using digit_char [OF assms] by auto
  have "byte quote = 34" "byte backslash = 92" "byte (CHR ''<'') = 60" "byte (CHR ''>'') = 62" "byte (CHR ''&'') = 38"
    by (simp_all add: quote_def backslash_def byte_def)
  then show "c \<noteq> quote" "c \<noteq> backslash" "c \<noteq> CHR ''<''" "c \<noteq> CHR ''>''" "c \<noteq> CHR ''&''"
    using b by auto
  then show "escape_ascii c = [c]" using b by (simp add: escape_ascii_def)
  show "byte c < 128" "\<not> byte c < 32" "byte c \<noteq> 0xE2" using b by auto
qed

lemma json_escape_digits: "digits v \<Longrightarrow> json_escape v = v"
  by (induction v) (simp_all add: digits_def digit_not_special)

lemma json_string_digits: "digits v \<Longrightarrow> json_string v = quote # v @ [quote]"
  by (simp add: json_string_def json_escape_digits)

lemma js_string_digits: "digits v \<Longrightarrow> js_string (v @ quote # rest) = Some (v @ [quote], rest)"
proof (induction v)
  case (Cons c v)
  then have d: "is_digit_char c" "js_string (v @ quote # rest) = Some (v @ [quote], rest)"
    by (simp_all add: digits_def)
  from d(1) have "c \<noteq> quote" "c \<noteq> backslash" "\<not> byte c < 32" "c \<noteq> CHR ''<''" "c \<noteq> CHR ''>''" "c \<noteq> CHR ''&''" "byte c \<noteq> 0xE2"
    by (simp_all add: digit_not_special)
  then have "js_string ((c # v) @ quote # rest) = emit [c] (js_string (v @ quote # rest))"
    by (auto split: list.splits)
  with d(2) show ?case by simp
qed simp

lemma json_unquote_digits: "digits v \<Longrightarrow> json_unquote (v @ quote # rest) = v"
  by (induction v) (simp_all add: digits_def digit_not_special json_unquote.simps(2))

definition elements_text :: "string list \<Rightarrow> string" where
  "elements_text xs = join '','' (map json_string xs) @ '']''"

lemma elements_text_simps:
  "elements_text [x] = json_string x @ '']''"
  "elements_text (x # y # ys) = json_string x @ CHR '','' # elements_text (y # ys)"
  by (simp_all add: elements_text_def)

lemma special_not_space [simp]: "\<not> json_space quote" "\<not> json_space (CHR '','')" "\<not> json_space (CHR '']'')"
    "\<not> json_space (CHR ''['')"
  by (simp_all add: json_space_def quote_def byte_def)

lemma skip_ws_char [simp]: "\<not> json_space c \<Longrightarrow> skip_ws (c # cs) = c # cs"
  by (simp add: skip_ws_def)

lemma skip_ws_Nil [simp]: "skip_ws [] = []"
  by (simp add: skip_ws_def)

lemma js_value_digits:
  "digits v \<Longrightarrow> js_value (Suc fuel) depth (json_string v @ rest) = Some (json_string v, rest)"
  by (simp add: json_string_digits js_string_digits)

lemma quote_neq [simp]: "CHR ''['' \<noteq> quote" "quote \<noteq> CHR '']''" "quote \<noteq> CHR ''n''" "quote \<noteq> CHR ''{''" "quote \<noteq> CHR '',''"
  by (simp_all add: quote_def)

lemma js_elements_last:
  "digits x \<Longrightarrow> js_elements (Suc (Suc n)) depth (json_string x @ '']'') = Some (json_string x @ '']'', [])"
  by (simp add: js_value_digits js_then_def del: js_value.simps)

lemma js_elements_more:
  "digits x \<Longrightarrow> js_elements (Suc (Suc n)) depth (json_string x @ CHR '','' # rest) =
     emit (json_string x @ '','') (js_elements (Suc n) depth rest)"
  by (simp add: js_value_digits js_then_def emit_append del: js_value.simps js_elements.simps)
    (subst js_elements.simps, simp add: js_value_digits js_then_def emit_append del: js_value.simps js_elements.simps)

lemma js_elements_digits:
  assumes "xs \<noteq> []" "list_all digits xs" "length xs < fuel"
  shows "js_elements fuel depth (elements_text xs) = Some (elements_text xs, [])"
  using assms
proof (induction xs arbitrary: fuel)
  case (Cons x xs)
  obtain n where n: "fuel = Suc (Suc n)" using Cons.prems(3) by (cases fuel; cases "fuel - 1") auto
  show ?case
  proof (cases xs)
    case Nil
    then show ?thesis
      using Cons.prems(2) n js_elements_last by (simp add: elements_text_simps del: js_elements.simps)
  next
    case (Cons y ys)
    have "js_elements (Suc n) depth (elements_text xs) = Some (elements_text xs, [])"
      by (rule Cons.IH) (use Cons Cons.prems n in simp_all)
    then show ?thesis
      using Cons.prems(2) n Cons by (simp add: elements_text_simps(2) js_elements_more del: js_elements.simps)
  qed
qed simp

lemma length_elements_text: "length xs \<le> length (elements_text xs)"
proof (induction xs)
  case (Cons x xs)
  then show ?case by (cases xs) (simp_all add: elements_text_simps json_string_def elements_text_def)
qed simp

lemma marshal_strings_text: "marshal_strings xs = CHR ''['' # elements_text xs"
  by (simp add: marshal_strings_def elements_text_def)

lemma elements_text_start:
  "xs \<noteq> [] \<Longrightarrow> \<exists>cs. elements_text xs = quote # cs"
  by (cases xs; cases "tl xs") (auto simp: elements_text_simps json_string_def)

lemma compact_strings:
  assumes "list_all digits xs"
  shows "json_compact (marshal_strings xs) = Some (marshal_strings xs)"
proof (cases "xs = []")
  case True
  then show ?thesis
    by (simp only:) code_simp
next
  case False
  then obtain cs where cs: "elements_text xs = quote # cs" using elements_text_start by blast
  let ?fuel = "2 * length (marshal_strings xs) + 1"
  have "length xs < ?fuel" using length_elements_text [of xs] by (simp add: marshal_strings_text)
  from js_elements_digits [OF False assms this]
  have "js_value (Suc ?fuel) 10000 (marshal_strings xs) = Some (marshal_strings xs, [])"
    unfolding marshal_strings_text by (simp add: cs del: js_elements.simps)
  then show ?thesis by (simp add: json_compact_def del: js_value.simps)
qed

lemma string_elements_digits:
  assumes "xs \<noteq> []" "list_all digits xs" "length xs \<le> fuel"
  shows "string_elements fuel (elements_text xs) = Some xs"
  using assms
proof (induction xs arbitrary: fuel)
  case (Cons x xs)
  then obtain n where n: "fuel = Suc n" by (cases fuel) auto
  show ?case
  proof (cases xs)
    case Nil
    then show ?thesis
      using Cons.prems(2) n by (simp add: elements_text_simps json_string_digits js_string_digits json_unquote_digits Let_def)
  next
    case (Cons y ys)
    then have "string_elements n (elements_text xs) = Some xs"
      using Cons.IH Cons.prems n by simp
    then show ?thesis
      using Cons.prems(2) n Cons
      by (simp add: elements_text_simps json_string_digits js_string_digits json_unquote_digits Let_def)
  qed
qed simp

lemma unmarshal_marshal:
  assumes "list_all digits xs"
  shows "unmarshal_strings (marshal_strings xs) = Some (Some xs)"
proof (cases "xs = []")
  case True
  then show ?thesis
    using compact_strings [OF assms] by (simp add: unmarshal_strings_def marshal_strings_text elements_text_def)
next
  case False
  then obtain cs where cs: "elements_text xs = quote # cs" using elements_text_start by blast
  have "string_elements (length (elements_text xs)) (elements_text xs) = Some xs"
    by (rule string_elements_digits [OF False assms length_elements_text])
  then show ?thesis
    using compact_strings [OF assms]
    by (simp add: unmarshal_strings_def marshal_strings_text cs del: string_elements.simps)
qed

section \<open>The white list\<close>

definition dedup :: "string list \<Rightarrow> string list" where
  "dedup ids = rev (fold (\<lambda>v result. if v \<in> set result then result else v # result) ids [])"

lemma dedup_acc:
  "distinct acc \<Longrightarrow>
   (let r = fold (\<lambda>v result. if v \<in> set result then result else v # result) ids acc in
    distinct r \<and> set r = set acc \<union> set ids \<and> length r \<le> length acc + length ids)"
proof (induction ids arbitrary: acc)
  case (Cons a ids)
  show ?case
    using Cons.IH [of acc] Cons.IH [of "a # acc"] Cons.prems by (cases "a \<in> set acc") (auto simp: Let_def)
qed simp

lemma dedup_facts: "distinct (dedup ids)" "set (dedup ids) = set ids" "length (dedup ids) \<le> length ids"
  using dedup_acc [of "[]" ids] by (simp_all add: dedup_def Let_def)

lemma dedup_distinct: "distinct ids \<Longrightarrow> dedup ids = ids"
proof -
  have "distinct (rev acc @ ids) \<Longrightarrow>
      fold (\<lambda>v result. if v \<in> set result then result else v # result) ids acc = rev ids @ acc" for acc
    by (induction ids arbitrary: acc) auto
  from this [of "[]"] show "distinct ids \<Longrightarrow> dedup ids = ids" by (simp add: dedup_def)
qed

definition id_order :: "string \<Rightarrow> nat \<times> string" where
  "id_order v = (length v, v)"

lemma normalize_eq:
  "NormalizeDigitalTwinStoreIDs ids0 =
     (if length ids0 > 100 then Inl (ErrText ''at most 100 digital twin store IDs allowed'')
      else if \<not> list_all canonical_store_id ids0 then Inl (ErrText ''invalid digital twin store ID'')
      else Inr (sort_key id_order (dedup ids0)))"
  by (simp add: NormalizeDigitalTwinStoreIDs_def dedup_def id_order_def [abs_def])

lemma normalize_facts:
  assumes "NormalizeDigitalTwinStoreIDs ids0 = Inr ids"
  shows "set ids = set ids0" "distinct ids" "list_all canonical_store_id ids" "sorted (map id_order ids)"
    "length ids \<le> 100"
  using assms dedup_facts [of ids0]
  by (auto simp: normalize_eq list_all_iff sorted_sort_key split: if_splits)

lemma normalize_fixed:
  assumes "distinct ids" "list_all canonical_store_id ids" "sorted (map id_order ids)" "length ids \<le> 100"
  shows "NormalizeDigitalTwinStoreIDs ids = Inr ids"
  using assms by (simp add: normalize_eq dedup_distinct sort_key_id_if_sorted)

lemma canonical_digits: "canonical_store_id v \<Longrightarrow> digits v"
  by (cases v) (auto simp: canonical_store_id_def digits_def is_digit_char_def)

lemma normalize_roundtrip:
  assumes "NormalizeDigitalTwinStoreIDs ids0 = Inr ids"
  shows "parseDigitalTwinSettings (marshal_strings ids) = Inr (digitalTwinSettingsValue ids)"
proof -
  have "list_all digits ids"
    using normalize_facts(3) [OF assms] canonical_digits by (auto simp: list_all_iff)
  then show ?thesis
    using normalize_fixed normalize_facts [OF assms]
    by (simp add: parseDigitalTwinSettings_def unmarshal_marshal)
qed

text \<open>
  C37. The white list survives storage: when \<open>UpdateDigitalTwinSettings\<close> accepts a list, reading the
  settings back gives the value it returned (the same version text included), which holds the ids asked
  for once each in numeric order, and an update that presents that version is not refused as a conflict.
\<close>

theorem digital_twin_roundtrip:
  assumes "UpdateDigitalTwinSettings s ctx now v ids0 event = (Inr saved, s')"
  shows "GetDigitalTwinSettings s' None = Inr saved \<and>
    set (dt_store_ids saved) = set ids0 \<and> distinct (dt_store_ids saved) \<and>
    sorted (map (\<lambda>i. (length i, i)) (dt_store_ids saved)) \<and>
    fst (UpdateDigitalTwinSettings s' ctx' now' (dt_version saved) ids1 event') \<noteq> Inl ErrDigitalTwinSettingsConflict"
  using assms
proof (cases rule: UpdateDigitalTwinSettings_cases)
  case refused
  then show ?thesis by auto
next
  case (saved ids previous)
  then have current: "current_digital_twin s' = Inr (digitalTwinSettingsValue ids)"
    using normalize_roundtrip [OF saved(1)] by (simp add: current_digital_twin_def)
  have "sorted (map (\<lambda>i. (length i, i)) ids)"
    using normalize_facts(4) [OF saved(1)] by (simp add: id_order_def [abs_def])
  moreover have "fst (UpdateDigitalTwinSettings s' ctx' now' (dt_version (digitalTwinSettingsValue ids)) ids1 event')
      \<noteq> Inl ErrDigitalTwinSettingsConflict"
    using current
    by (auto simp: UpdateDigitalTwinSettings_def createAuditLogLocked_def normalize_eq Let_def
        split: sum.splits option.splits if_splits)
  ultimately show ?thesis
    using current saved(5) normalize_facts [OF saved(1)]
    by (simp add: GetDigitalTwinSettings_def digitalTwinSettingsValue_def)
qed

section \<open>The pages of the audit log\<close>

text \<open>All events a filter lists, newest first.\<close>

definition audit_listing :: "app_store \<Rightarrow> AuditLogFilter \<Rightarrow> AuditEvent list" where
  "audit_listing s f =
     sort_key audit_order (filter (audit_log_listed (f\<lparr>lf_action := trim_space (lf_action f)\<rparr>)) (as_audit_logs s))"

lemma listed_normalized:
  "audit_log_listed (fst (normalizeAuditLogFilter f)) = audit_log_listed (f\<lparr>lf_action := trim_space (lf_action f)\<rparr>)"
  by (rule ext) (simp add: audit_log_listed_def normalizeAuditLogFilter_def Let_def)

lemma page_window:
  fixes off off' sz M :: int
  assumes "0 \<le> off" "0 < sz" "int (length xs) \<le> M" "off' = min M off"
  shows "(if int (length xs) \<le> off' then []
      else take (nat ((if int (length xs) < off' + sz then int (length xs) else off' + sz) - off')) (drop (nat off') xs)) =
    take (nat sz) (drop (nat off) xs)"
proof (cases "int (length xs) \<le> off")
  case True
  then show ?thesis using assms by simp
next
  case False
  then have off: "off' = off" using assms(3,4) by simp
  show ?thesis
  proof (cases "int (length xs) < off + sz")
    case True
    then have "nat (int (length xs) - off) = length xs - nat off" "length xs - nat off \<le> nat sz"
      using assms(1) by linarith+
    then show ?thesis using False True unfolding off by simp
  next
    case no: False
    then show ?thesis using False unfolding off by simp
  qed
qed

lemma ListAuditLogs_unfold:
  fixes s f
  defines "L \<equiv> audit_listing s f" and "off \<equiv> snd (normalizeAuditLogFilter f)"
    and "sz \<equiv> lf_page_size (fst (normalizeAuditLogFilter f))"
  shows "lp_items (ListAuditLogs s f) =
      (if int (length L) \<le> off then []
       else take (nat ((if int (length L) < off + sz then int (length L) else off + sz) - off)) (drop (nat off) L)) \<and>
    lp_total (ListAuditLogs s f) = int (length L)"
proof -
  have L: "sort_key audit_order (filter (audit_log_listed (fst (normalizeAuditLogFilter f))) (as_audit_logs s)) = L"
    by (simp add: L_def audit_listing_def listed_normalized)
  show ?thesis
    unfolding ListAuditLogs_def case_prod_unfold Let_def L off_def [symmetric] sz_def [symmetric]
    by simp
qed

lemma ListAuditLogs_page:
  assumes "int (length (as_audit_logs s)) \<le> max_int64"
  shows "lp_items (ListAuditLogs s f) =
      take (nat (lf_page_size (fst (normalizeAuditLogFilter f))))
        (drop (nat ((max 1 (lf_page f) - 1) * lf_page_size (fst (normalizeAuditLogFilter f)))) (audit_listing s f)) \<and>
    lp_total (ListAuditLogs s f) = int (length (audit_listing s f))"
proof -
  have "0 < lf_page_size (fst (normalizeAuditLogFilter f))" using page_size_bounds [of f] by simp
  moreover have "length (audit_listing s f) \<le> length (as_audit_logs s)" by (simp add: audit_listing_def)
  ultimately have "(if int (length (audit_listing s f)) \<le> snd (normalizeAuditLogFilter f) then []
      else take (nat ((if int (length (audit_listing s f)) < snd (normalizeAuditLogFilter f) + lf_page_size (fst (normalizeAuditLogFilter f))
          then int (length (audit_listing s f)) else snd (normalizeAuditLogFilter f) + lf_page_size (fst (normalizeAuditLogFilter f)))
          - snd (normalizeAuditLogFilter f))) (drop (nat (snd (normalizeAuditLogFilter f))) (audit_listing s f))) =
      take (nat (lf_page_size (fst (normalizeAuditLogFilter f))))
        (drop (nat ((max 1 (lf_page f) - 1) * lf_page_size (fst (normalizeAuditLogFilter f)))) (audit_listing s f))"
    using assms offset_cases [of f] by (intro page_window [where M = max_int64]) (simp_all add: normalized_page)
  then show ?thesis using ListAuditLogs_unfold [of s f] by simp
qed

lemma size_page [simp]:
  "lf_page_size (fst (normalizeAuditLogFilter (f\<lparr>lf_page := p\<rparr>))) = lf_page_size (fst (normalizeAuditLogFilter f))"
  by (simp add: normalizeAuditLogFilter_def Let_def)

lemma listing_page [simp]: "audit_listing s (f\<lparr>lf_page := p\<rparr>) = audit_listing s f"
proof -
  have "audit_log_listed (f\<lparr>lf_page := p, lf_action := a\<rparr>) = audit_log_listed (f\<lparr>lf_action := a\<rparr>)" for a
    by (rule ext) (simp add: audit_log_listed_def)
  then show ?thesis by (simp add: audit_listing_def)
qed

lemma concat_pages: "concat (map (\<lambda>p. take k (drop (p * k) xs)) [0..<n]) = take (n * k) xs"
proof (induction n)
  case (Suc n)
  then show ?case using take_add [of "n * k" k xs] by (simp add: add.commute)
qed simp

text \<open>
  The pages of the audit log are a partition of it: for every filter, the first n pages one after
  the other are the first n times the page size of the listed events in the order newest first (the
  larger id first among equal times), every page reports the same total, and no page number overflows
  the offset, as long as the log itself has at most \<open>2 ^ 63 - 1\<close> events.
\<close>

theorem audit_pages:
  assumes "int (length (as_audit_logs s)) \<le> max_int64"
  shows "concat (map (\<lambda>p. lp_items (ListAuditLogs s (f\<lparr>lf_page := int p + 1\<rparr>))) [0..<n]) =
      take (n * nat (lf_page_size (fst (normalizeAuditLogFilter f)))) (audit_listing s f) \<and>
    (\<forall>p. lp_total (ListAuditLogs s (f\<lparr>lf_page := p\<rparr>)) = int (length (audit_listing s f))) \<and>
    sorted (map audit_order (audit_listing s f))"
proof -
  let ?k = "nat (lf_page_size (fst (normalizeAuditLogFilter f)))"
  have k: "0 \<le> lf_page_size (fst (normalizeAuditLogFilter f))" using page_size_bounds [of f] by simp
  have "lp_items (ListAuditLogs s (f\<lparr>lf_page := int p + 1\<rparr>)) = take ?k (drop (p * ?k) (audit_listing s f))" for p
    using ListAuditLogs_page [OF assms, of "f\<lparr>lf_page := int p + 1\<rparr>"] k
    by (simp add: max_def nat_mult_distrib)
  moreover have "lp_total (ListAuditLogs s (f\<lparr>lf_page := p\<rparr>)) = int (length (audit_listing s f))" for p
    using ListAuditLogs_page [OF assms, of "f\<lparr>lf_page := p\<rparr>"] by simp
  moreover have "sorted (map audit_order (audit_listing s f))" by (simp add: audit_listing_def)
  ultimately show ?thesis by (simp add: concat_pages)
qed

section \<open>Edits without their audit event\<close>

text \<open>
  The memory store does not keep an edit and its audit event together: when the context of the
  request has ended, \<open>CreateAuthUserWithAudit\<close> returns the error of the context although the user was
  created and stays, without an audit event (the interface promises one storage transaction).
\<close>

theorem memory_audit_not_atomic:
  assumes "CreateAuthUser s input = (Inr u, s1)"
  shows "CreateAuthUserWithAudit s (Some err) now input event = (Inl (ErrContext err), s1) \<and>
    map_of (as_auth_users s1) (normalizeEmail (am_email input)) = Some u \<and>
    as_audit_logs s1 = as_audit_logs s"
proof -
  have "map_of (as_auth_users s1) (normalizeEmail (am_email input)) = Some u \<and> as_audit_logs s1 = as_audit_logs s"
    using assms by (rule CreateAuthUser_Inr) (simp add: put_user_def set_scopes_def update_conv')
  then show ?thesis
    using assms
    by (simp add: CreateAuthUserWithAudit_def with_audit_def RecordAudit_def CreateAuditLog_def
        createAuditLogLocked_def Let_def)
qed

section \<open>Concrete states\<close>

definition demo_event :: AuditEvent where
  "demo_event = \<lparr>ev_id = 0, ev_user_id = Some 1, ev_actor_display_name = '''', ev_user_email = '''',
     ev_action = ''auth.login'', ev_entity_type = '''', ev_entity_id = None, ev_store_id = None,
     ev_external_org_id = '''', ev_channel_id = None, ev_asset_logical_key = '''', ev_ip_address = '''',
     ev_user_agent = '''', ev_request_id = '''', ev_result = ''success'', ev_detail_json = '''', ev_created_at = 0\<rparr>"

definition demo_filter :: AuditLogFilter where
  "demo_filter = \<lparr>lf_start_at = 0, lf_end_at = 100, lf_user_id = None, lf_action = '''', lf_page = 1, lf_page_size = 2\<rparr>"

definition demo_new_user :: AuthUserMutation where
  "demo_new_user = \<lparr>am_email = ''new@soyoung.com'', am_username = '''', am_display_name = '''', am_role = ''viewer'',
     am_enabled = True, am_institution_ids = None, am_scope_revision = '''', am_legacy_store_ids = None\<rparr>"

lemma demo_twins:
  "\<exists>saved s'. UpdateDigitalTwinSettings app_NewMemoryStore None 5 ''missing:10001'' [''10030'', ''5''] demo_event =
     (Inr saved, s')"
proof -
  have "canonical_store_id ''10030''" "canonical_store_id ''5''" by code_simp+
  then show ?thesis
    by (simp add: UpdateDigitalTwinSettings_def NormalizeDigitalTwinStoreIDs_def current_digital_twin_def
        app_NewMemoryStore_def defaultDigitalTwinSettings_def createAuditLogLocked_def Let_def)
qed

theorem digital_twin_roundtrip_witness:
  "\<exists>saved s'. UpdateDigitalTwinSettings app_NewMemoryStore None 5 ''missing:10001'' [''10030'', ''5''] demo_event =
     (Inr saved, s') \<and> GetDigitalTwinSettings s' None = Inr saved \<and> set (dt_store_ids saved) = {''10030'', ''5''}"
  using demo_twins digital_twin_roundtrip by fastforce

theorem audit_pages_witness:
  "\<forall>p. lp_total (ListAuditLogs app_NewMemoryStore (demo_filter\<lparr>lf_page := p\<rparr>)) =
     int (length (audit_listing app_NewMemoryStore demo_filter))"
  using audit_pages [of app_NewMemoryStore demo_filter 0] by (simp add: app_NewMemoryStore_def max_int64_def)

theorem memory_audit_not_atomic_witness:
  "\<exists>u s1. CreateAuthUser app_NewMemoryStore demo_new_user = (Inr u, s1) \<and>
     fst (CreateAuthUserWithAudit app_NewMemoryStore (Some ''context canceled'') 5 demo_new_user demo_event) =
       Inl (ErrContext ''context canceled'')"
proof -
  let ?s = app_NewMemoryStore
  have "normalizeEmail (am_email demo_new_user) = ''new@soyoung.com''" by code_simp
  moreover have "map_of (as_auth_users ?s) ''new@soyoung.com'' = None"
    by (simp add: app_NewMemoryStore_def defaultAdminEmail_def)
  moreover have "monitorScopesForIDs ?s k (am_institution_ids demo_new_user) = Inr (scopes_of ?s k)" for k
    by (simp add: demo_new_user_def monitorScopesForIDs_def)
  ultimately obtain u s1 where c: "CreateAuthUser ?s demo_new_user = (Inr u, s1)"
    by (simp add: CreateAuthUser_def Let_def)
  from memory_audit_not_atomic [OF c, of "''context canceled''" 5 demo_event]
  have "fst (CreateAuthUserWithAudit ?s (Some ''context canceled'') 5 demo_new_user demo_event) =
      Inl (ErrContext ''context canceled'')"
    by simp
  with c show ?thesis by blast
qed

end
