(* ===== verification/NVR_Depacketizer.thy ===== *)
theory NVR_Depacketizer
  imports Prelude "HOL-Library.Word"
begin

text \<open>
  The RTP/H.265 depacketizer of the NVR thumbnail capture (\<open>nvrsnapshot/depacketizer.go\<close>).  Bytes are
  8-bit words, sequence numbers 16-bit words and timestamps 32-bit words, so that the shifts, masks and
  the wrap-around of \<open>sequence + 1\<close> are the ones of the code.  A nil slice is the empty list; a pair
  of a value and an \<open>ErrorCode\<close> is a sum, the empty code being success.
\<close>

unbundle bit_operations_syntax

type_synonym bytes = "8 word list"

section \<open>Constants and data\<close>

definition rtpVersion :: "8 word" where "rtpVersion = 2"
definition rtpHeaderSize :: nat where "rtpHeaderSize = 12"
definition h265VideoPayloadType :: "8 word" where "h265VideoPayloadType = 96"
definition h265APType :: "8 word" where "h265APType = 48"
definition h265FUType :: "8 word" where "h265FUType = 49"
definition h265PACIType :: "8 word" where "h265PACIType = 50"
definition defaultMaxFUBytes :: int where "defaultMaxFUBytes = 4 * 2 ^ 20"

type_synonym nvr_code = string

definition ErrorDemuxFailed :: nvr_code where "ErrorDemuxFailed = ''demux_failed''"
definition ErrorMediaTimeout :: nvr_code where "ErrorMediaTimeout = ''media_timeout''"

record RTPPacket =
  SequenceNumber :: "16 word"
  Timestamp :: "32 word"
  Marker :: bool
  Payload :: bytes

record DepacketizedNAL =
  dn_nal :: bytes
  dn_timestamp :: "32 word"
  dn_marker :: bool

section \<open>RTP\<close>

definition ParseRTP :: "bytes \<Rightarrow> nvr_code + RTPPacket" where
  "ParseRTP packet =
     (if length packet < rtpHeaderSize \<or> drop_bit 6 (packet ! 0) \<noteq> rtpVersion then Inl ErrorDemuxFailed
      else if packet ! 0 AND (0x20 OR 0x10 OR 0x0f) \<noteq> 0 \<or> packet ! 1 AND 0x7f \<noteq> h265VideoPayloadType
      then Inl ErrorDemuxFailed
      else if length packet = rtpHeaderSize then Inl ErrorDemuxFailed
      else Inr
        \<lparr>SequenceNumber = push_bit 8 (ucast (packet ! 2)) OR ucast (packet ! 3),
         Timestamp = push_bit 24 (ucast (packet ! 4)) OR push_bit 16 (ucast (packet ! 5)) OR
           push_bit 8 (ucast (packet ! 6)) OR ucast (packet ! 7),
         Marker = (packet ! 1 AND 0x80 \<noteq> 0),
         Payload = drop rtpHeaderSize packet\<rparr>)"

section \<open>The depacketizer\<close>

record Depacketizer =
  fuActive :: bool
  nextSeq :: "16 word"
  fuIndicator :: "8 word \<times> 8 word"
  fuType :: "8 word"
  fuTimestamp :: "32 word"
  fu_buffer :: bytes
  maxBytes :: int

definition NewDepacketizerWithMaxBytes :: "int \<Rightarrow> Depacketizer" where
  "NewDepacketizerWithMaxBytes n =
     \<lparr>fuActive = False, nextSeq = 0, fuIndicator = (0, 0), fuType = 0, fuTimestamp = 0, fu_buffer = [],
      maxBytes = (if n < 0 then 0 else n)\<rparr>"

definition NewDepacketizer :: Depacketizer where
  "NewDepacketizer = NewDepacketizerWithMaxBytes defaultMaxFUBytes"

definition dp_reset :: "Depacketizer \<Rightarrow> Depacketizer" where
  "dp_reset d = d\<lparr>fuActive := False, nextSeq := 0, fuIndicator := (0, 0), fuType := 0, fuTimestamp := 0,
     fu_buffer := []\<rparr>"

definition annexB :: "bytes \<Rightarrow> bytes" where
  "annexB nal = [0, 0, 0, 1] @ nal"

text \<open>\<open>int(^uint(0)>>1) - 4\<close> on a 64-bit machine.\<close>

definition maxAnnexBNALBytes :: int where "maxAnnexBNALBytes = 2 ^ 63 - 1 - 4"

definition nal_limit :: "Depacketizer \<Rightarrow> int" where
  "nal_limit d = (if maxBytes d > maxAnnexBNALBytes then maxAnnexBNALBytes else maxBytes d)"

definition fitsNALBytes :: "Depacketizer \<Rightarrow> int \<Rightarrow> int \<Rightarrow> bool" where
  "fitsNALBytes d prefix suffix \<longleftrightarrow>
     prefix \<ge> 0 \<and> prefix \<le> nal_limit d \<and> suffix \<ge> 0 \<and> suffix \<le> nal_limit d - prefix"

definition finishFU :: "Depacketizer \<Rightarrow> (nvr_code + bytes) \<times> Depacketizer" where
  "finishFU d = (Inr (annexB (fu_buffer d)), dp_reset d)"

definition nal_type :: "bytes \<Rightarrow> 8 word" where
  "nal_type payload = drop_bit 1 (payload ! 0) AND 0x3f"

text \<open>The first fragment of a NAL: the buffer starts with the rebuilt two-byte NAL header.\<close>

definition start_fragment ::
  "Depacketizer \<Rightarrow> 16 word \<Rightarrow> 32 word \<Rightarrow> bytes \<Rightarrow> (nvr_code + bytes) \<times> Depacketizer" where
  "start_fragment d0 sequence timestamp payload =
     (let ftype = payload ! 2 AND 0x3f;
          ends = (payload ! 2 AND 0x40 \<noteq> 0);
          fragment = drop 3 payload;
          d = (if fuActive d0 then dp_reset d0 else d0)
      in if ftype = h265APType \<or> ftype = h265FUType \<or> ftype = h265PACIType
         then (Inl ErrorDemuxFailed, dp_reset d)
         else if \<not> fitsNALBytes d 2 (int (length fragment)) then (Inl ErrorDemuxFailed, dp_reset d)
         else
           let d1 = d\<lparr>fu_buffer := [push_bit 1 ftype OR (payload ! 0 AND 0x81), payload ! 1] @ fragment,
                     fuActive := True, nextSeq := sequence + 1,
                     fuIndicator := (payload ! 0, payload ! 1), fuType := ftype,
                     fuTimestamp := timestamp\<rparr>
           in if \<not> ends then (Inr [], d1) else finishFU d1)"

text \<open>A later fragment: it must continue the NAL in flight.\<close>

definition next_fragment ::
  "Depacketizer \<Rightarrow> 16 word \<Rightarrow> 32 word \<Rightarrow> bytes \<Rightarrow> (nvr_code + bytes) \<times> Depacketizer" where
  "next_fragment d sequence timestamp payload =
     (let ftype = payload ! 2 AND 0x3f;
          ends = (payload ! 2 AND 0x40 \<noteq> 0);
          fragment = drop 3 payload
      in if \<not> fuActive d \<or> sequence \<noteq> nextSeq d then (Inl ErrorDemuxFailed, dp_reset d)
         else if payload ! 0 \<noteq> fst (fuIndicator d) \<or> payload ! 1 \<noteq> snd (fuIndicator d) \<or>
                 ftype \<noteq> fuType d \<or> timestamp \<noteq> fuTimestamp d
         then (Inl ErrorDemuxFailed, dp_reset d)
         else if \<not> fitsNALBytes d (int (length (fu_buffer d))) (int (length fragment))
         then (Inl ErrorDemuxFailed, dp_reset d)
         else
           let d1 = d\<lparr>fu_buffer := fu_buffer d @ fragment, nextSeq := sequence + 1\<rparr>
           in if \<not> ends then (Inr [], d1) else finishFU d1)"

definition feedH265 ::
  "Depacketizer \<Rightarrow> 16 word \<Rightarrow> 32 word \<Rightarrow> bytes \<Rightarrow> (nvr_code + bytes) \<times> Depacketizer" where
  "feedH265 d sequence timestamp payload =
     (if length payload < 2 then (Inl ErrorDemuxFailed, dp_reset d)
      else if nal_type payload = h265APType \<or> nal_type payload = h265PACIType
      then (Inl ErrorDemuxFailed, dp_reset d)
      else if nal_type payload \<noteq> h265FUType then
        let d1 = (if fuActive d then dp_reset d else d)
        in if \<not> fitsNALBytes d1 0 (int (length payload)) then (Inl ErrorDemuxFailed, d1)
           else (Inr (annexB payload), d1)
      else if length payload < 4 then (Inl ErrorDemuxFailed, dp_reset d)
      else if payload ! 2 AND 0x80 \<noteq> 0 then start_fragment d sequence timestamp payload
      else next_fragment d sequence timestamp payload)"

definition FeedRTPWithMetadata :: "Depacketizer \<Rightarrow> bytes \<Rightarrow> (nvr_code + DepacketizedNAL) \<times> Depacketizer" where
  "FeedRTPWithMetadata d packet =
     (case ParseRTP packet of
        Inl code \<Rightarrow> (Inl code, dp_reset d)
      | Inr rtp \<Rightarrow>
          (case feedH265 d (SequenceNumber rtp) (Timestamp rtp) (Payload rtp) of
             (Inl code, d1) \<Rightarrow> (Inl code, d1)
           | (Inr nal, d1) \<Rightarrow>
               (Inr \<lparr>dn_nal = nal, dn_timestamp = Timestamp rtp, dn_marker = Marker rtp\<rparr>, d1)))"

definition FeedRTP :: "Depacketizer \<Rightarrow> bytes \<Rightarrow> (nvr_code + bytes) \<times> Depacketizer" where
  "FeedRTP d packet =
     (case FeedRTPWithMetadata d packet of
        (Inl code, d1) \<Rightarrow> (Inl code, d1)
      | (Inr result, d1) \<Rightarrow> (Inr (dn_nal result), d1))"

end
