(* ===== verification/NVR_Capture.thy ===== *)
theory NVR_Capture
  imports NVR_Depacketizer GoStrings
begin

text \<open>
  The thumbnail capture (\<open>nvrsnapshot/capture.go\<close>): the service that authorises a stream and captures
  from it, the loop that collects a key access unit from a web socket, and the run of ffmpeg on it.
  What comes from outside is data: the reads of the connection are a list, and \<open>None\<close> says that the
  program still waits for the next one; the events of the select loop around ffmpeg are a list of the
  same kind.  Wiping buffers is not modelled: it is not observable in the results.
\<close>

section \<open>Codes and data\<close>

definition maxJPEGBytes :: nat where "maxJPEGBytes = 2 ^ 20"
definition maxAnnexBBytes :: int where "maxAnnexBBytes = 8 * 2 ^ 20"
definition maxThumbnailEdge :: int where "maxThumbnailEdge = 640"

definition ErrorAuthorizationFailed :: nvr_code where "ErrorAuthorizationFailed = ''authorization_failed''"
definition ErrorWSSConnectFailed :: nvr_code where "ErrorWSSConnectFailed = ''wss_connect_failed''"
definition ErrorWSSConnectTimeout :: nvr_code where "ErrorWSSConnectTimeout = ''wss_connect_timeout''"
definition ErrorDecodeFailed :: nvr_code where "ErrorDecodeFailed = ''decode_failed''"
definition ErrorThumbnailInvalid :: nvr_code where "ErrorThumbnailInvalid = ''thumbnail_invalid''"

datatype StreamMode = StreamModeLive | StreamModePlayback

record StreamRequest =
  sr_mode :: StreamMode
  sr_start_time :: int
  sr_end_time :: int

record JPEG =
  jp_bytes :: bytes
  jp_width :: int
  jp_height :: int
  jp_content_type :: string

definition empty_jpeg :: JPEG where
  "empty_jpeg = \<lparr>jp_bytes = [], jp_width = 0, jp_height = 0, jp_content_type = []\<rparr>"

section \<open>The capture service\<close>

definition whitelistCaptureCode :: "nvr_code \<Rightarrow> nvr_code" where
  "whitelistCaptureCode code =
     (if code \<in> set ['''', ErrorAuthorizationFailed, ErrorWSSConnectFailed, ErrorWSSConnectTimeout,
          ErrorMediaTimeout, ErrorDemuxFailed, ErrorDecodeFailed, ErrorThumbnailInvalid]
      then code else ErrorDecodeFailed)"

text \<open>\<open>CaptureService.Capture\<close> over its two dependencies, absent when nil.\<close>

definition capture_service ::
  "(int \<Rightarrow> StreamRequest \<Rightarrow> string \<times> nvr_code) option \<Rightarrow> (string \<Rightarrow> JPEG \<times> nvr_code) option \<Rightarrow>
   int \<Rightarrow> StreamRequest \<Rightarrow> JPEG \<times> nvr_code" where
  "capture_service authorizer capture cameraID request =
     (case (authorizer, capture) of
        (Some authorize, Some cap) \<Rightarrow>
          (case authorize cameraID request of
             (wssURL, code) \<Rightarrow>
               if code \<noteq> '''' then
                 (if code = ErrorAuthorizationFailed then (empty_jpeg, code) else (empty_jpeg, ErrorAuthorizationFailed))
               else if trim_space wssURL = [] then (empty_jpeg, ErrorAuthorizationFailed)
               else case cap wssURL of (jpeg, code1) \<Rightarrow> (jpeg, whitelistCaptureCode code1))
      | _ \<Rightarrow> (empty_jpeg, ErrorAuthorizationFailed))"

section \<open>NAL units and the access unit\<close>

definition h265NALType :: "bytes \<Rightarrow> 8 word" where
  "h265NALType nal =
     (if length nal < 6 \<or> take 4 nal \<noteq> [0, 0, 0, 1] then 0xff else drop_bit 1 (nal ! 4) AND 0x3f)"

definition isH265KeyFrame :: "bytes \<Rightarrow> bool" where
  "isH265KeyFrame nal \<longleftrightarrow> h265NALType nal \<ge> 16 \<and> h265NALType nal \<le> 21"

definition parameterSetIndex :: "8 word \<Rightarrow> nat option" where
  "parameterSetIndex t = (if t = 32 then Some 0 else if t = 33 then Some 1 else if t = 34 then Some 2 else None)"

record accessUnit =
  au_timestamp :: "32 word"
  au_active :: bool
  au_has_key_frame :: bool
  au_bytes :: bytes

definition accessUnit_reset :: accessUnit where
  "accessUnit_reset = \<lparr>au_timestamp = 0, au_active = False, au_has_key_frame = False, au_bytes = []\<rparr>"

definition acceptsTimestamp :: "accessUnit \<Rightarrow> 32 word \<Rightarrow> bool" where
  "acceptsTimestamp a timestamp \<longleftrightarrow> \<not> au_active a \<or> au_timestamp a = timestamp"

definition accessUnit_append :: "accessUnit \<Rightarrow> 32 word \<Rightarrow> bytes \<Rightarrow> bool \<Rightarrow> accessUnit" where
  "accessUnit_append a timestamp nal keyFrame =
     (let a1 = (if \<not> au_active a then a\<lparr>au_active := True, au_timestamp := timestamp\<rparr> else a)
      in a1\<lparr>au_bytes := au_bytes a1 @ nal, au_has_key_frame := au_has_key_frame a1 \<or> keyFrame\<rparr>)"

definition hasAllParameterSets :: "bytes list \<Rightarrow> bool" where
  "hasAllParameterSets parameterSets \<longleftrightarrow> list_all (\<lambda>ps. length ps \<noteq> 0) parameterSets"

text \<open>The size check of \<open>combineAccessUnit\<close>: the sum so far, or \<open>None\<close> once a set no longer fits.\<close>

fun combined_size :: "bytes list \<Rightarrow> int \<Rightarrow> int option" where
  "combined_size [] size0 = Some size0"
| "combined_size (ps # rest) size0 =
     (if int (length ps) > maxAnnexBBytes - size0 then None else combined_size rest (size0 + int (length ps)))"

definition combineAccessUnit :: "bytes list \<Rightarrow> bytes \<Rightarrow> bytes option" where
  "combineAccessUnit parameterSets unit =
     (case combined_size parameterSets (int (length unit)) of
        None \<Rightarrow> None
      | Some size0 \<Rightarrow> if size0 = 0 then None else Some (concat parameterSets @ unit))"

section \<open>The loop over the connection\<close>

datatype ws_read = ReadBinary bytes | ReadOther | ReadError bool

record capture_state =
  cs_depacketizer :: Depacketizer
  cs_parameter_sets :: "bytes list"
  cs_unit :: accessUnit

definition capture_start :: capture_state where
  "capture_start =
     \<lparr>cs_depacketizer = NewDepacketizer, cs_parameter_sets = [[], [], []], cs_unit = accessUnit_reset\<rparr>"

text \<open>What one round of the loop leads to: the next round, the return of a code, or media for ffmpeg.\<close>

datatype capture_next = Continue capture_state | Fail nvr_code | Media bytes

text \<open>The part of the body after a NAL is complete.\<close>

definition capture_nal :: "capture_state \<Rightarrow> DepacketizedNAL \<Rightarrow> capture_next" where
  "capture_nal s result =
     (let nal = dn_nal result in
      case parameterSetIndex (h265NALType nal) of
        Some index \<Rightarrow>
          if int (length nal) > maxAnnexBBytes then Fail ErrorDemuxFailed
          else Continue (s\<lparr>cs_parameter_sets := (cs_parameter_sets s)[index := nal]\<rparr>)
      | None \<Rightarrow>
          let unit = (if \<not> acceptsTimestamp (cs_unit s) (dn_timestamp result) then accessUnit_reset else cs_unit s) in
          if int (length nal) > maxAnnexBBytes - int (length (au_bytes unit)) then Fail ErrorDemuxFailed
          else
            let unit1 = accessUnit_append unit (dn_timestamp result) nal (isH265KeyFrame nal) in
            if \<not> dn_marker result then Continue (s\<lparr>cs_unit := unit1\<rparr>)
            else if au_has_key_frame unit1 \<and> hasAllParameterSets (cs_parameter_sets s) then
              (case combineAccessUnit (cs_parameter_sets s) (au_bytes unit1) of
                 None \<Rightarrow> Fail ErrorDemuxFailed
               | Some media \<Rightarrow> Media media)
            else Continue (s\<lparr>cs_unit := accessUnit_reset\<rparr>))"

definition capture_round :: "capture_state \<Rightarrow> ws_read \<Rightarrow> capture_next" where
  "capture_round s event =
     (case event of
        ReadError deadline \<Rightarrow> Fail (if deadline then ErrorMediaTimeout else ErrorWSSConnectFailed)
      | ReadOther \<Rightarrow> Fail ErrorDemuxFailed
      | ReadBinary packet \<Rightarrow>
          (case FeedRTPWithMetadata (cs_depacketizer s) packet of
             (Inl code, d) \<Rightarrow> Fail code
           | (Inr result, d) \<Rightarrow>
               if length (dn_nal result) = 0 then Continue (s\<lparr>cs_depacketizer := d\<rparr>)
               else capture_nal (s\<lparr>cs_depacketizer := d\<rparr>) result))"

text \<open>The loop; a \<open>Continue\<close> at the end of the reads means that it waits.\<close>

fun capture_loop :: "capture_state \<Rightarrow> ws_read list \<Rightarrow> capture_next" where
  "capture_loop s [] = Continue s"
| "capture_loop s (event # events) =
     (case capture_round s event of Continue s1 \<Rightarrow> capture_loop s1 events | stop \<Rightarrow> stop)"

section \<open>The run of ffmpeg\<close>

datatype read_result = ReadData bytes | ReadTooLarge | ReadFailed

datatype pipe_read = PipeData bytes | PipeEnd bytes | PipeError bytes

text \<open>\<open>readBoundedJPEG\<close> over the reads of the pipe; \<open>None\<close>: it waits for more.\<close>

fun readBoundedJPEG :: "bytes \<Rightarrow> pipe_read list \<Rightarrow> read_result option" where
  "readBoundedJPEG output [] = None"
| "readBoundedJPEG output (PipeData b # rest) =
     (if length b > 0 \<and> int (length b) > int maxJPEGBytes - int (length output) then Some ReadTooLarge
      else readBoundedJPEG (output @ b) rest)"
| "readBoundedJPEG output (PipeEnd b # rest) =
     (if length b > 0 \<and> int (length b) > int maxJPEGBytes - int (length output) then Some ReadTooLarge
      else Some (ReadData (output @ b)))"
| "readBoundedJPEG output (PipeError b # rest) =
     (if length b > 0 \<and> int (length b) > int maxJPEGBytes - int (length output) then Some ReadTooLarge
      else Some ReadFailed)"

text \<open>\<open>validateJPEG\<close>; \<open>decode\<close> is \<open>image/jpeg\<close>: the width and height of a picture, or no picture.\<close>

definition validateJPEG :: "(bytes \<Rightarrow> (int \<times> int) option) \<Rightarrow> bytes \<Rightarrow> nvr_code + JPEG" where
  "validateJPEG decode data =
     (if length data = 0 then Inl ErrorDecodeFailed
      else case decode data of
        None \<Rightarrow> Inl ErrorDecodeFailed
      | Some (width, height) \<Rightarrow>
          if width \<le> 0 \<or> height \<le> 0 then Inl ErrorDecodeFailed
          else if width > maxThumbnailEdge \<or> height > maxThumbnailEdge \<or> length data > maxJPEGBytes
          then Inl ErrorThumbnailInvalid
          else Inr \<lparr>jp_bytes = data, jp_width = width, jp_height = height, jp_content_type = ''image/jpeg''\<rparr>)"

text \<open>
  The events of the select loop: the reader is done, the writer is done (with the result of the write
  and of closing the pipe), the context is done (by its deadline or not).  Each channel delivers once.
\<close>

datatype ff_event = ReadDone read_result | WriteDone bool bool | CtxDone bool

definition both_finished :: "bytes option \<Rightarrow> bool \<Rightarrow> bytes option" where
  "both_finished output written = (if written then output else None)"

fun select_loop :: "bytes option \<Rightarrow> bool \<Rightarrow> ff_event list \<Rightarrow> (nvr_code + bytes) option" where
  "select_loop output written [] = map_option Inr (both_finished output written)"
| "select_loop output written (event # events) =
     (case both_finished output written of
        Some data \<Rightarrow> Some (Inr data)
      | None \<Rightarrow>
          (case event of
             ReadDone ReadTooLarge \<Rightarrow> Some (Inl ErrorThumbnailInvalid)
           | ReadDone ReadFailed \<Rightarrow> Some (Inl ErrorDecodeFailed)
           | ReadDone (ReadData data) \<Rightarrow> select_loop (Some data) written events
           | WriteDone ok closed \<Rightarrow>
               if \<not> ok \<or> \<not> closed then Some (Inl ErrorDecodeFailed) else select_loop output True events
           | CtxDone deadline \<Rightarrow> Some (Inl (if deadline then ErrorMediaTimeout else ErrorDecodeFailed))))"

record ffmpeg_run =
  ff_configured :: bool
  ff_pipes :: bool
  ff_started :: bool
  ff_events :: "ff_event list"
  ff_exited :: bool

definition captureJPEG :: "(bytes \<Rightarrow> (int \<times> int) option) \<Rightarrow> ffmpeg_run \<Rightarrow> (nvr_code + JPEG) option" where
  "captureJPEG decode run =
     (if \<not> ff_configured run \<or> \<not> ff_pipes run \<or> \<not> ff_started run then Some (Inl ErrorDecodeFailed)
      else case select_loop None False (ff_events run) of
        None \<Rightarrow> None
      | Some (Inl code) \<Rightarrow> Some (Inl code)
      | Some (Inr output) \<Rightarrow>
          if \<not> ff_exited run then Some (Inl ErrorDecodeFailed) else Some (validateJPEG decode output))"

section \<open>The capture\<close>

datatype ws_dial = Dialled "ws_read list" | DialFailed bool

text \<open>\<open>WebSocketJPEGCapture.Capture\<close>; \<open>ffmpeg media\<close> is the run of the command on some media.\<close>

definition ws_capture ::
  "(bytes \<Rightarrow> (int \<times> int) option) \<Rightarrow> (bytes \<Rightarrow> ffmpeg_run) \<Rightarrow> ws_dial \<Rightarrow> (nvr_code + JPEG) option" where
  "ws_capture decode ffmpeg dial =
     (case dial of
        DialFailed deadline \<Rightarrow> Some (Inl (if deadline then ErrorWSSConnectTimeout else ErrorWSSConnectFailed))
      | Dialled reads \<Rightarrow>
          (case capture_loop capture_start reads of
             Continue s \<Rightarrow> None
           | Fail code \<Rightarrow> Some (Inl code)
           | Media media \<Rightarrow> captureJPEG decode (ffmpeg media)))"

end
