(* ===== verification/NVR_Backfill.thy ===== *)
theory NVR_Backfill
  imports NVR_Capture GoTime
begin

text \<open>
  The backfill of NVR thumbnails (\<open>nvrsnapshot/service.go\<close>, \<open>models.go\<close> and the selection check of
  \<open>mysql_repository.go\<close>).  The repository, the camera capture, the object store and the clock are the
  surroundings: functions on a state \<open>'w\<close> of their own that the run threads through its calls.
\<close>

section \<open>Data\<close>

definition defaultCaptureTimeout :: duration where "defaultCaptureTimeout = 20 * second"
definition defaultRequestInterval :: duration where "defaultRequestInterval = 2 * second"
definition maxConsecutiveFailures :: nat where "maxConsecutiveFailures = 3"

definition SnapshotStatusSucceeded :: nvr_code where "SnapshotStatusSucceeded = ''succeeded''"
definition ErrorOSSUploadFailed :: nvr_code where "ErrorOSSUploadFailed = ''oss_upload_failed''"

record Selection =
  sl_tenant_id :: int
  sl_camera_id :: int
  sl_all_tenants :: bool

record Candidate =
  cd_tenant_id :: int
  cd_camera_id :: int

record BackfillOptions =
  bo_selection :: Selection
  bo_timeout :: duration
  bo_request_interval :: duration
  bo_force :: bool

record Summary =
  sm_selected :: int
  sm_skipped :: int
  sm_succeeded :: int
  sm_failed :: int
  sm_failures :: "(nvr_code \<times> int) list"

datatype backfill_error =
    ErrNotConfigured | ErrInvalidSelection | ErrInvalidOptions | ErrCircuitOpen | ErrFromOutside string

section \<open>Keys and checks\<close>

definition formatPositiveID :: "int \<Rightarrow> string" where
  "formatPositiveID v = (if v \<le> 0 then ''0'' else itoa v)"

definition snapshotObjectKey :: "int \<Rightarrow> int \<Rightarrow> string" where
  "snapshotObjectKey tenantID cameraID =
     ''nvr-camera-snapshots/'' @ formatPositiveID tenantID @ ''/'' @ formatPositiveID cameraID @ ''.jpg''"

definition validateSelection :: "Selection \<Rightarrow> backfill_error + unit" where
  "validateSelection selection =
     (if sl_camera_id selection < 0 then Inl ErrInvalidSelection
      else if sl_all_tenants selection then
        (if sl_tenant_id selection \<noteq> 0 \<or> sl_camera_id selection \<noteq> 0 then Inl ErrInvalidSelection else Inr ())
      else if sl_tenant_id selection \<le> 0 then Inl ErrInvalidSelection
      else Inr ())"

definition validBackfillJPEG :: "JPEG \<Rightarrow> bool" where
  "validBackfillJPEG jpeg \<longleftrightarrow>
     length (jp_bytes jpeg) > 0 \<and> length (jp_bytes jpeg) \<le> maxJPEGBytes \<and> jp_content_type jpeg = ''image/jpeg'' \<and>
     jp_width jpeg > 0 \<and> jp_width jpeg \<le> maxThumbnailEdge \<and> jp_height jpeg > 0 \<and> jp_height jpeg \<le> maxThumbnailEdge"

definition isCircuitFailure :: "nvr_code \<Rightarrow> bool" where
  "isCircuitFailure code \<longleftrightarrow>
     code = ErrorAuthorizationFailed \<or> code = ErrorWSSConnectFailed \<or> code = ErrorWSSConnectTimeout"

section \<open>The surroundings\<close>

text \<open>What \<open>Open\<close> gives: no object, an error, or a reader that closes with or without one.\<close>

datatype open_result = ObjectMissing | OpenError string | Opened "string option"

record 'w backfill_env =
  be_candidates :: "'w \<Rightarrow> Selection \<Rightarrow> (string + Candidate list) \<times> 'w"
  be_capture :: "'w \<Rightarrow> int \<Rightarrow> StreamRequest \<Rightarrow> duration \<Rightarrow> (JPEG \<times> nvr_code) \<times> 'w"
  be_save :: "'w \<Rightarrow> string \<Rightarrow> bytes \<Rightarrow> string \<Rightarrow> string option \<times> 'w"
  be_open :: "'w \<Rightarrow> string \<Rightarrow> open_result \<times> 'w"
  be_sleep :: "'w \<Rightarrow> duration \<Rightarrow> string option \<times> 'w"

section \<open>The run\<close>

definition processCandidate :: "'w backfill_env \<Rightarrow> 'w \<Rightarrow> Candidate \<Rightarrow> duration \<Rightarrow> nvr_code \<times> 'w" where
  "processCandidate env w candidate timeout =
     (case be_capture env w (cd_camera_id candidate)
             \<lparr>sr_mode = StreamModeLive, sr_start_time = 0, sr_end_time = 0\<rparr> timeout of
        ((jpeg, code), w1) \<Rightarrow>
          if code \<noteq> '''' then (code, w1)
          else if \<not> validBackfillJPEG jpeg then (ErrorThumbnailInvalid, w1)
          else
            (case be_save env w1 (snapshotObjectKey (cd_tenant_id candidate) (cd_camera_id candidate))
                    (jp_bytes jpeg) (jp_content_type jpeg) of
               (Some err, w2) \<Rightarrow> (ErrorOSSUploadFailed, w2)
             | (None, w2) \<Rightarrow> (SnapshotStatusSucceeded, w2)))"

definition objectExists :: "'w backfill_env \<Rightarrow> 'w \<Rightarrow> Candidate \<Rightarrow> (backfill_error + bool) \<times> 'w" where
  "objectExists env w candidate =
     (case be_open env w (snapshotObjectKey (cd_tenant_id candidate) (cd_camera_id candidate)) of
        (ObjectMissing, w1) \<Rightarrow> (Inr False, w1)
      | (OpenError err, w1) \<Rightarrow> (Inl (ErrFromOutside err), w1)
      | (Opened (Some err), w1) \<Rightarrow> (Inl (ErrFromOutside err), w1)
      | (Opened None, w1) \<Rightarrow> (Inr True, w1))"

definition failures_of :: "Summary \<Rightarrow> nvr_code \<Rightarrow> int" where
  "failures_of summary code = (case map_of (sm_failures summary) code of None \<Rightarrow> 0 | Some n \<Rightarrow> n)"

definition count_failure :: "Summary \<Rightarrow> nvr_code \<Rightarrow> Summary" where
  "count_failure summary code =
     summary\<lparr>sm_failed := sm_failed summary + 1,
       sm_failures := AList.update code (failures_of summary code + 1) (sm_failures summary)\<rparr>"

text \<open>The body of the loop for a candidate that is captured, and the loop.\<close>

fun backfill_loop ::
  "'w backfill_env \<Rightarrow> BackfillOptions \<Rightarrow> Candidate list \<Rightarrow> bool \<Rightarrow> nat \<Rightarrow> Summary \<Rightarrow> 'w \<Rightarrow>
   Summary \<times> backfill_error option \<times> 'w" where
  "backfill_loop env options [] captured consecutive summary w = (summary, None, w)"
| "backfill_loop env options (candidate # rest) captured consecutive summary w =
     (case (if bo_force options then (Inr False, w) else objectExists env w candidate) of
        (Inl err, w1) \<Rightarrow> (summary, Some err, w1)
      | (Inr True, w1) \<Rightarrow>
          backfill_loop env options rest captured consecutive (summary\<lparr>sm_skipped := sm_skipped summary + 1\<rparr>) w1
      | (Inr False, w1) \<Rightarrow>
          (case (if captured then be_sleep env w1 (bo_request_interval options) else (None, w1)) of
             (Some err, w2) \<Rightarrow> (summary, Some (ErrFromOutside err), w2)
           | (None, w2) \<Rightarrow>
               (case processCandidate env w2 candidate (bo_timeout options) of
                  (code, w3) \<Rightarrow>
                    if code = SnapshotStatusSucceeded then
                      backfill_loop env options rest True 0 (summary\<lparr>sm_succeeded := sm_succeeded summary + 1\<rparr>) w3
                    else if isCircuitFailure code then
                      (if consecutive + 1 \<ge> maxConsecutiveFailures
                       then (count_failure summary code, Some ErrCircuitOpen, w3)
                       else backfill_loop env options rest True (consecutive + 1) (count_failure summary code) w3)
                    else backfill_loop env options rest True 0 (count_failure summary code) w3)))"

definition empty_summary :: Summary where
  "empty_summary = \<lparr>sm_selected = 0, sm_skipped = 0, sm_succeeded = 0, sm_failed = 0, sm_failures = []\<rparr>"

definition backfill_Run ::
  "'w backfill_env option \<Rightarrow> BackfillOptions \<Rightarrow> 'w \<Rightarrow> Summary \<times> backfill_error option \<times> 'w" where
  "backfill_Run service options0 w =
     (case service of
        None \<Rightarrow> (empty_summary, Some ErrNotConfigured, w)
      | Some env \<Rightarrow>
          (case validateSelection (bo_selection options0) of
             Inl err \<Rightarrow> (empty_summary, Some err, w)
           | Inr _ \<Rightarrow>
               let options = options0\<lparr>bo_timeout := (if bo_timeout options0 = 0 then defaultCaptureTimeout
                                                      else bo_timeout options0),
                     bo_request_interval := (if bo_request_interval options0 = 0 then defaultRequestInterval
                                             else bo_request_interval options0)\<rparr>
               in if bo_timeout options \<le> 0 \<or> bo_timeout options > defaultCaptureTimeout \<or>
                     bo_request_interval options < defaultRequestInterval
                  then (empty_summary, Some ErrInvalidOptions, w)
                  else
                    (case be_candidates env w (bo_selection options) of
                       (Inl err, w1) \<Rightarrow> (empty_summary, Some (ErrFromOutside err), w1)
                     | (Inr candidates, w1) \<Rightarrow>
                         backfill_loop env options candidates False 0
                           (empty_summary\<lparr>sm_selected := int (length candidates)\<rparr>) w1)))"

end
