(* ===== verification/NVR_Depacketizer_Props.thy ===== *)
theory NVR_Depacketizer_Props
  imports NVR_Depacketizer "HOL-Library.Sublist"
begin

text \<open>
  What the depacketizer promises, stated without its state: a function of the packets received so far.
  A fragmented NAL is a \<open>series\<close> of fragments; the output of the last packet is decided by the one
  series that ends with it.  The depacketizer implements that function (refinement), it never buffers
  or emits more than its limit (bounds), and it gives back any NAL cut into fragments, whatever it
  received before (round trip).
\<close>

section \<open>Series of fragments\<close>

record fragment =
  fr_seq :: "16 word"
  fr_ts :: "32 word"
  fr_ind :: "8 word \<times> 8 word"
  fr_type :: "8 word"
  fr_start :: bool
  fr_end :: bool
  fr_data :: bytes

definition fragment_of :: "RTPPacket \<Rightarrow> fragment option" where
  "fragment_of r =
     (let p = Payload r in
      if 4 \<le> length p \<and> nal_type p = h265FUType
      then Some \<lparr>fr_seq = SequenceNumber r, fr_ts = Timestamp r, fr_ind = (p ! 0, p ! 1),
                 fr_type = p ! 2 AND 0x3f, fr_start = (p ! 2 AND 0x80 \<noteq> 0),
                 fr_end = (p ! 2 AND 0x40 \<noteq> 0), fr_data = drop 3 p\<rparr>
      else None)"

definition packet_fragment :: "bytes \<Rightarrow> fragment option" where
  "packet_fragment p = (case ParseRTP p of Inl c \<Rightarrow> None | Inr r \<Rightarrow> fragment_of r)"

text \<open>A fragment goes on where the one before it stopped.\<close>

definition continues :: "fragment \<Rightarrow> fragment \<Rightarrow> bool" where
  "continues g f \<longleftrightarrow>
     \<not> fr_end g \<and> \<not> fr_start f \<and> fr_ind f = fr_ind g \<and> fr_type f = fr_type g \<and> fr_ts f = fr_ts g \<and>
     fr_seq f = fr_seq g + 1"

definition fragments_size :: "fragment list \<Rightarrow> int" where
  "fragments_size fs = 2 + int (length (concat (map fr_data fs)))"

definition series :: "int \<Rightarrow> fragment list \<Rightarrow> bool" where
  "series L fs \<longleftrightarrow>
     fs \<noteq> [] \<and> fr_start (hd fs) \<and> fr_type (hd fs) \<notin> {h265APType, h265FUType, h265PACIType} \<and>
     successively continues fs \<and> fragments_size fs \<le> L"

text \<open>The NAL of a series: its two header bytes, rebuilt, and the data of its fragments.\<close>

definition assembled :: "fragment list \<Rightarrow> bytes" where
  "assembled fs =
     [push_bit 1 (fr_type (hd fs)) OR (fst (fr_ind (hd fs)) AND 0x81), snd (fr_ind (hd fs))] @
     concat (map fr_data fs)"

text \<open>The fragments received since the last packet that was none, and the series that ends with the last.\<close>

definition trailing :: "bytes list \<Rightarrow> fragment list" where
  "trailing ps = map the (rev (takeWhile (\<lambda>x. x \<noteq> None) (rev (map packet_fragment ps))))"

definition current :: "int \<Rightarrow> bytes list \<Rightarrow> fragment list option" where
  "current L ps = find (series L) (suffixes (trailing ps))"

definition single_nal :: "bytes \<Rightarrow> bool" where
  "single_nal p \<longleftrightarrow> 2 \<le> length p \<and> nal_type p \<notin> {h265APType, h265FUType, h265PACIType}"

text \<open>The abstract depacketizer: the answer to packet \<open>p\<close> after the packets \<open>ps\<close>.\<close>

definition answer :: "int \<Rightarrow> bytes list \<Rightarrow> bytes \<Rightarrow> nvr_code + DepacketizedNAL" where
  "answer L ps p =
     (case ParseRTP p of
        Inl code \<Rightarrow> Inl code
      | Inr r \<Rightarrow>
          (let nal = (\<lambda>n. Inr \<lparr>dn_nal = n, dn_timestamp = Timestamp r, dn_marker = Marker r\<rparr>) in
           if single_nal (Payload r)
           then (if int (length (Payload r)) \<le> L then nal (annexB (Payload r)) else Inl ErrorDemuxFailed)
           else case current L (ps @ [p]) of
             None \<Rightarrow> Inl ErrorDemuxFailed
           | Some fs \<Rightarrow> nal (if fr_end (last fs) then annexB (assembled fs) else [])))"

section \<open>Lemmas on series\<close>

lemma find_conj:
  assumes "\<And>x y. x \<in> set xs \<Longrightarrow> y \<in> set xs \<Longrightarrow> P x \<Longrightarrow> P y \<Longrightarrow> x = y"
  shows "find (\<lambda>x. P x \<and> Q x) xs = (case find P xs of None \<Rightarrow> None | Some x \<Rightarrow> if Q x then Some x else None)"
  using assms
proof (induction xs)
  case (Cons x xs)
  show ?case
  proof (cases "P x \<and> \<not> Q x")
    case True
    have "find (\<lambda>x. P x \<and> Q x) xs = None"
      using True Cons.prems [of _ x] by (fastforce simp: find_None_iff)
    then show ?thesis using True by simp
  next
    case False
    then show ?thesis using Cons by auto
  qed
qed simp

lemma find_eq: "a \<in> set xs \<Longrightarrow> find (\<lambda>x. x = a \<and> Q) xs = (if Q then Some a else None)"
  by (cases Q) (induction xs, auto simp: find_None_iff)

lemma find_map: "find P (map f xs) = map_option f (find (\<lambda>x. P (f x)) xs)"
  by (induction xs) auto

lemma series_single:
  "series L [f] \<longleftrightarrow> fr_start f \<and> fr_type f \<notin> {h265APType, h265FUType, h265PACIType} \<and>
     2 + int (length (fr_data f)) \<le> L"
  by (auto simp: series_def fragments_size_def)

lemma series_snoc:
  assumes "fs \<noteq> []"
  shows "series L (fs @ [f]) \<longleftrightarrow> series L fs \<and> continues (last fs) f \<and> fragments_size (fs @ [f]) \<le> L"
  using assms by (auto simp: series_def successively_append_iff fragments_size_def)

lemma continues_start: "successively continues (x # xs) \<Longrightarrow> f \<in> set xs \<Longrightarrow> \<not> fr_start f"
  by (induction xs arbitrary: x) (auto simp: continues_def)

lemma series_unique:
  assumes "suffix ys zs" "series L ys" "series L zs"
  shows "ys = zs"
proof (rule ccontr)
  assume "ys \<noteq> zs"
  obtain y ys' where y: "ys = y # ys'" using assms(2) by (cases ys) (auto simp: series_def)
  obtain z zs' where z: "zs = z # zs'" using assms(3) by (cases zs) (auto simp: series_def)
  have "y \<in> set zs'" using assms(1) \<open>ys \<noteq> zs\<close> unfolding y z by (auto simp: suffix_Cons dest: set_mono_suffix)
  then show False using assms(2,3) continues_start unfolding y z series_def by fastforce
qed

lemma series_suffixes_unique:
  "ys \<in> set (suffixes T) \<Longrightarrow> zs \<in> set (suffixes T) \<Longrightarrow> series L ys \<Longrightarrow> series L zs \<Longrightarrow> ys = zs"
  using series_unique suffix_same_cases by (metis in_set_suffixes)

lemma trailing_snoc:
  "trailing (ps @ [p]) = (case packet_fragment p of None \<Rightarrow> [] | Some f \<Rightarrow> trailing ps @ [f])"
  by (simp add: trailing_def split: option.splits)

lemma current_Nil [simp]: "current L [] = None"
  by (simp add: current_def trailing_def series_def)

text \<open>How the current series grows, packet by packet.\<close>

lemma current_snoc:
  "current L (ps @ [p]) =
     (case packet_fragment p of
        None \<Rightarrow> None
      | Some f \<Rightarrow>
          if fr_start f then (if series L [f] then Some [f] else None)
          else case current L ps of
            None \<Rightarrow> None
          | Some fs \<Rightarrow> if continues (last fs) f \<and> fragments_size (fs @ [f]) \<le> L then Some (fs @ [f]) else None)"
proof (cases "packet_fragment p")
  case None
  then show ?thesis by (simp add: current_def trailing_snoc series_def)
next
  case (Some f)
  let ?T = "trailing ps"
  have nil: "\<not> series L []" by (simp add: series_def)
  have cur: "current L (ps @ [p]) = map_option (\<lambda>ys. ys @ [f]) (find (\<lambda>ys. series L (ys @ [f])) (suffixes ?T))"
    using Some nil by (simp add: current_def trailing_snoc suffixes_snoc find_map)
  show ?thesis
  proof (cases "fr_start f")
    case True
    have "series L (ys @ [f]) \<longleftrightarrow> ys = [] \<and> series L [f]" for ys
      using True series_snoc [of ys] by (cases "ys = []") (auto simp: continues_def)
    moreover have "find (\<lambda>ys. ys = [] \<and> series L [f]) (suffixes ?T) = (if series L [f] then Some [] else None)"
      by (rule find_eq) simp
    ultimately show ?thesis using cur Some True by simp
  next
    case False
    then have "\<not> series L [f]" by (simp add: series_single)
    then have "series L (ys @ [f]) \<longleftrightarrow> series L ys \<and> continues (last ys) f \<and> fragments_size (ys @ [f]) \<le> L" for ys
      using series_snoc [of ys] nil by (cases "ys = []") auto
    then have "find (\<lambda>ys. series L (ys @ [f])) (suffixes ?T) =
        find (\<lambda>ys. series L ys \<and> continues (last ys) f \<and> fragments_size (ys @ [f]) \<le> L) (suffixes ?T)"
      by simp
    also have "\<dots> = (case current L ps of None \<Rightarrow> None
        | Some fs \<Rightarrow> if continues (last fs) f \<and> fragments_size (fs @ [f]) \<le> L then Some fs else None)"
      unfolding current_def by (rule find_conj) (rule series_suffixes_unique)
    finally show ?thesis using cur Some False by (simp split: option.splits)
  qed
qed

section \<open>The depacketizer implements the series\<close>

text \<open>The depacketizer after some packets, and the state a current series stands for.\<close>

definition fed :: "int \<Rightarrow> bytes list \<Rightarrow> Depacketizer" where
  "fed n ps = fold (\<lambda>p d. snd (FeedRTPWithMetadata d p)) ps (NewDepacketizerWithMaxBytes n)"

definition dp_limit :: "int \<Rightarrow> int" where
  "dp_limit n = nal_limit (NewDepacketizerWithMaxBytes n)"

definition state_of :: "int \<Rightarrow> fragment list option \<Rightarrow> Depacketizer" where
  "state_of n c =
     (case c of
        None \<Rightarrow> NewDepacketizerWithMaxBytes n
      | Some fs \<Rightarrow>
          if fr_end (last fs) then NewDepacketizerWithMaxBytes n
          else \<lparr>fuActive = True, nextSeq = fr_seq (last fs) + 1, fuIndicator = fr_ind (last fs),
                fuType = fr_type (last fs), fuTimestamp = fr_ts (last fs), fu_buffer = assembled fs,
                maxBytes = (if n < 0 then 0 else n)\<rparr>)"

lemma reset_state_of [simp]: "dp_reset (state_of n c) = NewDepacketizerWithMaxBytes n"
  by (auto simp: state_of_def dp_reset_def NewDepacketizerWithMaxBytes_def split: option.splits)

lemma reset_new [simp]: "dp_reset (NewDepacketizerWithMaxBytes n) = NewDepacketizerWithMaxBytes n"
  by (simp add: dp_reset_def NewDepacketizerWithMaxBytes_def)

lemma inactive_state_of: "\<not> fuActive (state_of n c) \<Longrightarrow> state_of n c = NewDepacketizerWithMaxBytes n"
  by (auto simp: state_of_def split: option.splits if_splits)

lemma fits_state_of:
  "fitsNALBytes (state_of n c) a b \<longleftrightarrow> 0 \<le> a \<and> 0 \<le> b \<and> a + b \<le> dp_limit n"
  by (auto simp: fitsNALBytes_def nal_limit_def dp_limit_def state_of_def NewDepacketizerWithMaxBytes_def
      split: option.splits)

lemma fits_new:
  "fitsNALBytes (NewDepacketizerWithMaxBytes n) a b \<longleftrightarrow> 0 \<le> a \<and> 0 \<le> b \<and> a + b \<le> dp_limit n"
  by (auto simp: fitsNALBytes_def dp_limit_def)

lemma length_assembled: "int (length (assembled fs)) = fragments_size fs"
  by (simp add: assembled_def fragments_size_def)

lemma assembled_snoc: "fs \<noteq> [] \<Longrightarrow> assembled (fs @ [f]) = assembled fs @ fr_data f"
  by (simp add: assembled_def)

lemma fed_snoc: "fed n (ps @ [p]) = snd (FeedRTPWithMetadata (fed n ps) p)"
  by (simp add: fed_def)

lemma current_nonempty: "current L ps = Some fs \<Longrightarrow> series L fs"
  by (auto simp: current_def find_Some_iff)

text \<open>One packet: the answer and the next state.\<close>

lemma feed_single:
  assumes "single_nal pl"
  shows "feedH265 (state_of n c) sq ts pl =
    (if int (length pl) \<le> dp_limit n then Inr (annexB pl) else Inl ErrorDemuxFailed, NewDepacketizerWithMaxBytes n)"
  using assms inactive_state_of [of n c]
  by (auto simp: feedH265_def single_nal_def Let_def fits_state_of fits_new)

lemma feed_bad:
  assumes "\<not> single_nal (Payload r)" "fragment_of r = None"
  shows "feedH265 (state_of n c) sq ts (Payload r) = (Inl ErrorDemuxFailed, NewDepacketizerWithMaxBytes n)"
  using assms by (auto simp: feedH265_def single_nal_def fragment_of_def Let_def)

lemma fragment_of_Some:
  assumes "fragment_of r = Some f"
  shows "4 \<le> length (Payload r)" "nal_type (Payload r) = h265FUType"
    "fr_seq f = SequenceNumber r" "fr_ts f = Timestamp r" "fr_ind f = (Payload r ! 0, Payload r ! 1)"
    "Payload r ! 2 AND 0x3f = fr_type f" "Payload r ! 2 AND 0x80 \<noteq> 0 \<longleftrightarrow> fr_start f"
    "Payload r ! 2 AND 0x40 \<noteq> 0 \<longleftrightarrow> fr_end f" "drop 3 (Payload r) = fr_data f"
  using assms unfolding fragment_of_def Let_def by (auto split: if_splits)

lemma feed_fragment:
  assumes "fragment_of r = Some f"
  shows "feedH265 d (SequenceNumber r) (Timestamp r) (Payload r) =
    (if fr_start f then start_fragment d (fr_seq f) (fr_ts f) (Payload r)
     else next_fragment d (fr_seq f) (fr_ts f) (Payload r))"
proof -
  have "\<not> length (Payload r) < 2" "\<not> length (Payload r) < 4" using fragment_of_Some(1) [OF assms] by auto
  moreover have "h265FUType \<noteq> h265APType" "h265FUType \<noteq> h265PACIType"
    by (simp_all add: h265FUType_def h265APType_def h265PACIType_def)
  ultimately show ?thesis
    unfolding feedH265_def fragment_of_Some(2) [OF assms] fragment_of_Some(7) [OF assms]
    by (simp add: fragment_of_Some(3,4) [OF assms])
qed

lemma feed_start:
  assumes f: "fragment_of r = Some f" and that: "fr_start f"
  shows "start_fragment (state_of n c) (fr_seq f) (fr_ts f) (Payload r) =
    (if series (dp_limit n) [f] then Inr (if fr_end f then annexB (assembled [f]) else []) else Inl ErrorDemuxFailed,
     state_of n (if series (dp_limit n) [f] then Some [f] else None))"
proof -
  have d: "(if fuActive (state_of n c) then dp_reset (state_of n c) else state_of n c) = NewDepacketizerWithMaxBytes n"
    using inactive_state_of [of n c] by simp
  have fst: "fst (fr_ind f) = Payload r ! 0" "snd (fr_ind f) = Payload r ! 1"
    using fragment_of_Some(5) [OF f] by simp_all
  show ?thesis
    using that
    unfolding start_fragment_def fragment_of_Some(6,8,9) [OF f] d Let_def fits_new series_single
      fragment_of_Some(5) [OF f, symmetric]
    by (simp add: finishFU_def state_of_def assembled_def dp_reset_def NewDepacketizerWithMaxBytes_def fst)
qed

lemma feed_next:
  assumes f: "fragment_of r = Some f" and c: "c = None \<or> (\<exists>fs. c = Some fs \<and> series (dp_limit n) fs)"
    and that: "\<not> fr_start f"
  defines "c' \<equiv> (case c of None \<Rightarrow> None
      | Some fs \<Rightarrow> if continues (last fs) f \<and> fragments_size (fs @ [f]) \<le> dp_limit n then Some (fs @ [f]) else None)"
  shows "next_fragment (state_of n c) (fr_seq f) (fr_ts f) (Payload r) =
    (case c' of None \<Rightarrow> Inl ErrorDemuxFailed
     | Some fs \<Rightarrow> Inr (if fr_end (last fs) then annexB (assembled fs) else []), state_of n c')"
proof (cases "fuActive (state_of n c)")
  case False
  then have "c = None \<or> (\<exists>fs. c = Some fs \<and> fr_end (last fs))"
    by (auto simp: state_of_def split: option.splits if_splits)
  then have "c' = None" by (auto simp: c'_def continues_def)
  then show ?thesis using False by (simp add: next_fragment_def Let_def) (simp add: state_of_def)
next
  case True
  then obtain fs where fs: "c = Some fs" "\<not> fr_end (last fs)"
    by (auto simp: state_of_def NewDepacketizerWithMaxBytes_def split: option.splits if_splits)
  then have ser: "series (dp_limit n) fs" using c by simp
  have size: "0 \<le> int (length (fu_buffer (state_of n c))) \<and> 0 \<le> int (length (fr_data f)) \<and>
      int (length (fu_buffer (state_of n c))) + int (length (fr_data f)) \<le> dp_limit n \<longleftrightarrow>
      fragments_size (fs @ [f]) \<le> dp_limit n"
    using fs length_assembled [of fs] by (simp add: state_of_def fragments_size_def add.assoc)
  have ne: "fs \<noteq> []" using ser by (simp add: series_def)
  have goes_on: "continues (last fs) f \<longleftrightarrow>
      fr_seq f = nextSeq (state_of n c) \<and> Payload r ! 0 = fst (fuIndicator (state_of n c)) \<and>
      Payload r ! 1 = snd (fuIndicator (state_of n c)) \<and> fr_type f = fuType (state_of n c) \<and>
      fr_ts f = fuTimestamp (state_of n c)"
    using that fs fragment_of_Some(5) [OF f] by (auto simp: continues_def state_of_def prod_eq_iff)
  show ?thesis
  proof (cases "continues (last fs) f \<and> fragments_size (fs @ [f]) \<le> dp_limit n")
    case False
    then have "c' = None" using fs by (simp add: c'_def)
    then show ?thesis
      using False goes_on True
      unfolding next_fragment_def fragment_of_Some(6,8,9) [OF f] Let_def fits_state_of size
      by (auto simp: state_of_def [of n None])
  next
    case good: True
    then have "c' = Some (fs @ [f])" using fs by (simp add: c'_def)
    moreover
    have "(\<not> fuActive (state_of n c) \<or> fr_seq f \<noteq> nextSeq (state_of n c)) = False"
      "(Payload r ! 0 \<noteq> fst (fuIndicator (state_of n c)) \<or> Payload r ! 1 \<noteq> snd (fuIndicator (state_of n c)) \<or>
        fr_type f \<noteq> fuType (state_of n c) \<or> fr_ts f \<noteq> fuTimestamp (state_of n c)) = False"
      "(\<not> fragments_size (fs @ [f]) \<le> dp_limit n) = False"
      using good goes_on True by blast+
    note checks = this
    have "next_fragment (state_of n c) (fr_seq f) (fr_ts f) (Payload r) =
        (let d1 = (state_of n c)\<lparr>fu_buffer := fu_buffer (state_of n c) @ fr_data f, nextSeq := fr_seq f + 1\<rparr>
         in if \<not> fr_end f then (Inr [], d1) else finishFU d1)"
      unfolding next_fragment_def fragment_of_Some(6,8,9) [OF f] Let_def fits_state_of size checks if_False ..
    moreover have "state_of n c = \<lparr>fuActive = True, nextSeq = fr_seq (last fs) + 1, fuIndicator = fr_ind f,
        fuType = fr_type f, fuTimestamp = fr_ts f, fu_buffer = assembled fs, maxBytes = (if n < 0 then 0 else n)\<rparr>"
      using good fs by (simp add: state_of_def continues_def)
    ultimately show ?thesis
      using assembled_snoc [OF ne, of f]
      by (simp add: finishFU_def Let_def dp_reset_def NewDepacketizerWithMaxBytes_def state_of_def [of n "Some (fs @ [f])"])
  qed
qed

text \<open>The state after any packets is the one of the current series; the answer is the abstract one.\<close>

lemma feed_refines:
  assumes "d = state_of n (current (dp_limit n) ps)"
  shows "FeedRTPWithMetadata d p =
    (answer (dp_limit n) ps p, state_of n (current (dp_limit n) (ps @ [p])))"
proof (cases "ParseRTP p")
  case (Inl code)
  then show ?thesis
    using assms by (simp add: FeedRTPWithMetadata_def answer_def current_snoc packet_fragment_def state_of_def [of n None])
next
  case (Inr r)
  let ?L = "dp_limit n"
  have frag: "packet_fragment p = fragment_of r" using Inr by (simp add: packet_fragment_def)
  show ?thesis
  proof (cases "fragment_of r")
    case None
    then show ?thesis
      using assms Inr frag feed_single [of "Payload r" n "current ?L ps"] feed_bad [of r n "current ?L ps"]
      by (cases "single_nal (Payload r)")
        (simp_all add: FeedRTPWithMetadata_def answer_def Let_def current_snoc state_of_def [of n None])
  next
    case (Some f)
    have single: "\<not> single_nal (Payload r)"
      using fragment_of_Some(2) [OF Some] by (simp add: single_nal_def)
    have "current ?L ps = None \<or> (\<exists>fs. current ?L ps = Some fs \<and> series ?L fs)"
      using current_nonempty by (cases "current ?L ps") auto
    note step = feed_fragment [OF Some, of d] feed_start [OF Some, of n "current ?L ps"]
      feed_next [OF Some this]
    show ?thesis
    proof (cases "fr_start f")
      case True
      then show ?thesis
        using assms Inr frag Some single step(1,2)
        by (simp add: FeedRTPWithMetadata_def answer_def Let_def current_snoc)
    next
      case False
      then have "current ?L (ps @ [p]) = (case current ?L ps of None \<Rightarrow> None
          | Some fs \<Rightarrow> if continues (last fs) f \<and> fragments_size (fs @ [f]) \<le> ?L then Some (fs @ [f]) else None)"
        using frag Some by (simp add: current_snoc)
      then show ?thesis
        using assms Inr single step(1) step(3) [OF False] False
        by (simp add: FeedRTPWithMetadata_def answer_def Let_def split: option.splits)
    qed
  qed
qed

lemma fed_state: "fed n ps = state_of n (current (dp_limit n) ps)"
proof (induction ps rule: rev_induct)
  case Nil
  then show ?case by (simp add: fed_def state_of_def)
next
  case (snoc p ps)
  then show ?case using feed_refines [OF snoc] by (simp add: fed_snoc)
qed

text \<open>
  C17. The depacketizer is the abstract one: after any packets \<open>ps\<close> the answer to the next packet \<open>p\<close> is
  the one the packets alone determine.  A NAL in a packet of its own is emitted if it fits the limit; a
  fragment completes a NAL, and emits the bytes of all its fragments behind the rebuilt header, exactly
  when the packets end with a series: fragments from a start fragment on, with consecutive sequence numbers
  (modulo 65536), one timestamp, one indicator and one type, no end before the last, within the limit.
\<close>

theorem depacketizer_refines:
  "FeedRTPWithMetadata (fed n ps) p = (answer (dp_limit n) ps p, fed n (ps @ [p]))"
  using feed_refines [OF fed_state] fed_state by simp

section \<open>Bounds\<close>

lemma dp_limit_le: "dp_limit n \<le> max 0 n"
  by (simp add: dp_limit_def nal_limit_def NewDepacketizerWithMaxBytes_def)

text \<open>
  C38. The depacketizer is bounded: after any packets the buffer holds at most \<open>maxBytes\<close> bytes (none for a
  limit of zero or less), and whatever the next packet completes is at most that long behind the four-byte
  start code.
\<close>

theorem depacketizer_bounded:
  "int (length (fu_buffer (fed n ps))) \<le> max 0 n \<and>
   (case FeedRTPWithMetadata (fed n ps) p of
      (Inl code, _) \<Rightarrow> True
    | (Inr result, _) \<Rightarrow> int (length (dn_nal result)) \<le> 4 + max 0 n)"
proof -
  have size: "fragments_size fs \<le> max 0 n" if "current (dp_limit n) qs = Some fs" for qs fs
    using current_nonempty [OF that] dp_limit_le [of n] by (simp add: series_def)
  have "int (length (fu_buffer (fed n ps))) \<le> max 0 n"
  proof (cases "current (dp_limit n) ps")
    case None
    then show ?thesis by (simp add: fed_state state_of_def NewDepacketizerWithMaxBytes_def)
  next
    case (Some fs)
    then have "int (length (assembled fs)) \<le> max 0 n" using size length_assembled by metis
    then show ?thesis using Some by (simp add: fed_state state_of_def NewDepacketizerWithMaxBytes_def)
  qed
  moreover have "int (length (dn_nal result)) \<le> 4 + max 0 n"
    if "answer (dp_limit n) ps p = Inr result" for result
    using that size [of "ps @ [p]"] dp_limit_le [of n]
    by (auto simp: answer_def annexB_def length_assembled Let_def split: sum.splits option.splits if_splits)
  ultimately show ?thesis using feed_refines [OF fed_state, of n ps p] by (simp split: sum.splits)
qed

section \<open>Packets of a NAL\<close>

text \<open>An RTP packet with the fixed header (RFC 3550), and the fragments of a NAL (RFC 7798, 4.4.3).\<close>

definition rtp_packet :: "16 word \<Rightarrow> 32 word \<Rightarrow> bool \<Rightarrow> bytes \<Rightarrow> bytes" where
  "rtp_packet sq ts marker payload =
     [0x80, (if marker then 0x80 else 0) OR 96, ucast (drop_bit 8 sq), ucast sq,
      ucast (drop_bit 24 ts), ucast (drop_bit 16 ts), ucast (drop_bit 8 ts), ucast ts, 0, 0, 0, 0] @ payload"

definition fu_payload :: "8 word \<Rightarrow> 8 word \<Rightarrow> bool \<Rightarrow> bool \<Rightarrow> bytes \<Rightarrow> bytes" where
  "fu_payload h0 h1 first_one last_one chunk =
     [push_bit 1 49 OR (h0 AND 0x81), h1,
      (if first_one then 0x80 else 0) OR (if last_one then 0x40 else 0) OR (drop_bit 1 h0 AND 0x3f)] @ chunk"

fun fu_packets :: "16 word \<Rightarrow> 32 word \<Rightarrow> bool \<Rightarrow> 8 word \<Rightarrow> 8 word \<Rightarrow> bool \<Rightarrow> bytes list \<Rightarrow> bytes list" where
  "fu_packets sq ts marker h0 h1 first_one [] = []"
| "fu_packets sq ts marker h0 h1 first_one (c # cs) =
     rtp_packet sq ts (marker \<and> cs = []) (fu_payload h0 h1 first_one (cs = []) c) #
     fu_packets (sq + 1) ts marker h0 h1 False cs"

lemma word16_bytes:
  "push_bit 8 (ucast (ucast (drop_bit 8 s) :: 8 word)) OR ucast (ucast s :: 8 word) = (s :: 16 word)"
  by (rule bit_word_eqI) (auto simp: bit_simps)

lemma word32_bytes:
  "push_bit 24 (ucast (ucast (drop_bit 24 s) :: 8 word)) OR push_bit 16 (ucast (ucast (drop_bit 16 s) :: 8 word)) OR
   push_bit 8 (ucast (ucast (drop_bit 8 s) :: 8 word)) OR ucast (ucast s :: 8 word) = (s :: 32 word)"
proof (rule bit_word_eqI)
  fix n
  assume "n < LENGTH(32)"
  then consider "n < 8" | "8 \<le> n" "n < 16" | "16 \<le> n" "n < 24" | "24 \<le> n" "n < 32" by fastforce
  then show "bit (push_bit 24 (ucast (ucast (drop_bit 24 s) :: 8 word)) OR
      push_bit 16 (ucast (ucast (drop_bit 16 s) :: 8 word)) OR
      push_bit 8 (ucast (ucast (drop_bit 8 s) :: 8 word)) OR ucast (ucast s :: 8 word) :: 32 word) n = bit s n"
    by cases (auto simp: bit_simps)
qed

lemma less8: "n < 8 \<Longrightarrow> n = 0 \<or> n = 1 \<or> n = 2 \<or> n = 3 \<or> n = 4 \<or> n = 5 \<or> n = 6 \<or> n = (7::nat)"
  by auto

text \<open>The bit fields of the fragment bytes.\<close>

lemma header_rebuilt:
  "push_bit 1 (drop_bit 1 h0 AND 0x3f) OR ((push_bit 1 49 OR (h0 AND 0x81)) AND 0x81) = (h0 :: 8 word)"
proof (rule bit_word_eqI)
  fix n
  assume "n < LENGTH(8)"
  then have "n = 0 \<or> n = 1 \<or> n = 2 \<or> n = 3 \<or> n = 4 \<or> n = 5 \<or> n = 6 \<or> n = 7" by (intro less8) simp
  then show "bit (push_bit 1 (drop_bit 1 h0 AND 0x3f) OR ((push_bit 1 49 OR (h0 AND 0x81)) AND 0x81)) n = bit h0 n"
    by (elim disjE) (simp_all add: bit_simps eval_nat_numeral del: push_bit_Suc push_bit_of_Suc_0)
qed

lemma fu_fields:
  "drop_bit 1 (push_bit 1 49 OR (h0 AND 0x81)) AND 0x3f = (49 :: 8 word)"
  "((if a then 0x80 else 0) OR (if b then 0x40 else 0) OR (drop_bit 1 h0 AND 0x3f)) AND 0x3f =
   (drop_bit 1 h0 AND 0x3f :: 8 word)"
  "((if a then 0x80 else 0) OR (if b then 0x40 else 0) OR (drop_bit 1 h0 AND 0x3f)) AND 0x80 =
   (if a then 0x80 else 0 :: 8 word)"
  "((if a then 0x80 else 0) OR (if b then 0x40 else 0) OR (drop_bit 1 h0 AND 0x3f)) AND 0x40 =
   (if b then 0x40 else 0 :: 8 word)"
  by (rule bit_word_eqI; auto simp: bit_simps dest!: less8)+

lemma marker_fields:
  "((if m then 0x80 else 0) OR 96) AND 0x7f = (96 :: 8 word)"
  "((if m then 0x80 else 0) OR 96) AND 0x80 = (if m then 0x80 else 0 :: 8 word)"
  by simp_all

lemma parse_rtp_packet:
  assumes "payload \<noteq> []"
  shows "ParseRTP (rtp_packet sq ts m payload) =
    Inr \<lparr>SequenceNumber = sq, Timestamp = ts, Marker = m, Payload = payload\<rparr>"
proof -
  have "rtp_packet sq ts m payload ! 0 = 0x80" "rtp_packet sq ts m payload ! 1 = (if m then 0x80 else 0) OR 96"
    "drop rtpHeaderSize (rtp_packet sq ts m payload) = payload"
    "length (rtp_packet sq ts m payload) = 12 + length payload"
    by (simp_all add: rtp_packet_def rtpHeaderSize_def)
  then show ?thesis
    unfolding ParseRTP_def using assms word16_bytes [of sq] word32_bytes [of ts] marker_fields [of m]
    by (simp add: rtpHeaderSize_def rtpVersion_def h265VideoPayloadType_def rtp_packet_def)
qed

lemma packet_fragment_fu:
  assumes "c \<noteq> []"
  shows "packet_fragment (rtp_packet sq ts m (fu_payload h0 h1 a b c)) =
    Some \<lparr>fr_seq = sq, fr_ts = ts, fr_ind = (push_bit 1 49 OR (h0 AND 0x81), h1),
      fr_type = drop_bit 1 h0 AND 0x3f, fr_start = a, fr_end = b, fr_data = c\<rparr>"
proof -
  have "fu_payload h0 h1 a b c \<noteq> []" "4 \<le> length (fu_payload h0 h1 a b c)"
    using assms by (cases c; simp add: fu_payload_def)+
  moreover have "nal_type (fu_payload h0 h1 a b c) = h265FUType"
    using fu_fields(1) by (simp add: nal_type_def fu_payload_def h265FUType_def)
  ultimately show ?thesis
    using fu_fields(2-4) [of a b h0]
    by (simp add: packet_fragment_def parse_rtp_packet fragment_of_def Let_def) (simp add: fu_payload_def)
qed

section \<open>The round trip\<close>

fun feed_list :: "Depacketizer \<Rightarrow> bytes list \<Rightarrow> (nvr_code + DepacketizedNAL) list" where
  "feed_list d [] = []"
| "feed_list d (p # ps) = (case FeedRTPWithMetadata d p of (out, d1) \<Rightarrow> out # feed_list d1 ps)"

lemma feed_list_fed:
  "feed_list (fed n ps) (p # qs) = answer (dp_limit n) ps p # feed_list (fed n (ps @ [p])) qs"
  using feed_refines [OF fed_state, of n ps p] fed_state [of n "ps @ [p]"] by simp

definition pending :: "32 word \<Rightarrow> nvr_code + DepacketizedNAL" where
  "pending ts = Inr \<lparr>dn_nal = [], dn_timestamp = ts, dn_marker = False\<rparr>"

definition complete :: "bytes \<Rightarrow> 32 word \<Rightarrow> bool \<Rightarrow> nvr_code + DepacketizedNAL" where
  "complete nal ts marker = Inr \<lparr>dn_nal = annexB nal, dn_timestamp = ts, dn_marker = marker\<rparr>"

lemma answer_fu:
  fixes sq ts m h0 h1 a b c
  defines "p \<equiv> rtp_packet sq ts m (fu_payload h0 h1 a b c)"
  assumes "c \<noteq> []"
  shows "answer L ps p =
    (case current L (ps @ [p]) of None \<Rightarrow> Inl ErrorDemuxFailed
     | Some fs \<Rightarrow> Inr \<lparr>dn_nal = (if fr_end (last fs) then annexB (assembled fs) else []),
                       dn_timestamp = ts, dn_marker = m\<rparr>)"
proof -
  have "nal_type (fu_payload h0 h1 a b c) = h265FUType"
    using fu_fields(1) by (simp add: nal_type_def fu_payload_def h265FUType_def)
  then have "\<not> single_nal (fu_payload h0 h1 a b c)" by (simp add: single_nal_def)
  moreover have "fu_payload h0 h1 a b c \<noteq> []" by (simp add: fu_payload_def)
  ultimately show ?thesis by (simp add: p_def answer_def parse_rtp_packet Let_def)
qed

lemma rest_answers:
  assumes "current (dp_limit n) ps = Some fs" "cs \<noteq> []" "[] \<notin> set cs"
    and "fr_seq (last fs) + 1 = sq" "fr_ts (last fs) = ts" "fr_ind (last fs) = (push_bit 1 49 OR (h0 AND 0x81), h1)"
    and "fr_type (last fs) = drop_bit 1 h0 AND 0x3f" "\<not> fr_end (last fs)"
    and "fragments_size fs + int (length (concat cs)) \<le> dp_limit n"
  shows "feed_list (fed n ps) (fu_packets sq ts m h0 h1 False cs) =
    replicate (length cs - 1) (pending ts) @ [complete (assembled fs @ concat cs) ts m]"
  using assms
proof (induction cs arbitrary: sq ps fs)
  case (Cons c cs)
  let ?p = "rtp_packet sq ts (m \<and> cs = []) (fu_payload h0 h1 False (cs = []) c)"
  let ?f = "\<lparr>fr_seq = sq, fr_ts = ts, fr_ind = (push_bit 1 49 OR (h0 AND 0x81), h1),
      fr_type = drop_bit 1 h0 AND 0x3f, fr_start = False, fr_end = (cs = []), fr_data = c\<rparr>"
  have c: "c \<noteq> []" using Cons.prems(3) by auto
  have ne: "fs \<noteq> []" using current_nonempty [OF Cons.prems(1)] by (simp add: series_def)
  have size: "fragments_size (fs @ [?f]) = fragments_size fs + int (length c)"
    by (simp add: fragments_size_def)
  have "continues (last fs) ?f" using Cons.prems(4-8) by (simp add: continues_def)
  then have cur: "current (dp_limit n) (ps @ [?p]) = Some (fs @ [?f])"
    using Cons.prems(1,9) size by (simp add: current_snoc packet_fragment_fu [OF c])
  have ans: "answer (dp_limit n) ps ?p = (if cs = [] then complete (assembled fs @ c) ts m else pending ts)"
    unfolding answer_fu [OF c] cur by (simp add: complete_def pending_def assembled_snoc [OF ne])
  show ?case
  proof (cases "cs = []")
    case True
    then show ?thesis using ans by (simp add: feed_list_fed del: feed_list.simps(2))
  next
    case False
    have "feed_list (fed n (ps @ [?p])) (fu_packets (sq + 1) ts m h0 h1 False cs) =
        replicate (length cs - 1) (pending ts) @ [complete (assembled (fs @ [?f]) @ concat cs) ts m]"
      using Cons.prems False size by (intro Cons.IH [OF cur]) (simp_all add: add.assoc)
    then show ?thesis
      using ans False
      by (cases cs) (simp_all add: feed_list_fed assembled_snoc [OF ne] del: feed_list.simps(2))
  qed
qed simp

text \<open>
  C18. Any NAL of a type that may be fragmented, cut into non-empty pieces and sent in fragments from any
  sequence number on (wrapping at 65536), is given back byte for byte by a depacketizer that has room for
  it, whatever packets it received before, lost, broken or from an unfinished NAL: nothing until the last
  fragment, and then the NAL behind the start code, with the timestamp and marker of that packet.
\<close>

theorem fragments_roundtrip:
  assumes "chunks \<noteq> []" "[] \<notin> set chunks"
    and "drop_bit 1 h0 AND 0x3f \<notin> {h265APType, h265FUType, h265PACIType}"
    and "2 + int (length (concat chunks)) \<le> dp_limit n"
  shows "feed_list (fed n ps) (fu_packets sq ts marker h0 h1 True chunks) =
    replicate (length chunks - 1) (pending ts) @ [complete (h0 # h1 # concat chunks) ts marker]"
proof (cases chunks)
  case (Cons c cs)
  let ?p = "rtp_packet sq ts (marker \<and> cs = []) (fu_payload h0 h1 True (cs = []) c)"
  let ?f = "\<lparr>fr_seq = sq, fr_ts = ts, fr_ind = (push_bit 1 49 OR (h0 AND 0x81), h1),
      fr_type = drop_bit 1 h0 AND 0x3f, fr_start = True, fr_end = (cs = []), fr_data = c\<rparr>"
  have c: "c \<noteq> []" using assms(2) Cons by auto
  have "series (dp_limit n) [?f]" using assms(3,4) Cons by (simp add: series_single)
  then have cur: "current (dp_limit n) (ps @ [?p]) = Some [?f]"
    by (simp add: current_snoc packet_fragment_fu [OF c])
  have "assembled [?f] =
      [push_bit 1 (drop_bit 1 h0 AND 0x3f) OR ((push_bit 1 49 OR (h0 AND 0x81)) AND 0x81), h1] @ c"
    by (simp only: assembled_def fragment.select_convs list.sel fst_conv snd_conv list.map concat.simps append_Nil2)
  then have nal: "assembled [?f] = h0 # h1 # c" unfolding header_rebuilt by simp
  have ans: "answer (dp_limit n) ps ?p = (if cs = [] then complete (h0 # h1 # c) ts marker else pending ts)"
    unfolding answer_fu [OF c] cur nal [symmetric] by (simp add: complete_def pending_def)
  show ?thesis
  proof (cases "cs = []")
    case True
    then show ?thesis using ans Cons by (simp add: feed_list_fed del: feed_list.simps(2))
  next
    case False
    have "feed_list (fed n (ps @ [?p])) (fu_packets (sq + 1) ts marker h0 h1 False cs) =
        replicate (length cs - 1) (pending ts) @ [complete (assembled [?f] @ concat cs) ts marker]"
      using assms Cons False by (intro rest_answers [OF cur]) (simp_all add: fragments_size_def)
    then show ?thesis
      using ans False Cons nal by (cases cs) (simp_all add: feed_list_fed del: feed_list.simps(2))
  qed
qed (use assms in simp)

theorem fragments_roundtrip_witness:
  "feed_list (fed 100 [[1, 2, 3]]) (fu_packets 65535 7 True 0x26 1 True [[10, 11], [12]]) =
     [pending 7, complete [0x26, 1, 10, 11, 12] 7 True]"
proof -
  have "drop_bit 1 (0x26 :: 8 word) AND 0x3f \<notin> {h265APType, h265FUType, h265PACIType}"
    by (simp add: h265APType_def h265FUType_def h265PACIType_def)
  moreover have "2 + int (length (concat [[10, 11], [12 :: 8 word]])) \<le> dp_limit 100"
    by (simp add: dp_limit_def nal_limit_def NewDepacketizerWithMaxBytes_def maxAnnexBNALBytes_def)
  ultimately show ?thesis
    using fragments_roundtrip [of "[[10, 11], [12]]" "0x26" 100 "[[1, 2, 3]]" 65535 7 True 1] by simp
qed

end
