(* ===== verification/NVR_Capture_Props.thy ===== *)
theory NVR_Capture_Props
  imports NVR_Capture NVR_Depacketizer_Props
begin

text \<open>
  What the capture hands to the decoder, stated over the NALs the depacketizer completed; that a stream
  with the parameter sets and one key access unit leads to it; and the run of ffmpeg, whatever the order
  in which its reader and writer finish.
\<close>

section \<open>The NALs of a list of reads\<close>

definition nal_type_of :: "DepacketizedNAL \<Rightarrow> 8 word" where
  "nal_type_of x = h265NALType (dn_nal x)"

definition is_parameter_set :: "DepacketizedNAL \<Rightarrow> bool" where
  "is_parameter_set x \<longleftrightarrow> parameterSetIndex (nal_type_of x) \<noteq> None"

text \<open>The NAL completed by a read, and the ones completed by a list of reads, in order.\<close>

fun completed :: "Depacketizer \<Rightarrow> ws_read list \<Rightarrow> DepacketizedNAL list" where
  "completed d [] = []"
| "completed d (ReadBinary p # reads) =
     (case FeedRTPWithMetadata d p of
        (Inl code, d1) \<Rightarrow> []
      | (Inr x, d1) \<Rightarrow> (if dn_nal x = [] then [] else [x]) @ completed d1 reads)"
| "completed d (_ # reads) = []"

text \<open>
  The abstract collector: the last parameter set of each kind, and the current access unit: the NALs
  after the last marker that have the timestamp of the last one, in order, parameter sets left out.
\<close>

definition last_set :: "8 word \<Rightarrow> DepacketizedNAL list \<Rightarrow> bytes" where
  "last_set t xs =
     (let ys = filter (\<lambda>x. nal_type_of x = t) xs in if ys = [] then [] else dn_nal (last ys))"

definition pictures :: "DepacketizedNAL list \<Rightarrow> DepacketizedNAL list" where
  "pictures xs = filter (\<lambda>x. \<not> is_parameter_set x) xs"

definition same_unit :: "DepacketizedNAL list \<Rightarrow> DepacketizedNAL list" where
  "same_unit xs =
     (case rev (pictures xs) of
        [] \<Rightarrow> []
      | y # ys \<Rightarrow> rev (takeWhile (\<lambda>x. \<not> dn_marker x \<and> dn_timestamp x = dn_timestamp y) (y # ys)))"

definition unit_with :: "DepacketizedNAL list \<Rightarrow> DepacketizedNAL \<Rightarrow> DepacketizedNAL list" where
  "unit_with xs x = filter (\<lambda>y. dn_timestamp y = dn_timestamp x) (same_unit xs) @ [x]"

definition collected :: "DepacketizedNAL list \<Rightarrow> capture_state \<Rightarrow> bool" where
  "collected xs s \<longleftrightarrow>
     cs_parameter_sets s = [last_set 32 xs, last_set 33 xs, last_set 34 xs] \<and>
     cs_unit s =
       \<lparr>au_timestamp = (case same_unit xs of [] \<Rightarrow> 0 | y # _ \<Rightarrow> dn_timestamp y),
        au_active = (same_unit xs \<noteq> []),
        au_has_key_frame = list_ex (\<lambda>y. isH265KeyFrame (dn_nal y)) (same_unit xs),
        au_bytes = concat (map dn_nal (same_unit xs))\<rparr>"

lemma collected_start: "collected [] capture_start"
  by (simp add: collected_def capture_start_def last_set_def same_unit_def pictures_def accessUnit_reset_def)

lemma last_set_snoc: "last_set t (xs @ [x]) = (if nal_type_of x = t then dn_nal x else last_set t xs)"
  by (simp add: last_set_def Let_def)

lemma same_unit_Cons:
  "rev (pictures xs) = y # ys \<Longrightarrow>
   same_unit xs = rev (takeWhile (\<lambda>x. \<not> dn_marker x \<and> dn_timestamp x = dn_timestamp y) (y # ys))"
  by (simp add: same_unit_def)

lemma same_unit_Nil: "rev (pictures xs) = [] \<Longrightarrow> same_unit xs = []"
  by (simp add: same_unit_def)

lemma same_unit_timestamp: "rev (pictures xs) = y # ys \<Longrightarrow> z \<in> set (same_unit xs) \<Longrightarrow> dn_timestamp z = dn_timestamp y"
  by (auto simp: same_unit_Cons dest!: set_takeWhileD split: if_splits)

lemma same_unit_timestamps: "z \<in> set (same_unit xs) \<Longrightarrow> dn_timestamp z = dn_timestamp (hd (same_unit xs))"
  using same_unit_timestamp [of xs] same_unit_Nil [of xs]
  by (metis list.exhaust list.set_sel(1) empty_iff empty_set)

text \<open>A later NAL of a picture starts a new unit or joins the current one.\<close>

lemma same_unit_restricted:
  "rev (takeWhile (\<lambda>z. \<not> dn_marker z \<and> dn_timestamp z = t) (rev (pictures xs))) =
   filter (\<lambda>y. dn_timestamp y = t) (same_unit xs)"
proof (cases "rev (pictures xs)")
  case (Cons y ys)
  show ?thesis
  proof (cases "dn_timestamp y = t")
    case True
    then have "filter (\<lambda>z. dn_timestamp z = t) (same_unit xs) = same_unit xs"
      using same_unit_timestamp [OF Cons] by (auto simp: filter_id_conv)
    then show ?thesis using Cons True same_unit_Cons [OF Cons] by simp
  next
    case False
    then have "filter (\<lambda>z. dn_timestamp z = t) (same_unit xs) = []"
      using same_unit_timestamp [OF Cons] by (auto simp: filter_empty_conv)
    then show ?thesis using Cons False by simp
  qed
qed (simp add: same_unit_Nil)

lemma same_unit_snoc:
  "same_unit (xs @ [x]) =
     (if is_parameter_set x then same_unit xs else if dn_marker x then [] else unit_with xs x)"
proof (cases "is_parameter_set x")
  case True
  then have "pictures (xs @ [x]) = pictures xs" by (simp add: pictures_def)
  then show ?thesis using True by (simp add: same_unit_def)
next
  case False
  then have "rev (pictures (xs @ [x])) = x # rev (pictures xs)" by (simp add: pictures_def)
  then show ?thesis
    using False same_unit_restricted [of "dn_timestamp x" xs] by (simp add: same_unit_Cons unit_with_def)
qed

lemma unit_with_bytes:
  fixes x :: DepacketizedNAL
  assumes "collected xs s"
  defines "u \<equiv> (if \<not> acceptsTimestamp (cs_unit s) (dn_timestamp x) then accessUnit_reset else cs_unit s)"
  shows "accessUnit_append u (dn_timestamp x) (dn_nal x) (isH265KeyFrame (dn_nal x)) =
    \<lparr>au_timestamp = dn_timestamp x, au_active = True,
     au_has_key_frame = list_ex (\<lambda>y. isH265KeyFrame (dn_nal y)) (unit_with xs x),
     au_bytes = concat (map dn_nal (unit_with xs x))\<rparr>"
    and "concat (map dn_nal (unit_with xs x)) = au_bytes u @ dn_nal x"
    and "unit_with xs x \<noteq> [] \<and> dn_timestamp (hd (unit_with xs x)) = dn_timestamp x"
proof -
  have f: "filter (\<lambda>y. dn_timestamp y = dn_timestamp x) (same_unit xs) =
      (if same_unit xs \<noteq> [] \<and> dn_timestamp (hd (same_unit xs)) = dn_timestamp x then same_unit xs else [])"
  proof (cases "same_unit xs \<noteq> [] \<and> dn_timestamp (hd (same_unit xs)) = dn_timestamp x")
    case True
    then have "\<forall>y \<in> set (same_unit xs). dn_timestamp y = dn_timestamp x" by (metis same_unit_timestamps)
    then have "filter (\<lambda>y. dn_timestamp y = dn_timestamp x) (same_unit xs) = same_unit xs" by simp
    then show ?thesis using True by presburger
  next
    case False
    then have "\<forall>y \<in> set (same_unit xs). dn_timestamp y \<noteq> dn_timestamp x"
      by (metis same_unit_timestamps empty_iff empty_set)
    then have "filter (\<lambda>y. dn_timestamp y = dn_timestamp x) (same_unit xs) = []" by simp
    then show ?thesis using False by presburger
  qed
  have u: "au_bytes u = concat (map dn_nal (filter (\<lambda>y. dn_timestamp y = dn_timestamp x) (same_unit xs)))"
    "au_active u \<longrightarrow> au_timestamp u = dn_timestamp x"
    "au_has_key_frame u = list_ex (\<lambda>y. isH265KeyFrame (dn_nal y))
       (filter (\<lambda>y. dn_timestamp y = dn_timestamp x) (same_unit xs))"
  proof -
    have c: "au_bytes (cs_unit s) = concat (map dn_nal (same_unit xs))" "au_active (cs_unit s) \<longleftrightarrow> same_unit xs \<noteq> []"
      "au_has_key_frame (cs_unit s) = list_ex (\<lambda>y. isH265KeyFrame (dn_nal y)) (same_unit xs)"
      "same_unit xs \<noteq> [] \<Longrightarrow> au_timestamp (cs_unit s) = dn_timestamp (hd (same_unit xs))"
      using assms(1) by (simp_all add: collected_def split: list.splits)
    have v: "u = (if same_unit xs \<noteq> [] \<and> dn_timestamp (hd (same_unit xs)) \<noteq> dn_timestamp x
        then accessUnit_reset else cs_unit s)"
      using c(2,4) unfolding u_def acceptsTimestamp_def by metis
    show "au_bytes u = concat (map dn_nal (filter (\<lambda>y. dn_timestamp y = dn_timestamp x) (same_unit xs)))"
      unfolding f v by (simp add: c(1) accessUnit_reset_def)
    show "au_active u \<longrightarrow> au_timestamp u = dn_timestamp x"
      unfolding v using c(2,4) by (simp add: accessUnit_reset_def)
    show "au_has_key_frame u = list_ex (\<lambda>y. isH265KeyFrame (dn_nal y))
        (filter (\<lambda>y. dn_timestamp y = dn_timestamp x) (same_unit xs))"
      unfolding f v by (simp add: c(3) accessUnit_reset_def)
  qed
  show "accessUnit_append u (dn_timestamp x) (dn_nal x) (isH265KeyFrame (dn_nal x)) =
      \<lparr>au_timestamp = dn_timestamp x, au_active = True,
       au_has_key_frame = list_ex (\<lambda>y. isH265KeyFrame (dn_nal y)) (unit_with xs x),
       au_bytes = concat (map dn_nal (unit_with xs x))\<rparr>"
    using u by (cases u) (auto simp: accessUnit_append_def unit_with_def Let_def)
  show "concat (map dn_nal (unit_with xs x)) = au_bytes u @ dn_nal x"
    using u by (simp add: unit_with_def)
  show "unit_with xs x \<noteq> [] \<and> dn_timestamp (hd (unit_with xs x)) = dn_timestamp x"
    unfolding unit_with_def f by simp
qed

section \<open>The loop collects the abstract access unit\<close>

lemma combined_size_Some:
  "combined_size sets size0 = Some n \<Longrightarrow> size0 \<le> maxAnnexBBytes \<Longrightarrow>
   n = size0 + int (length (concat sets)) \<and> n \<le> maxAnnexBBytes"
proof (induction sets arbitrary: size0)
  case (Cons ps sets)
  then have "size0 + int (length ps) \<le> maxAnnexBBytes" "combined_size sets (size0 + int (length ps)) = Some n"
    by (auto split: if_splits)
  then show ?case using Cons.IH [of "size0 + int (length ps)"] by simp
qed simp

lemma parameter_set_index: "parameterSetIndex t = Some i \<longleftrightarrow> (t = 32 \<and> i = 0) \<or> (t = 33 \<and> i = 1) \<or> (t = 34 \<and> i = 2)"
  by (auto simp: parameterSetIndex_def)

text \<open>What the media of a key access unit is made of.\<close>

definition key_media :: "DepacketizedNAL list \<Rightarrow> DepacketizedNAL \<Rightarrow> bytes \<Rightarrow> bool" where
  "key_media xs x media \<longleftrightarrow>
     media = last_set 32 xs @ last_set 33 xs @ last_set 34 xs @ concat (map dn_nal (unit_with xs x)) \<and>
     last_set 32 xs \<noteq> [] \<and> last_set 33 xs \<noteq> [] \<and> last_set 34 xs \<noteq> [] \<and>
     (\<exists>y \<in> set (unit_with xs x). isH265KeyFrame (dn_nal y)) \<and>
     dn_marker x \<and> \<not> is_parameter_set x \<and> int (length media) \<le> maxAnnexBBytes"

lemma capture_nal_next:
  assumes "collected xs s"
  shows "case capture_nal s x of
      Continue s' \<Rightarrow> collected (xs @ [x]) s' \<and> cs_depacketizer s' = cs_depacketizer s
    | Fail code \<Rightarrow> code = ErrorDemuxFailed
    | Media media \<Rightarrow> key_media xs x media"
proof (cases "parameterSetIndex (h265NALType (dn_nal x))")
  case (Some i)
  then have "is_parameter_set x" by (simp add: is_parameter_set_def nal_type_of_def)
  then show ?thesis
    using assms Some parameter_set_index [of "h265NALType (dn_nal x)" i]
    by (auto simp: capture_nal_def Let_def collected_def last_set_snoc same_unit_snoc nal_type_of_def)
next
  case None
  then have pic: "\<not> is_parameter_set x" by (simp add: is_parameter_set_def nal_type_of_def)
  have sets: "last_set t (xs @ [x]) = last_set t xs" if "t \<in> {32, 33, 34}" for t
    using that None by (auto simp: last_set_snoc nal_type_of_def parameterSetIndex_def)
  have "nal_type_of x \<noteq> 32" "nal_type_of x \<noteq> 33" "nal_type_of x \<noteq> 34"
    using None by (auto simp: nal_type_of_def parameterSetIndex_def)
  note sets = this
  define u where "u = (if \<not> acceptsTimestamp (cs_unit s) (dn_timestamp x) then accessUnit_reset else cs_unit s)"
  define u1 where "u1 = accessUnit_append u (dn_timestamp x) (dn_nal x) (isH265KeyFrame (dn_nal x))"
  have u1: "u1 = \<lparr>au_timestamp = dn_timestamp x, au_active = True,
      au_has_key_frame = list_ex (\<lambda>y. isH265KeyFrame (dn_nal y)) (unit_with xs x),
      au_bytes = concat (map dn_nal (unit_with xs x))\<rparr>"
    and bytes: "concat (map dn_nal (unit_with xs x)) = au_bytes u @ dn_nal x"
    and hd: "unit_with xs x \<noteq> []" "dn_timestamp (hd (unit_with xs x)) = dn_timestamp x"
    using unit_with_bytes [OF assms, of x] by (simp_all add: u_def u1_def)
  have nal: "capture_nal s x =
      (if int (length (dn_nal x)) > maxAnnexBBytes - int (length (au_bytes u)) then Fail ErrorDemuxFailed
       else if \<not> dn_marker x then Continue (s\<lparr>cs_unit := u1\<rparr>)
       else if au_has_key_frame u1 \<and> hasAllParameterSets (cs_parameter_sets s) then
         (case combineAccessUnit (cs_parameter_sets s) (au_bytes u1) of
            None \<Rightarrow> Fail ErrorDemuxFailed | Some media \<Rightarrow> Media media)
       else Continue (s\<lparr>cs_unit := accessUnit_reset\<rparr>))"
    using None by (simp add: capture_nal_def Let_def u_def u1_def)
  have ps: "cs_parameter_sets s = [last_set 32 xs, last_set 33 xs, last_set 34 xs]"
    using assms by (simp add: collected_def)
  consider "int (length (dn_nal x)) > maxAnnexBBytes - int (length (au_bytes u))"
    | "int (length (au_bytes u1)) \<le> maxAnnexBBytes" "\<not> int (length (dn_nal x)) > maxAnnexBBytes - int (length (au_bytes u))"
      "\<not> dn_marker x"
    | "int (length (au_bytes u1)) \<le> maxAnnexBBytes" "\<not> int (length (dn_nal x)) > maxAnnexBBytes - int (length (au_bytes u))"
      "dn_marker x"
    using u1 bytes by fastforce
  then show ?thesis
  proof cases
    case 1
    then show ?thesis by (simp add: nal)
  next
    case 2
    then show ?thesis
      using pic sets ps hd
      by (cases "unit_with xs x") (simp_all add: nal collected_def last_set_snoc same_unit_snoc u1)
  next
    case 3
    have "key_media xs x media" if key: "au_has_key_frame u1" "hasAllParameterSets (cs_parameter_sets s)"
      and media: "combineAccessUnit (cs_parameter_sets s) (au_bytes u1) = Some media" for media
      using media combined_size_Some [of "cs_parameter_sets s" "int (length (au_bytes u1))"] key 3 pic
      by (auto simp: combineAccessUnit_def key_media_def ps u1 hasAllParameterSets_def list_ex_iff
          split: option.splits if_splits)
    moreover have "collected (xs @ [x]) (s\<lparr>cs_unit := accessUnit_reset\<rparr>)"
      using 3(3) pic sets ps
      by (simp add: collected_def last_set_snoc same_unit_snoc accessUnit_reset_def)
    ultimately show ?thesis using 3 by (auto simp: nal split: option.splits)
  qed
qed

text \<open>The whole loop, from any collected state on.\<close>

lemma capture_loop_collects:
  assumes "collected xs s"
  shows "(\<exists>s'. capture_loop s reads = Continue s' \<and> collected (xs @ completed (cs_depacketizer s) reads) s') \<or>
    (\<exists>code. capture_loop s reads = Fail code) \<or>
    (\<exists>media ys x zs. capture_loop s reads = Media media \<and>
       completed (cs_depacketizer s) reads = ys @ x # zs \<and> key_media (xs @ ys) x media)"
  using assms
proof (induction reads arbitrary: s xs)
  case (Cons event reads)
  show ?case
  proof (cases event)
    case (ReadBinary p)
    show ?thesis
    proof (cases "FeedRTPWithMetadata (cs_depacketizer s) p")
      case (Pair out d)
      show ?thesis
      proof (cases out)
        case (Inl code)
        then show ?thesis using ReadBinary Pair by (simp add: capture_round_def)
      next
        case (Inr x)
        define s1 where "s1 = s\<lparr>cs_depacketizer := d\<rparr>"
        have s1: "collected xs s1" "cs_depacketizer s1 = d"
          using Cons.prems by (simp_all add: s1_def collected_def)
        have nals: "completed (cs_depacketizer s) (event # reads) = (if dn_nal x = [] then [] else [x]) @ completed d reads"
          using ReadBinary Pair Inr by simp
        show ?thesis
        proof (cases "dn_nal x = []")
          case True
          then have "capture_loop s (event # reads) = capture_loop s1 reads"
            using ReadBinary Pair Inr by (simp add: capture_round_def s1_def)
          then show ?thesis using Cons.IH [OF s1(1)] nals True s1(2) by simp
        next
          case False
          then have loop: "capture_loop s (event # reads) =
              (case capture_nal s1 x of Continue s2 \<Rightarrow> capture_loop s2 reads | stop \<Rightarrow> stop)"
            using ReadBinary Pair Inr by (simp add: capture_round_def s1_def)
          show ?thesis
          proof (cases "capture_nal s1 x")
            case (Continue s2)
            then have s2: "collected (xs @ [x]) s2" "cs_depacketizer s2 = d"
              using capture_nal_next [OF s1(1), of x] s1(2) by simp_all
            have step: "capture_loop s (event # reads) = capture_loop s2 reads" using loop Continue by simp
            have nals2: "completed (cs_depacketizer s) (event # reads) = x # completed (cs_depacketizer s2) reads"
              using nals False s2(2) by simp
            from Cons.IH [OF s2(1)] show ?thesis
            proof (elim disjE exE conjE)
              fix media ys x' zs
              assume "capture_loop s2 reads = Media media" "completed (cs_depacketizer s2) reads = ys @ x' # zs"
                "key_media ((xs @ [x]) @ ys) x' media"
              then show ?thesis
                unfolding step nals2
                by (intro disjI2 exI [of _ media] exI [of _ "x # ys"] exI [of _ x'] exI [of _ zs]) simp
            qed (unfold step nals2, simp_all)
          next
            case (Fail code)
            then show ?thesis using loop by simp
          next
            case (Media media)
            then have "key_media xs x media" using capture_nal_next [OF s1(1), of x] by simp
            then show ?thesis
              using loop Media nals False
              by (intro disjI2 exI [of _ media] exI [of _ "[]"] exI [of _ x] exI [of _ "completed d reads"]) simp
          qed
        qed
      qed
    qed
  qed (simp_all add: capture_round_def)
qed simp

text \<open>
  C19. What ffmpeg is given: when the loop ends with media, the media is the last VPS, SPS and PPS received
  so far, in this order, followed by the NALs of one access unit: the picture NALs of the timestamp of the
  NAL \<open>x\<close> with the marker, received since the last marker, in order, with a key frame among them;
  all sets are there and the whole is at most 8 MiB.
\<close>

theorem decoded_media:
  assumes "capture_loop capture_start reads = Media media"
  shows "\<exists>xs x zs. completed NewDepacketizer reads = xs @ x # zs \<and> key_media xs x media"
proof -
  have "cs_depacketizer capture_start = NewDepacketizer" by (simp add: capture_start_def)
  then show ?thesis using capture_loop_collects [OF collected_start, of reads] assms by auto
qed

section \<open>A key access unit is captured\<close>

lemma maxBytes_reset [simp]: "maxBytes (dp_reset d) = maxBytes d"
  by (simp add: dp_reset_def)

lemma maxBytes_feed: "maxBytes (snd (FeedRTPWithMetadata d p)) = maxBytes d"
proof -
  have "maxBytes (snd (feedH265 d sq ts pl)) = maxBytes d" for sq ts pl
    unfolding feedH265_def start_fragment_def next_fragment_def finishFU_def Let_def by simp
  note h = this
  show ?thesis
  proof (cases "ParseRTP p")
    case (Inr r)
    then show ?thesis
      using h [of "SequenceNumber r" "Timestamp r" "Payload r"]
      by (cases "feedH265 d (SequenceNumber r) (Timestamp r) (Payload r)")
        (auto simp: FeedRTPWithMetadata_def split: sum.splits)
  qed (simp add: FeedRTPWithMetadata_def)
qed

text \<open>A NAL in a packet of its own, fed to a depacketizer of the default size.\<close>

lemma feed_single_packet:
  assumes "single_nal pl" "int (length pl) \<le> defaultMaxFUBytes" "maxBytes d = defaultMaxFUBytes"
  shows "\<exists>d'. FeedRTPWithMetadata d (rtp_packet sq ts m pl) = (complete pl ts m, d') \<and> maxBytes d' = defaultMaxFUBytes"
proof -
  have "nal_limit d' = defaultMaxFUBytes" if "maxBytes d' = defaultMaxFUBytes" for d'
    using that by (simp add: nal_limit_def maxAnnexBNALBytes_def defaultMaxFUBytes_def)
  then have "fst (feedH265 d sq ts pl) = Inr (annexB pl)"
    using assms unfolding feedH265_def single_nal_def Let_def by (auto simp: fitsNALBytes_def defaultMaxFUBytes_def)
  moreover have "pl \<noteq> []" using assms(1) by (auto simp: single_nal_def)
  ultimately have "fst (FeedRTPWithMetadata d (rtp_packet sq ts m pl)) = complete pl ts m"
    by (cases "feedH265 d sq ts pl") (simp add: FeedRTPWithMetadata_def parse_rtp_packet complete_def)
  then show ?thesis using maxBytes_feed [of d "rtp_packet sq ts m pl"] assms(3) by (metis prod.collapse)
qed

lemma h265NALType_annexB: "2 \<le> length pl \<Longrightarrow> h265NALType (annexB pl) = nal_type pl"
  by (cases pl) (auto simp: h265NALType_def annexB_def nal_type_def)

definition listening :: "capture_state \<Rightarrow> bool" where
  "listening s \<longleftrightarrow> maxBytes (cs_depacketizer s) = defaultMaxFUBytes \<and> length (cs_parameter_sets s) = 3"

lemma capture_nal_listening:
  "listening s \<Longrightarrow> capture_nal s x = Continue s' \<Longrightarrow> listening s'"
  unfolding capture_nal_def Let_def listening_def by (auto split: option.splits if_splits)

lemma capture_round_listening:
  assumes "listening s" "capture_round s event = Continue s'"
  shows "listening s'"
proof (cases event)
  case (ReadBinary p)
  then obtain x d where f: "FeedRTPWithMetadata (cs_depacketizer s) p = (Inr x, d)"
    using assms(2) by (auto simp: capture_round_def split: prod.splits sum.splits)
  then have "maxBytes d = maxBytes (cs_depacketizer s)" using maxBytes_feed [of "cs_depacketizer s" p] by simp
  then have "listening (s\<lparr>cs_depacketizer := d\<rparr>)" using assms(1) by (simp add: listening_def)
  then show ?thesis
    using assms(2) f ReadBinary capture_nal_listening by (auto simp: capture_round_def split: if_splits)
qed (use assms in \<open>simp_all add: capture_round_def\<close>)

lemma capture_loop_listening: "listening s \<Longrightarrow> capture_loop s reads = Continue s' \<Longrightarrow> listening s'"
  by (induction reads arbitrary: s) (auto split: capture_next.splits dest: capture_round_listening)

lemma capture_loop_append:
  "capture_loop s (as @ bs) = (case capture_loop s as of Continue s1 \<Rightarrow> capture_loop s1 bs | stop \<Rightarrow> stop)"
  by (induction as arbitrary: s) (auto split: capture_next.splits)

lemma round_parameter_set:
  assumes "listening s" "2 \<le> length pl" "parameterSetIndex (nal_type pl) = Some i"
    and "int (length pl) \<le> defaultMaxFUBytes"
  shows "\<exists>d. capture_round s (ReadBinary (rtp_packet sq ts m pl)) =
      Continue (s\<lparr>cs_depacketizer := d, cs_parameter_sets := (cs_parameter_sets s)[i := annexB pl]\<rparr>) \<and>
    maxBytes d = defaultMaxFUBytes"
proof -
  have "single_nal pl"
    using assms(2,3) by (auto simp: single_nal_def parameter_set_index h265APType_def h265FUType_def h265PACIType_def)
  then obtain d where d: "FeedRTPWithMetadata (cs_depacketizer s) (rtp_packet sq ts m pl) = (complete pl ts m, d)"
      "maxBytes d = defaultMaxFUBytes"
    using feed_single_packet assms(1,4) unfolding listening_def by metis
  have "int (length (annexB pl)) \<le> maxAnnexBBytes"
    using assms(4) by (simp add: annexB_def defaultMaxFUBytes_def maxAnnexBBytes_def)
  moreover have "annexB pl \<noteq> []" by (simp add: annexB_def)
  ultimately show ?thesis
    using d assms(3) h265NALType_annexB [OF assms(2)]
    by (auto simp: capture_round_def complete_def capture_nal_def Let_def)
qed

text \<open>
  C39. A key access unit is captured: whatever a running capture has received, once the three parameter sets
  and then a key frame with the marker arrive, each in a packet of its own, of a new timestamp and within
  the sizes, the loop ends with exactly these four NALs, in the order VPS, SPS, PPS, key frame.
\<close>

theorem key_unit_captured:
  assumes "capture_loop capture_start reads = Continue s"
    and "\<not> au_active (cs_unit s) \<or> au_timestamp (cs_unit s) \<noteq> ts"
    and "nal_type vps = 32" "nal_type sps = 33" "nal_type pps = 34" "16 \<le> nal_type key" "nal_type key \<le> 21"
    and "\<forall>pl \<in> {vps, sps, pps, key}. 2 \<le> length pl \<and> int (length pl) < 2 * 2 ^ 20 - 4"
  shows "capture_loop capture_start (reads @
      [ReadBinary (rtp_packet q1 t1 m1 vps), ReadBinary (rtp_packet q2 t2 m2 sps),
       ReadBinary (rtp_packet q3 t3 m3 pps), ReadBinary (rtp_packet q4 ts True key)]) =
    Media (annexB vps @ annexB sps @ annexB pps @ annexB key)"
proof -
  have start: "listening capture_start"
    by (simp add: listening_def capture_start_def NewDepacketizer_def NewDepacketizerWithMaxBytes_def defaultMaxFUBytes_def)
  have s: "listening s" using capture_loop_listening [OF start assms(1)] .
  have sizes: "2 \<le> length pl" "int (length pl) \<le> defaultMaxFUBytes" if "pl \<in> {vps, sps, pps, key}" for pl
    using assms(8) that by (auto simp: defaultMaxFUBytes_def)
  have index: "parameterSetIndex (nal_type vps) = Some 0" "parameterSetIndex (nal_type sps) = Some 1"
      "parameterSetIndex (nal_type pps) = Some 2" "parameterSetIndex (nal_type key) = None"
    using assms(3-7) by (auto simp: parameterSetIndex_def)
  obtain d1 where r1: "capture_round s (ReadBinary (rtp_packet q1 t1 m1 vps)) =
      Continue (s\<lparr>cs_depacketizer := d1, cs_parameter_sets := (cs_parameter_sets s)[0 := annexB vps]\<rparr>)"
    using round_parameter_set [OF s sizes(1) index(1) sizes(2)] by blast
  let ?s1 = "s\<lparr>cs_depacketizer := d1, cs_parameter_sets := (cs_parameter_sets s)[0 := annexB vps]\<rparr>"
  have s1: "listening ?s1" by (rule capture_round_listening [OF s r1])
  obtain d2 where r2: "capture_round ?s1 (ReadBinary (rtp_packet q2 t2 m2 sps)) =
      Continue (?s1\<lparr>cs_depacketizer := d2, cs_parameter_sets := (cs_parameter_sets ?s1)[1 := annexB sps]\<rparr>)"
    using round_parameter_set [OF s1 sizes(1) index(2) sizes(2)] by blast
  let ?s2 = "?s1\<lparr>cs_depacketizer := d2, cs_parameter_sets := (cs_parameter_sets ?s1)[1 := annexB sps]\<rparr>"
  have s2: "listening ?s2" by (rule capture_round_listening [OF s1 r2])
  obtain d3 where r3: "capture_round ?s2 (ReadBinary (rtp_packet q3 t3 m3 pps)) =
      Continue (?s2\<lparr>cs_depacketizer := d3, cs_parameter_sets := (cs_parameter_sets ?s2)[2 := annexB pps]\<rparr>)"
    using round_parameter_set [OF s2 sizes(1) index(3) sizes(2)] by blast
  let ?s3 = "?s2\<lparr>cs_depacketizer := d3, cs_parameter_sets := (cs_parameter_sets ?s2)[2 := annexB pps]\<rparr>"
  have s3: "listening ?s3" by (rule capture_round_listening [OF s2 r3])
  have sets: "cs_parameter_sets ?s3 = [annexB vps, annexB sps, annexB pps]"
    using s by (cases "cs_parameter_sets s" rule: remdups_adj.cases) (auto simp: listening_def length_Suc_conv numeral_3_eq_3 numeral_2_eq_2)
  have "single_nal key"
  proof -
    have "nal_type key \<noteq> 48" "nal_type key \<noteq> 49" "nal_type key \<noteq> 50" using assms(7) by auto
    then show ?thesis
      using sizes by (simp add: single_nal_def h265APType_def h265FUType_def h265PACIType_def)
  qed
  then obtain d4 where r4: "FeedRTPWithMetadata d3 (rtp_packet q4 ts True key) = (complete key ts True, d4)"
    using feed_single_packet [OF _ sizes(2), of key d3 q4 ts True] s3 unfolding listening_def by auto
  have "isH265KeyFrame (annexB key)" "h265NALType (annexB key) = nal_type key"
    using assms(6,7) h265NALType_annexB [of key] sizes by (simp_all add: isH265KeyFrame_def)
  moreover have "annexB pl \<noteq> []" "length (annexB pl) = 4 + length pl" for pl by (simp_all add: annexB_def)
  moreover have "cs_unit s = accessUnit_reset" if "acceptsTimestamp (cs_unit s) ts"
  proof -
    obtain xs where "collected xs s"
      using capture_loop_collects [OF collected_start, of reads] assms(1) by auto
    then have "\<not> au_active (cs_unit s) \<Longrightarrow> cs_unit s = accessUnit_reset"
      by (simp add: collected_def accessUnit_reset_def)
    then show ?thesis using assms(2) that by (auto simp: acceptsTimestamp_def)
  qed
  ultimately have r5: "capture_round ?s3 (ReadBinary (rtp_packet q4 ts True key)) =
      Media (annexB vps @ annexB sps @ annexB pps @ annexB key)"
    using r4 index(4) assms(2,8) sets
    by (cases "acceptsTimestamp (cs_unit s) ts"; simp add: capture_round_def complete_def capture_nal_def Let_def)
      (simp_all add: accessUnit_reset_def accessUnit_append_def combineAccessUnit_def hasAllParameterSets_def
        maxAnnexBBytes_def)
  show ?thesis
    unfolding capture_loop_append assms(1) using r1 r2 r3 r5 by simp
qed

text \<open>A vacuity check: an idle capture that receives the smallest NALs.\<close>

definition demo_key_reads :: "ws_read list" where
  "demo_key_reads =
     [ReadBinary (rtp_packet 1 7 False [64, 1]), ReadBinary (rtp_packet 2 7 False [66, 1]),
      ReadBinary (rtp_packet 3 7 False [68, 1]), ReadBinary (rtp_packet 4 9 True [38, 1])]"

lemma demo_nal_types:
  "nal_type [64, 1] = 32" "nal_type [66, 1] = 33" "nal_type [68, 1] = 34" "nal_type [38, 1] = 19"
  by (simp_all add: nal_type_def)

theorem key_unit_captured_witness:
  "capture_loop capture_start demo_key_reads =
     Media (annexB [64, 1] @ annexB [66, 1] @ annexB [68, 1] @ annexB [38, 1])"
  using key_unit_captured [of "[]" capture_start 9 "[64, 1]" "[66, 1]" "[68, 1]" "[38, 1]" 1 7 False 2 7 False 3 7 False 4]
  by (simp add: demo_nal_types demo_key_reads_def capture_start_def accessUnit_reset_def)

theorem decoded_media_witness:
  "\<exists>xs x zs. completed NewDepacketizer demo_key_reads = xs @ x # zs \<and>
     key_media xs x (annexB [64, 1] @ annexB [66, 1] @ annexB [68, 1] @ annexB [38, 1])"
proof -
  have "capture_loop capture_start demo_key_reads =
      Media (annexB [64, 1] @ annexB [66, 1] @ annexB [68, 1] @ annexB [38, 1])" by code_simp
  then show ?thesis by (rule decoded_media)
qed

section \<open>The run of ffmpeg\<close>

text \<open>It does not matter which of the two goroutines finishes first, and the loop waits for both.\<close>

lemma select_order:
  "select_loop None False ([ReadDone (ReadData out), WriteDone True True] @ events) = Some (Inr out)"
  "select_loop None False ([WriteDone True True, ReadDone (ReadData out)] @ events) = Some (Inr out)"
  "select_loop None False [ReadDone (ReadData out)] = None"
  "select_loop None False [WriteDone True True] = None"
  by (cases events; simp add: both_finished_def)+

lemma readBoundedJPEG_bounded:
  "readBoundedJPEG acc reads = Some (ReadData data) \<Longrightarrow> length acc \<le> maxJPEGBytes \<Longrightarrow>
   length data \<le> maxJPEGBytes"
proof (induction reads arbitrary: acc)
  case (Cons e reads)
  then show ?case by (cases e) (auto split: if_splits)
qed simp

end
