(* ===== verification/NVR_Backfill_Props.thy ===== *)
theory NVR_Backfill_Props
  imports NVR_Backfill NVR_Capture_Props
begin

text \<open>
  The backfill: its counts add up, the circuit opens exactly at the third circuit failure in a row, and
  the pictures of two cameras never share an object.
\<close>

section \<open>Accounting\<close>

lemma sum_count:
  "sum_list (map snd (AList.update k ((case map_of xs k of None \<Rightarrow> 0 | Some n \<Rightarrow> n) + (1::int)) xs)) =
   sum_list (map snd xs) + 1"
  by (induction xs) auto

definition handled :: "Summary \<Rightarrow> int" where
  "handled s = sm_skipped s + sm_succeeded s + sm_failed s"

definition failure_sum :: "Summary \<Rightarrow> int" where
  "failure_sum s = sum_list (map snd (sm_failures s)) - sm_failed s"

lemma count_failure_simps [simp]:
  "handled (count_failure s code) = handled s + 1" "failure_sum (count_failure s code) = failure_sum s"
  "sm_selected (count_failure s code) = sm_selected s"
  using sum_count [of code "sm_failures s"]
  by (simp_all add: handled_def failure_sum_def count_failure_def failures_of_def)

lemma loop_accounting:
  assumes "backfill_loop env options candidates captured consecutive s w = (s', err, w')"
  shows "sm_selected s' = sm_selected s \<and> failure_sum s' = failure_sum s \<and>
    handled s \<le> handled s' \<and> handled s' \<le> handled s + int (length candidates) \<and>
    (err = None \<longrightarrow> handled s' = handled s + int (length candidates))"
  using assms
proof (induction candidates arbitrary: captured consecutive s w)
  case (Cons c cs)
  have skip: "handled (s\<lparr>sm_skipped := sm_skipped s + 1\<rparr>) = handled s + 1"
    "handled (s\<lparr>sm_succeeded := sm_succeeded s + 1\<rparr>) = handled s + 1"
    "failure_sum (s\<lparr>sm_skipped := sm_skipped s + 1\<rparr>) = failure_sum s"
    "failure_sum (s\<lparr>sm_succeeded := sm_succeeded s + 1\<rparr>) = failure_sum s"
    by (simp_all add: handled_def failure_sum_def)
  show ?case
    using Cons.prems skip
    by (auto split: prod.splits sum.splits bool.splits option.splits if_splits dest!: Cons.IH)
qed simp

text \<open>
  The summary of a backfill adds up: the failures by code sum to the failed captures, and skipped,
  succeeded and failed candidates together are all selected ones if the run ends without an error, and never
  more.
\<close>

theorem backfill_accounting:
  "case backfill_Run service options w of
     (s, err, w') \<Rightarrow>
       sum_list (map snd (sm_failures s)) = sm_failed s \<and>
       sm_skipped s + sm_succeeded s + sm_failed s \<le> sm_selected s \<and>
       (err = None \<longrightarrow> sm_skipped s + sm_succeeded s + sm_failed s = sm_selected s)"
proof (cases "backfill_Run service options w")
  case (fields s err w')
  have start: "handled (empty_summary\<lparr>sm_selected := n\<rparr>) = 0" "failure_sum (empty_summary\<lparr>sm_selected := n\<rparr>) = 0"
    "handled empty_summary = 0" "failure_sum empty_summary = 0" for n
    by (simp_all add: handled_def failure_sum_def empty_summary_def)
  have "failure_sum s = 0 \<and> handled s \<le> sm_selected s \<and> (err = None \<longrightarrow> handled s = sm_selected s)"
    using fields start
    by (auto simp: backfill_Run_def Let_def empty_summary_def [THEN arg_cong [of _ _ sm_selected]]
        split: option.splits sum.splits prod.splits if_splits dest!: loop_accounting)
  then show ?thesis using fields by (simp add: handled_def failure_sum_def)
qed

section \<open>The circuit\<close>

text \<open>The codes of the captures of a run that has no breaker, up to an error of the surroundings.\<close>

fun attempts ::
  "'w backfill_env \<Rightarrow> BackfillOptions \<Rightarrow> Candidate list \<Rightarrow> bool \<Rightarrow> 'w \<Rightarrow> nvr_code list" where
  "attempts env options [] captured w = []"
| "attempts env options (c # cs) captured w =
     (case (if bo_force options then (Inr False, w) else objectExists env w c) of
        (Inl err, w1) \<Rightarrow> []
      | (Inr True, w1) \<Rightarrow> attempts env options cs captured w1
      | (Inr False, w1) \<Rightarrow>
          (case (if captured then be_sleep env w1 (bo_request_interval options) else (None, w1)) of
             (Some err, w2) \<Rightarrow> []
           | (None, w2) \<Rightarrow>
               (case processCandidate env w2 c (bo_timeout options) of
                  (code, w3) \<Rightarrow> code # attempts env options cs True w3)))"

definition three_in_a_row :: "bool list \<Rightarrow> bool" where
  "three_in_a_row bs \<longleftrightarrow> sublist [True, True, True] bs"

lemma three_in_a_row_Cons:
  "three_in_a_row (b # bs) \<longleftrightarrow> (b \<and> (\<exists>cs. bs = True # True # cs)) \<or> three_in_a_row bs"
  unfolding three_in_a_row_def sublist_Cons_right by (auto simp: prefix_def)

lemma three_in_a_row_Nil [simp]: "\<not> three_in_a_row []"
  by (simp add: three_in_a_row_def)

lemma three_false: "k < 3 \<Longrightarrow> three_in_a_row (replicate k True @ False # bs) \<longleftrightarrow> three_in_a_row bs"
proof -
  assume "k < 3"
  then consider "k = 0" | "k = 1" | "k = 2" by linarith
  then show ?thesis by cases (auto simp: three_in_a_row_Cons numeral_2_eq_2)
qed

lemma three_short: "k < 3 \<Longrightarrow> \<not> three_in_a_row (replicate k True)"
proof -
  assume "k < 3"
  then consider "k = 0" | "k = 1" | "k = 2" by linarith
  then show ?thesis by cases (auto simp: three_in_a_row_Cons numeral_2_eq_2)
qed

lemma three_done: "2 \<le> k \<Longrightarrow> three_in_a_row (replicate k True @ True # bs)"
proof -
  assume "2 \<le> k"
  then obtain j where "k = j + 2" by (metis le_add_diff_inverse2)
  then have "replicate k True @ True # bs = replicate j True @ [True, True, True] @ bs"
    unfolding \<open>k = j + 2\<close> replicate_add by (simp add: numeral_2_eq_2)
  then show ?thesis unfolding three_in_a_row_def sublist_def by metis
qed

lemma objectExists_error: "objectExists env w c = (Inl err, w1) \<Longrightarrow> err \<noteq> ErrCircuitOpen"
  by (auto simp: objectExists_def split: prod.splits open_result.splits option.splits)

lemma succeeded_no_failure [simp]: "\<not> isCircuitFailure SnapshotStatusSucceeded"
  by (simp add: isCircuitFailure_def SnapshotStatusSucceeded_def ErrorAuthorizationFailed_def
      ErrorWSSConnectFailed_def ErrorWSSConnectTimeout_def)

lemma loop_circuit:
  assumes "k < 3"
  shows "fst (snd (backfill_loop env options cs captured k s w)) = Some ErrCircuitOpen \<longleftrightarrow>
    three_in_a_row (replicate k True @ map isCircuitFailure (attempts env options cs captured w))"
  using assms
proof (induction cs arbitrary: captured k s w)
  case Nil
  then show ?case by (simp add: three_short)
next
  case (Cons c cs)
  define exists where "exists = (if bo_force options then (Inr False, w) else objectExists env w c)"
  show ?case
  proof (cases exists)
    case (Pair found w1)
    have no: "err \<noteq> ErrCircuitOpen" if "found = Inl err" for err
      using that Pair objectExists_error unfolding exists_def by (metis Inl_Inr_False prod.inject)
    consider (err) err where "found = Inl err" | (there) "found = Inr True" | (missing) "found = Inr False"
      by (cases found) auto
    then show ?thesis
    proof cases
      case err
      then show ?thesis using Pair no Cons.prems by (simp add: exists_def [symmetric] three_short)
    next
      case there
      then show ?thesis using Pair Cons.IH [OF Cons.prems] by (simp add: exists_def [symmetric])
    next
      case missing
      define slept where "slept = (if captured then be_sleep env w1 (bo_request_interval options) else (None, w1))"
      show ?thesis
      proof (cases slept)
        case (Pair woken w2)
        note exists = \<open>exists = (found, w1)\<close>
        show ?thesis
        proof (cases woken)
          case (Some err)
          then show ?thesis
            using exists missing Pair Cons.prems
            by (simp add: exists_def [symmetric] slept_def [symmetric] three_short)
        next
          case None
          obtain code w3 where code: "processCandidate env w2 c (bo_timeout options) = (code, w3)" by fastforce
          note run = exists missing Pair None code exists_def [symmetric] slept_def [symmetric]
          show ?thesis
          proof (cases "isCircuitFailure code")
            case True
            then have "code \<noteq> SnapshotStatusSucceeded" by auto
            then have loop: "backfill_loop env options (c # cs) captured k s w =
                (if k + 1 \<ge> 3 then (count_failure s code, Some ErrCircuitOpen, w3)
                 else backfill_loop env options cs True (k + 1) (count_failure s code) w3)"
              using True by (simp add: run maxConsecutiveFailures_def)
            have row: "replicate k True @ map isCircuitFailure (attempts env options (c # cs) captured w) =
                replicate k True @ True # map isCircuitFailure (attempts env options cs True w3)"
              using True by (simp add: run)
            show ?thesis
            proof (cases "k = 2")
              case True
              then show ?thesis unfolding loop row using three_done [of k] by simp
            next
              case False
              then have "k + 1 < 3" using Cons.prems by simp
              from Cons.IH [OF this, of True "count_failure s code" w3] \<open>k + 1 < 3\<close> show ?thesis
                unfolding loop row by (simp add: replicate_app_Cons_same)
            qed
          next
            case False
            then show ?thesis
              using Cons.prems three_false Cons.IH [of 0] by (simp add: run)
          qed
        qed
      qed
    qed
  qed
qed

text \<open>The options a run goes on with, or \<open>None\<close> when it refuses them.\<close>

definition accepted_options :: "BackfillOptions \<Rightarrow> BackfillOptions option" where
  "accepted_options o0 =
     (let timeout = (if bo_timeout o0 = 0 then 20 * second else bo_timeout o0);
          interval = (if bo_request_interval o0 = 0 then 2 * second else bo_request_interval o0)
      in if 0 < timeout \<and> timeout \<le> 20 * second \<and> 2 * second \<le> interval
         then Some (o0\<lparr>bo_timeout := timeout, bo_request_interval := interval\<rparr>) else None)"

text \<open>
  C20. The circuit: a run with a valid selection, acceptable options and a repository that lists the
  candidates stops with \<open>ErrCircuitOpen\<close> if and only if, among the captures it would make one after the
  other without the breaker, three in a row fail to authorise or connect; skipped candidates do not
  interrupt a row, any other result of a capture does.
\<close>

theorem circuit_opens:
  assumes "validateSelection (bo_selection options0) = Inr ()" "accepted_options options0 = Some options"
    and "be_candidates env w (bo_selection options0) = (Inr candidates, w1)"
  shows "fst (snd (backfill_Run (Some env) options0 w)) = Some ErrCircuitOpen \<longleftrightarrow>
    (\<exists>before a b c after. attempts env options candidates False w1 = before @ [a, b, c] @ after \<and>
       isCircuitFailure a \<and> isCircuitFailure b \<and> isCircuitFailure c)"
proof -
  have "backfill_Run (Some env) options0 w =
      backfill_loop env options candidates False 0 (empty_summary\<lparr>sm_selected := int (length candidates)\<rparr>) w1"
    using assms
    by (auto simp: backfill_Run_def accepted_options_def Let_def defaultCaptureTimeout_def
        defaultRequestInterval_def split: if_splits)
  then have "fst (snd (backfill_Run (Some env) options0 w)) = Some ErrCircuitOpen \<longleftrightarrow>
      three_in_a_row (map isCircuitFailure (attempts env options candidates False w1))"
    using loop_circuit [of 0 env options candidates False _ w1] by simp
  also have "\<dots> \<longleftrightarrow> (\<exists>before a b c after. attempts env options candidates False w1 = before @ [a, b, c] @ after \<and>
      isCircuitFailure a \<and> isCircuitFailure b \<and> isCircuitFailure c)"
    unfolding three_in_a_row_def sublist_def by (fastforce simp: map_eq_append_conv)
  finally show ?thesis .
qed

definition demo_env :: "unit backfill_env" where
  "demo_env =
     \<lparr>be_candidates = (\<lambda>w sel. (Inr (map (\<lambda>n. \<lparr>cd_tenant_id = 7, cd_camera_id = n\<rparr>) [1, 2, 3, 4]), w)),
      be_capture = (\<lambda>w camera request timeout. ((empty_jpeg, ErrorWSSConnectTimeout), w)),
      be_save = (\<lambda>w key body content_type. (None, w)),
      be_open = (\<lambda>w key. (if key = ''nvr-camera-snapshots/7/2.jpg'' then Opened None else ObjectMissing, w)),
      be_sleep = (\<lambda>w d. (None, w))\<rparr>"

definition demo_options :: BackfillOptions where
  "demo_options =
     \<lparr>bo_selection = \<lparr>sl_tenant_id = 7, sl_camera_id = 0, sl_all_tenants = False\<rparr>, bo_timeout = 0,
      bo_request_interval = 0, bo_force = True\<rparr>"

theorem circuit_opens_witness:
  "fst (snd (backfill_Run (Some demo_env) demo_options ())) = Some ErrCircuitOpen"
proof -
  let ?cs = "map (\<lambda>n. \<lparr>cd_tenant_id = 7, cd_camera_id = n\<rparr>) [1, 2, 3, 4]"
  obtain options where o: "accepted_options demo_options = Some options" "bo_force options"
    by (simp add: accepted_options_def demo_options_def second_def)
  have "validateSelection (bo_selection demo_options) = Inr ()"
    by (simp add: validateSelection_def demo_options_def)
  moreover have "be_candidates demo_env () (bo_selection demo_options) = (Inr ?cs, ())"
    by (simp add: demo_env_def)
  moreover have "attempts demo_env options ?cs False () = [] @ [ErrorWSSConnectTimeout, ErrorWSSConnectTimeout,
      ErrorWSSConnectTimeout] @ [ErrorWSSConnectTimeout]"
    using o(2) by (simp add: processCandidate_def demo_env_def ErrorWSSConnectTimeout_def)
  moreover have "isCircuitFailure ErrorWSSConnectTimeout" by (simp add: isCircuitFailure_def)
  ultimately show ?thesis using circuit_opens [of demo_options options demo_env "()" ?cs "()"] o(1) by blast
qed

theorem backfill_accounting_witness:
  "fst (snd (backfill_Run (Some demo_env) (demo_options\<lparr>bo_force := False\<rparr>) ())) = Some ErrCircuitOpen \<and>
   sum_list (map snd (sm_failures (fst (backfill_Run (Some demo_env) (demo_options\<lparr>bo_force := False\<rparr>) ())))) = 3"
proof -
  let ?r = "backfill_Run (Some demo_env) (demo_options\<lparr>bo_force := False\<rparr>) ()"
  have "fst (snd ?r) = Some ErrCircuitOpen" "sm_failed (fst ?r) = 3" by code_simp+
  then show ?thesis
    using backfill_accounting [of "Some demo_env" "demo_options\<lparr>bo_force := False\<rparr>" "()"] by (auto split: prod.splits)
qed

section \<open>Objects\<close>

lemma slash_split:
  assumes "c \<notin> set a" "c \<notin> set a'" "a @ c # b = a' @ c # b'"
  shows "a = a' \<and> b = b'"
  using assms by (induction a arbitrary: a') (case_tac a'; auto)+

lemma dec_value_show_nat: "dec_value (show_nat n) = int n"
proof (induction n rule: show_nat.induct)
  case (1 n)
  have "int (n div 10) * 10 + int (n mod 10) = int n" by presburger
  moreover have "byte (chr (48 + int (n mod 10))) = 48 + int (n mod 10)" by (rule byte_chr) auto
  moreover have "n < 10 \<Longrightarrow> byte (chr (48 + int n)) = 48 + int n" by (rule byte_chr) auto
  ultimately show ?case
    using "1.IH" by (subst show_nat.simps) (simp add: dec_value_def del: of_nat_mod byte_chr)
qed

lemma itoa_inj: "0 < t \<Longrightarrow> 0 < t' \<Longrightarrow> itoa t = itoa t' \<Longrightarrow> t = t'"
proof -
  assume *: "0 < t" "0 < t'" "itoa t = itoa t'"
  then have "show_nat (nat t) = show_nat (nat t')" by (simp add: itoa_def)
  then have "int (nat t) = int (nat t')" by (metis dec_value_show_nat)
  then show "t = t'" using * by simp
qed

text \<open>
  Two cameras never share an object: the keys of positive tenant and camera ids are equal only for the
  same tenant and the same camera.
\<close>

theorem object_keys_distinct:
  assumes "0 < t" "0 < c" "0 < t'" "0 < c'" "snapshotObjectKey t c = snapshotObjectKey t' c'"
  shows "t = t' \<and> c = c'"
proof -
  have no_slash: "CHR ''/'' \<notin> set (itoa n)" if "0 < n" for n
  proof -
    have "itoa n = show_nat (nat n)" using that by (simp add: itoa_def)
    moreover have "\<not> is_digit_char (CHR ''/'')" by (simp add: is_digit_char_def byte_def)
    ultimately show ?thesis using set_show_nat by metis
  qed
  have "itoa t @ CHR ''/'' # itoa c @ ''.jpg'' = itoa t' @ CHR ''/'' # itoa c' @ ''.jpg''"
    using assms by (simp add: snapshotObjectKey_def formatPositiveID_def)
  then have "itoa t = itoa t' \<and> itoa c @ ''.jpg'' = itoa c' @ ''.jpg''"
    using slash_split no_slash assms(1,3) by metis
  then show ?thesis using itoa_inj assms(1-4) by simp
qed

theorem object_keys_distinct_witness:
  "snapshotObjectKey 7 2 \<noteq> snapshotObjectKey 72 1"
  using object_keys_distinct [of 7 2 72 1] by auto

section \<open>The capture and the backfill\<close>

text \<open>
  C40. Whatever the camera sends and ffmpeg writes, a picture that the capture returns passes the check of
  the backfill: it is not empty, at most 1 MiB, marked as JPEG and at most 640 by 640.
\<close>

theorem captured_picture_valid:
  assumes "ws_capture decode ffmpeg dial = Some (Inr jpeg)"
  shows "validBackfillJPEG jpeg"
  using assms
  by (auto simp: ws_capture_def captureJPEG_def validateJPEG_def validBackfillJPEG_def
      split: ws_dial.splits capture_next.splits option.splits sum.splits if_splits)

theorem captured_picture_valid_witness:
  "validBackfillJPEG \<lparr>jp_bytes = [255, 216], jp_width = 640, jp_height = 360, jp_content_type = ''image/jpeg''\<rparr>"
proof -
  let ?run = "\<lparr>ff_configured = True, ff_pipes = True, ff_started = True,
      ff_events = [WriteDone True True, ReadDone (ReadData [255, 216])], ff_exited = True\<rparr>"
  have "capture_loop capture_start demo_key_reads =
      Media (annexB [64, 1] @ annexB [66, 1] @ annexB [68, 1] @ annexB [38, 1])" by code_simp
  then have "ws_capture (\<lambda>data. Some (640, 360)) (\<lambda>media. ?run) (Dialled demo_key_reads) =
      Some (Inr \<lparr>jp_bytes = [255, 216], jp_width = 640, jp_height = 360, jp_content_type = ''image/jpeg''\<rparr>)"
    by (simp add: ws_capture_def captureJPEG_def both_finished_def validateJPEG_def maxThumbnailEdge_def maxJPEGBytes_def)
  then show ?thesis by (rule captured_picture_valid)
qed

end
