(* ===== verification/DPL_Validation.thy ===== *)
theory DPL_Validation
  imports SS_Validation Complex_Main
begin

text \<open>
  Package \<open>internal/designplan\<close>: its data (\<open>models.go\<close>), the validation of a store (\<open>validation.go\<close>) and
  the comparison of store names (\<open>duplicate.go\<close>).  A \<open>float64\<close> of a box is the rational number it stands
  for: JSON has no infinities and no NaN, and the code compares and adds coordinates only.  The sum of
  two coordinates is rounded to 53 bits; as it is only compared with 1, and a sum just above 1 is
  rounded in steps of 2^-52 with ties to even, it is at most 1 exactly when the exact sum is at most
  1 + 2^-53.
\<close>

section \<open>Data\<close>

definition ConfidenceHigh :: string where "ConfidenceHigh = ''high''"
definition ConfidenceMedium :: string where "ConfidenceMedium = ''medium''"
definition ConfidenceLow :: string where "ConfidenceLow = ''low''"

definition StoreStatusCompleted :: string where "StoreStatusCompleted = ''completed''"
definition StoreStatusNeedsReview :: string where "StoreStatusNeedsReview = ''needs_review''"
definition StoreStatusIncomplete :: string where "StoreStatusIncomplete = ''incomplete''"

record Box =
  box_x :: rat
  box_y :: rat
  box_width :: rat
  box_height :: rat

record AreaInput =
  ain_id :: int
  ain_name :: string
  ain_type :: string
  ain_number :: string
  ain_confidence :: string
  ain_needs_review :: bool
  ain_box :: "Box option"
  ain_display_order :: int

record StoreInput =
  sin_name :: string
  sin_pdf_file_name :: string
  sin_original_pdf_path :: string
  sin_preview_image_path :: string
  sin_thumbnail_path :: string
  sin_page_count :: int
  sin_status :: string
  sin_recognition_result :: string
  sin_areas :: "AreaInput list"

section \<open>Validation\<close>

definition dpl_validAreaType :: "string \<Rightarrow> bool" where
  "dpl_validAreaType t \<longleftrightarrow>
     t = AreaTypeTreatment \<or> t = AreaTypeVIPTreatment \<or> t = AreaTypeConsultation \<or> t = AreaTypeBeauty"

definition validConfidence :: "string \<Rightarrow> bool" where
  "validConfidence c \<longleftrightarrow> c = ConfidenceHigh \<or> c = ConfidenceMedium \<or> c = ConfidenceLow"

definition validStoreStatus :: "string \<Rightarrow> bool" where
  "validStoreStatus s \<longleftrightarrow> s = StoreStatusCompleted \<or> s = StoreStatusNeedsReview \<or> s = StoreStatusIncomplete"

definition sum_at_most_one :: "rat \<Rightarrow> rat \<Rightarrow> bool" where
  "sum_at_most_one a b \<longleftrightarrow> a + b \<le> 1 + 1 / 2 ^ 53"

definition validBox :: "Box \<Rightarrow> bool" where
  "validBox b \<longleftrightarrow>
     box_x b \<ge> 0 \<and> box_y b \<ge> 0 \<and> box_width b > 0 \<and> box_height b > 0 \<and>
     box_x b \<le> 1 \<and> box_y b \<le> 1 \<and> box_width b \<le> 1 \<and> box_height b \<le> 1 \<and>
     sum_at_most_one (box_x b) (box_width b) \<and> sum_at_most_one (box_y b) (box_height b)"

definition dpl_onlyDigits :: "string \<Rightarrow> bool" where
  "dpl_onlyDigits value \<longleftrightarrow> list_all rune_is_digit (runes value) \<and> value \<noteq> []"

type_synonym field_errors = "(string \<times> string) list"

text \<open>One assignment \<open>errs[key] = message\<close> under a condition.\<close>

definition flag :: "bool \<Rightarrow> string \<Rightarrow> string \<Rightarrow> field_errors \<Rightarrow> field_errors" where
  "flag wrong key message errs = (if wrong then AList.update key message errs else errs)"

definition number_key :: "AreaInput \<Rightarrow> string" where
  "number_key area = ain_type area @ '':'' @ trim_space (ain_number area)"

text \<open>The body of the loop over the areas, with the numbers seen so far.\<close>

definition validate_area ::
  "int \<Rightarrow> AreaInput \<Rightarrow> field_errors \<times> string list \<Rightarrow> field_errors \<times> string list" where
  "validate_area index area acc =
     (let (errs0, seen) = acc;
          prefix = ''areas['' @ itoa index @ '']'';
          number = trim_space (ain_number area);
          key = number_key area;
          counts = (number \<noteq> [] \<and> dpl_validAreaType (ain_type area));
          errs1 = flag (trim_space (ain_name area) = []) (prefix @ ''.name'') (utf8 [0x533A, 0x57DF, 0x540D, 0x79F0, 0x5FC5, 0x586B]) errs0;
          errs2 = flag (\<not> dpl_validAreaType (ain_type area)) (prefix @ ''.type'')
            (utf8 [0x533A, 0x57DF, 0x7C7B, 0x578B, 0x5FC5, 0x586B, 0xFF0C, 0x4E14, 0x53EA, 0x80FD, 0x662F, 0x20, 0x74, 0x72, 0x65, 0x61, 0x74, 0x6D, 0x65, 0x6E, 0x74, 0x3001, 0x76, 0x69, 0x70, 0x5F, 0x74, 0x72, 0x65, 0x61, 0x74, 0x6D, 0x65, 0x6E, 0x74, 0x3001, 0x63, 0x6F, 0x6E, 0x73, 0x75, 0x6C, 0x74, 0x61, 0x74, 0x69, 0x6F, 0x6E, 0x3001, 0x62, 0x65, 0x61, 0x75, 0x74, 0x79]) errs1;
          errs3 = (case ain_box area of
              None \<Rightarrow> flag True (prefix @ ''.box'') (utf8 [0x533A, 0x57DF, 0x6846, 0x5FC5, 0x586B]) errs2
            | Some box \<Rightarrow> flag (\<not> validBox box) (prefix @ ''.box'')
                (utf8 [0x533A, 0x57DF, 0x6846, 0x5FC5, 0x987B, 0x662F, 0x20, 0x30, 0x20, 0x5230, 0x20, 0x31, 0x20, 0x7684, 0x6BD4, 0x4F8B, 0x5750, 0x6807, 0xFF0C, 0x4E14, 0x5BBD, 0x9AD8, 0x5927, 0x4E8E, 0x20, 0x30]) errs2);
          errs4 = flag (ain_confidence area \<noteq> [] \<and> \<not> validConfidence (ain_confidence area))
            (prefix @ ''.confidence'') (utf8 [0x7F6E, 0x4FE1, 0x5EA6, 0x53EA, 0x80FD, 0x662F, 0x20, 0x68, 0x69, 0x67, 0x68, 0x3001, 0x6D, 0x65, 0x64, 0x69, 0x75, 0x6D, 0x3001, 0x6C, 0x6F, 0x77]) errs3;
          errs5 = flag ((ain_type area = AreaTypeTreatment \<or> ain_type area = AreaTypeConsultation) \<and> number = [])
            (prefix @ ''.number'') (utf8 [0x6CBB, 0x7597, 0x5BA4, 0x2F, 0x9762, 0x8BCA, 0x5BA4, 0x7F16, 0x53F7, 0x5FC5, 0x586B]) errs4;
          errs6 = flag (number \<noteq> [] \<and> \<not> dpl_onlyDigits number) (prefix @ ''.number'')
            (utf8 [0x7F16, 0x53F7, 0x53EA, 0x80FD, 0x662F, 0x6570, 0x5B57]) errs5;
          errs7 = flag (counts \<and> key \<in> set seen) (prefix @ ''.number'')
            (utf8 [0x540C, 0x95E8, 0x5E97, 0x540C, 0x7C7B, 0x578B, 0x7F16, 0x53F7, 0x5FC5, 0x987B, 0x552F, 0x4E00]) errs6
      in (errs7, if counts then key # seen else seen))"

fun validate_areas ::
  "int \<Rightarrow> AreaInput list \<Rightarrow> field_errors \<times> string list \<Rightarrow> field_errors \<times> string list" where
  "validate_areas index [] acc = acc"
| "validate_areas index (area # areas) acc = validate_areas (index + 1) areas (validate_area index area acc)"

definition ValidateStoreInput :: "StoreInput \<Rightarrow> field_errors option" where
  "ValidateStoreInput input =
     (let errs1 = flag (trim_space (sin_name input) = []) ''name'' (utf8 [0x95E8, 0x5E97, 0x540D, 0x5FC5, 0x586B]) [];
          errs2 = flag (sin_status input \<noteq> [] \<and> \<not> validStoreStatus (sin_status input)) ''status''
            (utf8 [0x914D, 0x7F6E, 0x72B6, 0x6001, 0x53EA, 0x80FD, 0x662F, 0x20, 0x63, 0x6F, 0x6D, 0x70, 0x6C, 0x65, 0x74, 0x65, 0x64, 0x3001, 0x6E, 0x65, 0x65, 0x64, 0x73, 0x5F, 0x72, 0x65, 0x76, 0x69, 0x65, 0x77, 0x3001, 0x69, 0x6E, 0x63, 0x6F, 0x6D, 0x70, 0x6C, 0x65, 0x74, 0x65]) errs1;
          errs3 = flag (sin_areas input = []) ''areas'' (utf8 [0x81F3, 0x5C11, 0x9700, 0x8981, 0x20, 0x31, 0x20, 0x4E2A, 0x533A, 0x57DF]) errs2;
          errs = fst (validate_areas 0 (sin_areas input) (errs3, []))
      in if errs \<noteq> [] then Some errs else None)"

section \<open>Store names\<close>

definition dpl_name_skip :: "int \<Rightarrow> bool" where
  "dpl_name_skip r \<longleftrightarrow>
     (rune_is_space r \<or> r = 0x2D \<or> r = 0x5F \<or> r = 0xB7 \<or> r = 0x30FB) \<or>
     (r = 0xFF08 \<or> r = 0x28 \<or> r = 0xFF09 \<or> r = 0x29)"

definition dpl_replacers :: "(string \<times> string) list" where
  "dpl_replacers = map (\<lambda>old. (utf8 old, []))
     [[0x65B0, 0x6C27, 0x9752, 0x6625], [0x95E8, 0x5E97], [0x5E97], [0x5206, 0x9662], [0x9662]]"

definition dpl_NormalizeStoreName :: "string \<Rightarrow> string" where
  "dpl_NormalizeStoreName name =
     fold (\<lambda>(old, new) normalized. replace_all normalized old new) dpl_replacers
       (utf8 (filter (\<lambda>r. \<not> dpl_name_skip r) (runes (trim_space (to_lower name)))))"

text \<open>\<open>minInt\<close> of its three arguments, and the rows of \<open>levenshteinDistance\<close>.\<close>

definition minInt :: "int \<Rightarrow> int \<Rightarrow> int \<Rightarrow> int" where
  "minInt a b c =
     (let m1 = (if b < a then b else a) in if c < m1 then c else m1)"

fun lev_cells :: "int \<Rightarrow> int list \<Rightarrow> int list \<Rightarrow> int \<Rightarrow> int list" where
  "lev_cells a (b # bs) (p0 # p1 # ps) left =
     (let cost = (if a \<noteq> b then 1 else 0); cell = minInt (p1 + 1) (left + 1) (p0 + cost)
      in cell # lev_cells a bs (p1 # ps) cell)"
| "lev_cells a bs ps left = []"

fun lev_rows :: "int \<Rightarrow> int list \<Rightarrow> int list \<Rightarrow> int list \<Rightarrow> int list" where
  "lev_rows i [] r previous = previous"
| "lev_rows i (a # l) r previous = lev_rows (i + 1) l r (i # lev_cells a r previous i)"

definition levenshteinDistance :: "string \<Rightarrow> string \<Rightarrow> int" where
  "levenshteinDistance left right =
     (let l = runes left; r = runes right in
      if l = [] then int (length r)
      else if r = [] then int (length l)
      else lev_rows 1 l r (map int [0..<length r + 1]) ! length r)"

definition dpl_IsSimilarStoreName :: "string \<Rightarrow> string \<Rightarrow> bool" where
  "dpl_IsSimilarStoreName left0 right0 =
     (let left = dpl_NormalizeStoreName left0; right = dpl_NormalizeStoreName right0 in
      if left = [] \<or> right = [] \<or> left = right then left = right
      else if contains left right \<or> contains right left then True
      else levenshteinDistance left right \<le> 2)"

definition dpl_MatchesStoreSearch :: "string \<Rightarrow> string \<Rightarrow> string \<Rightarrow> bool" where
  "dpl_MatchesStoreSearch name normalizedName query0 =
     (let query = trim_space query0 in
      if query = [] then True
      else
        let rawName = to_lower (replace_all name '' '' []);
            rawQuery = to_lower (replace_all query '' '' [])
        in if rawQuery \<noteq> [] \<and> contains rawName rawQuery then True
           else let normalizedQuery = dpl_NormalizeStoreName query in
                normalizedQuery \<noteq> [] \<and> contains normalizedName normalizedQuery)"

section \<open>What validation accepts\<close>

text \<open>A well-formed area, and the numbers that must differ.\<close>

definition area_ok :: "AreaInput \<Rightarrow> bool" where
  "area_ok area \<longleftrightarrow>
     trim_space (ain_name area) \<noteq> [] \<and> dpl_validAreaType (ain_type area) \<and>
     (\<exists>box. ain_box area = Some box \<and> validBox box) \<and>
     (ain_confidence area = [] \<or> validConfidence (ain_confidence area)) \<and>
     (trim_space (ain_number area) = []
        \<longrightarrow> ain_type area \<noteq> AreaTypeTreatment \<and> ain_type area \<noteq> AreaTypeConsultation) \<and>
     (trim_space (ain_number area) \<noteq> [] \<longrightarrow> dpl_onlyDigits (trim_space (ain_number area)))"

definition area_numbers :: "AreaInput list \<Rightarrow> string list" where
  "area_numbers areas =
     map number_key
       (filter (\<lambda>a. trim_space (ain_number a) \<noteq> [] \<and> dpl_validAreaType (ain_type a)) areas)"

definition store_input_ok :: "StoreInput \<Rightarrow> bool" where
  "store_input_ok input \<longleftrightarrow>
     trim_space (sin_name input) \<noteq> [] \<and> (sin_status input = [] \<or> validStoreStatus (sin_status input)) \<and>
     sin_areas input \<noteq> [] \<and> list_all area_ok (sin_areas input) \<and> distinct (area_numbers (sin_areas input))"

lemma flag_empty [simp]: "flag wrong k m errs = [] \<longleftrightarrow> \<not> wrong \<and> errs = []"
  by (simp add: flag_def)

lemma validate_area_empty:
  "fst (validate_area i area (errs, seen)) = [] \<longleftrightarrow>
     errs = [] \<and> area_ok area \<and>
     \<not> (trim_space (ain_number area) \<noteq> [] \<and> dpl_validAreaType (ain_type area) \<and> number_key area \<in> set seen)"
  by (cases "ain_box area") (auto simp: validate_area_def Let_def area_ok_def)

lemma validate_area_seen:
  "snd (validate_area i area (errs, seen)) =
     (if trim_space (ain_number area) \<noteq> [] \<and> dpl_validAreaType (ain_type area) then number_key area # seen else seen)"
  by (simp add: validate_area_def Let_def)

lemma validate_areas_empty:
  "fst (validate_areas i areas (errs, seen)) = [] \<longleftrightarrow>
     errs = [] \<and> list_all area_ok areas \<and> distinct (area_numbers areas) \<and>
     set (area_numbers areas) \<inter> set seen = {}"
proof (induction areas arbitrary: i errs seen)
  case (Cons area areas)
  obtain errs' seen' where v: "validate_area i area (errs, seen) = (errs', seen')" by fastforce
  have "errs' = [] \<longleftrightarrow> errs = [] \<and> area_ok area \<and>
      \<not> (trim_space (ain_number area) \<noteq> [] \<and> dpl_validAreaType (ain_type area) \<and> number_key area \<in> set seen)"
    using validate_area_empty [of i area errs seen] v by simp
  moreover have "seen' = (if trim_space (ain_number area) \<noteq> [] \<and> dpl_validAreaType (ain_type area)
      then number_key area # seen else seen)"
    using validate_area_seen [of i area errs seen] v by simp
  ultimately show ?case
    using v by (auto simp: Cons.IH area_numbers_def)
qed (simp add: area_numbers_def)

text \<open>
  \<open>ValidateStoreInput\<close> accepts exactly the well-formed plans: a name, a known status or none, at
  least one area, every area with a name, a known type, a box inside the picture, a known confidence or
  none, a number of digits where one is given and where the type needs one, and no number twice for one
  type.
\<close>

theorem ValidateStoreInput_iff:
  "ValidateStoreInput input = None \<longleftrightarrow> store_input_ok input"
  unfolding ValidateStoreInput_def Let_def store_input_ok_def
  by (auto simp: validate_areas_empty)

lemma dpl_NormalizeStoreName_eq: "dpl_NormalizeStoreName = NormalizeStoreName"
proof
  fix name
  have "dpl_name_skip = store_name_skip"
    by (auto simp: dpl_name_skip_def store_name_skip_def fun_eq_iff)
  then show "dpl_NormalizeStoreName name = NormalizeStoreName name"
    by (simp add: dpl_NormalizeStoreName_def NormalizeStoreName_def dpl_replacers_def store_name_suffixes_def)
qed

lemma dpl_MatchesStoreSearch_eq: "dpl_MatchesStoreSearch = MatchesStoreSearch"
  by (simp add: fun_eq_iff dpl_MatchesStoreSearch_def MatchesStoreSearch_def dpl_NormalizeStoreName_eq)

end
