(* ===== verification/DPL_Names.thy ===== *)
theory DPL_Names
  imports DPL_Validation
begin

text \<open>
  The distance of store names (\<open>levenshteinDistance\<close> of \<open>designplan/duplicate.go\<close>) is the least number of
  characters to insert, delete or replace, and the similarity of names is symmetric.
\<close>

section \<open>Edits\<close>

text \<open>\<open>edits n xs ys\<close>: \<open>n\<close> insertions, deletions and replacements turn \<open>xs\<close> into \<open>ys\<close>.\<close>

inductive edits :: "nat \<Rightarrow> 'a list \<Rightarrow> 'a list \<Rightarrow> bool" where
  nothing: "edits 0 [] []"
| keep: "edits n xs ys \<Longrightarrow> edits n (x # xs) (x # ys)"
| replace_one: "edits n xs ys \<Longrightarrow> edits (Suc n) (x # xs) (y # ys)"
| delete_one: "edits n xs ys \<Longrightarrow> edits (Suc n) (x # xs) ys"
| insert_one: "edits n xs ys \<Longrightarrow> edits (Suc n) xs (y # ys)"

lemma edits_append: "edits m as bs \<Longrightarrow> edits n cs ds \<Longrightarrow> edits (m + n) (as @ cs) (bs @ ds)"
  by (induction rule: edits.induct) (auto intro: edits.intros)

lemma edits_rev: "edits n xs ys \<Longrightarrow> edits n (rev xs) (rev ys)"
proof (induction rule: edits.induct)
  case (keep n xs ys x)
  then show ?case using edits_append [OF keep.IH, of 0 "[x]" "[x]"] by (auto intro: edits.intros)
next
  case (replace_one n xs ys x y)
  have "edits (Suc 0) [x] [y]" by (rule edits.intros(3)) (rule edits.nothing)
  then show ?case using edits_append [OF replace_one.IH, of "Suc 0" "[x]" "[y]"] by simp
next
  case (delete_one n xs ys x)
  have "edits (Suc 0) [x] []" by (rule edits.intros(4)) (rule edits.nothing)
  then show ?case using edits_append [OF delete_one.IH, of "Suc 0" "[x]" "[]"] by simp
next
  case (insert_one n xs ys y)
  have "edits (Suc 0) [] [y]" by (rule edits.intros(5)) (rule edits.nothing)
  then show ?case using edits_append [OF insert_one.IH, of "Suc 0" "[]" "[y]"] by simp
qed (simp add: edits.nothing)

lemma edits_rev_iff: "edits n (rev xs) (rev ys) \<longleftrightarrow> edits n xs ys"
  using edits_rev [of n xs ys] edits_rev [of n "rev xs" "rev ys"] by auto

lemma edits_sym: "edits n xs ys \<Longrightarrow> edits n ys xs"
  by (induction rule: edits.induct) (auto intro: edits.intros)

text \<open>The distance by recursion is the least number of edits.\<close>

fun edit :: "'a list \<Rightarrow> 'a list \<Rightarrow> nat" where
  "edit [] ys = length ys"
| "edit (x # xs) [] = Suc (length xs)"
| "edit (x # xs) (y # ys) =
     min (min (edit xs (y # ys) + 1) (edit (x # xs) ys + 1)) (edit xs ys + (if x = y then 0 else 1))"

lemma edit_Nil [simp]: "edit xs [] = length xs"
  by (cases xs) auto

lemma edit_delete: "edit (x # xs) ys \<le> Suc (edit xs ys)"
  by (cases ys) auto

lemma edit_insert: "edit xs (y # ys) \<le> Suc (edit xs ys)"
  by (cases xs) auto

lemma edits_ge: "edits n xs ys \<Longrightarrow> edit xs ys \<le> n"
proof (induction rule: edits.induct)
  case (delete_one n xs ys x)
  then show ?case using edit_delete [of x xs ys] by linarith
next
  case (insert_one n xs ys y)
  then show ?case using edit_insert [of xs y ys] by linarith
qed auto

lemma edits_edit: "edits (edit xs ys) xs ys"
proof (induction xs ys rule: edit.induct)
  case (1 ys)
  show ?case by (induction ys) (auto intro: edits.intros)
next
  case (2 x xs)
  have "edits (length zs) zs []" for zs :: "'a list"
    by (induction zs) (auto intro: edits.intros)
  from this [of "x # xs"] show ?case by simp
next
  case (3 x xs y ys)
  have "edits (Suc (edit xs (y # ys))) (x # xs) (y # ys)" "edits (Suc (edit (x # xs) ys)) (x # xs) (y # ys)"
    "edits (edit xs ys + (if x = y then 0 else 1)) (x # xs) (y # ys)"
    using 3 by (auto intro: edits.intros)
  then show ?case by (auto simp: min_def)
qed

lemma edit_least: "edit xs ys = (LEAST n. edits n xs ys)"
  using edits_edit edits_ge by (intro Least_equality [symmetric])

lemma edit_rev: "edit (rev xs) (rev ys) = edit xs ys"
  unfolding edit_least edits_rev_iff ..

lemma edit_sym: "edit xs ys = edit ys xs"
proof -
  have "edits n xs ys \<longleftrightarrow> edits n ys xs" for n using edits_sym by blast
  then show ?thesis by (simp add: edit_least)
qed

section \<open>The table\<close>

text \<open>A row of the table: the distances of \<open>p\<close> from \<open>q\<close> and its extensions by the characters of \<open>bs\<close>.\<close>

fun row :: "int list \<Rightarrow> int list \<Rightarrow> int list \<Rightarrow> int list" where
  "row p q [] = [int (edit p q)]"
| "row p q (b # bs) = int (edit p q) # row p (b # q) bs"

lemma row_Cons: "row p q bs = int (edit p q) # tl (row p q bs)"
  by (cases bs) auto

lemma minInt_min: "minInt a b c = min (min a b) c"
  by (auto simp: minInt_def Let_def)

lemma lev_cells_row: "lev_cells a bs (row p q bs) (int (edit (a # p) q)) = tl (row (a # p) q bs)"
proof (induction bs arbitrary: q)
  case (Cons b bs)
  have cell: "minInt (int (edit p (b # q)) + 1) (int (edit (a # p) q) + 1) (int (edit p q) + (if a \<noteq> b then 1 else 0)) =
      int (edit (a # p) (b # q))"
    by (auto simp: minInt_min min_def)
  obtain rest where rest: "row p (b # q) bs = int (edit p (b # q)) # rest" using row_Cons by blast
  have "lev_cells a (b # bs) (row p q (b # bs)) (int (edit (a # p) q)) =
      int (edit (a # p) (b # q)) # lev_cells a bs (row p (b # q) bs) (int (edit (a # p) (b # q)))"
    by (simp only: row.simps rest lev_cells.simps Let_def cell)
  then show ?case using Cons.IH [of "b # q"] row_Cons [of "a # p" "b # q" bs] by simp
qed simp

lemma lev_rows_row: "lev_rows (int (length p) + 1) l r (row p [] r) = row (rev l @ p) [] r"
proof (induction l arbitrary: p)
  case (Cons a l)
  have "int (length p) + 1 = int (edit (a # p) [])" by simp
  then have "(int (length p) + 1) # lev_cells a r (row p [] r) (int (length p) + 1) = row (a # p) [] r"
    using lev_cells_row [of a r p "[]"] row_Cons [of "a # p" "[]" r] by (simp add: add.commute)
  then show ?case using Cons.IH [of "a # p"] by (simp add: add.commute)
qed simp

lemma first_row: "row [] q bs = map int [length q..<length q + length bs + 1]"
  by (induction bs arbitrary: q) (simp_all add: upt_conv_Cons del: upt_Suc)

lemma row_last: "row p q bs ! length bs = int (edit p (rev bs @ q))"
  by (induction bs arbitrary: q) simp_all

lemma levenshtein_edit: "levenshteinDistance left right = int (edit (runes left) (runes right))"
proof -
  have "lev_rows 1 l r (map int [0..<length r + 1]) ! length r = int (edit l r)" for l r
    using lev_rows_row [of "[]" l r] first_row [of "[]" r] row_last [of "rev l" "[]" r] edit_rev [of l r] by simp
  then show ?thesis by (simp add: levenshteinDistance_def Let_def)
qed

text \<open>
  C36. \<open>levenshteinDistance\<close> is the edit distance: that many insertions, deletions and replacements of
  characters turn one name into the other, and no smaller number does.
\<close>

theorem levenshtein_least:
  "levenshteinDistance left right = int (LEAST n. edits n (runes left) (runes right)) \<and>
   edits (nat (levenshteinDistance left right)) (runes left) (runes right)"
  by (simp add: levenshtein_edit edit_least [symmetric] edits_edit)

text \<open>The similarity of two names does not depend on their order.\<close>

lemma similar_names_sym: "dpl_IsSimilarStoreName left right = dpl_IsSimilarStoreName right left"
  using edit_sym [of "runes (dpl_NormalizeStoreName left)" "runes (dpl_NormalizeStoreName right)"]
  by (auto simp: dpl_IsSimilarStoreName_def Let_def levenshtein_edit)

end
