(* ===== verification/DPL_Store.thy ===== *)
theory DPL_Store
  imports DPL_Names SS_Store
begin

text \<open>
  The store of design plans (\<^verbatim>\<open>designplan/store.go\<close>) and the service on it (\<^verbatim>\<open>designplan/service.go\<close>).
  Every operation of the store runs under one mutex and is one step; the map of stores is an association
  list, in the order Go happens to visit it.  The service checks and then calls the store, each a step of
  its own.  The time is an argument.
\<close>

section \<open>Data\<close>

record dpl_area =
  da_id :: int
  da_store_id :: int
  da_display_order :: int
  da_name :: string
  da_type :: string
  da_number :: string
  da_confidence :: string
  da_needs_review :: bool
  da_box :: Box
  da_created_at :: time
  da_updated_at :: time

record dpl_store =
  ds_id :: int
  ds_name :: string
  ds_normalized_name :: string
  ds_pdf_file_name :: string
  ds_original_pdf_path :: string
  ds_preview_image_path :: string
  ds_thumbnail_path :: string
  ds_preview_url :: string
  ds_thumbnail_url :: string
  ds_page_count :: int
  ds_status :: string
  ds_recognition_result :: string
  ds_areas :: "dpl_area list"
  ds_created_at :: time
  ds_updated_at :: time

record dpl_item =
  dit_id :: int
  dit_name :: string
  dit_thumbnail_url :: string
  dit_treatment_count :: int
  dit_consultation_count :: int
  dit_beauty_count :: int
  dit_area_count :: int
  dit_status :: string
  dit_updated_at :: time

record dpl_list_result =
  dlr_items :: "dpl_item list"
  dlr_page :: int
  dlr_page_size :: int
  dlr_total :: int

record dpl_match =
  dm_id :: int
  dm_name :: string
  dm_normalized_name :: string
  dm_reason :: string
  dm_thumbnail_url :: string
  dm_treatment_count :: int
  dm_consultation_count :: int
  dm_beauty_count :: int
  dm_area_count :: int
  dm_status :: string
  dm_updated_at :: time

record dpl_duplicates =
  dd_exact_match :: "dpl_match option"
  dd_similar_matches :: "dpl_match list"

record dpl_filters =
  df_query :: string
  df_page :: int
  df_page_size :: int

datatype dpl_action = OperationCreate | OperationUpdate | OperationDelete | OperationReplace

record OperationLog =
  ol_id :: int
  ol_action :: dpl_action
  ol_store_id :: int
  ol_store_name :: string
  ol_actor :: string
  ol_summary :: string
  ol_created_at :: time

record dpl_mem =
  dpl_next_id :: int
  dpl_stores :: "(int \<times> dpl_store) list"
  dpl_logs :: "OperationLog list"

datatype dpl_error = DplNotFound | DplInvalid field_errors

definition dpl_NewMemoryStore :: dpl_mem where
  "dpl_NewMemoryStore = \<lparr>dpl_next_id = 1, dpl_stores = [], dpl_logs = []\<rparr>"

section \<open>Stores from input\<close>

definition previewURL :: "int \<Rightarrow> string" where
  "previewURL storeID =
     (if storeID \<le> 0 then [] else ''/api/design-plan/stores/'' @ itoa storeID @ ''/preview'')"

definition thumbnailURL :: "int \<Rightarrow> string" where
  "thumbnailURL storeID =
     (if storeID \<le> 0 then [] else ''/api/design-plan/stores/'' @ itoa storeID @ ''/thumbnail'')"

definition inferStoreStatus :: "AreaInput list \<Rightarrow> string" where
  "inferStoreStatus areas =
     (if list_ex (\<lambda>area. ain_confidence area = ConfidenceLow \<or> ain_needs_review area) areas
      then StoreStatusNeedsReview else StoreStatusCompleted)"

definition empty_box :: Box where
  "empty_box = \<lparr>box_x = 0, box_y = 0, box_width = 0, box_height = 0\<rparr>"

definition area_from_input :: "int \<Rightarrow> time \<Rightarrow> time \<Rightarrow> nat \<Rightarrow> AreaInput \<Rightarrow> dpl_area" where
  "area_from_input sid createdAt updatedAt index area =
     (let confidence = (if ain_confidence area = [] then ConfidenceHigh else ain_confidence area);
          displayOrder = (if ain_display_order area \<le> 0 then int index + 1 else ain_display_order area);
          box = (case ain_box area of Some b \<Rightarrow> b | None \<Rightarrow> empty_box)
      in \<lparr>da_id = ain_id area, da_store_id = sid, da_display_order = displayOrder,
          da_name = trim_space (ain_name area), da_type = ain_type area,
          da_number = trim_space (ain_number area), da_confidence = confidence,
          da_needs_review = (ain_needs_review area \<or> confidence = ConfidenceLow), da_box = box,
          da_created_at = createdAt, da_updated_at = updatedAt\<rparr>)"

definition storeFromInput :: "int \<Rightarrow> StoreInput \<Rightarrow> time \<Rightarrow> time \<Rightarrow> dpl_store" where
  "storeFromInput sid input createdAt updatedAt =
     \<lparr>ds_id = sid, ds_name = trim_space (sin_name input),
      ds_normalized_name = dpl_NormalizeStoreName (sin_name input),
      ds_pdf_file_name = trim_space (sin_pdf_file_name input),
      ds_original_pdf_path = trim_space (sin_original_pdf_path input),
      ds_preview_image_path = trim_space (sin_preview_image_path input),
      ds_thumbnail_path = trim_space (sin_thumbnail_path input),
      ds_preview_url = previewURL sid, ds_thumbnail_url = thumbnailURL sid,
      ds_page_count = (if sin_page_count input < 0 then 0 else sin_page_count input),
      ds_status = (if sin_status input = [] then inferStoreStatus (sin_areas input) else sin_status input),
      ds_recognition_result = trim_space (sin_recognition_result input),
      ds_areas = map (\<lambda>(index, area). area_from_input sid createdAt updatedAt index area)
        (enumerate 0 (sin_areas input)),
      ds_created_at = createdAt, ds_updated_at = updatedAt\<rparr>"

text \<open>The loop of \<open>CreateStore\<close> and \<open>UpdateStore\<close> that numbers the areas.\<close>

definition number_areas :: "int \<Rightarrow> time \<Rightarrow> dpl_store \<Rightarrow> dpl_store" where
  "number_areas sid now st =
     st\<lparr>ds_areas := map (\<lambda>(index, area). area\<lparr>da_id := int index + 1, da_store_id := sid,
          da_created_at := now, da_updated_at := now\<rparr>) (enumerate 0 (ds_areas st))\<rparr>"

section \<open>Listing\<close>

definition dpl_normalizeFilters :: "dpl_filters \<Rightarrow> dpl_filters" where
  "dpl_normalizeFilters f =
     (let page = (if df_page f \<le> 0 then 1 else df_page f);
          size1 = (if df_page_size f \<le> 0 then 20 else df_page_size f)
      in f\<lparr>df_page := page, df_page_size := (if size1 > 100 then 100 else size1)\<rparr>)"

definition count_type :: "string list \<Rightarrow> dpl_area list \<Rightarrow> int" where
  "count_type types areas = int (length (filter (\<lambda>a. da_type a \<in> set types) areas))"

definition dpl_storeListItem :: "dpl_store \<Rightarrow> dpl_item" where
  "dpl_storeListItem st =
     \<lparr>dit_id = ds_id st, dit_name = ds_name st, dit_thumbnail_url = thumbnailURL (ds_id st),
      dit_treatment_count = count_type [AreaTypeTreatment, AreaTypeVIPTreatment] (ds_areas st),
      dit_consultation_count = count_type [AreaTypeConsultation] (ds_areas st),
      dit_beauty_count = count_type [AreaTypeBeauty] (ds_areas st),
      dit_area_count = int (length (ds_areas st)), dit_status = ds_status st,
      dit_updated_at = ds_updated_at st\<rparr>"

text \<open>\<open>ListStores\<close>; \<open>None\<close> is the panic of the slice expression.\<close>

definition dpl_ListStores :: "dpl_filters \<Rightarrow> dpl_mem \<Rightarrow> dpl_list_result option" where
  "dpl_ListStores f0 s =
     (let f = dpl_normalizeFilters f0;
          items = sort_key (\<lambda>item. - dit_updated_at item)
            (map dpl_storeListItem
              (filter (\<lambda>st. dpl_MatchesStoreSearch (ds_name st) (ds_normalized_name st) (df_query f))
                (map snd (dpl_stores s))));
          count = int (length items);
          start0 = wrap64 ((df_page f - 1) * df_page_size f);
          start = (if start0 > count then count else start0);
          end0 = wrap64 (start + df_page_size f);
          stop = (if end0 > count then count else end0)
      in map_option (\<lambda>page. \<lparr>dlr_items = page, dlr_page = df_page f, dlr_page_size = df_page_size f,
           dlr_total = count\<rparr>) (go_slice items (start, stop)))"

section \<open>The operations of the store\<close>

definition appendLog :: "dpl_action \<Rightarrow> int \<Rightarrow> string \<Rightarrow> string \<Rightarrow> time \<Rightarrow> dpl_mem \<Rightarrow> dpl_mem" where
  "appendLog action storeID storeName summary moment s =
     s\<lparr>dpl_logs := dpl_logs s @
        [\<lparr>ol_id = int (length (dpl_logs s)) + 1, ol_action = action, ol_store_id = storeID,
          ol_store_name = storeName, ol_actor = ''admin'', ol_summary = summary, ol_created_at = moment\<rparr>]\<rparr>"

definition areasChanged :: "dpl_area list \<Rightarrow> dpl_area list \<Rightarrow> bool" where
  "areasChanged left right \<longleftrightarrow>
     length left \<noteq> length right \<or>
     list_ex (\<lambda>(a, b). da_name a \<noteq> da_name b \<or> da_type a \<noteq> da_type b \<or> da_number a \<noteq> da_number b \<or>
       da_box a \<noteq> da_box b) (zip left right)"

definition areas_summary :: "string \<Rightarrow> dpl_store \<Rightarrow> string" where
  "areas_summary verb st = verb @ itoa (int (length (ds_areas st))) @ '' areas''"

definition dpl_GetStore :: "int \<Rightarrow> dpl_mem \<Rightarrow> dpl_error + dpl_store" where
  "dpl_GetStore i s = (case map_of (dpl_stores s) i of None \<Rightarrow> Inl DplNotFound | Some st \<Rightarrow> Inr st)"

definition dpl_CreateStore :: "time \<Rightarrow> StoreInput \<Rightarrow> dpl_mem \<Rightarrow> (dpl_error + dpl_store) \<times> dpl_mem" where
  "dpl_CreateStore now input s =
     (let i = dpl_next_id s;
          st = number_areas i now (storeFromInput i input now now);
          s1 = s\<lparr>dpl_next_id := i + 1, dpl_stores := AList.update i st (dpl_stores s)\<rparr>
      in (Inr st, appendLog OperationCreate i (ds_name st) (areas_summary ''created store with '' st) now s1))"

definition dpl_UpdateStore :: "time \<Rightarrow> int \<Rightarrow> StoreInput \<Rightarrow> dpl_mem \<Rightarrow> (dpl_error + dpl_store) \<times> dpl_mem" where
  "dpl_UpdateStore now i input s =
     (case map_of (dpl_stores s) i of
        None \<Rightarrow> (Inl DplNotFound, s)
      | Some existing \<Rightarrow>
          let st = number_areas i now (storeFromInput i input (ds_created_at existing) now);
              s1 = s\<lparr>dpl_stores := AList.update i st (dpl_stores s)\<rparr>;
              s2 = appendLog OperationUpdate i (ds_name st) (areas_summary ''updated store with '' st) now s1;
              s3 = (if areasChanged (ds_areas existing) (ds_areas st)
                    then appendLog OperationReplace i (ds_name st) (areas_summary ''replaced '' st) now s2 else s2)
          in (Inr st, s3))"

definition dpl_DeleteStore :: "time \<Rightarrow> int \<Rightarrow> dpl_mem \<Rightarrow> (dpl_error + unit) \<times> dpl_mem" where
  "dpl_DeleteStore now i s =
     (case map_of (dpl_stores s) i of
        None \<Rightarrow> (Inl DplNotFound, s)
      | Some st \<Rightarrow>
          (Inr (), appendLog OperationDelete i (ds_name st) ''deleted store'' now
             (s\<lparr>dpl_stores := AList.delete i (dpl_stores s)\<rparr>)))"

definition dpl_match_of :: "dpl_store \<Rightarrow> string \<Rightarrow> dpl_match" where
  "dpl_match_of st reason =
     (let summary = dpl_storeListItem st in
      \<lparr>dm_id = ds_id st, dm_name = ds_name st, dm_normalized_name = ds_normalized_name st, dm_reason = reason,
       dm_thumbnail_url = thumbnailURL (ds_id st), dm_treatment_count = dit_treatment_count summary,
       dm_consultation_count = dit_consultation_count summary, dm_beauty_count = dit_beauty_count summary,
       dm_area_count = dit_area_count summary, dm_status = ds_status st, dm_updated_at = ds_updated_at st\<rparr>)"

definition dpl_duplicate_step :: "string \<Rightarrow> int \<Rightarrow> dpl_store \<Rightarrow> dpl_duplicates \<Rightarrow> dpl_duplicates" where
  "dpl_duplicate_step name excludeStoreID st res =
     (if ds_id st = excludeStoreID then res
      else if ds_normalized_name st = dpl_NormalizeStoreName name then
        (case dd_exact_match res of
           None \<Rightarrow> res\<lparr>dd_exact_match := Some (dpl_match_of st ''exact'')\<rparr>
         | Some _ \<Rightarrow> res)
      else if dpl_IsSimilarStoreName name (ds_name st) then
        res\<lparr>dd_similar_matches := dd_similar_matches res @ [dpl_match_of st ''similar'']\<rparr>
      else res)"

definition dpl_CheckDuplicate :: "string \<Rightarrow> int \<Rightarrow> dpl_mem \<Rightarrow> dpl_duplicates" where
  "dpl_CheckDuplicate name excludeStoreID s =
     fold (dpl_duplicate_step name excludeStoreID) (map snd (dpl_stores s))
       \<lparr>dd_exact_match = None, dd_similar_matches = []\<rparr>"

section \<open>The service\<close>

definition dpl_ensureNoExactDuplicate :: "string \<Rightarrow> int \<Rightarrow> dpl_mem \<Rightarrow> dpl_error option" where
  "dpl_ensureNoExactDuplicate name excludeStoreID s =
     (if dd_exact_match (dpl_CheckDuplicate name excludeStoreID s) \<noteq> None
      then Some (DplInvalid [(''name'', utf8 [0x5DF2, 0x5B58, 0x5728, 0x540C, 0x540D, 0x95E8, 0x5E97])]) else None)"

text \<open>The checks before a write: the trimmed input, or the error of the request.\<close>

definition dpl_checked :: "StoreInput \<Rightarrow> int \<Rightarrow> dpl_mem \<Rightarrow> dpl_error + StoreInput" where
  "dpl_checked input excludeStoreID s =
     (case ValidateStoreInput input of
        Some errs \<Rightarrow> Inl (DplInvalid errs)
      | None \<Rightarrow>
          let input1 = input\<lparr>sin_name := trim_space (sin_name input)\<rparr> in
          (case dpl_ensureNoExactDuplicate (sin_name input1) excludeStoreID s of
             Some e \<Rightarrow> Inl e
           | None \<Rightarrow> Inr input1))"

definition dpl_svc_CreateStore :: "time \<Rightarrow> StoreInput \<Rightarrow> dpl_mem \<Rightarrow> (dpl_error + dpl_store) \<times> dpl_mem" where
  "dpl_svc_CreateStore now input s =
     (case dpl_checked input 0 s of Inl e \<Rightarrow> (Inl e, s) | Inr input1 \<Rightarrow> dpl_CreateStore now input1 s)"

definition dpl_svc_UpdateStore ::
  "time \<Rightarrow> int \<Rightarrow> StoreInput \<Rightarrow> dpl_mem \<Rightarrow> (dpl_error + dpl_store) \<times> dpl_mem" where
  "dpl_svc_UpdateStore now i input s =
     (case dpl_checked input i s of Inl e \<Rightarrow> (Inl e, s) | Inr input1 \<Rightarrow> dpl_UpdateStore now i input1 s)"

text \<open>\<open>DeleteStore\<close>, with the paths whose files the service then deletes; an error there is only logged.\<close>

definition dpl_svc_DeleteStore :: "time \<Rightarrow> int \<Rightarrow> dpl_mem \<Rightarrow> (dpl_error + string list) \<times> dpl_mem" where
  "dpl_svc_DeleteStore now i s =
     (case dpl_GetStore i s of
        Inl e \<Rightarrow> (Inl e, s)
      | Inr st \<Rightarrow>
          (case dpl_DeleteStore now i s of
             (Inl e, s1) \<Rightarrow> (Inl e, s1)
           | (Inr _, s1) \<Rightarrow>
               (Inr [ds_original_pdf_path st, ds_preview_image_path st, ds_thumbnail_path st], s1)))"

definition dpl_svc_CheckDuplicate :: "string \<Rightarrow> int \<Rightarrow> dpl_mem \<Rightarrow> dpl_error + dpl_duplicates" where
  "dpl_svc_CheckDuplicate name excludeStoreID s =
     (if trim_space name = [] then Inl (DplInvalid [(''name'', utf8 [0x95E8, 0x5E97, 0x540D, 0x5FC5, 0x586B])])
      else Inr (dpl_CheckDuplicate (trim_space name) excludeStoreID s))"

end
