(* ===== verification/DPL_Props.thy ===== *)
theory DPL_Props
  imports DPL_Store
begin

text \<open>
  The directory of design plans over every sequence of service requests: unique names, well-formed areas,
  a complete log; and what a refused request leaves.
\<close>

section \<open>The invariant\<close>

definition plan_areas_ok :: "int \<Rightarrow> dpl_area list \<Rightarrow> bool" where
  "plan_areas_ok sid areas \<longleftrightarrow>
     areas \<noteq> [] \<and> map da_id areas = map (\<lambda>i. int i + 1) [0..<length areas] \<and>
     list_all (\<lambda>a. da_store_id a = sid \<and> da_name a \<noteq> [] \<and> dpl_validAreaType (da_type a) \<and>
       validBox (da_box a) \<and> validConfidence (da_confidence a) \<and> 0 < da_display_order a \<and>
       (da_confidence a = ConfidenceLow \<longrightarrow> da_needs_review a) \<and>
       (da_number a = [] \<longrightarrow> da_type a \<noteq> AreaTypeTreatment \<and> da_type a \<noteq> AreaTypeConsultation)) areas \<and>
     distinct (map (\<lambda>a. da_type a @ '':'' @ da_number a) (filter (\<lambda>a. da_number a \<noteq> []) areas))"

definition plan_ok :: "int \<times> dpl_store \<Rightarrow> bool" where
  "plan_ok e \<longleftrightarrow>
     (case e of (i, st) \<Rightarrow>
        ds_id st = i \<and> 0 < i \<and> ds_name st \<noteq> [] \<and> validStoreStatus (ds_status st) \<and>
        ds_normalized_name st = dpl_NormalizeStoreName (ds_name st) \<and> 0 \<le> ds_page_count st \<and>
        plan_areas_ok i (ds_areas st))"

definition dpl_ok :: "dpl_mem \<Rightarrow> bool" where
  "dpl_ok s \<longleftrightarrow>
     list_all plan_ok (dpl_stores s) \<and> distinct (map fst (dpl_stores s)) \<and>
     (\<forall>i \<in> fst ` set (dpl_stores s). i < dpl_next_id s) \<and> 0 < dpl_next_id s \<and>
     distinct (map (ds_normalized_name \<circ> snd) (dpl_stores s)) \<and>
     map ol_id (dpl_logs s) = map (\<lambda>i. int i + 1) [0..<length (dpl_logs s)]"

section \<open>Areas\<close>

lemma numbered_ids:
  "map da_id (ds_areas (number_areas sid now st)) = map (\<lambda>i. int i + 1) [0..<length (ds_areas st)]"
proof -
  have "map (\<lambda>(index, area). int index + 1) (enumerate 0 xs) = map (\<lambda>i. int i + 1) [0..<length xs]" for xs :: "dpl_area list"
    by (rule nth_equalityI) (simp_all add: nth_enumerate_eq)
  then show ?thesis by (simp add: number_areas_def case_prod_beta' comp_def)
qed

lemma map_enumerate: "map (\<lambda>(i, x). f x) (enumerate n xs) = map f xs"
  by (induction xs arbitrary: n) auto

lemma number_areas_map:
  assumes "\<And>a b c d e. g (a\<lparr>da_id := b, da_store_id := c, da_created_at := d, da_updated_at := e\<rparr>) = g a"
  shows "map g (ds_areas (number_areas sid now st)) = map g (ds_areas st)"
  using map_enumerate [of g 0 "ds_areas st"] assms by (simp add: number_areas_def case_prod_beta' comp_def)

lemma input_areas_map:
  assumes "\<And>i a. g (area_from_input sid t u i a) = h a"
  shows "map g (ds_areas (storeFromInput sid input t u)) = map h (sin_areas input)"
  using map_enumerate [of h 0 "sin_areas input"] assms
  by (simp add: storeFromInput_def case_prod_beta' comp_def)

lemma filter_map_pair: "map f (filter P xs) = map fst (filter snd (map (\<lambda>x. (f x, P x)) xs))"
  by (induction xs) auto

lemma length_input_areas [simp]: "length (ds_areas (storeFromInput sid input t u)) = length (sin_areas input)"
  by (simp add: storeFromInput_def)

lemma length_number_areas [simp]: "length (ds_areas (number_areas sid now st)) = length (ds_areas st)"
  by (simp add: number_areas_def)

text \<open>The fields of a numbered area that come from its input.\<close>

definition area_facts :: "dpl_area \<Rightarrow> string \<times> string \<times> string \<times> Box \<times> string \<times> bool" where
  "area_facts a = (da_name a, da_type a, da_number a, da_box a, da_confidence a, da_needs_review a)"

definition input_facts :: "AreaInput \<Rightarrow> string \<times> string \<times> string \<times> Box \<times> string \<times> bool" where
  "input_facts a =
     (let confidence = (if ain_confidence a = [] then ConfidenceHigh else ain_confidence a) in
      (trim_space (ain_name a), ain_type a, trim_space (ain_number a),
       (case ain_box a of Some b \<Rightarrow> b | None \<Rightarrow> empty_box), confidence,
       ain_needs_review a \<or> confidence = ConfidenceLow))"

lemma facts_of_areas:
  "map area_facts (ds_areas (number_areas sid now (storeFromInput sid input t u))) = map input_facts (sin_areas input)"
proof -
  have "map area_facts (ds_areas (number_areas sid now (storeFromInput sid input t u))) =
      map area_facts (ds_areas (storeFromInput sid input t u))"
    by (rule number_areas_map) (simp add: area_facts_def)
  also have "\<dots> = map input_facts (sin_areas input)"
    by (rule input_areas_map) (simp add: area_facts_def input_facts_def area_from_input_def Let_def)
  finally show ?thesis .
qed

lemma area_owner:
  assumes "a \<in> set (ds_areas (number_areas sid now (storeFromInput sid input t u)))"
  shows "da_store_id a = sid \<and> 0 < da_display_order a"
  using assms
  by (auto simp: number_areas_def storeFromInput_def area_from_input_def Let_def in_set_enumerate_eq nth_enumerate_eq)

lemma area_of_input:
  assumes "store_input_ok input" "a \<in> set (ds_areas (number_areas sid now (storeFromInput sid input t u)))"
  obtains inp where "inp \<in> set (sin_areas input)" "area_ok inp" "area_facts a = input_facts inp"
proof -
  have "area_facts a \<in> set (map input_facts (sin_areas input))"
    using assms(2) unfolding facts_of_areas [of sid now input t u, symmetric] by simp
  then show ?thesis using assms(1) that by (auto simp: store_input_ok_def list_all_iff)
qed

lemma known_confidence [simp]: "validConfidence ConfidenceHigh" "validConfidence ConfidenceLow"
  by (simp_all add: validConfidence_def)

lemma input_area_facts:
  assumes "area_ok inp" "area_facts a = input_facts inp"
  shows "da_name a \<noteq> [] \<and> dpl_validAreaType (da_type a) \<and> validBox (da_box a) \<and> validConfidence (da_confidence a) \<and>
    (da_confidence a = ConfidenceLow \<longrightarrow> da_needs_review a) \<and>
    (da_number a = [] \<longrightarrow> da_type a \<noteq> AreaTypeTreatment \<and> da_type a \<noteq> AreaTypeConsultation)"
  using assms by (auto simp: area_facts_def input_facts_def area_ok_def Let_def split: if_splits)

lemma input_numbers:
  assumes "list_all area_ok inputs" "map area_facts areas = map input_facts inputs"
  shows "map (\<lambda>a. da_type a @ '':'' @ da_number a) (filter (\<lambda>a. da_number a \<noteq> []) areas) = area_numbers inputs"
proof -
  let ?k = "\<lambda>(name, ty, num, rest). ty @ '':'' @ num" and ?P = "\<lambda>(name, ty, num, rest). num \<noteq> []"
  have "map (\<lambda>a. da_type a @ '':'' @ da_number a) (filter (\<lambda>a. da_number a \<noteq> []) areas) =
      map ?k (filter ?P (map area_facts areas))"
    by (simp add: filter_map comp_def area_facts_def)
  also have "\<dots> = map number_key (filter (\<lambda>a. trim_space (ain_number a) \<noteq> []) inputs)"
    unfolding assms(2) by (simp add: filter_map comp_def input_facts_def Let_def number_key_def)
  also have "\<dots> = area_numbers inputs"
    using assms(1) unfolding area_numbers_def
    by (intro arg_cong [of _ _ "map number_key"] filter_cong) (auto simp: list_all_iff area_ok_def)
  finally show ?thesis .
qed

lemma input_plan_areas_ok:
  assumes "store_input_ok input"
  shows "plan_areas_ok sid (ds_areas (number_areas sid now (storeFromInput sid input t u)))"
proof -
  let ?areas = "ds_areas (number_areas sid now (storeFromInput sid input t u))"
  have "sin_areas input \<noteq> []" "list_all area_ok (sin_areas input)" "distinct (area_numbers (sin_areas input))"
    using assms by (auto simp: store_input_ok_def)
  moreover have "length ?areas = length (sin_areas input)" by simp
  moreover have "map da_id ?areas = map (\<lambda>i. int i + 1) [0..<length ?areas]"
    using numbered_ids [of sid now "storeFromInput sid input t u"] by simp
  moreover have "\<forall>a \<in> set ?areas. da_store_id a = sid \<and> 0 < da_display_order a"
    using area_owner by blast
  moreover have "\<forall>a \<in> set ?areas. da_name a \<noteq> [] \<and> dpl_validAreaType (da_type a) \<and> validBox (da_box a) \<and>
      validConfidence (da_confidence a) \<and> (da_confidence a = ConfidenceLow \<longrightarrow> da_needs_review a) \<and>
      (da_number a = [] \<longrightarrow> da_type a \<noteq> AreaTypeTreatment \<and> da_type a \<noteq> AreaTypeConsultation)"
    using area_of_input [OF assms] input_area_facts by metis
  moreover have "map (\<lambda>a. da_type a @ '':'' @ da_number a) (filter (\<lambda>a. da_number a \<noteq> []) ?areas) =
      area_numbers (sin_areas input)"
    using input_numbers facts_of_areas calculation(2) by blast
  ultimately show ?thesis unfolding plan_areas_ok_def list_all_iff by (metis length_0_conv)
qed

lemma stored_plan_ok:
  assumes "store_input_ok input" "trim_space (sin_name input) = sin_name input" "0 < i"
  shows "plan_ok (i, number_areas i now (storeFromInput i input t u))"
proof -
  have "validStoreStatus (if sin_status input = [] then inferStoreStatus (sin_areas input) else sin_status input)"
    using assms(1) by (auto simp: store_input_ok_def inferStoreStatus_def validStoreStatus_def)
  moreover have "sin_name input \<noteq> []" using assms(1,2) by (simp add: store_input_ok_def)
  moreover have "ds_id (number_areas i now st) = ds_id st" "ds_name (number_areas i now st) = ds_name st"
    "ds_status (number_areas i now st) = ds_status st" "ds_page_count (number_areas i now st) = ds_page_count st"
    "ds_normalized_name (number_areas i now st) = ds_normalized_name st" for st
    by (simp_all add: number_areas_def)
  ultimately show ?thesis
    using input_plan_areas_ok [OF assms(1), of i now t u] assms(2,3)
    by (simp add: plan_ok_def) (simp add: storeFromInput_def)
qed

section \<open>Names\<close>

lemma exact_match_iff:
  "dd_exact_match (fold (dpl_duplicate_step name ex) sts res) \<noteq> None \<longleftrightarrow>
     dd_exact_match res \<noteq> None \<or>
     (\<exists>st \<in> set sts. ds_id st \<noteq> ex \<and> ds_normalized_name st = dpl_NormalizeStoreName name)"
  by (induction sts arbitrary: res) (auto simp: dpl_duplicate_step_def split: option.splits)

lemma checked_input:
  assumes "dpl_checked input ex s = Inr input1"
  shows "store_input_ok input1 \<and> trim_space (sin_name input1) = sin_name input1 \<and>
    (\<forall>(i, st) \<in> set (dpl_stores s). ds_id st \<noteq> ex \<longrightarrow> ds_normalized_name st \<noteq> dpl_NormalizeStoreName (sin_name input1))"
proof -
  have i1: "input1 = input\<lparr>sin_name := trim_space (sin_name input)\<rparr>" "store_input_ok input"
    "dpl_ensureNoExactDuplicate (sin_name input1) ex s = None"
    using assms
    by (auto simp: dpl_checked_def Let_def store_input_ok_def validate_areas_empty ValidateStoreInput_def
        split: option.splits if_splits)
  then have "store_input_ok input1" by (simp add: store_input_ok_def)
  moreover have "\<forall>(i, st) \<in> set (dpl_stores s). ds_id st \<noteq> ex \<longrightarrow>
      ds_normalized_name st \<noteq> dpl_NormalizeStoreName (sin_name input1)"
    using i1(3) exact_match_iff [of "sin_name input1" ex "map snd (dpl_stores s)"]
    by (fastforce simp: dpl_ensureNoExactDuplicate_def dpl_CheckDuplicate_def split: if_splits)
  ultimately show ?thesis using i1(1) by simp
qed

section \<open>Every request keeps the invariant\<close>

lemma appendLog_fields [simp]:
  "dpl_stores (appendLog a i n m t s) = dpl_stores s" "dpl_next_id (appendLog a i n m t s) = dpl_next_id s"
  by (simp_all add: appendLog_def)

lemma appendLog_ids:
  "map ol_id (dpl_logs s) = map (\<lambda>i. int i + 1) [0..<length (dpl_logs s)] \<Longrightarrow>
   map ol_id (dpl_logs (appendLog a i n m t s)) = map (\<lambda>i. int i + 1) [0..<length (dpl_logs (appendLog a i n m t s))]"
  by (simp add: appendLog_def)

lemma dpl_ok_appendLog: "dpl_ok s \<Longrightarrow> dpl_ok (appendLog a i n m t s)"
  using appendLog_ids by (auto simp: dpl_ok_def)

lemma dpl_ok_new: "dpl_ok dpl_NewMemoryStore"
  by (simp add: dpl_ok_def dpl_NewMemoryStore_def)

lemma distinct_update_value:
  "distinct (map (f \<circ> snd) xs) \<Longrightarrow> \<forall>(j, y) \<in> set xs. j \<noteq> i \<longrightarrow> f y \<noteq> f x \<Longrightarrow> distinct (map fst xs) \<Longrightarrow>
   distinct (map (f \<circ> snd) (AList.update i x xs))"
proof (induction xs)
  case (Cons e es)
  obtain j y where e: "e = (j, y)" by fastforce
  have IH: "distinct (map (f \<circ> snd) (AList.update i x es))" using Cons.IH Cons.prems by (simp add: o_def)
  have sub: "set (map (f \<circ> snd) (AList.update i x es)) \<subseteq> insert (f x) (f ` snd ` set es)"
    using set_alist_update [of i x es] by force
  show ?case
  proof (cases "j = i")
    case True
    then have "f x \<notin> f ` snd ` set es" using Cons.prems(2,3) e by (fastforce simp: image_iff)
    then show ?thesis using True e Cons.prems by (simp add: image_comp)
  next
    case False
    have "f y \<notin> f ` snd ` set es" using Cons.prems(1) e by (simp add: image_comp)
    moreover have "f y \<noteq> f x" using Cons.prems(2) e False by simp
    ultimately have "(f \<circ> snd) e \<notin> set (map (f \<circ> snd) (AList.update i x es))" using sub e by auto
    then show ?thesis using IH e False by (simp add: o_def)
  qed
qed simp

lemma dpl_ok_store:
  assumes "dpl_ok s" "plan_ok (i, st)" "i < n" "dpl_next_id s \<le> n"
    and "\<forall>(j, st') \<in> set (dpl_stores s). j \<noteq> i \<longrightarrow> ds_normalized_name st' \<noteq> ds_normalized_name st"
  shows "dpl_ok (s\<lparr>dpl_next_id := n, dpl_stores := AList.update i st (dpl_stores s)\<rparr>)"
proof -
  have d: "distinct (map fst (dpl_stores s))" "distinct (map (ds_normalized_name \<circ> snd) (dpl_stores s))"
    using assms(1) by (simp_all add: dpl_ok_def)
  note distinct_update_value [OF d(2) assms(5) d(1)]
  moreover have "\<forall>e \<in> set (AList.update i st (dpl_stores s)). plan_ok e"
    using assms(1,2) set_alist_update [of i st "dpl_stores s"] by (auto simp: dpl_ok_def list_all_iff)
  moreover have "\<forall>e \<in> set (AList.update i st (dpl_stores s)). fst e < n"
    using assms(1,3,4) set_alist_update [of i st "dpl_stores s"] by (fastforce simp: dpl_ok_def list_all_iff)
  ultimately show ?thesis
    using assms(1,4) d by (auto simp: dpl_ok_def list_all_iff distinct_update)
qed

lemma keys_are_ids: "dpl_ok s \<Longrightarrow> (j, st) \<in> set (dpl_stores s) \<Longrightarrow> ds_id st = j \<and> 0 < j"
  by (auto simp: dpl_ok_def list_all_iff plan_ok_def)

lemma create_ok:
  assumes "dpl_ok s"
  shows "dpl_ok (snd (dpl_svc_CreateStore now input s))"
proof (cases "dpl_checked input 0 s")
  case (Inr input1)
  note c = checked_input [OF Inr]
  let ?i = "dpl_next_id s"
  let ?st = "number_areas ?i now (storeFromInput ?i input1 now now)"
  have pos: "0 < ?i" using assms by (simp add: dpl_ok_def)
  have "dpl_ok (s\<lparr>dpl_next_id := ?i + 1, dpl_stores := AList.update ?i ?st (dpl_stores s)\<rparr>)"
  proof (rule dpl_ok_store [OF assms])
    show "plan_ok (?i, ?st)" using stored_plan_ok c pos by blast
    show "\<forall>(j, st') \<in> set (dpl_stores s). j \<noteq> ?i \<longrightarrow> ds_normalized_name st' \<noteq> ds_normalized_name ?st"
      using c keys_are_ids [OF assms] by (fastforce simp: number_areas_def storeFromInput_def)
  qed simp_all
  then show ?thesis
    using Inr by (simp add: dpl_svc_CreateStore_def dpl_CreateStore_def Let_def dpl_ok_appendLog)
qed (use assms in \<open>simp add: dpl_svc_CreateStore_def\<close>)

lemma update_ok:
  assumes "dpl_ok s"
  shows "dpl_ok (snd (dpl_svc_UpdateStore now i input s))"
proof (cases "dpl_checked input i s")
  case (Inr input1)
  note c = checked_input [OF Inr]
  show ?thesis
  proof (cases "map_of (dpl_stores s) i")
    case (Some existing)
    let ?st = "number_areas i now (storeFromInput i input1 (ds_created_at existing) now)"
    have i: "(i, existing) \<in> set (dpl_stores s)" using Some by (rule map_of_SomeD)
    then have pos: "0 < i" "i < dpl_next_id s" using keys_are_ids [OF assms] assms by (force simp: dpl_ok_def)+
    have "dpl_ok (s\<lparr>dpl_next_id := dpl_next_id s, dpl_stores := AList.update i ?st (dpl_stores s)\<rparr>)"
    proof (rule dpl_ok_store [OF assms])
      show "plan_ok (i, ?st)" using stored_plan_ok c pos by blast
      show "\<forall>(j, st') \<in> set (dpl_stores s). j \<noteq> i \<longrightarrow> ds_normalized_name st' \<noteq> ds_normalized_name ?st"
        using c keys_are_ids [OF assms] by (fastforce simp: number_areas_def storeFromInput_def)
    qed (use pos in simp_all)
    moreover have "s\<lparr>dpl_next_id := dpl_next_id s, dpl_stores := xs\<rparr> = s\<lparr>dpl_stores := xs\<rparr>" for xs by simp
    ultimately show ?thesis
      using Inr Some by (simp add: dpl_svc_UpdateStore_def dpl_UpdateStore_def Let_def dpl_ok_appendLog)
  qed (use Inr assms in \<open>simp add: dpl_svc_UpdateStore_def dpl_UpdateStore_def\<close>)
qed (use assms in \<open>simp add: dpl_svc_UpdateStore_def\<close>)

lemma delete_ok:
  assumes "dpl_ok s"
  shows "dpl_ok (snd (dpl_svc_DeleteStore now i s))"
proof -
  have "dpl_ok (s\<lparr>dpl_stores := AList.delete i (dpl_stores s)\<rparr>)"
    using assms by (auto simp: dpl_ok_def list_all_iff AList.delete_eq distinct_map_filter)
  then show ?thesis
    using assms by (auto simp: dpl_svc_DeleteStore_def dpl_DeleteStore_def dpl_GetStore_def dpl_ok_appendLog split: option.splits)
qed

inductive dpl_step :: "dpl_mem \<Rightarrow> dpl_mem \<Rightarrow> bool" where
  create: "dpl_step s (snd (dpl_svc_CreateStore now input s))"
| update: "dpl_step s (snd (dpl_svc_UpdateStore now i input s))"
| delete: "dpl_step s (snd (dpl_svc_DeleteStore now i s))"

lemma dpl_steps_ok: "dpl_step\<^sup>*\<^sup>* s s' \<Longrightarrow> dpl_ok s \<Longrightarrow> dpl_ok s'"
proof (induction rule: rtranclp_induct)
  case (step t u)
  then show ?case by (auto elim!: dpl_step.cases intro: create_ok update_ok delete_ok)
qed simp

text \<open>
  C23. The directory of design plans over every sequence of service requests, whatever their inputs: ids are
  unique and below the next one, no two stores have the same normalised name, every store has a name, a known
  status and areas numbered from 1 that are named, typed, inside the picture, marked for review where the
  confidence is low, and without a number twice in one type; the log entries are numbered without a gap.
\<close>

theorem design_plan_directory:
  assumes "dpl_step\<^sup>*\<^sup>* dpl_NewMemoryStore s"
  shows "dpl_ok s"
  using dpl_steps_ok [OF assms dpl_ok_new] .

text \<open>Applied to the directory after two requests.\<close>

definition plan_area :: AreaInput where
  "plan_area = \<lparr>ain_id = 0, ain_name = ''room'', ain_type = AreaTypeTreatment, ain_number = ''1'',
     ain_confidence = ConfidenceLow, ain_needs_review = False,
     ain_box = Some \<lparr>box_x = 1/4, box_y = 1/4, box_width = 1/2, box_height = 3/4\<rparr>, ain_display_order = 0\<rparr>"

definition plan_input :: StoreInput where
  "plan_input = \<lparr>sin_name = ''A'', sin_pdf_file_name = [], sin_original_pdf_path = [],
     sin_preview_image_path = [], sin_thumbnail_path = [], sin_page_count = 1, sin_status = [],
     sin_recognition_result = [], sin_areas = [plan_area]\<rparr>"

definition two_requests :: "dpl_mem \<Rightarrow> dpl_mem" where
  "two_requests s = snd (dpl_svc_CreateStore 7 (plan_input\<lparr>sin_name := ''a''\<rparr>) (snd (dpl_svc_CreateStore 5 plan_input s)))"

lemma two_requests_step: "dpl_step\<^sup>*\<^sup>* s (two_requests s)"
proof -
  have "dpl_step s (snd (dpl_svc_CreateStore 5 plan_input s))" by (rule dpl_step.create)
  moreover have "dpl_step (snd (dpl_svc_CreateStore 5 plan_input s)) (two_requests s)"
    unfolding two_requests_def by (rule dpl_step.create)
  ultimately show ?thesis by (rule converse_rtranclp_into_rtranclp [OF _ r_into_rtranclp])
qed

theorem design_plan_directory_witness: "dpl_ok (two_requests dpl_NewMemoryStore)"
  using design_plan_directory [OF two_requests_step] .

end
