(* ===== verification/GoJsonTree.thy ===== *)
theory GoJsonTree
  imports GoJsonDecode
begin

text \<open>
  \<open>json.Unmarshal\<close> into a typed value.  The text is first checked as a whole (\<open>json_compact\<close>); then it is
  read as a tree, and a decoder of the target type walks the tree.  A decoder takes the value the target
  has before and gives the one it has after, as Go decodes in place: an absent member leaves its field
  alone.  \<open>None\<close> is an error; after a type error Go goes on and returns the error in the end, so the value
  is lost all the same.
\<close>

datatype json =
  JNull | JTrue | JFalse
| JNumber string
| JString string
| JArray "json list"
| JObject "(string \<times> json) list"

section \<open>The tree of a checked text\<close>

fun tree_value :: "nat \<Rightarrow> string \<Rightarrow> json \<times> string"
  and tree_members :: "nat \<Rightarrow> string \<Rightarrow> (string \<times> json) list \<times> string"
  and tree_elements :: "nat \<Rightarrow> string \<Rightarrow> json list \<times> string" where
  "tree_value 0 s = (JNull, [])"
| "tree_value (Suc fuel) s =
     (case skip_ws s of
        [] \<Rightarrow> (JNull, [])
      | c # cs \<Rightarrow>
          if c = quote then
            (case js_string cs of Some (_, rest) \<Rightarrow> (JString (json_unquote cs), rest) | None \<Rightarrow> (JNull, []))
          else if c = CHR ''{'' then
            (case skip_ws cs of
               [] \<Rightarrow> (JNull, [])
             | d # ds \<Rightarrow>
                 if d = CHR ''}'' then (JObject [], ds)
                 else (case tree_members fuel cs of (ms, rest) \<Rightarrow> (JObject ms, rest)))
          else if c = CHR ''['' then
            (case skip_ws cs of
               [] \<Rightarrow> (JNull, [])
             | d # ds \<Rightarrow>
                 if d = CHR '']'' then (JArray [], ds)
                 else (case tree_elements fuel cs of (es, rest) \<Rightarrow> (JArray es, rest)))
          else if c = CHR ''t'' then (JTrue, drop 3 cs)
          else if c = CHR ''f'' then (JFalse, drop 4 cs)
          else if c = CHR ''n'' then (JNull, drop 3 cs)
          else (case js_number (c # cs) of Some (num, rest) \<Rightarrow> (JNumber num, rest) | None \<Rightarrow> (JNull, [])))"
| "tree_members 0 s = ([], [])"
| "tree_members (Suc fuel) s =
     (case skip_ws s of
        [] \<Rightarrow> ([], [])
      | c # cs \<Rightarrow>
          (case js_string cs of
             None \<Rightarrow> ([], [])
           | Some (_, r1) \<Rightarrow>
               (case tree_value fuel (drop 1 (skip_ws r1)) of
                  (v, r2) \<Rightarrow>
                    (case skip_ws r2 of
                       [] \<Rightarrow> ([(json_unquote cs, v)], [])
                     | e # es \<Rightarrow>
                         if e = CHR '','' then
                           (case tree_members fuel es of (ms, r3) \<Rightarrow> ((json_unquote cs, v) # ms, r3))
                         else ([(json_unquote cs, v)], es)))))"
| "tree_elements 0 s = ([], [])"
| "tree_elements (Suc fuel) s =
     (case tree_value fuel s of
        (v, r) \<Rightarrow>
          (case skip_ws r of
             [] \<Rightarrow> ([v], [])
           | e # es \<Rightarrow>
               if e = CHR '','' then (case tree_elements fuel es of (vs, r3) \<Rightarrow> (v # vs, r3)) else ([v], es)))"

definition json_tree :: "string \<Rightarrow> json option" where
  "json_tree s = (if json_compact s = None then None else Some (fst (tree_value (2 * length s + 2) s)))"

section \<open>Decoders\<close>

type_synonym 'a decoder = "json \<Rightarrow> 'a \<Rightarrow> 'a option"

fun dec_string :: "string decoder" where
  "dec_string JNull old = Some old"
| "dec_string (JString t) old = Some t"
| "dec_string _ old = None"

fun dec_int :: "int decoder" where
  "dec_int JNull old = Some old"
| "dec_int (JNumber num) old = (case parse_int num of (n, None) \<Rightarrow> Some n | _ \<Rightarrow> None)"
| "dec_int _ old = None"

fun dec_bool :: "bool decoder" where
  "dec_bool JNull old = Some old"
| "dec_bool JTrue old = Some True"
| "dec_bool JFalse old = Some False"
| "dec_bool _ old = None"

text \<open>Into an \<open>any\<close>: everything fits but a number beyond \<open>float64\<close>.\<close>

fun json_fits :: "json \<Rightarrow> bool" where
  "json_fits (JNumber num) = (\<not> float_overflows num)"
| "json_fits (JArray vs) = list_all json_fits vs"
| "json_fits (JObject ms) = list_all (\<lambda>m. json_fits (snd m)) ms"
| "json_fits _ = True"

definition dec_any :: "unit decoder" where
  "dec_any v old = (if json_fits v then Some () else None)"

text \<open>Into a slice: the elements that were there before are decoded over.\<close>

fun dec_elements :: "'a decoder \<Rightarrow> 'a \<Rightarrow> json list \<Rightarrow> 'a list \<Rightarrow> 'a list option" where
  "dec_elements dec zero [] old = Some []"
| "dec_elements dec zero (v # vs) old =
     (case dec v (case old of x # _ \<Rightarrow> x | [] \<Rightarrow> zero) of
        None \<Rightarrow> None
      | Some x \<Rightarrow> map_option (\<lambda>xs. x # xs) (dec_elements dec zero vs (drop 1 old)))"

fun dec_slice :: "'a decoder \<Rightarrow> 'a \<Rightarrow> 'a list decoder" where
  "dec_slice dec zero JNull old = Some []"
| "dec_slice dec zero (JArray vs) old = dec_elements dec zero vs old"
| "dec_slice dec zero _ old = None"

text \<open>
  Names of members match the name of a field up to the case of the letters; beside those of ASCII the
  Kelvin sign and the long s fold to a letter.
\<close>

definition fold_rune :: "int \<Rightarrow> int" where
  "fold_rune r =
     (if 65 \<le> r \<and> r \<le> 90 then r + 32 else if r = 0x212A then 107 else if r = 0x17F then 115 else r)"

definition fold_name :: "string \<Rightarrow> int list" where
  "fold_name s = map fold_rune (runes s)"

definition field_of :: "(string \<times> 'f) list \<Rightarrow> string \<Rightarrow> 'f option" where
  "field_of fs key =
     (case map_of fs key of
        Some f \<Rightarrow> Some f
      | None \<Rightarrow> map_option snd (find (\<lambda>(name, _). fold_name name = fold_name key) fs))"

fun dec_members :: "(string \<times> 'a decoder) list \<Rightarrow> (string \<times> json) list \<Rightarrow> 'a \<Rightarrow> 'a option" where
  "dec_members fs [] old = Some old"
| "dec_members fs ((key, v) # ms) old =
     (case field_of fs key of
        None \<Rightarrow> dec_members fs ms old
      | Some dec \<Rightarrow> (case dec v old of None \<Rightarrow> None | Some new \<Rightarrow> dec_members fs ms new))"

fun dec_struct :: "(string \<times> 'a decoder) list \<Rightarrow> 'a decoder" where
  "dec_struct fs JNull old = Some old"
| "dec_struct fs (JObject ms) old = dec_members fs ms old"
| "dec_struct fs _ old = None"

text \<open>The decoder of one field, from the getter and the update of the record.\<close>

definition on_field :: "('a \<Rightarrow> 'b) \<Rightarrow> (('b \<Rightarrow> 'b) \<Rightarrow> 'a \<Rightarrow> 'a) \<Rightarrow> 'b decoder \<Rightarrow> 'a decoder" where
  "on_field get upd dec v old = map_option (\<lambda>x. upd (\<lambda>_. x) old) (dec v (get old))"

definition unmarshal :: "'a decoder \<Rightarrow> string \<Rightarrow> 'a \<Rightarrow> 'a option" where
  "unmarshal dec payload old = (case json_tree payload of None \<Rightarrow> None | Some v \<Rightarrow> dec v old)"

end
