(* ===== verification/GoUrl.thy ===== *)
theory GoUrl
  imports GoSort "HOL-Library.AList"
begin

text \<open>
  What the program uses of \<open>net/url\<close>: form values and their encoding.  \<open>url.Values\<close> here has one value
  for a key (the program only calls \<open>Set\<close>), so it is an association list; \<open>Encode\<close> writes the keys in
  byte order.
\<close>

type_synonym url_values = "(string \<times> string) list"

definition url_set :: "string \<Rightarrow> string \<Rightarrow> url_values \<Rightarrow> url_values" where
  "url_set k v form = AList.update k v form"

definition url_unreserved :: "char \<Rightarrow> bool" where
  "url_unreserved c \<longleftrightarrow>
     is_digit_char c \<or> (65 \<le> byte c \<and> byte c \<le> 90) \<or> (97 \<le> byte c \<and> byte c \<le> 122) \<or>
     c = CHR ''-'' \<or> c = CHR ''_'' \<or> c = CHR ''.'' \<or> c = CHR ''~''"

definition upper_hex :: "int \<Rightarrow> char" where
  "upper_hex n = (if n < 10 then chr (n + 48) else chr (n + 55))"

definition query_escape_char :: "char \<Rightarrow> string" where
  "query_escape_char c =
     (if url_unreserved c then [c]
      else if c = CHR '' '' then ''+''
      else [CHR ''%'', upper_hex (byte c div 16), upper_hex (byte c mod 16)])"

definition query_escape :: "string \<Rightarrow> string" where
  "query_escape s = concat (map query_escape_char s)"

definition url_encode :: "url_values \<Rightarrow> string" where
  "url_encode form =
     join ''&'' (map (\<lambda>(k, v). query_escape k @ ''='' @ query_escape v) (sort_key fst form))"

text \<open>An escaped text is injective and has none of the characters that separate the pairs.\<close>

lemma query_escape_char_nonempty [simp]: "query_escape_char c \<noteq> []"
  by (simp add: query_escape_char_def)

lemma upper_hex_unreserved: "0 \<le> n \<Longrightarrow> n < 16 \<Longrightarrow> url_unreserved (upper_hex n)"
  by (auto simp: upper_hex_def url_unreserved_def is_digit_char_def)

lemma query_escape_chars:
  assumes "d \<in> set (query_escape s)"
  shows "url_unreserved d \<or> d = CHR ''+'' \<or> d = CHR ''%''"
proof -
  obtain c where "d \<in> set (query_escape_char c)" using assms by (auto simp: query_escape_def)
  moreover have "url_unreserved (upper_hex (byte c div 16))" "url_unreserved (upper_hex (byte c mod 16))"
    using byte_range [of c] by (auto intro!: upper_hex_unreserved)
  ultimately show ?thesis by (auto simp: query_escape_char_def split: if_splits)
qed

lemma query_escape_no_separator: "CHR ''&'' \<notin> set (query_escape s)" "CHR ''='' \<notin> set (query_escape s)"
proof -
  have "\<not> url_unreserved CHR ''&''" "\<not> url_unreserved CHR ''=''"
    by (simp_all add: url_unreserved_def is_digit_char_def byte_def)
  then show "CHR ''&'' \<notin> set (query_escape s)" "CHR ''='' \<notin> set (query_escape s)"
    using query_escape_chars by fastforce+
qed

end
