(* ===== verification/GoDate.thy ===== *)
theory GoDate
  imports GoTime GoStrings
begin

text \<open>
  The calendar of package \<open>time\<close>: the date and clock of an instant at an offset from UTC, and the layouts
  the program formats and parses.  Days are counted from January 1 of year 1, as instants are.
\<close>

section \<open>The Gregorian calendar\<close>

definition leap :: "int \<Rightarrow> bool" where
  "leap y \<longleftrightarrow> y mod 4 = 0 \<and> (y mod 100 \<noteq> 0 \<or> y mod 400 = 0)"

definition days_before_year :: "int \<Rightarrow> int" where
  "days_before_year y = 365 * (y - 1) + (y - 1) div 4 - (y - 1) div 100 + (y - 1) div 400"

definition month_starts :: "bool \<Rightarrow> int list" where
  "month_starts l =
     (if l then [0, 31, 60, 91, 121, 152, 182, 213, 244, 274, 305, 335, 366]
      else [0, 31, 59, 90, 120, 151, 181, 212, 243, 273, 304, 334, 365])"

type_synonym date = "int \<times> int \<times> int"

definition days_in :: "int \<Rightarrow> int \<Rightarrow> int" where
  "days_in m y = month_starts (leap y) ! nat m - month_starts (leap y) ! nat (m - 1)"

definition days_of_date :: "date \<Rightarrow> int" where
  "days_of_date d =
     (case d of (y, m, dd) \<Rightarrow> days_before_year y + month_starts (leap y) ! nat (m - 1) + dd - 1)"

definition valid_date :: "date \<Rightarrow> bool" where
  "valid_date d \<longleftrightarrow> (case d of (y, m, dd) \<Rightarrow> 1 \<le> m \<and> m \<le> 12 \<and> 1 \<le> dd \<and> dd \<le> days_in m y)"

text \<open>The year of a day, by the cycles of 400, 100, 4 and 1 years.\<close>

definition year_of_day :: "int \<Rightarrow> int" where
  "year_of_day n =
     (let n400 = n div 146097; d = n mod 146097;
          n100 = min 3 (d div 36524); d1 = d - 36524 * n100;
          n4 = d1 div 1461; d2 = d1 mod 1461;
          n1 = min 3 (d2 div 365)
      in 400 * n400 + 100 * n100 + 4 * n4 + n1 + 1)"

fun month_of :: "int \<Rightarrow> int list \<Rightarrow> int" where
  "month_of day (a # b # rest) = (if day < b then 1 else 1 + month_of day (b # rest))"
| "month_of day _ = 1"

definition date_of_day :: "int \<Rightarrow> date" where
  "date_of_day n =
     (let y = year_of_day n; day = n - days_before_year y; starts = month_starts (leap y);
          m = month_of day starts
      in (y, m, day - starts ! nat (m - 1) + 1))"

section \<open>Instants\<close>

definition day_ns :: int where "day_ns = 86400000000000"

definition unix_epoch :: gotime where "unix_epoch = 62135596800 * 1000000000"

definition from_unix :: "int \<Rightarrow> gotime" where
  "from_unix sec = unix_epoch + sec * 1000000000"

definition from_unix_milli :: "int \<Rightarrow> gotime" where
  "from_unix_milli ms = unix_epoch + ms * 1000000"

definition to_unix :: "gotime \<Rightarrow> int" where
  "to_unix t = (t - unix_epoch) div 1000000000"

text \<open>An offset from UTC is a number of nanoseconds.\<close>

definition date_at :: "duration \<Rightarrow> gotime \<Rightarrow> date" where
  "date_at offset t = date_of_day ((t + offset) div day_ns)"

definition midnight_at :: "duration \<Rightarrow> date \<Rightarrow> gotime" where
  "midnight_at offset d = days_of_date d * day_ns - offset"

section \<open>Layouts\<close>

definition pad :: "nat \<Rightarrow> int \<Rightarrow> string" where
  "pad w n =
     (if n < 0 then CHR ''-'' # replicate (w - length (itoa (- n))) CHR ''0'' @ itoa (- n)
      else replicate (w - length (itoa n)) CHR ''0'' @ itoa n)"

definition format_date :: "date \<Rightarrow> string" where
  "format_date d = (case d of (y, m, dd) \<Rightarrow> pad 4 y @ ''-'' @ pad 2 m @ ''-'' @ pad 2 dd)"

definition format_clock :: "int \<Rightarrow> string" where
  "format_clock sec = pad 2 (sec div 3600) @ '':'' @ pad 2 (sec div 60 mod 60) @ '':'' @ pad 2 (sec mod 60)"

text \<open>The layout \<open>2006-01-02 15:04:05\<close>.\<close>

definition format_datetime :: "duration \<Rightarrow> gotime \<Rightarrow> string" where
  "format_datetime offset t =
     format_date (date_at offset t) @ '' '' @ format_clock ((t + offset) mod day_ns div 1000000000)"

text \<open>The layout \<open>2006-01-02\<close> read by \<open>time.Parse\<close>: four digits, two digits, two digits, a day of the month.\<close>

definition parse_date :: "string \<Rightarrow> date option" where
  "parse_date s =
     (case s of
        [a, b, c, d, h1, e, f, h2, g, h] \<Rightarrow>
          if list_all is_digit_char [a, b, c, d, e, f, g, h] \<and> h1 = CHR ''-'' \<and> h2 = CHR ''-'' then
            (let date = (dec_value [a, b, c, d], dec_value [e, f], dec_value [g, h])
             in if valid_date date then Some date else None)
          else None
      | _ \<Rightarrow> None)"

section \<open>Days and dates\<close>

lemma div_step:
  assumes "0 < (k::int)"
  shows "y div k - (y - 1) div k = (if y mod k = 0 then 1 else 0)"
proof (cases "y mod k = 0")
  case True
  then have "y - 1 = k * (y div k - 1) + (k - 1)"
    using mult_div_mod_eq [of k y] by (simp add: right_diff_distrib)
  then have "(y - 1) div k = y div k - 1" using assms by (intro int_div_pos_eq [of _ _ _ "k - 1"]) auto
  then show ?thesis using True by simp
next
  case False
  have "0 \<le> y mod k" "y mod k < k" using assms by simp_all
  moreover have "y - 1 = k * (y div k) + (y mod k - 1)" using mult_div_mod_eq [of k y] by linarith
  ultimately have "(y - 1) div k = y div k" using False by (intro int_div_pos_eq [of _ _ _ "y mod k - 1"]) auto
  then show ?thesis using False by simp
qed

lemma leap_days:
  fixes x y a b c :: int
  assumes "x = y + 365 + a - b + c"
    and "a = (if p then 1 else 0)" "b = (if q then 1 else 0)" "c = (if r then 1 else 0)"
    and "r \<Longrightarrow> q" "q \<Longrightarrow> p"
  shows "x = y + (if p \<and> (\<not> q \<or> r) then 366 else 365)"
  using assms by (cases p; cases q; cases r) simp_all

lemma days_before_year_Suc: "days_before_year (y + 1) = days_before_year y + (if leap y then 366 else 365)"
  unfolding leap_def
proof (rule leap_days [OF _ div_step div_step div_step])
  show "days_before_year (y + 1) =
      days_before_year y + 365 + (y div 4 - (y - 1) div 4) - (y div 100 - (y - 1) div 100) + (y div 400 - (y - 1) div 400)"
    by (simp add: days_before_year_def)
qed auto

lemma last_of_cycle: "0 \<le> a \<Longrightarrow> a < m \<Longrightarrow> (m * k + a + 1) mod m = 0 \<longleftrightarrow> a = m - (1::int)"
proof -
  assume a: "0 \<le> a" "a < m"
  have e: "(m * k + a + 1) mod m = (a + 1) mod m" by (metis add.assoc mod_mult_self3 mult.commute)
  show ?thesis
  proof (cases "a + 1 = m")
    case False
    then have "(a + 1) mod m = a + 1" using a by (simp)
    then show ?thesis using e a False by simp
  qed (use e in simp)
qed

lemma cycles:
  assumes "0 \<le> (c::int)" "c \<le> 3" "0 \<le> f" "f \<le> 24" "0 \<le> a" "a \<le> 3"
  shows "(400 * q + 100 * c + 4 * f + a) div 400 = q"
    and "(400 * q + 100 * c + 4 * f + a) div 100 = 4 * q + c"
    and "(400 * q + 100 * c + 4 * f + a) div 4 = 100 * q + 25 * c + f"
    and "leap (400 * q + 100 * c + 4 * f + a + 1) \<longleftrightarrow> a = 3 \<and> (f = 24 \<longrightarrow> c = 3)"
proof -
  let ?y = "400 * q + 100 * c + 4 * f + a"
  show "?y div 400 = q"
    by (rule int_div_pos_eq [of _ _ _ "100 * c + 4 * f + a"]) (use assms in simp_all)
  show "?y div 100 = 4 * q + c"
    by (rule int_div_pos_eq [of _ _ _ "4 * f + a"]) (use assms in simp_all)
  show "?y div 4 = 100 * q + 25 * c + f"
    by (rule int_div_pos_eq [of _ _ _ a]) (use assms in simp_all)
  have e: "?y + 1 = 4 * (100 * q + 25 * c + f) + a + 1" "?y + 1 = 100 * (4 * q + c) + (4 * f + a) + 1"
    "?y + 1 = 400 * q + (100 * c + 4 * f + a) + 1" by simp_all
  have "(?y + 1) mod 4 = 0 \<longleftrightarrow> a = 4 - 1"
    by (subst e(1), rule last_of_cycle) (use assms in simp_all)
  moreover have "(?y + 1) mod 100 = 0 \<longleftrightarrow> 4 * f + a = 100 - 1"
    by (subst e(2), rule last_of_cycle) (use assms in simp_all)
  moreover have "(?y + 1) mod 400 = 0 \<longleftrightarrow> 100 * c + 4 * f + a = 400 - 1"
    by (subst e(3), rule last_of_cycle) (use assms in simp_all)
  ultimately show "leap (?y + 1) \<longleftrightarrow> a = 3 \<and> (f = 24 \<longrightarrow> c = 3)"
    using assms unfolding leap_def by auto
qed

text \<open>\<open>year_of_day\<close> finds the year whose first day is the last one not after the day.\<close>

lemma year_of_day_bounds:
  "days_before_year (year_of_day n) \<le> n" "n < days_before_year (year_of_day n + 1)"
proof -
  define q d where "q = n div 146097" and "d = n mod 146097"
  define c where "c = min 3 (d div 36524)"
  define d1 where "d1 = d - 36524 * c"
  define f d2 where "f = d1 div 1461" and "d2 = d1 mod 1461"
  define a where "a = min 3 (d2 div 365)"
  have y: "year_of_day n = 400 * q + 100 * c + 4 * f + a + 1"
    by (simp add: year_of_day_def Let_def q_def d_def c_def d1_def f_def d2_def a_def)
  have n: "0 \<le> d" "d < 146097" "n = 146097 * q + (36524 * c + d1)" by (simp_all add: d_def q_def d1_def)
  have c: "0 \<le> c" "c \<le> 3" "0 \<le> d1" "d1 < 36525" "c < 3 \<Longrightarrow> d1 < 36524"
    using n unfolding c_def d1_def by (auto simp: min_def)
  have f: "0 \<le> f" "f \<le> 24" "0 \<le> d2" "d2 < 1461" "d1 = 1461 * f + d2"
    using c unfolding f_def d2_def by auto
  have a: "0 \<le> a" "a \<le> 3" "365 * a \<le> d2" "a < 3 \<Longrightarrow> d2 < 365 * a + 365"
    using f unfolding a_def by (auto simp: min_def)
  note k = cycles [OF c(1,2) f(1,2) a(1,2), of q]
  have first_day: "days_before_year (year_of_day n) = 146097 * q + 36524 * c + 1461 * f + 365 * a"
    unfolding days_before_year_def y add_diff_cancel_right' k(1-3) by simp
  then show "days_before_year (year_of_day n) \<le> n" using n f a by linarith
  have "d2 < 365 * a + (if a = 3 \<and> (f = 24 \<longrightarrow> c = 3) then 366 else 365)"
    using a f c by (cases "a = 3"; cases "f = 24"; cases "c = 3") auto
  then show "n < days_before_year (year_of_day n + 1)"
    using first_day n f unfolding days_before_year_Suc y k(4) by (auto split: if_splits)
qed

lemma days_of_date_of_day: "days_of_date (date_of_day n) = n"
  by (simp add: days_of_date_def date_of_day_def Let_def)

lemma month_of_bounds:
  "sorted starts \<Longrightarrow> hd starts \<le> day \<Longrightarrow> day < last starts \<Longrightarrow> 2 \<le> length starts \<Longrightarrow>
   1 \<le> month_of day starts \<and> nat (month_of day starts) < length starts \<and>
   starts ! nat (month_of day starts - 1) \<le> day \<and> day < starts ! nat (month_of day starts)"
proof (induction day starts rule: month_of.induct)
  case (1 day a b rest)
  show ?case
  proof (cases "day < b")
    case False
    then have r: "rest \<noteq> []" using 1 by auto
    then have IH: "1 \<le> month_of day (b # rest)" "nat (month_of day (b # rest)) < length (b # rest)"
      "(b # rest) ! nat (month_of day (b # rest) - 1) \<le> day" "day < (b # rest) ! nat (month_of day (b # rest))"
      using 1 False by (cases rest; auto)+
    then have "nat (1 + month_of day (b # rest) - 1) = Suc (nat (month_of day (b # rest) - 1))"
      "nat (1 + month_of day (b # rest)) = Suc (nat (month_of day (b # rest)))" by simp_all
    then show ?thesis using IH False by (simp del: month_of.simps add: month_of.simps(1) [of day a b])
  qed (use 1 in simp)
qed auto

text \<open>Every day has a date of the calendar.\<close>

lemma date_of_day_valid: "valid_date (date_of_day n)"
proof -
  let ?y = "year_of_day n"
  let ?starts = "month_starts (leap ?y)"
  have "0 \<le> n - days_before_year ?y" "n - days_before_year ?y < last ?starts"
    using year_of_day_bounds [of n] days_before_year_Suc [of ?y] by (auto simp: month_starts_def)
  moreover have "sorted ?starts" "hd ?starts = 0" "length ?starts = 13" by (simp_all add: month_starts_def)
  ultimately show ?thesis
    using month_of_bounds [of ?starts "n - days_before_year ?y"]
    by (auto simp: valid_date_def date_of_day_def Let_def days_in_def)
qed

end
