(* ===== verification/EZ_Client.thy ===== *)
theory EZ_Client
  imports SS_Scanner GoJsonTree GoUrl GoDate
begin

text \<open>
  The client of the Ezviz open platform (\<open>internal/ezviz/client.go\<close>, \<open>playback.go\<close>, \<open>aac_transfer.go\<close>).
  The network is a parameter: \<open>net_do\<close> answers a request in a world of any type, with the status and the
  body, or with nothing when the request cannot be sent or its body not be read.  The state of a call is
  the token cache of the client beside that world; the calls of one client are taken one after another.
\<close>

section \<open>Data\<close>

type_synonym Account = ezviz_credentials

record AccountWithDevice =
  ad_region :: string
  ad_account :: Account
  ad_device_serial :: string

record tokenCache =
  tc_access_token :: string
  tc_expires_at :: gotime

record Camera =
  camera_device_serial :: string
  camera_channel_no :: int
  camera_name :: string
  camera_status :: int

record LiveAddressRequest =
  lr_device_serial :: string
  lr_channel_no :: int
  lr_protocol :: int
  lr_type :: int
  lr_quality :: int
  lr_expire_time :: int
  lr_support_h265 :: bool
  lr_mute :: "int option"
  lr_code :: string

record LiveAddressResult =
  la_id :: string
  la_url :: string
  la_expire_time :: string

record 'd apiResponse =
  ar_code :: string
  ar_msg :: string
  ar_data :: 'd

record tokenData =
  td_access_token :: string
  td_expire_time :: int

text \<open>
  The errors: an answer of the platform that is not a success, and by their cause the others, whose
  texts the code only logs.
\<close>

datatype ez_error =
  EzApi (ez_code: string) (ez_msg: string)
| EzTransport
| EzStatus int string
| EzDecode
| EzMissing string
| EzInput string

definition ErrorCode :: "ez_error \<Rightarrow> string" where
  "ErrorCode e = (case e of EzApi code _ \<Rightarrow> code | _ \<Rightarrow> [])"

definition isExpiredTokenCode :: "string \<Rightarrow> bool" where
  "isExpiredTokenCode code \<longleftrightarrow> code = ''10002'' \<or> code = ''10014''"

definition isTokenError :: "ez_error \<Rightarrow> bool" where
  "isTokenError e = (case e of EzApi code _ \<Rightarrow> isExpiredTokenCode code | _ \<Rightarrow> False)"

definition redacted_text :: string where "redacted_text = ''***REDACTED***''"

definition redact :: "string \<Rightarrow> Account \<Rightarrow> string" where
  "redact value account =
     fold (\<lambda>secret0 redacted.
         let secret = trim_space secret0 in
         if secret \<noteq> [] then replace_all redacted secret redacted_text else redacted)
       [ez_app_key account, ez_app_secret account, ez_access_token account] value"

section \<open>The world of a call\<close>

record ez_request =
  hq_method :: string
  hq_url :: string
  hq_headers :: "(string \<times> string) list"
  hq_body :: string

record 'w ez_env =
  net_base :: string
  net_do :: "ez_request \<Rightarrow> 'w \<Rightarrow> (int \<times> string) option \<times> 'w"
  net_now :: "'w \<Rightarrow> gotime"

record 'w ez_state =
  st_tokens :: "(string \<times> tokenCache) list"
  st_world :: 'w

type_synonym ('w, 'a) ez = "'w ez_state \<Rightarrow> (ez_error + 'a) \<times> 'w ez_state"

definition ez_return :: "'a \<Rightarrow> ('w, 'a) ez" where
  "ez_return x s = (Inr x, s)"

definition ez_fail :: "ez_error \<Rightarrow> ('w, 'a) ez" where
  "ez_fail e s = (Inl e, s)"

definition ez_bind :: "('w, 'a) ez \<Rightarrow> ('a \<Rightarrow> ('w, 'b) ez) \<Rightarrow> ('w, 'b) ez" where
  "ez_bind m f s = (case m s of (Inl e, s') \<Rightarrow> (Inl e, s') | (Inr x, s') \<Rightarrow> f x s')"

text \<open>\<open>if err := m; err != nil\<close> with a handler.\<close>

definition ez_catch :: "('w, 'a) ez \<Rightarrow> (ez_error \<Rightarrow> ('w, 'a) ez) \<Rightarrow> ('w, 'a) ez" where
  "ez_catch m h s = (case m s of (Inl e, s') \<Rightarrow> h e s' | (Inr x, s') \<Rightarrow> (Inr x, s'))"

definition defaultBaseURL :: string where "defaultBaseURL = ''https://open.ys7.com''"

definition base_url :: "string \<Rightarrow> string" where
  "base_url option_url =
     (let baseURL = rev (dropWhile (\<lambda>c. c = CHR ''/'') (rev option_url))
      in if baseURL = [] then defaultBaseURL else baseURL)"

text \<open>\<open>io.LimitReader\<close>\<close>

definition limit_reader :: "int \<Rightarrow> string \<Rightarrow> string" where
  "limit_reader n s = (if int (length s) \<le> n then s else take (nat n) s)"

definition send :: "'w ez_env \<Rightarrow> ez_request \<Rightarrow> int \<Rightarrow> ('w, int \<times> string) ez" where
  "send env request limit s =
     (case net_do env request (st_world s) of
        (None, w) \<Rightarrow> (Inl EzTransport, s\<lparr>st_world := w\<rparr>)
      | (Some (status, payload), w) \<Rightarrow> (Inr (status, limit_reader limit payload), s\<lparr>st_world := w\<rparr>))"

definition ok_status :: "int \<Rightarrow> bool" where
  "ok_status status \<longleftrightarrow> \<not> (status < 200 \<or> status \<ge> 300)"

definition postForm ::
  "'w ez_env \<Rightarrow> string \<Rightarrow> url_values \<Rightarrow> 'd apiResponse decoder \<Rightarrow> 'd apiResponse \<Rightarrow> ('w, 'd apiResponse) ez" where
  "postForm env path form dec target =
     ez_bind (send env \<lparr>hq_method = ''POST'', hq_url = net_base env @ path,
         hq_headers = [(''Content-Type'', ''application/x-www-form-urlencoded'')], hq_body = url_encode form\<rparr>
         4194304)
       (\<lambda>(status, payload).
         if \<not> ok_status status then ez_fail (EzStatus status (trim_space payload))
         else case unmarshal dec payload target of
           None \<Rightarrow> ez_fail EzDecode
         | Some response \<Rightarrow> ez_return response)"

definition dec_response :: "'d decoder \<Rightarrow> 'd apiResponse decoder" where
  "dec_response dec =
     dec_struct [(''code'', on_field ar_code ar_code_update dec_string),
       (''msg'', on_field ar_msg ar_msg_update dec_string), (''data'', on_field ar_data ar_data_update dec)]"

definition no_response :: "'d \<Rightarrow> 'd apiResponse" where
  "no_response zero = \<lparr>ar_code = [], ar_msg = [], ar_data = zero\<rparr>"

section \<open>Tokens\<close>

definition no_token :: tokenData where
  "no_token = \<lparr>td_access_token = [], td_expire_time = 0\<rparr>"

definition dec_token :: "tokenData decoder" where
  "dec_token =
     dec_struct [(''accessToken'', on_field td_access_token td_access_token_update dec_string),
       (''expireTime'', on_field td_expire_time td_expire_time_update dec_int)]"

definition account_name :: "Account \<Rightarrow> string" where
  "account_name account =
     (if trim_space (ez_name account) = [] then trim_space (ez_app_key account) else trim_space (ez_name account))"

definition api_error :: "'d apiResponse \<Rightarrow> Account \<Rightarrow> ez_error" where
  "api_error response account = EzApi (ar_code response) (redact (ar_msg response) account)"

definition token_expiry :: "gotime \<Rightarrow> tokenData \<Rightarrow> gotime" where
  "token_expiry now data =
     (if td_expire_time data > 0 then from_unix_milli (td_expire_time data) else now + 7 * 24 * hour)"

definition refreshToken :: "'w ez_env \<Rightarrow> Account \<Rightarrow> ('w, string) ez" where
  "refreshToken env account =
     ez_bind (postForm env ''/api/lapp/token/get''
         (url_set ''appSecret'' (trim_space (ez_app_secret account))
           (url_set ''appKey'' (trim_space (ez_app_key account)) []))
         (dec_response dec_token) (no_response no_token))
       (\<lambda>response s.
         if ar_code response \<noteq> ''200'' then ez_fail (api_error response account) s
         else if td_access_token (ar_data response) = [] then ez_fail (EzMissing ''accessToken'') s
         else
           let token = \<lparr>tc_access_token = td_access_token (ar_data response),
                 tc_expires_at = token_expiry (net_now env (st_world s)) (ar_data response)\<rparr>
           in ez_return (tc_access_token token)
                (s\<lparr>st_tokens := AList.update (account_name account) token (st_tokens s)\<rparr>))"

definition cached_token :: "gotime \<Rightarrow> string \<Rightarrow> (string \<times> tokenCache) list \<Rightarrow> string option" where
  "cached_token now name tokens =
     (case map_of tokens name of
        Some cached \<Rightarrow>
          if tc_access_token cached \<noteq> [] \<and> now < tc_expires_at cached - hour
          then Some (tc_access_token cached) else None
      | None \<Rightarrow> None)"

definition accessToken :: "'w ez_env \<Rightarrow> Account \<Rightarrow> ('w, string) ez" where
  "accessToken env account s =
     (case cached_token (net_now env (st_world s)) (account_name account) (st_tokens s) of
        Some token \<Rightarrow> ez_return token s
      | None \<Rightarrow>
          if trim_space (ez_access_token account) \<noteq> [] then ez_return (trim_space (ez_access_token account)) s
          else refreshToken env account s)"

section \<open>Calls with a form\<close>

text \<open>
  The part that \<open>CameraList\<close>, \<open>Capture\<close>, \<open>LiveAddress\<close>, \<open>PlaybackAddress\<close> and \<open>DisableLiveAddress\<close>
  share: a token, the call, and when the platform says that the token has expired a new token and the
  call once more.  The second answer is decoded over the first.
\<close>

definition call_with_token ::
  "'w ez_env \<Rightarrow> Account \<Rightarrow> string \<Rightarrow> (string \<Rightarrow> url_values) \<Rightarrow> 'd decoder \<Rightarrow> 'd \<Rightarrow> ('w, 'd apiResponse) ez" where
  "call_with_token env account path form dec zero =
     ez_bind (accessToken env account) (\<lambda>token.
     ez_bind (postForm env path (form token) (dec_response dec) (no_response zero)) (\<lambda>response.
       if isExpiredTokenCode (ar_code response) then
         ez_bind (refreshToken env account) (\<lambda>token'.
           postForm env path (form token') (dec_response dec) response)
       else ez_return response))"

definition checked_data :: "Account \<Rightarrow> 'd apiResponse \<Rightarrow> ('w, 'd) ez" where
  "checked_data account response =
     (if ar_code response \<noteq> ''200'' then ez_fail (api_error response account) else ez_return (ar_data response))"

definition device_form :: "string \<Rightarrow> string \<Rightarrow> url_values" where
  "device_form deviceSerial token =
     url_set ''deviceSerial'' (to_upper (trim_space deviceSerial)) (url_set ''accessToken'' token [])"

definition no_camera :: Camera where
  "no_camera = \<lparr>camera_device_serial = [], camera_channel_no = 0, camera_name = [], camera_status = 0\<rparr>"

definition dec_camera :: "Camera decoder" where
  "dec_camera =
     dec_struct [(''deviceSerial'', on_field camera_device_serial camera_device_serial_update dec_string),
       (''channelNo'', on_field camera_channel_no camera_channel_no_update dec_int),
       (''cameraName'', on_field camera_name camera_name_update dec_string),
       (''status'', on_field camera_status camera_status_update dec_int)]"

definition CameraList :: "'w ez_env \<Rightarrow> Account \<Rightarrow> string \<Rightarrow> ('w, Camera list) ez" where
  "CameraList env account deviceSerial =
     ez_bind (call_with_token env account ''/api/lapp/device/camera/list'' (device_form deviceSerial)
       (dec_slice dec_camera no_camera) []) (checked_data account)"

definition dec_capture :: "string decoder" where
  "dec_capture = dec_struct [(''picUrl'', on_field (\<lambda>x. x) (\<lambda>f. f) dec_string)]"

definition ez_Capture :: "'w ez_env \<Rightarrow> Account \<Rightarrow> string \<Rightarrow> int \<Rightarrow> ('w, string) ez" where
  "ez_Capture env account deviceSerial channelNo =
     ez_bind (call_with_token env account ''/api/lapp/device/capture''
       (\<lambda>token. url_set ''channelNo'' (itoa channelNo) (device_form deviceSerial token))
       dec_capture []) (checked_data account)"

definition or_default :: "int \<Rightarrow> int \<Rightarrow> int" where
  "or_default n d = (if n = 0 then d else n)"

definition set_if :: "bool \<Rightarrow> string \<Rightarrow> string \<Rightarrow> url_values \<Rightarrow> url_values" where
  "set_if p k v form = (if p then url_set k v form else form)"

definition liveAddressValues :: "LiveAddressRequest \<Rightarrow> string \<Rightarrow> url_values" where
  "liveAddressValues input token =
     (let v1 = url_set ''channelNo'' (itoa (lr_channel_no input)) (device_form (lr_device_serial input) token);
          v2 = url_set ''protocol'' (itoa (or_default (lr_protocol input) 2)) v1;
          v3 = set_if (lr_type input > 0) ''type'' (itoa (lr_type input)) v2;
          v4 = url_set ''quality'' (itoa (or_default (lr_quality input) 2)) v3;
          v5 = url_set ''expireTime'' (itoa (or_default (lr_expire_time input) 600)) v4;
          v6 = set_if (lr_support_h265 input) ''supportH265'' ''1'' v5;
          v7 = (case lr_mute input of
              Some mute \<Rightarrow> set_if (mute = 0 \<or> mute = 1) ''mute'' (itoa mute) v6
            | None \<Rightarrow> v6);
          code = trim_space (lr_code input)
      in set_if (code \<noteq> []) ''code'' code v7)"

definition no_address :: LiveAddressResult where
  "no_address = \<lparr>la_id = [], la_url = [], la_expire_time = []\<rparr>"

definition dec_address :: "LiveAddressResult decoder" where
  "dec_address =
     dec_struct [(''id'', on_field la_id la_id_update dec_string), (''url'', on_field la_url la_url_update dec_string),
       (''expireTime'', on_field la_expire_time la_expire_time_update dec_string)]"

definition with_url :: "string \<Rightarrow> LiveAddressResult \<Rightarrow> ('w, LiveAddressResult) ez" where
  "with_url what address =
     (if trim_space (la_url address) = [] then ez_fail (EzMissing what) else ez_return address)"

definition ez_LiveAddress :: "'w ez_env \<Rightarrow> Account \<Rightarrow> LiveAddressRequest \<Rightarrow> ('w, LiveAddressResult) ez" where
  "ez_LiveAddress env account input =
     ez_bind (ez_bind (call_with_token env account ''/api/lapp/v2/live/address/get'' (liveAddressValues input)
       dec_address no_address) (checked_data account)) (with_url ''live address url'')"

section \<open>Playback\<close>

record PlaybackRequest =
  pr_device_serial :: string
  pr_channel_no :: int
  pr_start_time :: gotime
  pr_stop_time :: gotime
  pr_protocol :: int
  pr_quality :: int
  pr_expire_time :: int
  pr_code :: string

record DisableLiveAddressRequest =
  dr_device_serial :: string
  dr_channel_no :: int
  dr_url_id :: string

text \<open>
  \<open>ezvizLocation\<close>: China Standard Time is eight hours ahead of UTC, which is also the zone the code falls
  back to; for instants before 1991-09-15 the time zone data of the system can have another offset.
\<close>

definition ezvizLocation :: duration where "ezvizLocation = 8 * hour"

definition formatEzvizLocalTime :: "gotime \<Rightarrow> string" where
  "formatEzvizLocalTime t = format_datetime ezvizLocation t"

definition playbackValues :: "PlaybackRequest \<Rightarrow> string \<Rightarrow> url_values" where
  "playbackValues input token =
     (let v1 = url_set ''channelNo'' (itoa (pr_channel_no input)) (device_form (pr_device_serial input) token);
          v2 = url_set ''protocol'' (itoa (or_default (pr_protocol input) 4)) v1;
          v3 = url_set ''type'' ''2'' v2;
          v4 = url_set ''quality'' (itoa (or_default (pr_quality input) 2)) v3;
          v5 = url_set ''expireTime'' (itoa (or_default (pr_expire_time input) 600)) v4;
          v6 = url_set ''mute'' ''0'' (url_set ''supportH265'' ''1'' v5);
          v7 = url_set ''stopTime'' (formatEzvizLocalTime (pr_stop_time input))
            (url_set ''startTime'' (formatEzvizLocalTime (pr_start_time input)) v6);
          code = trim_space (pr_code input)
      in set_if (code \<noteq> []) ''code'' code v7)"

definition ez_PlaybackAddress :: "'w ez_env \<Rightarrow> Account \<Rightarrow> PlaybackRequest \<Rightarrow> ('w, LiveAddressResult) ez" where
  "ez_PlaybackAddress env account input =
     (if trim_space (pr_device_serial input) = [] then ez_fail (EzInput ''deviceSerial'')
      else if pr_channel_no input \<le> 0 then ez_fail (EzInput ''channelNo'')
      else if \<not> pr_stop_time input > pr_start_time input then ez_fail (EzInput ''stopTime'')
      else ez_bind (ez_bind (call_with_token env account ''/api/lapp/v2/live/address/get'' (playbackValues input)
        dec_address no_address) (checked_data account)) (with_url ''playback url''))"

definition ez_DisableLiveAddress :: "'w ez_env \<Rightarrow> Account \<Rightarrow> DisableLiveAddressRequest \<Rightarrow> ('w, unit) ez" where
  "ez_DisableLiveAddress env account input =
     (let deviceSerial = to_upper (trim_space (dr_device_serial input)); urlID = trim_space (dr_url_id input) in
      if deviceSerial = [] then ez_fail (EzInput ''deviceSerial'')
      else if dr_channel_no input \<le> 0 then ez_fail (EzInput ''channelNo'')
      else if urlID = [] then ez_fail (EzInput ''urlID'')
      else ez_bind (call_with_token env account ''/api/lapp/v2/live/address/disable''
          (\<lambda>token. url_set ''urlId'' urlID (url_set ''channelNo'' (itoa (dr_channel_no input))
             (url_set ''deviceSerial'' deviceSerial (url_set ''accessToken'' token []))))
          dec_any ()) (checked_data account))"

section \<open>Calls with headers\<close>

fun dec_flexible_int :: "int decoder" where
  "dec_flexible_int JNull old = Some 0"
| "dec_flexible_int (JNumber num) old = (case parse_int num of (n, None) \<Rightarrow> Some n | _ \<Rightarrow> None)"
| "dec_flexible_int (JString t) old = (case parse_int (trim_space t) of (n, None) \<Rightarrow> Some n | _ \<Rightarrow> None)"
| "dec_flexible_int _ old = None"

record 'd metaResponse =
  mr_code :: int
  mr_message :: string
  mr_data :: 'd

definition dec_meta :: "'d decoder \<Rightarrow> 'd metaResponse decoder" where
  "dec_meta dec =
     dec_struct [
       (''meta'', dec_struct [(''code'', on_field mr_code mr_code_update dec_flexible_int),
          (''message'', on_field mr_message mr_message_update dec_string)]),
       (''data'', on_field mr_data mr_data_update dec)]"

definition device_headers :: "string \<Rightarrow> string \<Rightarrow> int \<Rightarrow> (string \<times> string) list" where
  "device_headers token deviceSerial channelNo =
     [(''accessToken'', token), (''deviceSerial'', deviceSerial), (''localIndex'', itoa channelNo)]"

text \<open>
  The end both calls with headers share.  They differ in the body that the error of a refused request shows:
  the transfer trims it.
\<close>

definition meta_result :: "(string \<Rightarrow> string) \<Rightarrow> Account \<Rightarrow> 'd decoder \<Rightarrow> 'd \<Rightarrow> int \<times> string \<Rightarrow> ('w, 'd) ez" where
  "meta_result shown account dec zero answer =
     (case answer of (status, payload) \<Rightarrow>
        if \<not> ok_status status then ez_fail (EzStatus status (shown payload))
        else case unmarshal (dec_meta dec) payload \<lparr>mr_code = 0, mr_message = [], mr_data = zero\<rparr> of
          None \<Rightarrow> ez_fail EzDecode
        | Some result \<Rightarrow>
            if mr_code result \<noteq> 200
            then ez_fail (EzApi (itoa (mr_code result)) (redact (mr_message result) account))
            else ez_return (mr_data result))"

definition callAACTransfer :: "'w ez_env \<Rightarrow> Account \<Rightarrow> string \<Rightarrow> int \<Rightarrow> string \<Rightarrow> ('w, unit) ez" where
  "callAACTransfer env account deviceSerial channelNo token =
     ez_bind (send env \<lparr>hq_method = ''POST'', hq_url = net_base env @ ''/api/service/media/aac/transfer?enable=1'',
         hq_headers = device_headers token deviceSerial channelNo, hq_body = []\<rparr> 1048576)
       (meta_result trim_space account dec_any ())"

text \<open>A call whose error says that the token has expired is made once more with a new one.\<close>

definition retry_with_token :: "'w ez_env \<Rightarrow> Account \<Rightarrow> (string \<Rightarrow> ('w, 'a) ez) \<Rightarrow> ('w, 'a) ez" where
  "retry_with_token env account call =
     ez_bind (accessToken env account) (\<lambda>token.
       ez_catch (call token) (\<lambda>e.
         if \<not> isTokenError e then ez_fail e else ez_bind (refreshToken env account) call))"

definition ez_EnsureAACTransfer :: "'w ez_env \<Rightarrow> Account \<Rightarrow> string \<Rightarrow> int \<Rightarrow> ('w, unit) ez" where
  "ez_EnsureAACTransfer env account deviceSerial channelNo =
     (let serial = to_upper (trim_space deviceSerial) in
      if serial = [] then ez_fail (EzInput ''deviceSerial'')
      else if channelNo \<le> 0 then ez_fail (EzInput ''channelNo'')
      else retry_with_token env account (callAACTransfer env account serial channelNo))"

section \<open>The list of accounts\<close>

text \<open>\<open>ParseAccountsMarkdown\<close>: the rows of a table, its heads and rulers left out; \<open>None\<close> if there is none.\<close>

fun split_lines :: "char \<Rightarrow> string \<Rightarrow> string list" where
  "split_lines sep [] = [[]]"
| "split_lines sep (c # cs) =
     (if c = sep then [] # split_lines sep cs
      else case split_lines sep cs of [] \<Rightarrow> [[c]] | p # ps \<Rightarrow> (c # p) # ps)"

definition account_of_line :: "string \<Rightarrow> AccountWithDevice option" where
  "account_of_line line0 =
     (let line = trim_space line0 in
      if \<not> has_prefix line ''|'' \<or> contains line ''---'' \<or> contains line (utf8 [0x5927, 0x533A]) then None
      else
        let cells = filter (\<lambda>cell. cell \<noteq> []) (map trim_space (split_lines (CHR ''|'') line)) in
        if length cells < 6 then None
        else Some \<lparr>ad_region = cells ! 0,
          ad_account = \<lparr>ez_name = cells ! 1, ez_app_key = cells ! 2, ez_app_secret = cells ! 3,
            ez_access_token = cells ! 4\<rparr>,
          ad_device_serial = to_upper (cells ! 5)\<rparr>)"

definition ParseAccountsMarkdown :: "string \<Rightarrow> AccountWithDevice list option" where
  "ParseAccountsMarkdown source =
     (let accounts = List.map_filter account_of_line (split_lines (chr 10) source)
      in if accounts = [] then None else Some accounts)"

definition FindAccountByRegion :: "AccountWithDevice list \<Rightarrow> string \<Rightarrow> AccountWithDevice option" where
  "FindAccountByRegion accounts region = find (\<lambda>account. ad_region account = trim_space region) accounts"

end
