(* ===== verification/EZ_Records.thy ===== *)
theory EZ_Records
  imports EZ_Client
begin

text \<open>
  The recordings of a day (\<open>internal/ezviz/record_segments.go\<close>): the platform hands them out in pages, and
  the client follows them, at most 20 in a row.
\<close>

record RecordSegment =
  seg_start_time :: int
  seg_end_time :: int
  seg_type :: string
  seg_size :: string

record RecordSegmentsResult =
  rs_records :: "RecordSegment list"
  rs_from_nvr :: bool
  rs_device_serial :: string
  rs_local_index :: string
  rs_has_more :: bool
  rs_next_file_time :: int

record RecordSegmentsQuery =
  rq_device_serial :: string
  rq_channel_no :: int
  rq_date :: gotime
  rq_page_size :: int

fun dec_flexible_string :: "string decoder" where
  "dec_flexible_string JNull old = Some []"
| "dec_flexible_string (JString t) old = Some t"
| "dec_flexible_string (JNumber num) old = Some num"
| "dec_flexible_string _ old = None"

definition no_segment :: RecordSegment where
  "no_segment = \<lparr>seg_start_time = 0, seg_end_time = 0, seg_type = [], seg_size = []\<rparr>"

definition dec_segment :: "RecordSegment decoder" where
  "dec_segment =
     dec_struct [(''startTime'', on_field seg_start_time seg_start_time_update dec_int),
       (''endTime'', on_field seg_end_time seg_end_time_update dec_int),
       (''type'', on_field seg_type seg_type_update dec_string),
       (''size'', on_field seg_size seg_size_update dec_string)]"

definition no_records :: RecordSegmentsResult where
  "no_records = \<lparr>rs_records = [], rs_from_nvr = False, rs_device_serial = [], rs_local_index = [],
     rs_has_more = False, rs_next_file_time = 0\<rparr>"

definition dec_records :: "RecordSegmentsResult decoder" where
  "dec_records =
     dec_struct [(''records'', on_field rs_records rs_records_update (dec_slice dec_segment no_segment)),
       (''fromNvr'', on_field rs_from_nvr rs_from_nvr_update dec_bool),
       (''deviceSerial'', on_field rs_device_serial rs_device_serial_update dec_string),
       (''localIndex'', on_field rs_local_index rs_local_index_update dec_flexible_string),
       (''hasMore'', on_field rs_has_more rs_has_more_update dec_bool),
       (''nextFileTime'', on_field rs_next_file_time rs_next_file_time_update dec_int)]"

definition dayRange :: "gotime \<Rightarrow> gotime \<Rightarrow> int \<times> int" where
  "dayRange now date0 =
     (let date = (if date0 = 0 then now else date0);
          day_start = midnight_at ezvizLocation (date_at ezvizLocation date);
          day_end = day_start + (24 * hour - second)
      in (to_unix day_start, to_unix day_end))"

definition callRecordSegments ::
  "'w ez_env \<Rightarrow> Account \<Rightarrow> string \<Rightarrow> string \<Rightarrow> int \<Rightarrow> int \<Rightarrow> int \<Rightarrow> int \<Rightarrow> ('w, RecordSegmentsResult) ez" where
  "callRecordSegments env account token deviceSerial channelNo startTime endTime pageSize =
     ez_bind (send env \<lparr>hq_method = ''GET'',
         hq_url = net_base env @ ''/api/v3/device/local/video/unify/query?'' @
           url_encode (url_set ''pageSize'' (itoa pageSize)
             (url_set ''endTime'' (itoa endTime) (url_set ''startTime'' (itoa startTime) []))),
         hq_headers = device_headers token deviceSerial channelNo, hq_body = []\<rparr> 4194304)
       (meta_result (\<lambda>payload. payload) account dec_records no_records)"

text \<open>
  The loop of \<open>callRecordSegmentsPages\<close>: \<open>pages\<close> is the number of rounds left, \<open>fetch\<close> asks for the page
  from a start time, and \<open>merged\<close> is \<open>None\<close> before the first page.
\<close>

definition merge_page :: "RecordSegmentsResult option \<Rightarrow> RecordSegmentsResult \<Rightarrow> RecordSegmentsResult" where
  "merge_page merged result =
     (case merged of
        None \<Rightarrow> result
      | Some m \<Rightarrow> m\<lparr>rs_records := rs_records m @ rs_records result, rs_has_more := rs_has_more result,
          rs_next_file_time := rs_next_file_time result\<rparr>)"

fun record_pages ::
  "nat \<Rightarrow> (int \<Rightarrow> ('w, RecordSegmentsResult) ez) \<Rightarrow> int \<Rightarrow> int \<Rightarrow> RecordSegmentsResult option \<Rightarrow>
   ('w, RecordSegmentsResult) ez" where
  "record_pages 0 fetch endTime nextStart merged =
     ez_return (case merged of Some m \<Rightarrow> m | None \<Rightarrow> no_records)"
| "record_pages (Suc pages) fetch endTime nextStart merged =
     ez_bind (fetch nextStart) (\<lambda>result.
       let m = merge_page merged result;
           further = (rs_next_file_time result > nextStart \<and> rs_next_file_time result \<le> endTime)
       in if \<not> rs_has_more result \<or> \<not> further
          then ez_return (m\<lparr>rs_has_more := rs_has_more result \<and> further,
                 rs_next_file_time := rs_next_file_time result\<rparr>)
          else record_pages pages fetch endTime (rs_next_file_time result) (Some m))"

definition callRecordSegmentsPages ::
  "'w ez_env \<Rightarrow> Account \<Rightarrow> string \<Rightarrow> int \<Rightarrow> int \<Rightarrow> int \<Rightarrow> int \<Rightarrow> string \<Rightarrow> ('w, RecordSegmentsResult) ez" where
  "callRecordSegmentsPages env account deviceSerial channelNo startTime endTime pageSize token =
     record_pages 20
       (\<lambda>nextStart. callRecordSegments env account token deviceSerial channelNo nextStart endTime pageSize)
       endTime startTime None"

definition page_size_of :: "int \<Rightarrow> int" where
  "page_size_of n = (let n1 = (if n \<le> 0 then 50 else n) in if n1 > 500 then 500 else n1)"

definition ez_QueryRecordSegments :: "'w ez_env \<Rightarrow> Account \<Rightarrow> RecordSegmentsQuery \<Rightarrow> ('w, RecordSegmentsResult) ez" where
  "ez_QueryRecordSegments env account input s =
     (let serial = to_upper (trim_space (rq_device_serial input)) in
      if serial = [] then ez_fail (EzInput ''deviceSerial'') s
      else if rq_channel_no input \<le> 0 then ez_fail (EzInput ''channelNo'') s
      else case dayRange (net_now env (st_world s)) (rq_date input) of
        (startTime, endTime) \<Rightarrow>
          retry_with_token env account
            (callRecordSegmentsPages env account serial (rq_channel_no input) startTime endTime
              (page_size_of (rq_page_size input))) s)"

end
