(* ===== verification/EZ_Props.thy ===== *)
theory EZ_Props
  imports EZ_Records
begin

text \<open>
  What the client of the Ezviz platform guarantees: the number of requests of a call, the recordings it
  collects, the tokens it reuses and the secrets it keeps out of its error messages.
\<close>

section \<open>How many requests a call makes\<close>

text \<open>The same network, with a list of the requests so far beside its world.\<close>

definition logged_net :: "'w ez_env \<Rightarrow> (ez_request list \<times> 'w) ez_env" where
  "logged_net env =
     \<lparr>net_base = net_base env,
      net_do = (\<lambda>request (log, w). case net_do env request w of (answer, w') \<Rightarrow> (answer, log @ [request], w')),
      net_now = (\<lambda>(log, w). net_now env w)\<rparr>"

definition sent :: "(ez_request list \<times> 'w) ez_state \<Rightarrow> ez_request list" where
  "sent s = fst (st_world s)"

text \<open>\<open>sends k m\<close>: the action \<open>m\<close> appends at most \<open>k\<close> requests to the list.\<close>

definition sends :: "nat \<Rightarrow> ((ez_request list \<times> 'w), 'a) ez \<Rightarrow> bool" where
  "sends k m \<longleftrightarrow> (\<forall>s. \<exists>new. sent (snd (m s)) = sent s @ new \<and> length new \<le> k)"

lemma sendsI: "(\<And>s. \<exists>new. sent (snd (m s)) = sent s @ new \<and> length new \<le> k) \<Longrightarrow> sends k m"
  by (simp add: sends_def)

lemma sends_return [intro]: "sends 0 (ez_return x)"
  by (simp add: sends_def ez_return_def)

lemma sends_fail [intro]: "sends 0 (ez_fail e)"
  by (simp add: sends_def ez_fail_def)

lemma sends_mono: "sends j m \<Longrightarrow> j \<le> k \<Longrightarrow> sends k m"
  unfolding sends_def by (meson le_trans)

lemma sends_sequel:
  assumes "sent s' = sent s @ new" "length new \<le> j" "sends k m'"
  shows "\<exists>new. sent (snd (m' s')) = sent s @ new \<and> length new \<le> j + k"
proof -
  obtain new' where "sent (snd (m' s')) = sent s' @ new'" "length new' \<le> k"
    using assms(3) unfolding sends_def by blast
  then show ?thesis using assms(1,2) by (intro exI [of _ "new @ new'"]) simp
qed

lemma sends_bind:
  assumes m: "sends j m" and f: "\<And>x. sends k (f x)"
  shows "sends (j + k) (ez_bind m f)"
proof (rule sendsI)
  fix s
  obtain new where new: "sent (snd (m s)) = sent s @ new" "length new \<le> j"
    using m unfolding sends_def by blast
  obtain r s' where r: "m s = (r, s')" by (cases "m s")
  then have "\<exists>new. sent (snd (f x s')) = sent s @ new \<and> length new \<le> j + k" for x
    using sends_sequel [OF _ new(2) f] new(1) by simp
  then show "\<exists>new. sent (snd (ez_bind m f s)) = sent s @ new \<and> length new \<le> j + k"
    using new r by (cases r) (auto simp: ez_bind_def intro: exI [of _ new])
qed

lemma sends_catch:
  assumes m: "sends j m" and h: "\<And>e. sends k (h e)"
  shows "sends (j + k) (ez_catch m h)"
proof (rule sendsI)
  fix s
  obtain new where new: "sent (snd (m s)) = sent s @ new" "length new \<le> j"
    using m unfolding sends_def by blast
  obtain r s' where r: "m s = (r, s')" by (cases "m s")
  then have "\<exists>new. sent (snd (h e s')) = sent s @ new \<and> length new \<le> j + k" for e
    using sends_sequel [OF _ new(2) h] new(1) by simp
  then show "\<exists>new. sent (snd (ez_catch m h s)) = sent s @ new \<and> length new \<le> j + k"
    using new r by (cases r) (auto simp: ez_catch_def intro: exI [of _ new])
qed

lemma sends_send: "sends 1 (send (logged_net env) request limit)"
  by (rule sendsI) (auto simp: send_def logged_net_def sent_def split: prod.splits option.splits)

lemma sends_checked_data: "sends 0 (checked_data account response)"
  by (auto simp: checked_data_def)

lemma sends_meta: "sends 0 (meta_result shown account dec zero answer)"
  by (auto simp: meta_result_def split: prod.splits option.splits)

lemma sends_postForm: "sends 1 (postForm (logged_net env) path form dec target)"
proof -
  have "sends (1 + 0) (postForm (logged_net env) path form dec target)"
    unfolding postForm_def by (rule sends_bind [OF sends_send]) (auto split: option.splits)
  then show ?thesis by simp
qed

lemma sends_refreshToken: "sends 1 (refreshToken (logged_net env) account)"
proof -
  have "sends (1 + 0) (refreshToken (logged_net env) account)"
    unfolding refreshToken_def
    by (rule sends_bind [OF sends_postForm], rule sendsI)
      (auto simp: Let_def ez_fail_def ez_return_def sent_def)
  then show ?thesis by simp
qed

lemma sends_accessToken: "sends 1 (accessToken (logged_net env) account)"
proof (rule sendsI)
  fix s :: "(ez_request list \<times> 'a) ez_state"
  obtain new where "sent (snd (refreshToken (logged_net env) account s)) = sent s @ new" "length new \<le> 1"
    using sends_refreshToken unfolding sends_def by blast
  then show "\<exists>new. sent (snd (accessToken (logged_net env) account s)) = sent s @ new \<and> length new \<le> 1"
    by (auto simp: accessToken_def ez_return_def split: option.splits)
qed

lemma sends_call_with_token: "sends 4 (call_with_token (logged_net env) account path form dec zero)"
proof -
  have "sends (1 + 1) (ez_bind (refreshToken (logged_net env) account)
      (\<lambda>token'. postForm (logged_net env) path (form token') (dec_response dec) r))" for r
    by (rule sends_bind [OF sends_refreshToken sends_postForm])
  then have again: "sends 2 (if p then ez_bind (refreshToken (logged_net env) account)
      (\<lambda>token'. postForm (logged_net env) path (form token') (dec_response dec) r) else ez_return r)" for p r
    by (auto intro: sends_mono [OF sends_return] simp: numeral_2_eq_2)
  have "sends (1 + (1 + 2)) (call_with_token (logged_net env) account path form dec zero)"
    unfolding call_with_token_def
    by (rule sends_bind [OF sends_accessToken], rule sends_bind [OF sends_postForm again])
  then show ?thesis by (rule sends_mono) simp
qed

lemma sends_record_pages:
  assumes "\<And>start. sends 1 (fetch start)"
  shows "sends n (record_pages n fetch endTime start merged)"
proof (induction n arbitrary: start merged)
  case 0
  then show ?case by (auto split: option.splits)
next
  case (Suc n)
  have "sends (1 + n) (record_pages (Suc n) fetch endTime start merged)"
    unfolding record_pages.simps
    by (rule sends_bind [OF assms]) (use Suc in \<open>auto simp: Let_def intro: sends_mono [OF sends_return]\<close>)
  then show ?case by simp
qed

lemma sends_retry:
  assumes "\<And>token. sends n (call token)"
  shows "sends (n + n + 2) (retry_with_token (logged_net env) account call)"
proof -
  have again: "sends (1 + n) (if \<not> isTokenError e then ez_fail e
      else ez_bind (refreshToken (logged_net env) account) call)" for e
    using sends_bind [OF sends_refreshToken assms] by (auto intro: sends_mono [OF sends_fail])
  have "sends (1 + (n + (1 + n))) (retry_with_token (logged_net env) account call)"
    unfolding retry_with_token_def
    by (rule sends_bind [OF sends_accessToken], rule sends_catch [OF assms again])
  then show ?thesis by (rule sends_mono) simp
qed

lemma sends_callRecordSegments:
  "sends 1 (callRecordSegments (logged_net env) account token serial channel start endTime size1)"
proof -
  have "sends (1 + 0) (callRecordSegments (logged_net env) account token serial channel start endTime size1)"
    unfolding callRecordSegments_def by (rule sends_bind [OF sends_send sends_meta])
  then show ?thesis by simp
qed

text \<open>
  C16. A query for the recordings of a day ends after at most 42 requests, whatever the platform answers:
  one token, twenty pages, and once more a token and twenty pages if the first token turns out expired.
\<close>

theorem record_query_terminates:
  "\<exists>new. sent (snd (ez_QueryRecordSegments (logged_net env) account input s)) = sent s @ new \<and> length new \<le> 42"
proof -
  have fail: "\<exists>new. sent (snd (ez_fail e s)) = sent s @ new \<and> length new \<le> 42" for e
    by (simp add: ez_fail_def)
  have "sends 42 (retry_with_token (logged_net env) account
      (callRecordSegmentsPages (logged_net env) account serial channel start endTime size1))"
    for serial channel start endTime size1
    unfolding callRecordSegmentsPages_def
    using sends_retry [OF sends_record_pages [OF sends_callRecordSegments, of 20]] by simp
  then show ?thesis
    unfolding ez_QueryRecordSegments_def Let_def sends_def
    using fail by (auto split: prod.splits)
qed

text \<open>Every other call ends after at most four.\<close>

lemma form_calls_end:
  "sends 4 (CameraList (logged_net env) account serial)"
  "sends 4 (ez_Capture (logged_net env) account serial channel)"
  "sends 4 (ez_LiveAddress (logged_net env) account live)"
  "sends 4 (ez_PlaybackAddress (logged_net env) account playback)"
  "sends 4 (ez_DisableLiveAddress (logged_net env) account disable)"
  "sends 4 (ez_EnsureAACTransfer (logged_net env) account serial channel)"
proof -
  have checked: "sends (4 + 0) (ez_bind (call_with_token (logged_net env) account path form dec zero) (checked_data account))"
    for path form and dec :: "'d decoder" and zero
    by (rule sends_bind [OF sends_call_with_token sends_checked_data])
  have url: "sends 0 (with_url what address)" for what address
    by (auto simp: with_url_def)
  show "sends 4 (CameraList (logged_net env) account serial)" "sends 4 (ez_Capture (logged_net env) account serial channel)"
    using checked unfolding CameraList_def ez_Capture_def by simp_all
  have address: "sends 4 (ez_bind (ez_bind (call_with_token (logged_net env) account path form dec_address no_address)
      (checked_data account)) (with_url what))" for path form what
    using sends_bind [OF checked url] by simp
  then show "sends 4 (ez_LiveAddress (logged_net env) account live)"
    "sends 4 (ez_PlaybackAddress (logged_net env) account playback)"
    unfolding ez_LiveAddress_def ez_PlaybackAddress_def by (auto intro: sends_mono [OF sends_fail])
  show "sends 4 (ez_DisableLiveAddress (logged_net env) account disable)"
    using checked unfolding ez_DisableLiveAddress_def Let_def by (auto intro: sends_mono [OF sends_fail])
  have "sends (1 + 0) (callAACTransfer (logged_net env) account serial' channel' token)" for serial' channel' token
    unfolding callAACTransfer_def by (rule sends_bind [OF sends_send sends_meta])
  from sends_retry [OF this]
  have "sends 4 (retry_with_token (logged_net env) account (callAACTransfer (logged_net env) account serial' channel'))"
    for serial' channel' by (rule sends_mono) simp
  then show "sends 4 (ez_EnsureAACTransfer (logged_net env) account serial channel)"
    unfolding ez_EnsureAACTransfer_def Let_def by (auto intro: sends_mono [OF sends_fail])
qed

section \<open>The recordings of a day\<close>

text \<open>
  What the loop over the pages goes through: \<open>page_run fetch endTime start w pages start' w'\<close> says that
  the pages, each with the time it was asked from, were fetched one after another, each from the time the page before
  it named, and that the next is asked from \<open>start'\<close>.
\<close>

definition goes_on :: "int \<Rightarrow> int \<Rightarrow> RecordSegmentsResult \<Rightarrow> bool" where
  "goes_on endTime start page \<longleftrightarrow> rs_has_more page \<and> start < rs_next_file_time page \<and> rs_next_file_time page \<le> endTime"

inductive page_run ::
  "(int \<Rightarrow> ('w, RecordSegmentsResult) ez) \<Rightarrow> int \<Rightarrow> int \<Rightarrow> 'w ez_state \<Rightarrow> (int \<times> RecordSegmentsResult) list \<Rightarrow>
   int \<Rightarrow> 'w ez_state \<Rightarrow> bool"
  for fetch endTime where
  no_page: "page_run fetch endTime start s [] start s"
| one_page: "fetch start s = (Inr page, s1) \<Longrightarrow> goes_on endTime start page \<Longrightarrow>
    page_run fetch endTime (rs_next_file_time page) s1 pages start' s' \<Longrightarrow>
    page_run fetch endTime start s ((start, page) # pages) start' s'"

lemma page_run_times:
  "page_run fetch endTime start s pages start' s' \<Longrightarrow>
     sorted_wrt (<) (map fst pages @ [start']) \<and>
     list_all (\<lambda>t. start \<le> t \<and> t \<le> max start endTime) (map fst pages @ [start'])"
  by (induction rule: page_run.induct) (auto simp: goes_on_def list_all_iff)

text \<open>The result that the pages and the last of them make.\<close>

definition pages_collected :: "RecordSegmentsResult list \<Rightarrow> RecordSegmentsResult \<Rightarrow> RecordSegmentsResult \<Rightarrow> bool" where
  "pages_collected pages page m \<longleftrightarrow>
     rs_records m = concat (map rs_records (pages @ [page])) \<and>
     rs_next_file_time m = rs_next_file_time page \<and>
     (let head = hd (pages @ [page])
      in rs_from_nvr m = rs_from_nvr head \<and> rs_device_serial m = rs_device_serial head \<and>
         rs_local_index m = rs_local_index head)"

definition so_far :: "'a option \<Rightarrow> 'a list" where
  "so_far merged = (case merged of None \<Rightarrow> [] | Some m \<Rightarrow> [m])"

lemma merge_page_fields [simp]:
  "rs_records (merge_page merged page) = concat (map rs_records (so_far merged @ [page]))"
  "rs_next_file_time (merge_page merged page) = rs_next_file_time page"
  "rs_has_more (merge_page merged page) = rs_has_more page"
  "rs_from_nvr (merge_page merged page) = rs_from_nvr (hd (so_far merged @ [page]))"
  "rs_device_serial (merge_page merged page) = rs_device_serial (hd (so_far merged @ [page]))"
  "rs_local_index (merge_page merged page) = rs_local_index (hd (so_far merged @ [page]))"
  by (simp_all add: merge_page_def so_far_def split: option.split)

lemma collected_step: "pages_collected (so_far (Some (merge_page merged page0)) @ pages) page m \<Longrightarrow> pages_collected (so_far merged @ page0 # pages) page m"
  by (cases merged) (auto simp: pages_collected_def so_far_def Let_def)

lemma record_pages_run:
  assumes "record_pages (Suc n) fetch endTime start merged s = (r, s')"
  shows "\<exists>pages final s1. page_run fetch endTime start s pages final s1 \<and> length pages \<le> n \<and>
    (case fetch final s1 of
       (Inl e, s2) \<Rightarrow> r = Inl e \<and> s' = s2
     | (Inr page, s2) \<Rightarrow> s' = s2 \<and> (\<exists>m. r = Inr m \<and> pages_collected (so_far merged @ map snd pages) page m \<and>
         (rs_has_more m \<longleftrightarrow> goes_on endTime final page) \<and> (rs_has_more m \<longrightarrow> length pages = n)))"
  using assms
proof (induction n arbitrary: start merged s)
  case (0 start merged s)
  obtain x s2 where x: "fetch start s = (x, s2)" by fastforce
  show ?case
    using 0 no_page [of fetch endTime start s]
    by (intro exI [of _ "[]"] exI [of _ start] exI [of _ s])
      (auto simp: x ez_bind_def ez_return_def Let_def pages_collected_def so_far_def goes_on_def split: sum.splits if_splits)
next
  case (Suc n start merged s)
  obtain x s2 where x: "fetch start s = (x, s2)" by fastforce
  show ?case
  proof (cases "\<exists>page. x = Inr page \<and> goes_on endTime start page")
    case True
    then obtain page where page: "x = Inr page" "goes_on endTime start page" by blast
    have "record_pages (Suc n) fetch endTime (rs_next_file_time page) (Some (merge_page merged page)) s2 = (r, s')"
      using Suc.prems page unfolding record_pages.simps(2) [of "Suc n"]
      by (simp add: x ez_bind_def goes_on_def Let_def del: record_pages.simps)
    from Suc.IH [OF this] obtain pages final s1
      where run: "page_run fetch endTime (rs_next_file_time page) s2 pages final s1" "length pages \<le> n"
        and result: "case fetch final s1 of
           (Inl e, s2) \<Rightarrow> r = Inl e \<and> s' = s2
         | (Inr page', s2) \<Rightarrow> s' = s2 \<and> (\<exists>m. r = Inr m \<and>
             pages_collected (so_far (Some (merge_page merged page)) @ map snd pages) page' m \<and>
             (rs_has_more m \<longleftrightarrow> goes_on endTime final page') \<and> (rs_has_more m \<longrightarrow> length pages = n))"
      by (elim exE conjE) (rule that)
    have "page_run fetch endTime start s ((start, page) # pages) final s1"
      by (rule one_page [OF _ page(2) run(1)]) (simp add: x page(1))
    then show ?thesis
      using run(2) result
      by (intro exI [of _ "(start, page) # pages"] exI [of _ final] exI [of _ s1])
        (auto split: prod.splits sum.splits intro: collected_step)
  next
    case False
    then show ?thesis
      using Suc.prems no_page [of fetch endTime start s] unfolding record_pages.simps(2) [of "Suc n"]
      by (intro exI [of _ "[]"] exI [of _ start] exI [of _ s])
        (auto simp: x ez_bind_def ez_return_def Let_def pages_collected_def so_far_def goes_on_def simp del: record_pages.simps
          split: sum.splits if_splits)
  qed
qed

text \<open>
  C25. The recordings of a day over any network.  The client fetches a first page from the start of the day and
  every further one from the time the page before it named, later than the page's own and not after the end
  of the day; at most 20 pages in all.  The result holds the records of all these pages, in the order they
  came, and what the first page says of the device; it claims that there are more exactly when the last page named a
  time to go on from, which happens only after 20 pages.  When a page fails, its error is the result.
\<close>

theorem recordings_collected:
  assumes "callRecordSegmentsPages env account deviceSerial channelNo startTime endTime pageSize token s = (r, s')"
  shows "\<exists>pages final s1.
    page_run (\<lambda>start. callRecordSegments env account token deviceSerial channelNo start endTime pageSize)
      endTime startTime s pages final s1 \<and>
    length pages < 20 \<and> sorted_wrt (<) (map fst pages @ [final]) \<and>
    list_all (\<lambda>t. startTime \<le> t \<and> t \<le> max startTime endTime) (map fst pages @ [final]) \<and>
    (case callRecordSegments env account token deviceSerial channelNo final endTime pageSize s1 of
       (Inl e, s2) \<Rightarrow> r = Inl e \<and> s' = s2
     | (Inr page, s2) \<Rightarrow> s' = s2 \<and> (\<exists>m. r = Inr m \<and> pages_collected (map snd pages) page m \<and>
         (rs_has_more m \<longleftrightarrow> goes_on endTime final page) \<and> (rs_has_more m \<longrightarrow> length pages = 19)))"
proof -
  let ?fetch = "\<lambda>start. callRecordSegments env account token deviceSerial channelNo start endTime pageSize"
  have "record_pages (Suc 19) ?fetch endTime startTime None s = (r, s')"
    using assms by (simp add: callRecordSegmentsPages_def eval_nat_numeral)
  from record_pages_run [OF this, unfolded so_far_def option.case append_Nil] obtain pages final s1
    where run: "page_run ?fetch endTime startTime s pages final s1" and few: "length pages \<le> 19"
      and result: "case ?fetch final s1 of (Inl e, s2) \<Rightarrow> r = Inl e \<and> s' = s2
       | (Inr page, s2) \<Rightarrow> s' = s2 \<and> (\<exists>m. r = Inr m \<and> pages_collected (map snd pages) page m \<and>
           (rs_has_more m \<longleftrightarrow> goes_on endTime final page) \<and> (rs_has_more m \<longrightarrow> length pages = 19))"
    by (elim exE conjE) (rule that)
  have "length pages < 20" using few by simp
  then show ?thesis using run page_run_times [OF run] result
    by (intro exI [of _ pages] exI [of _ final] exI [of _ s1] conjI) simp_all
qed

section \<open>Secrets in error messages\<close>

definition markerless :: "string \<Rightarrow> bool" where
  "markerless secret \<longleftrightarrow> secret \<noteq> [] \<and> CHR ''*'' \<notin> set secret \<and> \<not> contains ''REDACTED'' secret"

lemma replaced_prefix:
  "replace_all s old redacted_text = x @ b \<Longrightarrow> CHR ''*'' \<notin> set x \<Longrightarrow> \<exists>b'. s = x @ b'"
proof (induction s old redacted_text arbitrary: x rule: replace_all.induct)
  case (2 c s old)
  show ?case
  proof (cases x)
    case (Cons d y)
    have "\<not> (old \<noteq> [] \<and> has_prefix (c # s) old)"
      using 2(3,4) Cons by (auto simp: redacted_text_def)
    then show ?thesis using 2 Cons by auto
  qed simp
qed simp

lemma in_marker:
  assumes "redacted_text @ rest = a @ x @ b" "length a < length redacted_text" "markerless x"
  shows False
proof -
  have x: "x \<noteq> []" "CHR ''*'' \<notin> set x" "\<not> contains ''REDACTED'' x" using assms(3) by (simp_all add: markerless_def)
  have nth: "(redacted_text @ rest) ! (length a + i) = x ! i" if "i < length x" for i
    using that assms(1) by (simp add: nth_append)
  have len: "length redacted_text = 14" by (simp add: redacted_text_def)
  have stop: "length a + length x \<le> 11"
  proof (rule ccontr)
    assume "\<not> length a + length x \<le> 11"
    then have "(if length a \<le> 11 then 11 - length a else 0) < length x"
      "length a + (if length a \<le> 11 then 11 - length a else 0) \<in> {11, 12, 13}"
      using assms(2) x(1) unfolding len by auto
    then obtain i where "i < length x" "length a + i \<in> {11, 12, 13}" by blast
    moreover have "(redacted_text @ rest) ! j = CHR ''*''" if "j \<in> {11, 12, 13}" for j
      using that by (auto simp: redacted_text_def)
    ultimately show False using nth x(2) by (metis nth_mem)
  qed
  have start: "3 \<le> length a"
  proof (rule ccontr)
    assume "\<not> 3 \<le> length a"
    then have "(redacted_text @ rest) ! (length a + 0) = CHR ''*''"
      by (cases "length a = 0"; cases "length a = 1"; cases "length a = 2") (auto simp: redacted_text_def)
    then show False using nth [of 0] x by (metis length_greater_0_conv nth_mem)
  qed
  have cut_off: "take (length x) (drop (length a) (u @ v)) = take (length x) (drop (length a) u)" if "length u = 11"
    for u v :: string using stop that by simp
  have "x = take (length x) (drop (length a) (redacted_text @ rest))" using assms(1) by simp
  also have "redacted_text @ rest = ''***REDACTED'' @ (''***'' @ rest)" by (simp add: redacted_text_def)
  also have "take (length x) (drop (length a) \<dots>) = take (length x) (drop (length a) (''***'' @ ''REDACTED''))"
    by (subst cut_off) simp_all
  also have "drop (length a) (''***'' @ ''REDACTED'') = drop (length a - 3) ''REDACTED''"
    using start by (simp only: drop_append) (simp add: numeral_3_eq_3)
  finally have "x = take (length x) (drop (length a - 3) ''REDACTED'')" .
  then have "''REDACTED'' = take (length a - 3) ''REDACTED'' @ x @ drop (length x) (drop (length a - 3) ''REDACTED'')"
    by (metis append_take_drop_id)
  then show False using x(3) contains_iff by blast
qed

lemma replaced_inside:
  "replace_all s old redacted_text = a @ x @ b \<Longrightarrow> markerless x \<Longrightarrow> contains s x"
proof (induction s old redacted_text arbitrary: a rule: replace_all.induct)
  case (1 old)
  then show ?case by (simp add: markerless_def)
next
  case (2 c s old)
  show ?case
  proof (cases "old \<noteq> [] \<and> has_prefix (c # s) old")
    case True
    let ?R = "replace_all (drop (length old - 1) s) old redacted_text"
    have R: "redacted_text @ ?R = a @ x @ b" using 2(3) True by simp
    then have "length redacted_text \<le> length a" using in_marker 2(4) by (metis not_le)
    then have "?R = drop (length redacted_text) a @ x @ b"
      using R by (metis append_eq_append_conv_if append_eq_conv_conj)
    then have "contains (drop (length old - 1) s) x" using 2(1,4) True by blast
    then obtain a' b' where "drop (length old - 1) s = a' @ x @ b'" by (auto simp: contains_iff)
    then have "c # s = (c # take (length old - 1) s @ a') @ x @ b'" by (metis append_Cons append_assoc append_take_drop_id)
    then show ?thesis unfolding contains_iff by blast
  next
    case False
    then have R: "c # replace_all s old redacted_text = a @ x @ b" using 2(3) by auto
    show ?thesis
    proof (cases a)
      case Nil
      then have "replace_all (c # s) old redacted_text = x @ b" using 2(3) by simp
      then obtain b' where "c # s = x @ b'" using replaced_prefix 2(4) unfolding markerless_def by blast
      then show ?thesis unfolding contains_iff by (metis append_Nil)
    next
      case (Cons d a')
      then have "contains s x" using 2(2) [OF False] R 2(4) by simp
      then obtain u v where "s = u @ x @ v" by (auto simp: contains_iff)
      then show ?thesis unfolding contains_iff by (metis append_Cons)
    qed
  qed
qed

lemma replaced_gone:
  "markerless old \<Longrightarrow> \<not> contains (replace_all s old redacted_text) old"
proof (induction s old redacted_text rule: replace_all.induct)
  case (2 c s old)
  show ?case
  proof
    assume "contains (replace_all (c # s) old redacted_text) old"
    then obtain a b where ab: "replace_all (c # s) old redacted_text = a @ old @ b" by (auto simp: contains_iff)
    show False
    proof (cases "old \<noteq> [] \<and> has_prefix (c # s) old")
      case True
      let ?R = "replace_all (drop (length old - 1) s) old redacted_text"
      have R: "redacted_text @ ?R = a @ old @ b" using ab True by simp
      then have "length redacted_text \<le> length a" using in_marker 2(3) by (metis not_le)
      then have "?R = drop (length redacted_text) a @ old @ b"
        using R by (metis append_eq_append_conv_if append_eq_conv_conj)
      then show False using 2(1) [OF True 2(3)] contains_iff by blast
    next
      case False
      then have R: "c # replace_all s old redacted_text = a @ old @ b" using ab by auto
      show False
      proof (cases a)
        case Nil
        then obtain b' where "c # s = old @ b'"
          using replaced_prefix [of "c # s" old old b] ab 2(3) unfolding markerless_def by auto
        then show False using False 2(3) unfolding markerless_def has_prefix_iff by blast
      next
        case (Cons d a')
        then show False using 2(2) [OF False 2(3)] R contains_iff by fastforce
      qed
    qed
  qed
qed (simp add: contains_def markerless_def)

lemma redact_step:
  assumes "markerless x" "\<not> contains s x"
  shows "\<not> contains (if p then replace_all s old redacted_text else s) x"
  using assms replaced_inside unfolding contains_iff by (metis (full_types))

lemma redact_hides:
  assumes "secret \<in> {ez_app_key account, ez_app_secret account, ez_access_token account}"
    and "markerless (trim_space secret)"
  shows "\<not> contains (redact msg account) (trim_space secret)"
proof -
  let ?x = "trim_space secret"
  define cut where "cut secret0 t =
    (if trim_space secret0 \<noteq> [] then replace_all t (trim_space secret0) redacted_text else t)" for secret0 t
  have gone: "\<not> contains (cut secret t) ?x" for t
    using replaced_gone assms(2) by (simp add: cut_def markerless_def)
  have stays: "\<not> contains (cut other t) ?x" if "\<not> contains t ?x" for other t
    unfolding cut_def by (rule redact_step [OF assms(2) that])
  have message: "redact msg account =
      cut (ez_access_token account) (cut (ez_app_secret account) (cut (ez_app_key account) msg))"
    by (simp add: redact_def cut_def Let_def)
  have "cut (ez_app_key account) = cut secret \<or> cut (ez_app_secret account) = cut secret \<or>
      cut (ez_access_token account) = cut secret"
    using assms(1) by auto
  then show ?thesis
    unfolding message by (elim disjE) (simp_all add: gone stays)
qed

text \<open>\<open>hides ok m\<close>: a message of the platform that \<open>m\<close> returns as its error is \<open>ok\<close>.\<close>

definition hides :: "(string \<Rightarrow> bool) \<Rightarrow> ('w, 'a) ez \<Rightarrow> bool" where
  "hides ok m \<longleftrightarrow> (\<forall>s code msg s'. m s = (Inl (EzApi code msg), s') \<longrightarrow> ok msg)"

lemma hides_return [intro]: "hides ok (ez_return y)"
  by (simp add: hides_def ez_return_def)

lemma hides_fail [intro]: "(\<And>code msg. e = EzApi code msg \<Longrightarrow> ok msg) \<Longrightarrow> hides ok (ez_fail e)"
  by (simp add: hides_def ez_fail_def)

lemma hides_bind: "hides ok m \<Longrightarrow> (\<And>y. hides ok (f y)) \<Longrightarrow> hides ok (ez_bind m f)"
  unfolding hides_def ez_bind_def by (auto split: prod.splits sum.splits)

lemma hides_if: "hides ok m \<Longrightarrow> hides ok m' \<Longrightarrow> hides ok (if p then m else m')"
  by simp

lemma hides_at: "(\<And>s. \<exists>m'. hides ok m' \<and> m s = m' s) \<Longrightarrow> hides ok m"
  unfolding hides_def by metis

lemma hides_send: "hides ok (send env request limit)"
  by (auto simp: hides_def send_def split: prod.splits option.splits)

lemma hides_postForm: "hides ok (postForm env path form dec target)"
  unfolding postForm_def by (rule hides_bind [OF hides_send]) (auto split: option.splits)

lemma hides_with_url: "hides ok (with_url what address)"
  by (auto simp: with_url_def)

text \<open>
  What the calls of the client rely on: a message that was redacted for the account is \<open>ok\<close>.
\<close>

locale redaction =
  fixes account :: Account and ok :: "string \<Rightarrow> bool"
  assumes redacted_ok: "ok (redact msg account)"
begin

lemma hides_api: "hides ok (ez_fail (api_error response account))"
  by (rule hides_fail) (auto simp: api_error_def redacted_ok)

lemma hides_checked: "hides ok (checked_data account response)"
  by (auto simp: checked_data_def hides_api)

lemma hides_meta: "hides ok (meta_result shown account dec zero answer)"
  by (auto simp: meta_result_def redacted_ok split: prod.splits option.splits)

lemma hides_refreshToken: "hides ok (refreshToken env account)"
  unfolding refreshToken_def
  by (rule hides_bind [OF hides_postForm])
    (auto simp: hides_def ez_fail_def ez_return_def api_error_def redacted_ok Let_def split: if_splits)

lemma hides_accessToken: "hides ok (accessToken env account)"
  by (rule hides_at, auto simp: accessToken_def split: option.splits intro: hides_refreshToken)

lemma hides_call_with_token: "hides ok (call_with_token env account path form dec zero)"
  unfolding call_with_token_def
  by (intro hides_bind hides_if hides_accessToken hides_postForm hides_refreshToken hides_return)

lemma hides_checked_call: "hides ok (ez_bind (call_with_token env account path form dec zero) (checked_data account))"
  by (rule hides_bind [OF hides_call_with_token hides_checked])

lemma hides_retry:
  assumes call: "\<And>token. hides ok (call token)"
  shows "hides ok (retry_with_token env account call)"
  unfolding retry_with_token_def
proof (rule hides_bind [OF hides_accessToken])
  fix token
  have again: "hides ok (ez_bind (refreshToken env account) call)"
    by (rule hides_bind [OF hides_refreshToken call])
  show "hides ok (ez_catch (call token) (\<lambda>e.
      if \<not> isTokenError e then ez_fail e else ez_bind (refreshToken env account) call))"
    using call [of token] again unfolding hides_def ez_catch_def ez_fail_def
    by (auto split: prod.splits sum.splits if_splits)
qed

lemma hides_record_pages:
  assumes "\<And>start. hides ok (fetch start)"
  shows "hides ok (record_pages n fetch endTime start merged)"
proof (induction n arbitrary: start merged)
  case (Suc n)
  show ?case unfolding record_pages.simps
    by (rule hides_bind [OF assms]) (auto simp: Let_def Suc.IH)
qed auto

end

text \<open>None of the secrets of the account occurs in a message, unless it looks like the text that replaces them.\<close>

definition conceals :: "Account \<Rightarrow> string \<Rightarrow> bool" where
  "conceals account msg \<longleftrightarrow>
     list_all (\<lambda>secret. \<not> (markerless (trim_space secret) \<and> contains msg (trim_space secret)))
       [ez_app_key account, ez_app_secret account, ez_access_token account]"

interpretation client_errors: redaction account "conceals account" for account
  by unfold_locales (auto simp: conceals_def dest: redact_hides [rotated])

text \<open>
  C32. When a call of the client ends with an error of the platform, the message in it shows none of the secrets
  of the account: neither the key nor the secret nor the configured token occurs in it, whatever the platform
  answered.  Left out are secrets that are blank, have an asterisk or lie inside the text that replaces them.  The
  property is of the messages of the platform, not of the body of a refused HTTP request, which the client passes
  on as it is.
\<close>

theorem secrets_redacted:
  "hides (conceals account) (CameraList env account serial) \<and>
   hides (conceals account) (ez_Capture env account serial channel) \<and>
   hides (conceals account) (ez_LiveAddress env account live) \<and>
   hides (conceals account) (ez_PlaybackAddress env account playback) \<and>
   hides (conceals account) (ez_DisableLiveAddress env account disable) \<and>
   hides (conceals account) (ez_EnsureAACTransfer env account serial channel) \<and>
   hides (conceals account) (ez_QueryRecordSegments env account query)"
proof (intro conjI)
  let ?hides = "\<lambda>m. hides (conceals account) m"
  note checked = client_errors.hides_checked_call and input = hides_fail [of "EzInput _"]
  have address: "?hides (ez_bind (ez_bind (call_with_token env account path form dec_address no_address)
      (checked_data account)) (with_url what))" for path form what
    by (rule hides_bind [OF checked hides_with_url])
  show "?hides (CameraList env account serial)" "?hides (ez_Capture env account serial channel)"
    unfolding CameraList_def ez_Capture_def by (rule checked)+
  show "?hides (ez_LiveAddress env account live)"
    unfolding ez_LiveAddress_def by (rule address)
  show "?hides (ez_PlaybackAddress env account playback)"
    unfolding ez_PlaybackAddress_def using address by (auto intro!: hides_if)
  show "?hides (ez_DisableLiveAddress env account disable)"
    unfolding ez_DisableLiveAddress_def Let_def using checked by (auto intro!: hides_if)
  have "?hides (callAACTransfer env account serial' channel' token)" for serial' channel' token
    unfolding callAACTransfer_def by (rule hides_bind [OF hides_send client_errors.hides_meta])
  then have "?hides (retry_with_token env account (callAACTransfer env account serial' channel'))"
    for serial' channel' by (rule client_errors.hides_retry)
  then show "?hides (ez_EnsureAACTransfer env account serial channel)"
    unfolding ez_EnsureAACTransfer_def Let_def by (auto intro!: hides_if)
  have "?hides (callRecordSegments env account token serial' channel' start endTime size1)"
    for token serial' channel' start endTime size1
    unfolding callRecordSegments_def by (rule hides_bind [OF hides_send client_errors.hides_meta])
  then have "?hides (callRecordSegmentsPages env account serial' channel' start endTime size1 token)"
    for token serial' channel' start endTime size1
    unfolding callRecordSegmentsPages_def by (rule client_errors.hides_record_pages)
  then have "?hides (retry_with_token env account (callRecordSegmentsPages env account serial' channel' start endTime size1))"
    for serial' channel' start endTime size1 by (rule client_errors.hides_retry)
  then show "?hides (ez_QueryRecordSegments env account query)"
    by (intro hides_at) (auto simp: ez_QueryRecordSegments_def Let_def split: prod.split intro!: hides_fail, blast)
qed

text \<open>A platform that shows the secret, and the error the client makes of its answer.\<close>

definition demo_account :: Account where
  "demo_account = \<lparr>ez_name = ''east'', ez_app_key = ''k9'', ez_app_secret = ''s3cret'', ez_access_token = ''t0''\<rparr>"

definition demo_net :: "string list \<Rightarrow> nat ez_env" where
  "demo_net answers =
     \<lparr>net_base = ''b'', net_do = (\<lambda>_ n. (if n < length answers then Some (200, answers ! n) else None, Suc n)), net_now = (\<lambda>_. 0)\<rparr>"

lemma secret_shown_redacted:
  "fst (CameraList (demo_net [''{\"code\":\"5\",\"msg\":\"no s3cret\"}'']) demo_account ''d'' \<lparr>st_tokens = [], st_world = 0\<rparr>) =
     Inl (EzApi ''5'' ''no ***REDACTED***'')"
  by code_simp

text \<open>Two pages, the second of which is the last.\<close>

definition demo_pages :: "nat ez_env" where
  "demo_pages = demo_net [''{\"meta\":{\"code\":200},\"data\":{\"hasMore\":true,\"nextFileTime\":7}}'', ''{\"meta\":{\"code\":200}}'']"

lemma demo_pages_collected:
  "callRecordSegmentsPages demo_pages demo_account ''d'' 1 5 9 50 ''t0'' \<lparr>st_tokens = [], st_world = 0\<rparr> =
     (Inr no_records, \<lparr>st_tokens = [], st_world = 2\<rparr>)"
  by code_simp

theorem recordings_collected_witness:
  "\<exists>pages final s1.
    page_run (\<lambda>start. callRecordSegments demo_pages demo_account ''t0'' ''d'' 1 start 9 50) 9 5
      \<lparr>st_tokens = [], st_world = 0\<rparr> pages final s1 \<and>
    snd (callRecordSegments demo_pages demo_account ''t0'' ''d'' 1 final 9 50 s1) = \<lparr>st_tokens = [], st_world = 2\<rparr>"
proof -
  have "snd x = s'" if "case x of (Inl e, s2) \<Rightarrow> Inr no_records = Inl e \<and> s' = s2 | (Inr page, s2) \<Rightarrow> s' = s2 \<and> P page" for x s' P
    using that by (auto split: prod.splits sum.splits)
  then show ?thesis using recordings_collected [OF demo_pages_collected] by (elim exE conjE) (intro exI conjI)
qed

section \<open>Tokens\<close>

text \<open>
  A token that was fetched is used again without a request until an hour before it expires, by every
  account of the same name.
\<close>

lemma token_reused:
  assumes "refreshToken env account s = (Inr token, s')" "account_name account' = account_name account"
    and "net_now env w < tc_expires_at (the (map_of (st_tokens s') (account_name account))) - hour"
  shows "accessToken env account' (s'\<lparr>st_world := w\<rparr>) = (Inr token, s'\<lparr>st_world := w\<rparr>)"
  using assms
  by (auto simp: refreshToken_def ez_bind_def ez_fail_def ez_return_def Let_def accessToken_def cached_token_def
      update_conv' split: prod.splits sum.splits if_splits)

end
