(* ===== verification/H5_Service.thy ===== *)
theory H5_Service
  imports EZ_Records
begin

text \<open>
  The monitor pages of the mobile front end (\<open>internal/h5monitor/models.go\<close>, \<open>service.go\<close>) over the Ezviz
  client, with the in-memory part of its repository (\<open>MySQLH5MonitorRepository\<close> in
  \<open>storespace/mysql_store.go\<close>).  The rows of the database are a parameter, the record \<open>h5_repo\<close>.  The state
  is the state of the Ezviz client beside the map of active streams of each user; \<open>acquireConcurrency\<close> and
  \<open>releaseConcurrency\<close> each run under the mutex of the service.
\<close>

section \<open>Data\<close>

record StoreInfo =
  si_id :: int
  si_name :: string
  si_city :: string
  si_external_org_id :: string

record ChannelInfo =
  hc_id :: int
  hc_store_id :: int
  hc_channel_no :: int
  hc_channel_name :: string
  hc_is_active :: bool
  hc_area_type :: string
  hc_scene_type :: string
  hc_area_number :: int
  hc_bed_label :: string
  hc_area_note :: string
  hc_thumbnail_url :: string
  hc_device_serial :: string
  hc_ezviz_account_id :: int
  hc_account_name :: string
  hc_app_key :: string
  hc_app_secret :: string
  hc_access_token :: string

record MonitorChannel =
  mc_id :: int
  mc_channel_no :: int
  mc_channel_name :: string
  mc_category :: string
  mc_area_type :: string
  mc_scene_type :: string
  mc_area_number :: int
  mc_bed_label :: string
  mc_area_note :: string
  mc_thumbnail_url :: string

record MonitorGroup =
  mg_category :: string
  mg_label :: string
  mg_channels :: "MonitorChannel list"

record MonitorHomeResponse =
  mh_external_org_id :: string
  mh_store_name :: string
  mh_city :: string
  mh_groups :: "MonitorGroup list"

record MonitorStoreInfo =
  ms_external_org_id :: string
  ms_store_name :: string
  ms_city :: string
  ms_available_channel_count :: int

record MonitorStoreCityGroup =
  mcg_city :: string
  mcg_stores :: "MonitorStoreInfo list"

record LiveURLResponse =
  lu_url :: string
  lu_expire_time :: string
  lu_url_id :: string
  lu_protocol :: string

record RecordSegmentResponse =
  sr_start_time :: int
  sr_end_time :: int
  sr_type :: string
  sr_type_label :: string

record RecordSegmentsResponse =
  srs_date :: string
  srs_segments :: "RecordSegmentResponse list"

record PlaybackURLRequest =
  pu_start_time :: int
  pu_stop_time :: int
  pu_user_id :: string
  pu_is_admin :: bool

record concurrencyState =
  cc_active_count :: int
  cc_max_count :: int
  cc_acquired_at :: gotime

datatype h5_error =
  H5NotFound
| H5ConcurrencyLimit int int
| H5Validation string string
| H5Repository string
| H5Provider ez_error

record h5_repo =
  hr_store :: "string \<Rightarrow> h5_error + StoreInfo"
  hr_channels :: "string \<Rightarrow> h5_error + ChannelInfo list"
  hr_channel :: "int \<Rightarrow> h5_error + ChannelInfo"
  hr_stores :: "h5_error + MonitorStoreInfo list"

text \<open>
  What a request finds: the network, the repository and the time zone of the process, as the instant at
  which a date starts in it and the date of an instant.
\<close>

record 'w h5_env =
  he_net :: "'w ez_env"
  he_repo :: h5_repo
  he_midnight :: "date \<Rightarrow> gotime"
  he_local_date :: "gotime \<Rightarrow> date"

record 'w h5_state =
  hs_ez :: "'w ez_state"
  hs_concurrency :: "(string \<times> concurrencyState) list"

section \<open>The repository over the rows\<close>

text \<open>\<open>NewMySQLH5MonitorRepository\<close>: the last account of a name wins.\<close>

definition h5_accounts :: "Account list \<Rightarrow> (string \<times> Account) list" where
  "h5_accounts accounts =
     fold (\<lambda>account m. if trim_space (ez_name account) \<noteq> [] then AList.update (trim_space (ez_name account)) account m else m)
       accounts []"

definition applyCredentials :: "(string \<times> Account) list \<Rightarrow> ChannelInfo \<Rightarrow> ChannelInfo" where
  "applyCredentials accounts channel =
     (case map_of accounts (trim_space (hc_account_name channel)) of
        None \<Rightarrow> channel
      | Some account \<Rightarrow> channel\<lparr>hc_app_key := ez_app_key account, hc_app_secret := ez_app_secret account,
          hc_access_token := ez_access_token account\<rparr>)"

text \<open>\<open>scanH5MonitorChannels\<close> on the rows of the query; \<open>lookup\<close> is the query for the store.\<close>

definition scanH5MonitorChannels ::
  "(string \<times> Account) list \<Rightarrow> (h5_error + StoreInfo) \<Rightarrow> ChannelInfo list \<Rightarrow> h5_error + ChannelInfo list" where
  "scanH5MonitorChannels accounts lookup rows =
     (let channels = filter (\<lambda>c. \<not> (trim_space (hc_app_key c) = [] \<or> trim_space (hc_app_secret c) = []))
            (map (applyCredentials accounts) rows)
      in if channels = [] then bind_sum lookup (\<lambda>_. Inr channels) else Inr channels)"

text \<open>\<open>ListMonitorStores\<close> of the repository: one row for a store and an account, with its channel count.\<close>

type_synonym store_row = "string \<times> string \<times> string \<times> string \<times> int"

definition monitor_store_row ::
  "(string \<times> Account) list \<Rightarrow> store_row \<Rightarrow> (string \<times> MonitorStoreInfo) list \<Rightarrow> (string \<times> MonitorStoreInfo) list" where
  "monitor_store_row accounts row stores =
     (case row of (externalOrgID0, storeName, city, accountName, channelCount) \<Rightarrow>
        (case map_of accounts (trim_space accountName) of
           None \<Rightarrow> stores
         | Some account \<Rightarrow>
             if trim_space (ez_app_key account) = [] \<or> trim_space (ez_app_secret account) = [] then stores
             else
               let externalOrgID = trim_space externalOrgID0;
                   st = (case map_of stores externalOrgID of
                       Some st \<Rightarrow> st
                     | None \<Rightarrow> \<lparr>ms_external_org_id = externalOrgID, ms_store_name = storeName, ms_city = city,
                         ms_available_channel_count = 0\<rparr>)
               in AList.update externalOrgID
                    (st\<lparr>ms_available_channel_count := ms_available_channel_count st + channelCount\<rparr>) stores))"

definition monitor_store_rows :: "(string \<times> Account) list \<Rightarrow> store_row list \<Rightarrow> MonitorStoreInfo list" where
  "monitor_store_rows accounts rows =
     filter (\<lambda>st. ms_available_channel_count st > 0) (map snd (fold (monitor_store_row accounts) rows []))"

section \<open>The page of a store\<close>

definition validChannel :: "ChannelInfo \<Rightarrow> bool" where
  "validChannel channel \<longleftrightarrow>
     (if \<not> hc_is_active channel \<or> hc_channel_no channel \<le> 0 then False
      else if trim_space (hc_device_serial channel) = [] \<or> hc_ezviz_account_id channel \<le> 0 then False
      else if trim_space (hc_app_key channel) = [] \<or> trim_space (hc_app_secret channel) = [] then False
      else True)"

definition channelCategory :: "ChannelInfo \<Rightarrow> string" where
  "channelCategory channel =
     (if hc_area_type channel = ''consultation'' then ''consultation''
      else if hc_area_type channel = ''treatment'' \<or> hc_area_type channel = ''vip_treatment'' then ''treatment''
      else if hc_area_type channel = ''beauty'' then ''beauty''
      else
        let t = hc_channel_name channel @ '' '' @ hc_area_note channel @ '' '' @ hc_scene_type channel in
        if contains t (utf8 [0x524D, 0x53F0]) \<or> contains t (utf8 [0x5019, 0x8BCA]) \<or> contains t (utf8 [0x7B49, 0x5019]) \<or>
           hc_scene_type channel = ''front_desk'' \<or> hc_scene_type channel = ''waiting_area''
        then ''front_waiting'' else ''other'')"

definition channelCategoryLabel :: "string \<Rightarrow> string" where
  "channelCategoryLabel category =
     (if category = ''consultation'' then utf8 [0x9762, 0x8BCA, 0x5BA4]
      else if category = ''treatment'' then utf8 [0x6CBB, 0x7597, 0x5BA4]
      else if category = ''beauty'' then utf8 [0x751F, 0x7F8E]
      else if category = ''front_waiting'' then utf8 [0x524D, 0x53F0, 0x2F, 0x5019, 0x8BCA]
      else utf8 [0x5176, 0x4ED6])"

fun h5_firstNonEmpty :: "string list \<Rightarrow> string" where
  "h5_firstNonEmpty [] = []"
| "h5_firstNonEmpty (v # vs) = (if trim_space v \<noteq> [] then trim_space v else h5_firstNonEmpty vs)"

definition sortMonitorChannels :: "string \<Rightarrow> MonitorChannel list \<Rightarrow> MonitorChannel list" where
  "sortMonitorChannels category channels =
     (if category = ''consultation'' \<or> category = ''treatment'' \<or> category = ''beauty''
      then sort_key (\<lambda>c. (mc_area_number c, mc_area_note c, mc_channel_name c, mc_channel_no c)) channels
      else if category = ''front_waiting'' \<or> category = ''other''
      then sort_key (\<lambda>c. (h5_firstNonEmpty [mc_area_note c, mc_channel_name c, itoa (mc_channel_no c)], mc_channel_no c))
        channels
      else sort_key mc_channel_no channels)"

definition monitor_channel :: "ChannelInfo \<Rightarrow> MonitorChannel" where
  "monitor_channel channel =
     \<lparr>mc_id = hc_id channel, mc_channel_no = hc_channel_no channel, mc_channel_name = hc_channel_name channel,
      mc_category = channelCategory channel, mc_area_type = hc_area_type channel,
      mc_scene_type = hc_scene_type channel, mc_area_number = hc_area_number channel,
      mc_bed_label = hc_bed_label channel, mc_area_note = hc_area_note channel,
      mc_thumbnail_url = hc_thumbnail_url channel\<rparr>"

definition category_order :: "string list" where
  "category_order = [''consultation'', ''treatment'', ''beauty'', ''front_waiting'', ''other'']"

definition groupChannels :: "ChannelInfo list \<Rightarrow> MonitorGroup list" where
  "groupChannels channels =
     (let filtered = sort_key hc_channel_no (filter validChannel channels);
          byCategory = (\<lambda>category. map monitor_channel (filter (\<lambda>c. channelCategory c = category) filtered))
      in map (\<lambda>category. \<lparr>mg_category = category, mg_label = channelCategoryLabel category,
             mg_channels = sortMonitorChannels category (byCategory category)\<rparr>)
           (filter (\<lambda>category. byCategory category \<noteq> []) category_order))"

definition no_org :: h5_error where
  "no_org = H5Validation ''external_org_id'' (utf8 [0x673A, 0x6784, 0x20, 0x49, 0x44, 0x20, 0x4E0D, 0x80FD, 0x4E3A, 0x7A7A])"

definition h5_GetMonitorHome :: "h5_repo \<Rightarrow> string \<Rightarrow> h5_error + MonitorHomeResponse" where
  "h5_GetMonitorHome repo externalOrgID =
     (let orgID = trim_space externalOrgID in
      if orgID = [] then Inl no_org
      else bind_sum (hr_store repo orgID) (\<lambda>st. bind_sum (hr_channels repo orgID) (\<lambda>channels.
        Inr \<lparr>mh_external_org_id = si_external_org_id st, mh_store_name = si_name st, mh_city = si_city st,
          mh_groups = groupChannels channels\<rparr>)))"

section \<open>The list of the stores\<close>

definition monitorStoreCity :: "string \<Rightarrow> string" where
  "monitorStoreCity city = (if trim_space city = [] then utf8 [0x672A, 0x5206, 0x7EC4] else trim_space city)"

text \<open>The loop that groups the sorted stores: a store goes to the last group if that has its city.\<close>

definition add_to_city :: "MonitorStoreInfo \<Rightarrow> MonitorStoreCityGroup list \<Rightarrow> MonitorStoreCityGroup list" where
  "add_to_city st0 groups =
     (let st = st0\<lparr>ms_city := monitorStoreCity (ms_city st0)\<rparr>;
          groups1 = (if groups = [] \<or> mcg_city (last groups) \<noteq> ms_city st
            then groups @ [\<lparr>mcg_city = ms_city st, mcg_stores = []\<rparr>] else groups);
          g = last groups1
      in butlast groups1 @ [g\<lparr>mcg_stores := mcg_stores g @ [st]\<rparr>])"

definition h5_ListMonitorStores :: "h5_repo \<Rightarrow> h5_error + MonitorStoreCityGroup list" where
  "h5_ListMonitorStores repo =
     bind_sum (hr_stores repo) (\<lambda>stores.
       Inr (fold add_to_city
         (sort_key (\<lambda>st. (monitorStoreCity (ms_city st), ms_store_name st, ms_external_org_id st)) stores) []))"

section \<open>Slots\<close>

definition slot_user :: "string \<Rightarrow> string" where
  "slot_user userID = (if trim_space userID = [] then ''anonymous'' else trim_space userID)"

type_synonym slots = "(string \<times> concurrencyState) list"

definition acquireConcurrency :: "gotime \<Rightarrow> string \<Rightarrow> bool \<Rightarrow> slots \<Rightarrow> h5_error option \<times> slots" where
  "acquireConcurrency now userID0 isAdmin sl =
     (let userID = slot_user userID0;
          maxCount = (if isAdmin then 20 else 15);
          st = (case map_of sl userID of
              Some st \<Rightarrow> st
            | None \<Rightarrow> \<lparr>cc_active_count = 0, cc_max_count = 0, cc_acquired_at = 0\<rparr>);
          st1 = st\<lparr>cc_max_count := maxCount\<rparr>
      in if cc_active_count st1 \<ge> maxCount
         then (Some (H5ConcurrencyLimit (cc_active_count st1) maxCount), AList.update userID st1 sl)
         else (None, AList.update userID
           (st1\<lparr>cc_active_count := cc_active_count st1 + 1, cc_acquired_at := now\<rparr>) sl))"

definition releaseConcurrency :: "string \<Rightarrow> slots \<Rightarrow> slots" where
  "releaseConcurrency userID0 sl =
     (let userID = slot_user userID0 in
      case map_of sl userID of
        None \<Rightarrow> sl
      | Some st \<Rightarrow>
          if cc_active_count st \<le> 0 then sl
          else if cc_active_count st - 1 = 0 then AList.delete userID sl
          else AList.update userID (st\<lparr>cc_active_count := cc_active_count st - 1\<rparr>) sl)"

section \<open>Streams\<close>

definition normalizeLiveProtocol :: "string \<Rightarrow> string \<times> int \<times> bool" where
  "normalizeLiveProtocol v =
     (if to_lower (trim_space v) = ''hls'' \<or> to_lower (trim_space v) = ''m3u8'' then (''hls'', 2, False)
      else (''flv'', 4, True))"

definition normalizeStreamQuality :: "string \<Rightarrow> int" where
  "normalizeStreamQuality v =
     (let q = to_lower (trim_space v) in
      if q = ''hd'' \<or> q = ''high'' \<or> q = utf8 [0x9AD8, 0x6E05] \<or> q = ''1'' then 1 else 2)"

definition validateChannel :: "h5_repo \<Rightarrow> string \<Rightarrow> int \<Rightarrow> h5_error + ChannelInfo" where
  "validateChannel repo externalOrgID channelID =
     (let orgID = trim_space externalOrgID in
      if orgID = [] then Inl no_org
      else bind_sum (hr_store repo orgID) (\<lambda>st. bind_sum (hr_channel repo channelID) (\<lambda>channel.
        if hc_store_id channel \<noteq> si_id st \<or> \<not> validChannel channel then Inl H5NotFound else Inr channel)))"

definition channelToAccount :: "ChannelInfo \<Rightarrow> Account" where
  "channelToAccount channel =
     \<lparr>ez_name = hc_account_name channel, ez_app_key = hc_app_key channel,
      ez_app_secret = hc_app_secret channel, ez_access_token = hc_access_token channel\<rparr>"

definition on_net :: "('w, 'a) ez \<Rightarrow> 'w h5_state \<Rightarrow> (h5_error + 'a) \<times> 'w h5_state" where
  "on_net m s =
     (case m (hs_ez s) of
        (Inl e, z) \<Rightarrow> (Inl (H5Provider e), s\<lparr>hs_ez := z\<rparr>)
      | (Inr x, z) \<Rightarrow> (Inr x, s\<lparr>hs_ez := z\<rparr>))"

definition h5_now :: "'w h5_env \<Rightarrow> 'w h5_state \<Rightarrow> gotime" where
  "h5_now env s = net_now (he_net env) (st_world (hs_ez s))"

definition live_request :: "ChannelInfo \<Rightarrow> string \<Rightarrow> string \<Rightarrow> LiveAddressRequest" where
  "live_request channel protocolValue qualityValue =
     (case normalizeLiveProtocol protocolValue of (protocol, ezvizProtocol, supportH265) \<Rightarrow>
        \<lparr>lr_device_serial = hc_device_serial channel, lr_channel_no = hc_channel_no channel,
         lr_protocol = ezvizProtocol, lr_type = 1, lr_quality = normalizeStreamQuality qualityValue,
         lr_expire_time = 600, lr_support_h265 = supportH265, lr_mute = Some 0, lr_code = []\<rparr>)"

definition h5_GetLiveURL ::
  "'w h5_env \<Rightarrow> string \<Rightarrow> int \<Rightarrow> string \<Rightarrow> bool \<Rightarrow> string \<Rightarrow> string \<Rightarrow> 'w h5_state \<Rightarrow>
   (h5_error + LiveURLResponse) \<times> 'w h5_state" where
  "h5_GetLiveURL env externalOrgID channelID userID isAdmin protocolValue qualityValue s =
     (case validateChannel (he_repo env) externalOrgID channelID of
        Inl e \<Rightarrow> (Inl e, s)
      | Inr channel \<Rightarrow>
          (case acquireConcurrency (h5_now env s) userID isAdmin (hs_concurrency s) of
             (Some e, sl) \<Rightarrow> (Inl e, s\<lparr>hs_concurrency := sl\<rparr>)
           | (None, sl) \<Rightarrow>
               let account = channelToAccount channel;
                   s1 = snd (on_net (ez_EnsureAACTransfer (he_net env) account (hc_device_serial channel)
                     (hc_channel_no channel)) (s\<lparr>hs_concurrency := sl\<rparr>))
               in case on_net (ez_LiveAddress (he_net env) account (live_request channel protocolValue qualityValue)) s1 of
                    (Inl e, s2) \<Rightarrow> (Inl e, s2\<lparr>hs_concurrency := releaseConcurrency userID (hs_concurrency s2)\<rparr>)
                  | (Inr result, s2) \<Rightarrow>
                      (Inr \<lparr>lu_url = la_url result, lu_expire_time = la_expire_time result, lu_url_id = la_id result,
                         lu_protocol = fst (normalizeLiveProtocol protocolValue)\<rparr>, s2)))"

section \<open>Recordings\<close>

definition segmentTypeLabel :: "string \<Rightarrow> string" where
  "segmentTypeLabel t =
     (if to_upper t = ''ALARM'' then utf8 [0x4E8B, 0x4EF6, 0x5F55, 0x50CF]
      else if to_upper t = ''PLAN'' then utf8 [0x5B9A, 0x65F6, 0x5F55, 0x50CF] else t)"

definition parseDate :: "'w h5_env \<Rightarrow> gotime \<Rightarrow> string \<Rightarrow> (gotime \<times> string) option" where
  "parseDate env now value0 =
     (let v = trim_space value0 in
      if v = [] then Some (now, format_date (he_local_date env now))
      else map_option (\<lambda>d. (he_midnight env d, v)) (parse_date v))"

definition segment_response :: "RecordSegment \<Rightarrow> RecordSegmentResponse" where
  "segment_response segment =
     \<lparr>sr_start_time = seg_start_time segment, sr_end_time = seg_end_time segment, sr_type = seg_type segment,
      sr_type_label = segmentTypeLabel (seg_type segment)\<rparr>"

definition h5_GetRecordSegments ::
  "'w h5_env \<Rightarrow> string \<Rightarrow> int \<Rightarrow> string \<Rightarrow> 'w h5_state \<Rightarrow> (h5_error + RecordSegmentsResponse) \<times> 'w h5_state" where
  "h5_GetRecordSegments env externalOrgID channelID dateValue s =
     (case validateChannel (he_repo env) externalOrgID channelID of
        Inl e \<Rightarrow> (Inl e, s)
      | Inr channel \<Rightarrow>
          (case parseDate env (h5_now env s) dateValue of
             None \<Rightarrow> (Inl (H5Validation ''date'' (utf8 [0x65E5, 0x671F, 0x683C, 0x5F0F, 0x5E94, 0x4E3A, 0x20, 0x59, 0x59, 0x59, 0x59, 0x2D, 0x4D, 0x4D, 0x2D, 0x44, 0x44])), s)
           | Some (date, normalizedDate) \<Rightarrow>
               (case on_net (ez_QueryRecordSegments (he_net env) (channelToAccount channel)
                   \<lparr>rq_device_serial = hc_device_serial channel, rq_channel_no = hc_channel_no channel,
                    rq_date = date, rq_page_size = 0\<rparr>) s of
                  (Inl e, s1) \<Rightarrow> (Inl e, s1)
                | (Inr result, s1) \<Rightarrow>
                    (Inr \<lparr>srs_date = normalizedDate, srs_segments = map segment_response (rs_records result)\<rparr>, s1))))"

definition h5_GetPlaybackURL ::
  "'w h5_env \<Rightarrow> string \<Rightarrow> int \<Rightarrow> PlaybackURLRequest \<Rightarrow> 'w h5_state \<Rightarrow>
   (h5_error + LiveAddressResult) \<times> 'w h5_state" where
  "h5_GetPlaybackURL env externalOrgID channelID request s =
     (case validateChannel (he_repo env) externalOrgID channelID of
        Inl e \<Rightarrow> (Inl e, s)
      | Inr channel \<Rightarrow>
          if pu_start_time request \<le> 0 \<or> pu_stop_time request \<le> pu_start_time request
          then (Inl (H5Validation ''time'' (utf8 [0x56DE, 0x653E, 0x65F6, 0x95F4, 0x8303, 0x56F4, 0x65E0, 0x6548])), s)
          else
            (case acquireConcurrency (h5_now env s) (pu_user_id request) (pu_is_admin request) (hs_concurrency s) of
               (Some e, sl) \<Rightarrow> (Inl e, s\<lparr>hs_concurrency := sl\<rparr>)
             | (None, sl) \<Rightarrow>
                 (case on_net (ez_PlaybackAddress (he_net env) (channelToAccount channel)
                     \<lparr>pr_device_serial = hc_device_serial channel, pr_channel_no = hc_channel_no channel,
                      pr_start_time = from_unix (pu_start_time request), pr_stop_time = from_unix (pu_stop_time request),
                      pr_protocol = 4, pr_quality = 2, pr_expire_time = 600, pr_code = []\<rparr>)
                     (s\<lparr>hs_concurrency := sl\<rparr>) of
                    (Inl e, s1) \<Rightarrow>
                      (Inl e, s1\<lparr>hs_concurrency := releaseConcurrency (pu_user_id request) (hs_concurrency s1)\<rparr>)
                  | (Inr result, s1) \<Rightarrow> (Inr result, s1))))"

definition h5_DisableURL ::
  "'w h5_env \<Rightarrow> string \<Rightarrow> int \<Rightarrow> string \<Rightarrow> string \<Rightarrow> 'w h5_state \<Rightarrow> (h5_error + unit) \<times> 'w h5_state" where
  "h5_DisableURL env externalOrgID channelID urlID userID s =
     (case validateChannel (he_repo env) externalOrgID channelID of
        Inl e \<Rightarrow> (Inl e, s\<lparr>hs_concurrency := releaseConcurrency userID (hs_concurrency s)\<rparr>)
      | Inr channel \<Rightarrow>
          (case on_net (ez_DisableLiveAddress (he_net env) (channelToAccount channel)
              \<lparr>dr_device_serial = hc_device_serial channel, dr_channel_no = hc_channel_no channel,
               dr_url_id = trim_space urlID\<rparr>) s of
             (r, s1) \<Rightarrow> (r, s1\<lparr>hs_concurrency := releaseConcurrency userID (hs_concurrency s1)\<rparr>)))"

section \<open>What the logs show\<close>

definition h5_safeLogID :: "string \<Rightarrow> string" where
  "h5_safeLogID value0 =
     (let v = trim_space value0 in
      if v = [] then ''-''
      else if length v \<le> 8 then v
      else take 4 v @ ''...'' @ drop (length v - 4) v)"

definition isNumericLogCode :: "string \<Rightarrow> bool" where
  "isNumericLogCode value0 =
     (let v = trim_space value0 in v \<noteq> [] \<and> list_all (\<lambda>r. \<not> (r < 48 \<or> r > 57)) (runes v))"

definition h5_error_code :: "h5_error \<Rightarrow> string" where
  "h5_error_code e = (case e of H5Provider z \<Rightarrow> ErrorCode z | _ \<Rightarrow> [])"

definition safeLogError :: "h5_error option \<Rightarrow> string" where
  "safeLogError err =
     (case err of
        None \<Rightarrow> ''-''
      | Some e \<Rightarrow>
          if h5_error_code e \<noteq> [] then
            (if isNumericLogCode (h5_error_code e) then ''provider_'' @ h5_error_code e else ''provider_error'')
          else (case e of
              H5NotFound \<Rightarrow> ''not_found''
            | H5ConcurrencyLimit _ _ \<Rightarrow> ''concurrency_limit''
            | H5Validation _ _ \<Rightarrow> ''validation''
            | _ \<Rightarrow> ''internal''))"

end
