(* ===== verification/H5_Handler.thy ===== *)
theory H5_Handler
  imports H5_Service
begin

text \<open>
  The HTTP handlers of the monitor pages (\<open>internal/h5monitor/handler.go\<close>).  A request is given by the parts
  the handlers read, its JSON body by what decoding it gives.  The authorizer of the application is a
  parameter: who the user is, whether they may see a store, and whether an audit event can be stored.  A
  handler returns the reply, the audit events it asked to store, in order, and the new state.
\<close>

section \<open>Requests and replies\<close>

datatype h5_auth_error = H5Unauthorized | H5Forbidden | H5AuthFailure

record h5_audit =
  hau_action :: string
  hau_external_org_id :: string
  hau_channel_id :: "int option"
  hau_user_id :: "int option"
  hau_result :: string

record h5_authorizer =
  ha_current_user :: "h5_auth_error + (int \<times> string)"
  ha_can_view :: "string \<Rightarrow> h5_auth_error + bool"
  ha_filter :: "MonitorStoreCityGroup list \<Rightarrow> h5_auth_error + MonitorStoreCityGroup list"
  ha_record :: "(h5_audit \<Rightarrow> bool) option"

datatype h5_body =
  BodyStores "MonitorStoreCityGroup list"
| BodyHome MonitorHomeResponse
| BodyLive LiveURLResponse
| BodySegments RecordSegmentsResponse
| BodyPlayback LiveAddressResult
| BodyOk bool
| BodyError string "string option" "(string \<times> string) list"

type_synonym h5_reply = "int \<times> h5_body"

record live_body =
  lb_user_id :: string
  lb_is_admin :: bool
  lb_protocol :: string
  lb_quality :: string

record disable_body =
  db_url_id :: string
  db_user_id :: string

text \<open>A body that is absent is different from one that is not the JSON asked for.\<close>

datatype 'b sent_body = NoBody | BadJson | Decoded 'b

record 'b h5_request =
  hq_org :: string
  hq_channel :: string
  hq_date :: string
  hq_json :: "'b sent_body"

section \<open>Error replies\<close>

definition serviceFailedCode :: string where "serviceFailedCode = ''h5_monitor_service_failed''"
definition serviceFailedMessage :: string where "serviceFailedMessage = utf8 [0x76D1, 0x63A7, 0x670D, 0x52A1, 0x8BF7, 0x6C42, 0x5931, 0x8D25, 0xFF0C, 0x8BF7, 0x7A0D, 0x540E, 0x91CD, 0x8BD5]"
definition auditUnavailableCode :: string where "auditUnavailableCode = ''audit_unavailable''"

definition writeServiceError :: "h5_error \<Rightarrow> h5_reply" where
  "writeServiceError e =
     (case e of
        H5Validation field message \<Rightarrow> (400, BodyError ''validation error'' None [(field, message)])
      | _ \<Rightarrow>
          if h5_error_code e \<noteq> [] then (500, BodyError serviceFailedMessage (Some (h5_error_code e)) [])
          else (case e of
              H5NotFound \<Rightarrow> (404, BodyError ''not found'' None [])
            | H5ConcurrencyLimit _ _ \<Rightarrow> (429, BodyError (utf8 [0x76D1, 0x63A7, 0x8BF7, 0x6C42, 0x8FC7, 0x4E8E, 0x9891, 0x7E41, 0xFF0C, 0x8BF7, 0x7A0D, 0x540E, 0x91CD, 0x8BD5]) None [])
            | _ \<Rightarrow> (500, BodyError serviceFailedMessage (Some serviceFailedCode) [])))"

definition writeAuthzError :: "h5_auth_error \<Rightarrow> h5_reply" where
  "writeAuthzError e =
     (case e of
        H5Unauthorized \<Rightarrow> (401, BodyError ''unauthorized'' None [])
      | H5Forbidden \<Rightarrow> (403, BodyError (utf8 [0x6682, 0x65E0, 0x76D1, 0x63A7, 0x8BBF, 0x95EE, 0x6743, 0x9650]) None [])
      | H5AuthFailure \<Rightarrow> (500, BodyError (utf8 [0x76D1, 0x63A7, 0x6743, 0x9650, 0x6821, 0x9A8C, 0x5931, 0x8D25, 0xFF0C, 0x8BF7, 0x7A0D, 0x540E, 0x91CD, 0x8BD5]) (Some ''h5_monitor_authorization_failed'') []))"

definition writeAuditUnavailable :: h5_reply where
  "writeAuditUnavailable = (503, BodyError (utf8 [0x76D1, 0x63A7, 0x5BA1, 0x8BA1, 0x5931, 0x8D25, 0xFF0C, 0x8BF7, 0x7A0D, 0x540E, 0x91CD, 0x8BD5]) (Some auditUnavailableCode) [])"

definition bad_channel_reply :: h5_reply where
  "bad_channel_reply = (400, BodyError ''invalid channel id'' None [])"

definition bad_json_reply :: h5_reply where
  "bad_json_reply = (400, BodyError ''invalid json body'' None [])"

section \<open>Access\<close>

definition parseChannelID :: "string \<Rightarrow> int option" where
  "parseChannelID value0 =
     (let v = trim_space value0 in
      if v = [] then None else case parse_int v of (n, None) \<Rightarrow> Some n | _ \<Rightarrow> None)"

text \<open>\<open>denyAllAuthorizer\<close>, which takes the place of a missing authorizer.\<close>

definition denyAllAuthorizer :: h5_authorizer where
  "denyAllAuthorizer = \<lparr>ha_current_user = Inl H5Unauthorized, ha_can_view = (\<lambda>_. Inl H5Unauthorized),
     ha_filter = (\<lambda>_. Inl H5Unauthorized), ha_record = None\<rparr>"

definition h5_NewHandler :: "h5_authorizer option \<Rightarrow> h5_authorizer" where
  "h5_NewHandler authorizer = (case authorizer of None \<Rightarrow> denyAllAuthorizer | Some a \<Rightarrow> a)"

text \<open>\<open>recordMonitorAudit\<close>: whether the event was stored, and the events handed to the authorizer.\<close>

definition recordMonitorAudit ::
  "h5_authorizer \<Rightarrow> string \<Rightarrow> string \<Rightarrow> int \<Rightarrow> string \<Rightarrow> bool \<times> h5_audit list" where
  "recordMonitorAudit auth action org channelID result =
     (case ha_record auth of
        None \<Rightarrow> (False, [])
      | Some store \<Rightarrow>
          let event = \<lparr>hau_action = action, hau_external_org_id = org,
                hau_channel_id = (if channelID \<noteq> 0 then Some channelID else None),
                hau_user_id = (case ha_current_user auth of
                    Inr (uid, _) \<Rightarrow> if uid \<noteq> 0 then Some uid else None
                  | Inl _ \<Rightarrow> None),
                hau_result = result\<rparr>
          in (store event, [event]))"

text \<open>\<open>ensureCanViewStoreForAction\<close>: \<open>None\<close> to go on, or the reply; with the audit events.\<close>

definition ensureCanViewStoreForAction ::
  "h5_authorizer \<Rightarrow> string \<Rightarrow> int \<Rightarrow> string \<Rightarrow> h5_reply option \<times> h5_audit list" where
  "ensureCanViewStoreForAction auth org channelID action =
     (case ha_can_view auth org of
        Inl e \<Rightarrow>
          (Some (writeAuthzError e),
           if action \<noteq> [] \<and> (e = H5Unauthorized \<or> e = H5Forbidden)
           then snd (recordMonitorAudit auth action org channelID ''denied'') else [])
      | Inr ok \<Rightarrow>
          if \<not> ok then
            (Some (403, BodyError (utf8 [0x6682, 0x65E0, 0x76D1, 0x63A7, 0x8BBF, 0x95EE, 0x6743, 0x9650]) None []),
             if action \<noteq> [] then snd (recordMonitorAudit auth action org channelID ''denied'') else [])
          else (None, []))"

text \<open>\<open>applyServerIdentity\<close>: the user and whether they are an administrator, whatever the body said.\<close>

definition applyServerIdentity :: "h5_authorizer \<Rightarrow> h5_reply + (string \<times> bool)" where
  "applyServerIdentity auth =
     (case ha_current_user auth of
        Inl e \<Rightarrow> Inl (writeAuthzError e)
      | Inr (uid, role) \<Rightarrow>
          if uid \<le> 0 then Inl (writeAuthzError H5Unauthorized)
          else Inr (itoa uid, fold_name (trim_space role) = fold_name ''admin''))"

section \<open>Handlers\<close>

definition h5_getMonitorStores :: "h5_repo \<Rightarrow> h5_authorizer \<Rightarrow> h5_reply" where
  "h5_getMonitorStores repo auth =
     (case h5_ListMonitorStores repo of
        Inl e \<Rightarrow> writeServiceError e
      | Inr groups \<Rightarrow>
          (case ha_filter auth groups of Inl e \<Rightarrow> writeAuthzError e | Inr groups' \<Rightarrow> (200, BodyStores groups')))"

definition h5_getMonitorHome :: "h5_repo \<Rightarrow> h5_authorizer \<Rightarrow> 'b h5_request \<Rightarrow> h5_reply \<times> h5_audit list" where
  "h5_getMonitorHome repo auth req =
     (case ensureCanViewStoreForAction auth (hq_org req) 0 [] of
        (Some reply, events) \<Rightarrow> (reply, events)
      | (None, events) \<Rightarrow>
          (case h5_GetMonitorHome repo (hq_org req) of
             Inl e \<Rightarrow> (writeServiceError e, events)
           | Inr home \<Rightarrow> ((200, BodyHome home), events)))"

text \<open>
  What \<open>getLiveURL\<close> and \<open>getPlaybackURL\<close> do once the service has answered: the outcome is recorded, and
  a success that cannot be recorded gives its slot back.
\<close>

definition audited_stream ::
  "h5_authorizer \<Rightarrow> string \<Rightarrow> string \<Rightarrow> int \<Rightarrow> string \<Rightarrow> ('r \<Rightarrow> h5_body) \<Rightarrow>
   (h5_error + 'r) \<times> 'w h5_state \<Rightarrow> h5_reply \<times> h5_audit list \<times> 'w h5_state" where
  "audited_stream auth action org channelID userID body outcome =
     (case outcome of
        (Inl e, s) \<Rightarrow> (writeServiceError e, snd (recordMonitorAudit auth action org channelID ''failed''), s)
      | (Inr result, s) \<Rightarrow>
          (case recordMonitorAudit auth action org channelID ''success'' of
             (False, events) \<Rightarrow>
               (writeAuditUnavailable, events, s\<lparr>hs_concurrency := releaseConcurrency userID (hs_concurrency s)\<rparr>)
           | (True, events) \<Rightarrow> ((200, body result), events, s)))"

definition no_live_body :: live_body where
  "no_live_body = \<lparr>lb_user_id = [], lb_is_admin = False, lb_protocol = [], lb_quality = []\<rparr>"

definition h5_getLiveURL ::
  "'w h5_env \<Rightarrow> h5_authorizer \<Rightarrow> live_body h5_request \<Rightarrow> 'w h5_state \<Rightarrow> h5_reply \<times> h5_audit list \<times> 'w h5_state" where
  "h5_getLiveURL env auth req s =
     (case parseChannelID (hq_channel req) of
        None \<Rightarrow> (bad_channel_reply, [], s)
      | Some channelID \<Rightarrow>
          (case ensureCanViewStoreForAction auth (hq_org req) channelID ''monitor.live_view'' of
             (Some reply, events) \<Rightarrow> (reply, events, s)
           | (None, events) \<Rightarrow>
               if hq_json req = BadJson then (bad_json_reply, events, s)
               else
                 let request = (case hq_json req of Decoded b \<Rightarrow> b | _ \<Rightarrow> no_live_body) in
                 (case applyServerIdentity auth of
                    Inl reply \<Rightarrow> (reply, events, s)
                  | Inr (userID, isAdmin) \<Rightarrow>
                      (case audited_stream auth ''monitor.live_view'' (hq_org req) channelID userID BodyLive
                          (h5_GetLiveURL env (hq_org req) channelID userID isAdmin (lb_protocol request)
                            (lb_quality request) s) of
                         (reply, later, s1) \<Rightarrow> (reply, events @ later, s1)))))"

definition h5_getRecordSegments ::
  "'w h5_env \<Rightarrow> h5_authorizer \<Rightarrow> 'b h5_request \<Rightarrow> 'w h5_state \<Rightarrow> h5_reply \<times> h5_audit list \<times> 'w h5_state" where
  "h5_getRecordSegments env auth req s =
     (case parseChannelID (hq_channel req) of
        None \<Rightarrow> (bad_channel_reply, [], s)
      | Some channelID \<Rightarrow>
          (case ensureCanViewStoreForAction auth (hq_org req) 0 [] of
             (Some reply, events) \<Rightarrow> (reply, events, s)
           | (None, events) \<Rightarrow>
               (case h5_GetRecordSegments env (hq_org req) channelID (hq_date req) s of
                  (Inl e, s1) \<Rightarrow> (writeServiceError e, events, s1)
                | (Inr result, s1) \<Rightarrow> ((200, BodySegments result), events, s1))))"

definition h5_getPlaybackURL ::
  "'w h5_env \<Rightarrow> h5_authorizer \<Rightarrow> PlaybackURLRequest h5_request \<Rightarrow> 'w h5_state \<Rightarrow>
   h5_reply \<times> h5_audit list \<times> 'w h5_state" where
  "h5_getPlaybackURL env auth req s =
     (case parseChannelID (hq_channel req) of
        None \<Rightarrow> (bad_channel_reply, [], s)
      | Some channelID \<Rightarrow>
          (case ensureCanViewStoreForAction auth (hq_org req) channelID ''monitor.playback_view'' of
             (Some reply, events) \<Rightarrow> (reply, events, s)
           | (None, events) \<Rightarrow>
               (case hq_json req of
                  Decoded request \<Rightarrow>
                    (case applyServerIdentity auth of
                       Inl reply \<Rightarrow> (reply, events, s)
                     | Inr (userID, isAdmin) \<Rightarrow>
                         (case audited_stream auth ''monitor.playback_view'' (hq_org req) channelID userID BodyPlayback
                             (h5_GetPlaybackURL env (hq_org req) channelID
                               (request\<lparr>pu_user_id := userID, pu_is_admin := isAdmin\<rparr>) s) of
                            (reply, later, s1) \<Rightarrow> (reply, events @ later, s1)))
                | _ \<Rightarrow> (bad_json_reply, events, s))))"

definition h5_disableURL ::
  "'w h5_env \<Rightarrow> h5_authorizer \<Rightarrow> disable_body h5_request \<Rightarrow> 'w h5_state \<Rightarrow>
   h5_reply \<times> h5_audit list \<times> 'w h5_state" where
  "h5_disableURL env auth req s =
     (case parseChannelID (hq_channel req) of
        None \<Rightarrow> (bad_channel_reply, [], s)
      | Some channelID \<Rightarrow>
          (case ensureCanViewStoreForAction auth (hq_org req) 0 [] of
             (Some reply, events) \<Rightarrow> (reply, events, s)
           | (None, events) \<Rightarrow>
               (case hq_json req of
                  Decoded request \<Rightarrow>
                    (case applyServerIdentity auth of
                       Inl reply \<Rightarrow> (reply, events, s)
                     | Inr (userID, _) \<Rightarrow>
                         (case h5_DisableURL env (hq_org req) channelID (db_url_id request) userID s of
                            (Inl e, s1) \<Rightarrow>
                              ((200, BodyError serviceFailedMessage
                                 (Some (if h5_error_code e \<noteq> [] then h5_error_code e else serviceFailedCode)) []),
                               events, s1)
                          | (Inr _, s1) \<Rightarrow> ((200, BodyOk True), events, s1)))
                | _ \<Rightarrow> (bad_json_reply, events, s))))"

end
