(* ===== verification/H5_Props.thy ===== *)
theory H5_Props
  imports H5_Handler
begin

text \<open>
  What the monitor pages guarantee: who gets a stream and what it costs, the bounds on the slots of a
  user, the channels of a store's page, and the day whose recordings are shown.
\<close>

section \<open>Slots\<close>

definition held :: "slots \<Rightarrow> string \<Rightarrow> int" where
  "held sl user = (case map_of sl user of None \<Rightarrow> 0 | Some st \<Rightarrow> cc_active_count st)"

text \<open>A user in the map holds a slot, and nobody holds more than an administrator may.\<close>

definition slots_ok :: "slots \<Rightarrow> bool" where
  "slots_ok sl \<longleftrightarrow> (\<forall>user st. map_of sl user = Some st \<longrightarrow> 1 \<le> cc_active_count st \<and> cc_active_count st \<le> 20)"

definition slot_limit :: "bool \<Rightarrow> int" where
  "slot_limit isAdmin = (if isAdmin then 20 else 15)"

lemma held_bounds: "slots_ok sl \<Longrightarrow> 0 \<le> held sl user \<and> held sl user \<le> 20"
  by (fastforce simp: slots_ok_def held_def split: option.split)

lemma acquired:
  assumes "slots_ok sl" "acquireConcurrency now user isAdmin sl = (None, sl')"
  shows "slots_ok sl'" "held sl' = (held sl)(slot_user user := held sl (slot_user user) + 1)"
    "held sl (slot_user user) < slot_limit isAdmin"
  using assms held_bounds [OF assms(1), of "slot_user user"]
  by (auto simp: acquireConcurrency_def slots_ok_def held_def slot_limit_def Let_def update_conv' fun_eq_iff
      split: option.splits if_splits)

lemma refused:
  assumes "slots_ok sl" "acquireConcurrency now user isAdmin sl = (Some e, sl')"
  shows "slots_ok sl'" "held sl' = held sl" "slot_limit isAdmin \<le> held sl (slot_user user)"
    "e = H5ConcurrencyLimit (held sl (slot_user user)) (slot_limit isAdmin)"
  using assms
  by (auto simp: acquireConcurrency_def slots_ok_def held_def slot_limit_def Let_def update_conv' fun_eq_iff
      split: option.splits if_splits)

lemma released:
  assumes "slots_ok sl"
  shows "slots_ok (releaseConcurrency user sl)"
    "held (releaseConcurrency user sl) = (held sl)(slot_user user := max 0 (held sl (slot_user user) - 1))"
proof -
  show "slots_ok (releaseConcurrency user sl)"
    using assms by (fastforce simp: releaseConcurrency_def slots_ok_def Let_def update_conv' delete_conv' split: option.split)
  show "held (releaseConcurrency user sl) = (held sl)(slot_user user := max 0 (held sl (slot_user user) - 1))"
    using assms
    by (fastforce simp: releaseConcurrency_def slots_ok_def held_def Let_def update_conv' delete_conv' fun_eq_iff
        split: option.split)
qed

text \<open>The slots are only written by acquiring and releasing; requests of all users interleave in these steps.\<close>

datatype slot_event = Acquire gotime string bool | Release string

fun slot_step :: "slot_event \<Rightarrow> slots \<Rightarrow> slots" where
  "slot_step (Acquire now user isAdmin) sl = snd (acquireConcurrency now user isAdmin sl)"
| "slot_step (Release user) sl = releaseConcurrency user sl"

definition slot_run :: "slot_event list \<Rightarrow> slots" where
  "slot_run events = fold slot_step events []"

lemma acquire_step:
  assumes "slots_ok sl"
  shows "slots_ok (snd (acquireConcurrency now user isAdmin sl))"
    and "held (snd (acquireConcurrency now user isAdmin sl)) =
      (if held sl (slot_user user) < slot_limit isAdmin
       then (held sl)(slot_user user := held sl (slot_user user) + 1) else held sl)"
    and "fst (acquireConcurrency now user isAdmin sl) =
      (if held sl (slot_user user) < slot_limit isAdmin then None
       else Some (H5ConcurrencyLimit (held sl (slot_user user)) (slot_limit isAdmin)))"
proof -
  obtain r sl' where r: "acquireConcurrency now user isAdmin sl = (r, sl')" by fastforce
  have "slots_ok sl' \<and> held sl' = (if held sl (slot_user user) < slot_limit isAdmin
       then (held sl)(slot_user user := held sl (slot_user user) + 1) else held sl) \<and>
     r = (if held sl (slot_user user) < slot_limit isAdmin then None
       else Some (H5ConcurrencyLimit (held sl (slot_user user)) (slot_limit isAdmin)))"
  proof (cases r)
    case None
    then show ?thesis using acquired [OF assms, of now user isAdmin sl'] r by simp
  next
    case (Some e)
    then show ?thesis using refused [OF assms, of now user isAdmin e sl'] r by simp
  qed
  then show "slots_ok (snd (acquireConcurrency now user isAdmin sl))"
    "held (snd (acquireConcurrency now user isAdmin sl)) =
      (if held sl (slot_user user) < slot_limit isAdmin
       then (held sl)(slot_user user := held sl (slot_user user) + 1) else held sl)"
    "fst (acquireConcurrency now user isAdmin sl) =
      (if held sl (slot_user user) < slot_limit isAdmin then None
       else Some (H5ConcurrencyLimit (held sl (slot_user user)) (slot_limit isAdmin)))"
    using r by simp_all
qed

lemma slot_step_ok: "slots_ok sl \<Longrightarrow> slots_ok (slot_step event sl)"
  by (cases event) (simp_all add: released acquire_step)

lemma slot_step_limit:
  assumes "slots_ok sl" "held sl user \<le> 15" "\<forall>now name. event = Acquire now name True \<longrightarrow> slot_user name \<noteq> user"
  shows "held (slot_step event sl) user \<le> 15"
  using assms by (cases event) (auto simp: acquire_step released slot_limit_def)

lemma slot_run_snoc: "slot_run (events @ [event]) = slot_step event (slot_run events)"
  by (simp add: slot_run_def)

lemma slot_run_ok: "slots_ok (slot_run events)"
proof (induction events rule: rev_induct)
  case Nil
  then show ?case by (simp add: slot_run_def slots_ok_def)
qed (simp add: slot_run_snoc slot_step_ok)

text \<open>How often a user was granted a slot, and how often one was given back in the name of the user.\<close>

fun granted :: "slots \<Rightarrow> slot_event list \<Rightarrow> string \<Rightarrow> int" where
  "granted sl [] user = 0"
| "granted sl (Acquire now name isAdmin # events) user =
     (if slot_user name = user \<and> fst (acquireConcurrency now name isAdmin sl) = None then 1 else 0) +
     granted (slot_step (Acquire now name isAdmin) sl) events user"
| "granted sl (Release name # events) user = granted (slot_step (Release name) sl) events user"

definition given_back :: "slot_event list \<Rightarrow> string \<Rightarrow> int" where
  "given_back events user = int (length (filter (\<lambda>event. \<exists>name. event = Release name \<and> slot_user name = user) events))"

lemma granted_snoc:
  "granted sl (events @ [event]) user =
     granted sl events user + granted (fold slot_step events sl) [event] user"
  by (induction sl events user rule: granted.induct) simp_all

lemma held_covers: "granted [] events user - given_back events user \<le> held (slot_run events) user"
proof (induction events rule: rev_induct)
  case Nil
  then show ?case by (simp add: slot_run_def held_def given_back_def)
next
  case (snoc event events)
  have run: "fold slot_step events [] = slot_run events" by (simp add: slot_run_def)
  show ?case
  proof (cases event)
    case (Acquire now name isAdmin)
    then show ?thesis
      using snoc acquire_step [OF slot_run_ok [of events], of now name isAdmin]
      by (auto simp: granted_snoc run slot_run_snoc given_back_def)
  next
    case (Release name)
    then show ?thesis
      using snoc released(2) [OF slot_run_ok [of events], of name]
      by (auto simp: granted_snoc run slot_run_snoc given_back_def)
  qed
qed

text \<open>
  C24. However the requests of all users interleave, a user holds between 0 and 20 slots, and one who never asked
  as an administrator at most 15; the slots held are at least those granted less those given back, so that the
  grants of a user never exceed the disable requests and the failed requests of that user by more than this limit.  It
  is a bound on slots, not on the streams that run: a disable request that the platform refused gives a slot back, too.
\<close>

theorem slots_bounded:
  "0 \<le> held (slot_run events) user \<and>
   granted [] events user - given_back events user \<le> held (slot_run events) user \<and>
   held (slot_run events) user \<le>
     (if \<exists>event \<in> set events. \<exists>now name. event = Acquire now name True \<and> slot_user name = user then 20 else 15)"
proof (induction events rule: rev_induct)
  case Nil
  then show ?case by (simp add: slot_run_def held_def given_back_def)
next
  case (snoc event events)
  note covers = held_covers [of "events @ [event]" user]
  show ?case
  proof (cases "\<exists>event \<in> set (events @ [event]). \<exists>now name. event = Acquire now name True \<and> slot_user name = user")
    case True
    then show ?thesis using held_bounds [OF slot_run_ok] covers by simp
  next
    case False
    then have "\<not> (\<exists>event \<in> set events. \<exists>now name. event = Acquire now name True \<and> slot_user name = user)" by auto
    from snoc [unfolded if_not_P [OF this]] have "held (slot_run events) user \<le> 15" by blast
    then have "held (slot_run (events @ [event])) user \<le> 15"
      unfolding slot_run_snoc by (rule slot_step_limit [OF slot_run_ok]) (use False in auto)
    then show ?thesis using False held_bounds [OF slot_run_ok] covers by simp
  qed
qed

text \<open>
  Only a release frees a slot, no matter how much time goes by: after 15 streams that nobody disabled
  the next request of that user is refused at any later time, though the addresses expire after ten
  minutes.
\<close>

theorem abandoned_streams:
  "fst (acquireConcurrency now user False (slot_run (map (\<lambda>t. Acquire t user False) moments))) =
     (if length moments < 15 then None else Some (H5ConcurrencyLimit 15 15))"
proof -
  have "held (slot_run (map (\<lambda>t. Acquire t user False) moments)) (slot_user user) = min 15 (int (length moments))"
  proof (induction moments rule: rev_induct)
    case Nil
    then show ?case by (simp add: slot_run_def held_def)
  next
    case (snoc t ts)
    then show ?case
      using acquire_step(2) [OF slot_run_ok, of t user False] by (auto simp: slot_run_snoc slot_limit_def)
  qed
  then show ?thesis
    using acquire_step(3) [OF slot_run_ok, of now user False] by (auto simp: slot_limit_def)
qed

section \<open>Streams\<close>

lemma on_net_slots [simp]: "hs_concurrency (snd (on_net m s)) = hs_concurrency s"
  by (simp add: on_net_def split: prod.split sum.split)

lemma replies_not_200 [simp]:
  "fst (writeServiceError e) \<noteq> 200" "fst (writeAuthzError a) \<noteq> 200" "fst writeAuditUnavailable \<noteq> 200"
  "fst bad_channel_reply \<noteq> 200" "fst bad_json_reply \<noteq> 200"
  by (simp_all add: writeServiceError_def writeAuthzError_def writeAuditUnavailable_def bad_channel_reply_def
      bad_json_reply_def split: h5_error.split h5_auth_error.split)

text \<open>What the service does to the slots: a stream costs one, a failure none.\<close>

definition costs :: "string \<Rightarrow> 'w h5_state \<Rightarrow> (h5_error + 'r) \<times> 'w h5_state \<Rightarrow> bool" where
  "costs user s outcome \<longleftrightarrow>
     slots_ok (hs_concurrency (snd outcome)) \<and>
     held (hs_concurrency (snd outcome)) =
       (case fst outcome of
          Inl _ \<Rightarrow> held (hs_concurrency s)
        | Inr _ \<Rightarrow> (held (hs_concurrency s))(slot_user user := held (hs_concurrency s) (slot_user user) + 1))"

lemma acquire_release:
  assumes "slots_ok sl" "acquireConcurrency now user isAdmin sl = (None, sl')"
  shows "slots_ok (releaseConcurrency user sl')" "held (releaseConcurrency user sl') = held sl"
proof -
  note a = acquired [OF assms]
  show "slots_ok (releaseConcurrency user sl')" using released(1) [OF a(1)] .
  show "held (releaseConcurrency user sl') = held sl"
    using held_bounds [OF assms(1), of "slot_user user"] by (auto simp: released(2) [OF a(1)] a(2) fun_eq_iff)
qed

lemma live_costs:
  assumes "slots_ok (hs_concurrency s)"
  shows "costs user s (h5_GetLiveURL env org channelID user isAdmin protocol quality s)"
proof (cases "validateChannel (he_repo env) org channelID")
  case (Inr channel)
  obtain r sl where r: "acquireConcurrency (h5_now env s) user isAdmin (hs_concurrency s) = (r, sl)" by fastforce
  show ?thesis
  proof (cases r)
    case None
    let ?s1 = "snd (on_net (ez_EnsureAACTransfer (he_net env) (channelToAccount channel) (hc_device_serial channel)
        (hc_channel_no channel)) (s\<lparr>hs_concurrency := sl\<rparr>))"
    obtain z s2 where z: "on_net (ez_LiveAddress (he_net env) (channelToAccount channel)
        (live_request channel protocol quality)) ?s1 = (z, s2)" by fastforce
    then have "hs_concurrency s2 = sl"
      using on_net_slots [of "ez_LiveAddress (he_net env) (channelToAccount channel) (live_request channel protocol quality)" ?s1]
      by simp
    then show ?thesis
      using z r None Inr acquired [OF assms, of _ user isAdmin sl] acquire_release [OF assms, of _ user isAdmin sl]
      by (cases z) (simp_all add: costs_def h5_GetLiveURL_def Let_def)
  next
    case (Some e)
    then show ?thesis
      using r Inr refused [OF assms, of _ user isAdmin e sl] by (simp add: costs_def h5_GetLiveURL_def)
  qed
qed (use assms in \<open>simp add: costs_def h5_GetLiveURL_def\<close>)

lemma playback_costs:
  assumes "slots_ok (hs_concurrency s)"
  shows "costs (pu_user_id request) s (h5_GetPlaybackURL env org channelID request s)"
proof (cases "validateChannel (he_repo env) org channelID")
  case (Inr channel)
  let ?user = "pu_user_id request" and ?admin = "pu_is_admin request"
  obtain r sl where r: "acquireConcurrency (h5_now env s) ?user ?admin (hs_concurrency s) = (r, sl)" by fastforce
  show ?thesis
  proof (cases r)
    case None
    let ?play = "ez_PlaybackAddress (he_net env) (channelToAccount channel)
        \<lparr>pr_device_serial = hc_device_serial channel, pr_channel_no = hc_channel_no channel,
         pr_start_time = from_unix (pu_start_time request), pr_stop_time = from_unix (pu_stop_time request),
         pr_protocol = 4, pr_quality = 2, pr_expire_time = 600, pr_code = []\<rparr>"
    obtain z s2 where z: "on_net ?play (s\<lparr>hs_concurrency := sl\<rparr>) = (z, s2)" by fastforce
    then have "hs_concurrency s2 = sl" using on_net_slots [of ?play "s\<lparr>hs_concurrency := sl\<rparr>"] by simp
    then show ?thesis
      using z r None Inr assms acquired [OF assms, of _ ?user ?admin sl] acquire_release [OF assms, of _ ?user ?admin sl]
      by (cases z) (simp_all add: costs_def h5_GetPlaybackURL_def Let_def)
  next
    case (Some e)
    then show ?thesis
      using r Inr assms refused [OF assms, of _ ?user ?admin e sl] by (simp add: costs_def h5_GetPlaybackURL_def)
  qed
qed (use assms in \<open>simp add: costs_def h5_GetPlaybackURL_def\<close>)

text \<open>The contract of a handler that opens a stream.\<close>

definition stream_contract ::
  "h5_authorizer \<Rightarrow> string \<Rightarrow> 'w h5_state \<Rightarrow> h5_reply \<times> h5_audit list \<times> 'w h5_state \<Rightarrow> bool" where
  "stream_contract auth org s outcome \<longleftrightarrow>
     (case outcome of (reply, events, s') \<Rightarrow>
        if fst reply = 200 then
          (\<exists>uid role. ha_current_user auth = Inr (uid, role) \<and> 0 < uid \<and> ha_can_view auth org = Inr True \<and>
             (\<exists>event \<in> set events. hau_result event = ''success'' \<and> hau_user_id event = Some uid \<and>
                (\<exists>store. ha_record auth = Some store \<and> store event)) \<and>
             held (hs_concurrency s') =
               (held (hs_concurrency s))(itoa uid := held (hs_concurrency s) (itoa uid) + 1))
        else held (hs_concurrency s') = held (hs_concurrency s))"

lemma slot_user_itoa [simp]: "slot_user (itoa uid) = itoa uid"
  by (simp add: slot_user_def)

lemma audited_contract:
  assumes ok: "slots_ok (hs_concurrency s)" and cost: "costs (itoa uid) s outcome"
    and user: "ha_current_user auth = Inr (uid, role)" "0 < uid" and view: "ha_can_view auth org = Inr True"
    and audited: "audited_stream auth action org channelID (itoa uid) body outcome = (reply, later, s1)"
  shows "stream_contract auth org s (reply, events @ later, s1)"
proof -
  obtain r s2 where outcome: "outcome = (r, s2)" by fastforce
  show ?thesis
  proof (cases r)
    case (Inl e)
    then show ?thesis
      using cost audited outcome by (auto simp: stream_contract_def audited_stream_def costs_def)
  next
    case (Inr result)
    then have c: "slots_ok (hs_concurrency s2)"
      "held (hs_concurrency s2) = (held (hs_concurrency s))(itoa uid := held (hs_concurrency s) (itoa uid) + 1)"
      using cost outcome by (simp_all add: costs_def)
    obtain stored recorded where rec: "recordMonitorAudit auth action org channelID ''success'' = (stored, recorded)"
      by fastforce
    show ?thesis
    proof (cases stored)
      case True
      then have "reply = (200, body result)" "later = recorded" "s1 = s2"
        using audited outcome Inr rec by (simp_all add: audited_stream_def)
      moreover have "\<exists>event \<in> set recorded. hau_result event = ''success'' \<and> hau_user_id event = Some uid \<and>
          (\<exists>store. ha_record auth = Some store \<and> store event)"
        using rec True user by (auto simp: recordMonitorAudit_def Let_def split: option.splits)
      ultimately show ?thesis using c user view by (auto simp: stream_contract_def)
    next
      case False
      then have "reply = writeAuditUnavailable"
        "s1 = s2\<lparr>hs_concurrency := releaseConcurrency (itoa uid) (hs_concurrency s2)\<rparr>"
        using audited outcome Inr rec by (simp_all add: audited_stream_def)
      moreover have "held (releaseConcurrency (itoa uid) (hs_concurrency s2)) = held (hs_concurrency s)"
        using held_bounds [OF ok, of "itoa uid"] by (auto simp: released(2) [OF c(1)] c(2) fun_eq_iff)
      ultimately show ?thesis by (simp add: stream_contract_def)
    qed
  qed
qed

lemma not_admitted:
  "ensureCanViewStoreForAction auth org channelID action = (Some reply, events) \<Longrightarrow> fst reply \<noteq> 200"
  "ensureCanViewStoreForAction auth org channelID action = (None, events) \<Longrightarrow> ha_can_view auth org = Inr True"
  by (auto simp: ensureCanViewStoreForAction_def split: sum.splits if_splits)

lemma server_identity:
  "applyServerIdentity auth = Inl reply \<Longrightarrow> fst reply \<noteq> 200"
  "applyServerIdentity auth = Inr (user, isAdmin) \<Longrightarrow>
   \<exists>uid role. ha_current_user auth = Inr (uid, role) \<and> 0 < uid \<and> user = itoa uid"
  by (auto simp: applyServerIdentity_def split: sum.splits if_splits)

lemma contract_kept:
  "fst reply \<noteq> 200 \<Longrightarrow> stream_contract auth org s (reply, events, s)"
  by (simp add: stream_contract_def)

text \<open>
  C12. A live or playback address is only handed out to a signed-in user who may see the store, after the
  audit trail has taken the event, and then it costs this user one slot; every other reply, errors of the
  platform and of the audit trail included, leaves the slots of all users as they were.
\<close>

theorem stream_slots:
  assumes "slots_ok (hs_concurrency s)"
  shows "stream_contract auth (hq_org live) s (h5_getLiveURL env auth live s) \<and>
     stream_contract auth (hq_org play) s (h5_getPlaybackURL env auth play s)"
proof
  show "stream_contract auth (hq_org live) s (h5_getLiveURL env auth live s)"
    unfolding h5_getLiveURL_def Let_def
    by (auto split: option.split prod.split sum.split intro!: contract_kept dest: not_admitted server_identity
        intro: audited_contract [OF assms live_costs [OF assms]])
  have cost: "costs user s (h5_GetPlaybackURL env org channelID (r\<lparr>pu_user_id := user, pu_is_admin := admin\<rparr>) s)"
    for user org channelID r admin
    using playback_costs [OF assms, of "r\<lparr>pu_user_id := user, pu_is_admin := admin\<rparr>"] by simp
  show "stream_contract auth (hq_org play) s (h5_getPlaybackURL env auth play s)"
    unfolding h5_getPlaybackURL_def Let_def
    by (auto split: option.split prod.split sum.split sent_body.split intro!: contract_kept dest: not_admitted server_identity
        intro: audited_contract [OF assms cost])
qed

text \<open>Applied to a viewer of one store whose platform answers with an address.\<close>

definition demo_channel :: ChannelInfo where
  "demo_channel = \<lparr>hc_id = 3, hc_store_id = 7, hc_channel_no = 2, hc_channel_name = ''c'', hc_is_active = True,
     hc_area_type = ''beauty'', hc_scene_type = [], hc_area_number = 1, hc_bed_label = [], hc_area_note = [],
     hc_thumbnail_url = [], hc_device_serial = ''d1'', hc_ezviz_account_id = 1, hc_account_name = ''a'',
     hc_app_key = ''k'', hc_app_secret = ''s'', hc_access_token = ''t''\<rparr>"

definition demo_repo :: h5_repo where
  "demo_repo = \<lparr>hr_store = (\<lambda>org. Inr \<lparr>si_id = 7, si_name = ''s'', si_city = ''c'', si_external_org_id = org\<rparr>),
     hr_channels = (\<lambda>_. Inr [demo_channel]), hr_channel = (\<lambda>_. Inr demo_channel), hr_stores = Inr []\<rparr>"

definition q :: string where "q = [quote]"

definition demo_answer :: string where
  "demo_answer = ''{'' @ q @ ''code'' @ q @ '':'' @ q @ ''200'' @ q @ '','' @ q @ ''data'' @ q @ '':{'' @ q @ ''url'' @ q @
     '':'' @ q @ ''u'' @ q @ ''}}''"

definition h5_demo_env :: "unit h5_env" where
  "h5_demo_env = \<lparr>he_net = \<lparr>net_base = ''https://x'', net_do = (\<lambda>_ w. (Some (200, demo_answer), w)), net_now = (\<lambda>_. 5)\<rparr>,
     he_repo = demo_repo, he_midnight = midnight_at 0, he_local_date = date_at 0\<rparr>"

definition demo_auth :: h5_authorizer where
  "demo_auth = \<lparr>ha_current_user = Inr (9, ''viewer''), ha_can_view = (\<lambda>_. Inr True), ha_filter = Inr,
     ha_record = Some (\<lambda>_. True)\<rparr>"

definition demo_state :: "unit h5_state" where
  "demo_state = \<lparr>hs_ez = \<lparr>st_tokens = [], st_world = ()\<rparr>, hs_concurrency = []\<rparr>"

definition h5_demo_request :: "'b sent_body \<Rightarrow> 'b h5_request" where
  "h5_demo_request body = \<lparr>hq_org = ''77'', hq_channel = ''3'', hq_date = [], hq_json = body\<rparr>"

definition demo_playback :: PlaybackURLRequest where
  "demo_playback = \<lparr>pu_start_time = 10, pu_stop_time = 20, pu_user_id = [], pu_is_admin = False\<rparr>"

lemma demo_reply: "fst (h5_getLiveURL h5_demo_env demo_auth (h5_demo_request NoBody) demo_state) =
   (200, BodyLive \<lparr>lu_url = ''u'', lu_expire_time = [], lu_url_id = [], lu_protocol = ''flv''\<rparr>)"
  by code_simp

theorem stream_slots_witness:
  "stream_contract demo_auth ''77'' demo_state (h5_getLiveURL h5_demo_env demo_auth (h5_demo_request NoBody) demo_state) \<and>
   stream_contract demo_auth ''77'' demo_state
     (h5_getPlaybackURL h5_demo_env demo_auth (h5_demo_request (Decoded demo_playback)) demo_state) \<and>
   fst (fst (h5_getLiveURL h5_demo_env demo_auth (h5_demo_request NoBody) demo_state)) = 200"
  using stream_slots [of demo_state demo_auth "h5_demo_request NoBody" h5_demo_env "h5_demo_request (Decoded demo_playback)"]
    demo_reply
  by (simp add: demo_state_def slots_ok_def h5_demo_request_def)

section \<open>The page of a store\<close>

lemma mset_filter_categories:
  assumes "distinct ks" "\<forall>x \<in> set xs. f x \<in> set ks"
  shows "mset (concat (map (\<lambda>k. filter (\<lambda>x. f x = k) xs) ks)) = mset xs"
  using assms
proof (induction xs)
  case (Cons x xs)
  have "mset (concat (map (\<lambda>k. filter (\<lambda>y. f y = k) (x # xs)) ls)) =
      (if f x \<in> set ls then {#x#} else {#}) + mset (concat (map (\<lambda>k. filter (\<lambda>y. f y = k) xs) ls))"
    if "distinct ls" for ls
    using that by (induction ls) auto
  then show ?case using Cons by simp
qed (simp add: map_replicate_const)

lemma mset_concat_map_cong:
  "(\<And>k. k \<in> set ks \<Longrightarrow> mset (f k) = mset (g k)) \<Longrightarrow> mset (concat (map f ks)) = mset (concat (map g ks))"
  by (induction ks) auto

lemma concat_map_filter_nonempty: "concat (map f (filter (\<lambda>k. f k \<noteq> []) ks)) = concat (map f ks)"
  by (induction ks) auto

lemma category_known: "channelCategory channel \<in> set category_order"
  by (simp add: channelCategory_def category_order_def Let_def)

lemma mset_sortMonitorChannels [simp]: "mset (sortMonitorChannels category channels) = mset channels"
  by (simp add: sortMonitorChannels_def)

text \<open>
  The page of a store shows every usable channel exactly once and no other, in the group of its
  category; the groups come in a fixed order and none is empty.
\<close>

theorem page_channels:
  "mset (concat (map mg_channels (groupChannels channels))) = mset (map monitor_channel (filter validChannel channels)) \<and>
   (\<exists>ps. map mg_category (groupChannels channels) = filter ps category_order) \<and>
   list_all (\<lambda>g. mg_channels g \<noteq> [] \<and> list_all (\<lambda>c. mc_category c = mg_category g) (mg_channels g))
     (groupChannels channels)"
proof -
  define xs where "xs = sort_key hc_channel_no (filter validChannel channels)"
  let ?cs = "\<lambda>category. map monitor_channel (filter (\<lambda>c. channelCategory c = category) xs)"
  let ?g = "\<lambda>category. \<lparr>mg_category = category, mg_label = channelCategoryLabel category,
      mg_channels = sortMonitorChannels category (?cs category)\<rparr>"
  have groups: "groupChannels channels = map ?g (filter (\<lambda>category. ?cs category \<noteq> []) category_order)"
    by (simp add: groupChannels_def Let_def xs_def)
  have sorted: "set (sortMonitorChannels category cs) = set cs" for category cs
    using mset_sortMonitorChannels by (metis set_mset_mset)
  have "mset (concat (map mg_channels (groupChannels channels))) =
      mset (concat (map ?cs (filter (\<lambda>category. ?cs category \<noteq> []) category_order)))"
    unfolding groups by (simp add: o_def) (rule mset_concat_map_cong, simp)
  also have "\<dots> = mset (concat (map ?cs category_order))" by (simp only: concat_map_filter_nonempty)
  also have "concat (map ?cs category_order) =
      map monitor_channel (concat (map (\<lambda>k. filter (\<lambda>x. channelCategory x = k) xs) category_order))"
    by (simp add: map_concat o_def)
  also have "mset \<dots> = image_mset monitor_channel (mset xs)"
  proof -
    have "distinct category_order" by (simp add: category_order_def)
    then show ?thesis
      unfolding mset_map by (subst mset_filter_categories) (use category_known in auto)
  qed
  also have "\<dots> = mset (map monitor_channel (filter validChannel channels))" by (simp add: xs_def)
  finally have all: "mset (concat (map mg_channels (groupChannels channels))) =
      mset (map monitor_channel (filter validChannel channels))" .
  have "map mg_category (groupChannels channels) = filter (\<lambda>category. ?cs category \<noteq> []) category_order"
    unfolding groups by (simp add: o_def)
  moreover have "list_all (\<lambda>g. mg_channels g \<noteq> [] \<and> list_all (\<lambda>c. mc_category c = mg_category g) (mg_channels g))
      (groupChannels channels)"
  proof -
    have "mg_channels (?g category) \<noteq> []" if "?cs category \<noteq> []" for category
      using that sorted [of category "?cs category"] by (metis MonitorGroup.select_convs(3) set_empty)
    moreover have "mc_category c = category" if "c \<in> set (sortMonitorChannels category (?cs category))" for c category
      using that unfolding sorted by (auto simp: monitor_channel_def)
    ultimately show ?thesis unfolding groups by (auto simp: list_all_iff)
  qed
  ultimately show ?thesis using all by blast
qed

section \<open>The day of the recordings\<close>

text \<open>
  A process whose clock is at most sixteen hours behind and not ahead of China asks for the recordings
  of the very day in China that the request names, from its first to its last second.
\<close>

theorem recordings_of_the_day:
  assumes "parse_date (trim_space asked) = Some d" and "he_midnight env d = midnight_at offset d"
    and "ezvizLocation - 16 * hour \<le> offset" "offset \<le> ezvizLocation" "midnight_at offset d \<noteq> 0"
  shows "\<exists>t. parseDate env now asked = Some (t, trim_space asked) \<and>
     dayRange now' t = (to_unix (midnight_at ezvizLocation d), to_unix (midnight_at ezvizLocation d) + 86399)"
proof -
  have nonempty: "trim_space asked \<noteq> []" using assms(1) by (auto simp: parse_date_def)
  have "(midnight_at offset d + ezvizLocation) div day_ns = days_of_date d"
    by (rule int_div_pos_eq [of _ _ _ "ezvizLocation - offset"])
      (use assms(3,4) in \<open>simp_all add: midnight_at_def day_ns_def hour_def ezvizLocation_def\<close>)
  then have day: "midnight_at ezvizLocation (date_at ezvizLocation (midnight_at offset d)) = midnight_at ezvizLocation d"
    by (simp add: date_at_def midnight_at_def days_of_date_of_day)
  have "to_unix (midnight_at ezvizLocation d + (24 * hour - second)) = to_unix (midnight_at ezvizLocation d) + 86399"
  proof -
    have "midnight_at ezvizLocation d + (24 * hour - second) - unix_epoch =
        (midnight_at ezvizLocation d - unix_epoch) + 86399 * 1000000000"
      by (simp add: hour_def second_def)
    then show ?thesis unfolding to_unix_def by simp
  qed
  then show ?thesis
    using nonempty assms(1,2,5) day by (simp add: parseDate_def Let_def dayRange_def)
qed

theorem recordings_of_the_day_witness:
  "\<exists>t. parseDate h5_demo_env 3 ''2024-02-29'' = Some (t, trim_space ''2024-02-29'') \<and>
     dayRange 4 t = (to_unix (midnight_at ezvizLocation (2024, 2, 29)), to_unix (midnight_at ezvizLocation (2024, 2, 29)) + 86399)"
proof (rule recordings_of_the_day [where offset = 0])
  show "parse_date (trim_space ''2024-02-29'') = Some (2024, 2, 29)" by code_simp
  show "midnight_at 0 (2024, 2, 29) \<noteq> 0" by code_simp
qed (simp_all add: h5_demo_env_def ezvizLocation_def hour_def)

text \<open>
  Without a date the reply names the day of the process's own zone, but the recordings are those of
  the day in China: for a process in UTC at five in the afternoon these are different days.
\<close>

theorem today_is_another_day:
  "case parseDate h5_demo_env (from_unix 1704128400) [] of
     Some (t, shown) \<Rightarrow>
       shown = ''2024-01-01'' \<and>
       dayRange (from_unix 1704128400) t =
         (to_unix (midnight_at ezvizLocation (2024, 1, 2)), to_unix (midnight_at ezvizLocation (2024, 1, 2)) + 86399)
   | None \<Rightarrow> False"
  by code_simp

end
