(* ===== verification/RV_Cities.thy ===== *)
theory RV_Cities
  imports GoStrings
begin

text \<open>
  The names of the cities (\<open>internal/resourceview/city_aliases.go\<close>): provinces and municipalities, then
  the cities, as code points.  \<open>CityName\<close> falls back to the number.
\<close>

definition provinceAliases :: "(int \<times> int list) list" where
  "provinceAliases = [
     (1, [0x5317, 0x4EAC]), (2, [0x5929, 0x6D25]), (3, [0x6CB3, 0x5317]), (4, [0x5C71, 0x897F]),
     (5, [0x5185, 0x8499, 0x53E4]), (6, [0x8FBD, 0x5B81]), (7, [0x5409, 0x6797]),
     (8, [0x9ED1, 0x9F99, 0x6C5F]), (9, [0x4E0A, 0x6D77]), (10, [0x6C5F, 0x82CF]), (11, [0x6D59, 0x6C5F]),
     (12, [0x5B89, 0x5FBD]), (13, [0x798F, 0x5EFA]), (14, [0x6C5F, 0x897F]), (15, [0x5C71, 0x4E1C]),
     (16, [0x6CB3, 0x5357]), (17, [0x6E56, 0x5317]), (18, [0x6E56, 0x5357]), (19, [0x5E7F, 0x4E1C]),
     (20, [0x5E7F, 0x897F]), (21, [0x6D77, 0x5357]), (22, [0x91CD, 0x5E86]), (23, [0x56DB, 0x5DDD]),
     (24, [0x8D35, 0x5DDE]), (25, [0x4E91, 0x5357]), (26, [0x897F, 0x85CF]), (27, [0x9655, 0x897F]),
     (28, [0x7518, 0x8083]), (29, [0x9752, 0x6D77]), (30, [0x5B81, 0x590F]), (31, [0x65B0, 0x7586]),
     (32, [0x53F0, 0x6E7E]), (33, [0x9999, 0x6E2F]), (34, [0x6FB3, 0x95E8]), (35, [0x6D77, 0x5916]),
     (36, [0x5176, 0x4ED6])]"

definition cityAliases1 :: "(int \<times> int list) list" where
  "cityAliases1 = [
     (73, [0x77F3, 0x5BB6, 0x5E84]), (74, [0x5510, 0x5C71]), (75, [0x79E6, 0x7687, 0x5C9B]),
     (76, [0x90AF, 0x90F8]), (77, [0x90A2, 0x53F0]), (78, [0x4FDD, 0x5B9A]), (79, [0x5F20, 0x5BB6, 0x53E3]),
     (80, [0x627F, 0x5FB7]), (81, [0x8861, 0x6C34]), (82, [0x5ECA, 0x574A]), (83, [0x6CA7, 0x5DDE]),
     (84, [0x592A, 0x539F]), (85, [0x5927, 0x540C]), (86, [0x9633, 0x6CC9]), (87, [0x957F, 0x6CBB]),
     (88, [0x664B, 0x57CE]), (89, [0x6714, 0x5DDE]), (90, [0x664B, 0x4E2D]), (91, [0x8FD0, 0x57CE]),
     (92, [0x5FFB, 0x5DDE]), (93, [0x4E34, 0x6C7E]), (94, [0x5415, 0x6881]),
     (95, [0x547C, 0x548C, 0x6D69, 0x7279]), (96, [0x5305, 0x5934]), (97, [0x4E4C, 0x6D77]),
     (98, [0x8D64, 0x5CF0]), (99, [0x901A, 0x8FBD]), (100, [0x9102, 0x5C14, 0x591A, 0x65AF]),
     (101, [0x547C, 0x4F26, 0x8D1D, 0x5C14]), (102, [0x5DF4, 0x5F66, 0x6DD6, 0x5C14]),
     (103, [0x4E4C, 0x5170, 0x5BDF, 0x5E03]), (104, [0x5174, 0x5B89, 0x76DF]),
     (105, [0x9521, 0x6797, 0x90ED, 0x52D2]), (106, [0x963F, 0x62C9, 0x5584]), (107, [0x6C88, 0x9633]),
     (108, [0x5927, 0x8FDE]), (109, [0x978D, 0x5C71]), (110, [0x629A, 0x987A]), (111, [0x672C, 0x6EAA]),
     (112, [0x4E39, 0x4E1C]), (113, [0x9526, 0x5DDE]), (114, [0x8425, 0x53E3]), (115, [0x961C, 0x65B0]),
     (116, [0x8FBD, 0x9633]), (117, [0x76D8, 0x9526]), (118, [0x94C1, 0x5CAD]), (119, [0x671D, 0x9633]),
     (120, [0x846B, 0x82A6, 0x5C9B]), (121, [0x957F, 0x6625]), (122, [0x5409, 0x6797, 0x5E02]),
     (123, [0x56DB, 0x5E73]), (124, [0x8FBD, 0x6E90]), (125, [0x901A, 0x5316]), (126, [0x767D, 0x5C71]),
     (127, [0x677E, 0x539F]), (128, [0x767D, 0x57CE]), (129, [0x5EF6, 0x8FB9]),
     (130, [0x54C8, 0x5C14, 0x6EE8]), (131, [0x9F50, 0x9F50, 0x54C8, 0x5C14]), (132, [0x9E21, 0x897F]),
     (133, [0x9E64, 0x5C97]), (134, [0x53CC, 0x9E2D, 0x5C71]), (135, [0x5927, 0x5E86]),
     (136, [0x4F0A, 0x6625]), (137, [0x4F73, 0x6728, 0x65AF]), (138, [0x4E03, 0x53F0, 0x6CB3]),
     (139, [0x7261, 0x4E39, 0x6C5F]), (140, [0x9ED1, 0x6CB3]), (141, [0x7EE5, 0x5316]),
     (142, [0x5927, 0x5174, 0x5B89, 0x5CAD]), (162, [0x5357, 0x4EAC]), (163, [0x65E0, 0x9521]),
     (164, [0x5F90, 0x5DDE]), (165, [0x5E38, 0x5DDE]), (166, [0x82CF, 0x5DDE]), (167, [0x5357, 0x901A]),
     (168, [0x8FDE, 0x4E91, 0x6E2F]), (169, [0x6DEE, 0x5B89]), (170, [0x76D0, 0x57CE]),
     (171, [0x626C, 0x5DDE]), (172, [0x9547, 0x6C5F]), (173, [0x6CF0, 0x5DDE]), (174, [0x5BBF, 0x8FC1]),
     (175, [0x676D, 0x5DDE]), (176, [0x5B81, 0x6CE2]), (177, [0x6E29, 0x5DDE]), (178, [0x5609, 0x5174]),
     (179, [0x6E56, 0x5DDE]), (180, [0x7ECD, 0x5174]), (181, [0x821F, 0x5C71]), (182, [0x8862, 0x5DDE]),
     (183, [0x91D1, 0x534E]), (184, [0x53F0, 0x5DDE]), (185, [0x4E3D, 0x6C34]), (186, [0x5408, 0x80A5]),
     (187, [0x829C, 0x6E56]), (188, [0x868C, 0x57E0]), (189, [0x6DEE, 0x5357]),
     (190, [0x9A6C, 0x978D, 0x5C71]), (191, [0x6DEE, 0x5317]), (192, [0x94DC, 0x9675]),
     (193, [0x5B89, 0x5E86]), (194, [0x9EC4, 0x5C71]), (195, [0x6EC1, 0x5DDE]), (196, [0x961C, 0x9633]),
     (197, [0x5BBF, 0x5DDE]), (199, [0x516D, 0x5B89]), (200, [0x4EB3, 0x5DDE]), (201, [0x6C60, 0x5DDE]),
     (202, [0x5BA3, 0x57CE]), (203, [0x798F, 0x5DDE]), (204, [0x53A6, 0x95E8]), (205, [0x8386, 0x7530]),
     (206, [0x4E09, 0x660E]), (207, [0x6CC9, 0x5DDE]), (208, [0x6F33, 0x5DDE]), (209, [0x5357, 0x5E73]),
     (210, [0x9F99, 0x5CA9]), (211, [0x5B81, 0x5FB7]), (212, [0x5357, 0x660C]),
     (213, [0x666F, 0x5FB7, 0x9547]), (214, [0x840D, 0x4E61]), (215, [0x4E5D, 0x6C5F]),
     (216, [0x65B0, 0x4F59]), (217, [0x9E70, 0x6F6D]), (218, [0x8D63, 0x5DDE]), (219, [0x5409, 0x5B89]),
     (220, [0x5B9C, 0x6625]), (221, [0x629A, 0x5DDE]), (222, [0x4E0A, 0x9976]), (223, [0x6D4E, 0x5357]),
     (224, [0x9752, 0x5C9B]), (225, [0x6DC4, 0x535A]), (226, [0x67A3, 0x5E84]), (227, [0x4E1C, 0x8425]),
     (228, [0x70DF, 0x53F0]), (229, [0x6F4D, 0x574A]), (230, [0x6D4E, 0x5B81]), (231, [0x6CF0, 0x5B89]),
     (232, [0x5A01, 0x6D77]), (233, [0x65E5, 0x7167]), (234, [0x83B1, 0x829C]), (235, [0x4E34, 0x6C82]),
     (236, [0x5FB7, 0x5DDE])]"

definition cityAliases2 :: "(int \<times> int list) list" where
  "cityAliases2 = [
     (237, [0x804A, 0x57CE]), (238, [0x6EE8, 0x5DDE]), (239, [0x83CF, 0x6CFD]), (240, [0x90D1, 0x5DDE]),
     (241, [0x5F00, 0x5C01]), (242, [0x6D1B, 0x9633]), (243, [0x5E73, 0x9876, 0x5C71]),
     (244, [0x5B89, 0x9633]), (245, [0x9E64, 0x58C1]), (246, [0x65B0, 0x4E61]), (247, [0x7126, 0x4F5C]),
     (248, [0x6FEE, 0x9633]), (249, [0x8BB8, 0x660C]), (250, [0x6F2F, 0x6CB3]),
     (251, [0x4E09, 0x95E8, 0x5CE1]), (252, [0x5357, 0x9633]), (253, [0x5546, 0x4E18]),
     (254, [0x4FE1, 0x9633]), (255, [0x5468, 0x53E3]), (256, [0x9A7B, 0x9A6C, 0x5E97]),
     (257, [0x6D4E, 0x6E90]), (258, [0x6B66, 0x6C49]), (259, [0x9EC4, 0x77F3]), (260, [0x5341, 0x5830]),
     (261, [0x5B9C, 0x660C]), (262, [0x8944, 0x6A0A]), (263, [0x9102, 0x5DDE]), (264, [0x8346, 0x95E8]),
     (265, [0x5B5D, 0x611F]), (266, [0x8346, 0x5DDE]), (267, [0x9EC4, 0x5188]), (268, [0x54B8, 0x5B81]),
     (269, [0x968F, 0x5DDE]), (270, [0x6069, 0x65BD, 0x5DDE]), (271, [0x4ED9, 0x6843]),
     (272, [0x6F5C, 0x6C5F]), (273, [0x5929, 0x95E8]), (274, [0x795E, 0x519C, 0x67B6]),
     (275, [0x957F, 0x6C99]), (276, [0x682A, 0x6D32]), (277, [0x6E58, 0x6F6D]), (278, [0x8861, 0x9633]),
     (279, [0x90B5, 0x9633]), (280, [0x5CB3, 0x9633]), (281, [0x5E38, 0x5FB7]),
     (282, [0x5F20, 0x5BB6, 0x754C]), (283, [0x76CA, 0x9633]), (284, [0x90F4, 0x5DDE]),
     (285, [0x6C38, 0x5DDE]), (286, [0x6000, 0x5316]), (287, [0x5A04, 0x5E95]),
     (288, [0x6E58, 0x897F, 0x5DDE]), (289, [0x5E7F, 0x5DDE]), (290, [0x97F6, 0x5173]),
     (291, [0x6DF1, 0x5733]), (292, [0x73E0, 0x6D77]), (293, [0x6C55, 0x5934]), (294, [0x4F5B, 0x5C71]),
     (295, [0x6C5F, 0x95E8]), (296, [0x6E5B, 0x6C5F]), (297, [0x8302, 0x540D]), (298, [0x8087, 0x5E86]),
     (299, [0x60E0, 0x5DDE]), (300, [0x6885, 0x5DDE]), (301, [0x6C55, 0x5C3E]), (302, [0x6CB3, 0x6E90]),
     (303, [0x9633, 0x6C5F]), (304, [0x6E05, 0x8FDC]), (305, [0x4E1C, 0x839E]), (306, [0x4E2D, 0x5C71]),
     (307, [0x6F6E, 0x5DDE]), (308, [0x63ED, 0x9633]), (309, [0x4E91, 0x6D6E]), (310, [0x5357, 0x5B81]),
     (311, [0x67F3, 0x5DDE]), (312, [0x6842, 0x6797]), (313, [0x68A7, 0x5DDE]), (314, [0x5317, 0x6D77]),
     (315, [0x9632, 0x57CE, 0x6E2F]), (316, [0x94A6, 0x5DDE]), (317, [0x8D35, 0x6E2F]),
     (318, [0x7389, 0x6797]), (319, [0x767E, 0x8272]), (320, [0x8D3A, 0x5DDE]), (321, [0x6CB3, 0x6C60]),
     (322, [0x6765, 0x5BBE]), (323, [0x5D07, 0x5DE6]), (324, [0x6D77, 0x53E3]), (325, [0x4E09, 0x4E9A]),
     (326, [0x4E94, 0x6307, 0x5C71]), (327, [0x743C, 0x6D77]), (328, [0x510B, 0x5DDE]),
     (329, [0x6587, 0x660C]), (330, [0x4E07, 0x5B81]), (331, [0x4E1C, 0x65B9]), (332, [0x5B9A, 0x5B89]),
     (333, [0x5C6F, 0x660C]), (334, [0x6F84, 0x8FC8]), (335, [0x4E34, 0x9AD8]), (336, [0x767D, 0x6C99]),
     (337, [0x660C, 0x6C5F]), (338, [0x4E50, 0x4E1C]), (339, [0x9675, 0x6C34]), (340, [0x4FDD, 0x4EAD]),
     (341, [0x743C, 0x4E2D]), (342, [0x897F, 0x6C99, 0x7FA4, 0x5C9B]), (343, [0x5357, 0x6C99, 0x7FA4, 0x5C9B]),
     (344, [0x4E2D, 0x6C99, 0x7FA4, 0x5C9B]), (377, [0x77F3, 0x67F1, 0x53BF]), (378, [0x79C0, 0x5C71, 0x53BF]),
     (379, [0x9149, 0x9633, 0x53BF]), (380, [0x5F6D, 0x6C34, 0x53BF]), (385, [0x6210, 0x90FD]),
     (386, [0x81EA, 0x8D21]), (387, [0x6500, 0x679D, 0x82B1]), (388, [0x6CF8, 0x5DDE]),
     (389, [0x5FB7, 0x9633]), (390, [0x7EF5, 0x9633]), (391, [0x5E7F, 0x5143]), (392, [0x9042, 0x5B81]),
     (393, [0x5185, 0x6C5F]), (394, [0x4E50, 0x5C71]), (395, [0x5357, 0x5145]), (396, [0x7709, 0x5C71]),
     (397, [0x5B9C, 0x5BBE]), (398, [0x5E7F, 0x5B89]), (399, [0x8FBE, 0x5DDE]), (400, [0x96C5, 0x5B89]),
     (401, [0x5DF4, 0x4E2D]), (402, [0x8D44, 0x9633]), (403, [0x963F, 0x575D, 0x5DDE]),
     (404, [0x7518, 0x5B5C, 0x5DDE]), (405, [0x51C9, 0x5C71, 0x5DDE]), (406, [0x8D35, 0x9633]),
     (407, [0x516D, 0x76D8, 0x6C34]), (408, [0x9075, 0x4E49]), (409, [0x5B89, 0x987A]),
     (410, [0x94DC, 0x4EC1]), (411, [0x9ED4, 0x897F, 0x5357, 0x5DDE]), (412, [0x6BD5, 0x8282])]"

definition cityAliases3 :: "(int \<times> int list) list" where
  "cityAliases3 = [
     (413, [0x9ED4, 0x4E1C, 0x5357, 0x5DDE]), (414, [0x9ED4, 0x5357, 0x5DDE]), (415, [0x6606, 0x660E]),
     (416, [0x66F2, 0x9756]), (417, [0x7389, 0x6EAA]), (418, [0x4FDD, 0x5C71]), (419, [0x662D, 0x901A]),
     (420, [0x4E3D, 0x6C5F]), (421, [0x601D, 0x8305]), (422, [0x4E34, 0x6CA7]),
     (423, [0x695A, 0x96C4, 0x5DDE]), (424, [0x7EA2, 0x6CB3, 0x5DDE]), (425, [0x6587, 0x5C71, 0x5DDE]),
     (426, [0x897F, 0x53CC, 0x7248, 0x7EB3, 0x5DDE]), (427, [0x5927, 0x7406, 0x5DDE]),
     (428, [0x5FB7, 0x5B8F, 0x5DDE]), (429, [0x6012, 0x6C5F, 0x5DDE]), (430, [0x8FEA, 0x5E86, 0x5DDE]),
     (431, [0x62C9, 0x8428]), (432, [0x660C, 0x90FD]), (433, [0x5C71, 0x5357]),
     (434, [0x65E5, 0x5580, 0x5219]), (435, [0x90A3, 0x66F2]), (436, [0x963F, 0x91CC, 0x5730, 0x533A]),
     (437, [0x6797, 0x829D]), (438, [0x897F, 0x5B89]), (439, [0x94DC, 0x5DDD]), (440, [0x5B9D, 0x9E21]),
     (441, [0x54B8, 0x9633]), (442, [0x6E2D, 0x5357]), (443, [0x5EF6, 0x5B89]), (444, [0x6C49, 0x4E2D]),
     (445, [0x6986, 0x6797]), (446, [0x5B89, 0x5EB7]), (447, [0x5546, 0x6D1B]), (448, [0x5170, 0x5DDE]),
     (449, [0x5609, 0x5CEA, 0x5173]), (450, [0x91D1, 0x660C]), (451, [0x767D, 0x94F6]),
     (452, [0x5929, 0x6C34]), (453, [0x6B66, 0x5A01]), (454, [0x5F20, 0x6396]), (455, [0x5E73, 0x51C9]),
     (456, [0x9152, 0x6CC9]), (457, [0x5E86, 0x9633]), (458, [0x5B9A, 0x897F]), (459, [0x9647, 0x5357]),
     (460, [0x4E34, 0x590F, 0x5DDE]), (461, [0x7518, 0x5357, 0x5DDE]), (462, [0x897F, 0x5B81]),
     (463, [0x6D77, 0x4E1C, 0x5730, 0x533A]), (464, [0x6D77, 0x5317, 0x5DDE]), (465, [0x9EC4, 0x5357, 0x5DDE]),
     (466, [0x6D77, 0x5357, 0x5DDE]), (467, [0x679C, 0x6D1B, 0x5DDE]), (468, [0x7389, 0x6811, 0x5DDE]),
     (469, [0x6D77, 0x897F, 0x5DDE]), (470, [0x94F6, 0x5DDD]), (471, [0x77F3, 0x5634, 0x5C71]),
     (472, [0x5434, 0x5FE0]), (473, [0x56FA, 0x539F]), (474, [0x4E2D, 0x536B]),
     (475, [0x4E4C, 0x9C81, 0x6728, 0x9F50]), (476, [0x514B, 0x62C9, 0x739B, 0x4F9D]),
     (477, [0x5410, 0x9C81, 0x756A]), (478, [0x54C8, 0x5BC6]), (479, [0x660C, 0x5409, 0x5DDE]),
     (480, [0x535A, 0x5C14, 0x5854, 0x62C9, 0x5DDE]), (481, [0x5DF4, 0x97F3, 0x90ED, 0x695E, 0x5DDE]),
     (482, [0x963F, 0x514B, 0x82CF, 0x5730, 0x533A]),
     (483, [0x514B, 0x5B5C, 0x52D2, 0x82CF, 0x67EF, 0x5C14, 0x514B, 0x5B5C, 0x81EA, 0x6CBB, 0x5DDE]),
     (484, [0x5580, 0x4EC0, 0x5730, 0x533A]), (485, [0x548C, 0x7530, 0x5730, 0x533A]),
     (486, [0x4F0A, 0x7281, 0x5DDE]), (487, [0x5854, 0x57CE, 0x5730, 0x533A]),
     (488, [0x963F, 0x52D2, 0x6CF0, 0x5730, 0x533A]), (489, [0x77F3, 0x6CB3, 0x5B50]),
     (490, [0x963F, 0x62C9, 0x5C14]), (491, [0x56FE, 0x6728, 0x8212, 0x514B]), (492, [0x4E94, 0x5BB6, 0x6E20]),
     (534, [0x6FB3, 0x95E8]), (556, [0x97E9, 0x56FD])]"

definition cityAliases :: "(int \<times> int list) list" where
  "cityAliases = provinceAliases @ cityAliases1 @ cityAliases2 @ cityAliases3"

definition CityName :: "int \<Rightarrow> string" where
  "CityName cityID =
     (if cityID = 0 then []
      else case map_of cityAliases cityID of
        Some alias \<Rightarrow> if utf8 alias \<noteq> [] then utf8 alias else utf8 [0x57CE, 0x5E02, 0x20] @ itoa cityID
      | None \<Rightarrow> utf8 [0x57CE, 0x5E02, 0x20] @ itoa cityID)"

end
