(* ===== verification/RV_Service.thy ===== *)
theory RV_Service
  imports RV_Cities GoSort GoTime "HOL-Library.AList"
begin

text \<open>
  The resource view of a store (\<open>internal/resourceview/models.go\<close>, \<open>service.go\<close>): the devices, spaces and
  bindings of the business database, cleaned up, joined and checked.  The records of the database are the
  input; a time is written by a formatter that is a parameter, as \<open>time.Time\<close> carries the zone it is
  written in.  A Go map filled in a loop is an association list in the order of the first writes; where
  the code ranges over such a map it sorts the result.
\<close>

section \<open>Records of the business database\<close>

record BusinessTenant =
  bt_id :: int
  bt_name :: string
  bt_hospital_name :: string
  bt_city_id :: int

record BusinessDevice =
  bd_id :: int
  bd_tenant_id :: int
  bd_parent_id :: int
  bd_name :: string
  bd_hardware_id :: string
  bd_sn :: string
  bd_ip :: string
  bd_category :: string
  bd_provider :: string
  bd_status :: int
  bd_online_status :: int
  bd_ext_params :: string
  bd_heartbeat_at :: "gotime option"
  bd_deleted_at :: "gotime option"

record BusinessSpace =
  bs_id :: int
  bs_tenant_id :: int
  bs_parent_id :: int
  bs_name :: string
  bs_code :: string
  bs_level :: int
  bs_status :: int
  bs_dict_id :: int
  bs_sort_order :: int

record BusinessAreaDeviceRelation =
  br_id :: int
  br_device_id :: int
  br_area_id :: int
  br_function_type :: string
  br_created_at :: gotime

record StoreRecords =
  rec_tenant :: BusinessTenant
  rec_devices :: "BusinessDevice list"
  rec_spaces :: "BusinessSpace list"
  rec_relations :: "BusinessAreaDeviceRelation list"

record MonitorAccess =
  acc_can_view :: bool
  acc_url :: string

section \<open>The view\<close>

record rv_device =
  dv_id :: int
  dv_parent_id :: int
  dv_tenant_id :: int
  dv_name :: string
  dv_hardware_id :: string
  dv_sn :: string
  dv_ip :: string
  dv_category :: string
  dv_provider :: string
  dv_status :: int
  dv_status_text :: string
  dv_online_status :: int
  dv_online_text :: string
  dv_ext_summary :: string
  dv_heartbeat_at :: "string option"

record rv_camera =
  cm_device :: rv_device
  cm_channel_no :: "int option"
  cm_nvr_id :: int
  cm_nvr_name :: string
  cm_space_paths :: "string list"
  cm_thumbnail_kind :: string
  cm_thumbnail_url :: string

record rv_space =
  sp_id :: int
  sp_tenant_id :: int
  sp_parent_id :: int
  sp_name :: string
  sp_code :: string
  sp_level :: int
  sp_status :: int
  sp_status_text :: string
  sp_dict_id :: int
  sp_sort_order :: int
  sp_bound_camera_ids :: "int list"
  sp_bound_camera_count :: int

record AreaDeviceRelation =
  rl_id :: int
  rl_device_id :: int
  rl_area_id :: int
  rl_function_type :: string

datatype SpaceNode = SpaceNode (node_space: rv_space) (node_cameras: "rv_camera list") (node_children: "SpaceNode list")

record NVRNode =
  nn_device :: rv_device
  nn_cameras :: "rv_camera list"

record DeviceTree =
  dt_edges :: "rv_device list"
  dt_nvrs :: "NVRNode list"

datatype IssueSeverity = IssueSeverityError | IssueSeverityWarn | IssueSeverityInfo

datatype IssueType =
  IssueUnboundCamera | IssueInactiveBoundSpace | IssueMissingCamera | IssueMissingSpace | IssueMissingNVR
| IssueOfflineEdge | IssueOfflineNVR | IssueOfflineCamera | IssueCameraBoundManySpaces | IssueSpaceBoundManyCameras

fun issue_type_text :: "IssueType \<Rightarrow> string" where
  "issue_type_text IssueUnboundCamera = ''unbound_camera''"
| "issue_type_text IssueInactiveBoundSpace = ''inactive_bound_space''"
| "issue_type_text IssueMissingCamera = ''missing_camera''"
| "issue_type_text IssueMissingSpace = ''missing_space''"
| "issue_type_text IssueMissingNVR = ''missing_nvr''"
| "issue_type_text IssueOfflineEdge = ''offline_edge''"
| "issue_type_text IssueOfflineNVR = ''offline_nvr''"
| "issue_type_text IssueOfflineCamera = ''offline_camera''"
| "issue_type_text IssueCameraBoundManySpaces = ''camera_bound_many_spaces''"
| "issue_type_text IssueSpaceBoundManyCameras = ''space_bound_many_cameras''"

record Issue =
  is_severity :: IssueSeverity
  is_type :: IssueType
  is_message :: string
  is_entity_type :: string
  is_entity_id :: int

record StoreSummary =
  su_store_count :: int
  su_edge_count :: int
  su_nvr_count :: int
  su_camera_count :: int
  su_space_count :: int
  su_consultation_camera_count :: int
  su_treatment_camera_count :: int
  su_bound_camera_count :: int
  su_unbound_camera_count :: int
  su_offline_device_count :: int
  su_warning_count :: int

record StoreDetail =
  sd_tenant_id :: int
  sd_store_name :: string
  sd_hospital_name :: string
  sd_city_id :: int
  sd_city_name :: string
  sd_summary :: StoreSummary
  sd_edges :: "rv_device list"
  sd_nvrs :: "rv_device list"
  sd_cameras :: "rv_camera list"
  sd_spaces :: "rv_space list"
  sd_relations :: "AreaDeviceRelation list"
  sd_space_tree :: "SpaceNode list"
  sd_device_tree :: DeviceTree
  sd_issues :: "Issue list"
  sd_can_view_monitor :: bool
  sd_monitor_url :: string

section \<open>Cleaning up\<close>

definition enabledText :: "int \<Rightarrow> string" where
  "enabledText status = (if status = 1 then utf8 [0x542F, 0x7528] else utf8 [0x505C, 0x7528])"

definition onlineText :: "int \<Rightarrow> string" where
  "onlineText status = (if status = 1 then utf8 [0x5728, 0x7EBF] else utf8 [0x79BB, 0x7EBF])"

definition categoryRank :: "string \<Rightarrow> int" where
  "categoryRank category =
     (if category = ''edge'' then 1 else if category = ''nvr'' then 2 else if category = ''camera'' then 3 else 9)"

definition sortSpaces :: "rv_space list \<Rightarrow> rv_space list" where
  "sortSpaces = sort_key (\<lambda>s. (sp_level s, sp_sort_order s, sp_id s))"

definition normalizedSpaces :: "BusinessSpace list \<Rightarrow> rv_space list" where
  "normalizedSpaces input =
     sortSpaces (map (\<lambda>s. \<lparr>sp_id = bs_id s, sp_tenant_id = bs_tenant_id s, sp_parent_id = bs_parent_id s,
       sp_name = trim_space (bs_name s), sp_code = trim_space (bs_code s), sp_level = bs_level s,
       sp_status = bs_status s, sp_status_text = enabledText (bs_status s), sp_dict_id = bs_dict_id s,
       sp_sort_order = bs_sort_order s, sp_bound_camera_ids = [], sp_bound_camera_count = 0\<rparr>) input)"

definition normalized_device :: "(gotime \<Rightarrow> string) \<Rightarrow> BusinessDevice \<Rightarrow> rv_device" where
  "normalized_device rfc3339 d =
     \<lparr>dv_id = bd_id d, dv_parent_id = bd_parent_id d, dv_tenant_id = bd_tenant_id d,
      dv_name = trim_space (bd_name d), dv_hardware_id = trim_space (bd_hardware_id d),
      dv_sn = trim_space (bd_sn d), dv_ip = trim_space (bd_ip d), dv_category = trim_space (bd_category d),
      dv_provider = trim_space (bd_provider d), dv_status = bd_status d, dv_status_text = enabledText (bd_status d),
      dv_online_status = bd_online_status d, dv_online_text = onlineText (bd_online_status d),
      dv_ext_summary = trim_space (bd_ext_params d), dv_heartbeat_at = map_option rfc3339 (bd_heartbeat_at d)\<rparr>"

definition normalizedDevices :: "(gotime \<Rightarrow> string) \<Rightarrow> BusinessDevice list \<Rightarrow> rv_device list" where
  "normalizedDevices rfc3339 input =
     sort_key (\<lambda>d. (categoryRank (dv_category d), dv_id d))
       (map (normalized_device rfc3339) (filter (\<lambda>d. bd_deleted_at d = None) input))"

type_synonym relation_key = "int \<times> int \<times> string"

definition add_relation ::
  "BusinessAreaDeviceRelation \<Rightarrow> (relation_key \<times> AreaDeviceRelation) list \<Rightarrow> (relation_key \<times> AreaDeviceRelation) list" where
  "add_relation relation byKey =
     (let normalized = \<lparr>rl_id = br_id relation, rl_device_id = br_device_id relation,
            rl_area_id = br_area_id relation, rl_function_type = trim_space (br_function_type relation)\<rparr>;
          key = (rl_device_id normalized, rl_area_id normalized, rl_function_type normalized)
      in case map_of byKey key of
           Some existing \<Rightarrow> if rl_id normalized < rl_id existing then AList.update key normalized byKey else byKey
         | None \<Rightarrow> AList.update key normalized byKey)"

definition normalizedRelations :: "BusinessAreaDeviceRelation list \<Rightarrow> AreaDeviceRelation list" where
  "normalizedRelations input = sort_key rl_id (map snd (fold add_relation input []))"

text \<open>\<open>devicesByID\<close> and \<open>spacesByID\<close>: the last one of an id.\<close>

definition devicesByID :: "rv_device list \<Rightarrow> int \<Rightarrow> rv_device option" where
  "devicesByID devices = map_of (rev (map (\<lambda>d. (dv_id d, d)) devices))"

definition spacesByID :: "rv_space list \<Rightarrow> int \<Rightarrow> rv_space option" where
  "spacesByID spaces = map_of (rev (map (\<lambda>s. (sp_id s, s)) spaces))"

definition isEligibleCamera :: "rv_device \<Rightarrow> bool" where
  "isEligibleCamera d \<longleftrightarrow> dv_category d = ''camera'' \<and> dv_provider d = ''HikVisionNvrChannel'' \<and> dv_status d = 1"

definition resourceViewDevices :: "rv_device list \<Rightarrow> rv_device list" where
  "resourceViewDevices = filter (\<lambda>d. dv_category d \<noteq> ''camera'' \<or> isEligibleCamera d)"

definition cameraRelevantRelations :: "AreaDeviceRelation list \<Rightarrow> rv_device list \<Rightarrow> AreaDeviceRelation list" where
  "cameraRelevantRelations relations devices =
     filter (\<lambda>r. case devicesByID devices (rl_device_id r) of
         Some d \<Rightarrow> isEligibleCamera d
       | None \<Rightarrow> has_suffix (to_lower (trim_space (rl_function_type r))) ''camera'') relations"

definition consultingAreaContainerID :: int where "consultingAreaContainerID = 2387"

definition applicableCameraRelations :: "AreaDeviceRelation list \<Rightarrow> rv_space list \<Rightarrow> AreaDeviceRelation list" where
  "applicableCameraRelations relations spaces =
     filter (\<lambda>r. case spacesByID spaces (rl_area_id r) of
         Some s \<Rightarrow> sp_parent_id s \<noteq> consultingAreaContainerID
       | None \<Rightarrow> True) relations"

section \<open>Paths of spaces\<close>

text \<open>The loop of \<open>spacePath\<close>; \<open>None\<close> when it does not end.\<close>

partial_function (option) space_names ::
  "(int \<Rightarrow> rv_space option) \<Rightarrow> int \<Rightarrow> string list \<Rightarrow> string list option" where
  "space_names spaces i names =
     (if i = 0 then Some names
      else case spaces i of
        None \<Rightarrow> Some names
      | Some s \<Rightarrow> space_names spaces (sp_parent_id s) (sp_name s # names))"

declare space_names.simps [code]

definition spacePath :: "(int \<Rightarrow> rv_space option) \<Rightarrow> int \<Rightarrow> string option" where
  "spacePath spaces i = map_option (join '' / '') (space_names spaces i [])"

section \<open>Cameras\<close>

definition containsAny :: "string list \<Rightarrow> int list list \<Rightarrow> bool" where
  "containsAny xs keywords \<longleftrightarrow> list_ex (\<lambda>v. list_ex (\<lambda>k. contains (trim_space v) (utf8 k)) keywords) xs"

definition CameraThumbnailKind :: "string \<Rightarrow> string \<Rightarrow> int \<Rightarrow> string" where
  "CameraThumbnailKind spaceType spaceName level =
     (if level = 3 \<or> containsAny [spaceType, spaceName] [[0x6CBB, 0x7597], [0x5E8A, 0x4F4D]] then ''treatment''
      else if containsAny [spaceType, spaceName] [[0x9762, 0x8BCA], [0x54A8, 0x8BE2]] then ''consultation''
      else if containsAny [spaceType, spaceName] [[0x524D, 0x53F0], [0x63A5, 0x5F85], [0x5BFC, 0x8BCA], [0x6536, 0x94F6]] then ''reception''
      else if containsAny [spaceType, spaceName] [[0x5019, 0x8BCA], [0x7B49, 0x5019], [0x4F11, 0x606F], [0x5927, 0x5385]] then ''waiting''
      else if containsAny [spaceType, spaceName] [[0x8D70, 0x5ECA], [0x8FC7, 0x9053], [0x901A, 0x9053], [0x5165, 0x53E3], [0x51FA, 0x53E3]] then ''corridor''
      else ''utility'')"

definition thumbnailKindPriority :: "string \<Rightarrow> int" where
  "thumbnailKindPriority kind =
     (if kind = ''treatment'' then 6 else if kind = ''consultation'' then 5 else if kind = ''reception'' then 4
      else if kind = ''waiting'' then 3 else if kind = ''corridor'' then 2 else if kind = ''utility'' then 1 else 0)"

definition cameraThumbnailKind :: "rv_space list \<Rightarrow> (int \<Rightarrow> rv_space option) \<Rightarrow> string" where
  "cameraThumbnailKind spaces byID =
     (if spaces = [] then ''unassigned''
      else fst (fold (\<lambda>s (bestKind, bestPriority).
          let spaceType = (case byID (sp_parent_id s) of Some parent \<Rightarrow> sp_name parent | None \<Rightarrow> []);
              kind = CameraThumbnailKind spaceType (sp_name s) (sp_level s)
          in if thumbnailKindPriority kind > bestPriority then (kind, thumbnailKindPriority kind)
             else (bestKind, bestPriority)) spaces (''utility'', 0)))"

definition parseNVRChannelHardwareID :: "string \<Rightarrow> int option" where
  "parseNVRChannelHardwareID v =
     (case str_index (trim_space v) ''-'' of
        None \<Rightarrow> None
      | Some k \<Rightarrow>
          let head = take k (trim_space v); tail = drop (k + 1) (trim_space v) in
          if CHR ''-'' \<in> set tail \<or> \<not> has_prefix head ''NVRCHANNEL:'' then None
          else (case parse_int tail of (no, None) \<Rightarrow> if no \<le> 0 then None else Some no | _ \<Rightarrow> None))"

definition append_at :: "int \<Rightarrow> 'a \<Rightarrow> (int \<times> 'a list) list \<Rightarrow> (int \<times> 'a list) list" where
  "append_at k v m = AList.update k ((case map_of m k of None \<Rightarrow> [] | Some vs \<Rightarrow> vs) @ [v]) m"

definition list_at :: "(int \<times> 'a list) list \<Rightarrow> int \<Rightarrow> 'a list" where
  "list_at m k = (case map_of m k of None \<Rightarrow> [] | Some vs \<Rightarrow> vs)"

text \<open>
  The loop of \<open>buildCameras\<close> over the relations: the pairs of camera and space seen, and the paths and the
  spaces of every camera.
\<close>

record camera_places =
  cp_seen :: "(int \<times> int) list"
  cp_paths :: "(int \<times> string list) list"
  cp_spaces :: "(int \<times> rv_space list) list"

definition place_camera ::
  "(int \<Rightarrow> rv_space option) \<Rightarrow> AreaDeviceRelation \<Rightarrow> camera_places \<Rightarrow> camera_places option" where
  "place_camera spaceByID relation places =
     (case spaceByID (rl_area_id relation) of
        None \<Rightarrow> Some places
      | Some s \<Rightarrow>
          if (rl_device_id relation, rl_area_id relation) \<in> set (cp_seen places) then Some places
          else map_option (\<lambda>path.
              \<lparr>cp_seen = (rl_device_id relation, rl_area_id relation) # cp_seen places,
               cp_paths = append_at (rl_device_id relation) path (cp_paths places),
               cp_spaces = append_at (rl_device_id relation) s (cp_spaces places)\<rparr>)
            (spacePath spaceByID (rl_area_id relation)))"

fun place_cameras ::
  "(int \<Rightarrow> rv_space option) \<Rightarrow> AreaDeviceRelation list \<Rightarrow> camera_places \<Rightarrow> camera_places option" where
  "place_cameras spaceByID [] places = Some places"
| "place_cameras spaceByID (r # rs) places =
     (case place_camera spaceByID r places of None \<Rightarrow> None | Some places' \<Rightarrow> place_cameras spaceByID rs places')"

definition no_places :: camera_places where
  "no_places = \<lparr>cp_seen = [], cp_paths = [], cp_spaces = []\<rparr>"

definition camera_of :: "rv_device list \<Rightarrow> (int \<Rightarrow> rv_space option) \<Rightarrow> camera_places \<Rightarrow> rv_device \<Rightarrow> rv_camera" where
  "camera_of devices spaceByID places d =
     \<lparr>cm_device = d, cm_channel_no = parseNVRChannelHardwareID (dv_hardware_id d), cm_nvr_id = dv_parent_id d,
      cm_nvr_name = (case devicesByID (filter (\<lambda>d. dv_category d = ''nvr'') devices) (dv_parent_id d) of
          Some nvr \<Rightarrow> dv_name nvr
        | None \<Rightarrow> []),
      cm_space_paths = sort_strings (list_at (cp_paths places) (dv_id d)),
      cm_thumbnail_kind = cameraThumbnailKind (list_at (cp_spaces places) (dv_id d)) spaceByID,
      cm_thumbnail_url = []\<rparr>"

definition camera_id :: "rv_camera \<Rightarrow> int" where "camera_id c = dv_id (cm_device c)"

definition buildCameras :: "rv_device list \<Rightarrow> AreaDeviceRelation list \<Rightarrow> rv_space list \<Rightarrow> rv_camera list option" where
  "buildCameras devices relations spaces =
     map_option (\<lambda>places.
         sort_key camera_id (map (camera_of devices (spacesByID spaces) places)
           (filter (\<lambda>d. dv_category d = ''camera'') devices)))
       (place_cameras (spacesByID spaces) relations no_places)"

section \<open>Bindings\<close>

record bindingIndex =
  bi_seen :: "(int \<times> int) list"
  bi_cameras_by_space :: "(int \<times> rv_camera list) list"
  bi_camera_ids_by_space :: "(int \<times> int list) list"
  bi_space_ids_by_camera :: "(int \<times> int list) list"

definition camerasByID :: "rv_camera list \<Rightarrow> int \<Rightarrow> rv_camera option" where
  "camerasByID cameras = map_of (rev (map (\<lambda>c. (camera_id c, c)) cameras))"

definition add_binding ::
  "(int \<Rightarrow> rv_space option) \<Rightarrow> (int \<Rightarrow> rv_camera option) \<Rightarrow> AreaDeviceRelation \<Rightarrow> bindingIndex \<Rightarrow> bindingIndex" where
  "add_binding spaceByID cameraByID relation b =
     (case cameraByID (rl_device_id relation) of
        None \<Rightarrow> b
      | Some camera \<Rightarrow>
          if spaceByID (rl_area_id relation) = None then b
          else if (rl_device_id relation, rl_area_id relation) \<in> set (bi_seen b) then b
          else
            \<lparr>bi_seen = (rl_device_id relation, rl_area_id relation) # bi_seen b,
             bi_cameras_by_space = append_at (rl_area_id relation) camera (bi_cameras_by_space b),
             bi_camera_ids_by_space = append_at (rl_area_id relation) (camera_id camera) (bi_camera_ids_by_space b),
             bi_space_ids_by_camera = append_at (camera_id camera) (rl_area_id relation) (bi_space_ids_by_camera b)\<rparr>)"

definition sort_lists :: "('a \<Rightarrow> 'k::linorder) \<Rightarrow> (int \<times> 'a list) list \<Rightarrow> (int \<times> 'a list) list" where
  "sort_lists key m = map (\<lambda>(k, vs). (k, sort_key key vs)) m"

definition buildValidBindings :: "rv_space list \<Rightarrow> rv_camera list \<Rightarrow> AreaDeviceRelation list \<Rightarrow> bindingIndex" where
  "buildValidBindings spaces cameras relations =
     (let b = fold (add_binding (spacesByID spaces) (camerasByID cameras)) relations
            \<lparr>bi_seen = [], bi_cameras_by_space = [], bi_camera_ids_by_space = [], bi_space_ids_by_camera = []\<rparr>
      in b\<lparr>bi_cameras_by_space := sort_lists camera_id (bi_cameras_by_space b),
           bi_camera_ids_by_space := sort_lists (\<lambda>i. i) (bi_camera_ids_by_space b),
           bi_space_ids_by_camera := sort_lists (\<lambda>i. i) (bi_space_ids_by_camera b)\<rparr>)"

definition enrichSpaces :: "rv_space list \<Rightarrow> bindingIndex \<Rightarrow> rv_space list" where
  "enrichSpaces spaces b =
     map (\<lambda>s. s\<lparr>sp_bound_camera_ids := list_at (bi_camera_ids_by_space b) (sp_id s),
       sp_bound_camera_count := int (length (list_at (bi_camera_ids_by_space b) (sp_id s)))\<rparr>) spaces"

section \<open>Counts\<close>

definition consultationSpaceType :: string where "consultationSpaceType = utf8 [0x9762, 0x8BCA, 0x5BA4]"
definition treatmentSpaceType :: string where "treatmentSpaceType = utf8 [0x6CBB, 0x7597, 0x5BA4]"

definition displaySpaceType :: "rv_space \<Rightarrow> (int \<Rightarrow> rv_space option) \<Rightarrow> string" where
  "displaySpaceType s byID =
     (if sp_level s = 3 then treatmentSpaceType
      else case byID (sp_parent_id s) of Some parent \<Rightarrow> trim_space (sp_name parent) | None \<Rightarrow> [])"

definition count_if :: "('a \<Rightarrow> bool) \<Rightarrow> 'a list \<Rightarrow> int" where
  "count_if p xs = int (length (filter p xs))"

definition bound_types :: "(int \<Rightarrow> rv_space option) \<Rightarrow> int list \<Rightarrow> string list" where
  "bound_types byID ids =
     List.map_filter (\<lambda>i. map_option (\<lambda>s. displaySpaceType s byID) (byID i)) ids"

definition buildSummary :: "rv_device list \<Rightarrow> rv_space list \<Rightarrow> bindingIndex \<Rightarrow> Issue list \<Rightarrow> StoreSummary" where
  "buildSummary devices spaces b issues =
     (let cameras = count_if (\<lambda>d. dv_category d = ''camera'') devices;
          is_camera = (\<lambda>i. list_ex (\<lambda>d. dv_category d = ''camera'' \<and> dv_id d = i) devices);
          bound = count_if (\<lambda>(i, _). is_camera i) (bi_space_ids_by_camera b);
          with_type = (\<lambda>t. count_if (\<lambda>(i, ids). is_camera i \<and> t \<in> set (bound_types (spacesByID spaces) ids))
            (bi_space_ids_by_camera b))
      in \<lparr>su_store_count = 1, su_edge_count = count_if (\<lambda>d. dv_category d = ''edge'') devices,
          su_nvr_count = count_if (\<lambda>d. dv_category d = ''nvr'') devices, su_camera_count = cameras,
          su_space_count = int (length spaces),
          su_consultation_camera_count = with_type consultationSpaceType,
          su_treatment_camera_count = with_type treatmentSpaceType,
          su_bound_camera_count = bound, su_unbound_camera_count = cameras - bound,
          su_offline_device_count = count_if (\<lambda>d. dv_online_status d \<noteq> 1) devices,
          su_warning_count = int (length issues)\<rparr>)"

section \<open>Issues\<close>

definition issue :: "IssueSeverity \<Rightarrow> IssueType \<Rightarrow> string \<Rightarrow> string \<Rightarrow> int \<Rightarrow> Issue" where
  "issue severity t message entity i =
     \<lparr>is_severity = severity, is_type = t, is_message = message, is_entity_type = entity, is_entity_id = i\<rparr>"

definition relation_issues ::
  "(int \<Rightarrow> rv_device option) \<Rightarrow> (int \<Rightarrow> rv_space option) \<Rightarrow> AreaDeviceRelation \<Rightarrow> int list \<times> Issue list \<Rightarrow>
   int list \<times> Issue list" where
  "relation_issues deviceByID spaceByID relation acc =
     (let (inactive, issues) = acc in
      if (case deviceByID (rl_device_id relation) of Some d \<Rightarrow> dv_category d \<noteq> ''camera'' | None \<Rightarrow> True)
      then (inactive, issues @ [issue IssueSeverityError IssueMissingCamera
        (utf8 [0x7ED1, 0x5B9A, 0x5173, 0x7CFB, 0x20] @ itoa (rl_id relation) @ utf8 [0x20, 0x6307, 0x5411, 0x4E0D, 0x5B58, 0x5728, 0x7684, 0x6444, 0x50CF, 0x5934]) ''relation'' (rl_id relation)])
      else case spaceByID (rl_area_id relation) of
        None \<Rightarrow> (inactive, issues @ [issue IssueSeverityError IssueMissingSpace
          (utf8 [0x7ED1, 0x5B9A, 0x5173, 0x7CFB, 0x20] @ itoa (rl_id relation) @ utf8 [0x20, 0x6307, 0x5411, 0x4E0D, 0x5B58, 0x5728, 0x7684, 0x7A7A, 0x95F4]) ''relation'' (rl_id relation)])
      | Some s \<Rightarrow>
          if sp_status s \<noteq> 1 \<and> sp_id s \<notin> set inactive
          then (sp_id s # inactive, issues @ [issue IssueSeverityWarn IssueInactiveBoundSpace
            (utf8 [0x7A7A, 0x95F4, 0x20] @ sp_name s @ utf8 [0x20, 0x5DF2, 0x505C, 0x7528, 0x4F46, 0x4ECD, 0x7ED1, 0x5B9A, 0x6444, 0x50CF, 0x5934]) ''space'' (sp_id s)])
          else (inactive, issues))"

definition camera_issues :: "(int \<Rightarrow> rv_device option) \<Rightarrow> rv_camera \<Rightarrow> Issue list" where
  "camera_issues deviceByID c =
     (if cm_nvr_id c > 0 \<and>
         (case deviceByID (cm_nvr_id c) of Some nvr \<Rightarrow> dv_category nvr \<noteq> ''nvr'' | None \<Rightarrow> True)
      then [issue IssueSeverityError IssueMissingNVR
        (utf8 [0x6444, 0x50CF, 0x5934, 0x20] @ dv_name (cm_device c) @ utf8 [0x20, 0x7684, 0x7236, 0x7EA7, 0x20, 0x4E, 0x56, 0x52, 0x20, 0x4E0D, 0x5B58, 0x5728]) ''camera'' (camera_id c)] else []) @
     (if cm_space_paths c = []
      then [issue IssueSeverityWarn IssueUnboundCamera
        (utf8 [0x6444, 0x50CF, 0x5934, 0x20] @ dv_name (cm_device c) @ utf8 [0x20, 0x672A, 0x7ED1, 0x5B9A, 0x7A7A, 0x95F4]) ''camera'' (camera_id c)] else []) @
     (if dv_online_status (cm_device c) \<noteq> 1
      then [issue IssueSeverityWarn IssueOfflineCamera
        (utf8 [0x6444, 0x50CF, 0x5934, 0x20] @ dv_name (cm_device c) @ utf8 [0x20, 0x79BB, 0x7EBF]) ''camera'' (camera_id c)] else [])"

definition device_issues :: "rv_device \<Rightarrow> Issue list" where
  "device_issues d =
     (if dv_category d = ''edge'' \<and> dv_online_status d \<noteq> 1
      then [issue IssueSeverityWarn IssueOfflineEdge
        (utf8 [0x5DE5, 0x63A7, 0x673A, 0x20] @ dv_name d @ utf8 [0x20, 0x79BB, 0x7EBF]) ''device'' (dv_id d)]
      else if dv_category d = ''nvr'' \<and> dv_online_status d \<noteq> 1
      then [issue IssueSeverityWarn IssueOfflineNVR (''NVR '' @ dv_name d @ utf8 [0x20, 0x79BB, 0x7EBF]) ''device'' (dv_id d)]
      else [])"

definition many_issues :: "IssueType \<Rightarrow> string \<Rightarrow> string \<Rightarrow> (int \<times> int list) list \<Rightarrow> Issue list" where
  "many_issues t message entity m =
     map (\<lambda>(i, _). issue IssueSeverityInfo t message entity i) (filter (\<lambda>(_, ids). length ids > 1) m)"

definition sortIssues :: "Issue list \<Rightarrow> Issue list" where
  "sortIssues = sort_key (\<lambda>i. (issue_type_text (is_type i), is_entity_type i, is_entity_id i))"

definition buildIssues ::
  "rv_device list \<Rightarrow> rv_space list \<Rightarrow> AreaDeviceRelation list \<Rightarrow> rv_camera list \<Rightarrow> bindingIndex \<Rightarrow> Issue list" where
  "buildIssues devices spaces relations cameras b =
     sortIssues (
       snd (fold (relation_issues (devicesByID devices) (spacesByID spaces)) relations ([], [])) @
       concat (map (camera_issues (devicesByID devices)) cameras) @
       concat (map device_issues devices) @
       many_issues IssueCameraBoundManySpaces (utf8 [0x540C, 0x4E00, 0x6444, 0x50CF, 0x5934, 0x7ED1, 0x5B9A, 0x4E86, 0x591A, 0x4E2A, 0x7A7A, 0x95F4]) ''camera'' (bi_space_ids_by_camera b) @
       many_issues IssueSpaceBoundManyCameras (utf8 [0x540C, 0x4E00, 0x7A7A, 0x95F4, 0x7ED1, 0x5B9A, 0x4E86, 0x591A, 0x4E2A, 0x6444, 0x50CF, 0x5934]) ''space'' (bi_camera_ids_by_space b))"

section \<open>Trees\<close>

text \<open>The children of a space; a space whose parent is unknown is a root.\<close>

definition tree_parent :: "rv_space list \<Rightarrow> rv_space \<Rightarrow> int" where
  "tree_parent spaces s =
     (if sp_parent_id s \<noteq> 0 \<and> \<not> list_ex (\<lambda>p. sp_id p = sp_parent_id s) spaces then 0 else sp_parent_id s)"

definition children_of :: "rv_space list \<Rightarrow> int \<Rightarrow> rv_space list" where
  "children_of spaces parentID = sortSpaces (filter (\<lambda>s. tree_parent spaces s = parentID) spaces)"

text \<open>The recursion of \<open>buildSpaceTree\<close>; \<open>None\<close> when it is deeper than \<open>fuel\<close>.\<close>

fun build_nodes :: "nat \<Rightarrow> rv_space list \<Rightarrow> bindingIndex \<Rightarrow> int \<Rightarrow> SpaceNode list option" where
  "build_nodes 0 spaces b parentID = None"
| "build_nodes (Suc fuel) spaces b parentID =
     those (map (\<lambda>s. map_option (SpaceNode s (list_at (bi_cameras_by_space b) (sp_id s)))
         (build_nodes fuel spaces b (sp_id s)))
       (children_of spaces parentID))"

definition buildSpaceTree :: "rv_space list \<Rightarrow> bindingIndex \<Rightarrow> SpaceNode list option" where
  "buildSpaceTree spaces b = build_nodes (length spaces + 1) spaces b 0"

definition devicesByCategory :: "rv_device list \<Rightarrow> string \<Rightarrow> rv_device list" where
  "devicesByCategory devices category = filter (\<lambda>d. dv_category d = category) devices"

definition buildDeviceTree :: "rv_device list \<Rightarrow> rv_camera list \<Rightarrow> DeviceTree" where
  "buildDeviceTree devices cameras =
     \<lparr>dt_edges = devicesByCategory devices ''edge'',
      dt_nvrs = sort_key (\<lambda>n. dv_id (nn_device n))
        (map (\<lambda>d. \<lparr>nn_device = d, nn_cameras = filter (\<lambda>c. cm_nvr_id c = dv_id d) cameras\<rparr>)
          (devicesByCategory devices ''nvr''))\<rparr>"

section \<open>The detail of a store\<close>

text \<open>\<open>BuildStoreDetail\<close>; \<open>None\<close> when it does not end.\<close>

definition BuildStoreDetail :: "(gotime \<Rightarrow> string) \<Rightarrow> StoreRecords \<Rightarrow> MonitorAccess \<Rightarrow> StoreDetail option" where
  "BuildStoreDetail rfc3339 records access =
     (let spaces0 = normalizedSpaces (rec_spaces records);
          allDevices = normalizedDevices rfc3339 (rec_devices records);
          devices = resourceViewDevices allDevices;
          relations = applicableCameraRelations
            (cameraRelevantRelations (normalizedRelations (rec_relations records)) allDevices) spaces0
      in case buildCameras devices relations spaces0 of
           None \<Rightarrow> None
         | Some cameras \<Rightarrow>
             let b = buildValidBindings spaces0 cameras relations;
                 spaces = enrichSpaces spaces0 b;
                 issues = buildIssues devices spaces relations cameras b
             in map_option (\<lambda>tree.
                  \<lparr>sd_tenant_id = bt_id (rec_tenant records), sd_store_name = trim_space (bt_name (rec_tenant records)),
                   sd_hospital_name = trim_space (bt_hospital_name (rec_tenant records)),
                   sd_city_id = bt_city_id (rec_tenant records), sd_city_name = CityName (bt_city_id (rec_tenant records)),
                   sd_summary = buildSummary devices spaces b issues,
                   sd_edges = devicesByCategory devices ''edge'', sd_nvrs = devicesByCategory devices ''nvr'',
                   sd_cameras = cameras, sd_spaces = spaces, sd_relations = relations, sd_space_tree = tree,
                   sd_device_tree = buildDeviceTree devices cameras, sd_issues = issues,
                   sd_can_view_monitor = acc_can_view access, sd_monitor_url = trim_space (acc_url access)\<rparr>)
                (buildSpaceTree spaces b))"

end
