(* ===== verification/RV_List.thy ===== *)
theory RV_List
  imports RV_Service
begin

text \<open>
  The requests of the resource view: the listing of the stores, the detail of one (\<open>Service\<close> of
  \<open>internal/resourceview/service.go\<close>) and their handlers (\<open>handler.go\<close>).  The repository of the business database
  is a parameter (\<open>repository.go\<close>); so are the resolver of the access to monitors and that of the snapshot URLs.
  A result \<open>None\<close> is a request that panics or does not end.
\<close>

datatype rv_error = RvNotFound | RvNotConfigured | RvFailed string

record StoreFilters =
  sfl_query :: string
  sfl_city_id :: int
  sfl_page :: int
  sfl_page_size :: int

record rv_repo =
  rp_list :: "StoreFilters \<Rightarrow> rv_error + StoreRecords list"
  rp_nvr_list :: "rv_error + StoreRecords list"
  rp_store :: "int \<Rightarrow> rv_error + StoreRecords"
  rp_nvr_store :: "int \<Rightarrow> rv_error + StoreRecords"

record rv_service =
  rs_repo :: "rv_repo option"
  rs_snapshot_url :: "(int \<Rightarrow> int \<Rightarrow> string) option"

record CityOption =
  co_city_id :: int
  co_name :: string
  co_count :: int

record StoreListItem =
  rli_tenant_id :: int
  rli_store_name :: string
  rli_hospital_name :: string
  rli_city_id :: int
  rli_city_name :: string
  rli_counts :: StoreSummary
  rli_cameras_fully_bound :: bool
  rli_updated_at :: string
  rli_can_view_monitor :: bool
  rli_monitor_url :: string

record StoreListResult =
  rlr_items :: "StoreListItem list"
  rlr_page :: int
  rlr_page_size :: int
  rlr_total :: int
  rlr_summary :: StoreSummary
  rlr_cities :: "CityOption list"

definition no_access :: MonitorAccess where "no_access = \<lparr>acc_can_view = False, acc_url = []\<rparr>"

section \<open>Listing\<close>

definition normalizeStoreFilters :: "StoreFilters \<Rightarrow> StoreFilters" where
  "normalizeStoreFilters f =
     (let size1 = (if sfl_page_size f \<le> 0 then 20 else sfl_page_size f)
      in \<lparr>sfl_query = trim_space (sfl_query f), sfl_city_id = sfl_city_id f,
          sfl_page = (if sfl_page f \<le> 0 then 1 else sfl_page f),
          sfl_page_size = (if size1 > 100 then 100 else size1)\<rparr>)"

definition add_summary :: "StoreSummary \<Rightarrow> StoreDetail \<Rightarrow> StoreSummary" where
  "add_summary t d =
     (let s = sd_summary d in
      t\<lparr>su_edge_count := su_edge_count t + su_edge_count s, su_nvr_count := su_nvr_count t + su_nvr_count s,
        su_camera_count := su_camera_count t + su_camera_count s,
        su_space_count := su_space_count t + su_space_count s,
        su_consultation_camera_count := su_consultation_camera_count t + su_consultation_camera_count s,
        su_treatment_camera_count := su_treatment_camera_count t + su_treatment_camera_count s,
        su_bound_camera_count := su_bound_camera_count t + su_bound_camera_count s,
        su_unbound_camera_count := su_unbound_camera_count t + su_unbound_camera_count s,
        su_offline_device_count := su_offline_device_count t + su_offline_device_count s,
        su_warning_count := su_warning_count t + su_warning_count s\<rparr>)"

definition summarizeStoreDetails :: "StoreDetail list \<Rightarrow> StoreSummary" where
  "summarizeStoreDetails details =
     foldl add_summary \<lparr>su_store_count = int (length details), su_edge_count = 0, su_nvr_count = 0,
        su_camera_count = 0, su_space_count = 0, su_consultation_camera_count = 0, su_treatment_camera_count = 0,
        su_bound_camera_count = 0, su_unbound_camera_count = 0, su_offline_device_count = 0,
        su_warning_count = 0\<rparr> details"

definition cityOptions :: "StoreDetail list \<Rightarrow> CityOption list" where
  "cityOptions details =
     (let ids = filter (\<lambda>i. i > 0) (map sd_city_id details)
      in map (\<lambda>i. \<lparr>co_city_id = i, co_name = CityName i, co_count = count_if (\<lambda>j. j = i) ids\<rparr>)
           (sort (remdups ids)))"

text \<open>The zero time is 0, so no time before it replaces it.\<close>

definition latestRelationUpdatedAt :: "(gotime \<Rightarrow> string) \<Rightarrow> BusinessAreaDeviceRelation list \<Rightarrow> string" where
  "latestRelationUpdatedAt rfc3339 relations =
     (let latest = fold (\<lambda>r t. if br_created_at r > t then br_created_at r else t) relations 0
      in if latest = 0 then [] else rfc3339 latest)"

definition rv_storeListItem :: "(gotime \<Rightarrow> string) \<Rightarrow> StoreDetail \<Rightarrow> StoreRecords \<Rightarrow> MonitorAccess \<Rightarrow> StoreListItem" where
  "rv_storeListItem rfc3339 d records access =
     \<lparr>rli_tenant_id = sd_tenant_id d, rli_store_name = sd_store_name d, rli_hospital_name = sd_hospital_name d,
      rli_city_id = sd_city_id d, rli_city_name = sd_city_name d, rli_counts = sd_summary d,
      rli_cameras_fully_bound = (su_camera_count (sd_summary d) > 0 \<and> su_unbound_camera_count (sd_summary d) = 0),
      rli_updated_at = latestRelationUpdatedAt rfc3339 (rec_relations records),
      rli_can_view_monitor = acc_can_view access, rli_monitor_url = trim_space (acc_url access)\<rparr>"

text \<open>The window of a page; \<open>None\<close> when slicing with it panics.\<close>

definition list_window :: "StoreFilters \<Rightarrow> 'a list \<Rightarrow> 'a list option" where
  "list_window f xs =
     (let count = int (length xs);
          start = wrap64 (wrap64 (sfl_page f - 1) * sfl_page_size f)
      in if start \<ge> count then Some []
         else
           let stop0 = wrap64 (start + sfl_page_size f);
               stop = (if stop0 > count then count else stop0)
           in if start < 0 \<or> stop < start then None else Some (take (nat (stop - start)) (drop (nat start) xs)))"

definition rv_ListStores ::
  "(gotime \<Rightarrow> string) \<Rightarrow> rv_service \<Rightarrow> StoreFilters \<Rightarrow> (int \<Rightarrow> MonitorAccess) option \<Rightarrow> (rv_error + StoreListResult) option" where
  "rv_ListStores rfc3339 s filters0 access =
     (case rs_repo s of
        None \<Rightarrow> Some (Inl RvNotConfigured)
      | Some repo \<Rightarrow>
          let filters = normalizeStoreFilters filters0 in
          case rp_list repo filters of
            Inl e \<Rightarrow> Some (Inl e)
          | Inr records \<Rightarrow>
              case those (map (\<lambda>r. BuildStoreDetail rfc3339 r no_access) records) of
                None \<Rightarrow> None
              | Some details \<Rightarrow>
                  map_option (\<lambda>shown. Inr \<lparr>
                      rlr_items = map (\<lambda>(d, r). rv_storeListItem rfc3339 d r
                        (case access of Some a \<Rightarrow> a (sd_tenant_id d) | None \<Rightarrow> no_access)) shown,
                      rlr_page = sfl_page filters, rlr_page_size = sfl_page_size filters,
                      rlr_total = int (length details), rlr_summary = summarizeStoreDetails details,
                      rlr_cities = cityOptions details\<rparr>)
                    (list_window filters (zip details records)))"

section \<open>One store\<close>

definition with_snapshot_url :: "(int \<Rightarrow> string) \<Rightarrow> rv_camera \<Rightarrow> rv_camera" where
  "with_snapshot_url url c = (if url (camera_id c) \<noteq> [] then c\<lparr>cm_thumbnail_url := url (camera_id c)\<rparr> else c)"

definition rv_GetStore ::
  "(gotime \<Rightarrow> string) \<Rightarrow> rv_service \<Rightarrow> int \<Rightarrow> MonitorAccess \<Rightarrow> (rv_error + StoreDetail) option" where
  "rv_GetStore rfc3339 s tenantID access =
     (case rs_repo s of
        None \<Rightarrow> Some (Inl RvNotConfigured)
      | Some repo \<Rightarrow>
          case rp_store repo tenantID of
            Inl e \<Rightarrow> Some (Inl e)
          | Inr records \<Rightarrow>
              map_option (\<lambda>d. Inr
                  (case rs_snapshot_url s of
                     Some url \<Rightarrow> if acc_can_view access
                       then d\<lparr>sd_cameras := map (with_snapshot_url (url (sd_tenant_id d))) (sd_cameras d)\<rparr> else d
                   | None \<Rightarrow> d))
                (BuildStoreDetail rfc3339 records access))"

section \<open>Handlers\<close>

datatype rv_body = RvList StoreListResult | RvDetail StoreDetail | RvError string

definition rv_parsePositiveInt :: "string \<Rightarrow> int \<Rightarrow> int" where
  "rv_parsePositiveInt v fallback =
     (case parse_int (trim_space v) of (n, None) \<Rightarrow> if n \<le> 0 then fallback else n | _ \<Rightarrow> fallback)"

definition rv_parseOptionalInt64 :: "string \<Rightarrow> int" where
  "rv_parseOptionalInt64 v =
     (case parse_int (trim_space v) of (n, None) \<Rightarrow> if n \<le> 0 then 0 else n | _ \<Rightarrow> 0)"

text \<open>A handler: its service, and the resolver of the access of the request; a query as a function of its keys.\<close>

record rv_handler =
  rh_service :: "rv_service option"
  rh_monitor_access :: "(int \<Rightarrow> string + MonitorAccess) option"

definition rv_listStores :: "(gotime \<Rightarrow> string) \<Rightarrow> rv_handler \<Rightarrow> (string \<Rightarrow> string) \<Rightarrow> (int \<times> rv_body) option" where
  "rv_listStores rfc3339 h query =
     (case rh_service h of
        None \<Rightarrow> Some (503, RvError ''resource_view_not_configured'')
      | Some s \<Rightarrow>
          let filters = \<lparr>sfl_query = trim_space (query ''q''), sfl_city_id = rv_parseOptionalInt64 (query ''city_id''),
                sfl_page = rv_parsePositiveInt (query ''page'') 1,
                sfl_page_size = rv_parsePositiveInt (query ''page_size'') 20\<rparr>;
              access = (\<lambda>tenantID. case rh_monitor_access h of
                  None \<Rightarrow> no_access
                | Some resolve \<Rightarrow> (case resolve tenantID of Inl _ \<Rightarrow> no_access | Inr a \<Rightarrow> a))
          in map_option (\<lambda>outcome. case outcome of
                 Inl _ \<Rightarrow> (500, RvError ''list_resource_stores_failed'')
               | Inr result \<Rightarrow> (200, RvList result))
               (rv_ListStores rfc3339 s filters (Some access)))"

definition rv_getStore :: "(gotime \<Rightarrow> string) \<Rightarrow> rv_handler \<Rightarrow> string \<Rightarrow> (int \<times> rv_body) option" where
  "rv_getStore rfc3339 h path_id =
     (case rh_service h of
        None \<Rightarrow> Some (503, RvError ''resource_view_not_configured'')
      | Some s \<Rightarrow>
          case parse_int (trim_space path_id) of
            (tenantID, None) \<Rightarrow>
              if tenantID \<le> 0 then Some (400, RvError ''invalid_tenant_id'')
              else
                (case (case rh_monitor_access h of None \<Rightarrow> Inr no_access | Some resolve \<Rightarrow> resolve tenantID) of
                   Inl _ \<Rightarrow> Some (403, RvError ''resource_view_forbidden'')
                 | Inr access \<Rightarrow>
                     map_option (\<lambda>outcome. case outcome of
                         Inl RvNotFound \<Rightarrow> (404, RvError ''resource_store_not_found'')
                       | Inl _ \<Rightarrow> (500, RvError ''get_resource_store_failed'')
                       | Inr d \<Rightarrow> (200, RvDetail d))
                       (rv_GetStore rfc3339 s tenantID access))
          | _ \<Rightarrow> Some (400, RvError ''invalid_tenant_id''))"

end
