(* ===== verification/RV_Props.thy ===== *)
theory RV_Props
  imports RV_Service "HOL-Library.Multiset"
begin

text \<open>
  What the resource view guarantees: when its loops end, that its counts agree with its issues, that its
  tree has every space, and that it does not depend on the order of the rows.
\<close>

section \<open>Paths\<close>

text \<open>Going up \<open>n\<close> steps from a space; \<open>None\<close> above a root or an unknown space.\<close>

fun ancestor :: "(int \<Rightarrow> rv_space option) \<Rightarrow> nat \<Rightarrow> int \<Rightarrow> int option" where
  "ancestor spaces 0 i = (if i = 0 \<or> spaces i = None then None else Some i)"
| "ancestor spaces (Suc n) i =
     (if i = 0 then None
      else case spaces i of None \<Rightarrow> None | Some s \<Rightarrow> ancestor spaces n (sp_parent_id s))"

lemma space_names_ends: "ancestor spaces n i = None \<Longrightarrow> \<exists>ns. space_names spaces i names = Some ns"
proof (induction n arbitrary: i names)
  case 0
  then show ?case by (subst space_names.simps) (auto split: option.split if_splits)
next
  case (Suc n)
  show ?case
  proof (cases "i = 0 \<or> spaces i = None")
    case True
    then show ?thesis by (subst space_names.simps) auto
  next
    case False
    then obtain s where s: "spaces i = Some s" "i \<noteq> 0" by auto
    then have "\<exists>ns. space_names spaces (sp_parent_id s) (sp_name s # names) = Some ns"
      using Suc by simp
    then show ?thesis using s by (subst space_names.simps) simp
  qed
qed

lemma ancestor_ends:
  assumes "space_names spaces i names = Some ns"
  shows "\<exists>n. ancestor spaces n i = None"
proof (rule space_names.raw_induct [where P = "\<lambda>spaces i names ns. \<exists>n. ancestor spaces n i = None", OF _ assms])
  fix again and spaces :: "int \<Rightarrow> rv_space option" and i :: int and names ns :: "string list"
  assume IH: "\<And>spaces i names ns. again spaces i names = Some ns \<Longrightarrow> \<exists>n. ancestor spaces n i = None"
    and body: "(if i = 0 then Some names else case spaces i of None \<Rightarrow> Some names
      | Some s \<Rightarrow> again spaces (sp_parent_id s) (sp_name s # names)) = Some ns"
  show "\<exists>n. ancestor spaces n i = None"
  proof (cases "i = 0 \<or> spaces i = None")
    case True
    then have "ancestor spaces 0 i = None" by auto
    then show ?thesis by blast
  next
    case False
    then obtain s where s: "spaces i = Some s" "i \<noteq> 0" by auto
    then obtain n where "ancestor spaces n (sp_parent_id s) = None" using IH body by fastforce
    then have "ancestor spaces (Suc n) i = None" using s by simp
    then show ?thesis by blast
  qed
qed

text \<open>
  C31. The path of a space is computed exactly when going up from it leaves the spaces after finitely many
  steps: a loop in the parents makes the computation run for ever.
\<close>

theorem space_path_terminates:
  "(\<exists>path. spacePath spaces i = Some path) \<longleftrightarrow> (\<exists>n. ancestor spaces n i = None)"
  using space_names_ends ancestor_ends by (fastforce simp: spacePath_def)

text \<open>A space that is its own parent, bound to a camera, makes the whole view run for ever.\<close>

lemma own_parent: "spaces i = Some s \<Longrightarrow> sp_parent_id s = i \<Longrightarrow> i \<noteq> 0 \<Longrightarrow> spacePath spaces i = None"
proof -
  assume s: "spaces i = Some s" "sp_parent_id s = i" "i \<noteq> 0"
  have "ancestor spaces n i \<noteq> None" for n by (induction n) (use s in auto)
  then show ?thesis
    unfolding spacePath_def by (metis ancestor_ends not_Some_eq option.map_disc_iff)
qed

section \<open>The order of the rows\<close>

lemma sort_key_unique:
  "mset xs = mset ys \<Longrightarrow> inj_on f (set xs) \<Longrightarrow> sort_key f xs = sort_key f ys"
  by (rule sort_key_inj_key_eq) simp_all

lemma mset_filter_eq: "mset xs = mset ys \<Longrightarrow> mset (filter p xs) = mset (filter p ys)"
  by simp

lemma normalizedSpaces_order:
  assumes "mset xs = mset ys" "distinct (map bs_id xs)"
  shows "normalizedSpaces xs = normalizedSpaces ys"
proof -
  have "inj_on bs_id (set xs)" using assms(2) by (simp add: distinct_map)
  then show ?thesis
    unfolding normalizedSpaces_def sortSpaces_def
    by (intro sort_key_unique) (use assms(1) in \<open>auto simp: inj_on_def\<close>)
qed

lemma normalizedDevices_order:
  assumes "mset xs = mset ys" "distinct (map bd_id xs)"
  shows "normalizedDevices f xs = normalizedDevices f ys"
proof -
  have "inj_on bd_id (set xs)" using assms(2) by (simp add: distinct_map)
  then show ?thesis
    unfolding normalizedDevices_def
    by (intro sort_key_unique) (use assms(1) in \<open>auto simp: inj_on_def normalized_device_def\<close>)
qed

text \<open>Of the relations with one key the one with the least id is kept.\<close>

definition normalized_relation :: "BusinessAreaDeviceRelation \<Rightarrow> AreaDeviceRelation" where
  "normalized_relation r = \<lparr>rl_id = br_id r, rl_device_id = br_device_id r, rl_area_id = br_area_id r,
     rl_function_type = trim_space (br_function_type r)\<rparr>"

definition relation_key_of :: "AreaDeviceRelation \<Rightarrow> relation_key" where
  "relation_key_of r = (rl_device_id r, rl_area_id r, rl_function_type r)"

definition least_relations :: "AreaDeviceRelation set \<Rightarrow> AreaDeviceRelation set" where
  "least_relations S = {r \<in> S. \<forall>r' \<in> S. relation_key_of r' = relation_key_of r \<longrightarrow> rl_id r \<le> rl_id r'}"

definition keeps_least :: "AreaDeviceRelation set \<Rightarrow> (relation_key \<times> AreaDeviceRelation) list \<Rightarrow> bool" where
  "keeps_least S al \<longleftrightarrow>
     distinct (map fst al) \<and>
     (\<forall>k. case map_of al k of
        Some r \<Rightarrow> r \<in> S \<and> relation_key_of r = k \<and> (\<forall>r' \<in> S. relation_key_of r' = k \<longrightarrow> rl_id r \<le> rl_id r')
      | None \<Rightarrow> \<forall>r \<in> S. relation_key_of r \<noteq> k)"

lemma add_relation_eq:
  "add_relation r al =
     (case map_of al (relation_key_of (normalized_relation r)) of
        Some old \<Rightarrow> if rl_id (normalized_relation r) < rl_id old
          then AList.update (relation_key_of (normalized_relation r)) (normalized_relation r) al else al
      | None \<Rightarrow> AList.update (relation_key_of (normalized_relation r)) (normalized_relation r) al)"
  by (simp only: add_relation_def normalized_relation_def [symmetric] relation_key_of_def Let_def)

lemma keeps_least_add:
  assumes "keeps_least S al"
  shows "keeps_least (insert (normalized_relation r) S) (add_relation r al)"
proof -
  let ?r = "normalized_relation r"
  have d: "distinct (map fst (add_relation r al))"
    using assms by (auto simp: add_relation_eq keeps_least_def distinct_update split: option.split)
  have at: "map_of (add_relation r al) k =
      (if k = relation_key_of ?r \<and> (\<forall>old. map_of al k = Some old \<longrightarrow> rl_id ?r < rl_id old) then Some ?r else map_of al k)" for k
    by (auto simp: add_relation_eq update_conv' split: option.split)
  show ?thesis
    unfolding keeps_least_def
  proof (intro conjI d allI)
    fix k
    have old: "case map_of al k of
        Some r \<Rightarrow> r \<in> S \<and> relation_key_of r = k \<and> (\<forall>r' \<in> S. relation_key_of r' = k \<longrightarrow> rl_id r \<le> rl_id r')
      | None \<Rightarrow> \<forall>r \<in> S. relation_key_of r \<noteq> k"
      using assms unfolding keeps_least_def by blast
    show "case map_of (add_relation r al) k of
        Some r' \<Rightarrow> r' \<in> insert ?r S \<and> relation_key_of r' = k \<and>
          (\<forall>r'' \<in> insert ?r S. relation_key_of r'' = k \<longrightarrow> rl_id r' \<le> rl_id r'')
      | None \<Rightarrow> \<forall>r' \<in> insert ?r S. relation_key_of r' \<noteq> k"
    proof (cases "map_of al k")
      case None
      then have "\<forall>r \<in> S. relation_key_of r \<noteq> k" using old by simp
      then show ?thesis using None by (auto simp: at)
    next
      case (Some a)
      then have a: "a \<in> S" "relation_key_of a = k" "\<forall>r' \<in> S. relation_key_of r' = k \<longrightarrow> rl_id a \<le> rl_id r'"
        using old by simp_all
      show ?thesis
      proof (cases "k = relation_key_of ?r \<and> rl_id ?r < rl_id a")
        case True
        then have "map_of (add_relation r al) k = Some ?r" using Some by (simp add: at)
        moreover have "rl_id ?r \<le> rl_id r'" if "r' \<in> S" "relation_key_of r' = k" for r'
          using a(3) that True by fastforce
        ultimately show ?thesis using True by auto
      next
        case False
        then have "map_of (add_relation r al) k = Some a" using Some by (auto simp: at)
        moreover have "rl_id a \<le> rl_id ?r" if "relation_key_of ?r = k" using False that by auto
        ultimately show ?thesis using a by auto
      qed
    qed
  qed
qed

lemma keeps_least_fold: "keeps_least (normalized_relation ` set rs) (fold add_relation rs [])"
proof (induction rs rule: rev_induct)
  case Nil
  then show ?case by (simp add: keeps_least_def)
next
  case (snoc r rs)
  then show ?case using keeps_least_add [of _ "fold add_relation rs []" r] by simp
qed

lemma normalizedRelations_set:
  assumes ids: "distinct (map br_id rs)"
  shows "distinct (map rl_id (normalizedRelations rs))"
    and "set (normalizedRelations rs) = least_relations (normalized_relation ` set rs)"
proof -
  let ?al = "fold add_relation rs []"
  let ?S = "normalized_relation ` set rs"
  have k: "keeps_least ?S ?al" by (rule keeps_least_fold)
  have d: "distinct (map fst ?al)" using k by (simp add: keeps_least_def)
  have entry: "r \<in> ?S" "relation_key_of r = key" "\<forall>r' \<in> ?S. relation_key_of r' = key \<longrightarrow> rl_id r \<le> rl_id r'"
    if "(key, r) \<in> set ?al" for key r
  proof -
    have "map_of ?al key = Some r" using d that by simp
    then show "r \<in> ?S" "relation_key_of r = key" "\<forall>r' \<in> ?S. relation_key_of r' = key \<longrightarrow> rl_id r \<le> rl_id r'"
      using k unfolding keeps_least_def by (metis (mono_tags, lifting) option.simps(5))+
  qed
  have inj: "inj_on rl_id ?S"
  proof (rule inj_on_imageI)
    have "rl_id \<circ> normalized_relation = br_id" by (simp add: fun_eq_iff normalized_relation_def)
    then show "inj_on (rl_id \<circ> normalized_relation) (set rs)" using ids by (simp add: distinct_map)
  qed
  have "inj_on snd (set ?al)"
  proof (rule inj_onI)
    fix e e' assume "e \<in> set ?al" "e' \<in> set ?al" "snd e = snd e'"
    then show "e = e'" using entry(2) by (metis prod.collapse)
  qed
  moreover have "distinct ?al" using d by (metis distinct_map)
  ultimately have once: "distinct (map snd ?al)" by (simp add: distinct_map)
  have sub: "set (map snd ?al) \<subseteq> ?S" using entry(1) by force
  have "distinct (map rl_id (map snd ?al))"
    unfolding distinct_map [of rl_id] using once inj_on_subset [OF inj sub] by (rule conjI)
  moreover have "mset (map rl_id (normalizedRelations rs)) = mset (map rl_id (map snd ?al))"
    by (simp add: normalizedRelations_def multiset.map_comp)
  ultimately show "distinct (map rl_id (normalizedRelations rs))" by (metis mset_eq_imp_distinct_iff)
  show "set (normalizedRelations rs) = least_relations ?S"
  proof
    show "set (normalizedRelations rs) \<subseteq> least_relations ?S"
      using entry unfolding normalizedRelations_def least_relations_def by force
    show "least_relations ?S \<subseteq> set (normalizedRelations rs)"
    proof
      fix r assume r: "r \<in> least_relations ?S"
      then have "r \<in> ?S" by (simp add: least_relations_def)
      moreover have "case map_of ?al (relation_key_of r) of
          Some r' \<Rightarrow> r' \<in> ?S \<and> relation_key_of r' = relation_key_of r \<and>
            (\<forall>r'' \<in> ?S. relation_key_of r'' = relation_key_of r \<longrightarrow> rl_id r' \<le> rl_id r'')
        | None \<Rightarrow> \<forall>r' \<in> ?S. relation_key_of r' \<noteq> relation_key_of r"
        using k unfolding keeps_least_def by blast
      ultimately obtain r0 where r0: "map_of ?al (relation_key_of r) = Some r0"
        by (cases "map_of ?al (relation_key_of r)") (simp_all only: option.simps, blast+)
      then have in_al: "(relation_key_of r, r0) \<in> set ?al" by (rule map_of_SomeD)
      note e = entry [OF in_al]
      have "rl_id r = rl_id r0" using e r unfolding least_relations_def by (metis (mono_tags, lifting) mem_Collect_eq order_antisym)
      then have "r = r0" using inj e(1) r unfolding least_relations_def inj_on_def by blast
      then show "r \<in> set (normalizedRelations rs)"
        using in_al by (force simp: normalizedRelations_def image_iff)
    qed
  qed
qed

lemma normalizedRelations_order:
  assumes "mset xs = mset ys" "distinct (map br_id xs)"
  shows "normalizedRelations xs = normalizedRelations ys"
proof -
  have "distinct (map br_id ys)" using assms by (metis mset_map mset_eq_imp_distinct_iff)
  note y = normalizedRelations_set [OF this] and x = normalizedRelations_set [OF assms(2)]
  have "set xs = set ys" using assms(1) by (rule mset_eq_setD)
  then have same: "set (normalizedRelations xs) = set (normalizedRelations ys)" using x(2) y(2) by simp
  have "distinct (normalizedRelations xs)" "distinct (normalizedRelations ys)"
    using x(1) y(1) by (metis distinct_map)+
  then have "mset (normalizedRelations xs) = mset (normalizedRelations ys)"
    using same by (simp add: set_eq_iff_mset_eq_distinct)
  moreover have "inj_on rl_id (set (normalizedRelations xs))" using x(1) by (simp add: distinct_map)
  ultimately have "sort_key rl_id (normalizedRelations xs) = sort_key rl_id (normalizedRelations ys)"
    by (rule sort_key_unique)
  moreover have "sort_key rl_id (normalizedRelations zs) = normalizedRelations zs" for zs
    by (rule sort_key_id_if_sorted) (simp add: normalizedRelations_def)
  ultimately show ?thesis by simp
qed

text \<open>
  C30. The view of a store does not depend on the order in which the database returns its devices, spaces
  and bindings, ids being unique: the maps the code ranges over leave no trace in the result.
\<close>

theorem view_order_independent:
  assumes "rec_tenant r = rec_tenant r'"
    and "mset (rec_devices r) = mset (rec_devices r')" "distinct (map bd_id (rec_devices r))"
    and "mset (rec_spaces r) = mset (rec_spaces r')" "distinct (map bs_id (rec_spaces r))"
    and "mset (rec_relations r) = mset (rec_relations r')" "distinct (map br_id (rec_relations r))"
  shows "BuildStoreDetail rfc3339 r access = BuildStoreDetail rfc3339 r' access"
  unfolding BuildStoreDetail_def assms(1) normalizedSpaces_order [OF assms(4,5)] normalizedDevices_order [OF assms(2,3)]
    normalizedRelations_order [OF assms(6,7)]
  by (rule refl)

section \<open>Counts and issues\<close>

lemma list_at_append_at: "list_at (append_at k v m) i = (if i = k then list_at m k @ [v] else list_at m i)"
  by (auto simp: list_at_def append_at_def update_conv' split: option.split)

lemma keys_append_at: "fst ` set (append_at k v m) = insert k (fst ` set m)"
  by (simp add: append_at_def dom_update flip: dom_map_of_conv_image_fst) (simp add: update_conv' dom_map_of_conv_image_fst)

lemma distinct_append_at: "distinct (map fst m) \<Longrightarrow> distinct (map fst (append_at k v m))"
  by (simp add: append_at_def distinct_update)

text \<open>Which cameras have a path and which are bound.\<close>

definition has_place :: "(int \<Rightarrow> rv_space option) \<Rightarrow> AreaDeviceRelation list \<Rightarrow> int \<Rightarrow> bool" where
  "has_place byID relations i \<longleftrightarrow> (\<exists>r \<in> set relations. rl_device_id r = i \<and> byID (rl_area_id r) \<noteq> None)"

lemma place_cameras_paths:
  assumes "place_cameras byID relations places = Some places'"
    and "\<forall>(c, a) \<in> set (cp_seen places). list_at (cp_paths places) c \<noteq> []"
  shows "list_at (cp_paths places') i \<noteq> [] \<longleftrightarrow> list_at (cp_paths places) i \<noteq> [] \<or> has_place byID relations i"
  using assms
proof (induction relations arbitrary: places)
  case (Cons r rs)
  obtain middle where m: "place_camera byID r places = Some middle" "place_cameras byID rs middle = Some places'"
    using Cons.prems(1) by (auto split: option.splits)
  have step: "(\<forall>(c, a) \<in> set (cp_seen middle). list_at (cp_paths middle) c \<noteq> []) \<and>
      (list_at (cp_paths middle) i \<noteq> [] \<longleftrightarrow>
        list_at (cp_paths places) i \<noteq> [] \<or> (rl_device_id r = i \<and> byID (rl_area_id r) \<noteq> None))"
    using m(1) Cons.prems(2)
    by (auto simp: place_camera_def list_at_append_at split: option.splits if_splits)
  then show ?case
    using Cons.IH [OF m(2)] by (auto simp: has_place_def)
qed (simp add: has_place_def)

lemma camerasByID_id: "camerasByID cameras i = Some c \<Longrightarrow> camera_id c = i"
  unfolding camerasByID_def by (drule map_of_SomeD) auto

lemma camerasByID_known: "camerasByID cameras i \<noteq> None \<longleftrightarrow> i \<in> camera_id ` set cameras"
  unfolding camerasByID_def by (force simp: map_of_eq_None_iff)

lemma add_bindings_keys:
  assumes "\<forall>(c, a) \<in> set (bi_seen b). c \<in> fst ` set (bi_space_ids_by_camera b)"
    and "distinct (map fst (bi_space_ids_by_camera b))"
  shows "fst ` set (bi_space_ids_by_camera (fold (add_binding byID (camerasByID cameras)) relations b)) =
     fst ` set (bi_space_ids_by_camera b) \<union> {i \<in> camera_id ` set cameras. has_place byID relations i} \<and>
     distinct (map fst (bi_space_ids_by_camera (fold (add_binding byID (camerasByID cameras)) relations b)))"
  using assms
proof (induction relations arbitrary: b)
  case (Cons r rs)
  let ?b = "add_binding byID (camerasByID cameras) r b"
  have step: "(\<forall>(c, a) \<in> set (bi_seen ?b). c \<in> fst ` set (bi_space_ids_by_camera ?b)) \<and>
      distinct (map fst (bi_space_ids_by_camera ?b)) \<and>
      fst ` set (bi_space_ids_by_camera ?b) = fst ` set (bi_space_ids_by_camera b) \<union>
        (if rl_device_id r \<in> camera_id ` set cameras \<and> byID (rl_area_id r) \<noteq> None then {rl_device_id r} else {})"
  proof (cases "camerasByID cameras (rl_device_id r)")
    case None
    then have "rl_device_id r \<notin> camera_id ` set cameras" using camerasByID_known by blast
    then show ?thesis using None Cons.prems by (simp add: add_binding_def)
  next
    case (Some c)
    then have c: "rl_device_id r \<in> camera_id ` set cameras" "camera_id c = rl_device_id r"
      using camerasByID_known camerasByID_id by blast+
    consider "byID (rl_area_id r) = None" | "byID (rl_area_id r) \<noteq> None" "(rl_device_id r, rl_area_id r) \<in> set (bi_seen b)"
      | "byID (rl_area_id r) \<noteq> None" "(rl_device_id r, rl_area_id r) \<notin> set (bi_seen b)" by blast
    then show ?thesis
    proof cases
      case 1
      then show ?thesis using Some Cons.prems by (simp add: add_binding_def)
    next
      case 2
      then have "rl_device_id r \<in> fst ` set (bi_space_ids_by_camera b)" using Cons.prems(1) by blast
      then show ?thesis using Some Cons.prems 2 by (auto simp: add_binding_def)
    next
      case 3
      then show ?thesis
        using Some Cons.prems c by (auto simp: add_binding_def keys_append_at distinct_append_at)
    qed
  qed
  then have "fst ` set (bi_space_ids_by_camera (fold (add_binding byID (camerasByID cameras)) rs ?b)) =
     fst ` set (bi_space_ids_by_camera ?b) \<union> {i \<in> camera_id ` set cameras. has_place byID rs i} \<and>
     distinct (map fst (bi_space_ids_by_camera (fold (add_binding byID (camerasByID cameras)) rs ?b)))"
    by (intro Cons.IH) blast+
  then show ?case using step by (auto simp: has_place_def)
qed (simp add: has_place_def)

lemma keys_sort_lists: "map fst (sort_lists f m) = map fst m"
  by (simp add: sort_lists_def o_def split_beta)

lemma bindings_keys:
  "fst ` set (bi_space_ids_by_camera (buildValidBindings spaces cameras relations)) =
     {i \<in> camera_id ` set cameras. has_place (spacesByID spaces) relations i}"
  "distinct (map fst (bi_space_ids_by_camera (buildValidBindings spaces cameras relations)))"
proof -
  let ?b0 = "\<lparr>bi_seen = [], bi_cameras_by_space = [], bi_camera_ids_by_space = [], bi_space_ids_by_camera = []\<rparr>"
  note k = add_bindings_keys [of ?b0 "spacesByID spaces" cameras relations]
  have set_fst: "fst ` set m = set (map fst m)" for m :: "(int \<times> int list) list" by simp
  show "fst ` set (bi_space_ids_by_camera (buildValidBindings spaces cameras relations)) =
     {i \<in> camera_id ` set cameras. has_place (spacesByID spaces) relations i}"
    using k unfolding set_fst by (simp add: buildValidBindings_def Let_def keys_sort_lists del: set_map)
  show "distinct (map fst (bi_space_ids_by_camera (buildValidBindings spaces cameras relations)))"
    using k by (simp add: buildValidBindings_def Let_def keys_sort_lists)
qed

text \<open>The cameras of the view.\<close>

lemma buildCameras_cameras:
  assumes "buildCameras devices relations spaces = Some cameras"
  shows "mset (map camera_id cameras) = mset (map dv_id (filter (\<lambda>d. dv_category d = ''camera'') devices))"
    and "c \<in> set cameras \<Longrightarrow> cm_space_paths c = [] \<longleftrightarrow> \<not> has_place (spacesByID spaces) relations (camera_id c)"
proof -
  obtain places where places: "place_cameras (spacesByID spaces) relations no_places = Some places"
    and c: "cameras = sort_key camera_id (map (camera_of devices (spacesByID spaces) places)
      (filter (\<lambda>d. dv_category d = ''camera'') devices))"
    using assms unfolding buildCameras_def by auto
  show "mset (map camera_id cameras) = mset (map dv_id (filter (\<lambda>d. dv_category d = ''camera'') devices))"
    by (simp add: c multiset.map_comp comp_def camera_id_def camera_of_def)
  assume "c \<in> set cameras"
  then obtain dev where "c = camera_of devices (spacesByID spaces) places dev" by (auto simp: c)
  then have "cm_space_paths c = sort_strings (list_at (cp_paths places) (camera_id c))"
    by (simp add: camera_of_def camera_id_def)
  moreover have "sort_strings xs = [] \<longleftrightarrow> xs = []" for xs
    unfolding sort_strings_def by (metis mset_sort mset_zero_iff)
  moreover have "list_at (cp_paths places) i \<noteq> [] \<longleftrightarrow> has_place (spacesByID spaces) relations i" for i
    using place_cameras_paths [OF places] by (simp add: no_places_def list_at_def)
  ultimately show "cm_space_paths c = [] \<longleftrightarrow> \<not> has_place (spacesByID spaces) relations (camera_id c)" by auto
qed

text \<open>Issues of unbound cameras come from the cameras only.\<close>

definition unbound_issue :: "Issue \<Rightarrow> bool" where
  "unbound_issue i \<longleftrightarrow> is_type i = IssueUnboundCamera"

lemma relation_issues_bound:
  "filter unbound_issue (snd (fold (relation_issues f g) rs acc)) = filter unbound_issue (snd acc)"
proof (induction rs arbitrary: acc)
  case (Cons r rs)
  have "filter unbound_issue (snd (relation_issues f g r acc)) = filter unbound_issue (snd acc)"
    by (auto simp: relation_issues_def issue_def unbound_issue_def split_beta Let_def split: option.split)
  then show ?case using Cons by simp
qed simp

lemma device_issues_bound: "filter unbound_issue (concat (map device_issues ds)) = []"
  by (induction ds) (auto simp: device_issues_def issue_def unbound_issue_def)

lemma many_issues_bound: "t \<noteq> IssueUnboundCamera \<Longrightarrow> filter unbound_issue (many_issues t m e al) = []"
  by (auto simp: many_issues_def issue_def unbound_issue_def filter_empty_conv)

lemma camera_issues_unbound:
  "length (filter unbound_issue (concat (map (camera_issues f) cs))) = length (filter (\<lambda>c. cm_space_paths c = []) cs)"
  by (induction cs) (auto simp: camera_issues_def issue_def unbound_issue_def)

lemma buildIssues_unbound:
  "length (filter unbound_issue (buildIssues devices spaces relations cameras b)) =
     length (filter (\<lambda>c. cm_space_paths c = []) cameras)"
proof -
  have len: "length (filter p (sortIssues xs)) = length (filter p xs)" for p xs
    by (metis mset_filter mset_sort size_mset sortIssues_def)
  show ?thesis
    unfolding buildIssues_def len
    by (simp add: relation_issues_bound device_issues_bound many_issues_bound camera_issues_unbound)
qed

lemma distinct_device_ids:
  assumes "distinct (map bd_id ds)"
  shows "distinct (map dv_id (filter p (resourceViewDevices (normalizedDevices f ds))))"
proof -
  have "mset (map dv_id (normalizedDevices f ds)) = mset (map bd_id (filter (\<lambda>d. bd_deleted_at d = None) ds))"
    by (simp add: normalizedDevices_def multiset.map_comp comp_def normalized_device_def)
  moreover have "distinct (map bd_id (filter (\<lambda>d. bd_deleted_at d = None) ds))" by (rule distinct_map_filter [OF assms])
  ultimately have "distinct (map dv_id (normalizedDevices f ds))" by (metis mset_eq_imp_distinct_iff)
  then show ?thesis by (simp add: resourceViewDevices_def distinct_map_filter)
qed

lemma bound_count:
  assumes cams: "mset (map camera_id cameras) = mset (map dv_id (filter (\<lambda>d. dv_category d = ''camera'') devices))"
    and ids: "distinct (map camera_id cameras)"
    and paths: "\<And>c. c \<in> set cameras \<Longrightarrow> cm_space_paths c = [] \<longleftrightarrow> \<not> has_place (spacesByID spaces) relations (camera_id c)"
  shows "count_if (\<lambda>(i, _). list_ex (\<lambda>d. dv_category d = ''camera'' \<and> dv_id d = i) devices)
      (bi_space_ids_by_camera (buildValidBindings spaces cameras relations)) =
    int (length (filter (\<lambda>c. cm_space_paths c \<noteq> []) cameras))"
proof -
  let ?m = "bi_space_ids_by_camera (buildValidBindings spaces cameras relations)"
  note k = bindings_keys [of spaces cameras relations]
  have "camera_id ` set cameras = dv_id ` set (filter (\<lambda>d. dv_category d = ''camera'') devices)"
    using cams by (metis mset_eq_setD set_map)
  then have "fst ` set ?m \<subseteq> dv_id ` set (filter (\<lambda>d. dv_category d = ''camera'') devices)"
    using k(1) by blast
  then have "\<forall>e \<in> set ?m. list_ex (\<lambda>d. dv_category d = ''camera'' \<and> dv_id d = fst e) devices"
    unfolding list_ex_iff by force
  then have "filter (\<lambda>(i, _). list_ex (\<lambda>d. dv_category d = ''camera'' \<and> dv_id d = i) devices) ?m = ?m"
    by (intro filter_True) auto
  moreover have "length ?m = card (fst ` set ?m)"
    using distinct_card [OF k(2)] by simp
  moreover have "fst ` set ?m = camera_id ` set (filter (\<lambda>c. cm_space_paths c \<noteq> []) cameras)"
    unfolding k(1) using paths by auto
  moreover have "card (camera_id ` set (filter (\<lambda>c. cm_space_paths c \<noteq> []) cameras)) =
      length (filter (\<lambda>c. cm_space_paths c \<noteq> []) cameras)"
    using distinct_card [OF distinct_map_filter [OF ids]] by simp
  ultimately show ?thesis by (simp add: count_if_def)
qed

lemma length_split: "length (filter p xs) + length (filter (\<lambda>x. \<not> p x) xs) = length xs"
  by (rule sum_length_filter_compl)

text \<open>
  C21. The counts of a store agree with its lists, device ids being unique: as many cameras as are listed,
  the bound and the unbound ones adding up to them, and as many unbound ones as there are cameras without
  a path and as there are issues that say so; every issue is a warning.
\<close>

theorem unbound_counted:
  assumes "BuildStoreDetail rfc3339 r access = Some d"
    and ids: "distinct (map bd_id (rec_devices r))"
  shows "su_camera_count (sd_summary d) = int (length (sd_cameras d)) \<and>
    su_bound_camera_count (sd_summary d) + su_unbound_camera_count (sd_summary d) = su_camera_count (sd_summary d) \<and>
    su_unbound_camera_count (sd_summary d) = int (length (filter (\<lambda>c. cm_space_paths c = []) (sd_cameras d))) \<and>
    su_unbound_camera_count (sd_summary d) = int (length (filter unbound_issue (sd_issues d))) \<and>
    su_warning_count (sd_summary d) = int (length (sd_issues d))"
proof -
  let ?spaces = "normalizedSpaces (rec_spaces r)"
  let ?all = "normalizedDevices rfc3339 (rec_devices r)"
  let ?devices = "resourceViewDevices ?all"
  let ?relations = "applicableCameraRelations (cameraRelevantRelations (normalizedRelations (rec_relations r)) ?all) ?spaces"
  obtain cameras where cams: "buildCameras ?devices ?relations ?spaces = Some cameras"
    using assms(1) unfolding BuildStoreDetail_def Let_def by (auto split: option.splits)
  let ?b = "buildValidBindings ?spaces cameras ?relations"
  let ?issues = "buildIssues ?devices (enrichSpaces ?spaces ?b) ?relations cameras ?b"
  have d: "sd_cameras d = cameras" "sd_issues d = ?issues"
    "sd_summary d = buildSummary ?devices (enrichSpaces ?spaces ?b) ?b ?issues"
    using assms(1) cams unfolding BuildStoreDetail_def Let_def by auto
  note c = buildCameras_cameras [OF cams]
  have "distinct (map camera_id cameras)"
    using c(1) distinct_device_ids [OF ids] by (metis mset_eq_imp_distinct_iff)
  note bound = bound_count [OF c(1) this c(2)]
  have all: "length cameras = length (filter (\<lambda>d. dv_category d = ''camera'') ?devices)"
    using c(1) by (metis size_mset length_map)
  note unbound = length_split [of "\<lambda>c. cm_space_paths c = []" cameras]
  show ?thesis
    unfolding d buildIssues_unbound
    using unbound by (simp add: buildSummary_def Let_def bound all [symmetric] count_if_def [of "\<lambda>d. dv_category d = _"])
qed

section \<open>The tree of spaces\<close>

text \<open>A chain of spaces, the lowest first, from the space with an id up to a root.\<close>

fun chain :: "rv_space list \<Rightarrow> rv_space list \<Rightarrow> int \<Rightarrow> bool" where
  "chain spaces [] i \<longleftrightarrow> i = 0"
| "chain spaces (s # cs) i \<longleftrightarrow> s \<in> set spaces \<and> sp_id s = i \<and> chain spaces cs (tree_parent spaces s)"

definition unique_spaces :: "rv_space list \<Rightarrow> bool" where
  "unique_spaces spaces \<longleftrightarrow> distinct (map sp_id spaces) \<and> 0 \<notin> sp_id ` set spaces"

lemma space_of_id: "unique_spaces spaces \<Longrightarrow> s \<in> set spaces \<Longrightarrow> t \<in> set spaces \<Longrightarrow> sp_id s = sp_id t \<Longrightarrow> s = t"
  by (auto simp: unique_spaces_def distinct_map dest: inj_onD)

lemma chain_unique:
  assumes "unique_spaces spaces"
  shows "chain spaces cs i \<Longrightarrow> chain spaces cs' i \<Longrightarrow> cs = cs'"
proof (induction cs arbitrary: cs' i)
  case Nil
  then show ?case using assms by (cases cs') (auto simp: unique_spaces_def)
next
  case (Cons s cs)
  then have "cs' \<noteq> []" using assms by (auto simp: unique_spaces_def)
  then obtain t ts where cs': "cs' = t # ts" by (cases cs') auto
  then have "t = s" using Cons.prems space_of_id [OF assms, of t s] by simp
  moreover have "cs = ts"
    by (rule Cons.IH [of "tree_parent spaces s" ts]) (use Cons.prems cs' \<open>t = s\<close> in auto)
  ultimately show ?case using cs' by simp
qed

lemma chain_drop: "chain spaces (xs @ s # ys) i \<Longrightarrow> chain spaces (s # ys) (sp_id s)"
  by (induction xs arbitrary: i) auto

lemma chain_distinct:
  assumes "unique_spaces spaces" "chain spaces cs i"
  shows "distinct cs"
proof (rule ccontr)
  assume "\<not> distinct cs"
  then obtain xs ys zs s where cs: "cs = xs @ [s] @ ys @ [s] @ zs" by (blast dest: not_distinct_decomp)
  then have "chain spaces (s # ys @ s # zs) (sp_id s)" "chain spaces (s # zs) (sp_id s)"
    using assms(2) chain_drop [of spaces xs s] chain_drop [of spaces "xs @ s # ys" s zs] by auto
  then have "ys @ s # zs = zs" using chain_unique [OF assms(1)] by blast
  then have "length (ys @ s # zs) = length zs" by (rule arg_cong)
  then show False by simp
qed

lemma chain_length:
  assumes "unique_spaces spaces" "chain spaces cs i"
  shows "length cs \<le> length spaces"
proof -
  have "set cs \<subseteq> set spaces" using assms(2) by (induction cs arbitrary: i) auto
  then have "card (set cs) \<le> card (set spaces)" by (intro card_mono) auto
  then show ?thesis
    using distinct_card [OF chain_distinct [OF assms]] card_length [of spaces] by linarith
qed

lemma children_chain:
  "chain spaces cs i \<Longrightarrow> s \<in> set (children_of spaces i) \<longleftrightarrow> chain spaces (s # cs) (sp_id s) \<and> tree_parent spaces s = i"
  by (auto simp: children_of_def sortSpaces_def)

lemma those_total: "\<forall>x \<in> set xs. x \<noteq> None \<Longrightarrow> \<exists>ys. those xs = Some ys"
  by (induction xs) auto

lemma those_map_Some: "those (map f xs) = Some ys \<longleftrightarrow> list_all2 (\<lambda>x y. f x = Some y) xs ys"
proof (induction xs arbitrary: ys)
  case (Cons x xs)
  then show ?case by (cases ys) (auto split: option.split)
qed auto

lemma build_nodes_total:
  assumes "unique_spaces spaces"
  shows "chain spaces cs i \<Longrightarrow> fuel + length cs = length spaces + 1 \<Longrightarrow> \<exists>ts. build_nodes fuel spaces b i = Some ts"
proof (induction fuel arbitrary: cs i)
  case 0
  then show ?case using chain_length [OF assms, of cs i] by simp
next
  case (Suc fuel)
  have "\<exists>ts. build_nodes fuel spaces b (sp_id s) = Some ts" if "s \<in> set (children_of spaces i)" for s
    using Suc.IH [of "s # cs" "sp_id s"] that children_chain [OF Suc.prems(1)] Suc.prems(2) by auto
  then show ?case by (auto intro!: those_total)
qed

text \<open>The spaces of a tree with their cameras, from the top.\<close>

primrec tree_spaces :: "SpaceNode \<Rightarrow> (rv_space \<times> rv_camera list) list" where
  "tree_spaces (SpaceNode s cameras children) = (s, cameras) # concat (map tree_spaces children)"

definition forest_spaces :: "SpaceNode list \<Rightarrow> (rv_space \<times> rv_camera list) list" where
  "forest_spaces ts = concat (map tree_spaces ts)"

definition below :: "rv_space list \<Rightarrow> rv_space list \<Rightarrow> rv_space set" where
  "below spaces cs = {s. \<exists>upper. chain spaces (s # upper @ cs) (sp_id s)}"

definition space_with_cameras :: "bindingIndex \<Rightarrow> rv_space \<Rightarrow> rv_space \<times> rv_camera list" where
  "space_with_cameras b s = (s, list_at (bi_cameras_by_space b) (sp_id s))"

text \<open>What the tree of one space has: the space itself and those below it.\<close>

definition branch :: "rv_space list \<Rightarrow> rv_space list \<Rightarrow> rv_space \<Rightarrow> rv_space set" where
  "branch spaces cs s = insert s (below spaces (s # cs))"

lemma branch_chain:
  assumes "x \<in> branch spaces cs s" "chain spaces (s # cs) (sp_id s)"
  shows "\<exists>upper. chain spaces (upper @ [s] @ cs) (sp_id x) \<and> hd (upper @ [s]) = x"
proof (cases "x = s")
  case True
  then show ?thesis using assms(2) by (intro exI [of _ "[]"]) simp
next
  case False
  then obtain upper where "chain spaces (x # upper @ s # cs) (sp_id x)"
    using assms(1) by (auto simp: branch_def below_def)
  then show ?thesis by (intro exI [of _ "x # upper"]) simp
qed

lemma branches_disjoint:
  assumes "unique_spaces spaces" "chain spaces (s # cs) (sp_id s)" "chain spaces (t # cs) (sp_id t)" "s \<noteq> t"
  shows "branch spaces cs s \<inter> branch spaces cs t = {}"
proof -
  have "s = t" if x: "x \<in> branch spaces cs s" "x \<in> branch spaces cs t" for x
  proof -
    obtain a c where "chain spaces (a @ [s] @ cs) (sp_id x)" "chain spaces (c @ [t] @ cs) (sp_id x)"
      using branch_chain x assms(2,3) by meson
    then have "a @ [s] @ cs = c @ [t] @ cs" by (rule chain_unique [OF assms(1)])
    then show "s = t" by (metis append_assoc append_same_eq last_snoc)
  qed
  then show ?thesis using assms(4) by blast
qed

lemma chain_unsnoc: "chain spaces (upper @ cs) i \<Longrightarrow> upper \<noteq> [] \<Longrightarrow>
    \<exists>front s. upper = front @ [s] \<and> chain spaces (s # cs) (sp_id s)"
  by (metis append.assoc append_Cons append_Nil chain_drop rev_exhaust)

lemma below_branches:
  assumes "chain spaces cs i" "unique_spaces spaces"
  shows "below spaces cs = (\<Union>s \<in> set (children_of spaces i). branch spaces cs s)"
proof -
  have child: "s \<in> set (children_of spaces i)" if "chain spaces (s # cs) (sp_id s)" for s
  proof -
    have "tree_parent spaces s = i"
    proof (cases cs)
      case Nil
      then show ?thesis using that assms(1) by simp
    next
      case (Cons t ts)
      then show ?thesis using that assms(1) by simp
    qed
    then show ?thesis using that children_chain [OF assms(1)] by blast
  qed
  show ?thesis
  proof (intro set_eqI iffI)
    fix x assume "x \<in> below spaces cs"
    then obtain upper where u: "chain spaces ((x # upper) @ cs) (sp_id x)" unfolding below_def by auto
    obtain front s where s: "x # upper = front @ [s]" "chain spaces (s # cs) (sp_id s)" using chain_unsnoc [OF u] by blast
    have "x \<in> branch spaces cs s"
    proof (cases front)
      case Nil
      then show ?thesis using s(1) by (simp add: branch_def)
    next
      case (Cons f fs)
      then have "x # fs @ s # cs = (x # upper) @ cs" using s(1) by simp
      then have "chain spaces (x # fs @ s # cs) (sp_id x)" using u by (simp only:)
      then show ?thesis unfolding branch_def below_def by blast
    qed
    then show "x \<in> (\<Union>s \<in> set (children_of spaces i). branch spaces cs s)" using child s(2) by blast
  next
    fix x assume "x \<in> (\<Union>s \<in> set (children_of spaces i). branch spaces cs s)"
    then obtain s where s: "s \<in> set (children_of spaces i)" "x \<in> branch spaces cs s" by blast
    then obtain upper where u: "chain spaces (upper @ [s] @ cs) (sp_id x)" "hd (upper @ [s]) = x"
      using branch_chain children_chain [OF assms(1)] by blast
    obtain rest where "upper @ [s] = x # rest" using u(2) by (cases "upper @ [s]") auto
    then have "chain spaces (x # rest @ cs) (sp_id x)" using u(1) by (metis append_Cons append_assoc)
    then show "x \<in> below spaces cs" unfolding below_def by blast
  qed
qed

definition rooted :: "rv_space list \<Rightarrow> rv_space \<Rightarrow> bool" where
  "rooted spaces s \<longleftrightarrow> (\<exists>n. ancestor (spacesByID spaces) n (sp_id s) = None)"

lemma spacesByID_space:
  assumes "unique_spaces spaces"
  shows "spacesByID spaces i = Some s \<longleftrightarrow> s \<in> set spaces \<and> sp_id s = i"
proof -
  have "distinct (map fst (rev (map (\<lambda>s. (sp_id s, s)) spaces)))"
    using assms by (simp add: unique_spaces_def comp_def rev_map flip: rev_map)
  then show ?thesis by (auto simp: spacesByID_def)
qed

lemma spacesByID_unknown: "spacesByID spaces i = None \<longleftrightarrow> \<not> list_ex (\<lambda>p. sp_id p = i) spaces"
  by (force simp: spacesByID_def map_of_eq_None_iff list_ex_iff)

lemma ancestor_tree_parent:
  "ancestor (spacesByID spaces) n (tree_parent spaces s) = ancestor (spacesByID spaces) n (sp_parent_id s)"
  by (cases n) (auto simp: tree_parent_def spacesByID_unknown [symmetric])

lemma chain_ancestor:
  assumes "unique_spaces spaces"
  shows "chain spaces cs i \<Longrightarrow> ancestor (spacesByID spaces) (length cs) i = None"
proof (induction cs arbitrary: i)
  case (Cons s cs)
  then have "spacesByID spaces i = Some s" using spacesByID_space [OF assms] by simp
  then show ?case using Cons ancestor_tree_parent [of spaces "length cs" s] by simp
qed simp

lemma ancestor_chain:
  assumes "unique_spaces spaces"
  shows "ancestor (spacesByID spaces) n (sp_id s) = None \<Longrightarrow> s \<in> set spaces \<Longrightarrow>
    \<exists>upper. chain spaces (s # upper) (sp_id s)"
proof (induction n arbitrary: s)
  case 0
  then show ?case using spacesByID_space [OF assms, of "sp_id s" s] assms by (auto simp: unique_spaces_def split: if_splits)
next
  case (Suc n)
  have "spacesByID spaces (sp_id s) = Some s" "sp_id s \<noteq> 0"
    using spacesByID_space [OF assms] Suc.prems assms by (auto simp: unique_spaces_def)
  then have up: "ancestor (spacesByID spaces) n (tree_parent spaces s) = None"
    using Suc.prems ancestor_tree_parent by simp
  show ?case
  proof (cases "tree_parent spaces s = 0")
    case True
    then show ?thesis using Suc.prems(2) by (intro exI [of _ "[]"]) simp
  next
    case False
    then have "list_ex (\<lambda>p. sp_id p = tree_parent spaces s) spaces" by (auto simp: tree_parent_def split: if_splits)
    then obtain t where t: "t \<in> set spaces" "sp_id t = tree_parent spaces s" by (auto simp: list_ex_iff)
    then obtain upper where "chain spaces (t # upper) (sp_id t)" using Suc.IH [of t] up by auto
    then show ?thesis using t Suc.prems(2) by (intro exI [of _ "t # upper"]) simp
  qed
qed

lemma below_rooted:
  assumes "unique_spaces spaces"
  shows "below spaces [] = {s \<in> set spaces. rooted spaces s}"
  using ancestor_chain [OF assms] chain_ancestor [OF assms]
  by (auto simp: below_def rooted_def) (metis chain.simps(2))+

text \<open>The trees of one list of siblings, each with its branch.\<close>

lemma forest_of_branches:
  assumes "list_all2 (\<lambda>s t. distinct (map fst (tree_spaces t)) \<and> set (tree_spaces t) = f ` B s) cl ts"
    and "distinct cl" "\<And>s t. s \<in> set cl \<Longrightarrow> t \<in> set cl \<Longrightarrow> s \<noteq> t \<Longrightarrow> B s \<inter> B t = {}"
    and fst_f: "\<And>x. fst (f x) = x"
  shows "distinct (map fst (forest_spaces ts)) \<and> set (forest_spaces ts) = f ` (\<Union>s \<in> set cl. B s)"
  using assms(1-3)
proof (induction cl ts rule: list_all2_induct)
  case (Cons s cl t ts)
  have fst_image: "fst ` f ` A = A" for A by (auto simp: image_image fst_f)
  have forest: "forest_spaces (t # ts) = tree_spaces t @ forest_spaces ts" by (simp add: forest_spaces_def)
  have IH: "distinct (map fst (forest_spaces ts)) \<and> set (forest_spaces ts) = f ` (\<Union>s \<in> set cl. B s)"
    using Cons by simp
  have "fst ` set (tree_spaces t) = B s" "fst ` set (forest_spaces ts) = (\<Union>s \<in> set cl. B s)"
    using Cons.hyps(1) IH by (simp_all add: fst_image)
  moreover have "B s \<inter> (\<Union>s \<in> set cl. B s) = {}" using Cons.prems by fastforce
  ultimately have "distinct (map fst (forest_spaces (t # ts)))" using Cons.hyps(1) IH by (simp add: forest)
  moreover have "set (forest_spaces (t # ts)) = f ` (\<Union>s \<in> set (s # cl). B s)"
    using Cons.hyps(1) IH by (simp add: forest image_Un)
  ultimately show ?case by blast
qed (simp add: forest_spaces_def)

lemma distinct_children:
  assumes "unique_spaces spaces"
  shows "distinct (children_of spaces i)"
proof -
  have "distinct spaces" using assms by (simp add: unique_spaces_def distinct_map)
  then show ?thesis by (simp add: children_of_def sortSpaces_def)
qed

lemma build_nodes_spaces:
  assumes u: "unique_spaces spaces"
  shows "build_nodes fuel spaces b i = Some ts \<Longrightarrow> chain spaces cs i \<Longrightarrow>
    distinct (map fst (forest_spaces ts)) \<and> set (forest_spaces ts) = space_with_cameras b ` below spaces cs"
proof (induction fuel arbitrary: i ts cs)
  case (Suc fuel)
  note child = children_chain [OF Suc.prems(2)]
  have trees: "list_all2 (\<lambda>s t. distinct (map fst (tree_spaces t)) \<and>
      set (tree_spaces t) = space_with_cameras b ` branch spaces cs s) (children_of spaces i) ts"
    using Suc.prems(1) unfolding build_nodes.simps those_map_Some
  proof (rule list.rel_mono_strong)
    fix s t
    assume s: "s \<in> set (children_of spaces i)"
      and "map_option (SpaceNode s (list_at (bi_cameras_by_space b) (sp_id s))) (build_nodes fuel spaces b (sp_id s)) = Some t"
    then obtain sub where sub: "build_nodes fuel spaces b (sp_id s) = Some sub"
      and t: "t = SpaceNode s (list_at (bi_cameras_by_space b) (sp_id s)) sub" by auto
    have c: "chain spaces (s # cs) (sp_id s)" using child s by blast
    have "s \<notin> below spaces (s # cs)"
    proof
      assume "s \<in> below spaces (s # cs)"
      then obtain upper where "chain spaces (s # upper @ s # cs) (sp_id s)" unfolding below_def by blast
      then have "s # upper @ s # cs = s # cs" using chain_unique [OF u] c by blast
      then have "length (s # upper @ s # cs) = length (s # cs)" by (rule arg_cong)
      then show False by simp
    qed
    moreover have "fst ` space_with_cameras b ` A = A" for A by (auto simp: image_image space_with_cameras_def)
    ultimately have "s \<notin> fst ` set (forest_spaces sub)" using Suc.IH [OF sub c] by simp
    then show "distinct (map fst (tree_spaces t)) \<and> set (tree_spaces t) = space_with_cameras b ` branch spaces cs s"
      using Suc.IH [OF sub c] by (simp add: t branch_def space_with_cameras_def flip: forest_spaces_def)
  qed
  have "distinct (map fst (forest_spaces ts)) \<and>
      set (forest_spaces ts) = space_with_cameras b ` (\<Union>s \<in> set (children_of spaces i). branch spaces cs s)"
    using trees distinct_children [OF u]
  proof (rule forest_of_branches)
    show "branch spaces cs s \<inter> branch spaces cs t = {}"
      if "s \<in> set (children_of spaces i)" "t \<in> set (children_of spaces i)" "s \<noteq> t" for s t
      using branches_disjoint [OF u] child that by blast
  qed (simp add: space_with_cameras_def)
  then show ?case using below_branches [OF Suc.prems(2) u] by simp
qed simp

text \<open>
  C22. The tree of spaces, ids being unique and not 0, is built, and it has exactly the spaces from which
  going up ends, each once and with its cameras: spaces on a loop of parents, and those below one, are left out.
\<close>

theorem space_tree_complete:
  assumes "unique_spaces spaces"
  shows "\<exists>ts. buildSpaceTree spaces b = Some ts \<and> distinct (map fst (forest_spaces ts)) \<and>
    set (forest_spaces ts) = space_with_cameras b ` {s \<in> set spaces. rooted spaces s}"
proof -
  have c: "chain spaces [] 0" by simp
  obtain ts where "build_nodes (length spaces + 1) spaces b 0 = Some ts"
    using build_nodes_total [OF assms c] by auto
  then show ?thesis
    using build_nodes_spaces [OF assms _ c] below_rooted [OF assms] unfolding buildSpaceTree_def by metis
qed

section \<open>A store with two cameras\<close>

definition demo_device :: "int \<Rightarrow> int \<Rightarrow> string \<Rightarrow> string \<Rightarrow> string \<Rightarrow> int \<Rightarrow> BusinessDevice" where
  "demo_device i parent category provider hardware online =
     \<lparr>bd_id = i, bd_tenant_id = 7, bd_parent_id = parent, bd_name = ''d'', bd_hardware_id = hardware, bd_sn = [],
      bd_ip = [], bd_category = category, bd_provider = provider, bd_status = 1, bd_online_status = online,
      bd_ext_params = [], bd_heartbeat_at = None, bd_deleted_at = None\<rparr>"

definition demo_place :: "int \<Rightarrow> int \<Rightarrow> BusinessSpace" where
  "demo_place i parent =
     \<lparr>bs_id = i, bs_tenant_id = 7, bs_parent_id = parent, bs_name = ''room'', bs_code = [], bs_level = 2,
      bs_status = 1, bs_dict_id = 0, bs_sort_order = 0\<rparr>"

definition demo_binding :: "int \<Rightarrow> int \<Rightarrow> int \<Rightarrow> BusinessAreaDeviceRelation" where
  "demo_binding i device area =
     \<lparr>br_id = i, br_device_id = device, br_area_id = area, br_function_type = ''camera'', br_created_at = 1\<rparr>"

definition demo_store :: StoreRecords where
  "demo_store =
     \<lparr>rec_tenant = \<lparr>bt_id = 7, bt_name = ''store'', bt_hospital_name = [], bt_city_id = 0\<rparr>,
      rec_devices = [demo_device 1 0 ''nvr'' ''Hik'' [] 1,
        demo_device 2 1 ''camera'' ''HikVisionNvrChannel'' ''NVRCHANNEL:1-33'' 1,
        demo_device 3 1 ''camera'' ''HikVisionNvrChannel'' ''NVRCHANNEL:1-34'' 0],
      rec_spaces = [demo_place 10 0, demo_place 11 10],
      rec_relations = [demo_binding 20 2 11, demo_binding 21 2 11]\<rparr>"

definition demo_store' :: StoreRecords where
  "demo_store' = demo_store\<lparr>rec_devices := rev (rec_devices demo_store),
     rec_spaces := rev (rec_spaces demo_store), rec_relations := rev (rec_relations demo_store)\<rparr>"

definition demo_view :: "StoreDetail option" where
  "demo_view = BuildStoreDetail (\<lambda>_. []) demo_store \<lparr>acc_can_view = False, acc_url = []\<rparr>"

lemma demo_view_computed: "demo_view \<noteq> None"
  by code_simp

lemma view_order_independent_witness:
  "BuildStoreDetail (\<lambda>_. []) demo_store \<lparr>acc_can_view = False, acc_url = []\<rparr> =
     BuildStoreDetail (\<lambda>_. []) demo_store' \<lparr>acc_can_view = False, acc_url = []\<rparr> \<and> demo_store \<noteq> demo_store'"
proof
  show "BuildStoreDetail (\<lambda>_. []) demo_store \<lparr>acc_can_view = False, acc_url = []\<rparr> =
     BuildStoreDetail (\<lambda>_. []) demo_store' \<lparr>acc_can_view = False, acc_url = []\<rparr>"
    by (rule view_order_independent)
      (simp_all add: demo_store'_def demo_store_def demo_device_def demo_place_def demo_binding_def)
  show "demo_store \<noteq> demo_store'"
    by (simp add: demo_store'_def demo_store_def demo_device_def demo_place_def demo_binding_def)
qed

lemma unbound_counted_witness:
  "\<exists>d. demo_view = Some d \<and> su_unbound_camera_count (sd_summary d) = 1 \<and>
     length (filter unbound_issue (sd_issues d)) = 1"
proof -
  obtain d where d: "demo_view = Some d" using demo_view_computed by blast
  have "distinct (map bd_id (rec_devices demo_store))" by code_simp
  note c = unbound_counted [OF d [unfolded demo_view_def] this]
  have "map_option (\<lambda>d. su_unbound_camera_count (sd_summary d)) demo_view = Some 1" by code_simp
  then have u: "su_unbound_camera_count (sd_summary d) = 1" unfolding d by simp
  then have "int (length (filter unbound_issue (sd_issues d))) = 1" using c by linarith
  then show ?thesis using u d by (intro exI [of _ d]) simp
qed

lemma space_tree_complete_witness:
  "\<exists>ts. buildSpaceTree (normalizedSpaces (rec_spaces demo_store)) (buildValidBindings [] [] []) = Some ts \<and>
     distinct (map fst (forest_spaces ts))"
proof -
  have "unique_spaces (normalizedSpaces (rec_spaces demo_store))"
    unfolding unique_spaces_def by code_simp
  from space_tree_complete [OF this] show ?thesis by blast
qed

end
