(* ===== verification/RV_List_Props.thy ===== *)
theory RV_List_Props
  imports RV_List RV_Props
begin

text \<open>
  What the listing of the resource view returns: the windows of the pages, whose counts and links are those
  of the stores they show; and the pages so far out that computing their window overflows.
\<close>

text \<open>The page and its size that a request asks for.\<close>

definition page_asked :: "StoreFilters \<Rightarrow> int" where
  "page_asked f = (if sfl_page f \<le> 0 then 1 else sfl_page f)"

definition size_asked :: "StoreFilters \<Rightarrow> int" where
  "size_asked f = (if sfl_page_size f \<le> 0 then 20 else min 100 (sfl_page_size f))"

lemma normalized:
  "normalizeStoreFilters f =
     \<lparr>sfl_query = trim_space (sfl_query f), sfl_city_id = sfl_city_id f, sfl_page = page_asked f, sfl_page_size = size_asked f\<rparr>"
  by (simp add: normalizeStoreFilters_def page_asked_def size_asked_def Let_def)

lemma asked_bounds: "1 \<le> page_asked f" "1 \<le> size_asked f" "size_asked f \<le> 100"
  by (simp_all add: page_asked_def size_asked_def)

lemma wrapped_product:
  fixes a b h m :: int
  shows "(((a + h) mod m - h) * b + h) mod m = (a * b + h) mod m"
proof -
  have r: "(a + h) mod m - h = a - m * ((a + h) div m)" using div_mult_mod_eq [of "a + h" m] by (simp add: algebra_simps)
  have "((a + h) mod m - h) * b + h = a * b + h + m * (- ((a + h) div m) * b)" unfolding r by (simp add: algebra_simps)
  then show ?thesis by (simp only: mod_mult_self2)
qed

lemma wrap64_product: "wrap64 (wrap64 a * b) = wrap64 (a * b)"
  unfolding wrap64_def by (simp only: wrapped_product)

text \<open>The window of any page over a list that fits into memory; a start that wrapped below zero panics.\<close>

lemma list_window_any:
  assumes "1 \<le> sfl_page_size f" "sfl_page_size f \<le> 100" "int (length xs) + 100 \<le> max_int64"
    and start: "start = wrap64 ((sfl_page f - 1) * sfl_page_size f)"
  shows "list_window f xs = (if start < 0 then None else Some (take (nat (sfl_page_size f)) (drop (nat start) xs)))"
proof -
  define n where "n = sfl_page_size f"
  have n: "1 \<le> n" "n \<le> 100" using assms by (simp_all add: n_def)
  have w: "list_window f xs =
      (if start \<ge> int (length xs) then Some []
       else let stop = min (int (length xs)) (wrap64 (start + n))
            in if start < 0 \<or> stop < start then None else Some (take (nat (stop - start)) (drop (nat start) xs)))"
    by (auto simp: list_window_def Let_def min_def start wrap64_product simp flip: n_def)
  show ?thesis
  proof (cases "start < 0 \<or> start \<ge> int (length xs)")
    case True
    then show ?thesis by (auto simp: w Let_def)
  next
    case False
    then have "wrap64 (start + n) = start + n"
      using n assms(3) by (intro wrap64_id) (simp_all add: min_int64_def)
    then show ?thesis
      using False n by (cases "int (length xs) \<le> start + n") (auto simp: w Let_def min_def simp flip: n_def)
  qed
qed

lemma near_page:
  assumes "page_asked f \<le> 92233720368547759"
  shows "wrap64 ((page_asked f - 1) * size_asked f) = (page_asked f - 1) * size_asked f"
proof -
  have "(page_asked f - 1) * size_asked f \<le> 92233720368547758 * 100"
    by (rule mult_mono) (use assms asked_bounds [of f] in simp_all)
  moreover have "0 \<le> (page_asked f - 1) * size_asked f" using asked_bounds [of f] by simp
  ultimately show ?thesis by (intro wrap64_id) (simp_all add: min_int64_def max_int64_def)
qed

text \<open>
  C29. The listing asks the repository for the page and the size of the request, page 1 where none is asked for, 20
  stores where no size is and never more than 100.  It shows exactly the stores of that window, each with the counts of
  its own view and the access to its own monitor, and beside them the total, the summary and the cities of all
  the stores.  The start of the window is computed in 64 bits: up to page 92233720368547759 it is the product, and
  farther out, where it may wrap, a start below zero panics (\<open>None\<close>) and any other is used as it is.
\<close>

theorem listing_pages:
  assumes "rs_repo s = Some repo"
    and "rp_list repo \<lparr>sfl_query = trim_space (sfl_query f), sfl_city_id = sfl_city_id f,
      sfl_page = page_asked f, sfl_page_size = size_asked f\<rparr> = Inr records"
    and "those (map (\<lambda>r. BuildStoreDetail rfc3339 r no_access) records) = Some details"
    and "int (length records) + 100 \<le> max_int64"
  shows "\<exists>start. (page_asked f \<le> 92233720368547759 \<longrightarrow> start = (page_asked f - 1) * size_asked f) \<and>
    start = wrap64 ((page_asked f - 1) * size_asked f) \<and>
    rv_ListStores rfc3339 s f (Some access) =
      (if start < 0 then None
       else Some (Inr \<lparr>
         rlr_items = map (\<lambda>(d, r). rv_storeListItem rfc3339 d r (access (sd_tenant_id d)))
           (take (nat (size_asked f)) (drop (nat start) (zip details records))),
         rlr_page = page_asked f, rlr_page_size = size_asked f, rlr_total = int (length records),
         rlr_summary = summarizeStoreDetails details, rlr_cities = cityOptions details\<rparr>))"
proof -
  let ?start = "wrap64 ((page_asked f - 1) * size_asked f)"
  have len: "length details = length records"
    using assms(3) unfolding those_map_Some by (simp add: list_all2_lengthD)
  have window: "list_window (normalizeStoreFilters f) (zip details records) =
      (if ?start < 0 then None else Some (take (nat (size_asked f)) (drop (nat ?start) (zip details records))))"
    using list_window_any [of "normalizeStoreFilters f" "zip details records" ?start] asked_bounds [of f] assms(4) len
    by (simp add: normalized)
  show ?thesis
    using near_page [of f] window assms(2)
    by (intro exI [of _ ?start]) (simp add: rv_ListStores_def Let_def assms(1,3) normalized len)
qed

definition demo_listing :: rv_service where
  "demo_listing = \<lparr>rs_repo = Some \<lparr>rp_list = (\<lambda>_. Inr [demo_store, demo_store]), rp_nvr_list = Inr [],
     rp_store = (\<lambda>_. Inl RvNotFound), rp_nvr_store = (\<lambda>_. Inl RvNotFound)\<rparr>, rs_snapshot_url = None\<rparr>"

definition second_page :: StoreFilters where
  "second_page = \<lparr>sfl_query = [], sfl_city_id = 0, sfl_page = 2, sfl_page_size = 1\<rparr>"

lemma listing_pages_witness:
  "\<exists>result. rv_ListStores (\<lambda>_. []) demo_listing second_page (Some (\<lambda>_. no_access)) = Some (Inr result) \<and>
     rlr_total result = 2 \<and> length (rlr_items result) = 1 \<and> rlr_page result = 2 \<and> rlr_page_size result = 1"
proof -
  obtain d where "demo_view = Some d" using demo_view_computed by blast
  then have d: "BuildStoreDetail (\<lambda>_. []) demo_store no_access = Some d" by (simp add: demo_view_def no_access_def)
  have repo: "rs_repo demo_listing = Some (the (rs_repo demo_listing))" by (simp add: demo_listing_def)
  have list: "rp_list (the (rs_repo demo_listing)) g = Inr [demo_store, demo_store]" for g
    by (simp add: demo_listing_def)
  have those: "those (map (\<lambda>r. BuildStoreDetail (\<lambda>_. []) r no_access) [demo_store, demo_store]) = Some [d, d]"
    by (simp add: d)
  have few: "int (length [demo_store, demo_store]) + 100 \<le> max_int64" by (simp add: max_int64_def)
  have asked: "page_asked second_page = 2" "size_asked second_page = 1"
    by (simp_all add: second_page_def page_asked_def size_asked_def)
  from listing_pages [where f = second_page and access = "\<lambda>_. no_access", OF repo list those few] show ?thesis by (auto simp: asked)
qed

end
