(* ===== verification/AS_Store.thy ===== *)
theory AS_Store
  imports GoMime GoSort "HOL-Library.AList"
begin

text \<open>
  Package \<open>internal/assets\<close>: the keys of assets (\<open>store.go\<close>) and the store of files on the local disk
  (\<open>local.go\<close>).  The disk maps absolute paths to contents; directories are implicit.  Every call of the
  operating system takes the next entry of a list of faults: it fails, if the entry says so, after writing
  some of the data.  A context that was cancelled is the error \<open>ctx\<close>.  The root directory is the path
  \<open>filepath.Abs\<close> gives, and the table of \<open>mime.TypeByExtension\<close> is a parameter.
\<close>

section \<open>Keys\<close>

datatype asset_error = AssetNotFound | AssetFailed string

definition invalid_key :: asset_error where "invalid_key = AssetFailed ''invalid asset key''"

definition cleanKey :: "string \<Rightarrow> asset_error + string" where
  "cleanKey key =
     (let clean = trim_suffix (trim_space key) ''/'' in
      if clean = [] \<or> has_prefix clean ''/'' \<or> contains clean [CHR 0x5C] then Inl invalid_key
      else if list_ex (\<lambda>part. part = [] \<or> part = ''.'' \<or> part = ''..'') (split_on (CHR ''/'') clean)
      then Inl invalid_key
      else Inr clean)"

definition contentTypeOrDefault :: "string \<Rightarrow> string" where
  "contentTypeOrDefault contentType =
     (if trim_space contentType = [] then ''application/octet-stream'' else trim_space contentType)"

section \<open>The disk\<close>

record disk =
  dk_files :: "(string \<times> string) list"
  dk_faults :: "(string \<times> nat) option list"

type_synonym 'a os = "disk \<Rightarrow> 'a \<times> disk"

definition os_fault :: "(string \<times> nat) option os" where
  "os_fault d = (case dk_faults d of [] \<Rightarrow> (None, d) | f # fs \<Rightarrow> (f, d\<lparr>dk_faults := fs\<rparr>))"

text \<open>A call that changes nothing in the model: \<open>MkdirAll\<close>, \<open>Close\<close>.\<close>

definition os_call :: "string option os" where
  "os_call d = (case os_fault d of (f, d') \<Rightarrow> (map_option fst f, d'))"

definition put_file :: "string \<Rightarrow> string \<Rightarrow> disk \<Rightarrow> disk" where
  "put_file path content d = d\<lparr>dk_files := AList.update path content (dk_files d)\<rparr>"

definition drop_file :: "string \<Rightarrow> disk \<Rightarrow> disk" where
  "drop_file path d = d\<lparr>dk_files := AList.delete path (dk_files d)\<rparr>"

text \<open>\<open>os.OpenFile\<close> with \<open>O_CREATE\<close> and \<open>O_TRUNC\<close>, and writing to the file that was opened.\<close>

definition os_create :: "string \<Rightarrow> string option os" where
  "os_create path d =
     (case os_fault d of (Some (e, _), d') \<Rightarrow> (Some e, d') | (None, d') \<Rightarrow> (None, put_file path [] d'))"

definition os_write :: "string \<Rightarrow> string \<Rightarrow> string option os" where
  "os_write path content d =
     (case os_fault d of
        (Some (e, n), d') \<Rightarrow> (Some e, put_file path (take n content) d')
      | (None, d') \<Rightarrow> (None, put_file path content d'))"

datatype os_error = OsNotExist | OsFailed string

definition os_remove :: "string \<Rightarrow> os_error option os" where
  "os_remove path d =
     (case os_fault d of
        (Some (e, _), d') \<Rightarrow> (Some (OsFailed e), d')
      | (None, d') \<Rightarrow>
          if map_of (dk_files d') path = None then (Some OsNotExist, d') else (None, drop_file path d'))"

definition os_rename :: "string \<Rightarrow> string \<Rightarrow> os_error option os" where
  "os_rename old new d =
     (case os_fault d of
        (Some (e, _), d') \<Rightarrow> (Some (OsFailed e), d')
      | (None, d') \<Rightarrow>
          (case map_of (dk_files d') old of
             None \<Rightarrow> (Some OsNotExist, d')
           | Some content \<Rightarrow> (None, put_file new content (drop_file old d'))))"

definition os_read :: "string \<Rightarrow> (os_error + string) os" where
  "os_read path d =
     (case os_fault d of
        (Some (e, _), d') \<Rightarrow> (Inl (OsFailed e), d')
      | (None, d') \<Rightarrow>
          (case map_of (dk_files d') path of None \<Rightarrow> (Inl OsNotExist, d') | Some content \<Rightarrow> (Inr content, d')))"

text \<open>\<open>os.WriteFile\<close>\<close>

definition os_write_file :: "string \<Rightarrow> string \<Rightarrow> string option os" where
  "os_write_file path content d =
     (case os_create path d of
        (Some e, d1) \<Rightarrow> (Some e, d1)
      | (None, d1) \<Rightarrow>
          (case os_write path content d1 of
             (Some e, d2) \<Rightarrow> (Some e, snd (os_call d2))
           | (None, d2) \<Rightarrow> os_call d2))"

text \<open>\<open>os.RemoveAll\<close>: a failure leaves the files it has not come to.\<close>

definition os_remove_all :: "string \<Rightarrow> string option os" where
  "os_remove_all path d =
     (let inside = (\<lambda>p. p = path \<or> has_prefix p (path @ ''/'')) in
      case os_fault d of
        (Some (e, n), d') \<Rightarrow>
          (Some e, fold drop_file (take n (map fst (filter (inside \<circ> fst) (dk_files d')))) d')
      | (None, d') \<Rightarrow> (None, d'\<lparr>dk_files := filter (Not \<circ> inside \<circ> fst) (dk_files d')\<rparr>))"

section \<open>The local store\<close>

record LocalStore =
  ls_root :: string
  ls_mime :: "string \<Rightarrow> string"

definition defaultLocalRoot :: string where "defaultLocalRoot = ''uploads''"

definition NewLocalStore :: "(string \<Rightarrow> string) \<Rightarrow> (string \<Rightarrow> string) \<Rightarrow> string \<Rightarrow> LocalStore" where
  "NewLocalStore abs_path mime rootDir =
     (let root = (if trim_space rootDir = [] then defaultLocalRoot else trim_space rootDir)
      in \<lparr>ls_root = abs_path root, ls_mime = mime\<rparr>)"

definition localDiskKey :: "string \<Rightarrow> string" where
  "localDiskKey clean = (if has_prefix clean ''uploads/'' then drop 8 clean else clean)"

text \<open>\<open>filepath.Join\<close> and \<open>filepath.Abs\<close> of a key below the root, which are clean.\<close>

definition disk_path :: "string \<Rightarrow> string \<Rightarrow> string" where
  "disk_path root key = (if root = ''/'' then root @ key else root @ ''/'' @ key)"

definition pathForKey :: "LocalStore \<Rightarrow> string \<Rightarrow> asset_error + string" where
  "pathForKey s key =
     (case cleanKey key of
        Inl e \<Rightarrow> Inl e
      | Inr clean \<Rightarrow>
          let target = disk_path (ls_root s) (localDiskKey clean) in
          if \<not> has_prefix target (ls_root s @ ''/'') then Inl AssetNotFound else Inr target)"

definition localContentType :: "LocalStore \<Rightarrow> string \<Rightarrow> string \<Rightarrow> string" where
  "localContentType s path stored =
     (if trim_space stored \<noteq> [] then trim_space stored
      else if ls_mime s (to_lower (filepath_ext path)) \<noteq> [] then ls_mime s (to_lower (filepath_ext path))
      else contentTypeOrDefault [])"

definition os_error_text :: "os_error \<Rightarrow> string" where
  "os_error_text e = (case e of OsNotExist \<Rightarrow> ''file does not exist'' | OsFailed t \<Rightarrow> t)"

text \<open>What is read from a body: the bytes, and the error that ended them.\<close>

record asset_reader =
  rd_content :: string
  rd_error :: "string option"
  rd_close :: "string option"

text \<open>\<open>LocalStore.Save\<close>: the temporary file, the rename, and then the file with the type.\<close>

definition local_Save ::
  "LocalStore \<Rightarrow> string option \<Rightarrow> string \<Rightarrow> asset_reader \<Rightarrow> string \<Rightarrow> asset_error option os" where
  "local_Save s ctx key body contentType d =
     (case ctx of
        Some e \<Rightarrow> (Some (AssetFailed e), d)
      | None \<Rightarrow>
        case pathForKey s key of
          Inl e \<Rightarrow> (Some e, d)
        | Inr path \<Rightarrow>
          case os_call d of
            (Some e, d1) \<Rightarrow> (Some (AssetFailed e), d1)
          | (None, d1) \<Rightarrow>
            let tempPath = path @ ''.tmp'' in
            case os_create tempPath d1 of
              (Some e, d2) \<Rightarrow> (Some (AssetFailed e), d2)
            | (None, d2) \<Rightarrow>
              case os_write tempPath (rd_content body) d2 of
                (writeErr, d3) \<Rightarrow>
                  let copyErr = (case writeErr of Some e \<Rightarrow> Some e | None \<Rightarrow> rd_error body) in
                  case os_call d3 of
                    (closeErr, d4) \<Rightarrow>
                      case (case copyErr of Some e \<Rightarrow> Some e | None \<Rightarrow> closeErr) of
                        Some e \<Rightarrow> (Some (AssetFailed e), snd (os_remove tempPath d4))
                      | None \<Rightarrow>
                        case os_rename tempPath path d4 of
                          (Some e, d5) \<Rightarrow> (Some (AssetFailed (os_error_text e)), snd (os_remove tempPath d5))
                        | (None, d5) \<Rightarrow>
                          case os_write_file (path @ ''.content-type'') (contentTypeOrDefault contentType) d5 of
                            (e, d6) \<Rightarrow> (map_option AssetFailed e, d6))"

text \<open>
  \<open>LocalStore.Open\<close>.  The reader keeps the file it opened; the faults of reading and closing it are taken here.
\<close>

definition local_Open ::
  "LocalStore \<Rightarrow> string option \<Rightarrow> string \<Rightarrow> (asset_error + asset_reader \<times> string) os" where
  "local_Open s ctx key d =
     (case ctx of
        Some e \<Rightarrow> (Inl (AssetFailed e), d)
      | None \<Rightarrow>
        case pathForKey s key of
          Inl e \<Rightarrow> (Inl e, d)
        | Inr path \<Rightarrow>
          case os_read path d of
            (Inl OsNotExist, d1) \<Rightarrow> (Inl AssetNotFound, d1)
          | (Inl (OsFailed e), d1) \<Rightarrow> (Inl (AssetFailed e), d1)
          | (Inr content, d1) \<Rightarrow>
            case os_read (path @ ''.content-type'') d1 of
              (Inl (OsFailed e), d2) \<Rightarrow> (Inl (AssetFailed e), snd (os_call d2))
            | (stored, d2) \<Rightarrow>
              let contentType = localContentType s path (case stored of Inr t \<Rightarrow> t | Inl _ \<Rightarrow> []) in
              case os_fault d2 of
                (readFault, d3) \<Rightarrow>
                  case os_call d3 of
                    (closeErr, d4) \<Rightarrow>
                      (Inr (\<lparr>rd_content = (case readFault of Some (_, n) \<Rightarrow> take n content | None \<Rightarrow> content),
                             rd_error = map_option fst readFault, rd_close = closeErr\<rparr>, contentType), d4))"

definition local_DeletePrefix :: "LocalStore \<Rightarrow> string option \<Rightarrow> string \<Rightarrow> asset_error option os" where
  "local_DeletePrefix s ctx asked d =
     (case ctx of
        Some e \<Rightarrow> (Some (AssetFailed e), d)
      | None \<Rightarrow>
        case cleanKey asked of
          Inl e \<Rightarrow> (Some e, d)
        | Inr cleanPrefix \<Rightarrow>
          let root = ls_root s;
              target = disk_path root (localDiskKey cleanPrefix)
          in if target = root \<or> \<not> has_prefix target (root @ ''/'') then (Some AssetNotFound, d)
             else (case os_remove_all target d of (e, d1) \<Rightarrow> (map_option AssetFailed e, d1)))"

definition local_Delete :: "LocalStore \<Rightarrow> string option \<Rightarrow> string \<Rightarrow> asset_error option os" where
  "local_Delete s ctx key d =
     (case ctx of
        Some e \<Rightarrow> (Some (AssetFailed e), d)
      | None \<Rightarrow>
        case pathForKey s key of
          Inl e \<Rightarrow> (Some e, d)
        | Inr path \<Rightarrow>
          case os_remove path d of
            (Some OsNotExist, d1) \<Rightarrow> (Some AssetNotFound, d1)
          | (Some (OsFailed e), d1) \<Rightarrow> (Some (AssetFailed e), d1)
          | (None, d1) \<Rightarrow> (None, snd (os_remove (path @ ''.content-type'') d1)))"

section \<open>Choosing the store\<close>

text \<open>The environment of the process as a function; an unset variable is empty.\<close>

definition envValue :: "(string \<Rightarrow> string) \<Rightarrow> string list \<Rightarrow> string" where
  "envValue env keys = (case find (\<lambda>k. trim_space (env k) \<noteq> []) keys of Some k \<Rightarrow> trim_space (env k) | None \<Rightarrow> [])"

definition ModeFromEnv :: "(string \<Rightarrow> string) \<Rightarrow> string" where
  "ModeFromEnv env =
     (let mode = to_lower (envValue env [''K8S_SECRET_ASSET_STORE'', ''ASSET_STORE'']) in
      if mode \<noteq> [] then mode
      else if envValue env [''K8S_SECRET_SUPABASE_URL'', ''SUPABASE_URL''] \<noteq> [] \<and>
              envValue env [''K8S_SECRET_SUPABASE_SERVICE_ROLE_KEY'', ''SUPABASE_SERVICE_ROLE_KEY''] \<noteq> [] \<and>
              envValue env [''K8S_SECRET_SUPABASE_STORAGE_BUCKET'', ''SUPABASE_STORAGE_BUCKET''] \<noteq> []
           then ''supabase''
           else ''local'')"

datatype chosen_store =
  ChoseLocal (chosen_root: string)
| ChoseOSS (chosen_bucket: string) (chosen_endpoint: string) (chosen_key_id: string) (chosen_key_secret: string)
| ChoseSupabase (chosen_url: string) (chosen_service_key: string) (chosen_storage_bucket: string)

definition defaultBucket :: string where "defaultBucket = ''design-plan-assets''"

text \<open>\<open>NewStoreFromEnv\<close>: which store, with which settings; \<open>None\<close> is an error.\<close>

definition NewStoreFromEnv :: "(string \<Rightarrow> string) \<Rightarrow> chosen_store option" where
  "NewStoreFromEnv env =
     (let mode = ModeFromEnv env in
      if mode = [] \<or> mode = ''local'' then
        Some (ChoseLocal (if trim_space (env ''UPLOAD_DIR'') = [] then defaultLocalRoot
          else trim_space (env ''UPLOAD_DIR'')))
      else if mode = ''oss'' then
        (let bucket = envValue env [''K8S_SECRET_OSS_BUCKET'', ''OSS_BUCKET''];
             endpoint = envValue env [''K8S_SECRET_OSS_ENDPOINT'', ''OSS_ENDPOINT''];
             accessKeyID = envValue env [''K8S_SECRET_OSS_ACCESS_KEY_ID'', ''OSS_ACCESS_KEY_ID''];
             accessKeySecret = envValue env [''K8S_SECRET_OSS_ACCESS_KEY_SECRET'', ''OSS_ACCESS_KEY_SECRET'']
         in if bucket = [] \<or> endpoint = [] \<or> accessKeyID = [] \<or> accessKeySecret = [] then None
            else Some (ChoseOSS bucket endpoint accessKeyID accessKeySecret))
      else if mode \<noteq> ''supabase'' then None
      else
        (let baseURL = envValue env [''K8S_SECRET_SUPABASE_URL'', ''SUPABASE_URL''];
             serviceKey = envValue env [''K8S_SECRET_SUPABASE_SERVICE_ROLE_KEY'', ''SUPABASE_SERVICE_ROLE_KEY''];
             named = envValue env [''K8S_SECRET_SUPABASE_STORAGE_BUCKET'', ''SUPABASE_STORAGE_BUCKET''];
             bucket = (if named = [] then defaultBucket else named)
         in if baseURL = [] \<or> serviceKey = [] \<or> bucket = [] then None
            else Some (ChoseSupabase baseURL serviceKey bucket)))"

end
