(* ===== verification/NM_Service.thy ===== *)
theory NM_Service
  imports RV_List AS_Store GoUrl GoJsonTree
begin

text \<open>
  Watching the cameras behind an industrial PC (package \<open>internal/nvrmonitor\<close>: \<open>models.go\<close>, \<open>service.go\<close>,
  \<open>snapshot_store.go\<close>, \<open>authorization_client.go\<close>).  The business database, the object store and the service that
  authorises streams are parameters; the snapshots of a service are those of \<open>AssetSnapshotStore\<close>.
\<close>

section \<open>Data\<close>

datatype nm_error =
  NmStoreNotFound | NmCameraNotFound | NmInvalidStreamMode | NmInvalidPlaybackWindow | NmNotConfigured
| NmSnapshotTransactionUnavailable | NmAuthorizationFailed | NmAuthorizationTimeout | NmSnapshotNotFound
| NmUnauthorized | NmForbidden | NmOther string

definition ModeLive :: string where "ModeLive = ''live''"
definition ModePlayback :: string where "ModePlayback = ''playback''"

record nm_store =
  ns_external_org_id :: string
  ns_store_name :: string
  ns_city :: string
  ns_available_camera_count :: int

record StoreCityGroup =
  cg_city :: string
  cg_stores :: "nm_store list"

record nm_camera =
  nc_id :: int
  nc_name :: string
  nc_space_type :: string
  nc_space_name :: string
  nc_thumbnail_kind :: string
  nc_thumbnail_url :: string

record CameraListResponse =
  cl_external_org_id :: string
  cl_tenant_id :: int
  cl_store_name :: string
  cl_city :: string
  cl_cameras :: "nm_camera list"

record CameraAuditTarget =
  ct_external_org_id :: string
  ct_store_name :: string
  ct_camera_id :: int
  ct_camera_name :: string
  ct_space_type :: string
  ct_space_name :: string

record StreamSessionRequest =
  sq_mode :: string
  sq_start_time :: int
  sq_end_time :: int

record StreamSessionResponse =
  sp_url :: string
  sp_mode :: string

definition no_target :: CameraAuditTarget where
  "no_target = \<lparr>ct_external_org_id = [], ct_store_name = [], ct_camera_id = 0, ct_camera_name = [],
     ct_space_type = [], ct_space_name = []\<rparr>"

section \<open>The cameras of a store\<close>

definition nm_isEligibleCamera :: "BusinessDevice \<Rightarrow> bool" where
  "nm_isEligibleCamera d \<longleftrightarrow>
     bd_category d = ''camera'' \<and> bd_provider d = ''HikVisionNvrChannel'' \<and> bd_status d = 1 \<and> bd_deleted_at d = None"

definition preferredSpace :: "BusinessSpace list \<Rightarrow> BusinessSpace option" where
  "preferredSpace spaces = (case sort_key bs_id spaces of [] \<Rightarrow> None | s # _ \<Rightarrow> Some s)"

definition spaceType :: "BusinessSpace \<Rightarrow> (int \<Rightarrow> BusinessSpace option) \<Rightarrow> string" where
  "spaceType s spaces =
     (if bs_level s = 3 then utf8 [0x6CBB, 0x7597, 0x5BA4]
      else case spaces (bs_parent_id s) of None \<Rightarrow> [] | Some parent \<Rightarrow> trim_space (bs_name parent))"

definition cityLabel :: "int \<Rightarrow> string" where
  "cityLabel cityID = (if cityID \<le> 0 then utf8 [0x672A, 0x5206, 0x57CE, 0x5E02] else CityName cityID)"

definition SnapshotURL :: "int \<Rightarrow> int \<Rightarrow> string" where
  "SnapshotURL tenantID cameraID =
     ''/api/h5/nvr-monitor/orgs/'' @ itoa tenantID @ ''/cameras/'' @ itoa cameraID @ ''/snapshot''"

text \<open>The spaces by id (the last row of an id), and those a device is bound to.\<close>

definition business_spaces :: "StoreRecords \<Rightarrow> int \<Rightarrow> BusinessSpace option" where
  "business_spaces records = map_of (rev (map (\<lambda>s. (bs_id s, s)) (rec_spaces records)))"

definition relation_spaces :: "StoreRecords \<Rightarrow> int \<Rightarrow> BusinessSpace list" where
  "relation_spaces records device =
     List.map_filter (\<lambda>r.
         if br_device_id r \<noteq> device then None
         else case business_spaces records (br_area_id r) of
             None \<Rightarrow> None
           | Some s \<Rightarrow> if bs_parent_id s = consultingAreaContainerID then None else Some s)
       (rec_relations records)"

definition nm_camera_of :: "StoreRecords \<Rightarrow> bool \<Rightarrow> BusinessDevice \<Rightarrow> nm_camera" where
  "nm_camera_of records snapshotsConfigured d =
     (let url = (if snapshotsConfigured then SnapshotURL (bt_id (rec_tenant records)) (bd_id d) else [])
      in case preferredSpace (relation_spaces records (bd_id d)) of
           None \<Rightarrow> \<lparr>nc_id = bd_id d, nc_name = trim_space (bd_name d), nc_space_type = [], nc_space_name = [],
             nc_thumbnail_kind = ''unassigned'', nc_thumbnail_url = url\<rparr>
         | Some s \<Rightarrow>
             let stype = spaceType s (business_spaces records); sname = trim_space (bs_name s) in
             \<lparr>nc_id = bd_id d, nc_name = trim_space (bd_name d), nc_space_type = stype, nc_space_name = sname,
              nc_thumbnail_kind = CameraThumbnailKind stype sname (bs_level s), nc_thumbnail_url = url\<rparr>)"

definition camerasFromRecords :: "StoreRecords \<Rightarrow> bool \<Rightarrow> nm_camera list" where
  "camerasFromRecords records snapshotsConfigured =
     sort_key (\<lambda>c. (nc_space_type c, nc_space_name c, nc_id c))
       (map (nm_camera_of records snapshotsConfigured) (filter nm_isEligibleCamera (rec_devices records)))"

definition containsCamera :: "nm_camera list \<Rightarrow> int \<Rightarrow> bool" where
  "containsCamera cameras cameraID \<longleftrightarrow> list_ex (\<lambda>c. nc_id c = cameraID) cameras"

section \<open>Snapshots\<close>

text \<open>An object store, on a state \<open>'w\<close> of its own; \<open>Delete\<close> is a method it may lack.\<close>

record 'w asset_store =
  as_save :: "string \<Rightarrow> asset_reader \<Rightarrow> string \<Rightarrow> 'w \<Rightarrow> asset_error option \<times> 'w"
  as_open :: "string \<Rightarrow> 'w \<Rightarrow> (asset_error + asset_reader \<times> string) \<times> 'w"
  as_delete :: "(string \<Rightarrow> 'w \<Rightarrow> asset_error option \<times> 'w) option"

definition nm_snapshotObjectKey :: "int \<Rightarrow> int \<Rightarrow> string" where
  "nm_snapshotObjectKey tenantID cameraID =
     ''nvr-camera-snapshots/'' @ itoa tenantID @ ''/'' @ itoa cameraID @ ''.jpg''"

definition of_asset_error :: "asset_error \<Rightarrow> nm_error" where
  "of_asset_error e = (case e of AssetNotFound \<Rightarrow> NmOther ''asset not found'' | AssetFailed t \<Rightarrow> NmOther t)"

definition snap_Open :: "'w asset_store \<Rightarrow> int \<Rightarrow> int \<Rightarrow> 'w \<Rightarrow> (nm_error + asset_reader \<times> string) \<times> 'w" where
  "snap_Open st tenantID cameraID w =
     (if tenantID \<le> 0 \<or> cameraID \<le> 0 then (Inl NmSnapshotNotFound, w)
      else case as_open st (nm_snapshotObjectKey tenantID cameraID) w of
          (Inl AssetNotFound, w1) \<Rightarrow> (Inl NmSnapshotNotFound, w1)
        | (Inl e, w1) \<Rightarrow> (Inl (of_asset_error e), w1)
        | (Inr opened, w1) \<Rightarrow> (Inr opened, w1))"

text \<open>A body that was read into memory.\<close>

definition bytes_reader :: "string \<Rightarrow> asset_reader" where
  "bytes_reader content = \<lparr>rd_content = content, rd_error = None, rd_close = None\<rparr>"

definition snap_Save :: "'w asset_store \<Rightarrow> int \<Rightarrow> int \<Rightarrow> string \<Rightarrow> 'w \<Rightarrow> nm_error option \<times> 'w" where
  "snap_Save st tenantID cameraID body w =
     (if tenantID \<le> 0 \<or> cameraID \<le> 0 then (Some NmSnapshotNotFound, w)
      else case as_save st (nm_snapshotObjectKey tenantID cameraID) (bytes_reader body) ''image/jpeg'' w of
          (e, w1) \<Rightarrow> (map_option of_asset_error e, w1))"

definition snap_Delete :: "'w asset_store \<Rightarrow> int \<Rightarrow> int \<Rightarrow> 'w \<Rightarrow> nm_error option \<times> 'w" where
  "snap_Delete st tenantID cameraID w =
     (if tenantID \<le> 0 \<or> cameraID \<le> 0 then (Some NmSnapshotNotFound, w)
      else case as_delete st of
          None \<Rightarrow> (Some (NmOther ''asset store does not support exact delete''), w)
        | Some del \<Rightarrow> (case del (nm_snapshotObjectKey tenantID cameraID) w of
              (e, w1) \<Rightarrow> (map_option of_asset_error e, w1)))"

definition maxSnapshotUploadBytes :: int where "maxSnapshotUploadBytes = 2097152"

record assetSnapshotRollback =
  rb_key :: string
  rb_body :: string
  rb_existed :: bool

definition snap_Rollback :: "'w asset_store \<Rightarrow> assetSnapshotRollback \<Rightarrow> 'w \<Rightarrow> nm_error option \<times> 'w" where
  "snap_Rollback st r w =
     (if rb_existed r then
        (case as_save st (rb_key r) (bytes_reader (rb_body r)) ''image/jpeg'' w of
           (e, w1) \<Rightarrow> (map_option of_asset_error e, w1))
      else case as_delete st of
          None \<Rightarrow> (Some (NmOther ''asset store does not support exact delete''), w)
        | Some del \<Rightarrow> (case del (rb_key r) w of (e, w1) \<Rightarrow> (map_option of_asset_error e, w1)))"

text \<open>The object that is to be replaced: its bytes, \<open>None\<close> without one.\<close>

definition old_snapshot :: "'w asset_store \<Rightarrow> string \<Rightarrow> 'w \<Rightarrow> (nm_error + string option) \<times> 'w" where
  "old_snapshot st key w =
     (case as_open st key w of
        (Inr (reader, _), w1) \<Rightarrow>
          let oldBody = limited (maxSnapshotUploadBytes + 1) (rd_content reader);
              read_err = (if int (length (rd_content reader)) > maxSnapshotUploadBytes then None else rd_error reader)
          in (case (case read_err of Some e \<Rightarrow> Some e | None \<Rightarrow> rd_close reader) of
                Some e \<Rightarrow> (Inl (NmOther e), w1)
              | None \<Rightarrow>
                  if int (length oldBody) > maxSnapshotUploadBytes
                  then (Inl (NmOther ''existing snapshot is too large''), w1)
                  else (Inr (Some oldBody), w1))
      | (Inl AssetNotFound, w1) \<Rightarrow>
          (case as_delete st of
             None \<Rightarrow> (Inl (NmOther ''asset store does not support exact delete''), w1)
           | Some _ \<Rightarrow> (Inr None, w1))
      | (Inl e, w1) \<Rightarrow> (Inl (of_asset_error e), w1))"

definition snap_SaveWithRollback ::
  "'w asset_store \<Rightarrow> int \<Rightarrow> int \<Rightarrow> string \<Rightarrow> 'w \<Rightarrow> (nm_error + assetSnapshotRollback) \<times> 'w" where
  "snap_SaveWithRollback st tenantID cameraID body w =
     (if tenantID \<le> 0 \<or> cameraID \<le> 0 then (Inl NmSnapshotNotFound, w)
      else
        let key = nm_snapshotObjectKey tenantID cameraID in
        case old_snapshot st key w of
          (Inl e, w1) \<Rightarrow> (Inl e, w1)
        | (Inr old, w1) \<Rightarrow>
            (case snap_Save st tenantID cameraID body w1 of
               (Some e, w2) \<Rightarrow> (Inl e, w2)
             | (None, w2) \<Rightarrow>
                 (Inr \<lparr>rb_key = key, rb_body = (case old of Some b \<Rightarrow> b | None \<Rightarrow> []), rb_existed = (old \<noteq> None)\<rparr>, w2)))"

section \<open>The service\<close>

record 'w nm_service =
  nms_repo :: "rv_repo option"
  nms_authorization :: "(int \<Rightarrow> StreamSessionRequest \<Rightarrow> nm_error + string) option"
  nms_snapshots :: "'w asset_store option"

definition of_rv_error :: "rv_error \<Rightarrow> nm_error" where
  "of_rv_error e = (case e of RvFailed t \<Rightarrow> NmOther t | RvNotFound \<Rightarrow> NmOther ''resource view record not found''
     | RvNotConfigured \<Rightarrow> NmOther ''not configured'')"

definition store_info :: "StoreRecords \<Rightarrow> nm_store" where
  "store_info record =
     \<lparr>ns_external_org_id = itoa (bt_id (rec_tenant record)), ns_store_name = trim_space (bt_name (rec_tenant record)),
      ns_city = cityLabel (bt_city_id (rec_tenant record)),
      ns_available_camera_count = int (length (camerasFromRecords record False))\<rparr>"

definition nm_ListStores :: "'w nm_service \<Rightarrow> nm_error + StoreCityGroup list" where
  "nm_ListStores s =
     (case nms_repo s of
        None \<Rightarrow> Inl NmNotConfigured
      | Some repo \<Rightarrow>
          case rp_nvr_list repo of
            Inl e \<Rightarrow> Inl (of_rv_error e)
          | Inr records \<Rightarrow>
              let stores = map store_info (filter (\<lambda>r. camerasFromRecords r False \<noteq> []) records)
              in Inr (map (\<lambda>city. \<lparr>cg_city = city,
                     cg_stores = sort_key (\<lambda>st. (ns_store_name st, ns_external_org_id st))
                       (filter (\<lambda>st. ns_city st = city) stores)\<rparr>)
                   (sort_strings (remdups (map ns_city stores)))))"

definition storeRecords :: "'w nm_service \<Rightarrow> string \<Rightarrow> nm_error + StoreRecords" where
  "storeRecords s externalOrgID =
     (case nms_repo s of
        None \<Rightarrow> Inl NmNotConfigured
      | Some repo \<Rightarrow>
          case parse_int (trim_space externalOrgID) of
            (tenantID, None) \<Rightarrow>
              if tenantID \<le> 0 then Inl NmStoreNotFound
              else (case rp_nvr_store repo tenantID of
                  Inl RvNotFound \<Rightarrow> Inl NmStoreNotFound
                | Inl e \<Rightarrow> Inl (of_rv_error e)
                | Inr records \<Rightarrow> Inr records)
          | _ \<Rightarrow> Inl NmStoreNotFound)"

definition nm_GetCameras :: "'w nm_service \<Rightarrow> string \<Rightarrow> nm_error + CameraListResponse" where
  "nm_GetCameras s externalOrgID =
     bind_sum (storeRecords s externalOrgID) (\<lambda>records. Inr
       \<lparr>cl_external_org_id = itoa (bt_id (rec_tenant records)), cl_tenant_id = bt_id (rec_tenant records),
        cl_store_name = trim_space (bt_name (rec_tenant records)), cl_city = cityLabel (bt_city_id (rec_tenant records)),
        cl_cameras = camerasFromRecords records (nms_snapshots s \<noteq> None)\<rparr>)"

text \<open>The camera of a request: the store it belongs to, if it can be watched there.\<close>

definition camera_tenant :: "'w nm_service \<Rightarrow> string \<Rightarrow> int \<Rightarrow> nm_error + int" where
  "camera_tenant s externalOrgID cameraID =
     bind_sum (storeRecords s externalOrgID) (\<lambda>records.
       if containsCamera (camerasFromRecords records False) cameraID then Inr (bt_id (rec_tenant records))
       else Inl NmCameraNotFound)"

definition nm_OpenSnapshot ::
  "'w nm_service \<Rightarrow> string \<Rightarrow> int \<Rightarrow> 'w \<Rightarrow> (nm_error + asset_reader \<times> string) \<times> 'w" where
  "nm_OpenSnapshot s externalOrgID cameraID w =
     (case camera_tenant s externalOrgID cameraID of
        Inl e \<Rightarrow> (Inl e, w)
      | Inr tenantID \<Rightarrow>
          (case nms_snapshots s of
             None \<Rightarrow> (Inl NmSnapshotNotFound, w)
           | Some st \<Rightarrow>
               (case snap_Open st tenantID cameraID w of
                  (Inl _, w1) \<Rightarrow> (Inl NmSnapshotNotFound, w1)
                | (Inr opened, w1) \<Rightarrow> (Inr opened, w1))))"

definition nm_HasSnapshot :: "'w nm_service \<Rightarrow> int \<Rightarrow> int \<Rightarrow> 'w \<Rightarrow> bool \<times> 'w" where
  "nm_HasSnapshot s tenantID cameraID w =
     (case nms_snapshots s of
        None \<Rightarrow> (False, w)
      | Some st \<Rightarrow>
          if tenantID \<le> 0 \<or> cameraID \<le> 0 then (False, w)
          else (case snap_Open st tenantID cameraID w of
              (Inl _, w1) \<Rightarrow> (False, w1)
            | (Inr (reader, _), w1) \<Rightarrow> (rd_close reader = None, w1)))"

definition nm_SaveSnapshot :: "'w nm_service \<Rightarrow> string \<Rightarrow> int \<Rightarrow> string \<Rightarrow> 'w \<Rightarrow> nm_error option \<times> 'w" where
  "nm_SaveSnapshot s externalOrgID cameraID body w =
     (case camera_tenant s externalOrgID cameraID of
        Inl e \<Rightarrow> (Some e, w)
      | Inr tenantID \<Rightarrow>
          (case nms_snapshots s of
             None \<Rightarrow> (Some NmNotConfigured, w)
           | Some st \<Rightarrow> snap_Save st tenantID cameraID body w))"

definition nm_SaveSnapshotWithRollback ::
  "'w nm_service \<Rightarrow> string \<Rightarrow> int \<Rightarrow> string \<Rightarrow> 'w \<Rightarrow> (nm_error + assetSnapshotRollback) \<times> 'w" where
  "nm_SaveSnapshotWithRollback s externalOrgID cameraID body w =
     (case camera_tenant s externalOrgID cameraID of
        Inl e \<Rightarrow> (Inl e, w)
      | Inr tenantID \<Rightarrow>
          (case nms_snapshots s of
             None \<Rightarrow> (Inl NmSnapshotTransactionUnavailable, w)
           | Some st \<Rightarrow> snap_SaveWithRollback st tenantID cameraID body w))"

section \<open>Stream sessions\<close>

definition validateStreamSessionRequest :: "StreamSessionRequest \<Rightarrow> nm_error option" where
  "validateStreamSessionRequest r =
     (if sq_mode r = ModeLive then
        (if sq_start_time r \<noteq> 0 \<or> sq_end_time r \<noteq> 0 then Some NmInvalidStreamMode else None)
      else if sq_mode r = ModePlayback then
        (if sq_start_time r \<le> 0 \<or> sq_end_time r \<le> sq_start_time r \<or>
            wrap64 (sq_end_time r - sq_start_time r) > hour div second
         then Some NmInvalidPlaybackWindow else None)
      else Some NmInvalidStreamMode)"

definition nm_CreateSession ::
  "'w nm_service \<Rightarrow> string \<Rightarrow> int \<Rightarrow> StreamSessionRequest \<Rightarrow> (nm_error + StreamSessionResponse) \<times> CameraAuditTarget" where
  "nm_CreateSession s externalOrgID cameraID request =
     (case validateStreamSessionRequest request of
        Some e \<Rightarrow> (Inl e, no_target)
      | None \<Rightarrow>
          case nm_GetCameras s externalOrgID of
            Inl e \<Rightarrow> (Inl e, no_target)
          | Inr response \<Rightarrow>
              case find (\<lambda>c. nc_id c = cameraID) (cl_cameras response) of
                None \<Rightarrow> (Inl NmCameraNotFound, no_target)
              | Some c \<Rightarrow>
                  let target = \<lparr>ct_external_org_id = cl_external_org_id response, ct_store_name = cl_store_name response,
                        ct_camera_id = nc_id c, ct_camera_name = nc_name c, ct_space_type = nc_space_type c,
                        ct_space_name = nc_space_name c\<rparr>
                  in case nms_authorization s of
                       None \<Rightarrow> (Inl NmNotConfigured, target)
                     | Some authorize \<Rightarrow>
                         case authorize cameraID request of
                           Inl e \<Rightarrow> (Inl e, target)
                         | Inr streamURL \<Rightarrow>
                             if trim_space streamURL = [] then (Inl NmAuthorizationFailed, target)
                             else (Inr \<lparr>sp_url = streamURL, sp_mode = sq_mode request\<rparr>, target))"

section \<open>The authorization client\<close>

text \<open>What the network does with a request: time out, fail, or answer with a status and a body.\<close>

datatype nm_answer = NmTimeout | NmNoAnswer | NmAnswer int string

definition defaultAuthorizationEndpoint :: string where
  "defaultAuthorizationEndpoint = ''https://sec.sy.soyoung.com/api/auth/camera''"

definition defaultWebSocketEndpoint :: string where
  "defaultWebSocketEndpoint = ''wss://prime-crm.soyoung.com/nvrapi/ws''"

record auth_payload =
  py_code :: int
  py_token :: string

definition dec_auth_payload :: "auth_payload decoder" where
  "dec_auth_payload = dec_struct
     [(''code'', on_field py_code py_code_update dec_int),
      (''data'', dec_struct [(''token'', on_field py_token py_token_update dec_string)])]"

text \<open>\<open>json.Decoder.Decode\<close>: the first value of the text; what follows it is not looked at.\<close>

definition decode_first :: "'a decoder \<Rightarrow> string \<Rightarrow> 'a \<Rightarrow> 'a option" where
  "decode_first dec s old =
     (case js_value (2 * length s + 2) 10000 s of
        None \<Rightarrow> None
      | Some (_, rest) \<Rightarrow> unmarshal dec (take (length s - length rest) s) old)"

definition nm_request_url :: "int \<Rightarrow> StreamSessionRequest \<Rightarrow> string" where
  "nm_request_url cameraID r =
     (let q1 = url_set ''stream_type'' ''2'' (url_set ''camera_id'' (itoa cameraID) []);
          q2 = (if sq_mode r = ModePlayback
                then url_set ''end_time'' (itoa (sq_end_time r)) (url_set ''start_time'' (itoa (sq_start_time r)) q1)
                else q1)
      in defaultAuthorizationEndpoint @ ''?'' @ url_encode q2)"

definition nm_CreateStreamURL ::
  "(string \<Rightarrow> string \<Rightarrow> nm_answer) \<Rightarrow> string \<Rightarrow> int \<Rightarrow> StreamSessionRequest \<Rightarrow> nm_error + string" where
  "nm_CreateStreamURL net authorization0 cameraID r =
     (let authorization = trim_space authorization0 in
      if authorization = [] then Inl NmNotConfigured
      else case net authorization (nm_request_url cameraID r) of
          NmTimeout \<Rightarrow> Inl NmAuthorizationTimeout
        | NmNoAnswer \<Rightarrow> Inl NmAuthorizationFailed
        | NmAnswer status payload \<Rightarrow>
            if status < 200 \<or> status \<ge> 300 then Inl NmAuthorizationFailed
            else case decode_first dec_auth_payload (limited 65536 payload) \<lparr>py_code = 0, py_token = []\<rparr> of
                None \<Rightarrow> Inl NmAuthorizationFailed
              | Some p \<Rightarrow>
                  if py_code p \<noteq> 0 \<or> trim_space (py_token p) = [] then Inl NmAuthorizationFailed
                  else Inr (defaultWebSocketEndpoint @ ''?'' @ url_encode (url_set ''token'' (py_token p) [])))"

end
