(* ===== verification/NM_Handler.thy ===== *)
theory NM_Handler
  imports NM_Service App_Audit
begin

text \<open>
  The HTTP handlers of the industrial PC monitor (\<open>internal/nvrmonitor/handler.go\<close>).  A request is given by the
  parts the handlers read; the authorizer is a parameter, and so is the object store with its state.  A handler
  returns the reply, the audit events it handed to the authorizer, in order, and the new state of the objects.
  Headers are left out: a picture is served as \<open>image/jpeg\<close>, private and not to be stored.
\<close>

section \<open>Requests and replies\<close>

record nm_request =
  nq_method :: string
  nq_path :: string
  nq_org :: string
  nq_camera :: string
  nq_content_type :: string
  nq_body :: asset_reader
  nq_remote_addr :: string
  nq_user_agent :: string
  nq_request_id :: string

record nm_authorizer =
  na_can_view :: "string \<Rightarrow> nm_error + bool"
  na_filter :: "StoreCityGroup list \<Rightarrow> nm_error + StoreCityGroup list"
  na_record :: "(AuditEvent \<Rightarrow> bool) option"
  na_backfill :: "(string \<Rightarrow> nm_error + bool) option"

datatype nm_body =
  NmBodyStores "StoreCityGroup list"
| NmBodyCameras CameraListResponse
| NmBodyStream StreamSessionResponse
| NmBodyPicture string
| NmBodyEmpty
| NmBodyError string string
| NmBodyNotFound

type_synonym nm_reply = "int \<times> nm_body"

definition nm_not_configured :: nm_reply where
  "nm_not_configured = (503, NmBodyError ''nvr_monitor_not_configured'' (utf8 [0x5DE5, 0x63A7, 0x673A, 0x76D1, 0x63A7, 0x6682, 0x672A, 0x914D, 0x7F6E]))"

definition nm_bad_camera :: nm_reply where
  "nm_bad_camera = (400, NmBodyError ''invalid_camera_id'' (utf8 [0x6444, 0x50CF, 0x5934, 0x53C2, 0x6570, 0x65E0, 0x6548]))"

definition nm_writeAuditError :: nm_reply where
  "nm_writeAuditError = (503, NmBodyError ''nvr_monitor_audit_failed'' (utf8 [0x76D1, 0x63A7, 0x5BA1, 0x8BA1, 0x5931, 0x8D25, 0xFF0C, 0x8BF7, 0x7A0D, 0x540E, 0x91CD, 0x8BD5]))"

definition nm_forbidden_reply :: nm_reply where
  "nm_forbidden_reply = (403, NmBodyError ''nvr_monitor_forbidden'' (utf8 [0x6682, 0x65E0, 0x8BE5, 0x95E8, 0x5E97, 0x76D1, 0x63A7, 0x8BBF, 0x95EE, 0x6743, 0x9650]))"

definition nm_store_not_found :: nm_reply where
  "nm_store_not_found = (404, NmBodyError ''nvr_monitor_store_not_found'' (utf8 [0x672A, 0x627E, 0x5230, 0x53EF, 0x7528, 0x95E8, 0x5E97]))"

definition nm_writeAuthorizationError :: "nm_error \<Rightarrow> nm_reply" where
  "nm_writeAuthorizationError e =
     (if e = NmUnauthorized then (401, NmBodyError ''nvr_monitor_unauthorized'' (utf8 [0x767B, 0x5F55, 0x72B6, 0x6001, 0x5DF2, 0x5931, 0x6548, 0xFF0C, 0x8BF7, 0x91CD, 0x65B0, 0x767B, 0x5F55]))
      else if e = NmForbidden then nm_forbidden_reply
      else (500, NmBodyError ''nvr_monitor_authorization_failed'' (utf8 [0x76D1, 0x63A7, 0x6743, 0x9650, 0x6821, 0x9A8C, 0x5931, 0x8D25])))"

definition nm_writeServiceError :: "nm_error \<Rightarrow> nm_reply" where
  "nm_writeServiceError e =
     (if e = NmStoreNotFound \<or> e = NmCameraNotFound
        then (404, NmBodyError ''nvr_monitor_camera_not_found'' (utf8 [0x672A, 0x627E, 0x5230, 0x53EF, 0x7528, 0x6444, 0x50CF, 0x5934]))
      else if e = NmInvalidStreamMode \<or> e = NmInvalidPlaybackWindow
        then (400, NmBodyError ''invalid_stream_session'' (utf8 [0x56DE, 0x653E, 0x65F6, 0x95F4, 0x8303, 0x56F4, 0x65E0, 0x6548]))
      else if e = NmNotConfigured then nm_not_configured
      else if e = NmSnapshotTransactionUnavailable
        then (503, NmBodyError ''nvr_snapshot_transaction_unavailable'' (utf8 [0x622A, 0x56FE, 0x5B58, 0x50A8, 0x6682, 0x4E0D, 0x652F, 0x6301, 0x53EF, 0x9760, 0x5237, 0x65B0, 0xFF0C, 0x8BF7, 0x7A0D, 0x540E, 0x91CD, 0x8BD5]))
      else if e = NmAuthorizationTimeout
        then (504, NmBodyError ''nvr_stream_authorization_timeout'' (utf8 [0x53D6, 0x6D41, 0x9274, 0x6743, 0x8D85, 0x65F6, 0xFF0C, 0x8BF7, 0x7A0D, 0x540E, 0x91CD, 0x8BD5]))
      else if e = NmAuthorizationFailed
        then (502, NmBodyError ''nvr_stream_authorization_failed'' (utf8 [0x53D6, 0x6D41, 0x9274, 0x6743, 0x5931, 0x8D25, 0xFF0C, 0x8BF7, 0x7A0D, 0x540E, 0x91CD, 0x8BD5]))
      else (500, NmBodyError ''nvr_monitor_failed'' (utf8 [0x5DE5, 0x63A7, 0x673A, 0x76D1, 0x63A7, 0x8BF7, 0x6C42, 0x5931, 0x8D25])))"

section \<open>Reading a request\<close>

definition nm_requestIPAddress :: "nm_request \<Rightarrow> string" where
  "nm_requestIPAddress r =
     (let remoteAddr = trim_space (nq_remote_addr r)
      in case split_host_port remoteAddr of Some host \<Rightarrow> host | None \<Rightarrow> remoteAddr)"

definition path_camera :: "nm_request \<Rightarrow> int option" where
  "path_camera r = (case parse_int (trim_space (nq_camera r)) of (n, None) \<Rightarrow> if n \<le> 0 then None else Some n | _ \<Rightarrow> None)"

text \<open>\<open>DisallowUnknownFields\<close>: a member that is no field of the struct is an error.\<close>

fun dec_struct_strict :: "(string \<times> 'a decoder) list \<Rightarrow> 'a decoder" where
  "dec_struct_strict fs (JObject ms) old =
     (if list_all (\<lambda>m. field_of fs (fst m) \<noteq> None) ms then dec_members fs ms old else None)"
| "dec_struct_strict fs v old = dec_struct fs v old"

definition session_fields :: "(string \<times> StreamSessionRequest decoder) list" where
  "session_fields =
     [(''mode'', on_field sq_mode sq_mode_update dec_string),
      (''start_time'', on_field sq_start_time sq_start_time_update dec_int),
      (''end_time'', on_field sq_end_time sq_end_time_update dec_int)]"

definition no_session :: StreamSessionRequest where
  "no_session = \<lparr>sq_mode = [], sq_start_time = 0, sq_end_time = 0\<rparr>"

datatype session_body = SessionTooLarge | SessionInvalid | SessionBody StreamSessionRequest

definition maxStreamSessionBodyBytes :: int where "maxStreamSessionBodyBytes = 4096"

text \<open>
  A body beyond the limit is never accepted: the reader that limits it gives an error instead of the end.  Whether
  the decoder met an error of the text before that is \<open>broken\<close>.
\<close>

definition decodeStreamSessionRequest :: "bool \<Rightarrow> asset_reader \<Rightarrow> session_body" where
  "decodeStreamSessionRequest broken body =
     (if int (length (rd_content body)) > maxStreamSessionBodyBytes then (if broken then SessionInvalid else SessionTooLarge)
      else if rd_error body \<noteq> None then SessionInvalid
      else case unmarshal (dec_struct_strict session_fields) (rd_content body) no_session of
          None \<Rightarrow> SessionInvalid
        | Some r \<Rightarrow> SessionBody r)"

definition streamDeniedAuditAction :: "asset_reader \<Rightarrow> string" where
  "streamDeniedAuditAction body =
     (if rd_error body = None \<or> int (length (rd_content body)) \<ge> 4096 then
        (case unmarshal (dec_struct session_fields) (limited 4096 (rd_content body)) no_session of
           Some r \<Rightarrow> if sq_mode r = ModePlayback then ''monitor.playback_view'' else ''monitor.live_view''
         | None \<Rightarrow> ''monitor.live_view'')
      else ''monitor.live_view'')"

definition auditActionForRequest :: "nm_request \<Rightarrow> string" where
  "auditActionForRequest r =
     (if has_suffix (nq_path r) ''/stream-session'' then streamDeniedAuditAction (nq_body r)
      else if has_suffix (nq_path r) ''/snapshot'' \<and> nq_method r = ''POST'' then ''snapshot.refresh''
      else if has_suffix (nq_path r) ''/snapshot'' then ''snapshot.download''
      else ''monitor.camera_list'')"

definition shouldAuditAccessDenial :: "nm_request \<Rightarrow> bool" where
  "shouldAuditAccessDenial r \<longleftrightarrow> \<not> (nq_method r = ''GET'' \<and> has_suffix (nq_path r) ''/snapshot'')"

section \<open>Audit events\<close>

definition trim_set :: "char set \<Rightarrow> string \<Rightarrow> string" where
  "trim_set cs s = rev (dropWhile (\<lambda>c. c \<in> cs) (rev (dropWhile (\<lambda>c. c \<in> cs) s)))"

definition cameraAuditSummary :: "CameraAuditTarget \<Rightarrow> string \<Rightarrow> int \<Rightarrow> string" where
  "cameraAuditSummary target externalOrgID0 cameraID0 =
     (let externalOrgID = trim_space externalOrgID0;
          storeName = (if trim_space (ct_store_name target) = [] then utf8 [0x673A, 0x6784, 0x49, 0x44, 0xFF1A] @ externalOrgID
            else if externalOrgID \<noteq> [] then trim_space (ct_store_name target) @ utf8 [0xFF08] @ externalOrgID @ utf8 [0xFF09]
            else trim_space (ct_store_name target));
          space0 = trim_set {CHR '' '', CHR ''/''}
            (join '' / '' [trim_space (ct_space_type target), trim_space (ct_space_name target)]);
          space = (if space0 = [] then utf8 [0x672A, 0x7ED1, 0x5B9A, 0x7A7A, 0x95F4] else space0);
          name = (if trim_space (ct_camera_name target) = [] then utf8 [0x672A, 0x547D, 0x540D] else trim_space (ct_camera_name target));
          cameraID = (if ct_camera_id target > 0 then ct_camera_id target else cameraID0)
      in join (utf8 [0xFF1B])
           [utf8 [0x95E8, 0x5E97, 0xFF1A] @ storeName, utf8 [0x6444, 0x50CF, 0x5934, 0x533A, 0x57DF, 0xFF1A] @ space,
            utf8 [0x6444, 0x50CF, 0x5934, 0xFF1A] @ name @ utf8 [0xFF08, 0x49, 0x44, 0xFF1A] @ itoa cameraID @ utf8 [0xFF09]])"

definition CameraAuditSummary :: "CameraAuditTarget \<Rightarrow> string" where
  "CameraAuditSummary target = cameraAuditSummary target (ct_external_org_id target) (ct_camera_id target)"

definition plain_event :: "nm_request \<Rightarrow> string \<Rightarrow> string \<Rightarrow> string \<Rightarrow> AuditEvent" where
  "plain_event r action result externalOrgID =
     \<lparr>ev_id = 0, ev_user_id = None, ev_actor_display_name = [], ev_user_email = [], ev_action = action,
      ev_entity_type = [], ev_entity_id = None, ev_store_id = None,
      ev_external_org_id = trim_space externalOrgID, ev_channel_id = None, ev_asset_logical_key = [],
      ev_ip_address = nm_requestIPAddress r, ev_user_agent = trim_space (nq_user_agent r),
      ev_request_id = trim_space (nq_request_id r), ev_result = result, ev_detail_json = [], ev_created_at = 0\<rparr>"

definition newCameraAuditEvent ::
  "nm_request \<Rightarrow> string \<Rightarrow> string \<Rightarrow> string \<Rightarrow> int \<Rightarrow> CameraAuditTarget \<Rightarrow> AuditEvent" where
  "newCameraAuditEvent r action result externalOrgID cameraID target =
     (let summary = cameraAuditSummary target externalOrgID cameraID;
          event = (plain_event r action result externalOrgID)\<lparr>ev_entity_type := ''camera'', ev_entity_id := Some cameraID\<rparr>
      in if summary = [] then event
         else event\<lparr>ev_detail_json :=
           (case json_marshal_map [(''summary'', JStr summary)] of Some text \<Rightarrow> text | None \<Rightarrow> [])\<rparr>)"

definition newDeniedAuditEvent :: "nm_request \<Rightarrow> string \<Rightarrow> string \<Rightarrow> AuditEvent" where
  "newDeniedAuditEvent r action externalOrgID =
     (case path_camera r of
        None \<Rightarrow> plain_event r action ''denied'' externalOrgID
      | Some cameraID \<Rightarrow> (plain_event r action ''denied'' externalOrgID)
          \<lparr>ev_entity_type := ''camera'', ev_entity_id := Some cameraID\<rparr>)"

text \<open>Whether the event was stored (\<open>True\<close> without an authorizer), and what was handed on.\<close>

definition nm_recordAudit :: "nm_authorizer option \<Rightarrow> AuditEvent \<Rightarrow> bool \<times> AuditEvent list" where
  "nm_recordAudit auth event =
     (case auth of
        None \<Rightarrow> (True, [])
      | Some a \<Rightarrow> (case na_record a of None \<Rightarrow> (False, []) | Some store \<Rightarrow> (store event, [event])))"

section \<open>Access\<close>

definition nm_ensureCanViewStore :: "nm_authorizer option \<Rightarrow> nm_request \<Rightarrow> string \<Rightarrow> nm_reply option \<times> AuditEvent list" where
  "nm_ensureCanViewStore auth r externalOrgID =
     (if externalOrgID = [] then (Some nm_store_not_found, [])
      else case auth of
          None \<Rightarrow> (None, [])
        | Some a \<Rightarrow>
            let denied = snd (nm_recordAudit auth (newDeniedAuditEvent r (auditActionForRequest r) externalOrgID)) in
            (case na_can_view a externalOrgID of
               Inl e \<Rightarrow>
                 (Some (nm_writeAuthorizationError e),
                  if shouldAuditAccessDenial r \<and> (e = NmForbidden \<or> e = NmUnauthorized) then denied else [])
             | Inr ok \<Rightarrow>
                 if \<not> ok then (Some nm_forbidden_reply, if shouldAuditAccessDenial r then denied else [])
                 else (None, [])))"

definition nm_ensureCanBackfillSnapshot ::
  "nm_authorizer option \<Rightarrow> nm_request \<Rightarrow> string \<Rightarrow> nm_reply option \<times> AuditEvent list" where
  "nm_ensureCanBackfillSnapshot auth r externalOrgID =
     (if externalOrgID = [] then (Some nm_store_not_found, [])
      else case auth of
          None \<Rightarrow> (None, [])
        | Some a \<Rightarrow>
            (case na_backfill a of
               None \<Rightarrow> (Some (404, NmBodyError ''nvr_snapshot_backfill_unavailable'' (utf8 [0x622A, 0x56FE, 0x56DE, 0x586B, 0x6682, 0x4E0D, 0x53EF, 0x7528])), [])
             | Some can_backfill \<Rightarrow>
                 let denied = snd (nm_recordAudit auth (newDeniedAuditEvent r ''snapshot.refresh'' externalOrgID)) in
                 (case can_backfill externalOrgID of
                    Inl e \<Rightarrow>
                      (Some (nm_writeAuthorizationError e), if e = NmForbidden \<or> e = NmUnauthorized then denied else [])
                  | Inr allowed \<Rightarrow>
                      if \<not> allowed
                      then (Some (403, NmBodyError ''nvr_snapshot_backfill_forbidden'' (utf8 [0x6682, 0x65E0, 0x622A, 0x56FE, 0x56DE, 0x586B, 0x6743, 0x9650])), denied)
                      else (None, []))))"

section \<open>Handlers\<close>

definition nm_listStores :: "nm_authorizer option \<Rightarrow> 'w nm_service option \<Rightarrow> nm_reply" where
  "nm_listStores auth service =
     (case service of
        None \<Rightarrow> nm_not_configured
      | Some s \<Rightarrow>
          (case nm_ListStores s of
             Inl e \<Rightarrow> nm_writeServiceError e
           | Inr groups \<Rightarrow>
               (case (case auth of None \<Rightarrow> Inr groups | Some a \<Rightarrow> na_filter a groups) of
                  Inl e \<Rightarrow> nm_writeAuthorizationError e
                | Inr groups' \<Rightarrow> (200, NmBodyStores groups'))))"

definition nm_listCameras ::
  "nm_authorizer option \<Rightarrow> 'w nm_service option \<Rightarrow> nm_request \<Rightarrow> nm_reply \<times> AuditEvent list" where
  "nm_listCameras auth service r =
     (let externalOrgID = trim_space (nq_org r) in
      case nm_ensureCanViewStore auth r externalOrgID of
        (Some reply, events) \<Rightarrow> (reply, events)
      | (None, events) \<Rightarrow>
          (case service of
             None \<Rightarrow> (nm_not_configured, events)
           | Some s \<Rightarrow>
               (case nm_GetCameras s externalOrgID of
                  Inl e \<Rightarrow> (nm_writeServiceError e, events)
                | Inr response \<Rightarrow> ((200, NmBodyCameras response), events))))"

definition nm_createSession ::
  "nm_authorizer option \<Rightarrow> 'w nm_service option \<Rightarrow> bool \<Rightarrow> nm_request \<Rightarrow> nm_reply \<times> AuditEvent list" where
  "nm_createSession auth service broken r =
     (let externalOrgID = trim_space (nq_org r) in
      case nm_ensureCanViewStore auth r externalOrgID of
        (Some reply, events) \<Rightarrow> (reply, events)
      | (None, events) \<Rightarrow>
          case service of
            None \<Rightarrow> (nm_not_configured, events)
          | Some s \<Rightarrow>
              case path_camera r of
                None \<Rightarrow> (nm_bad_camera, events)
              | Some cameraID \<Rightarrow>
                  case decodeStreamSessionRequest broken (nq_body r) of
                    SessionTooLarge \<Rightarrow> ((413, NmBodyError ''stream_session_too_large'' (utf8 [0x53D6, 0x6D41, 0x53C2, 0x6570, 0x8FC7, 0x5927])), events)
                  | SessionInvalid \<Rightarrow> ((400, NmBodyError ''invalid_stream_session'' (utf8 [0x53D6, 0x6D41, 0x53C2, 0x6570, 0x65E0, 0x6548])), events)
                  | SessionBody request \<Rightarrow>
                      let action = (if sq_mode request = ModePlayback then ''monitor.playback_view'' else ''monitor.live_view'');
                          record_it = (\<lambda>result target. nm_recordAudit auth
                            (newCameraAuditEvent r action result externalOrgID cameraID target))
                      in case nm_CreateSession s externalOrgID cameraID request of
                           (Inl e, target) \<Rightarrow> (nm_writeServiceError e, events @ snd (record_it ''failed'' target))
                         | (Inr response, target) \<Rightarrow>
                             case record_it ''success'' target of
                               (False, stored) \<Rightarrow> (nm_writeAuditError, events @ stored)
                             | (True, stored) \<Rightarrow> ((200, NmBodyStream response), events @ stored))"

definition is_jpeg_type :: "string \<Rightarrow> bool" where
  "is_jpeg_type contentType \<longleftrightarrow>
     (case ParseMediaType contentType of
        None \<Rightarrow> False
      | Some mediaType \<Rightarrow> fold_name mediaType = fold_name ''image/jpeg'')"

definition nm_getSnapshot ::
  "nm_authorizer option \<Rightarrow> 'w nm_service option \<Rightarrow> nm_request \<Rightarrow> 'w \<Rightarrow> nm_reply \<times> AuditEvent list \<times> 'w" where
  "nm_getSnapshot auth service r w =
     (let externalOrgID = trim_space (nq_org r) in
      case nm_ensureCanViewStore auth r externalOrgID of
        (Some reply, events) \<Rightarrow> (reply, events, w)
      | (None, events) \<Rightarrow>
          case service of
            None \<Rightarrow> ((404, NmBodyNotFound), events, w)
          | Some s \<Rightarrow>
              case path_camera r of
                None \<Rightarrow> ((404, NmBodyNotFound), events, w)
              | Some cameraID \<Rightarrow>
                  case nm_OpenSnapshot s externalOrgID cameraID w of
                    (Inl _, w1) \<Rightarrow> ((404, NmBodyNotFound), events, w1)
                  | (Inr (reader, contentType), w1) \<Rightarrow>
                      if int (length (rd_content reader)) > maxSnapshotUploadBytes \<or> rd_error reader \<noteq> None \<or>
                         \<not> is_jpeg_type contentType
                      then ((404, NmBodyNotFound), events, w1)
                      else ((200, NmBodyPicture (rd_content reader)), events, w1))"

text \<open>\<open>http.DetectContentType\<close> tells a JPEG by its first three bytes, and by nothing else.\<close>

definition looks_like_jpeg :: "string \<Rightarrow> bool" where
  "looks_like_jpeg body \<longleftrightarrow> has_prefix body [CHR 0xFF, CHR 0xD8, CHR 0xFF]"

text \<open>What is wrong with an upload.\<close>

definition bad_upload :: "nm_request \<Rightarrow> nm_reply option" where
  "bad_upload r =
     (if \<not> is_jpeg_type (nq_content_type r)
        then Some (415, NmBodyError ''invalid_snapshot_content_type'' (utf8 [0x622A, 0x56FE, 0x683C, 0x5F0F, 0x65E0, 0x6548]))
      else if int (length (rd_content (nq_body r))) > maxSnapshotUploadBytes
        then Some (413, NmBodyError ''snapshot_too_large'' (utf8 [0x622A, 0x56FE, 0x6587, 0x4EF6, 0x8FC7, 0x5927]))
      else if rd_error (nq_body r) \<noteq> None \<or> rd_content (nq_body r) = [] \<or> \<not> looks_like_jpeg (rd_content (nq_body r))
        then Some (400, NmBodyError ''invalid_snapshot'' (utf8 [0x622A, 0x56FE, 0x5185, 0x5BB9, 0x65E0, 0x6548]))
      else None)"

definition nm_rollback_failed :: nm_reply where
  "nm_rollback_failed =
     (503, NmBodyError ''nvr_snapshot_rollback_failed'' (utf8 [0x622A, 0x56FE, 0x5237, 0x65B0, 0x5BA1, 0x8BA1, 0x5931, 0x8D25, 0x4E14, 0x56DE, 0x6EDA, 0x5931, 0x8D25, 0xFF0C, 0x8BF7, 0x7ACB, 0x5373, 0x68C0, 0x67E5, 0x622A, 0x56FE, 0x72B6, 0x6001]))"

definition snapshotRefreshPrepareAction :: string where
  "snapshotRefreshPrepareAction = ''snapshot.refresh.prepare''"

text \<open>
  The part of \<open>saveSnapshot\<close> that runs with an authorizer: the prepare event, the write, the event of the
  outcome, and the way back when that cannot be stored.
\<close>

definition audited_save ::
  "nm_authorizer \<Rightarrow> 'w nm_service \<Rightarrow> nm_request \<Rightarrow> string \<Rightarrow> int \<Rightarrow> 'w \<Rightarrow> nm_reply \<times> AuditEvent list \<times> 'w" where
  "audited_save a s r externalOrgID cameraID w =
     (let record_it = (\<lambda>action result.
            nm_recordAudit (Some a) (newCameraAuditEvent r action result externalOrgID cameraID no_target))
      in case record_it snapshotRefreshPrepareAction ''success'' of
           (False, prepared) \<Rightarrow> (nm_writeAuditError, prepared, w)
         | (True, prepared) \<Rightarrow>
             case nm_SaveSnapshotWithRollback s externalOrgID cameraID (rd_content (nq_body r)) w of
               (Inl e, w1) \<Rightarrow> (nm_writeServiceError e, prepared @ snd (record_it ''snapshot.refresh'' ''failed''), w1)
             | (Inr rollback, w1) \<Rightarrow>
                 case record_it ''snapshot.refresh'' ''success'' of
                   (True, done1) \<Rightarrow> ((204, NmBodyEmpty), prepared @ done1, w1)
                 | (False, done1) \<Rightarrow>
                     case nms_snapshots s of
                       None \<Rightarrow> (nm_rollback_failed, prepared @ done1, w1)
                     | Some st \<Rightarrow>
                         case snap_Rollback st rollback w1 of
                           (Some _, w2) \<Rightarrow> (nm_rollback_failed, prepared @ done1, w2)
                         | (None, w2) \<Rightarrow> (nm_writeAuditError, prepared @ done1, w2))"

definition nm_saveSnapshot ::
  "nm_authorizer option \<Rightarrow> 'w nm_service option \<Rightarrow> nm_request \<Rightarrow> 'w \<Rightarrow> nm_reply \<times> AuditEvent list \<times> 'w" where
  "nm_saveSnapshot auth service r w =
     (let externalOrgID = trim_space (nq_org r) in
      case nm_ensureCanBackfillSnapshot auth r externalOrgID of
        (Some reply, events) \<Rightarrow> (reply, events, w)
      | (None, events) \<Rightarrow>
          case service of
            None \<Rightarrow> (nm_not_configured, events, w)
          | Some s \<Rightarrow>
              case path_camera r of
                None \<Rightarrow> (nm_bad_camera, events, w)
              | Some cameraID \<Rightarrow>
                  case bad_upload r of
                    Some reply \<Rightarrow> (reply, events, w)
                  | None \<Rightarrow>
                      case auth of
                        None \<Rightarrow>
                          (case nm_SaveSnapshot s externalOrgID cameraID (rd_content (nq_body r)) w of
                             (Some e, w1) \<Rightarrow> (nm_writeServiceError e, events, w1)
                           | (None, w1) \<Rightarrow> ((204, NmBodyEmpty), events, w1))
                      | Some a \<Rightarrow>
                          (case audited_save a s r externalOrgID cameraID w of
                             (reply, later, w1) \<Rightarrow> (reply, events @ later, w1)))"

end
