(* ===== verification/AS_Props.thy ===== *)
theory AS_Props
  imports AS_Store
begin

text \<open>
  What the local store of assets guarantees: no key leads out of its directory, and on a disk without
  faults saving, opening and deleting mean what they say.
\<close>

section \<open>Paths\<close>

definition proper_part :: "string \<Rightarrow> bool" where
  "proper_part part \<longleftrightarrow> part \<noteq> [] \<and> part \<noteq> ''.'' \<and> part \<noteq> ''..''"

lemma cleanKey_parts:
  assumes "cleanKey key = Inr clean"
  shows "list_all proper_part (split_on (CHR ''/'') clean)" "\<not> has_prefix clean ''/''"
proof -
  have c: "\<not> list_ex (\<lambda>part. part = [] \<or> part = ''.'' \<or> part = ''..'') (split_on (CHR ''/'') clean)"
    "\<not> has_prefix clean ''/''"
    using assms by (auto simp: cleanKey_def Let_def split: if_splits)
  then show "list_all proper_part (split_on (CHR ''/'') clean)"
    by (auto simp: list_all_iff list_ex_iff proper_part_def)
  show "\<not> has_prefix clean ''/''" by (rule c(2))
qed

lemma localDiskKey_parts:
  assumes "list_all proper_part (split_on (CHR ''/'') clean)"
  shows "list_all proper_part (split_on (CHR ''/'') (localDiskKey clean))"
proof (cases "has_prefix clean ''uploads/''")
  case True
  then obtain rest where "clean = ''uploads'' @ [CHR ''/''] @ rest" by (auto simp: has_prefix_iff)
  then show ?thesis using assms True split_on_append [of "CHR ''/''" "''uploads''" rest] by (simp add: localDiskKey_def)
qed (use assms in \<open>simp add: localDiskKey_def\<close>)

text \<open>
  C27. A key, whatever it is, is refused or names a file below the root of the store: its path goes down
  through parts that are not empty and neither the directory itself nor its parent.
\<close>

theorem keys_stay_inside:
  "case pathForKey s key of
     Inl _ \<Rightarrow> True
   | Inr path \<Rightarrow> \<exists>below. path = ls_root s @ ''/'' @ below \<and> list_all proper_part (split_on (CHR ''/'') below)"
proof (cases "pathForKey s key")
  case (Inr path)
  then obtain clean where clean: "cleanKey key = Inr clean"
    and path: "path = disk_path (ls_root s) (localDiskKey clean)" "has_prefix path (ls_root s @ ''/'')"
    by (auto simp: pathForKey_def Let_def split: sum.splits if_splits)
  note parts = localDiskKey_parts [OF cleanKey_parts(1) [OF clean]]
  show ?thesis
  proof (cases "ls_root s = ''/''")
    case True
    then obtain rest where "localDiskKey clean = CHR ''/'' # rest"
      using path by (auto simp: has_prefix_iff disk_path_def)
    then show ?thesis using parts by (simp add: proper_part_def)
  next
    case False
    then show ?thesis using Inr path(1) parts by (auto simp: disk_path_def)
  qed
qed simp

section \<open>A disk without faults\<close>

definition sound :: "disk \<Rightarrow> bool" where "sound d \<longleftrightarrow> dk_faults d = []"

lemma no_fault: "sound d \<Longrightarrow> os_fault d = (None, d)"
  by (simp add: sound_def os_fault_def)

lemma no_call_fault: "sound d \<Longrightarrow> os_call d = (None, d)"
  by (simp add: os_call_def no_fault)

lemma sound_put [simp]: "sound (put_file p c d) \<longleftrightarrow> sound d"
  by (simp add: sound_def put_file_def)

lemma sound_drop [simp]: "sound (drop_file p d) \<longleftrightarrow> sound d"
  by (simp add: sound_def drop_file_def)

lemma map_of_put [simp]: "map_of (dk_files (put_file p c d)) = (map_of (dk_files d))(p \<mapsto> c)"
  by (simp add: put_file_def update_conv')

lemma map_of_drop [simp]: "map_of (dk_files (drop_file p d)) = (map_of (dk_files d))(p := None)"
  by (simp add: drop_file_def delete_conv')

lemma sound_create: "sound d \<Longrightarrow> os_create p d = (None, put_file p [] d)"
  by (simp add: os_create_def no_fault)

lemma sound_write: "sound d \<Longrightarrow> os_write p c d = (None, put_file p c d)"
  by (simp add: os_write_def no_fault)

lemma sound_write_file: "sound d \<Longrightarrow> os_write_file p c d = (None, put_file p c (put_file p [] d))"
  by (simp add: os_write_file_def sound_create sound_write no_call_fault)

lemma sound_read:
  "sound d \<Longrightarrow> os_read p d = ((case map_of (dk_files d) p of None \<Rightarrow> Inl OsNotExist | Some c \<Rightarrow> Inr c), d)"
  by (simp add: os_read_def no_fault split: option.split)

lemma sound_remove:
  "sound d \<Longrightarrow> os_remove p d =
     (if map_of (dk_files d) p = None then (Some OsNotExist, d) else (None, drop_file p d))"
  by (simp add: os_remove_def no_fault)

lemma sound_rename:
  "sound d \<Longrightarrow> map_of (dk_files d) p = Some c \<Longrightarrow> os_rename p q d = (None, put_file q c (drop_file p d))"
  by (simp add: os_rename_def no_fault)

lemmas sound_ops = no_fault no_call_fault sound_create sound_write sound_write_file sound_read sound_remove

definition saved_files :: "string \<Rightarrow> string \<Rightarrow> string \<Rightarrow> (string \<Rightarrow> string option) \<Rightarrow> string \<Rightarrow> string option" where
  "saved_files path c contentType files =
     (files(path @ ''.tmp'' := None))(path \<mapsto> c, path @ ''.content-type'' \<mapsto> contentTypeOrDefault contentType)"

lemma local_Save_sound:
  assumes "sound d" "pathForKey s key = Inr path"
  shows "\<exists>d'. local_Save s None key \<lparr>rd_content = c, rd_error = None, rd_close = None\<rparr> contentType d = (None, d') \<and>
    sound d' \<and> map_of (dk_files d') = saved_files path c contentType (map_of (dk_files d))"
proof -
  let ?tmp = "path @ ''.tmp''"
  let ?d2 = "put_file ?tmp c (put_file ?tmp [] d)"
  let ?d3 = "put_file path c (drop_file ?tmp ?d2)"
  let ?ct = "path @ ''.content-type''"
  let ?d4 = "put_file ?ct (contentTypeOrDefault contentType) (put_file ?ct [] ?d3)"
  have "os_rename ?tmp path ?d2 = (None, ?d3)" by (rule sound_rename) (use assms(1) in simp_all)
  then have "local_Save s None key \<lparr>rd_content = c, rd_error = None, rd_close = None\<rparr> contentType d = (None, ?d4)"
    using assms by (simp add: local_Save_def sound_ops Let_def)
  moreover have "map_of (dk_files ?d4) = saved_files path c contentType (map_of (dk_files d))"
    by (auto simp: saved_files_def fun_eq_iff)
  ultimately show ?thesis using assms(1) by auto
qed

lemma local_Open_sound:
  assumes "sound d" "pathForKey s key = Inr path"
  shows "local_Open s None key d =
    ((case map_of (dk_files d) path of
        None \<Rightarrow> Inl AssetNotFound
      | Some c \<Rightarrow> Inr (\<lparr>rd_content = c, rd_error = None, rd_close = None\<rparr>,
          localContentType s path (case map_of (dk_files d) (path @ ''.content-type'') of Some t \<Rightarrow> t | None \<Rightarrow> []))), d)"
  using assms by (auto simp: local_Open_def sound_ops Let_def split: option.split)

lemma local_Delete_sound:
  assumes "sound d" "pathForKey s key = Inr path" "map_of (dk_files d) path \<noteq> None"
  shows "\<exists>d'. local_Delete s None key d = (None, d') \<and> sound d' \<and>
    map_of (dk_files d') = (map_of (dk_files d))(path := None, path @ ''.content-type'' := None)"
  using assms
  by (auto simp: local_Delete_def sound_ops fun_eq_iff fun_upd_def intro!: exI split: if_splits)

section \<open>A disk with faults\<close>

text \<open>What a call leaves of the files, whichever faults it meets.\<close>

lemma any_fault: "os_fault d = (f, d') \<Longrightarrow> dk_files d' = dk_files d"
  by (auto simp: os_fault_def split: list.splits)

lemma any_call: "os_call d = (e, d') \<Longrightarrow> dk_files d' = dk_files d"
  by (auto simp: os_call_def any_fault split: prod.splits)

lemma any_call_files [simp]: "dk_files (snd (os_call d)) = dk_files d"
  using any_call by (metis prod.collapse)

lemma any_create:
  "os_create p d = (e, d') \<Longrightarrow>
     map_of (dk_files d') = (if e = None then (map_of (dk_files d))(p \<mapsto> []) else map_of (dk_files d))"
  by (auto simp: os_create_def any_fault split: prod.splits option.splits)

lemma any_write:
  "os_write p c d = (e, d') \<Longrightarrow>
     \<exists>c'. map_of (dk_files d') = (map_of (dk_files d))(p \<mapsto> c') \<and> (e = None \<longrightarrow> c' = c)"
  by (auto simp: os_write_def any_fault split: prod.splits option.splits)

lemma any_write_file:
  "os_write_file p c d = (e, d') \<Longrightarrow>
     \<exists>x. map_of (dk_files d') = (map_of (dk_files d))(p := x) \<and> (e = None \<longrightarrow> x = Some c)"
proof -
  assume w: "os_write_file p c d = (e, d')"
  obtain e1 d1 where c1: "os_create p d = (e1, d1)" by fastforce
  obtain e2 d2 where c2: "os_write p c d1 = (e2, d2)" by fastforce
  show ?thesis
  proof (cases e1)
    case None
    obtain c' where c': "map_of (dk_files d2) = (map_of (dk_files d1))(p \<mapsto> c')" "e2 = None \<longrightarrow> c' = c"
      using any_write [OF c2] by blast
    have "dk_files d' = dk_files d2" "e2 \<noteq> None \<longrightarrow> e \<noteq> None"
      using w c1 c2 None by (auto simp: os_write_file_def dest: any_call split: option.splits)
    then show ?thesis using c' any_create [OF c1] None by (intro exI [of _ "Some c'"]) auto
  next
    case (Some f)
    then show ?thesis using w c1 any_create [OF c1]
      by (intro exI [of _ "map_of (dk_files d) p"]) (auto simp: os_write_file_def)
  qed
qed

lemma any_remove:
  "os_remove p d = (e, d') \<Longrightarrow>
     map_of (dk_files d') = (if e = None then (map_of (dk_files d))(p := None) else map_of (dk_files d)) \<and>
     (e = Some OsNotExist \<longrightarrow> map_of (dk_files d) p = None)"
  by (auto simp: os_remove_def any_fault split: prod.splits option.splits if_splits)

lemma any_rename:
  "os_rename p q d = (e, d') \<Longrightarrow>
     if e = None then \<exists>c. map_of (dk_files d) p = Some c \<and> map_of (dk_files d') = (map_of (dk_files d))(p := None, q \<mapsto> c)
     else map_of (dk_files d') = map_of (dk_files d)"
  by (auto simp: os_rename_def any_fault split: prod.splits option.splits)

lemma any_read:
  "os_read p d = (x, d') \<Longrightarrow> dk_files d' = dk_files d \<and>
     (\<forall>c. x = Inr c \<longrightarrow> map_of (dk_files d) p = Some c) \<and> (x = Inl OsNotExist \<longrightarrow> map_of (dk_files d) p = None)"
  by (auto simp: os_read_def any_fault split: prod.splits option.splits)

text \<open>
  A save touches three files.  The object is the old one or the new one, never a part of it; the file with the
  type may be torn when an error is returned.
\<close>

lemma local_Save_any:
  assumes path: "pathForKey s key = Inr path"
    and save: "local_Save s None key \<lparr>rd_content = c, rd_error = None, rd_close = None\<rparr> contentType d = (e, d')"
  shows "\<exists>new tmp type. map_of (dk_files d') =
      (map_of (dk_files d))(path := new, path @ ''.tmp'' := tmp, path @ ''.content-type'' := type) \<and>
    (new = map_of (dk_files d) path \<or> new = Some c) \<and> e \<noteq> Some AssetNotFound \<and>
    (e = None \<longrightarrow> new = Some c \<and> type = Some (contentTypeOrDefault contentType))"
proof -
  let ?F = "\<lambda>d. map_of (dk_files d)"
  let ?tmp = "path @ ''.tmp''" and ?ct = "path @ ''.content-type''"
  have quit: ?thesis if "?F d' = (?F d)(?tmp := x)" "e \<noteq> None" "e \<noteq> Some AssetNotFound" for x
    using that by (intro exI [of _ "?F d path"] exI [of _ x] exI [of _ "?F d ?ct"]) (auto simp: fun_eq_iff)
  obtain e1 d1 where 1: "os_call d = (e1, d1)" by fastforce
  obtain e2 d2 where 2: "os_create ?tmp d1 = (e2, d2)" by fastforce
  obtain e3 d3 where 3: "os_write ?tmp c d2 = (e3, d3)" by fastforce
  obtain e4 d4 where 4: "os_call d3 = (e4, d4)" by fastforce
  obtain e5 d5 where 5: "os_rename ?tmp path d4 = (e5, d5)" by fastforce
  obtain e6 d6 where 6: "os_write_file ?ct (contentTypeOrDefault contentType) d5 = (e6, d6)" by fastforce
  have drop: "\<exists>x. ?F (snd (os_remove ?tmp a)) = (?F a)(?tmp := x)" for a
    using any_remove [of ?tmp a] by (cases "os_remove ?tmp a") (auto simp: fun_eq_iff split: if_splits)
  note run = save [unfolded local_Save_def, simplified, unfolded path, simplified, unfolded 1, simplified]
  show ?thesis
  proof (cases "e1 = None \<and> e2 = None")
    case False
    then show ?thesis
      using run 1 2 any_call [OF 1] any_create [OF 2] quit [of "?F d ?tmp"]
      by (auto simp: Let_def split: option.splits if_splits)
  next
    case True
    obtain c' where c': "?F d3 = (?F d2)(?tmp \<mapsto> c')" "e3 = None \<longrightarrow> c' = c" using any_write [OF 3] by blast
    have F4: "?F d4 = (?F d)(?tmp \<mapsto> c')"
      using any_call [OF 1] any_create [OF 2] any_call [OF 4] c'(1) True by simp
    show ?thesis
    proof (cases "e3 = None \<and> e4 = None")
      case False
      then have "d' = snd (os_remove ?tmp d4)" "e \<noteq> None" "e \<noteq> Some AssetNotFound"
        using run True 2 3 4 by (auto simp: Let_def split: option.splits)
      then show ?thesis using drop [of d4] F4 quit by force
    next
      case good: True
      show ?thesis
      proof (cases e5)
        case (Some f)
        then have "d' = snd (os_remove ?tmp d5)" "e \<noteq> None" "e \<noteq> Some AssetNotFound"
          using run True good 2 3 4 5 by (auto simp: Let_def split: option.splits)
        then show ?thesis using drop [of d5] any_rename [OF 5] Some F4 quit by force
      next
        case None
        then have r: "d' = d6" "e = map_option AssetFailed e6"
          using run True good 2 3 4 5 6 by (auto simp: Let_def split: option.splits)
        obtain x where x: "?F d6 = (?F d5)(?ct := x)" "e6 = None \<longrightarrow> x = Some (contentTypeOrDefault contentType)"
          using any_write_file [OF 6] by blast
        have "?F d5 = (?F d4)(?tmp := None, path \<mapsto> c)"
          using any_rename [OF 5] None F4 c'(2) good by auto
        then have "?F d6 = (?F d)(path := Some c, ?tmp := None, ?ct := x)"
          using x(1) F4 by (auto simp: fun_eq_iff)
        then show ?thesis using r x(2) by (intro exI conjI) auto
      qed
    qed
  qed
qed

lemma local_Open_any:
  assumes "pathForKey s key = Inr path" "local_Open s None key d = (x, d')"
  shows "dk_files d' = dk_files d"
    and "x = Inr (reader, t) \<Longrightarrow> \<exists>c. map_of (dk_files d) path = Some c \<and> (rd_error reader = None \<longrightarrow> rd_content reader = c)"
    and "x = Inl AssetNotFound \<Longrightarrow> map_of (dk_files d) path = None"
  using assms
  by (auto simp: local_Open_def Let_def dest!: any_fault any_call any_read split: prod.splits sum.splits os_error.splits option.splits)

lemma local_Delete_any:
  assumes "pathForKey s key = Inr path" "local_Delete s None key d = (e, d')"
  shows "\<exists>x type. map_of (dk_files d') = (map_of (dk_files d))(path := x, path @ ''.content-type'' := type) \<and>
    (if e = None then x = None else map_of (dk_files d') = map_of (dk_files d))"
proof -
  let ?F = "\<lambda>d. map_of (dk_files d)"
  let ?ct = "path @ ''.content-type''"
  obtain e1 d1 where 1: "os_remove path d = (e1, d1)" by fastforce
  obtain e2 d2 where 2: "os_remove ?ct d1 = (e2, d2)" by fastforce
  show ?thesis
  proof (cases e1)
    case None
    then have r: "e = None" "d' = d2" using assms 1 2 by (auto simp: local_Delete_def)
    have "?F d2 = (?F d)(path := None, ?ct := ?F d2 ?ct)"
      using any_remove [OF 1] any_remove [OF 2] None by (auto simp: fun_eq_iff split: if_splits)
    then show ?thesis using r by metis
  next
    case (Some f)
    then have r: "e \<noteq> None" "d' = d1" using assms 1 by (auto simp: local_Delete_def split: os_error.splits)
    then show ?thesis using any_remove [OF 1] Some
      by (intro exI [of _ "?F d path"] exI [of _ "?F d ?ct"]) (auto simp: fun_eq_iff)
  qed
qed

end
