(* ===== verification/NM_Props.thy ===== *)
theory NM_Props
  imports NM_Handler AS_Props RV_Props
begin

text \<open>
  What the industrial PC monitor guarantees: which streams are handed out, that a refreshed snapshot and its
  audit events appear together or not at all, and that its cameras are those of the resource view.  The object
  store is used through its interface, which the local store implements.
\<close>

section \<open>The interface of an object store\<close>

lemma limited_whole: "\<not> n < int (length (limited (n + 1) s)) \<Longrightarrow> 0 \<le> n \<Longrightarrow> limited (n + 1) s = s"
  by (auto simp: limited_def min_def split: if_splits)

lemma snapshot_bound: "0 \<le> maxSnapshotUploadBytes"
  by (simp add: maxSnapshotUploadBytes_def)

text \<open>An object that was put back: as it was, and of the type of a picture where it was written again.\<close>

definition restored :: "(string \<times> string) option \<Rightarrow> (string \<times> string) option \<Rightarrow> bool" where
  "restored now before \<longleftrightarrow> now = before \<or> (\<exists>b ty. before = Some (b, ty) \<and> now = Some (b, ''image/jpeg''))"

text \<open>
  What a refresh relies on, whichever calls of the store fail: a call touches no other object, a content that was
  read without an error is the whole content, and a content is replaced as a whole or not at all.
\<close>

text \<open>Only one object was touched, and its content is the old one or the one that was sent.\<close>

definition replaced ::
  "('w \<Rightarrow> string \<Rightarrow> (string \<times> string) option) \<Rightarrow> (string \<Rightarrow> bool) \<Rightarrow> 'w \<Rightarrow> string \<Rightarrow> string \<Rightarrow> 'w \<Rightarrow> bool" where
  "replaced obj key_ok w key body w' \<longleftrightarrow> (\<forall>k. key_ok k \<longrightarrow> k \<noteq> key \<longrightarrow> obj w' k = obj w k) \<and>
     map_option fst (obj w' key) \<in> {map_option fst (obj w key), Some body}"

locale object_store =
  fixes st :: "'w asset_store"
    and obj :: "'w \<Rightarrow> string \<Rightarrow> (string \<times> string) option"
    and key_ok :: "string \<Rightarrow> bool"
  assumes open_keeps: "key_ok k \<Longrightarrow> as_open st k w = (x, w') \<Longrightarrow> obj w' = obj w"
    and open_found: "key_ok k \<Longrightarrow> as_open st k w = (Inr (reader, t), w') \<Longrightarrow>
      \<exists>c ty. obj w k = Some (c, ty) \<and> (rd_error reader = None \<longrightarrow> rd_content reader = c)"
    and open_missing: "key_ok k \<Longrightarrow> as_open st k w = (Inl AssetNotFound, w') \<Longrightarrow> obj w k = None"
    and save_others: "key_ok k \<Longrightarrow> as_save st k (bytes_reader c) ''image/jpeg'' w = (e, w') \<Longrightarrow>
      key_ok k' \<Longrightarrow> k' \<noteq> k \<Longrightarrow> obj w' k' = obj w k'"
    and save_whole: "key_ok k \<Longrightarrow> as_save st k (bytes_reader c) ''image/jpeg'' w = (e, w') \<Longrightarrow>
      e \<noteq> Some AssetNotFound \<and> map_option fst (obj w' k) \<in> {map_option fst (obj w k), Some c}"
    and save_done: "key_ok k \<Longrightarrow> as_save st k (bytes_reader c) ''image/jpeg'' w = (None, w') \<Longrightarrow>
      obj w' k = Some (c, ''image/jpeg'')"
    and deletes: "as_delete st \<noteq> None"
    and delete_any: "as_delete st = Some del \<Longrightarrow> key_ok k \<Longrightarrow> del k w = (e, w') \<Longrightarrow> key_ok k' \<Longrightarrow>
      obj w' k' = (if k' = k \<and> e = None then None else obj w k')"
begin

lemma old_snapshot_any:
  assumes k: "key_ok k" and old: "old_snapshot st k w = (x, w')"
  shows "obj w' = obj w" and "x = Inr b \<Longrightarrow> b = map_option fst (obj w k)"
    and "x = Inl e \<Longrightarrow> \<exists>msg. e = NmOther msg"
proof -
  obtain y w1 where o: "as_open st k w = (y, w1)" by fastforce
  show "obj w' = obj w"
    using old open_keeps [OF k o]
    by (auto simp: old_snapshot_def o Let_def split: sum.splits prod.splits option.splits if_splits asset_error.splits)
  show "b = map_option fst (obj w k)" if b: "x = Inr b"
  proof (cases y)
    case (Inl f)
    have "f = AssetNotFound \<Longrightarrow> obj w k = None" using open_missing [OF k] o Inl by simp
    then show ?thesis
      using old b by (auto simp: old_snapshot_def o Inl split: asset_error.splits option.splits)
  next
    case (Inr opened)
    obtain reader t where opened: "opened = (reader, t)" by fastforce
    obtain c ty where c: "obj w k = Some (c, ty)" "rd_error reader = None \<longrightarrow> rd_content reader = c"
      using open_found [OF k o [unfolded Inr opened]] by auto
    then show ?thesis
      using old b limited_whole [OF _ snapshot_bound, of "rd_content reader"]
        by (auto simp: old_snapshot_def o Inr opened Let_def split: option.splits if_splits)
  qed
  show "\<exists>msg. e = NmOther msg" if "x = Inl e"
    using old that by (auto simp: old_snapshot_def o of_asset_error_def Let_def split: sum.splits prod.splits option.splits if_splits asset_error.splits)
qed

text \<open>A write that can be taken back, and taking it back.\<close>

lemma save_with_rollback:
  assumes k: "key_ok (nm_snapshotObjectKey t c)" and save: "snap_SaveWithRollback st t c body w = (x, w1)"
  shows "replaced obj key_ok w (nm_snapshotObjectKey t c) body w1"
    and "x = Inl e \<Longrightarrow> nm_writeServiceError e = nm_writeServiceError (NmOther [])"
    and "x = Inr r \<Longrightarrow> obj w1 (nm_snapshotObjectKey t c) = Some (body, ''image/jpeg'') \<and>
      rb_key r = nm_snapshotObjectKey t c \<and> rb_existed r = (obj w (nm_snapshotObjectKey t c) \<noteq> None) \<and>
      (\<forall>b ty. obj w (nm_snapshotObjectKey t c) = Some (b, ty) \<longrightarrow> rb_body r = b)"
proof -
  let ?k = "nm_snapshotObjectKey t c"
  obtain y w' where old: "old_snapshot st ?k w = (y, w')" by fastforce
  obtain f w2 where wr: "as_save st ?k (bytes_reader body) ''image/jpeg'' w' = (f, w2)" by fastforce
  note kept = old_snapshot_any(1) [OF k old]
  note whole = save_whole [OF k wr] and others = save_others [OF k wr]
  have saved: "f = None \<Longrightarrow> obj w2 ?k = Some (body, ''image/jpeg'')" using save_done [OF k] wr by simp
  show "replaced obj key_ok w ?k body w1"
    using save kept whole others
    by (auto simp: replaced_def snap_SaveWithRollback_def old snap_Save_def wr Let_def
        split: sum.splits option.splits if_splits)
  show "nm_writeServiceError e = nm_writeServiceError (NmOther [])" if "x = Inl e"
    using save that whole old_snapshot_any(3) [OF k old]
    by (auto simp: snap_SaveWithRollback_def old snap_Save_def wr Let_def nm_writeServiceError_def of_asset_error_def
        split: sum.splits option.splits if_splits asset_error.splits)
  show "obj w1 ?k = Some (body, ''image/jpeg'') \<and> rb_key r = ?k \<and> rb_existed r = (obj w ?k \<noteq> None) \<and>
      (\<forall>b ty. obj w ?k = Some (b, ty) \<longrightarrow> rb_body r = b)" if "x = Inr r"
    using save that saved old_snapshot_any(2) [OF k old]
    by (auto simp: snap_SaveWithRollback_def old snap_Save_def wr Let_def split: sum.splits option.splits if_splits)
qed

lemma rollback_any:
  assumes k: "key_ok key" and r: "rb_key r = key" "rb_existed r = (obj w key \<noteq> None)"
      "\<forall>b ty. obj w key = Some (b, ty) \<longrightarrow> rb_body r = b"
    and before: "replaced obj key_ok w key body w1" and undo: "snap_Rollback st r w1 = (e, w2)"
  shows "replaced obj key_ok w key body w2" and "e = None \<Longrightarrow> restored (obj w2 key) (obj w key)"
proof -
  obtain del where del: "as_delete st = Some del" using deletes by blast
  obtain f w' where d: "del key w1 = (f, w')" by fastforce
  obtain g w'' where s: "as_save st key (bytes_reader (rb_body r)) ''image/jpeg'' w1 = (g, w'')" by fastforce
  note deleted = delete_any [OF del k d]
  note saved = save_others [OF k s] save_whole [OF k s]
  show "replaced obj key_ok w key body w2"
    using undo before r deleted saved k
    by (cases "obj w key") (auto simp: replaced_def snap_Rollback_def del d s split: if_splits)
  show "restored (obj w2 key) (obj w key)" if "e = None"
    using undo that r deleted k save_done [OF k, of "rb_body r" w1 w'']  s
    by (cases "obj w key") (auto simp: restored_def snap_Rollback_def del d)
qed

end

text \<open>A store that works: no call fails.\<close>

locale working_store = object_store st obj key_ok
  for st :: "'w asset_store" and obj :: "'w \<Rightarrow> string \<Rightarrow> (string \<times> string) option" and key_ok :: "string \<Rightarrow> bool" +
  fixes working :: "'w \<Rightarrow> bool"
  assumes open_works: "working w \<Longrightarrow> key_ok k \<Longrightarrow> working (snd (as_open st k w))"
    and save_works: "working w \<Longrightarrow> key_ok k \<Longrightarrow>
      \<exists>w'. as_save st k (bytes_reader c) ''image/jpeg'' w = (None, w') \<and> working w'"
    and delete_works: "working w \<Longrightarrow> key_ok k \<Longrightarrow> obj w k \<noteq> None \<Longrightarrow> as_delete st = Some del \<Longrightarrow> fst (del k w) = None"
begin

lemma save_with_rollback_works:
  assumes w: "working w" and k: "key_ok (nm_snapshotObjectKey t c)"
    and save: "snap_SaveWithRollback st t c body w = (x, w1)"
  shows "x = Inl e \<Longrightarrow> obj w1 = obj w" and "x = Inr r \<Longrightarrow> working w1"
proof -
  let ?k = "nm_snapshotObjectKey t c"
  obtain y w' where old: "old_snapshot st ?k w = (y, w')" by fastforce
  have "working (snd (old_snapshot st ?k w))"
    using open_works [OF w k]
    by (auto simp: old_snapshot_def Let_def split: sum.splits prod.splits option.splits if_splits asset_error.splits)
  then have w': "working w'" by (simp add: old)
  obtain w2 where wr: "as_save st ?k (bytes_reader body) ''image/jpeg'' w' = (None, w2)" "working w2"
    using save_works [OF w' k] by blast
  show "obj w1 = obj w" if "x = Inl e"
    using save that old_snapshot_any(1) [OF k old]
    by (auto simp: snap_SaveWithRollback_def old snap_Save_def wr Let_def split: sum.splits if_splits)
  show "working w1" if "x = Inr r"
    using save that wr(2)
    by (auto simp: snap_SaveWithRollback_def old snap_Save_def wr(1) Let_def split: sum.splits if_splits)
qed

lemma rollback_works:
  assumes "working w1" "key_ok (rb_key r)" "obj w1 (rb_key r) \<noteq> None"
  shows "fst (snap_Rollback st r w1) = None"
  using save_works [OF assms(1,2), of "rb_body r"] delete_works [OF assms] deletes
  by (auto simp: snap_Rollback_def split: prod.splits option.splits)

end

section \<open>The local store as an object store\<close>

definition local_store :: "LocalStore \<Rightarrow> disk asset_store" where
  "local_store s = \<lparr>as_save = local_Save s None, as_open = local_Open s None, as_delete = Some (local_Delete s None)\<rparr>"

definition picture_key :: "LocalStore \<Rightarrow> string \<Rightarrow> bool" where
  "picture_key s k \<longleftrightarrow> pathForKey s k = Inr (ls_root s @ ''/'' @ k) \<and> has_suffix k ''.jpg''"

definition local_object :: "LocalStore \<Rightarrow> disk \<Rightarrow> string \<Rightarrow> (string \<times> string) option" where
  "local_object s d k =
     (let path = ls_root s @ ''/'' @ k
      in map_option (\<lambda>c. (c, localContentType s path
           (case map_of (dk_files d) (path @ ''.content-type'') of Some t \<Rightarrow> t | None \<Rightarrow> []))) (map_of (dk_files d) path))"

lemma suffix_differs: "has_suffix k ''.jpg'' \<Longrightarrow> k \<noteq> p @ ''.tmp''" "has_suffix k ''.jpg'' \<Longrightarrow> k \<noteq> p @ ''.content-type''"
  by (auto simp: has_suffix_def has_prefix_def)

lemma picture_paths:
  assumes "picture_key s k" "picture_key s k'"
  shows "ls_root s @ ''/'' @ k' \<noteq> (ls_root s @ ''/'' @ k) @ ''.tmp''"
    and "ls_root s @ ''/'' @ k' \<noteq> (ls_root s @ ''/'' @ k) @ ''.content-type''"
    and "(ls_root s @ ''/'' @ k') @ ''.content-type'' \<noteq> (ls_root s @ ''/'' @ k) @ ''.tmp''"
  using assms suffix_differs [of k' k] by (auto simp: picture_key_def)

lemma local_object_frame:
  assumes k: "picture_key s k" and k': "picture_key s k'" "k' \<noteq> k"
    and files: "map_of (dk_files d') = (map_of (dk_files d))
      (ls_root s @ ''/'' @ k := a, (ls_root s @ ''/'' @ k) @ ''.tmp'' := b, (ls_root s @ ''/'' @ k) @ ''.content-type'' := c)"
  shows "local_object s d' k' = local_object s d k'"
  using picture_paths [OF k k'(1)] picture_paths(2) [OF k'(1) k] k'(2) by (simp add: local_object_def files Let_def)

lemma local_object_content: "map_option fst (local_object s d k) = map_of (dk_files d) (ls_root s @ ''/'' @ k)"
  by (simp add: local_object_def Let_def option.map_comp comp_def option.map_ident)

lemma jpeg_type: "contentTypeOrDefault ''image/jpeg'' = ''image/jpeg''" "trim_space ''image/jpeg'' = ''image/jpeg''"
  by code_simp+

interpretation local_objects: object_store "local_store s" "local_object s" "picture_key s" for s
proof
  fix k k' c :: string and d d' :: disk and e x reader t
  let ?path = "ls_root s @ ''/'' @ k"
  assume k: "picture_key s k"
  then have path: "pathForKey s k = Inr ?path" by (simp add: picture_key_def)
  show "local_object s d' = local_object s d" if "as_open (local_store s) k d = (x, d')"
    using local_Open_any(1) [OF path] that by (auto simp: local_store_def local_object_def fun_eq_iff)
  show "\<exists>c ty. local_object s d k = Some (c, ty) \<and> (rd_error reader = None \<longrightarrow> rd_content reader = c)"
    if "as_open (local_store s) k d = (Inr (reader, t), d')"
    using local_Open_any(2) [OF path, of d _ d' reader t] that by (auto simp: local_store_def local_object_def)
  show "local_object s d k = None" if "as_open (local_store s) k d = (Inl AssetNotFound, d')"
    using local_Open_any(3) [OF path] that by (auto simp: local_store_def local_object_def)
  {
    fix e
    assume "as_save (local_store s) k (bytes_reader c) ''image/jpeg'' d = (e, d')"
    then have "\<exists>new tmp type. map_of (dk_files d') = (map_of (dk_files d))
        (?path := new, ?path @ ''.tmp'' := tmp, ?path @ ''.content-type'' := type) \<and>
      (new = map_of (dk_files d) ?path \<or> new = Some c) \<and> e \<noteq> Some AssetNotFound \<and>
      (e = None \<longrightarrow> new = Some c \<and> type = Some (contentTypeOrDefault ''image/jpeg''))"
      using local_Save_any [OF path, of c "''image/jpeg''" d e d'] by (simp add: local_store_def bytes_reader_def)
  } note files = this
  show "local_object s d' k' = local_object s d k'"
    if "as_save (local_store s) k (bytes_reader c) ''image/jpeg'' d = (e, d')" "picture_key s k'" "k' \<noteq> k"
    using files [OF that(1)] local_object_frame [OF k that(2,3)] by blast
  show "e \<noteq> Some AssetNotFound \<and>
      map_option fst (local_object s d' k) \<in> {map_option fst (local_object s d k), Some c}"
    if "as_save (local_store s) k (bytes_reader c) ''image/jpeg'' d = (e, d')"
    using files [OF that] by (auto simp: local_object_content)
  show "local_object s d' k = Some (c, ''image/jpeg'')"
    if "as_save (local_store s) k (bytes_reader c) ''image/jpeg'' d = (None, d')"
    using files [OF that] jpeg_type by (auto simp: local_object_def localContentType_def Let_def)
next
  fix k k' :: string and d d' :: disk and e del
  let ?path = "ls_root s @ ''/'' @ k"
  assume k: "picture_key s k" "picture_key s k'"
    and del: "as_delete (local_store s) = Some del" "del k d = (e, d')"
  then have path: "pathForKey s k = Inr ?path" by (simp add: picture_key_def)
  have "local_Delete s None k d = (e, d')" using del by (simp add: local_store_def)
  then obtain x type where files:
      "map_of (dk_files d') = (map_of (dk_files d))(?path := x, ?path @ ''.content-type'' := type)"
    and gone: "if e = None then x = None else map_of (dk_files d') = map_of (dk_files d)"
    using local_Delete_any [OF path] by blast
  show "local_object s d' k' = (if k' = k \<and> e = None then None else local_object s d k')"
  proof (cases "e = None \<and> k' \<noteq> k")
    case True
    then show ?thesis
      using picture_paths [OF k] picture_paths(2) [OF k(2,1)] by (simp add: local_object_def files Let_def)
  next
    case False
    show ?thesis
    proof (cases e)
      case None
      then show ?thesis using False gone by (simp add: local_object_def files Let_def)
    next
      case (Some f)
      then have "map_of (dk_files d') = map_of (dk_files d)" using gone by simp
      then show ?thesis using Some by (simp add: local_object_def)
    qed
  qed
qed (simp add: local_store_def)

interpretation sound_objects: working_store "local_store s" "local_object s" "picture_key s" sound for s
proof
  fix k c :: string and d :: disk and del
  let ?path = "ls_root s @ ''/'' @ k"
  assume d: "sound d" and k: "picture_key s k"
  then have path: "pathForKey s k = Inr ?path" by (simp add: picture_key_def)
  show "sound (snd (as_open (local_store s) k d))"
    using local_Open_sound [OF d path] d by (simp add: local_store_def)
  show "\<exists>d'. as_save (local_store s) k (bytes_reader c) ''image/jpeg'' d = (None, d') \<and> sound d'"
    using local_Save_sound [OF d path, of c "''image/jpeg''"] by (auto simp: local_store_def bytes_reader_def)
  show "fst (del k d) = None" if "local_object s d k \<noteq> None" "as_delete (local_store s) = Some del"
    using local_Delete_sound [OF d path] that by (auto simp: local_store_def local_object_def Let_def)
qed

section \<open>Keys of snapshots\<close>

lemma itoa_plain: "CHR ''/'' \<notin> set (itoa n)" "CHR 0x5C \<notin> set (itoa n)"
  using itoa_chars [of "CHR ''/''" n] itoa_chars [of "CHR 0x5C" n] by (auto simp: is_digit_char_def byte_def)

lemma picture_key_snapshot:
  assumes "ls_root s \<noteq> ''/''"
  shows "picture_key s (nm_snapshotObjectKey t c)"
proof -
  let ?k = "nm_snapshotObjectKey t c"
  have k: "?k = ''nvr-camera-snapshots'' @ [CHR ''/''] @ itoa t @ [CHR ''/''] @ itoa c @ ''.jpg''"
    by (simp add: nm_snapshotObjectKey_def)
  have suffix: "has_suffix ?k ''.jpg''" unfolding has_suffix_iff k
    by (rule exI [of _ "''nvr-camera-snapshots'' @ [CHR ''/''] @ itoa t @ [CHR ''/''] @ itoa c"]) simp
  have "\<not> space1 x" if "x \<in> set (itoa n)" for x n
    using itoa_chars [OF that] by (auto simp: space1_def is_digit_char_def byte_def)
  then have "\<forall>x \<in> set ?k. \<not> space1 x" by (auto simp: k space1_def byte_def)
  moreover have "is_ascii ?k"
    using is_ascii_itoa [of t] is_ascii_itoa [of c]
    by (simp add: k is_ascii_def ball_Un) (simp add: byte_def)
  ultimately have trim: "trim_space ?k = ?k" by (rule trim_space_no_space)
  have "last ?k = CHR ''g''" by (simp add: k)
  then have "\<not> has_suffix ?k ''/''" by (auto simp: has_suffix_iff)
  then have clean: "trim_suffix (trim_space ?k) ''/'' = ?k" by (simp add: trim trim_suffix_def)
  have "split_on (CHR ''/'') ?k = [''nvr-camera-snapshots'', itoa t, itoa c @ ''.jpg'']"
    unfolding k split_on_append by (simp add: split_on_no_sep itoa_plain)
  moreover have "itoa t \<noteq> ''.''" "itoa t \<noteq> ''..''"
    using itoa_chars [of "CHR ''.''" t] by (auto simp: is_digit_char_def byte_def)
  moreover have "CHR 0x5C \<notin> set ?k" using itoa_plain by (simp add: k)
  then have "\<not> contains ?k [CHR 0x5C]" by (auto simp: contains_iff)
  moreover have "?k \<noteq> []" "\<not> has_prefix ?k ''/''" "\<not> has_prefix ?k ''uploads/''" by (simp_all add: k has_prefix_def)
  ultimately have "cleanKey ?k = Inr ?k" "localDiskKey ?k = ?k"
    by (simp_all add: cleanKey_def clean localDiskKey_def Let_def)
  then show ?thesis
    using assms suffix by (simp add: picture_key_def pathForKey_def disk_path_def has_prefix_iff Let_def)
qed

section \<open>Refreshing a snapshot\<close>

text \<open>The contract of a refresh, over the objects before and after it.\<close>

definition refresh_contract ::
  "'w nm_service \<Rightarrow> ('w \<Rightarrow> string \<Rightarrow> (string \<times> string) option) \<Rightarrow> (string \<Rightarrow> bool) \<Rightarrow> nm_authorizer \<Rightarrow> nm_request \<Rightarrow> 'w \<Rightarrow>
   nm_reply \<times> AuditEvent list \<times> 'w \<Rightarrow> bool" where
  "refresh_contract svc obj key_ok a r w outcome \<longleftrightarrow>
     (case outcome of (reply, events, w') \<Rightarrow>
        (fst reply = 204 \<longrightarrow>
          (\<exists>t c store.
            path_camera r = Some c \<and> camera_tenant svc (trim_space (nq_org r)) c = Inr t \<and>
            na_record a = Some store \<and> list_all store events \<and>
            map ev_action events = [snapshotRefreshPrepareAction, ''snapshot.refresh''] \<and>
            obj w' (nm_snapshotObjectKey t c) = Some (rd_content (nq_body r), ''image/jpeg''))) \<and>
        (fst reply \<noteq> 204 \<and> fst reply \<noteq> 500 \<and> reply \<noteq> nm_rollback_failed \<longrightarrow>
          (\<forall>k. key_ok k \<longrightarrow> restored (obj w' k) (obj w k))) \<and>
        (obj w' = obj w \<or>
          (\<exists>t c can.
            na_backfill a = Some can \<and> can (trim_space (nq_org r)) = Inr True \<and>
            path_camera r = Some c \<and> camera_tenant svc (trim_space (nq_org r)) c = Inr t \<and>
            replaced obj key_ok w (nm_snapshotObjectKey t c) (rd_content (nq_body r)) w')))"

lemma restored_same [simp]: "restored x x"
  by (simp add: restored_def)

lemma nothing_done: "fst reply \<noteq> 204 \<Longrightarrow> obj w' = obj w \<Longrightarrow> refresh_contract svc obj key_ok a r w (reply, events, w')"
  by (simp add: refresh_contract_def)

lemma writeServiceError_code: "fst (nm_writeServiceError e) \<noteq> 204"
  by (simp add: nm_writeServiceError_def nm_not_configured_def)

lemma backfill_access:
  "nm_ensureCanBackfillSnapshot (Some a) r org = (None, events) \<Longrightarrow>
     events = [] \<and> (\<exists>can. na_backfill a = Some can \<and> can org = Inr True)"
  by (auto simp: nm_ensureCanBackfillSnapshot_def Let_def split: if_splits option.splits sum.splits)

lemma backfill_refusal:
  "nm_ensureCanBackfillSnapshot (Some a) r org = (Some reply, events) \<Longrightarrow> fst reply \<noteq> 204"
  by (auto simp: nm_ensureCanBackfillSnapshot_def Let_def nm_store_not_found_def nm_writeAuthorizationError_def
    nm_forbidden_reply_def split: if_splits option.splits sum.splits)

lemma bad_upload_code: "bad_upload r = Some reply \<Longrightarrow> fst reply \<noteq> 204"
  by (auto simp: bad_upload_def split: if_splits)

lemma event_action: "ev_action (newCameraAuditEvent r action result org c target) = action"
  by (simp add: newCameraAuditEvent_def plain_event_def Let_def)

text \<open>The steps of a refresh that was let in, as a case distinction.\<close>

lemma audited_save_cases:
  assumes svc: "nms_snapshots svc = Some st" and run: "audited_save a svc r org c w = (reply, events, w')"
  obtains (refused) "fst reply \<noteq> 204" "w' = w"
  | (failed) t e where "camera_tenant svc org c = Inr t"
      "snap_SaveWithRollback st t c (rd_content (nq_body r)) w = (Inl e, w')" "reply = nm_writeServiceError e"
  | (stored) t rb store where "camera_tenant svc org c = Inr t"
      "snap_SaveWithRollback st t c (rd_content (nq_body r)) w = (Inr rb, w')" "reply = (204, NmBodyEmpty)"
      "na_record a = Some store" "list_all store events"
      "map ev_action events = [snapshotRefreshPrepareAction, ''snapshot.refresh'']"
  | (undone) t rb w1 e where "camera_tenant svc org c = Inr t"
      "snap_SaveWithRollback st t c (rd_content (nq_body r)) w = (Inr rb, w1)"
      "snap_Rollback st rb w1 = (e, w')" "reply = (if e = None then nm_writeAuditError else nm_rollback_failed)"
proof -
  let ?event = "\<lambda>action result. newCameraAuditEvent r action result org c no_target"
  show thesis
  proof (cases "fst (nm_recordAudit (Some a) (?event snapshotRefreshPrepareAction ''success''))")
    case False
    then show thesis using run refused
      by (auto simp: audited_save_def nm_writeAuditError_def Let_def split: prod.splits)
  next
    case True
    then obtain store where store: "na_record a = Some store" "store (?event snapshotRefreshPrepareAction ''success'')"
      by (auto simp: nm_recordAudit_def split: option.splits)
    have rec: "nm_recordAudit (Some a) e = (store e, [e])" for e by (simp add: nm_recordAudit_def store(1))
    show thesis
    proof (cases "camera_tenant svc org c")
      case (Inl e)
      then show thesis using run refused writeServiceError_code
        by (auto simp: audited_save_def nm_SaveSnapshotWithRollback_def rec store(2) Let_def)
    next
      case (Inr t)
      obtain x w1 where save: "snap_SaveWithRollback st t c (rd_content (nq_body r)) w = (x, w1)" by fastforce
      note step = audited_save_def nm_SaveSnapshotWithRollback_def Inr svc rec store(2) save Let_def
      show thesis
      proof (cases x)
        case (Inl e)
        then show thesis using failed [OF Inr] save run by (simp add: step)
      next
        case rb: (Inr rb)
        obtain e w2 where undo: "snap_Rollback st rb w1 = (e, w2)" by fastforce
        show thesis
        proof (cases "store (?event ''snapshot.refresh'' ''success'')")
          case True
          then show thesis
            using stored [OF Inr _ _ store(1)] store(2) save run by (auto simp: step rb event_action)
        next
          case False
          then have "w' = w2" "reply = (if e = None then nm_writeAuditError else nm_rollback_failed)"
            using run False by (auto simp: step rb undo split: option.splits)
          then show thesis using undone [OF Inr, of rb w1 e] save undo by (simp add: rb)
        qed
      qed
    qed
  qed
qed

context object_store
begin

lemma audited_save_contract:
  assumes keys: "\<And>t c. key_ok (nm_snapshotObjectKey t c)"
    and svc: "nms_snapshots svc = Some st"
    and access: "na_backfill a = Some can" "can (trim_space (nq_org r)) = Inr True" "path_camera r = Some c"
  shows "refresh_contract svc obj key_ok a r w (audited_save a svc r (trim_space (nq_org r)) c w)"
proof -
  obtain reply events w' where run: "audited_save a svc r (trim_space (nq_org r)) c w = (reply, events, w')"
    by (metis prod.collapse)
  from svc run show ?thesis
  proof (cases rule: audited_save_cases)
    case refused
    then show ?thesis by (simp add: run nothing_done)
  next
    case (failed t e)
    note saved = save_with_rollback [OF keys failed(2)]
    have "fst reply = 500" using saved(2) [OF refl] failed(3) by (simp add: nm_writeServiceError_def)
    then show ?thesis using saved(1) failed(1) access by (auto simp: run refresh_contract_def)
  next
    case (stored t rb store)
    note saved = save_with_rollback [OF keys stored(2)]
    show ?thesis using saved(1) saved(3) [OF refl] stored access by (auto simp: run refresh_contract_def)
  next
    case (undone t rb w1 e)
    note saved = save_with_rollback [OF keys undone(2)]
    let ?k = "nm_snapshotObjectKey t c"
    have rb: "rb_key rb = ?k" "rb_existed rb = (obj w ?k \<noteq> None)" "\<forall>b ty. obj w ?k = Some (b, ty) \<longrightarrow> rb_body rb = b"
      using saved(3) [OF refl] by blast+
    note taken = rollback_any [OF keys rb saved(1) undone(3)]
    have "fst reply = 503" using undone(4) by (simp add: nm_writeAuditError_def nm_rollback_failed_def)
    moreover have "restored (obj w' k) (obj w k)" if "reply \<noteq> nm_rollback_failed" "key_ok k" for k
      using taken that undone(4) by (cases "k = ?k") (auto simp: replaced_def split: if_splits)
    ultimately show ?thesis using taken(1) undone(1) access by (auto simp: run refresh_contract_def)
  qed
qed

end

context working_store
begin

lemma audited_save_works:
  assumes w: "working w" and keys: "\<And>t c. key_ok (nm_snapshotObjectKey t c)"
    and svc: "nms_snapshots svc = Some st"
    and run: "audited_save a svc r org c w = (reply, events, w')" and "fst reply \<noteq> 204" and k: "key_ok k"
  shows "restored (obj w' k) (obj w k)"
  using svc run
proof (cases rule: audited_save_cases)
  case (failed t e)
  then show ?thesis using save_with_rollback_works(1) [OF w keys failed(2)] by simp
next
  case (undone t rb w1 e)
  note saved = save_with_rollback [OF keys undone(2)]
  let ?k = "nm_snapshotObjectKey t c"
  have rb: "rb_key rb = ?k" "rb_existed rb = (obj w ?k \<noteq> None)" "\<forall>b ty. obj w ?k = Some (b, ty) \<longrightarrow> rb_body rb = b"
    "obj w1 ?k \<noteq> None"
    using saved(3) [OF refl] by blast+
  have "e = None"
    using rollback_works [OF save_with_rollback_works(2) [OF w keys undone(2) refl], of rb] rb keys undone(3) by simp
  then show ?thesis
    using rollback_any [OF keys rb(1-3) saved(1) undone(3)] k by (cases "k = ?k") (auto simp: replaced_def)
qed (use assms in simp_all)

end

text \<open>
  C10. Refreshing a snapshot over a local store, whichever calls of the operating system fail on the way.  The
  reply 204 means that the camera is one of the store's, that both audit events were stored and that the picture
  of that camera is the uploaded one.  A request changes at most that picture, only after the authorizer said
  that the user may refresh the pictures of that store, and its content is then the old or the uploaded one,
  never a part.  A reply that is neither 204 nor one of the two that report a failure (500, and the 503 of a
  failed rollback) means that every picture is as it was, also when the write happened before the last event
  was refused; and on a disk without faults every reply but 204 means that.  A picture that was written back has the
  type of a picture.
\<close>

theorem snapshot_refresh_atomic:
  assumes "ls_root s \<noteq> ''/''" "nms_snapshots svc = Some (local_store s)"
    and run: "nm_saveSnapshot (Some a) (Some svc) r d = (reply, events, d')"
  shows "refresh_contract svc (local_object s) (picture_key s) a r d (reply, events, d') \<and>
    (sound d \<and> fst reply \<noteq> 204 \<longrightarrow>
      (\<forall>k. picture_key s k \<longrightarrow> restored (local_object s d' k) (local_object s d k)))"
proof (cases "fst reply \<noteq> 204 \<and> d' = d")
  case True
  then show ?thesis by (simp add: nothing_done)
next
  case False
  obtain refused ev where access: "nm_ensureCanBackfillSnapshot (Some a) r (trim_space (nq_org r)) = (refused, ev)"
    by fastforce
  have "refused = None" using False run access backfill_refusal
    by (cases refused) (auto simp: nm_saveSnapshot_def Let_def)
  then obtain can where can: "ev = []" "na_backfill a = Some can" "can (trim_space (nq_org r)) = Inr True"
    using access backfill_access by blast
  obtain c where c: "path_camera r = Some c" using False run access \<open>refused = None\<close>
    by (cases "path_camera r") (auto simp: nm_saveSnapshot_def nm_bad_camera_def Let_def)
  have "bad_upload r = None" using False run access \<open>refused = None\<close> c bad_upload_code
    by (cases "bad_upload r") (auto simp: nm_saveSnapshot_def Let_def)
  then have save: "audited_save a svc r (trim_space (nq_org r)) c d = (reply, events, d')"
    using run access \<open>refused = None\<close> c can(1) by (simp add: nm_saveSnapshot_def Let_def split: prod.splits)
  note keys = picture_key_snapshot [OF assms(1)]
  show ?thesis
    using local_objects.audited_save_contract [OF keys assms(2) can(2,3) c, of d]
      sound_objects.audited_save_works [OF _ keys assms(2) save] by (simp add: save)
qed

section \<open>Streams\<close>

lemma view_access:
  "nm_ensureCanViewStore (Some a) r org = (None, events) \<Longrightarrow> events = [] \<and> na_can_view a org = Inr True"
  by (auto simp: nm_ensureCanViewStore_def Let_def split: if_splits sum.splits)

lemma view_refusal:
  "nm_ensureCanViewStore (Some a) r org = (Some reply, events) \<Longrightarrow> fst reply \<noteq> 200"
  by (auto simp: nm_ensureCanViewStore_def Let_def nm_store_not_found_def nm_writeAuthorizationError_def
    nm_forbidden_reply_def split: if_splits sum.splits)

lemma eligible_cameras:
  "nc \<in> set (camerasFromRecords records b) \<Longrightarrow>
     \<exists>dev \<in> set (rec_devices records). nm_isEligibleCamera dev \<and> bd_id dev = nc_id nc"
  by (auto simp: camerasFromRecords_def nm_camera_of_def Let_def split: option.splits)

definition within_the_hour :: "StreamSessionRequest \<Rightarrow> bool" where
  "within_the_hour q \<longleftrightarrow>
     (if sq_mode q = ModeLive then sq_start_time q = 0 \<and> sq_end_time q = 0
      else sq_mode q = ModePlayback \<and> 0 < sq_start_time q \<and> sq_start_time q < sq_end_time q \<and>
           sq_end_time q \<le> sq_start_time q + 3600)"

lemma validated:
  assumes "validateStreamSessionRequest q = None" "sq_end_time q \<le> max_int64"
  shows "within_the_hour q"
proof (cases "sq_mode q = ModeLive")
  case True
  then show ?thesis using assms(1) by (simp add: validateStreamSessionRequest_def within_the_hour_def split: if_splits)
next
  case False
  then have v: "sq_mode q = ModePlayback" "0 < sq_start_time q" "sq_start_time q < sq_end_time q"
    "wrap64 (sq_end_time q - sq_start_time q) \<le> hour div second"
    using assms(1) by (auto simp: validateStreamSessionRequest_def split: if_splits)
  moreover have "wrap64 (sq_end_time q - sq_start_time q) = sq_end_time q - sq_start_time q"
    by (rule wrap64_id) (use v assms(2) in \<open>simp_all add: min_int64_def max_int64_def\<close>)
  moreover have "hour div second = 3600" by (simp add: hour_def second_def)
  ultimately show ?thesis using False by (simp add: within_the_hour_def)
qed

text \<open>What is true when a stream is handed out.\<close>

definition stream_allowed :: "nm_authorizer \<Rightarrow> 'w nm_service \<Rightarrow> nm_request \<Rightarrow> AuditEvent list \<Rightarrow> StreamSessionResponse \<Rightarrow> bool" where
  "stream_allowed a svc r events response \<longleftrightarrow>
     (\<exists>c records dev q store event authorize.
        na_can_view a (trim_space (nq_org r)) = Inr True \<and>
        path_camera r = Some c \<and> storeRecords svc (trim_space (nq_org r)) = Inr records \<and>
        dev \<in> set (rec_devices records) \<and> nm_isEligibleCamera dev \<and> bd_id dev = c \<and>
        within_the_hour q \<and> sp_mode response = sq_mode q \<and>
        nms_authorization svc = Some authorize \<and> authorize c q = Inr (sp_url response) \<and>
        na_record a = Some store \<and> events = [event] \<and> store event \<and> ev_result event = ''success'' \<and>
        ev_entity_id event = Some c \<and> ev_external_org_id event = trim_space (nq_org r))"

lemma created:
  assumes "nm_CreateSession svc org c q = (Inr response, target)"
  shows "validateStreamSessionRequest q = None \<and> sp_mode response = sq_mode q \<and>
    (\<exists>records authorize. storeRecords svc org = Inr records \<and> nms_authorization svc = Some authorize \<and>
      authorize c q = Inr (sp_url response) \<and>
      (\<exists>dev \<in> set (rec_devices records). nm_isEligibleCamera dev \<and> bd_id dev = c))"
proof -
  obtain cameras where cameras: "nm_GetCameras svc org = Inr cameras"
    using assms by (auto simp: nm_CreateSession_def split: option.splits sum.splits)
  then obtain records where rec: "storeRecords svc org = Inr records"
    "cl_cameras cameras = camerasFromRecords records (nms_snapshots svc \<noteq> None)"
    by (cases "storeRecords svc org") (auto simp: nm_GetCameras_def bind_sum_def)
  obtain nc where "find (\<lambda>x. nc_id x = c) (cl_cameras cameras) = Some nc"
    using assms cameras by (auto simp: nm_CreateSession_def split: option.splits sum.splits)
  then have "nc \<in> set (camerasFromRecords records (nms_snapshots svc \<noteq> None))" "nc_id nc = c"
    by (auto simp: find_Some_iff rec(2))
  then have "\<exists>dev \<in> set (rec_devices records). nm_isEligibleCamera dev \<and> bd_id dev = c"
    using eligible_cameras by metis
  then show ?thesis
    using assms cameras rec(1) by (auto simp: nm_CreateSession_def Let_def split: option.splits sum.splits if_splits)
qed

lemma parse_int_max: "parse_int s = (n, e) \<Longrightarrow> n \<le> max_int64"
  using parse_int_range [of s] by simp

lemma dec_int_max: "dec_int v old = Some n \<Longrightarrow> old \<le> max_int64 \<Longrightarrow> n \<le> max_int64"
  by (cases "(v, old)" rule: dec_int.cases) (auto dest: parse_int_max split: prod.splits option.splits)

lemma field_of_in: "field_of fs key = Some dec \<Longrightarrow> \<exists>name. (name, dec) \<in> set fs"
  by (auto simp: field_of_def find_Some_iff dest!: map_of_SomeD split: option.splits) (metis nth_mem)

lemma dec_members_keep:
  assumes step: "\<And>name dec v old new. (name, dec) \<in> set fs \<Longrightarrow> dec v old = Some new \<Longrightarrow> P old \<Longrightarrow> P new"
  shows "dec_members fs ms old = Some new \<Longrightarrow> P old \<Longrightarrow> P new"
proof (induction ms arbitrary: old)
  case (Cons m ms)
  obtain key v where m: "m = (key, v)" by (cases m)
  show ?case
  proof (cases "field_of fs key")
    case None
    then show ?thesis using Cons m by simp
  next
    case (Some dec)
    then obtain name where "(name, dec) \<in> set fs" using field_of_in by metis
    then show ?thesis using Cons m Some step by (auto split: option.splits)
  qed
qed simp

lemma decoded_times:
  assumes "decodeStreamSessionRequest broken body = SessionBody q"
  shows "sq_end_time q \<le> max_int64"
proof -
  obtain v where v: "dec_struct_strict session_fields v no_session = Some q"
    using assms by (auto simp: decodeStreamSessionRequest_def unmarshal_def split: if_splits option.splits)
  have zero: "sq_end_time no_session \<le> max_int64" by (simp add: no_session_def max_int64_def)
  have step: "sq_end_time new \<le> max_int64"
    if "(name, dec) \<in> set session_fields" "dec v old = Some new" "sq_end_time old \<le> max_int64" for name dec v old new
    using that dec_int_max [of v "sq_end_time old"] by (auto simp: session_fields_def on_field_def)
  show ?thesis
    using v zero dec_members_keep [of session_fields "\<lambda>q. sq_end_time q \<le> max_int64", OF step]
    by (cases v) (auto split: if_splits)
qed

text \<open>
  C11. A stream is handed out only to a user who may view the store, for a usable camera of that very store, live
  or for at most an hour of recordings, at the address the authorization gave for this camera and this time, and
  after the event of the view was stored.
\<close>

theorem stream_session_guarded:
  assumes "nm_createSession (Some a) (Some svc) broken r = ((200, NmBodyStream response), events)"
  shows "stream_allowed a svc r events response"
proof -
  let ?org = "trim_space (nq_org r)"
  obtain none0 where access: "nm_ensureCanViewStore (Some a) r ?org = (None, none0)"
    using assms view_refusal by (fastforce simp: nm_createSession_def Let_def split: prod.splits option.splits)
  have "none0 = []" and view: "na_can_view a ?org = Inr True" using view_access [OF access] by simp_all
  obtain c where c: "path_camera r = Some c"
    using assms access by (auto simp: nm_createSession_def Let_def nm_bad_camera_def split: option.splits)
  obtain q where q: "decodeStreamSessionRequest broken (nq_body r) = SessionBody q"
    using assms access c by (auto simp: nm_createSession_def Let_def split: session_body.splits)
  obtain outcome target where created_by: "nm_CreateSession svc ?org c q = (outcome, target)" by fastforce
  have "outcome = Inr response \<and>
      nm_recordAudit (Some a) (newCameraAuditEvent r
        (if sq_mode q = ModePlayback then ''monitor.playback_view'' else ''monitor.live_view'') ''success'' ?org c target) =
        (True, events)"
    using assms access c q created_by \<open>none0 = []\<close>
    by (cases outcome)
      (auto simp: nm_createSession_def Let_def nm_writeServiceError_def nm_not_configured_def nm_writeAuditError_def
        split: prod.splits bool.splits if_splits)
  then have outcome: "nm_CreateSession svc ?org c q = (Inr response, target)"
    and stored: "nm_recordAudit (Some a) (newCameraAuditEvent r
        (if sq_mode q = ModePlayback then ''monitor.playback_view'' else ''monitor.live_view'') ''success'' ?org c target) =
        (True, events)"
    using created_by by simp_all
  obtain store where store: "na_record a = Some store"
    using stored by (auto simp: nm_recordAudit_def split: option.splits)
  note made = created [OF outcome]
  have hour: "within_the_hour q" using validated made decoded_times [OF q] by blast
  obtain event where event: "events = [event]" "store event" "ev_result event = ''success''"
    "ev_entity_id event = Some c" "ev_external_org_id event = ?org"
    using stored store by (auto simp: nm_recordAudit_def newCameraAuditEvent_def plain_event_def Let_def)
  show ?thesis
    unfolding stream_allowed_def using view c made hour store event by blast
qed

section \<open>A write that fails late\<close>

lemma dk_faults_file [simp]: "dk_faults (put_file p c d) = dk_faults d" "dk_faults (drop_file p d) = dk_faults d"
  by (simp_all add: put_file_def drop_file_def)

lemma local_Save_late_fault:
  assumes "pathForKey s key = Inr path"
  shows "\<exists>d'. local_Save s None key (bytes_reader content) ty (d\<lparr>dk_faults := [None, None, None, None, None, Some (e, n)]\<rparr>) =
      (Some (AssetFailed e), d') \<and> map_of (dk_files d') path = Some content"
  using assms
  by (simp add: local_Save_def bytes_reader_def Let_def os_call_def os_create_def os_write_def os_rename_def
    os_write_file_def os_fault_def)

text \<open>
  When the last step of a write fails, after the picture is in its place, the write counts as failed and no way
  back is returned: the camera had no picture, the refresh is reported and recorded as failed, and the new
  picture is there.
\<close>

theorem failed_refresh_leaves_picture:
  assumes "ls_root s \<noteq> ''/''" "0 < t" "0 < c"
    and "dk_faults d = [None, None, None, None, None, None, Some (e, n)]"
    and "local_object s d (nm_snapshotObjectKey t c) = None"
  shows "\<exists>d'. snap_SaveWithRollback (local_store s) t c body d = (Inl (NmOther e), d') \<and>
    map_option fst (local_object s d' (nm_snapshotObjectKey t c)) = Some body"
proof -
  let ?k = "nm_snapshotObjectKey t c"
  let ?path = "ls_root s @ ''/'' @ ?k"
  let ?d = "d\<lparr>dk_faults := [None, None, None, None, None, Some (e, n)]\<rparr>"
  have path: "pathForKey s ?k = Inr ?path" using picture_key_snapshot [OF assms(1)] by (simp add: picture_key_def)
  have "map_of (dk_files d) ?path = None" using assms(5) by (simp add: local_object_def Let_def)
  then have "local_Open s None ?k d = (Inl AssetNotFound, ?d)"
    using path assms(4) by (simp add: local_Open_def os_read_def os_fault_def)
  then have old: "old_snapshot (local_store s) ?k d = (Inr None, ?d)"
    by (simp add: old_snapshot_def local_store_def)
  obtain d' where "local_Save s None ?k (bytes_reader body) ''image/jpeg'' ?d = (Some (AssetFailed e), d')"
    and "map_of (dk_files d') ?path = Some body"
    using local_Save_late_fault [OF path] by blast
  then show ?thesis
    using old assms(2,3)
    by (simp add: snap_SaveWithRollback_def snap_Save_def local_store_def of_asset_error_def local_object_def Let_def)
qed

section \<open>The two views of a store\<close>

lemma view_cameras:
  assumes "BuildStoreDetail rfc3339 r access = Some d"
  shows "mset (map camera_id (sd_cameras d)) =
    mset (map dv_id (filter isEligibleCamera (normalizedDevices rfc3339 (rec_devices r))))"
proof -
  let ?spaces = "normalizedSpaces (rec_spaces r)"
  let ?all = "normalizedDevices rfc3339 (rec_devices r)"
  let ?relations = "applicableCameraRelations (cameraRelevantRelations (normalizedRelations (rec_relations r)) ?all) ?spaces"
  obtain cameras where "buildCameras (resourceViewDevices ?all) ?relations ?spaces = Some cameras" "sd_cameras d = cameras"
    using assms unfolding BuildStoreDetail_def Let_def by (auto split: option.splits)
  moreover have "filter (\<lambda>d. dv_category d = ''camera'') (resourceViewDevices ?all) = filter isEligibleCamera ?all"
    by (auto simp: resourceViewDevices_def isEligibleCamera_def intro: filter_cong)
  ultimately show ?thesis using buildCameras_cameras(1) by metis
qed

text \<open>
  C28. The monitor and the resource view show the same cameras of a store, where the database keeps the category
  and the provider of a device without blanks around them.
\<close>

theorem monitor_and_view_agree:
  assumes "BuildStoreDetail rfc3339 r access = Some d"
    and plain: "\<forall>dev \<in> set (rec_devices r).
      trim_space (bd_category dev) = bd_category dev \<and> trim_space (bd_provider dev) = bd_provider dev"
  shows "mset (map nc_id (camerasFromRecords r b)) = mset (map camera_id (sd_cameras d))"
proof -
  have ids: "nc_id (nm_camera_of r b dev) = bd_id dev" for dev
    by (simp add: nm_camera_of_def Let_def split: option.split)
  have "mset (map nc_id (camerasFromRecords r b)) = mset (map bd_id (filter nm_isEligibleCamera (rec_devices r)))"
    by (simp add: camerasFromRecords_def multiset.map_comp comp_def ids)
  also have "filter nm_isEligibleCamera (rec_devices r) =
      filter (\<lambda>dev. bd_deleted_at dev = None \<and> isEligibleCamera (normalized_device rfc3339 dev)) (rec_devices r)"
    by (rule filter_cong) (use plain in \<open>auto simp: nm_isEligibleCamera_def isEligibleCamera_def normalized_device_def\<close>)
  also have "mset (map bd_id \<dots>) = mset (map dv_id (filter isEligibleCamera (normalizedDevices rfc3339 (rec_devices r))))"
    by (simp add: normalizedDevices_def filter_mset_image_mset multiset.map_comp comp_def normalized_device_def
      filter_filter_mset conj_commute)
  finally show ?thesis using view_cameras [OF assms(1)] by simp
qed

section \<open>A store that is watched\<close>

definition demo_local :: LocalStore where
  "demo_local = \<lparr>ls_root = ''/data'', ls_mime = (\<lambda>_. [])\<rparr>"

definition demo_disk :: disk where
  "demo_disk = \<lparr>dk_files = [], dk_faults = []\<rparr>"

definition demo_monitor :: "disk nm_service" where
  "demo_monitor =
     \<lparr>nms_repo = Some \<lparr>rp_list = (\<lambda>_. Inr []), rp_nvr_list = Inr [demo_store], rp_store = (\<lambda>_. Inl RvNotFound),
        rp_nvr_store = (\<lambda>_. Inr demo_store)\<rparr>,
      nms_authorization = Some (\<lambda>_ _. Inr ''wss://s''), nms_snapshots = Some (local_store demo_local)\<rparr>"

text \<open>An authorizer that allows everything and whose audit log takes the events before the last.\<close>

definition demo_viewer :: nm_authorizer where
  "demo_viewer = \<lparr>na_can_view = (\<lambda>_. Inr True), na_filter = Inr,
     na_record = Some (\<lambda>e. ev_action e \<noteq> ''snapshot.refresh''), na_backfill = Some (\<lambda>_. Inr True)\<rparr>"

definition demo_upload :: "string \<Rightarrow> nm_request" where
  "demo_upload body =
     \<lparr>nq_method = ''POST'', nq_path = ''/snapshot'', nq_org = ''7'', nq_camera = ''2'', nq_content_type = ''image/jpeg'',
      nq_body = bytes_reader body, nq_remote_addr = ''10.0.0.1:80'', nq_user_agent = [], nq_request_id = []\<rparr>"

definition demo_picture :: string where "demo_picture = [CHR 0xFF, CHR 0xD8, CHR 0xFF, CHR 0xE0]"

lemma demo_refresh_refused:
  "fst (fst (nm_saveSnapshot (Some demo_viewer) (Some demo_monitor) (demo_upload demo_picture) demo_disk)) = 503"
  by code_simp

lemma snapshot_refresh_atomic_witness:
  "case nm_saveSnapshot (Some demo_viewer) (Some demo_monitor) (demo_upload demo_picture) demo_disk of
     (reply, events, d') \<Rightarrow> fst reply = 503 \<and>
       (\<forall>k. picture_key demo_local k \<longrightarrow> restored (local_object demo_local d' k) (local_object demo_local demo_disk k))"
proof -
  obtain reply events d' where
    run: "nm_saveSnapshot (Some demo_viewer) (Some demo_monitor) (demo_upload demo_picture) demo_disk = (reply, events, d')"
    by (metis prod.collapse)
  have "ls_root demo_local \<noteq> ''/''" "nms_snapshots demo_monitor = Some (local_store demo_local)"
    by (simp_all add: demo_local_def demo_monitor_def)
  note refresh = snapshot_refresh_atomic [OF this run]
  have "sound demo_disk" "fst reply = 503" using demo_refresh_refused run by (simp add: demo_disk_def sound_def, simp)
  then show ?thesis using refresh by (simp add: run)
qed

lemma demo_stream:
  "nm_createSession (Some demo_viewer) (Some demo_monitor) False (demo_upload ''{\"mode\":\"live\"}'') =
     ((200, NmBodyStream \<lparr>sp_url = ''wss://s'', sp_mode = ''live''\<rparr>),
      snd (nm_createSession (Some demo_viewer) (Some demo_monitor) False (demo_upload ''{\"mode\":\"live\"}'')))"
proof -
  have "fst (nm_createSession (Some demo_viewer) (Some demo_monitor) False (demo_upload ''{\"mode\":\"live\"}'')) =
      (200, NmBodyStream \<lparr>sp_url = ''wss://s'', sp_mode = ''live''\<rparr>)" by code_simp
  then show ?thesis by (metis prod.collapse)
qed

lemma stream_session_guarded_witness:
  "stream_allowed demo_viewer demo_monitor (demo_upload ''{\"mode\":\"live\"}'')
     (snd (nm_createSession (Some demo_viewer) (Some demo_monitor) False (demo_upload ''{\"mode\":\"live\"}'')))
     \<lparr>sp_url = ''wss://s'', sp_mode = ''live''\<rparr>"
  by (rule stream_session_guarded [OF demo_stream])

lemma failed_refresh_leaves_picture_witness:
  "\<exists>d'. snap_SaveWithRollback (local_store demo_local) 7 2 demo_picture
        (demo_disk\<lparr>dk_faults := [None, None, None, None, None, None, Some (''no space'', 0)]\<rparr>) =
      (Inl (NmOther ''no space''), d') \<and>
    map_option fst (local_object demo_local d' (nm_snapshotObjectKey 7 2)) = Some demo_picture"
  by (rule failed_refresh_leaves_picture) (simp_all add: demo_local_def demo_disk_def local_object_def)

lemma monitor_and_view_agree_witness:
  "\<exists>d. demo_view = Some d \<and> mset (map nc_id (camerasFromRecords demo_store True)) = mset (map camera_id (sd_cameras d))"
proof -
  obtain d where d: "demo_view = Some d" using demo_view_computed by blast
  have "list_all (\<lambda>dev. trim_space (bd_category dev) = bd_category dev \<and> trim_space (bd_provider dev) = bd_provider dev)
      (rec_devices demo_store)" by code_simp
  then show ?thesis
    using monitor_and_view_agree [OF d [unfolded demo_view_def], of True] d by (auto simp: list_all_iff)
qed

end
