(* ===== verification/AI_Recognizer.thy ===== *)
theory AI_Recognizer
  imports GoMime GoJsonTree GoTime GoSort
begin

text \<open>
  The recognition of what a camera shows (package \<open>internal/channelai\<close>: \<open>recognizer.go\<close>, \<open>minimax_recognizer.go\<close>):
  reading the answer of a model, which may be JSON, JSON in a fence, JSON inside prose, or prose, and bringing it
  into a normal form.  The environment, the network and the external command are parameters; the requests are
  built whole, with the prompt and the schema the code sends.
\<close>

section \<open>Data\<close>

record ai_result =
  ai_scene_type :: string
  ai_area_type :: string
  ai_area_number :: string
  ai_card_text :: string
  ai_decision_source :: string
  ai_confidence :: string
  ai_needs_review :: bool
  ai_raw_notes :: string
  ai_provider :: string
  ai_raw_result :: string

definition no_result :: ai_result where
  "no_result = \<lparr>ai_scene_type = [], ai_area_type = [], ai_area_number = [], ai_card_text = [], ai_decision_source = [],
     ai_confidence = [], ai_needs_review = False, ai_raw_notes = [], ai_provider = [], ai_raw_result = []\<rparr>"

text \<open>The member \<open>raw_result\<close> takes any value; it is overwritten before anything reads it.\<close>

definition dec_result :: "ai_result decoder" where
  "dec_result = dec_struct
     [(''scene_type'', on_field ai_scene_type ai_scene_type_update dec_string),
      (''area_type'', on_field ai_area_type ai_area_type_update dec_string),
      (''area_number'', on_field ai_area_number ai_area_number_update dec_string),
      (''card_text'', on_field ai_card_text ai_card_text_update dec_string),
      (''decision_source'', on_field ai_decision_source ai_decision_source_update dec_string),
      (''confidence'', on_field ai_confidence ai_confidence_update dec_string),
      (''needs_review'', on_field ai_needs_review ai_needs_review_update dec_bool),
      (''raw_notes'', on_field ai_raw_notes ai_raw_notes_update dec_string),
      (''provider'', on_field ai_provider ai_provider_update dec_string),
      (''raw_result'', (\<lambda>v old. Some old))]"

datatype ai_error =
  AiMissingURL | AiTransport | AiStatus int string | AiDecode | AiEmptyOutput | AiParse string
| AiMissingCommand | AiMissingKey | AiOutOfFuel | AiTimedOut duration | AiCommandFailed string string | AiNoResult | AiNotConfigured
| AiUnsupported string | AiProviderFailed string

section \<open>Normal form\<close>

definition one_of :: "string list \<Rightarrow> string \<Rightarrow> string \<Rightarrow> string" where
  "one_of allowed other v = (let clean = to_lower (trim_space v) in if clean \<in> set allowed then clean else other)"

definition area_types :: "string list" where
  "area_types = [''treatment'', ''vip_treatment'', ''consultation'', ''beauty'']"

definition scene_types :: "string list" where
  "scene_types = [''treatment'', ''vip_treatment'', ''consultation'', ''beauty'', ''front_desk'', ''corridor'', ''passage'',
     ''waiting_area'', ''hall'', ''entrance'', ''storage'', ''pharmacy'', ''machine_room'', ''unknown'']"

definition ai_normalizeAreaType :: "string \<Rightarrow> string" where
  "ai_normalizeAreaType = one_of area_types []"

definition ai_normalizeSceneType :: "string \<Rightarrow> string" where
  "ai_normalizeSceneType = one_of scene_types ''unknown''"

definition normalizeDecisionSource :: "string \<Rightarrow> string" where
  "normalizeDecisionSource = one_of [''number_card'', ''scene'', ''none''] ''none''"

definition normalizeConfidence :: "string \<Rightarrow> string" where
  "normalizeConfidence = one_of [''high'', ''medium'', ''low''] ''medium''"

definition ai_normalize :: "ai_result \<Rightarrow> ai_result" where
  "ai_normalize r =
     (let area = ai_normalizeAreaType (ai_area_type r);
          confidence = normalizeConfidence (ai_confidence r)
      in r\<lparr>ai_scene_type := (if area \<noteq> [] then area else ai_normalizeSceneType (ai_scene_type r)),
           ai_area_type := area, ai_area_number := trim_space (ai_area_number r),
           ai_card_text := trim_space (ai_card_text r),
           ai_decision_source := normalizeDecisionSource (ai_decision_source r),
           ai_confidence := confidence, ai_raw_notes := trim_space (ai_raw_notes r),
           ai_needs_review := (if confidence = ''low'' then True else ai_needs_review r)\<rparr>)"

section \<open>The text of an answer\<close>

definition fence :: string where "fence = ''```''"

definition newline :: char where "newline = CHR 0x0A"

text \<open>The last line after the first that opens or closes a fence.\<close>

definition last_fence :: "string list \<Rightarrow> nat" where
  "last_fence ls =
     (case find (\<lambda>i. has_prefix (trim_space (ls ! i)) fence) (rev [1..<length ls]) of
        Some i \<Rightarrow> i
      | None \<Rightarrow> length ls)"

definition extractJSONText :: "string \<Rightarrow> string" where
  "extractJSONText v =
     (let t = trim_space v in
      if \<not> has_prefix t fence then t
      else
        let ls = split_on newline t in
        if length ls < 3 then t
        else if \<not> has_prefix (trim_space (hd ls)) fence then t
        else
          let stop = last_fence ls in
          if stop \<le> 1 then t else trim_space (join [newline] (drop 1 (take stop ls))))"

definition json_valid :: "string \<Rightarrow> bool" where
  "json_valid t \<longleftrightarrow> json_compact t \<noteq> None"

text \<open>The text from an opening brace to the one that closes it; \<open>depth\<close> counts the braces that are open.\<close>

fun brace_match :: "nat \<Rightarrow> bool \<Rightarrow> bool \<Rightarrow> string \<Rightarrow> string option" where
  "brace_match depth inString escaped [] = None"
| "brace_match depth inString escaped (c # cs) =
     (if inString then
        (if escaped then map_option (Cons c) (brace_match depth True False cs)
         else if c = backslash then map_option (Cons c) (brace_match depth True True cs)
         else if c = quote then map_option (Cons c) (brace_match depth False False cs)
         else map_option (Cons c) (brace_match depth True False cs))
      else if c = quote then map_option (Cons c) (brace_match depth True False cs)
      else if c = CHR ''{'' then map_option (Cons c) (brace_match (depth + 1) False False cs)
      else if c = CHR ''}'' then
        (if depth = 1 then Some [c] else map_option (Cons c) (brace_match (depth - 1) False False cs))
      else map_option (Cons c) (brace_match depth False False cs))"

fun first_object :: "string \<Rightarrow> string option" where
  "first_object [] = None"
| "first_object (c # cs) =
     (if c = CHR ''{'' then
        (case brace_match 0 False False (c # cs) of
           Some candidate \<Rightarrow> if json_valid candidate then Some candidate else first_object cs
         | None \<Rightarrow> first_object cs)
      else first_object cs)"

definition firstJSONObject :: "string \<Rightarrow> string option" where
  "firstJSONObject v = first_object (trim_space v)"

definition extractModelJSONText :: "string \<Rightarrow> string" where
  "extractModelJSONText v =
     (let t = extractJSONText v in
      if json_valid t then t
      else case firstJSONObject t of Some extracted \<Rightarrow> extracted | None \<Rightarrow> t)"

text \<open>\<open>strings.Fields\<close>\<close>

fun leading_word :: "string \<Rightarrow> string" where
  "leading_word [] = []"
| "leading_word (c # cs) = (if space_width space2 space3 (c # cs) \<noteq> 0 then [] else c # leading_word cs)"

lemma leading_word_progress:
  assumes "trim_left s \<noteq> []"
  shows "length (trim_left s) - length (leading_word (trim_left s)) < length s"
proof -
  have "space_width space2 space3 (trim_left s) = 0" by (simp add: trim_left_def)
  then have "leading_word (trim_left s) \<noteq> []" using assms by (cases "trim_left s") auto
  moreover have "length (trim_left s) \<le> length s"
    unfolding trim_left_def using strip_split [of s space2 space3] by (metis le_add2 length_append)
  ultimately show ?thesis using assms by (cases "trim_left s"; cases "leading_word (trim_left s)") auto
qed

function fields_of :: "string \<Rightarrow> string list" where
  "fields_of s =
     (if trim_left s = [] then []
      else leading_word (trim_left s) # fields_of (drop (length (leading_word (trim_left s))) (trim_left s)))"
  by pat_completeness auto
termination
  by (relation "measure length") (use leading_word_progress in auto)

declare fields_of.simps [simp del]

definition compactModelText :: "string \<Rightarrow> string" where
  "compactModelText v =
     (let t = join '' '' (fields_of (trim_space v))
      in if length t \<le> 500 then t else take 500 t @ ''...[truncated]'')"

section \<open>Prose\<close>

definition ai_containsAny :: "string \<Rightarrow> string list \<Rightarrow> bool" where
  "ai_containsAny v markers \<longleftrightarrow> list_ex (\<lambda>m. contains v (to_lower m)) markers"

definition fallbacks :: "(string list \<times> string \<times> string) list" where
  "fallbacks =
     [([utf8 [0x5F31, 0x7535, 0x5BA4]], ''machine_room'', utf8 [0x5F31, 0x7535, 0x5BA4]),
      ([utf8 [0x5F31, 0x7535, 0x95F4]], ''machine_room'', utf8 [0x5F31, 0x7535, 0x95F4]),
      ([utf8 [0x673A, 0x623F], ''machine room'', ''weak current room''], ''machine_room'', utf8 [0x673A, 0x623F]),
      ([utf8 [0x533B, 0x751F, 0x529E, 0x516C, 0x5BA4], ''doctor'' @ [CHR 0x27] @ ''s office'', ''doctor office''], ''unknown'', utf8 [0x533B, 0x751F, 0x529E, 0x516C, 0x5BA4]),
      ([utf8 [0x5317, 0x4FA7, 0x95E8], ''north side door''], ''entrance'', utf8 [0x5317, 0x4FA7, 0x95E8]),
      ([utf8 [0x5357, 0x4FA7, 0x95E8], ''south side door''], ''entrance'', utf8 [0x5357, 0x4FA7, 0x95E8]),
      ([utf8 [0x4E1C, 0x4FA7, 0x95E8], ''east side door''], ''entrance'', utf8 [0x4E1C, 0x4FA7, 0x95E8]),
      ([utf8 [0x897F, 0x4FA7, 0x95E8], ''west side door''], ''entrance'', utf8 [0x897F, 0x4FA7, 0x95E8]),
      ([utf8 [0x5165, 0x53E3], ''entrance'', ''door area''], ''entrance'', utf8 [0x5165, 0x53E3]),
      ([utf8 [0x8D70, 0x5ECA], ''corridor'', ''hallway''], ''corridor'', utf8 [0x8D70, 0x5ECA]),
      ([utf8 [0x901A, 0x9053], ''passage''], ''passage'', utf8 [0x901A, 0x9053])]"

definition fallback_result :: "string \<Rightarrow> string \<Rightarrow> ai_result" where
  "fallback_result scene area = no_result\<lparr>ai_scene_type := scene, ai_area_number := area,
     ai_decision_source := ''scene'', ai_confidence := ''low'', ai_needs_review := True,
     ai_raw_notes := utf8 [0x6A21, 0x578B, 0x672A, 0x8FD4, 0x56DE, 0x5408, 0x6CD5, 0x20, 0x4A, 0x53, 0x4F, 0x4E, 0xFF0C, 0x5DF2, 0x6839, 0x636E, 0x6587, 0x672C, 0x63CF, 0x8FF0, 0x8BC6, 0x522B, 0x4E3A, 0x975E, 0x4E1A, 0x52A1, 0x533A, 0x57DF, 0xFF0C, 0x9700, 0x4EBA, 0x5DE5, 0x590D, 0x6838, 0x3002]\<rparr>"

definition fallbackModelTextResult :: "string \<Rightarrow> ai_result option" where
  "fallbackModelTextResult v =
     (let t = to_lower (trim_space v) in
      if t = [] then None
      else case find (\<lambda>(markers, _). ai_containsAny t markers) fallbacks of
          None \<Rightarrow> None
        | Some (_, scene, area) \<Rightarrow> Some (fallback_result scene area))"

text \<open>What both HTTP recognisers do with the text of the model.\<close>

definition result_of_text :: "string \<Rightarrow> string \<Rightarrow> string \<Rightarrow> ai_error + ai_result" where
  "result_of_text t responseBody provider =
     (case (case unmarshal dec_result (extractModelJSONText t) no_result of
          Some output \<Rightarrow> Some output
        | None \<Rightarrow> fallbackModelTextResult t) of
        None \<Rightarrow> Inl (AiParse (compactModelText t))
      | Some output \<Rightarrow> Inr (ai_normalize (output\<lparr>ai_raw_result := responseBody, ai_provider := provider\<rparr>)))"

section \<open>Output of a command\<close>

definition looksLikeResult :: "ai_result \<Rightarrow> bool" where
  "looksLikeResult r \<longleftrightarrow>
     trim_space (ai_scene_type r) \<noteq> [] \<or> trim_space (ai_area_type r) \<noteq> [] \<or>
     trim_space (ai_area_number r) \<noteq> [] \<or> trim_space (ai_raw_notes r) \<noteq> []"

text \<open>The first of the members with a result in it; \<open>again\<close> reads a member that is a text.\<close>

fun first_nested :: "(string \<Rightarrow> ai_error + ai_result) \<Rightarrow> (string \<times> string) list \<Rightarrow> string list \<Rightarrow> ai_error + ai_result" where
  "first_nested again wrapper [] = Inl AiNoResult"
| "first_nested again wrapper (key # keys) =
     (case map_of wrapper key of
        None \<Rightarrow> first_nested again wrapper keys
      | Some raw \<Rightarrow>
          case unmarshal dec_result raw no_result of
            Some nested \<Rightarrow>
              if looksLikeResult nested then Inr nested
              else (case unmarshal dec_string raw [] of
                  Some t \<Rightarrow> (case again t of Inr parsed \<Rightarrow> Inr parsed | Inl _ \<Rightarrow> first_nested again wrapper keys)
                | None \<Rightarrow> first_nested again wrapper keys)
          | None \<Rightarrow>
              (case unmarshal dec_string raw [] of
                 Some t \<Rightarrow> (case again t of Inr parsed \<Rightarrow> Inr parsed | Inl _ \<Rightarrow> first_nested again wrapper keys)
               | None \<Rightarrow> first_nested again wrapper keys))"

text \<open>
  \<open>parseCommandRecognitionOutput\<close> goes on with a text inside the JSON; \<open>fuel\<close> bounds how deep.
\<close>

fun parse_command_output :: "nat \<Rightarrow> string \<Rightarrow> ai_error + ai_result" where
  "parse_command_output 0 answer = Inl AiOutOfFuel"
| "parse_command_output (Suc fuel) answer =
     (let clean = trim_space answer in
      if clean = [] then Inl AiEmptyOutput
      else
        let nested =
          (case unmarshal_raw_map clean of
             None \<Rightarrow> Inl (AiParse [])
           | Some wrapper \<Rightarrow>
               first_nested (parse_command_output fuel) wrapper [''result'', ''data'', ''output'', ''response''])
        in case unmarshal dec_result clean no_result of
             Some direct \<Rightarrow> if looksLikeResult direct then Inr direct else nested
           | None \<Rightarrow> nested)"

text \<open>
  A text inside the JSON has fewer quotes and backslashes than the JSON: each of its own was written with
  one, and the two quotes around it are gone.  So their number is enough fuel.
\<close>

definition marks :: "string \<Rightarrow> nat" where
  "marks s = length (filter (\<lambda>c. c = quote \<or> c = backslash) s)"

definition parseCommandRecognitionOutput :: "string \<Rightarrow> ai_error + ai_result" where
  "parseCommandRecognitionOutput answer = parse_command_output (Suc (marks answer)) answer"

section \<open>The request\<close>

definition ai_prompt :: string where
  "ai_prompt = trim_space (utf8 [0x4F60, 0x662F, 0x533B, 0x7597, 0x95E8, 0x5E97, 0x76D1, 0x63A7, 0x753B, 0x9762, 0x8BC6, 0x522B, 0x52A9, 0x624B, 0x3002, 0x8BF7, 0x5224, 0x65AD, 0x8FD9, 0x5F20, 0x6444, 0x50CF, 0x5934, 0x622A, 0x56FE, 0x5BF9, 0x5E94, 0x7684, 0x533A, 0x57DF, 0x7C7B, 0x578B, 0xFF0C, 0x5E76, 0x63D0, 0x53D6, 0x753B, 0x9762, 0x4E2D, 0x7F16, 0x53F7, 0x5361, 0x7247, 0x7684, 0x4FE1, 0x606F, 0x3002, 0xA, 0xA, 0x8BF7, 0x53EA, 0x8F93, 0x51FA, 0x4E00, 0x4E2A, 0x20, 0x4A, 0x53, 0x4F, 0x4E, 0x20, 0x5BF9, 0x8C61, 0xFF0C, 0x4E0D, 0x8981, 0x8F93, 0x51FA, 0x20, 0x4D, 0x61, 0x72, 0x6B, 0x64, 0x6F, 0x77, 0x6E, 0xFF0C, 0x4E0D, 0x8981, 0x4F7F, 0x7528, 0x4EE3, 0x7801, 0x5757, 0xFF0C, 0x4E0D, 0x8981, 0x89E3, 0x91CA, 0xFF0C, 0x4E0D, 0x8981, 0x8F93, 0x51FA, 0x20, 0x3C, 0x74, 0x68, 0x69, 0x6E, 0x6B, 0x3E, 0x20, 0x6216, 0x601D, 0x8003, 0x8FC7, 0x7A0B, 0x3002, 0xA, 0xA, 0x4E1A, 0x52A1, 0x533A, 0x57DF, 0x5141, 0x8BB8, 0xFF1A, 0xA, 0x2D, 0x20, 0x74, 0x72, 0x65, 0x61, 0x74, 0x6D, 0x65, 0x6E, 0x74, 0xFF1A, 0x6CBB, 0x7597, 0x5BA4, 0xFF0C, 0x6307, 0x533B, 0x7F8E, 0x6CBB, 0x7597, 0x5BA4, 0x3002, 0xA, 0x2D, 0x20, 0x76, 0x69, 0x70, 0x5F, 0x74, 0x72, 0x65, 0x61, 0x74, 0x6D, 0x65, 0x6E, 0x74, 0xFF1A, 0x56, 0x49, 0x50, 0x6CBB, 0x7597, 0x5BA4, 0xFF0C, 0x4EC5, 0x5F53, 0x753B, 0x9762, 0x3001, 0x7F16, 0x53F7, 0x5361, 0x7247, 0x3001, 0x6C34, 0x5370, 0x6216, 0x53EF, 0x89C1, 0x6587, 0x5B57, 0x660E, 0x786E, 0x51FA, 0x73B0, 0x201C, 0x56, 0x49, 0x50, 0x201D, 0x65F6, 0x4F7F, 0x7528, 0xFF1B, 0x4E0D, 0x80FD, 0x56E0, 0x4E3A, 0x623F, 0x95F4, 0x770B, 0x8D77, 0x6765, 0x66F4, 0x9AD8, 0x7EA7, 0x800C, 0x731C, 0x6D4B, 0x4E3A, 0x20, 0x56, 0x49, 0x50, 0x3002, 0xA, 0x2D, 0x20, 0x63, 0x6F, 0x6E, 0x73, 0x75, 0x6C, 0x74, 0x61, 0x74, 0x69, 0x6F, 0x6E, 0xFF1A, 0x9762, 0x8BCA, 0x5BA4, 0x3002, 0xA, 0x2D, 0x20, 0x62, 0x65, 0x61, 0x75, 0x74, 0x79, 0xFF1A, 0x751F, 0x7F8E, 0x3001, 0x751F, 0x7F8E, 0x533A, 0x3001, 0x751F, 0x7F8E, 0x6CBB, 0x7597, 0x5BA4, 0x3001, 0x7F8E, 0x5BB9, 0x533A, 0x3001, 0x7F8E, 0x5BB9, 0x6CBB, 0x7597, 0x5BA4, 0x3002, 0xA, 0xA, 0x975E, 0x4E1A, 0x52A1, 0x533A, 0x57DF, 0x53EF, 0x9009, 0xFF1A, 0x66, 0x72, 0x6F, 0x6E, 0x74, 0x5F, 0x64, 0x65, 0x73, 0x6B, 0x3001, 0x63, 0x6F, 0x72, 0x72, 0x69, 0x64, 0x6F, 0x72, 0x3001, 0x70, 0x61, 0x73, 0x73, 0x61, 0x67, 0x65, 0x3001, 0x77, 0x61, 0x69, 0x74, 0x69, 0x6E, 0x67, 0x5F, 0x61, 0x72, 0x65, 0x61, 0x3001, 0x68, 0x61, 0x6C, 0x6C, 0x3001, 0x65, 0x6E, 0x74, 0x72, 0x61, 0x6E, 0x63, 0x65, 0x3001, 0x73, 0x74, 0x6F, 0x72, 0x61, 0x67, 0x65, 0x3001, 0x70, 0x68, 0x61, 0x72, 0x6D, 0x61, 0x63, 0x79, 0x3001, 0x6D, 0x61, 0x63, 0x68, 0x69, 0x6E, 0x65, 0x5F, 0x72, 0x6F, 0x6F, 0x6D, 0x3001, 0x75, 0x6E, 0x6B, 0x6E, 0x6F, 0x77, 0x6E, 0x3002, 0xA, 0xA, 0x89C4, 0x5219, 0xFF1A, 0xA, 0x31, 0x2E, 0x20, 0x5982, 0x679C, 0x753B, 0x9762, 0x4E2D, 0x6709, 0x663E, 0x8457, 0x7F16, 0x53F7, 0x5361, 0x7247, 0xFF0C, 0x4E14, 0x5361, 0x7247, 0x5199, 0x6709, 0x201C, 0x6CBB, 0x7597, 0x5BA4, 0x20, 0x31, 0x201D, 0x201C, 0x56, 0x49, 0x50, 0x6CBB, 0x7597, 0x5BA4, 0x201D, 0x201C, 0x9762, 0x8BCA, 0x5BA4, 0x20, 0x32, 0x201D, 0x201C, 0x751F, 0x7F8E, 0x20, 0x33, 0x201D, 0x7B49, 0x4E1A, 0x52A1, 0x7C7B, 0x578B, 0x548C, 0x6570, 0x5B57, 0xFF0C, 0x5219, 0x20, 0x61, 0x72, 0x65, 0x61, 0x5F, 0x74, 0x79, 0x70, 0x65, 0x20, 0x548C, 0x20, 0x61, 0x72, 0x65, 0x61, 0x5F, 0x6E, 0x75, 0x6D, 0x62, 0x65, 0x72, 0x20, 0x5FC5, 0x987B, 0x4EE5, 0x5361, 0x7247, 0x6587, 0x672C, 0x4E3A, 0x51C6, 0xFF0C, 0x5373, 0x4F7F, 0x753B, 0x9762, 0x73AF, 0x5883, 0x5224, 0x65AD, 0x4E0D, 0x540C, 0x3002, 0xA, 0x32, 0x2E, 0x20, 0x5982, 0x679C, 0x5361, 0x7247, 0x53EA, 0x6709, 0x6570, 0x5B57, 0xFF0C, 0x6CA1, 0x6709, 0x4E1A, 0x52A1, 0x7C7B, 0x578B, 0xFF0C, 0x5219, 0x20, 0x61, 0x72, 0x65, 0x61, 0x5F, 0x6E, 0x75, 0x6D, 0x62, 0x65, 0x72, 0x20, 0x586B, 0x8BE5, 0x6570, 0x5B57, 0xFF0C, 0x61, 0x72, 0x65, 0x61, 0x5F, 0x74, 0x79, 0x70, 0x65, 0x20, 0x6839, 0x636E, 0x753B, 0x9762, 0x73AF, 0x5883, 0x5224, 0x65AD, 0x3002, 0xA, 0x33, 0x2E, 0x20, 0x5982, 0x679C, 0x6CA1, 0x6709, 0x5361, 0x7247, 0xFF0C, 0x5219, 0x6839, 0x636E, 0x753B, 0x9762, 0x5224, 0x65AD, 0x20, 0x73, 0x63, 0x65, 0x6E, 0x65, 0x5F, 0x74, 0x79, 0x70, 0x65, 0xFF1B, 0x80FD, 0x660E, 0x786E, 0x5C5E, 0x4E8E, 0x6CBB, 0x7597, 0x5BA4, 0x3001, 0x9762, 0x8BCA, 0x5BA4, 0x3001, 0x751F, 0x7F8E, 0x65F6, 0xFF0C, 0x4E5F, 0x53EF, 0x4EE5, 0x586B, 0x20, 0x61, 0x72, 0x65, 0x61, 0x5F, 0x74, 0x79, 0x70, 0x65, 0xFF0C, 0x4F46, 0x20, 0x61, 0x72, 0x65, 0x61, 0x5F, 0x6E, 0x75, 0x6D, 0x62, 0x65, 0x72, 0x20, 0x4E3A, 0x7A7A, 0x3002, 0xA, 0x34, 0x2E, 0x20, 0x5982, 0x679C, 0x4E0D, 0x662F, 0x4E09, 0x7C7B, 0x4E1A, 0x52A1, 0x533A, 0x57DF, 0xFF0C, 0x61, 0x72, 0x65, 0x61, 0x5F, 0x74, 0x79, 0x70, 0x65, 0x20, 0x7F6E, 0x7A7A, 0xFF0C, 0x73, 0x63, 0x65, 0x6E, 0x65, 0x5F, 0x74, 0x79, 0x70, 0x65, 0x20, 0x586B, 0x5BF9, 0x5E94, 0x975E, 0x4E1A, 0x52A1, 0x533A, 0x57DF, 0xFF0C, 0x61, 0x72, 0x65, 0x61, 0x5F, 0x6E, 0x75, 0x6D, 0x62, 0x65, 0x72, 0x20, 0x586B, 0x975E, 0x4E1A, 0x52A1, 0x533A, 0x57DF, 0x7684, 0x4E2D, 0x6587, 0x5B9E, 0x4F53, 0x540D, 0x79F0, 0xFF0C, 0x4F8B, 0x5982, 0x201C, 0x673A, 0x623F, 0x201D, 0x201C, 0x836F, 0x623F, 0x201D, 0x201C, 0x524D, 0x53F0, 0x201D, 0x201C, 0x8D70, 0x5ECA, 0x201D, 0x201C, 0x901A, 0x9053, 0x201D, 0x201C, 0x5019, 0x8BCA, 0x533A, 0x201D, 0x201C, 0x5927, 0x5385, 0x201D, 0x201C, 0x95E8, 0x53E3, 0x201D, 0x201C, 0x5E93, 0x623F, 0x201D, 0xFF1B, 0x65E0, 0x6CD5, 0x5224, 0x65AD, 0x65F6, 0x20, 0x61, 0x72, 0x65, 0x61, 0x5F, 0x6E, 0x75, 0x6D, 0x62, 0x65, 0x72, 0x20, 0x7F6E, 0x7A7A, 0x3002, 0xA, 0x35, 0x2E, 0x20, 0x41, 0x49, 0x20, 0x7ED3, 0x679C, 0x53EA, 0x662F, 0x9884, 0x586B, 0xFF0C, 0x7528, 0x6237, 0x4F1A, 0x4EBA, 0x5DE5, 0x786E, 0x8BA4, 0xFF1B, 0x4E0D, 0x786E, 0x5B9A, 0x65F6, 0x20, 0x63, 0x6F, 0x6E, 0x66, 0x69, 0x64, 0x65, 0x6E, 0x63, 0x65, 0x20, 0x7528, 0x20, 0x6C, 0x6F, 0x77, 0xFF0C, 0x6E, 0x65, 0x65, 0x64, 0x73, 0x5F, 0x72, 0x65, 0x76, 0x69, 0x65, 0x77, 0x20, 0x4E3A, 0x20, 0x74, 0x72, 0x75, 0x65, 0x3002, 0xA, 0x36, 0x2E, 0x20, 0x72, 0x61, 0x77, 0x5F, 0x6E, 0x6F, 0x74, 0x65, 0x73, 0x20, 0x7528, 0x4E2D, 0x6587, 0x7B80, 0x77ED, 0x8BF4, 0x660E, 0x5224, 0x65AD, 0x4F9D, 0x636E, 0x3002])"

definition minimaxPrompt :: "string \<Rightarrow> string" where
  "minimaxPrompt base = trim_space (utf8 [0x91CD, 0x8981, 0xFF1A, 0x7981, 0x6B62, 0x8F93, 0x51FA, 0x20, 0x3C, 0x74, 0x68, 0x69, 0x6E, 0x6B, 0x3E, 0x3001, 0x5206, 0x6790, 0x8FC7, 0x7A0B, 0x3001, 0x89E3, 0x91CA, 0x3001, 0x4D, 0x61, 0x72, 0x6B, 0x64, 0x6F, 0x77, 0x6E, 0x20, 0x6216, 0x4EE3, 0x7801, 0x5757, 0x3002, 0x4F60, 0x5FC5, 0x987B, 0x53EA, 0x8FD4, 0x56DE, 0x4E00, 0x4E2A, 0x5408, 0x6CD5, 0x20, 0x4A, 0x53, 0x4F, 0x4E, 0x20, 0x5BF9, 0x8C61, 0xFF0C, 0x4E14, 0x20, 0x4A, 0x53, 0x4F, 0x4E, 0x20, 0x5FC5, 0x987B, 0x7B26, 0x5408, 0x4E0B, 0x9762, 0x8981, 0x6C42, 0x3002, 0xA, 0xA] @ base)"

definition texts :: "string list \<Rightarrow> json" where
  "texts vs = JArray (map JString vs)"

definition any_text :: json where
  "any_text = JObject [(''type'', JString ''string'')]"

definition one_text :: "string list \<Rightarrow> json" where
  "one_text vs = JObject [(''enum'', texts vs), (''type'', JString ''string'')]"

definition schema :: json where
  "schema = JObject
     [(''additionalProperties'', JFalse),
      (''properties'', JObject
        [(''area_number'', any_text),
         (''area_type'', one_text [[], ''treatment'', ''vip_treatment'', ''consultation'', ''beauty'']),
         (''card_text'', any_text),
         (''confidence'', one_text [''high'', ''medium'', ''low'']),
         (''decision_source'', one_text [''number_card'', ''scene'', ''none'']),
         (''needs_review'', JObject [(''type'', JString ''boolean'')]),
         (''raw_notes'', any_text),
         (''scene_type'', one_text [''treatment'', ''vip_treatment'', ''consultation'', ''beauty'', ''front_desk'',
            ''corridor'', ''passage'', ''waiting_area'', ''hall'', ''entrance'', ''storage'', ''pharmacy'',
            ''machine_room'', ''unknown''])]),
      (''required'', texts [''scene_type'', ''area_type'', ''area_number'', ''card_text'', ''decision_source'',
         ''confidence'', ''needs_review'', ''raw_notes'']),
      (''type'', JString ''object'')]"

text \<open>\<open>json.Marshal\<close>; the members of a map come in the order of their keys, those of a struct as declared.\<close>

fun json_text :: "json \<Rightarrow> string" where
  "json_text JNull = ''null''"
| "json_text JTrue = ''true''"
| "json_text JFalse = ''false''"
| "json_text (JNumber num) = num"
| "json_text (JString t) = json_string t"
| "json_text (JArray vs) = ''['' @ join '','' (map json_text vs) @ '']''"
| "json_text (JObject ms) = ''{'' @ join '','' (map (\<lambda>m. json_string (fst m) @ '':'' @ json_text (snd m)) ms) @ ''}''"

definition responses_payload :: "string \<Rightarrow> string \<Rightarrow> json" where
  "responses_payload model imageURL = JObject
     [(''model'', JString model),
      (''input'', JArray [JObject
        [(''role'', JString ''user''),
         (''content'', JArray
           [JObject [(''type'', JString ''input_text''), (''text'', JString ai_prompt)],
            JObject [(''type'', JString ''input_image''), (''image_url'', JString imageURL)]])]]),
      (''text'', JObject [(''format'', JObject
        [(''type'', JString ''json_schema''), (''name'', JString ''channel_scene_recognition''),
         (''strict'', JTrue), (''schema'', schema)])])]"

definition chat_payload :: "string \<Rightarrow> string \<Rightarrow> json" where
  "chat_payload model imageURL = JObject
     [(''model'', JString model),
      (''messages'', JArray [JObject
        [(''role'', JString ''user''),
         (''content'', JArray
           [JObject [(''type'', JString ''text''), (''text'', JString (minimaxPrompt ai_prompt))],
            JObject [(''type'', JString ''image_url''), (''image_url'', JObject [(''url'', JString imageURL)])]])]]),
      (''response_format'', JObject
        [(''type'', JString ''json_schema''),
         (''json_schema'', JObject [(''name'', JString ''channel_scene_recognition''), (''strict'', JTrue),
            (''schema'', schema)])])]"

record ai_request =
  aq_url :: string
  aq_headers :: "(string \<times> string) list"
  aq_body :: string

text \<open>What comes of a request: nothing (no answer, or a body that cannot be read), or a status and a body.\<close>

datatype ai_answer = AiNoAnswer | AiAnswer int string

definition trim_right_slashes :: "string \<Rightarrow> string" where
  "trim_right_slashes s = rev (dropWhile (\<lambda>c. c = CHR ''/'') (rev s))"

definition endpoint :: "string \<Rightarrow> string \<Rightarrow> string" where
  "endpoint baseURL0 path0 =
     (let baseURL = trim_right_slashes (trim_space baseURL0);
          path = ''/'' @ dropWhile (\<lambda>c. c = CHR ''/'') path0
      in baseURL @ (if has_suffix baseURL ''/v1'' \<and> has_prefix path ''/v1/'' then drop 3 path else path))"

section \<open>The answer\<close>

text \<open>The texts in the answer: \<open>output[].content[].text\<close>, or \<open>choices[].message.content\<close>.\<close>

record output_content =
  oc_type :: string
  oc_text :: string

definition dec_output_content :: "output_content decoder" where
  "dec_output_content = dec_struct
     [(''type'', on_field oc_type oc_type_update dec_string),
      (''text'', on_field oc_text oc_text_update dec_string)]"

definition no_content :: output_content where "no_content = \<lparr>oc_type = [], oc_text = []\<rparr>"

definition dec_responses :: "output_content list list decoder" where
  "dec_responses = dec_struct
     [(''output'', dec_slice (dec_struct [(''content'', dec_slice dec_output_content no_content)]) [])]"

definition first_text :: "string list \<Rightarrow> string" where
  "first_text ts = (case find (\<lambda>t. trim_space t \<noteq> []) ts of Some t \<Rightarrow> t | None \<Rightarrow> [])"

definition firstOutputText :: "output_content list list \<Rightarrow> string" where
  "firstOutputText outputs = first_text (map oc_text (concat outputs))"

definition dec_choices :: "string list decoder" where
  "dec_choices = dec_struct
     [(''choices'', dec_slice (dec_struct [(''message'', dec_struct [(''content'', dec_string)])]) [])]"

definition firstChoiceText :: "string list \<Rightarrow> string" where
  "firstChoiceText choices = first_text choices"

text \<open>The outcome of the request, as both recognisers treat it; \<open>get\<close> reads the text of the model.\<close>

definition ai_exchange ::
  "ai_answer \<Rightarrow> (string \<Rightarrow> string option) \<Rightarrow> string \<Rightarrow> ai_error + ai_result" where
  "ai_exchange answer get provider =
     (case answer of
        AiNoAnswer \<Rightarrow> Inl AiTransport
      | AiAnswer status whole \<Rightarrow>
          let responseBody = limited 4194304 whole in
          if status < 200 \<or> status \<ge> 300 then Inl (AiStatus status (trim_space responseBody))
          else case get responseBody of
              None \<Rightarrow> Inl AiDecode
            | Some t \<Rightarrow>
                if trim_space t = [] then Inl AiEmptyOutput
                else result_of_text t responseBody provider)"

section \<open>The recognisers\<close>

record OpenAIRecognizer =
  oa_api_key :: string
  oa_base_url :: string
  oa_model :: string
  oa_provider :: string

record MiniMaxRecognizer =
  mx_api_key :: string
  mx_base_url :: string
  mx_model :: string

record CommandRecognizer =
  cr_command :: string
  cr_args :: "string list"
  cr_timeout :: duration

datatype Recognizer = OpenAI OpenAIRecognizer | MiniMax MiniMaxRecognizer | ExternalCommand CommandRecognizer

text \<open>
  What the package asks of its surroundings: the environment, the network, and running a command.  A command
  ends by its deadline or by itself, then with its output and the error of its end, if it has one.
\<close>

record ai_command =
  ac_program :: string
  ac_args :: "string list"
  ac_env :: "(string \<times> string) list"
  ac_timeout :: duration

datatype ai_exit = AiDeadline | AiExit "string option" string

record ai_env =
  ai_getenv :: "string \<Rightarrow> string"
  ai_post :: "ai_request \<Rightarrow> ai_answer"
  ai_run :: "ai_command \<Rightarrow> ai_exit"

definition env_of :: "ai_env \<Rightarrow> string \<Rightarrow> string" where
  "env_of e name = trim_space (ai_getenv e name)"

definition env_url :: "ai_env \<Rightarrow> string \<Rightarrow> string" where
  "env_url e name = trim_right_slashes (env_of e name)"

definition openAIProviderName :: "ai_env \<Rightarrow> string \<Rightarrow> string \<Rightarrow> string" where
  "openAIProviderName e baseURL model =
     (let configured = env_of e ''VISION_PROVIDER'' in
      if configured \<noteq> [] then configured
      else if contains (to_lower (trim_space baseURL)) ''minimaxi.com'' \<or>
              contains (to_lower (trim_space model)) ''minimax'' then ''minimax''
      else ''openai'')"

definition or_else :: "string \<Rightarrow> string \<Rightarrow> string" where
  "or_else v other = (if v = [] then other else v)"

definition ai_defaultModel :: string where "ai_defaultModel = ''gpt-5.5''"

definition NewOpenAIRecognizerFromEnv :: "ai_env \<Rightarrow> Recognizer option" where
  "NewOpenAIRecognizerFromEnv e =
     (let apiKey = or_else (env_of e ''VISION_API_KEY'') (env_of e ''OPENAI_API_KEY'') in
      if apiKey = [] then None
      else
        let baseURL = or_else (or_else (env_url e ''VISION_API_BASE_URL'') (env_url e ''OPENAI_BASE_URL''))
              ''https://api.openai.com'';
            model = or_else (env_of e ''VISION_MODEL'') ai_defaultModel
        in Some (OpenAI \<lparr>oa_api_key = apiKey, oa_base_url = baseURL, oa_model = model,
             oa_provider = openAIProviderName e baseURL model\<rparr>))"

definition minimaxDefaultBaseURL :: string where "minimaxDefaultBaseURL = ''https://api.minimaxi.com''"

definition minimaxDefaultModel :: string where "minimaxDefaultModel = ''MiniMax-M3''"

definition NewMiniMaxRecognizerFromEnv :: "ai_env \<Rightarrow> ai_error + Recognizer" where
  "NewMiniMaxRecognizerFromEnv e =
     (let apiKey = env_of e ''MINIMAX_API_KEY'' in
      if apiKey = [] then Inl AiMissingKey
      else Inr (MiniMax \<lparr>mx_api_key = apiKey, mx_base_url = or_else (env_url e ''MINIMAX_BASE_URL'') minimaxDefaultBaseURL,
        mx_model = or_else (env_of e ''MINIMAX_MODEL'') minimaxDefaultModel\<rparr>))"

definition ai_defaultCommandTimeout :: duration where "ai_defaultCommandTimeout = 75 * second"

definition commandArgsFromEnv :: "ai_env \<Rightarrow> string list" where
  "commandArgsFromEnv e =
     (let v = env_of e ''CHANNEL_AI_COMMAND_ARGS'' in if v = [] then [] else fields_of v)"

definition commandTimeoutFromEnv :: "ai_env \<Rightarrow> duration" where
  "commandTimeoutFromEnv e =
     (let v = env_of e ''CHANNEL_AI_COMMAND_TIMEOUT_SECONDS'' in
      if v = [] then ai_defaultCommandTimeout
      else case parse_int v of
          (seconds, None) \<Rightarrow> if seconds \<le> 0 then ai_defaultCommandTimeout else wrap64 (seconds * second)
        | _ \<Rightarrow> ai_defaultCommandTimeout)"

definition command_of_env :: "ai_env \<Rightarrow> string \<Rightarrow> Recognizer" where
  "command_of_env e command = ExternalCommand \<lparr>cr_command = command, cr_args = commandArgsFromEnv e,
     cr_timeout = commandTimeoutFromEnv e\<rparr>"

definition NewCommandRecognizerFromEnv :: "ai_env \<Rightarrow> ai_error + Recognizer" where
  "NewCommandRecognizerFromEnv e =
     (let command = env_of e ''CHANNEL_AI_COMMAND'' in
      if command = [] then Inl AiMissingCommand else Inr (command_of_env e command))"

definition NewMiniMaxCommandRecognizerFromEnv :: "ai_env \<Rightarrow> Recognizer" where
  "NewMiniMaxCommandRecognizerFromEnv e = command_of_env e
     (or_else (or_else (env_of e ''MINIMAX_UNDERSTAND_IMAGE_SCRIPT'') (env_of e ''CHANNEL_AI_COMMAND''))
        ''/root/.openclaw/workspace/skills/minimax-understand-image/scripts/understand_image.py'')"

text \<open>\<open>None\<close> beside no error: the recogniser is not enabled.\<close>

definition NewRecognizerForProvider :: "ai_env \<Rightarrow> string \<Rightarrow> ai_error + Recognizer option" where
  "NewRecognizerForProvider e provider0 =
     (let provider = to_lower (trim_space provider0) in
      if provider \<in> {[], ''openai'', ''responses'', ''openai-responses''} then Inr (NewOpenAIRecognizerFromEnv e)
      else if provider \<in> {''external-command'', ''command'', ''script''}
      then bind_sum (NewCommandRecognizerFromEnv e) (\<lambda>r. Inr (Some r))
      else if provider = ''minimax'' then bind_sum (NewMiniMaxRecognizerFromEnv e) (\<lambda>r. Inr (Some r))
      else if provider \<in> {''minimax-script'', ''minimax-understand-image''}
      then Inr (Some (NewMiniMaxCommandRecognizerFromEnv e))
      else Inl (AiUnsupported provider))"

definition NewRecognizerFromEnv :: "ai_env \<Rightarrow> ai_error + Recognizer option" where
  "NewRecognizerFromEnv e = NewRecognizerForProvider e (ai_getenv e ''CHANNEL_AI_PROVIDER'')"

definition ai_headers :: "string \<Rightarrow> (string \<times> string) list" where
  "ai_headers apiKey = [(''Authorization'', ''Bearer '' @ apiKey), (''Content-Type'', ''application/json'')]"

definition providerName :: "ai_env \<Rightarrow> OpenAIRecognizer \<Rightarrow> string" where
  "providerName e r =
     (if trim_space (oa_provider r) \<noteq> [] then trim_space (oa_provider r)
      else openAIProviderName e (oa_base_url r) (oa_model r))"

definition openai_Recognize :: "ai_env \<Rightarrow> OpenAIRecognizer \<Rightarrow> string \<Rightarrow> ai_error + ai_result" where
  "openai_Recognize e r imageURL0 =
     (let imageURL = trim_space imageURL0 in
      if imageURL = [] then Inl AiMissingURL
      else ai_exchange
        (ai_post e \<lparr>aq_url = endpoint (oa_base_url r) ''/v1/responses'', aq_headers = ai_headers (oa_api_key r),
           aq_body = json_text (responses_payload (oa_model r) imageURL)\<rparr>)
        (\<lambda>responseBody. map_option firstOutputText (unmarshal dec_responses responseBody []))
        (providerName e r))"

definition minimax_Recognize :: "ai_env \<Rightarrow> MiniMaxRecognizer \<Rightarrow> string \<Rightarrow> ai_error + ai_result" where
  "minimax_Recognize e r imageURL0 =
     (let imageURL = trim_space imageURL0 in
      if imageURL = [] then Inl AiMissingURL
      else ai_exchange
        (ai_post e \<lparr>aq_url = endpoint (mx_base_url r) ''/v1/chat/completions'', aq_headers = ai_headers (mx_api_key r),
           aq_body = json_text (chat_payload (mx_model r) imageURL)\<rparr>)
        (\<lambda>responseBody. map_option firstChoiceText (unmarshal dec_choices responseBody []))
        ''minimax'')"

text \<open>\<open>strings.NewReplacer\<close>: at each place the first of the pairs that fits; what was put in is not read again.\<close>

function replacer :: "(string \<times> string) list \<Rightarrow> string \<Rightarrow> string" where
  "replacer pairs [] = []"
| "replacer pairs (c # cs) =
     (case find (\<lambda>(old, _). old \<noteq> [] \<and> has_prefix (c # cs) old) pairs of
        Some (old, new) \<Rightarrow> new @ replacer pairs (drop (length old - 1) cs)
      | None \<Rightarrow> c # replacer pairs cs)"
  by pat_completeness auto
termination
  by (relation "measure (\<lambda>(_, s). length s)") auto

definition commandArg :: "string \<Rightarrow> string \<Rightarrow> string" where
  "commandArg v imageURL = replacer [(''{image_url}'', imageURL), (''{prompt}'', ai_prompt)] v"

text \<open>\<open>strings.EqualFold\<close> with \<open>.py\<close>, whose letters have no case but the two of ASCII.\<close>

definition is_python :: "string \<Rightarrow> bool" where
  "is_python command \<longleftrightarrow> fold_name (filepath_ext command) = fold_name ''.py''"

definition commandAndArgs :: "ai_env \<Rightarrow> CommandRecognizer \<Rightarrow> string \<Rightarrow> string \<times> string list" where
  "commandAndArgs e r imageURL =
     (let args0 = map (\<lambda>arg. commandArg arg imageURL) (cr_args r);
          args = (if args0 = [] then [''--image-url'', imageURL] else args0);
          interpreter = env_of e ''CHANNEL_AI_COMMAND_INTERPRETER''
      in if interpreter \<noteq> [] then (interpreter, cr_command r # args)
         else if is_python (cr_command r) then (''python3'', cr_command r # args)
         else (cr_command r, args))"

definition commandProviderName :: "ai_env \<Rightarrow> string" where
  "commandProviderName e = or_else (env_of e ''CHANNEL_AI_PROVIDER'') ''external-command''"

definition command_timeout :: "CommandRecognizer \<Rightarrow> duration" where
  "command_timeout r = (if cr_timeout r \<le> 0 then ai_defaultCommandTimeout else cr_timeout r)"

definition command_Recognize :: "ai_env \<Rightarrow> CommandRecognizer \<Rightarrow> string \<Rightarrow> ai_error + ai_result" where
  "command_Recognize e r imageURL0 =
     (let imageURL = trim_space imageURL0 in
      if imageURL = [] then Inl AiMissingURL
      else if trim_space (cr_command r) = [] then Inl AiMissingCommand
      else case commandAndArgs e r imageURL of (program, args) \<Rightarrow>
        (case ai_run e \<lparr>ac_program = program, ac_args = args,
             ac_env = [(''CHANNEL_AI_IMAGE_URL'', imageURL), (''CHANNEL_AI_PROMPT'', ai_prompt)],
             ac_timeout = command_timeout r\<rparr> of
           AiDeadline \<Rightarrow> Inl (AiTimedOut (command_timeout r))
         | AiExit failure answer \<Rightarrow>
             let trimmedOutput = trim_space answer in
             (case failure of
                Some err \<Rightarrow> Inl (AiCommandFailed err trimmedOutput)
              | None \<Rightarrow> bind_sum (parseCommandRecognitionOutput trimmedOutput) (\<lambda>result.
                  Inr (ai_normalize (result\<lparr>ai_raw_result := trimmedOutput, ai_provider := commandProviderName e\<rparr>))))))"

definition ai_Recognize :: "ai_env \<Rightarrow> Recognizer \<Rightarrow> string \<Rightarrow> ai_error + ai_result" where
  "ai_Recognize e r imageURL =
     (case r of
        OpenAI o1 \<Rightarrow> openai_Recognize e o1 imageURL
      | MiniMax m \<Rightarrow> minimax_Recognize e m imageURL
      | ExternalCommand c \<Rightarrow> command_Recognize e c imageURL)"

text \<open>The recogniser that asks for its provider at each picture; the reader of the setting is a parameter.\<close>

definition dynamic_Recognize ::
  "ai_env \<Rightarrow> (unit \<Rightarrow> string + string) option \<Rightarrow> string \<Rightarrow> ai_error + ai_result" where
  "dynamic_Recognize e providerReader imageURL =
     (case (case providerReader of None \<Rightarrow> Inr [] | Some read_provider \<Rightarrow> read_provider ()) of
        Inl err \<Rightarrow> Inl (AiProviderFailed err)
      | Inr provider \<Rightarrow>
          (case NewRecognizerForProvider e provider of
             Inl err \<Rightarrow> Inl err
           | Inr None \<Rightarrow> Inl AiNotConfigured
           | Inr (Some r) \<Rightarrow> ai_Recognize e r imageURL))"

end
