(* ===== verification/AI_Text.thy ===== *)
theory AI_Text
  imports AI_Recognizer
begin

text \<open>
  Two facts about the texts the recognisers read, on the grammar of JSON: the scan for the closing brace of
  \<open>firstJSONObject\<close> finds an object exactly, whatever surrounds it, and a text inside JSON has fewer
  quotes and backslashes than the JSON it is read from.
\<close>

section \<open>The scan for the closing brace\<close>

text \<open>A piece of text that leaves the scan outside of texts and as deep as it was.\<close>

definition scans :: "string \<Rightarrow> bool" where
  "scans w \<longleftrightarrow> (\<forall>d z. 0 < d \<longrightarrow>
     brace_match d False False (w @ z) = map_option ((@) w) (brace_match d False False z))"

definition scans_text :: "string \<Rightarrow> bool" where
  "scans_text w \<longleftrightarrow> (\<forall>d z. brace_match d True False (w @ z) = map_option ((@) w) (brace_match d False False z))"

lemma map_option_Cons: "map_option (Cons c) (map_option ((@) w) x) = map_option ((@) (c # w)) x"
  by (cases x) auto

lemma map_option_single: "map_option (Cons c) x = map_option ((@) [c]) x"
  by (cases x) auto

lemma map_option_append: "map_option ((@) v) (map_option ((@) w) x) = map_option ((@) (v @ w)) x"
  by (cases x) auto

lemma map_option_Nil: "map_option ((@) []) x = x"
  by (cases x) auto

lemma scans_Nil [simp]: "scans []"
  by (simp add: scans_def map_option_Nil)

lemma scans_append: "scans v \<Longrightarrow> scans w \<Longrightarrow> scans (v @ w)"
  by (simp add: scans_def map_option_append)

definition plain :: "char \<Rightarrow> bool" where
  "plain c \<longleftrightarrow> c \<noteq> quote \<and> c \<noteq> CHR ''{'' \<and> c \<noteq> CHR ''}''"

lemma scans_Cons: "plain c \<Longrightarrow> scans w \<Longrightarrow> scans (c # w)"
  by (simp add: scans_def plain_def map_option_Cons)

lemma scans_plain: "list_all plain w \<Longrightarrow> scans w"
  by (induction w) (auto intro: scans_Cons)

lemma quote_not_backslash [simp]: "quote \<noteq> backslash" "backslash \<noteq> quote"
  by (simp_all add: quote_def backslash_def)

lemma scans_text_intros:
  "scans_text [quote]"
  "c \<noteq> quote \<Longrightarrow> c \<noteq> backslash \<Longrightarrow> scans_text w \<Longrightarrow> scans_text (c # w)"
  "scans_text w \<Longrightarrow> scans_text (backslash # c # w)"
proof -
  show "scans_text [quote]"
    by (simp add: scans_text_def map_option_single)
qed (simp_all add: scans_text_def map_option_Cons quote_def backslash_def)

lemma is_hex_not: "is_hex h \<Longrightarrow> h \<noteq> quote \<and> h \<noteq> backslash"
  by (auto simp: is_hex_def quote_def backslash_def is_digit_char_def byte_def)

lemma emit_Some: "emit v r = Some (t, rest) \<longleftrightarrow> (\<exists>t'. r = Some (t', rest) \<and> t = v @ t')"
  by (cases r) auto

lemma high_not: "128 \<le> byte d \<Longrightarrow> d \<noteq> quote \<and> d \<noteq> backslash"
  by (auto simp: quote_def backslash_def byte_def)

lemma js_string_other:
  assumes "js_string (c # cs) = Some (t, rest)" "c \<noteq> quote" "c \<noteq> backslash"
  shows "(\<exists>t'. js_string cs = Some (t', rest)) \<or>
    (\<exists>d e rs t'. cs = d # e # rs \<and> d \<noteq> quote \<and> d \<noteq> backslash \<and> e \<noteq> quote \<and> e \<noteq> backslash \<and> js_string rs = Some (t', rest))"
proof (cases "\<exists>d e rs. cs = d # e # rs \<and> byte c = 0xE2 \<and> byte d = 0x80 \<and> (byte e = 0xA8 \<or> byte e = 0xA9)")
  case True
  then obtain d e rs where cs: "cs = d # e # rs" "byte c = 0xE2" "byte d = 0x80" "byte e = 0xA8 \<or> byte e = 0xA9" by blast
  have n: "c \<noteq> CHR ''<''" "c \<noteq> CHR ''>''" "c \<noteq> CHR ''&''" using cs(2) by (auto simp: byte_def)
  have "\<exists>t'. js_string rs = Some (t', rest)"
    using assms cs n by (simp del: js_string.simps(1)) (auto simp: emit_Some)
  moreover have "d \<noteq> quote \<and> d \<noteq> backslash" "e \<noteq> quote \<and> e \<noteq> backslash" using cs by (auto intro!: high_not)
  ultimately show ?thesis using cs(1) by blast
next
  case False
  have "\<exists>t'. js_string cs = Some (t', rest)"
  proof (cases "\<exists>d e rs. cs = d # e # rs")
    case True
    then obtain d e rs where cs: "cs = d # e # rs" by blast
    show ?thesis using assms False unfolding cs
      by (simp only: js_string.simps(2) [of c] if_False list.case) (auto simp: emit_Some simp del: js_string.simps split: if_splits)
  next
    case no: False
    then have "cs = [] \<or> (\<exists>d. cs = [d])" by (cases cs; cases "tl cs") auto
    then show ?thesis using assms
      by (auto simp: emit_Some simp del: js_string.simps(2) simp: js_string.simps(2) [of c] split: if_splits)
  qed
  then show ?thesis by blast
qed

lemma js_string_escape:
  assumes "js_string (backslash # cs) = Some (t, rest)"
  obtains (one) e rs t' where "cs = e # rs" "js_string rs = Some (t', rest)"
    | (code) h1 h2 h3 h4 rs t' where "cs = CHR ''u'' # h1 # h2 # h3 # h4 # rs" "is_hex h1" "is_hex h2" "is_hex h3" "is_hex h4"
        "js_string rs = Some (t', rest)"
proof -
  have q: "backslash \<noteq> quote" by (simp add: quote_def backslash_def)
  obtain e rs where cs: "cs = e # rs" using assms q by (cases cs) auto
  show ?thesis
  proof (cases "e = quote \<or> e = backslash \<or> e \<in> set ''/bfnrt''")
    case True
    have "js_string (backslash # cs) = emit [backslash, e] (js_string rs)"
      unfolding js_string.simps(2) cs using True q by (simp only: if_False if_True list.case refl)
    then show ?thesis using assms cs one by (auto simp: emit_Some)
  next
    case False
    then have e: "js_string (backslash # cs) = (if e = CHR ''u'' then
               (case rs of
                  h1 # h2 # h3 # h4 # rest' \<Rightarrow>
                    if is_hex h1 \<and> is_hex h2 \<and> is_hex h3 \<and> is_hex h4
                    then emit [backslash, e, h1, h2, h3, h4] (js_string rest') else None
                | _ \<Rightarrow> None)
             else None)"
      unfolding js_string.simps(2) cs using q by (simp only: if_False if_True list.case refl)
    show ?thesis using assms [unfolded e] cs code
      by (auto simp: emit_Some simp del: js_string.simps split: if_splits list.splits)
  qed
qed

lemma js_string_scan: "js_string cs = Some (t, rest) \<Longrightarrow> \<exists>w. cs = w @ rest \<and> scans_text w"
proof (induction cs arbitrary: t rest rule: length_induct)
  case (1 s)
  have IH: "\<exists>w. s' = w @ rest \<and> scans_text w" if "js_string s' = Some (t', rest)" "length s' < length s" for s' t'
    using 1 that by blast
  obtain c cs where s: "s = c # cs" using "1.prems" by (cases s) auto
  consider (stop) "c = quote" | (esc) "c = backslash" "c \<noteq> quote" | (other) "c \<noteq> quote" "c \<noteq> backslash" by blast
  then show ?case
  proof cases
    case stop
    then show ?thesis using "1.prems" s by (auto intro!: exI [of _ "[quote]"] scans_text_intros(1))
  next
    case other
    from js_string_other [OF "1.prems" [unfolded s] other]
    consider t' where "js_string cs = Some (t', rest)"
      | d e rs t' where "cs = d # e # rs" "d \<noteq> quote" "d \<noteq> backslash" "e \<noteq> quote" "e \<noteq> backslash" "js_string rs = Some (t', rest)"
      by blast
    then show ?thesis
    proof cases
      case 1
      then obtain w where "cs = w @ rest" "scans_text w" using IH [of cs] s by auto
      then show ?thesis using s other by (auto intro!: exI [of _ "c # w"] scans_text_intros(2))
    next
      case 2
      then obtain w where "rs = w @ rest" "scans_text w" using IH [of rs] s by auto
      then show ?thesis using s other 2 by (auto intro!: exI [of _ "c # d # e # w"] scans_text_intros(2))
    qed
  next
    case esc
    have "js_string (backslash # cs) = Some (t, rest)" using "1.prems" s esc(1) by simp
    then show ?thesis
    proof (cases rule: js_string_escape)
      case (one e rs t')
      then obtain w where "rs = w @ rest" "scans_text w" using IH [of rs] s by auto
      then show ?thesis using s esc one by (auto intro!: exI [of _ "c # e # w"] scans_text_intros(3))
    next
      case (code h1 h2 h3 h4 rs t')
      then obtain w where w: "rs = w @ rest" "scans_text w" using IH [of rs] s by auto
      have "scans_text (c # CHR ''u'' # h1 # h2 # h3 # h4 # w)"
        unfolding esc(1) by (rule scans_text_intros(3)) (simp add: scans_text_intros(2) is_hex_not code w(2))
      then show ?thesis using s code(1) w(1) by (intro exI [of _ "c # CHR ''u'' # h1 # h2 # h3 # h4 # w"]) simp
    qed
  qed
qed

lemma scans_quoted: "scans_text w \<Longrightarrow> scans (quote # w)"
  by (simp add: scans_def scans_text_def map_option_Cons)

lemma scans_object: "scans w \<Longrightarrow> scans (CHR ''{'' # w @ [CHR ''}''])"
  by (simp add: scans_def map_option_Cons map_option_append map_option_single [of "CHR ''}''"] quote_def)

lemma brace_match_object: "scans w \<Longrightarrow> brace_match 0 False False (CHR ''{'' # w @ CHR ''}'' # z) = Some (CHR ''{'' # w @ [CHR ''}''])"
  by (simp add: scans_def quote_def)

section \<open>The values\<close>

lemma skip_ws_split: "\<exists>w. s = w @ skip_ws s \<and> list_all json_space w"
  by (rule exI [of _ "takeWhile json_space s"]) (auto simp: skip_ws_def list_all_iff dest: set_takeWhileD)

lemma json_space_plain: "json_space c \<Longrightarrow> plain c"
  by (auto simp: json_space_def plain_def quote_def byte_def)

lemma skip_ws_scans: "\<exists>w. s = w @ skip_ws s \<and> scans w"
  using skip_ws_split [of s] json_space_plain by (meson list.pred_mono_strong scans_plain)

lemma is_digit_plain: "is_digit_char c \<Longrightarrow> plain c"
  by (auto simp: is_digit_char_def plain_def quote_def byte_def)

lemma js_digits_scan: "js_digits s = Some (t, rest) \<Longrightarrow> s = t @ rest \<and> list_all plain t"
  by (auto simp: js_digits_def Let_def list_all_iff is_digit_plain dest: set_takeWhileD split: if_splits)

lemma js_int_scan: "js_int s = Some (t, rest) \<Longrightarrow> s = t @ rest \<and> list_all plain t"
  using js_digits_scan [of s t rest] by (auto simp: js_int_def plain_def quote_def split: list.splits if_splits)

lemma js_frac_scan: "js_frac s = Some (t, rest) \<Longrightarrow> s = t @ rest \<and> list_all plain t"
  by (auto simp: js_frac_def plain_def quote_def emit_Some dest: js_digits_scan split: list.splits if_splits)

lemma js_exp_scan: "js_exp s = Some (t, rest) \<Longrightarrow> s = t @ rest \<and> list_all plain t"
  by (auto simp: js_exp_def emit_Some dest!: js_digits_scan split: list.splits if_splits) (simp_all add: plain_def quote_def)

lemma js_then_Some: "js_then r f = Some (t, rest) \<longleftrightarrow> (\<exists>u s v. r = Some (u, s) \<and> f s = Some (v, rest) \<and> t = u @ v)"
  by (auto simp: js_then_def emit_Some split: option.splits)

lemma js_number_scan: "js_number s = Some (t, rest) \<Longrightarrow> s = t @ rest \<and> list_all plain t"
  unfolding js_number_def
  by (auto simp: js_then_Some emit_Some dest!: js_int_scan js_frac_scan js_exp_scan split: list.splits if_splits)
     (simp_all add: plain_def quote_def)

text \<open>What the reader of one value takes is scanned; a list of members ends with the brace.\<close>

lemma js_scan:
  "js_value fuel depth s = Some (t, rest) \<Longrightarrow> \<exists>w. s = w @ rest \<and> scans w"
  "js_members fuel depth s = Some (t, rest) \<Longrightarrow> \<exists>w. s = w @ CHR ''}'' # rest \<and> scans w"
  "js_elements fuel depth s = Some (t, rest) \<Longrightarrow> \<exists>w. s = w @ rest \<and> scans w"
proof (induction fuel depth s and fuel depth s and fuel depth s arbitrary: t rest and t rest and t rest
    rule: js_value_js_members_js_elements.induct)
  case (2 fuel depth s)
  obtain u where u: "s = u @ skip_ws s" "scans u" using skip_ws_scans by blast
  obtain c cs where c: "skip_ws s = c # cs" using "2.prems" by (cases "skip_ws s") auto
  have "\<exists>w. c # cs = w @ rest \<and> scans w"
  proof -
    obtain v where v: "cs = v @ skip_ws cs" "scans v" using skip_ws_scans by blast
    consider (quo) "c = quote" | (obj) "c = CHR ''{''" | (arr) "c = CHR ''[''"
      | (other) "c \<noteq> quote" "c \<noteq> CHR ''{''" "c \<noteq> CHR ''[''" by blast
    then show ?thesis
    proof cases
      case quo
      then show ?thesis using "2.prems" c by (auto simp: emit_Some dest!: js_string_scan intro: scans_quoted)
    next
      case obj
      show ?thesis
      proof (cases "hd (skip_ws cs) = CHR ''}'' \<and> skip_ws cs \<noteq> []")
        case True
        then obtain ds where ds: "skip_ws cs = CHR ''}'' # ds" by (cases "skip_ws cs") auto
        then have "rest = ds" using "2.prems" c obj by (auto simp: quote_def split: if_splits)
        then show ?thesis using obj v ds scans_object [OF v(2)] by (intro exI [of _ "CHR ''{'' # v @ [CHR ''}'']"]) simp
      next
        case False
        then have "\<exists>t'. js_members fuel (depth - 1) cs = Some (t', rest)"
          using "2.prems" c obj by (auto simp: quote_def emit_Some split: if_splits list.splits)
        moreover have "\<not> depth \<le> 0" "\<exists>d ds. skip_ws cs = d # ds \<and> d \<noteq> CHR ''}''"
          using "2.prems" c obj False by (auto simp: quote_def split: if_splits list.splits)
        ultimately obtain w where "cs = w @ CHR ''}'' # rest" "scans w"
          using "2.IH"(1) [OF c] obj by (fastforce simp: quote_def)
        then show ?thesis using obj scans_object [of w] by (intro exI [of _ "CHR ''{'' # w @ [CHR ''}'']"]) simp
      qed
    next
      case arr
      show ?thesis
      proof (cases "hd (skip_ws cs) = CHR '']'' \<and> skip_ws cs \<noteq> []")
        case True
        then obtain ds where ds: "skip_ws cs = CHR '']'' # ds" by (cases "skip_ws cs") auto
        then have "rest = ds" using "2.prems" c arr by (auto simp: quote_def split: if_splits)
        moreover have "scans (CHR ''['' # v @ [CHR '']''])"
          by (intro scans_Cons scans_append v(2) scans_Nil) (simp_all add: plain_def quote_def)
        ultimately show ?thesis using arr v(1) ds by (intro exI [of _ "CHR ''['' # v @ [CHR '']'']"]) simp
      next
        case False
        then have "\<exists>t'. js_elements fuel (depth - 1) cs = Some (t', rest)"
          using "2.prems" c arr by (auto simp: quote_def emit_Some split: if_splits list.splits)
        moreover have "\<not> depth \<le> 0" "\<exists>d ds. skip_ws cs = d # ds \<and> d \<noteq> CHR '']''"
          using "2.prems" c arr False by (auto simp: quote_def split: if_splits list.splits)
        ultimately obtain w where "cs = w @ rest" "scans w"
          using "2.IH"(2) [OF c] arr by (fastforce simp: quote_def)
        moreover have "plain (CHR ''['')" by (simp add: plain_def quote_def)
        ultimately show ?thesis using arr by (intro exI [of _ "c # w"]) (simp add: scans_Cons)
      qed
    next
      case other
      have word: "\<exists>w. c # cs = w @ drop n (c # cs) \<and> scans w" if "has_prefix (c # cs) p" "length p = n" "list_all plain p" for n p
        using that scans_plain by (auto simp: has_prefix_iff intro!: exI [of _ p])
      show ?thesis
      proof (cases "has_prefix (c # cs) ''true'' \<or> has_prefix (c # cs) ''false'' \<or> has_prefix (c # cs) ''null''")
        case True
        then show ?thesis
          using "2.prems" c other word [of "''true''" 4] word [of "''false''" 5] word [of "''null''" 4]
          by (auto simp: plain_def quote_def split: if_splits)
      next
        case False
        then show ?thesis using "2.prems" c other by (auto dest!: js_number_scan intro: scans_plain)
      qed
    qed
  qed
  then show ?case using u c by (metis append.assoc scans_append)
next
  case (4 fuel depth s)
  obtain cs where c: "skip_ws s = quote # cs" using "4.prems" by (cases "skip_ws s") (auto split: if_splits)
  then obtain t1 r1 where r1: "js_string cs = Some (t1, r1)" using "4.prems" by (auto simp: js_then_Some emit_Some)
  have m1: "\<exists>t'. (case skip_ws r1 of
              [] \<Rightarrow> None
            | d # ds \<Rightarrow>
                if d \<noteq> CHR '':'' then None
                else js_then (emit [d] (js_value fuel depth ds)) (\<lambda>r2.
                  case skip_ws r2 of
                    [] \<Rightarrow> None
                  | e # es \<Rightarrow>
                      if e = CHR ''}'' then Some ([e], es)
                      else if e = CHR '','' then emit [e] (js_members fuel depth es)
                      else None)) = Some (t', rest)"
    using "4.prems" c r1 by (auto simp: js_then_Some emit_Some)
  then obtain ds where d: "skip_ws r1 = CHR '':'' # ds" by (cases "skip_ws r1") (auto split: if_splits)
  then obtain t2 r2 where r2: "js_value fuel depth ds = Some (t2, r2)" using m1 by (auto simp: js_then_Some emit_Some)
  have m2: "\<exists>t'. (case skip_ws r2 of
                    [] \<Rightarrow> None
                  | e # es \<Rightarrow>
                      if e = CHR ''}'' then Some ([e], es)
                      else if e = CHR '','' then emit [e] (js_members fuel depth es)
                      else None) = Some (t', rest)"
    using m1 d r2 by (auto simp: js_then_Some emit_Some)
  obtain e es where e: "skip_ws r2 = e # es" using m2 by (cases "skip_ws r2") auto
  obtain w where w: "cs = w @ r1" "scans (quote # w)" using js_string_scan [OF r1] scans_quoted by blast
  obtain v where v: "ds = v @ r2" "scans v" using "4.IH"(1) [OF c _ d _ r2] by auto
  obtain u0 where u0: "s = u0 @ quote # cs" "scans u0" using skip_ws_scans [of s] c by auto
  obtain u1 where u1: "r1 = u1 @ CHR '':'' # ds" "scans u1" using skip_ws_scans [of r1] d by auto
  obtain u2 where u2: "r2 = u2 @ e # es" "scans u2" using skip_ws_scans [of r2] e by auto
  have head: "scans (u0 @ (quote # w) @ u1 @ CHR '':'' # v @ u2)"
    by (intro scans_append u0 w u1 scans_Cons v u2) (simp add: plain_def quote_def)
  consider (stop) "e = CHR ''}''" "rest = es" | (more) t' where "e = CHR '',''" "js_members fuel depth es = Some (t', rest)"
    using m2 e by (auto simp: emit_Some split: if_splits)
  then show ?case
  proof cases
    case stop
    then show ?thesis using head u0 w u1 v u2 by (intro exI [of _ "u0 @ (quote # w) @ u1 @ CHR '':'' # v @ u2"]) simp
  next
    case more
    then obtain x where x: "es = x @ CHR ''}'' # rest" "scans x" using "4.IH"(2) [OF c _ d _ e] by auto
    have "scans ((u0 @ (quote # w) @ u1 @ CHR '':'' # v @ u2) @ CHR '','' # x)"
      by (intro scans_append [OF head] scans_Cons x) (simp add: plain_def quote_def)
    then show ?thesis using more u0 w u1 v u2 x
      by (intro exI [of _ "(u0 @ (quote # w) @ u1 @ CHR '':'' # v @ u2) @ CHR '','' # x"]) simp
  qed
next
  case (6 fuel depth s)
  then obtain t1 r1 t2 where r1: "js_value fuel depth s = Some (t1, r1)"
    "(case skip_ws r1 of [] \<Rightarrow> None | e # es \<Rightarrow>
        if e = CHR '']'' then Some ([e], es) else if e = CHR '','' then emit [e] (js_elements fuel depth es) else None) = Some (t2, rest)"
    by (auto simp: js_then_Some)
  obtain w where w: "s = w @ r1" "scans w" using "6.IH"(1) [OF r1(1)] by blast
  obtain u where u: "r1 = u @ skip_ws r1" "scans u" using skip_ws_scans by blast
  obtain e es where e: "skip_ws r1 = e # es" using r1(2) by (cases "skip_ws r1") auto
  consider (stop) "e = CHR '']''" "rest = es" | (more) t' where "e = CHR '',''" "js_elements fuel depth es = Some (t', rest)" "e \<noteq> CHR '']''"
    using r1(2) e by (auto simp: emit_Some split: if_splits)
  then obtain v where "es = v @ rest" "scans v" "plain e"
  proof cases
    case stop
    then show ?thesis using that [of "[]"] by (simp add: plain_def quote_def)
  next
    case more
    then show ?thesis using "6.IH"(2) [OF e] that by (auto simp: plain_def quote_def)
  qed
  then show ?case using w u e by (intro exI [of _ "w @ u @ e # v"]) (auto intro: scans_append scans_Cons)
qed simp_all

section \<open>The object in an answer\<close>

lemma first_object_sound: "first_object s = Some w \<Longrightarrow> json_valid w \<and> (\<exists>a z. s = a @ w @ z)"
proof (induction s)
  case (Cons c cs)
  have brace: "\<exists>z. s = w @ z" if "brace_match d i e s = Some w" for d i e s w
    using that by (induction d i e s arbitrary: w rule: brace_match.induct) (auto split: if_splits)
  show ?case
  proof (cases "first_object cs = Some w")
    case True
    then show ?thesis using Cons.IH by (metis append_Cons)
  next
    case False
    then show ?thesis using Cons.prems brace [of 0 False False "c # cs" w]
      by (auto split: if_splits option.splits intro: exI [of _ "[]"])
  qed
qed simp

lemma first_object_skip: "CHR ''{'' \<notin> set p \<Longrightarrow> first_object (p @ s) = first_object s"
  by (induction p) auto

lemma valid_object_scan:
  assumes "json_valid (CHR ''{'' # b @ [CHR ''}''])"
  shows "brace_match 0 False False (CHR ''{'' # b @ CHR ''}'' # z) = Some (CHR ''{'' # b @ [CHR ''}''])"
proof -
  let ?s = "CHR ''{'' # b @ [CHR ''}'']"
  obtain n t rest where v: "js_value (Suc n) 10000 ?s = Some (t, rest)" and rest: "skip_ws rest = []"
    using assms by (auto simp: json_valid_def json_compact_def split: option.splits if_splits)
  have ws: "skip_ws ?s = ?s" by (simp add: skip_ws_def json_space_def byte_def)
  have blank: "rest' = []" if "skip_ws (rest' :: string) = []" "w @ CHR ''}'' # rest' = b @ [CHR ''}'']" for w rest'
  proof (rule ccontr)
    assume "rest' \<noteq> []"
    then have "last rest' = CHR ''}''" using arg_cong [OF that(2), of last] by simp
    then show False using that(1) \<open>rest' \<noteq> []\<close> last_in_set [of rest']
      by (auto simp: skip_ws_def dropWhile_eq_Nil_conv json_space_def byte_def)
  qed
  have "\<exists>w. b = w \<and> scans w"
  proof (cases "\<exists>ds. skip_ws (b @ [CHR ''}'']) = CHR ''}'' # ds")
    case True
    then obtain ds where ds: "skip_ws (b @ [CHR ''}'']) = CHR ''}'' # ds" by blast
    obtain u where u: "b @ [CHR ''}''] = u @ CHR ''}'' # ds" "scans u" using skip_ws_scans [of "b @ [CHR ''}'']"] ds by auto
    have "rest = ds" using v ws ds by (auto simp: quote_def)
    then show ?thesis using u blank [of ds u] rest by auto
  next
    case False
    then have "\<exists>t'. js_members n 9999 (b @ [CHR ''}'']) = Some (t', rest)"
      using v ws by (auto simp: quote_def emit_Some split: list.splits if_splits)
    then obtain w where "b @ [CHR ''}''] = w @ CHR ''}'' # rest" "scans w" using js_scan(2) by blast
    then show ?thesis using blank [of rest w] rest by auto
  qed
  then show ?thesis using brace_match_object by blast
qed

lemma first_object_found:
  "CHR ''{'' \<notin> set p \<Longrightarrow> obj = CHR ''{'' # b @ [CHR ''}''] \<Longrightarrow> json_valid obj \<Longrightarrow> first_object (p @ obj @ z) = Some obj"
  using valid_object_scan [of b z] by (simp add: first_object_skip)

section \<open>Quotes and backslashes\<close>

declare js_value.simps [simp del] js_string.simps [simp del] decode_rune.simps [simp del]

lemma marks_simps [simp]:
  "marks [] = 0" "marks (s @ t) = marks s + marks t"
  "marks (c # s) = (if c = quote \<or> c = backslash then Suc (marks s) else marks s)"
  by (simp_all add: marks_def)

lemma marks_take: "marks (take n s) \<le> marks s"
  by (metis append_take_drop_id le_add1 marks_simps(2))

lemma marks_drop: "marks (drop n s) \<le> marks s"
  by (metis append_take_drop_id le_add2 marks_simps(2))

lemma marks_skip_ws: "marks (skip_ws s) \<le> marks s"
  using skip_ws_split [of s] by (metis le_add2 marks_simps(2))

lemma marks_trim: "marks (trim_space s) \<le> marks s"
proof -
  have left: "marks (trim_left s) \<le> marks s" for s
    unfolding trim_left_def using strip_split by (metis le_add2 marks_simps(2))
  have "marks (trim_right s) \<le> marks s" for s
    using trim_right_split by (metis le_add1 marks_simps(2))
  then show ?thesis unfolding trim_space_def using left le_trans by blast
qed

lemma marks_high: "\<forall>c \<in> set s. 128 \<le> byte c \<Longrightarrow> marks s = 0"
  using high_not by (auto simp: marks_def filter_empty_conv)

lemma marks_encode_rune: "marks (encode_rune r) \<le> 1" "128 \<le> r \<Longrightarrow> marks (encode_rune r) = 0"
proof -
  have high: "marks (encode_rune r) = 0" if "128 \<le> r" for r
    using that by (intro marks_high) (auto simp: encode_rune_def Let_def valid_rune_def rune_error_def)
  show "128 \<le> r \<Longrightarrow> marks (encode_rune r) = 0" by (rule high)
  show "marks (encode_rune r) \<le> 1"
  proof (cases "128 \<le> r")
    case False
    have "encode_rune r = encode_rune rune_error" if "r < 0"
      using that by (simp add: encode_rune_def valid_rune_def rune_error_def)
    moreover have "encode_rune r = [chr r]" if "0 \<le> r"
      using that False by (simp add: encode_rune_def valid_rune_def)
    ultimately show ?thesis using high [of rune_error] by (cases "0 \<le> r") (auto simp: rune_error_def)
  qed (simp add: high)
qed

lemma decode_surrogates_high: "128 \<le> decode_surrogates r1 r2"
  by (auto simp: decode_surrogates_def rune_error_def)

lemma marks_unescaped: "marks [unescaped e] \<le> marks [backslash, e]"
  by (simp add: marks_def)

lemma decode_high: "128 \<le> byte c \<Longrightarrow> 128 \<le> fst (decode_rune (c # cs))"
  by (auto simp: decode_rune.simps Let_def rune_error_def cont_byte_def split: list.splits)

lemma list4_cases:
  obtains "xs = []" | a where "xs = [a]" | a b where "xs = [a, b]" | a b c where "xs = [a, b, c]"
  | a b c d ys where "xs = a # b # c # d # ys"
  by (cases xs; cases "tl xs"; cases "tl (tl xs)"; cases "tl (tl (tl xs))") auto

lemma unquote_code:
  "json_unquote (backslash # CHR ''u'' # h1 # h2 # h3 # h4 # rest) =
     (if surrogate (hex4 h1 h2 h3 h4) then
        (case rest of
           b # u # g1 # g2 # g3 # g4 # rest' \<Rightarrow>
             if b = backslash \<and> u = CHR ''u'' \<and> decode_surrogates (hex4 h1 h2 h3 h4) (hex4 g1 g2 g3 g4) \<noteq> rune_error
             then encode_rune (decode_surrogates (hex4 h1 h2 h3 h4) (hex4 g1 g2 g3 g4)) @ json_unquote rest'
             else encode_rune rune_error @ json_unquote rest
         | _ \<Rightarrow> encode_rune rune_error @ json_unquote rest)
      else encode_rune (hex4 h1 h2 h3 h4) @ json_unquote rest)"
  by (subst json_unquote.simps(2)) (simp add: Let_def)

lemma marks_unquote: "marks (json_unquote s) \<le> marks s"
proof (induction s rule: length_induct)
  case (1 s)
  have IH: "marks (json_unquote t) \<le> marks t" if "length t < length s" for t using 1 that by blast
  show ?case
  proof (cases s)
    case (Cons c cs)
    consider (quo) "c = quote" | (esc) "c = backslash" | (low) "c \<noteq> quote" "c \<noteq> backslash" "byte c < 128"
      | (high) "c \<noteq> quote" "c \<noteq> backslash" "128 \<le> byte c" by fastforce
    then show ?thesis
    proof cases
      case quo
      then show ?thesis by (simp add: Cons json_unquote.simps(2))
    next
      case low
      then show ?thesis using IH [of cs] by (simp add: Cons json_unquote.simps(2))
    next
      case high
      obtain r w where d: "decode_rune (c # cs) = (r, w)" by (cases "decode_rune (c # cs)")
      then have "128 \<le> r" using decode_high [OF high(3), of cs] by simp
      moreover have "marks (json_unquote (drop (w - 1) cs)) \<le> marks cs"
      proof -
        have "length (drop (w - 1) cs) < length s" using Cons by (simp add: less_Suc_eq_le)
        from IH [OF this] show ?thesis using marks_drop by (rule le_trans)
      qed
      ultimately show ?thesis using high d marks_encode_rune(2) [of r]
        by (simp add: Cons json_unquote.simps(2) del: decode_rune.simps)
    next
      case esc
      show ?thesis
      proof (cases cs)
        case Nil
        then show ?thesis by (simp add: Cons esc json_unquote.simps(2))
      next
        case (Cons e rest)
        show ?thesis
        proof (cases "e = CHR ''u''")
          case False
          then show ?thesis using IH [of rest] \<open>s = c # cs\<close> marks_unescaped [of e]
            by (simp add: Cons esc json_unquote.simps(2))
        next
          case u: True
          show ?thesis
          proof (cases "\<exists>h1 h2 h3 h4 rest'. rest = h1 # h2 # h3 # h4 # rest'")
            case False
            then have "json_unquote s = []"
              by (cases rest rule: list4_cases) (auto simp: \<open>s = c # cs\<close> Cons esc u json_unquote.simps(2))
            then show ?thesis by simp
          next
            case True
            then obtain h1 h2 h3 h4 rest' where rest: "rest = h1 # h2 # h3 # h4 # rest'" by blast
            define r where "r = hex4 h1 h2 h3 h4"
            have s: "s = backslash # CHR ''u'' # h1 # h2 # h3 # h4 # rest'" using \<open>s = c # cs\<close> Cons esc u rest by simp
            have rest': "marks rest' + 1 \<le> marks s" by (simp add: s)
            have one: "marks (x @ json_unquote rest') \<le> marks s" if "marks x \<le> 1" for x
              using IH [of rest'] rest' that by (simp add: s)
            show ?thesis
            proof (cases "\<exists>g1 g2 g3 g4 rest''. surrogate r \<and> rest' = backslash # CHR ''u'' # g1 # g2 # g3 # g4 # rest'' \<and>
                decode_surrogates r (hex4 g1 g2 g3 g4) \<noteq> rune_error")
              case True
              then obtain g1 g2 g3 g4 rest'' where g: "surrogate r" "rest' = backslash # CHR ''u'' # g1 # g2 # g3 # g4 # rest''"
                "decode_surrogates r (hex4 g1 g2 g3 g4) \<noteq> rune_error" by blast
              have "json_unquote s = encode_rune (decode_surrogates r (hex4 g1 g2 g3 g4)) @ json_unquote rest''"
                unfolding s g(2) unquote_code r_def [symmetric] using g(1,3)
                by (simp only: list.case simp_thms if_True)
              moreover have "marks (json_unquote rest'') \<le> marks rest''" 
              proof (rule IH)
                show "length rest'' < length s" unfolding s g(2) by (simp only: list.size)
              qed
              moreover have "s = [backslash, CHR ''u'', h1, h2, h3, h4, backslash, CHR ''u'', g1, g2, g3, g4] @ rest''"
                by (simp add: s g(2))
              then have "marks rest'' \<le> marks s" by (metis le_add2 marks_simps(2))
              ultimately show ?thesis using marks_encode_rune(2) [OF decode_surrogates_high [of r "hex4 g1 g2 g3 g4"]] by simp
            next
              case False
              then have "\<exists>q. json_unquote s = encode_rune q @ json_unquote rest'"
              proof (cases "surrogate r")
                case no: False
                then have "json_unquote s = encode_rune r @ json_unquote rest'"
                  by (simp add: s unquote_code r_def [symmetric])
                then show ?thesis by blast
              next
                case yes: True
                have "json_unquote s = encode_rune rune_error @ json_unquote rest'"
                proof (cases "\<exists>b u g1 g2 g3 g4 rest''. rest' = b # u # g1 # g2 # g3 # g4 # rest''")
                  case True
                  then obtain b u g1 g2 g3 g4 rest'' where g: "rest' = b # u # g1 # g2 # g3 # g4 # rest''" by blast
                  then have "\<not> (b = backslash \<and> u = CHR ''u'' \<and> decode_surrogates r (hex4 g1 g2 g3 g4) \<noteq> rune_error)"
                    using False yes by blast
                  then show ?thesis using yes
                    by (auto simp: s g unquote_code r_def [symmetric])
                next
                  case False
                  then have "(case rest' of b # u # g1 # g2 # g3 # g4 # rest'' \<Rightarrow> f b u g1 g2 g3 g4 rest'' | _ \<Rightarrow> z) = z" for f z
                    by (auto split: list.split)
                  then show ?thesis using yes by (simp add: s unquote_code r_def [symmetric])
                qed
                then show ?thesis by blast
              qed
              then show ?thesis using one marks_encode_rune(1) by auto
            qed
          qed
        qed
      qed
    qed
  qed simp
qed

lemma marks_string_value:
  assumes "unmarshal dec_string raw [] = Some t"
  shows "marks t \<le> marks raw"
proof -
  obtain v where v: "fst (tree_value (2 * length raw + 2) raw) = v" "dec_string v [] = Some t"
    using assms by (auto simp: unmarshal_def json_tree_def split: if_splits)
  have "marks u \<le> marks raw" if "v = JString u" for u
  proof -
    have "skip_ws raw \<noteq> []" using v(1) that by auto
    then obtain c cs where c: "skip_ws raw = c # cs" by (cases "skip_ws raw") auto
    have "c = quote \<and> u = json_unquote cs"
      using v(1) that c by (auto split: if_splits list.splits option.splits prod.splits)
    moreover have "marks (c # cs) \<le> marks raw" using marks_skip_ws [of raw] c by simp
    ultimately show ?thesis using marks_unquote [of cs] by simp
  qed
  then show ?thesis using v(2) by (cases v) auto
qed

lemma js_marks:
  "js_string s = Some (t, rest) \<Longrightarrow> marks rest \<le> marks s"
  "js_value fuel depth s = Some (t, rest) \<Longrightarrow> marks rest \<le> marks s"
  using js_string_scan [of s t rest] js_scan(1) [of fuel depth s t rest] by auto

lemma marks_members: "(k, raw) \<in> set (object_members fuel s) \<Longrightarrow> marks raw < marks s"
proof (induction fuel arbitrary: s)
  case (Suc fuel)
  obtain cs where c: "skip_ws s = quote # cs" using Suc.prems by (cases "skip_ws s") (auto split: if_splits)
  obtain t1 r1 where r1: "js_string cs = Some (t1, r1)" using Suc.prems c by (cases "js_string cs") auto
  define val where "val = skip_ws (drop 1 (skip_ws r1))"
  obtain t2 r2 where r2: "js_value (2 * length val + 2) 10000 val = Some (t2, r2)"
    using Suc.prems c r1 by (cases "js_value (2 * length val + 2) 10000 val") (auto simp: val_def)
  have "marks cs < marks s" using marks_skip_ws [of s] c by simp
  moreover have "marks val \<le> marks cs"
    using marks_skip_ws [of "drop 1 (skip_ws r1)"] marks_drop [of 1 "skip_ws r1"] marks_skip_ws [of r1] js_marks(1) [OF r1]
    by (simp add: val_def)
  ultimately have val: "marks val < marks s" by simp
  have "(k, raw) \<in> set ((json_unquote cs, take (length val - length r2) val) #
                   (case skip_ws r2 of
                      e # es \<Rightarrow> if e = CHR '','' then object_members fuel es else []
                    | [] \<Rightarrow> []))"
    using Suc.prems c r1 r2 by (simp add: val_def Let_def)
  then consider (this) "raw = take (length val - length r2) val"
    | (later) e es where "skip_ws r2 = e # es" "(k, raw) \<in> set (object_members fuel es)"
    by (cases "skip_ws r2") (auto split: if_splits)
  then show ?case
  proof cases
    case this
    then show ?thesis using val marks_take [of "length val - length r2" val] by simp
  next
    case later
    then have "marks raw < marks es" by (rule_tac Suc.IH)
    moreover have "marks es \<le> marks r2" using marks_skip_ws [of r2] later(1) by (auto split: if_splits)
    ultimately show ?thesis using js_marks(2) [OF r2] val by simp
  qed
qed simp

lemma marks_raw_map:
  assumes "unmarshal_raw_map s = Some m" "(k, raw) \<in> set m"
  shows "marks raw < marks s"
proof -
  have sub: "set (fold (\<lambda>(k, v). AList.update k v) kvs al) \<subseteq> set kvs \<union> set al" for kvs al :: "(string \<times> string) list"
  proof (induction kvs arbitrary: al)
    case (Cons kv kvs)
    then show ?case using set_alist_update [of "fst kv" "snd kv" al] by (cases kv) (simp, blast)
  qed simp
  obtain cs where c: "skip_ws s = CHR ''{'' # cs" "m = fold (\<lambda>(k, v). AList.update k v) (object_members (length cs) cs) []"
    using assms by (auto simp: unmarshal_raw_map_def split: list.splits if_splits)
  then have "(k, raw) \<in> set (object_members (length cs) cs)" using sub [of "object_members (length cs) cs" "[]"] assms(2) by auto
  then have "marks raw < marks cs" by (rule marks_members)
  then show ?thesis using marks_skip_ws [of s] c(1) by (auto simp: quote_def backslash_def)
qed

section \<open>Enough fuel\<close>

lemma first_nested_cong:
  assumes "\<And>k raw t. (k, raw) \<in> set wrapper \<Longrightarrow> unmarshal dec_string raw [] = Some t \<Longrightarrow> f t = g t"
  shows "first_nested f wrapper keys = first_nested g wrapper keys"
proof (induction keys)
  case (Cons key keys)
  show ?case
  proof (cases "map_of wrapper key")
    case (Some raw)
    show ?thesis
    proof (cases "unmarshal dec_string raw []")
      case None
      then show ?thesis using Some Cons.IH by (simp split: option.split)
    next
      case t: (Some t)
      have "f t = g t" using assms Some t by (blast dest: map_of_SomeD)
      then show ?thesis using Some t Cons.IH by (simp split: option.split sum.split)
    qed
  qed (simp add: Cons.IH)
qed simp

lemma parse_fuel: "marks s < m \<Longrightarrow> marks s < n \<Longrightarrow> parse_command_output m s = parse_command_output n s"
proof (induction "marks s" arbitrary: s m n rule: less_induct)
  case less
  obtain m' n' where mn: "m = Suc m'" "n = Suc n'" using less.prems by (cases m; cases n) auto
  note trim = marks_trim [of s]
  have "first_nested (parse_command_output m') w keys = first_nested (parse_command_output n') w keys"
    if w: "unmarshal_raw_map (trim_space s) = Some w" for w keys
  proof (rule first_nested_cong)
    fix k raw t
    assume kr: "(k, raw) \<in> set w" "unmarshal dec_string raw [] = Some t"
    then have "marks t < marks (trim_space s)" using marks_raw_map [OF w kr(1)] marks_string_value [OF kr(2)] by simp
    then show "parse_command_output m' t = parse_command_output n' t"
      using less mn trim by (intro less.hyps) auto
  qed
  then show ?case unfolding mn by (simp add: Let_def del: first_nested.simps cong: option.case_cong)
qed

lemma parse_recursion:
  "parseCommandRecognitionOutput answer =
     (let clean = trim_space answer in
      if clean = [] then Inl AiEmptyOutput
      else
        let nested =
          (case unmarshal_raw_map clean of
             None \<Rightarrow> Inl (AiParse [])
           | Some wrapper \<Rightarrow>
               first_nested parseCommandRecognitionOutput wrapper [''result'', ''data'', ''output'', ''response''])
        in case unmarshal dec_result clean no_result of
             Some direct \<Rightarrow> if looksLikeResult direct then Inr direct else nested
           | None \<Rightarrow> nested)"
proof -
  have "first_nested (parse_command_output (marks answer)) w keys = first_nested parseCommandRecognitionOutput w keys"
    if w: "unmarshal_raw_map (trim_space answer) = Some w" for w keys
    unfolding parseCommandRecognitionOutput_def [abs_def]
  proof (rule first_nested_cong)
    fix k raw t
    assume kr: "(k, raw) \<in> set w" "unmarshal dec_string raw [] = Some t"
    note trim = marks_trim [of answer]
    have "marks t < marks (trim_space answer)" using marks_raw_map [OF w kr(1)] marks_string_value [OF kr(2)] by simp
    then show "parse_command_output (marks answer) t = parse_command_output (Suc (marks t)) t"
      using trim by (intro parse_fuel) auto
  qed
  then show ?thesis unfolding parseCommandRecognitionOutput_def [of answer] by (simp add: Let_def del: first_nested.simps cong: option.case_cong)
qed

end
