(* ===== verification/AI_Props.thy ===== *)
theory AI_Props
  imports AI_Text SS_Service
begin

text \<open>
  What the recognition of pictures promises: results in normal form whatever the model answers, an object
  found in prose, prose marked for review, a recursion that ends, and a suggestion for the channel that is
  the result.
\<close>

section \<open>The adapter\<close>

definition channel_result :: "ai_result \<Rightarrow> channel_recognition_result" where
  "channel_result r = \<lparr>rr_scene_type = ai_scene_type r, rr_area_type = ai_area_type r, rr_area_number = ai_area_number r,
     rr_card_text = ai_card_text r, rr_decision_source = ai_decision_source r, rr_confidence = ai_confidence r,
     rr_needs_review = ai_needs_review r, rr_raw_notes = ai_raw_notes r, rr_provider = ai_provider r,
     rr_raw_result = ai_raw_result r\<rparr>"

text \<open>The texts of the errors are a parameter; the service only records them.\<close>

definition ChannelAIAdapter :: "(ai_error \<Rightarrow> ss_error) \<Rightarrow> (string \<Rightarrow> ai_error + ai_result) \<Rightarrow> SS_Service.recognizer" where
  "ChannelAIAdapter error_of recognize imageURL =
     (case recognize imageURL of Inl e \<Rightarrow> Inl (error_of e) | Inr r \<Rightarrow> Inr (channel_result r))"

section \<open>Normal form\<close>

definition normal_result :: "ai_result \<Rightarrow> bool" where
  "normal_result r \<longleftrightarrow>
     ai_area_type r \<in> insert [] (set area_types) \<and> ai_scene_type r \<in> set scene_types \<and>
     (ai_area_type r = [] \<or> ai_scene_type r = ai_area_type r) \<and>
     ai_decision_source r \<in> {''number_card'', ''scene'', ''none''} \<and>
     ai_confidence r \<in> {''high'', ''medium'', ''low''} \<and>
     (ai_confidence r \<noteq> ''low'' \<or> ai_needs_review r) \<and>
     trim_space (ai_area_number r) = ai_area_number r \<and> trim_space (ai_card_text r) = ai_card_text r \<and>
     trim_space (ai_raw_notes r) = ai_raw_notes r \<and> json_valid (ai_raw_result r)"

lemma one_of_cases: "one_of allowed other v \<in> set allowed \<or> one_of allowed other v = other"
  by (simp add: one_of_def Let_def)

lemma area_is_scene: "set area_types \<subseteq> set scene_types"
  by (simp add: area_types_def scene_types_def)

lemma ai_normalize_normal: "json_valid (ai_raw_result r) \<Longrightarrow> normal_result (ai_normalize r)"
  using one_of_cases [of area_types "[]" "ai_area_type r"] one_of_cases [of scene_types "''unknown''" "ai_scene_type r"]
    one_of_cases [of "[''high'', ''medium'', ''low'']" "''medium''" "ai_confidence r"]
    one_of_cases [of "[''number_card'', ''scene'', ''none'']" "''none''" "ai_decision_source r"] area_is_scene
  by (auto simp: normal_result_def ai_normalize_def Let_def ai_normalizeAreaType_def ai_normalizeSceneType_def
      normalizeDecisionSource_def normalizeConfidence_def scene_types_def)

lemma unmarshal_valid: "unmarshal dec s old = Some x \<Longrightarrow> json_valid s"
  by (auto simp: unmarshal_def json_tree_def json_valid_def split: option.splits if_splits)

lemma raw_map_valid: "unmarshal_raw_map s = Some m \<Longrightarrow> json_valid s"
  by (auto simp: unmarshal_raw_map_def json_valid_def split: if_splits)

lemma command_output_valid: "parse_command_output n s = Inr r \<Longrightarrow> json_valid (trim_space s)"
  by (cases n) (auto simp: Let_def simp del: first_nested.simps dest: unmarshal_valid raw_map_valid split: if_splits option.splits)

lemma result_of_text_normal: "result_of_text t body p = Inr r \<Longrightarrow> json_valid body \<Longrightarrow> normal_result r"
  by (auto simp: result_of_text_def intro!: ai_normalize_normal split: option.splits)

lemma ai_exchange_normal:
  assumes "ai_exchange answer get p = Inr r" "\<And>body t. get body = Some t \<Longrightarrow> json_valid body"
  shows "normal_result r"
  using assms by (auto simp: ai_exchange_def Let_def intro: result_of_text_normal split: ai_answer.splits option.splits if_splits)

lemma ai_Recognize_normal: "ai_Recognize e rec url = Inr r \<Longrightarrow> normal_result r"
proof (cases rec)
  case (OpenAI x)
  then show "ai_Recognize e rec url = Inr r \<Longrightarrow> normal_result r"
    by (auto simp: ai_Recognize_def openai_Recognize_def Let_def split: if_splits
        elim!: ai_exchange_normal dest: unmarshal_valid)
next
  case (MiniMax x)
  then show "ai_Recognize e rec url = Inr r \<Longrightarrow> normal_result r"
    by (auto simp: ai_Recognize_def minimax_Recognize_def Let_def split: if_splits
        elim!: ai_exchange_normal dest: unmarshal_valid)
next
  case (ExternalCommand x)
  then show "ai_Recognize e rec url = Inr r \<Longrightarrow> normal_result r"
    by (auto simp: ai_Recognize_def command_Recognize_def Let_def bind_sum_eq_Inr parseCommandRecognitionOutput_def
        intro!: ai_normalize_normal dest: command_output_valid split: if_splits ai_exit.splits option.splits prod.splits
        simp del: parse_command_output.simps)
qed

lemma dynamic_Recognize_normal: "dynamic_Recognize e reader url = Inr r \<Longrightarrow> normal_result r"
  by (auto simp: dynamic_Recognize_def intro: ai_Recognize_normal split: sum.splits option.splits)

section \<open>The suggestion for a channel\<close>

lemma json_members_Some: "(\<forall>m \<in> set ms. json_of (snd m) \<noteq> None) \<Longrightarrow> json_members ms \<noteq> None"
  by (induction ms rule: json_members.induct) (auto split: option.split)

lemma json_marshal_Some: "(\<forall>m \<in> set ms. json_of (snd m) \<noteq> None) \<Longrightarrow> json_marshal_map ms \<noteq> None"
  using json_members_Some [of "sort_key fst ms"] by (simp add: json_marshal_map_def)

lemma area_kept: "a \<in> insert [] (set area_types) \<Longrightarrow> normalizeRecognitionAreaType a = a \<and> (a \<noteq> [] \<longrightarrow> validAreaType a)"
proof -
  have "list_all (\<lambda>a. normalizeRecognitionAreaType a = a \<and> (a \<noteq> [] \<longrightarrow> validAreaType a)) ([] # area_types)" by code_simp
  then show "a \<in> insert [] (set area_types) \<Longrightarrow> ?thesis" by (auto simp: list_all_iff)
qed

lemma scene_kept: "s \<in> set scene_types \<Longrightarrow> normalizeRecognitionSceneType s = s \<and> validSceneType s"
proof -
  have "list_all (\<lambda>s. normalizeRecognitionSceneType s = s \<and> validSceneType s) scene_types" by code_simp
  then show "s \<in> set scene_types \<Longrightarrow> ?thesis" by (auto simp: list_all_iff)
qed

lemma normal_suggestion:
  assumes r: "normal_result r"
  shows "si_area_type (applyChannelRecognition snapshot (channel_result r) a b c) = ai_area_type r"
    and "si_scene_type (applyChannelRecognition snapshot (channel_result r) a b c) = ai_scene_type r"
    and "json_marshal_map (recognition_payload (channel_result r) (ai_scene_type r) (ai_area_type r) a b c) =
      Some (si_recognition_result (applyChannelRecognition snapshot (channel_result r) a b c))"
proof -
  have area: "normalizeRecognitionAreaType (ai_area_type r) = ai_area_type r"
    and scene: "normalizeRecognitionSceneType (ai_scene_type r) = ai_scene_type r"
    and same: "ai_area_type r \<noteq> [] \<Longrightarrow> ai_scene_type r = ai_area_type r"
    using r area_kept scene_kept by (auto simp: normal_result_def)
  then show "si_area_type (applyChannelRecognition snapshot (channel_result r) a b c) = ai_area_type r"
    "si_scene_type (applyChannelRecognition snapshot (channel_result r) a b c) = ai_scene_type r"
    by (simp_all add: applyChannelRecognition_def channel_result_def Let_def)
  have "json_marshal_map (recognition_payload (channel_result r) (ai_scene_type r) (ai_area_type r) a b c) \<noteq> None"
    using r by (intro json_marshal_Some) (auto simp: recognition_payload_def channel_result_def normal_result_def json_valid_def)
  then show "json_marshal_map (recognition_payload (channel_result r) (ai_scene_type r) (ai_area_type r) a b c) =
      Some (si_recognition_result (applyChannelRecognition snapshot (channel_result r) a b c))"
    using area scene same
    by (auto simp: applyChannelRecognition_def channel_result_def Let_def marshal_or_def)
qed

section \<open>A run\<close>

definition demo_output :: string where
  "demo_output = ''{'' @ json_string ''area_type'' @ '':'' @ json_string ''Beauty'' @ ''}''"

definition demo_recognition_env :: ai_env where
  "demo_recognition_env = \<lparr>ai_getenv = (\<lambda>name. if name = ''CHANNEL_AI_COMMAND'' then ''see'' else []),
     ai_post = (\<lambda>_. AiNoAnswer), ai_run = (\<lambda>_. AiExit None demo_output)\<rparr>"

definition demo_result :: ai_result where
  "demo_result = no_result\<lparr>ai_scene_type := ''beauty'', ai_area_type := ''beauty'', ai_decision_source := ''none'',
     ai_confidence := ''medium'', ai_raw_result := demo_output, ai_provider := ''external-command''\<rparr>"

lemma demo_recognized: "dynamic_Recognize demo_recognition_env (Some (\<lambda>_. Inr ''Command'')) ''http://h/p.jpg'' = Inr demo_result"
proof -
  have parsed: "parseCommandRecognitionOutput (trim_space demo_output) = Inr (no_result\<lparr>ai_area_type := ''Beauty''\<rparr>)"
    by code_simp
  have trimmed: "trim_space demo_output = demo_output" by code_simp
  have provider: "to_lower (trim_space ''Command'') = ''command''" by code_simp
  have url: "trim_space ''http://h/p.jpg'' = ''http://h/p.jpg''" by code_simp
  have see: "trim_space ''see'' = ''see''" by code_simp
  have norm: "ai_normalize (no_result\<lparr>ai_area_type := ''Beauty'', ai_raw_result := demo_output, ai_provider := ''external-command''\<rparr>) = demo_result"
    by code_simp
  show ?thesis using norm
    by (simp add: dynamic_Recognize_def NewRecognizerForProvider_def provider NewCommandRecognizerFromEnv_def command_of_env_def
        env_of_def demo_recognition_env_def see Let_def ai_Recognize_def command_Recognize_def url parsed [unfolded trimmed] trimmed commandProviderName_def or_else_def
        split: prod.split)
qed

section \<open>What is promised\<close>

text \<open>
  C13. Whatever the provider answers, a result is in normal form: the area and the scene are of the known ones, a
  known area is the scene too, low confidence asks for a review; and the suggestion saved for the channel
  names this area and this scene, with the whole of the result in its record, the model's answer included.
\<close>

theorem recognized_suggestion:
  assumes "dynamic_Recognize e reader imageURL = Inr r"
  shows "normal_result r \<and>
    (let suggestion = applyChannelRecognition snapshot (channel_result r) captureMS recognitionMS totalMS
     in si_area_type suggestion = ai_area_type r \<and> si_scene_type suggestion = ai_scene_type r \<and>
        (si_area_type suggestion = [] \<or> validAreaType (si_area_type suggestion)) \<and> validSceneType (si_scene_type suggestion) \<and>
        json_marshal_map (recognition_payload (channel_result r) (ai_scene_type r) (ai_area_type r)
            captureMS recognitionMS totalMS) = Some (si_recognition_result suggestion))"
proof -
  have r: "normal_result r" using assms by (rule dynamic_Recognize_normal)
  then have "ai_area_type r \<in> insert [] (set area_types)" "ai_scene_type r \<in> set scene_types"
    by (simp_all add: normal_result_def)
  then show ?thesis using r area_kept scene_kept normal_suggestion [OF r] by (auto simp: Let_def)
qed

theorem recognized_suggestion_witness: "normal_result demo_result \<and> ai_area_type demo_result = ''beauty''"
  using recognized_suggestion [OF demo_recognized] by (simp add: demo_result_def Let_def)

text \<open>
  C15. Reading the output of a command ends, with no bound in sight: it satisfies the equation of the code, in which
  a text inside the JSON is read in turn, and more fuel than the quotes and backslashes of the output
  changes nothing.
\<close>

theorem command_output_recursion:
  "parseCommandRecognitionOutput answer =
     (let clean = trim_space answer in
      if clean = [] then Inl AiEmptyOutput
      else
        let nested =
          (case unmarshal_raw_map clean of
             None \<Rightarrow> Inl (AiParse [])
           | Some wrapper \<Rightarrow>
               first_nested parseCommandRecognitionOutput wrapper [''result'', ''data'', ''output'', ''response''])
        in case unmarshal dec_result clean no_result of
             Some direct \<Rightarrow> if looksLikeResult direct then Inr direct else nested
           | None \<Rightarrow> nested) \<and>
   parse_command_output (Suc (marks answer) + extra) answer = parseCommandRecognitionOutput answer"
proof
  show "parse_command_output (Suc (marks answer) + extra) answer = parseCommandRecognitionOutput answer"
    unfolding parseCommandRecognitionOutput_def by (rule parse_fuel) auto
qed (rule parse_recursion)

text \<open>
  C14. A JSON object that a model wraps in prose is found exactly: if no brace opens before it and the whole is not
  JSON in itself or in a fence, the text read is the object, whatever is in it and after it, and the result
  is the one of the object alone.
\<close>

theorem object_in_prose:
  assumes "trim_space v = p @ obj @ q" "CHR ''{'' \<notin> set p"
    and "obj = CHR ''{'' # b @ [CHR ''}'']" "json_valid obj"
    and "p @ q = [] \<or> \<not> json_valid (trim_space v)" "\<not> has_prefix (trim_space v) fence"
    and "unmarshal dec_result obj no_result = Some r"
  shows "extractModelJSONText v = obj \<and>
    result_of_text v body provider = Inr (ai_normalize (r\<lparr>ai_raw_result := body, ai_provider := provider\<rparr>))"
proof -
  have t: "extractJSONText v = trim_space v" using assms(6) by (simp add: extractJSONText_def Let_def)
  have "extractModelJSONText v = obj"
  proof (cases "json_valid (trim_space v)")
    case True
    then show ?thesis using assms(1,5) by (simp add: extractModelJSONText_def t)
  next
    case False
    have "firstJSONObject (trim_space v) = Some obj"
      using first_object_found [OF assms(2-4), of q] by (simp add: firstJSONObject_def assms(1) [symmetric])
    then show ?thesis using False by (simp add: extractModelJSONText_def t)
  qed
  then show ?thesis using assms(7) by (simp add: result_of_text_def)
qed

theorem object_in_prose_witness: "extractModelJSONText ''So: {} {1}'' = ''{}''"
proof -
  let ?v = "''So: {} {1}''"
  have t: "trim_space ?v = ''So: '' @ ''{}'' @ '' {1}''" by code_simp
  have v: "json_valid ''{}''" and w: "\<not> json_valid (trim_space ?v)" and f: "\<not> has_prefix (trim_space ?v) fence"
    by code_simp+
  have u: "unmarshal dec_result ''{}'' no_result = Some no_result" by code_simp
  show ?thesis
    by (rule conjunct1 [OF object_in_prose [where b = "[]", OF t _ _ v _ f u]]) (use w in simp_all)
qed

lemma strip_keeps:
  assumes "\<not> space1 c" "\<And>d. \<not> s2 c d \<and> \<not> s2 d c" "\<And>d e. \<not> s3 c d e \<and> \<not> s3 d c e \<and> \<not> s3 d e c"
  shows "\<exists>zs. strip s2 s3 (l @ c # p) = zs @ c # p"
proof (induction l rule: length_induct)
  case (1 l)
  show ?case
  proof (cases "space_width s2 s3 (l @ c # p) = 0")
    case False
    have "space_width s2 s3 (l @ c # p) \<le> length l"
      using assms by (cases "(s2, s3, l @ c # p)" rule: space_width.cases; cases l; cases "tl l"; cases "tl (tl l)") (auto simp: Cons_eq_append_conv)
    then have d: "drop (space_width s2 s3 (l @ c # p)) (l @ c # p) = drop (space_width s2 s3 (l @ c # p)) l @ c # p" by simp
    have "length (drop (space_width s2 s3 (l @ c # p)) l) < length l"
      using False \<open>space_width s2 s3 (l @ c # p) \<le> length l\<close> by simp
    then show ?thesis using 1 False by (subst strip.simps) (simp only: if_False d)
  qed (auto simp: strip_fixed)
qed

lemma trim_fence: "has_prefix (trim_space (fence @ lang)) fence"
proof -
  have hard: "\<not> space1 (CHR 0x60)" "\<And>d. \<not> space2 (CHR 0x60) d \<and> \<not> space2 d (CHR 0x60)"
    "\<And>d e. \<not> space3 (CHR 0x60) d e \<and> \<not> space3 d (CHR 0x60) e \<and> \<not> space3 d e (CHR 0x60)"
    by (simp_all add: space1_def space2_def space3_def byte_def)
  have f: "fence @ lang = CHR 0x60 # CHR 0x60 # CHR 0x60 # lang" by (simp add: fence_def)
  have "trim_left (fence @ lang) = fence @ lang"
    unfolding f trim_left_def by (rule strip_fixed) (simp add: hard)
  moreover obtain zs where "strip (\<lambda>d c. space2 c d) (\<lambda>e d c. space3 c d e) (rev lang @ CHR 0x60 # [CHR 0x60, CHR 0x60]) =
      zs @ CHR 0x60 # [CHR 0x60, CHR 0x60]"
    using strip_keeps [of "CHR 0x60" "\<lambda>d c. space2 c d" "\<lambda>e d c. space3 c d e" "rev lang" "[CHR 0x60, CHR 0x60]"] hard by blast
  ultimately have "trim_space (fence @ lang) = fence @ rev zs"
    by (simp add: trim_space_def trim_right_def fence_def)
  then show ?thesis by (simp add: has_prefix_iff)
qed

text \<open>
  A text in a fence is read without the fence, its language and the blanks around it, also when lines in it
  open fences of their own.
\<close>

theorem fenced_text_read:
  assumes "trim_space v = fence @ lang @ [newline] @ inner @ [newline] @ fence" "newline \<notin> set lang" "json_valid (trim_space inner)"
  shows "extractModelJSONText v = trim_space inner"
proof -
  have nl: "newline \<notin> set (fence @ lang)" "newline \<notin> set fence" using assms(2) by (auto simp: fence_def newline_def)
  let ?ls = "(fence @ lang) # split_on newline inner @ [fence]"
  have "split_on newline ((fence @ lang) @ [newline] @ inner @ [newline] @ fence) = ?ls"
    unfolding split_on_append using nl by (simp add: split_on_no_sep)
  then have ls: "split_on newline (trim_space v) = ?ls" using assms(1) by simp
  have pre: "has_prefix (trim_space v) fence" using assms(1) by (simp add: has_prefix_iff)
  have last: "last_fence ?ls = length ?ls - 1" using trim_fence [of "[]"]
    by (simp add: last_fence_def nth_append)
  have "extractJSONText v = trim_space (join [newline] (split_on newline inner))"
    using pre ls last trim_fence [of lang] by (simp add: extractJSONText_def Let_def)
  then show ?thesis using assms(3) by (simp add: extractModelJSONText_def join_split)
qed

text \<open>
  C26. An answer that is no JSON is taken for prose, and then never trusted: the result names no business area, has
  low confidence and asks for a review, and carries the answer of the model and the provider.
\<close>

theorem prose_is_reviewed:
  assumes "unmarshal dec_result (extractModelJSONText t) no_result = None"
    and "result_of_text t body provider = Inr r"
  shows "ai_confidence r = ''low'' \<and> ai_needs_review r \<and> ai_area_type r = [] \<and> ai_scene_type r \<in> set scene_types \<and>
    ai_area_number r \<noteq> [] \<and> ai_decision_source r = ''scene'' \<and> ai_raw_result r = body \<and> ai_provider r = provider"
proof -
  obtain markers scene area where f: "(markers, scene, area) \<in> set fallbacks"
    and r: "r = ai_normalize (fallback_result scene area\<lparr>ai_raw_result := body, ai_provider := provider\<rparr>)"
  proof -
    let ?found = "find (\<lambda>(markers, _). ai_containsAny (to_lower (trim_space t)) markers) fallbacks"
    obtain x where x: "?found = Some x"
      using assms by (cases ?found) (auto simp: result_of_text_def fallbackModelTextResult_def Let_def split: if_splits)
    from x obtain i where "i < length fallbacks" "x = fallbacks ! i" by (auto simp: find_Some_iff)
    then have "x \<in> set fallbacks" by simp
    moreover have "r = ai_normalize (fallback_result (fst (snd x)) (snd (snd x))\<lparr>ai_raw_result := body, ai_provider := provider\<rparr>)"
      using assms x by (cases x) (auto simp: result_of_text_def fallbackModelTextResult_def Let_def split: if_splits)
    ultimately show thesis using that [of "fst x" "fst (snd x)" "snd (snd x)"] by simp
  qed
  have "list_all (\<lambda>(_, scene, area). scene \<in> set scene_types \<and> to_lower (trim_space scene) = scene \<and>
      trim_space area \<noteq> []) fallbacks" by code_simp
  then have "scene \<in> set scene_types" "to_lower (trim_space scene) = scene" "trim_space area \<noteq> []"
    using f by (auto simp: list_all_iff)
  moreover have "ai_normalizeAreaType [] = []" "normalizeDecisionSource ''scene'' = ''scene''"
    "normalizeConfidence ''low'' = ''low''" by code_simp+
  ultimately show ?thesis
    by (simp add: r ai_normalize_def fallback_result_def no_result_def Let_def ai_normalizeSceneType_def one_of_def)
qed

theorem prose_is_reviewed_witness: "\<exists>r. result_of_text (utf8 [0x5F31, 0x7535, 0x5BA4]) [] ''openai'' = Inr r \<and> ai_needs_review r"
proof -
  have none: "unmarshal dec_result (extractModelJSONText (utf8 [0x5F31, 0x7535, 0x5BA4])) no_result = None" by code_simp
  obtain r where r: "result_of_text (utf8 [0x5F31, 0x7535, 0x5BA4]) [] ''openai'' = Inr r"
  proof -
    have "is_ok (result_of_text (utf8 [0x5F31, 0x7535, 0x5BA4]) [] ''openai'')" by code_simp
    then show thesis using that by (cases "result_of_text (utf8 [0x5F31, 0x7535, 0x5BA4]) [] ''openai''") auto
  qed
  show ?thesis using prose_is_reviewed [OF none r] r by blast
qed

end
