(* ===== verification/Spec2Isabelle.thy ===== *)
theory Spec2Isabelle
  imports SS_Service_Props App_Auth_Props App_Settings_Props NVR_Backfill_Props DPL_Props EZ_Props H5_Props RV_List_Props NM_Props AI_Props
begin

text \<open>
  Verification development of the store space back end, a Go server under \<open>src/internal\<close>.

  \<^bold>\<open>The program.\<close>  The server keeps the stores of a chain of clinics: their areas, the video recorders in
  them and the channels (cameras) of every recorder.  It scans recorders through the Ezviz cloud platform,
  proposes an area for a channel by image recognition, lets editors confirm the proposals, and lets users
  watch live and recorded video of the stores they were granted.  A second path shows cameras that are known
  to the business database and streamed by an industrial PC.  Requests pass a gate that checks the login
  session or a single sign-on token; edits of users and views of cameras are written to an audit log.

  \<^bold>\<open>How the model is built.\<close>  A Go struct is a record, an enumeration a datatype (or the string it is), a map
  an association list where its order or its iteration matters and a function otherwise.  Go strings are
  byte strings (\<open>string\<close> with all characters below 256), text is written with \<open>utf8\<close>, and the case folding of
  \<open>strings\<close> works on the tables of \<open>GoUnicode\<close>.  An \<open>int\<close> is an HOL integer; where the code can leave the
  64-bit range the operation is wrapped with \<open>wrap64\<close>; the RTP depacketizer works on words.  A function that
  returns \<open>(value, error)\<close> is a sum (\<open>Inl\<close> the error), a panic and a loop that does not end are \<open>None\<close>, and a
  method of a shared object takes its state and returns the new one.  A mutex makes an operation one step;
  interleavings are lists of such steps.  Databases, HTTP servers, clocks, random bytes, cryptographic hashes
  and external programs are arguments of the definitions that use them, and a property assumes only what it names.

  \<^bold>\<open>Theories.\<close>
  \<^item> \<open>Prelude\<close>: collections of rules, sums, association lists, 64-bit integers.  \<open>GoStrings\<close>, \<open>GoUnicode\<close>, \<open>GoSort\<close>,
    \<open>GoTime\<close>, \<open>GoDate\<close>, \<open>GoJson\<close>, \<open>GoJsonDecode\<close>, \<open>GoJsonTree\<close>, \<open>GoMime\<close>, \<open>GoRegex\<close>, \<open>GoUrl\<close>, \<open>GoCrypto\<close>: what the
    program uses of Go's standard library.
  \<^item> \<open>SS_Models\<close>, \<open>SS_Validation\<close>, \<open>SS_Store\<close>, \<open>SS_Channels\<close>, \<open>SS_Service\<close>, \<open>SS_Scanner\<close> (package \<open>storespace\<close>:
    \<open>models.go\<close>, \<open>validation.go\<close>, \<open>duplicate.go\<close>, \<open>store.go\<close>, \<open>service.go\<close>, \<open>snapshots.go\<close>, \<open>ezviz_scanner.go\<close>).
    The state is \<open>mem_store\<close>, the fields of \<open>MemoryStore\<close>; there is one definition per method, named as in the code.
    \<open>SS_Inv\<close> and \<open>SS_Props\<close> prove the invariant of every reachable store and what a rescan means;
    \<open>SS_Directory\<close> proves, for every sequence of service requests, that the store implements a directory in
    which names, device codes and accounts are used once (the locale of the repository is interpreted on
    \<open>MemoryStore\<close>); \<open>SS_Service_Props\<close> has confirmation and recognition.  A
    request is one step in \<open>SS_Directory\<close>; \<open>recognition_begin\<close> splits the one that waits for the network before its
    last write, so that other requests may come in between.
  \<^item> \<open>App_Audit\<close>, \<open>App_Store\<close>, \<open>App_Session\<close>, \<open>App_Auth\<close> (package \<open>app\<close>: \<open>audit_logs.go\<close>, \<open>memory_store.go\<close>,
    \<open>auth_users.go\<close>, \<open>auth_session.go\<close>, \<open>auth.go\<close>, \<open>authz.go\<close>, \<open>monitor_mode.go\<close>) with \<open>App_Store_Props\<close>, \<open>App_Users_Props\<close>,
    \<open>App_Settings_Props\<close>, \<open>App_Auth_Props\<close>: grants, revisions, the log and its pages, lifetimes of sessions, the gate.
  \<^item> \<open>NVR_Depacketizer\<close>, \<open>NVR_Capture\<close>, \<open>NVR_Backfill\<close> (package \<open>nvrsnapshot\<close>) with their \<open>_Props\<close>: the
    depacketizer refines a function of the packet history, the capture decodes only what was sent, the
    backfill stops at the third circuit failure in a row.
  \<^item> \<open>DPL_Validation\<close>, \<open>DPL_Names\<close>, \<open>DPL_Store\<close>, \<open>DPL_Props\<close> (package \<open>designplan\<close>): validation, the edit distance of
    names against its recursive definition, the directory of design plans.
  \<^item> \<open>EZ_Client\<close>, \<open>EZ_Records\<close>, \<open>EZ_Props\<close> (package \<open>ezviz\<close>): the client of the platform as a function of what the
    network answers.  \<open>page_run\<close> is the run of pages a query goes through; the locale \<open>redaction\<close> carries, call by
    call, that the messages of the platform are passed on only redacted.
  \<^item> \<open>H5_Service\<close>, \<open>H5_Handler\<close>, \<open>H5_Props\<close> (package \<open>h5monitor\<close>): the monitor pages and the slots of streams.
  \<^item> \<open>RV_Cities\<close>, \<open>RV_Service\<close>, \<open>RV_List\<close>, \<open>RV_Props\<close>, \<open>RV_List_Props\<close> (package \<open>resourceview\<close>): the view of a store
    from the business database, the listing and the handlers; that paths end exactly on well-founded parents, that
    the tree is complete, that counts and issues agree, that the order of the rows does not matter.
  \<^item> \<open>AS_Store\<close>, \<open>AS_Props\<close> (package \<open>assets\<close>: \<open>store.go\<close>, \<open>local.go\<close>): keys and the local store over a disk in which each
    system call may fail.
  \<^item> \<open>NM_Service\<close>, \<open>NM_Handler\<close>, \<open>NM_Props\<close> (package \<open>nvrmonitor\<close>): cameras, stream sessions, and the refresh of snapshots.
    The locale \<open>object_store\<close> states what a refresh needs of the object store, whichever of its calls fail, and
    \<open>working_store\<close> what a store adds in which none does; both are interpreted on the local store, the second
    on disks without faults, and what a refresh leaves is proved in them and used at that store.
  \<^item> \<open>AI_Recognizer\<close>, \<open>AI_Text\<close>, \<open>AI_Props\<close> (package \<open>channelai\<close> and \<open>channelai_adapter.go\<close>): the requests to the three
    recognisers and the reading of what they answer.  \<open>AI_Text\<close> proves on the grammar of \<open>GoJson\<close> that the scan for a
    closing brace finds an object exactly, and that a text inside JSON is smaller than the JSON; \<open>AI_Props\<close> that
    results are normal, that prose is never trusted, and that the suggestion of \<open>SS_Service\<close> is the result.

  \<^bold>\<open>Bounds and fuel.\<close>  A query for recordings reads at most 20 pages, as in the code; \<open>record_pages\<close> recurses on
  the pages left.  JSON is decoded with the depth limit 10000 of \<open>encoding/json\<close>.  The tree of spaces is built
  with the number of spaces plus one as fuel: a recursion that ends visits no id twice on a path, so it is never
  deeper (\<open>build_nodes_total\<close>).  The output of a command is read with its number of quotes and backslashes plus one
  as fuel, which a text inside the JSON always has fewer of (\<open>parse_fuel\<close>).  The path of a space is a partial function, as its loop may run for ever.

  \<^bold>\<open>Not modelled.\<close>  SQL text and what a MySQL server does with it (\<open>mysql_*.go\<close>, apart from code that works on the rows
  it returned); HTTP routing, cookies and the encoding of replies; the pages that only show data
  (\<open>ops_handler.go\<close>); Excel export; the recognisers of \<open>designplan\<close>; the RPC clients of \<open>digitaltwin\<close>, whose messages are generated code; object stores
  over HTTP; command line tools under \<open>cmd\<close>; the front end.
\<close>

end
